(* ===== verification/Prelude.thy ===== *)
theory Prelude
  imports
    Complex_Main
    "HOL-Library.List_Lexorder"
    "HOL-Library.Char_ord"
    "HOL-Library.Sublist"
begin

text \<open>
  Generic material shared by every component: fallible results as sums
  (\<open>Inl\<close> an exception class, \<open>Inr\<close> a value) with sequencing, transactions as
  state functions whose exceptional exit keeps the dirty state, keyed tables as
  row lists, and the small facts about lists and rationals the components share.
\<close>

named_theorems res_simps \<open>inversion of successful fallible computations\<close>
named_theorems tbl_simps \<open>lookup, insertion and update of keyed row lists\<close>

subsection \<open>Fallible results\<close>

definition rbind :: "'e + 'a \<Rightarrow> ('a \<Rightarrow> 'e + 'b) \<Rightarrow> 'e + 'b" where
  "rbind r f = (case r of Inl e \<Rightarrow> Inl e | Inr x \<Rightarrow> f x)"

lemma rbind_Inl [simp]: "rbind (Inl e) f = Inl e"
  and rbind_Inr [simp]: "rbind (Inr x) f = f x"
  by (simp_all add: rbind_def)

lemma rbind_eq_Inr [res_simps]: "rbind r f = Inr y \<longleftrightarrow> (\<exists>x. r = Inr x \<and> f x = Inr y)"
  by (cases r) auto

lemma rbind_eq_Inl: "rbind r f = Inl e \<longleftrightarrow> r = Inl e \<or> (\<exists>x. r = Inr x \<and> f x = Inl e)"
  by (cases r) auto

text \<open>\<open>require b e\<close> is the guard \<open>if not b: raise e\<close>.\<close>

definition require :: "bool \<Rightarrow> 'e \<Rightarrow> 'e + unit" where
  "require b e = (if b then Inr () else Inl e)"

lemma require_eq_Inr [res_simps]: "require b e = Inr u \<longleftrightarrow> b"
  by (simp add: require_def)

lemma require_True [simp]: "require True e = Inr ()"
  and require_False [simp]: "require False e = Inl e"
  by (simp_all add: require_def)

lemma require_eq_Inl [simp]: "require b e = Inl e' \<longleftrightarrow> \<not> b \<and> e' = e"
  by (auto simp: require_def)

text \<open>A loop that collects the results of a fallible body, stopping at the first error.\<close>

fun traverse :: "('a \<Rightarrow> 'e + 'b) \<Rightarrow> 'a list \<Rightarrow> 'e + 'b list" where
  "traverse f [] = Inr []"
| "traverse f (x # xs) = rbind (f x) (\<lambda>y. rbind (traverse f xs) (\<lambda>ys. Inr (y # ys)))"

lemma traverse_eq_Inr: "traverse f xs = Inr ys \<longleftrightarrow> list_all2 (\<lambda>x y. f x = Inr y) xs ys"
  by (induction xs arbitrary: ys) (auto simp: res_simps list_all2_Cons1)

text \<open>A loop over a fallible body that only checks.\<close>

fun check_all :: "('a \<Rightarrow> 'e + unit) \<Rightarrow> 'a list \<Rightarrow> 'e + unit" where
  "check_all f [] = Inr ()"
| "check_all f (x # xs) = rbind (f x) (\<lambda>_. check_all f xs)"

lemma check_all_eq_Inr [res_simps]: "check_all f xs = Inr u \<longleftrightarrow> (\<forall>x \<in> set xs. f x = Inr ())"
  by (induction xs) (auto simp: res_simps)

text \<open>A loop that threads an accumulator through a fallible body.\<close>

fun rfold :: "('s \<Rightarrow> 'a \<Rightarrow> 'e + 's) \<Rightarrow> 's \<Rightarrow> 'a list \<Rightarrow> 'e + 's" where
  "rfold f s [] = Inr s"
| "rfold f s (x # xs) = rbind (f s x) (\<lambda>s'. rfold f s' xs)"

lemma rfold_append: "rfold f s (xs @ ys) = rbind (rfold f s xs) (\<lambda>s'. rfold f s' ys)"
proof (induction xs arbitrary: s)
  case (Cons x xs)
  then show ?case by (cases "f s x") auto
qed simp

lemma rfold_invariant:
  assumes "rfold f s xs = Inr s'" and "I s"
    and "\<And>s x t. f s x = Inr t \<Longrightarrow> x \<in> set xs \<Longrightarrow> I s \<Longrightarrow> I t"
  shows "I s'"
  using assms by (induction xs arbitrary: s) (auto simp: res_simps)

subsection \<open>State functions with exceptions\<close>

text \<open>
  A body that runs inside a database transaction: on an exception it still yields the
  state its earlier statements have written, and it is the transaction bracket that
  discards it.
\<close>

type_synonym ('s, 'e, 'a) body = "'s \<Rightarrow> ('e + 'a) \<times> 's"

definition sret :: "'a \<Rightarrow> ('s, 'e, 'a) body" where
  "sret x = (\<lambda>s. (Inr x, s))"

definition sraise :: "'e \<Rightarrow> ('s, 'e, 'a) body" where
  "sraise e = (\<lambda>s. (Inl e, s))"

definition sbind :: "('s, 'e, 'a) body \<Rightarrow> ('a \<Rightarrow> ('s, 'e, 'b) body) \<Rightarrow> ('s, 'e, 'b) body" where
  "sbind m f = (\<lambda>s. case m s of (Inl e, s') \<Rightarrow> (Inl e, s') | (Inr x, s') \<Rightarrow> f x s')"

definition sguard :: "bool \<Rightarrow> 'e \<Rightarrow> ('s, 'e, unit) body" where
  "sguard b e = (if b then sret () else sraise e)"

definition sget :: "('s \<Rightarrow> 'a) \<Rightarrow> ('s, 'e, 'a) body" where
  "sget f = (\<lambda>s. (Inr (f s), s))"

definition sput :: "('s \<Rightarrow> 's) \<Rightarrow> ('s, 'e, unit) body" where
  "sput f = (\<lambda>s. (Inr (), f s))"

definition slift :: "'e + 'a \<Rightarrow> ('s, 'e, 'a) body" where
  "slift r = (\<lambda>s. (r, s))"

definition swrite :: "('s \<Rightarrow> 'e + 's) \<Rightarrow> ('s, 'e, unit) body" where
  "swrite f = (\<lambda>s. case f s of Inl e \<Rightarrow> (Inl e, s) | Inr s' \<Rightarrow> (Inr (), s'))"

lemma sbind_eq_Inr [res_simps]:
  "sbind m f s = (Inr y, s'') \<longleftrightarrow> (\<exists>x s'. m s = (Inr x, s') \<and> f x s' = (Inr y, s''))"
  by (auto simp: sbind_def split: prod.splits sum.splits)

lemma sret_eq [res_simps]: "sret x s = (r, s') \<longleftrightarrow> r = Inr x \<and> s' = s"
  and sraise_eq [res_simps]: "sraise e s = (r, s') \<longleftrightarrow> r = Inl e \<and> s' = s"
  and sget_eq [res_simps]: "sget f s = (q, s') \<longleftrightarrow> q = Inr (f s) \<and> s' = s"
  and sput_eq [res_simps]: "sput g s = (u, s') \<longleftrightarrow> u = Inr () \<and> s' = g s"
  and slift_eq [res_simps]: "slift v s = (w, s') \<longleftrightarrow> v = w \<and> s' = s"
  by (auto simp: sret_def sraise_def sget_def sput_def slift_def)

lemma sguard_eq_Inr [res_simps]: "sguard b e s = (Inr u, s') \<longleftrightarrow> b \<and> s' = s"
  by (auto simp: sguard_def sret_def sraise_def)

lemma swrite_eq_Inr [res_simps]: "swrite f s = (Inr u, s') \<longleftrightarrow> f s = Inr s'"
  by (auto simp: swrite_def split: sum.splits)

fun sfor :: "('a \<Rightarrow> ('s, 'e, unit) body) \<Rightarrow> 'a list \<Rightarrow> ('s, 'e, unit) body" where
  "sfor f [] = sret ()"
| "sfor f (x # xs) = sbind (f x) (\<lambda>_. sfor f xs)"

lemma sbind_run:
  "sbind m f s = (case m s of (Inl e, s') \<Rightarrow> (Inl e, s') | (Inr x, s') \<Rightarrow> f x s')"
  by (simp add: sbind_def)

lemma case_option_run:
  "(case v of None \<Rightarrow> m | Some x \<Rightarrow> g x) s = (w, s') \<longleftrightarrow>
     (v = None \<and> m s = (w, s')) \<or> (\<exists>x. v = Some x \<and> g x s = (w, s'))"
  by (cases v) simp_all

lemmas body_defs = sret_def sraise_def sguard_def sget_def sput_def slift_def swrite_def

lemma sfor_invariant:
  assumes "sfor f xs s = (Inr u, s')" and "I s"
    and "\<And>x s v t. x \<in> set xs \<Longrightarrow> f x s = (Inr v, t) \<Longrightarrow> I s \<Longrightarrow> I t"
  shows "I s'"
  using assms by (induction xs arbitrary: s) (auto simp: res_simps)

end
