(* ===== verification/Errors.thy ===== *)
theory Errors
  imports Prelude
begin

text \<open>
  The exception taxonomy of \<open>qntyspot/errors.py\<close>, without the classes that only the
  operational tooling and the chain adapters raise: one constructor per class, with the
  class each one derives from. The exceptions of the Python runtime and of the SQLite
  engine that the modelled code can let through follow; message texts are not modelled.
\<close>

datatype error =
    QntySpotError
  | CanonicalFormError
  | PolicyError
  | PolicyMissingError
  | PolicyParseError
  | PolicySchemaError
  | IdentityError
  | StateTransitionError
  | LedgerError
  | DuplicateEconomicActionError
  | BudgetExceededError
  | ReplayDivergenceError
  | SchemaVersionError
  | SafeHaltError
  | LevelNotExecutableError
  | CycleLimitError
  | ExecutionContractError
  | AuthorityCeilingError
  | AuthorityVerificationError
  | SessionIdentityError
  | EnvelopeValidationError
  | ApprovalContractError
  | ChainTruthError
  | PyValueError
  | PyKeyError
  | PyTypeError
  | PyAttributeError
  | PyOverflowError
  | PyKeyboardInterrupt
  | SqliteUnique
  | SqliteForeignKey
  | SqliteCheck
  | SqliteAbort
  | SqliteOperational

text \<open>The base class of each class; \<open>None\<close> for those deriving from the interpreter's own.\<close>

primrec base_class :: "error \<Rightarrow> error option" where
  "base_class QntySpotError = None"
| "base_class CanonicalFormError = Some QntySpotError"
| "base_class PolicyError = Some QntySpotError"
| "base_class PolicyMissingError = Some PolicyError"
| "base_class PolicyParseError = Some PolicyError"
| "base_class PolicySchemaError = Some PolicyError"
| "base_class IdentityError = Some QntySpotError"
| "base_class StateTransitionError = Some QntySpotError"
| "base_class LedgerError = Some QntySpotError"
| "base_class DuplicateEconomicActionError = Some LedgerError"
| "base_class BudgetExceededError = Some LedgerError"
| "base_class ReplayDivergenceError = Some LedgerError"
| "base_class SchemaVersionError = Some LedgerError"
| "base_class SafeHaltError = Some QntySpotError"
| "base_class LevelNotExecutableError = Some QntySpotError"
| "base_class CycleLimitError = Some QntySpotError"
| "base_class ExecutionContractError = Some QntySpotError"
| "base_class AuthorityCeilingError = Some ExecutionContractError"
| "base_class AuthorityVerificationError = Some ExecutionContractError"
| "base_class SessionIdentityError = Some ExecutionContractError"
| "base_class EnvelopeValidationError = Some ExecutionContractError"
| "base_class ApprovalContractError = Some ExecutionContractError"
| "base_class ChainTruthError = Some ExecutionContractError"
| "base_class PyValueError = None"
| "base_class PyKeyError = None"
| "base_class PyTypeError = None"
| "base_class PyAttributeError = None"
| "base_class PyOverflowError = None"
| "base_class PyKeyboardInterrupt = None"
| "base_class SqliteUnique = None"
| "base_class SqliteForeignKey = None"
| "base_class SqliteCheck = None"
| "base_class SqliteAbort = None"
| "base_class SqliteOperational = None"

text \<open>Height in the class hierarchy, the measure of the walk to the base class.\<close>

primrec height :: "error \<Rightarrow> nat" where
  "height QntySpotError = 0"
| "height CanonicalFormError = 1"
| "height PolicyError = 1"
| "height PolicyMissingError = 2"
| "height PolicyParseError = 2"
| "height PolicySchemaError = 2"
| "height IdentityError = 1"
| "height StateTransitionError = 1"
| "height LedgerError = 1"
| "height DuplicateEconomicActionError = 2"
| "height BudgetExceededError = 2"
| "height ReplayDivergenceError = 2"
| "height SchemaVersionError = 2"
| "height SafeHaltError = 1"
| "height LevelNotExecutableError = 1"
| "height CycleLimitError = 1"
| "height ExecutionContractError = 1"
| "height AuthorityCeilingError = 2"
| "height AuthorityVerificationError = 2"
| "height SessionIdentityError = 2"
| "height EnvelopeValidationError = 2"
| "height ApprovalContractError = 2"
| "height ChainTruthError = 2"
| "height PyValueError = 0"
| "height PyKeyError = 0"
| "height PyTypeError = 0"
| "height PyAttributeError = 0"
| "height PyOverflowError = 0"
| "height PyKeyboardInterrupt = 0"
| "height SqliteUnique = 0"
| "height SqliteForeignKey = 0"
| "height SqliteCheck = 0"
| "height SqliteAbort = 0"
| "height SqliteOperational = 0"

lemma base_class_height: "base_class e = Some c \<Longrightarrow> height c < height e"
  by (cases e) auto

text \<open>\<open>isinstance(e, c)\<close>, by walking up the hierarchy: what \<open>except c\<close> catches.\<close>

function is_instance :: "error \<Rightarrow> error \<Rightarrow> bool" where
  "is_instance e c \<longleftrightarrow> e = c \<or> (case base_class e of None \<Rightarrow> False | Some p \<Rightarrow> is_instance p c)"
  by pat_completeness auto
termination
  by (relation "measure (\<lambda>(e, c). height e)") (auto simp: base_class_height)

declare is_instance.simps [simp del]

lemma is_instance_refl [simp]: "is_instance e e"
  by (subst is_instance.simps) simp

lemma is_instance_base: "base_class e = Some p \<Longrightarrow> is_instance p c \<Longrightarrow> is_instance e c"
  by (subst is_instance.simps) simp

text \<open>The classes of \<open>errors.py\<close>, as opposed to those of the interpreter and of SQLite.\<close>

definition declared_class :: "error \<Rightarrow> bool" where
  "declared_class e \<longleftrightarrow> e = QntySpotError \<or> base_class e \<noteq> None"

lemma declared_is_QntySpotError:
  "is_instance e QntySpotError \<longleftrightarrow> declared_class e"
  by (cases e) (simp_all add: is_instance.simps declared_class_def)

end
