(* ===== verification/Text.thy ===== *)
theory Text
  imports Errors
begin

text \<open>
  What the code uses of Python's text and integers: decimal digit strings with
  \<open>int\<close> and \<open>str\<close>, \<open>rstrip\<close>, \<open>rjust\<close>, and the meaning of \<open>$\<close> in a pattern given to
  \<open>re.match\<close>, which also matches just before one trailing newline. A Python string is
  a \<open>string\<close> of characters with code points below 256.
\<close>

subsection \<open>Digits\<close>

definition is_digit :: "char \<Rightarrow> bool" where
  "is_digit c \<longleftrightarrow> 48 \<le> (of_char c :: nat) \<and> (of_char c :: nat) \<le> 57"

definition digit_val :: "char \<Rightarrow> nat" where
  "digit_val c = of_char c - 48"

definition digit_char :: "nat \<Rightarrow> char" where
  "digit_char n = char_of (48 + n)"

lemma digit_val_char [simp]: "n < 10 \<Longrightarrow> digit_val (digit_char n) = n"
  by (simp add: digit_val_def digit_char_def)

lemma is_digit_char [simp]: "n < 10 \<Longrightarrow> is_digit (digit_char n)"
  by (simp add: is_digit_def digit_char_def)

lemma digit_char_val [simp]: "is_digit c \<Longrightarrow> digit_char (digit_val c) = c"
  by (simp add: is_digit_def digit_val_def digit_char_def)

lemma digit_val_less [simp]: "is_digit c \<Longrightarrow> digit_val c < 10"
  unfolding is_digit_def digit_val_def by arith

lemma digit_val_inj: "is_digit a \<Longrightarrow> is_digit b \<Longrightarrow> digit_val a = digit_val b \<longleftrightarrow> a = b"
  by (metis digit_char_val)

lemma digit_val_0_iff: "is_digit c \<Longrightarrow> digit_val c = 0 \<longleftrightarrow> c = CHR ''0''"
  using digit_val_inj [of c "CHR ''0''"] by (simp add: is_digit_def digit_val_def)

lemma not_digit [simp]: "\<not> is_digit (CHR ''.'')" "\<not> is_digit (CHR 0x0A)" "\<not> is_digit (CHR ''-'')"
  by (simp_all add: is_digit_def)

lemma is_digit_0 [simp]: "is_digit (CHR ''0'')"
  by (simp add: is_digit_def)

definition all_digits :: "string \<Rightarrow> bool" where
  "all_digits s \<longleftrightarrow> list_all is_digit s"

lemma all_digits_simps [simp]:
  "all_digits []" "all_digits (c # s) \<longleftrightarrow> is_digit c \<and> all_digits s"
  "all_digits (s @ t) \<longleftrightarrow> all_digits s \<and> all_digits t"
  "all_digits (replicate n (CHR ''0''))"
  by (auto simp: all_digits_def list_all_iff)

lemma all_digits_mem: "all_digits s \<Longrightarrow> c \<in> set s \<Longrightarrow> is_digit c"
  by (auto simp: all_digits_def list_all_iff)

subsection \<open>The integer a digit string denotes\<close>

fun digits_val :: "string \<Rightarrow> nat" where
  "digits_val [] = 0"
| "digits_val (c # s) = digit_val c * 10 ^ length s + digits_val s"

lemma digits_val_append [simp]:
  "digits_val (s @ t) = digits_val s * 10 ^ length t + digits_val t"
  by (induction s) (simp_all add: power_add algebra_simps)

lemma digits_val_less: "all_digits s \<Longrightarrow> digits_val s < 10 ^ length s"
proof (induction s)
  case (Cons c s)
  then have "digit_val c < 10" and "digits_val s < 10 ^ length s"
    by simp_all
  then have "digit_val c * 10 ^ length s + digits_val s < 9 * 10 ^ length s + 10 ^ length s"
    by (intro add_le_less_mono mult_right_mono) auto
  then show ?case by simp
qed simp

lemma digits_val_replicate [simp]: "digits_val (replicate n (CHR ''0'')) = 0"
  by (induction n) (simp_all add: digit_val_def)

text \<open>Two digit strings of one length denote different integers unless they are equal.\<close>

lemma digits_val_inj:
  "length s = length t \<Longrightarrow> all_digits s \<Longrightarrow> all_digits t \<Longrightarrow> digits_val s = digits_val t \<Longrightarrow> s = t"
proof (induction s t rule: list_induct2)
  case (Cons a s b t)
  let ?p = "(10::nat) ^ length s"
  have lt: "digits_val s < ?p" "digits_val t < ?p"
    using Cons.prems Cons.hyps digits_val_less [of s] digits_val_less [of t] by simp_all
  have eq: "digit_val a * ?p + digits_val s = digit_val b * ?p + digits_val t"
    using Cons.prems Cons.hyps by simp
  have hi: "(digit_val a * ?p + digits_val s) div ?p = digit_val a"
    "(digit_val b * ?p + digits_val t) div ?p = digit_val b"
    using lt by simp_all
  have "digit_val a = digit_val b"
    using hi eq by metis
  moreover from this have "digits_val s = digits_val t"
    using eq by simp
  ultimately show ?case
    using Cons by (simp add: digit_val_inj)
qed simp

subsection \<open>The digit string of an integer\<close>

fun nat_str :: "nat \<Rightarrow> string" where
  "nat_str n = (if n < 10 then [digit_char n] else nat_str (n div 10) @ [digit_char (n mod 10)])"

declare nat_str.simps [simp del]

definition str_int :: "int \<Rightarrow> string" where
  "str_int n = (if n < 0 then CHR ''-'' # nat_str (nat (- n)) else nat_str (nat n))"

lemma all_digits_nat_str [simp]: "all_digits (nat_str n)"
proof (induction n rule: nat_str.induct)
  case (1 n)
  then show ?case by (subst nat_str.simps) simp
qed

lemma digits_val_nat_str [simp]: "digits_val (nat_str n) = n"
proof (induction n rule: nat_str.induct)
  case (1 n)
  then show ?case by (subst nat_str.simps) simp
qed

lemma nat_str_nonempty [simp]: "nat_str n \<noteq> []"
  by (subst nat_str.simps) simp

text \<open>A canonical digit string has no leading zero, except for zero itself.\<close>

definition canon_digits :: "string \<Rightarrow> bool" where
  "canon_digits s \<longleftrightarrow> s = ''0'' \<or> (s \<noteq> [] \<and> all_digits s \<and> hd s \<noteq> CHR ''0'')"

lemma hd_nat_str: "n \<noteq> 0 \<Longrightarrow> hd (nat_str n) \<noteq> CHR ''0''"
proof (induction n rule: nat_str.induct)
  case (1 n)
  show ?case
  proof (cases "n < 10")
    case True
    have "digit_val (digit_char n) \<noteq> 0" using True "1.prems" by simp
    then have "digit_char n \<noteq> CHR ''0''" by (auto simp: digit_val_def)
    with True show ?thesis by (subst nat_str.simps) simp
  next
    case False
    with 1 have "hd (nat_str (n div 10)) \<noteq> CHR ''0''" by simp
    with False show ?thesis by (subst nat_str.simps) simp
  qed
qed

lemma nat_str_0 [simp]: "nat_str 0 = ''0''"
  using digit_char_val [of "CHR ''0''"] by (subst nat_str.simps) (simp add: digit_val_def)

lemma canon_digits_nat_str [simp]: "canon_digits (nat_str n)"
  by (cases "n = 0") (simp_all add: canon_digits_def hd_nat_str)

lemma canon_digits_all [simp]: "canon_digits s \<Longrightarrow> all_digits s"
  by (auto simp: canon_digits_def)

lemma nonzero_digits_ge:
  assumes "s \<noteq> []" "all_digits s" "hd s \<noteq> CHR ''0''"
  shows "10 ^ (length s - 1) \<le> digits_val s"
proof -
  obtain c t where s: "s = c # t" using assms by (cases s) auto
  with assms have "digit_val c \<noteq> 0" by (simp add: digit_val_0_iff)
  then have "1 * 10 ^ length t \<le> digit_val c * 10 ^ length t"
    by (intro mult_right_mono) simp_all
  with s show ?thesis by (simp add: trans_le_add1)
qed

lemma canon_digits_inj:
  assumes "canon_digits s" "canon_digits t" "digits_val s = digits_val t"
  shows "s = t"
proof -
  have len: "length a \<le> length b"
    if "canon_digits a" "canon_digits b" "digits_val a = digits_val b" for a b
  proof (cases "a = ''0''")
    case True
    with that(2) show ?thesis by (cases b) (auto simp: canon_digits_def)
  next
    case False
    with that have "10 ^ (length a - 1) \<le> digits_val b"
      using nonzero_digits_ge [of a] by (simp add: canon_digits_def)
    also have "\<dots> < 10 ^ length b"
      using that by (intro digits_val_less) simp
    finally show ?thesis by simp
  qed
  from len [OF assms] len [OF assms(2,1)] assms(3) have "length s = length t" by simp
  with assms show ?thesis by (intro digits_val_inj) simp_all
qed

lemma nat_str_digits_val: "canon_digits s \<Longrightarrow> nat_str (digits_val s) = s"
  by (rule canon_digits_inj) simp_all

subsection \<open>Stripping and justifying\<close>

definition newline :: char where
  "newline = CHR 0x0A"

definition rstrip_char :: "char \<Rightarrow> string \<Rightarrow> string" where
  "rstrip_char c s = rev (dropWhile (\<lambda>x. x = c) (rev s))"

definition rjust :: "string \<Rightarrow> nat \<Rightarrow> char \<Rightarrow> string" where
  "rjust s w c = replicate (w - length s) c @ s"

text \<open>
  \<open>int(s)\<close> on the texts the code gives it: digits, possibly with the one trailing newline
  that the patterns below let through (\<open>int\<close> ignores surrounding white space).
\<close>

definition py_int :: "string \<Rightarrow> int" where
  "py_int s = int (digits_val (if s \<noteq> [] \<and> last s = newline then butlast s else s))"

text \<open>
  \<open>re.match\<close> of a pattern \<open>^...$\<close>: the body matches the whole text, or all of it but one
  trailing newline.
\<close>

definition matches_line :: "(string \<Rightarrow> bool) \<Rightarrow> string \<Rightarrow> bool" where
  "matches_line body s \<longleftrightarrow> body s \<or> (s \<noteq> [] \<and> last s = newline \<and> body (butlast s))"

lemma matches_line_plain: "newline \<notin> set s \<Longrightarrow> matches_line body s = body s"
  by (metis last_in_set matches_line_def)

lemma py_int_plain: "newline \<notin> set s \<Longrightarrow> py_int s = int (digits_val s)"
  by (metis last_in_set py_int_def)

lemma all_digits_no_newline: "all_digits s \<Longrightarrow> newline \<notin> set s"
  using all_digits_mem [of s newline] by (auto simp: newline_def)

lemma py_int_digits [simp]: "all_digits s \<Longrightarrow> py_int s = int (digits_val s)"
  by (simp add: py_int_plain all_digits_no_newline)

lemma str_int_digits: "0 \<le> n \<Longrightarrow> all_digits (str_int n)"
  by (simp add: str_int_def)

lemma py_int_str_int [simp]: "0 \<le> n \<Longrightarrow> py_int (str_int n) = n"
  by (simp add: str_int_def)

lemma str_int_inj [simp]: "str_int m = str_int n \<longleftrightarrow> m = n"
proof
  assume eq: "str_int m = str_int n"
  have neg: "str_int k = CHR ''-'' # nat_str (nat (- k))" if "k < 0" for k
    using that by (simp add: str_int_def)
  have pos: "CHR ''-'' \<notin> set (str_int k)" if "0 \<le> k" for k
    using that str_int_digits [of k] all_digits_mem [of "str_int k" "CHR ''-''"]
    by (auto simp: is_digit_def)
  consider "0 \<le> m" "0 \<le> n" | "m < 0" "n < 0" | "0 \<le> m" "n < 0" | "m < 0" "0 \<le> n" by linarith
  then show "m = n"
  proof cases
    case 1
    then show ?thesis using eq by (metis py_int_str_int)
  next
    case 2
    then have "nat_str (nat (- m)) = nat_str (nat (- n))" using eq by (simp add: neg)
    then have "nat (- m) = nat (- n)" by (metis digits_val_nat_str)
    with 2 show ?thesis by simp
  next
    case 3
    then show ?thesis using eq pos [of m] by (simp add: neg)
  next
    case 4
    then show ?thesis using eq pos [of n] by (metis list.set_intros(1) neg)
  qed
qed simp

end
