(* ===== verification/Canon.thy ===== *)
theory Canon
  imports Text
begin

text \<open>
  The numeric half of \<open>qntyspot/canon.py\<close>: the single canonical spelling of a
  non-negative decimal, its parser and its printer over exact fractions, and the exact
  conversion to and from atomic units. A \<open>Fraction\<close> is a \<open>rat\<close>, its numerator and
  denominator those of \<open>quotient_of\<close>.
\<close>

definition MAX_INT_DIGITS :: nat where
  "MAX_INT_DIGITS = 30"

definition MAX_FRAC_DIGITS :: nat where
  "MAX_FRAC_DIGITS = 30"

definition dot :: char where
  "dot = CHR ''.''"

text \<open>The body of \<open>CANONICAL_DECIMAL_RE\<close>: its integer part and its optional fraction.\<close>

definition int_part_ok :: "string \<Rightarrow> bool" where
  "int_part_ok s \<longleftrightarrow> canon_digits s \<and> length s \<le> MAX_INT_DIGITS"

definition frac_part_ok :: "string \<Rightarrow> bool" where
  "frac_part_ok f \<longleftrightarrow> f \<noteq> [] \<and> all_digits f \<and> last f \<noteq> CHR ''0'' \<and> length f \<le> MAX_FRAC_DIGITS"

definition decimal_body :: "string \<Rightarrow> bool" where
  "decimal_body s =
     (let ip = takeWhile (\<lambda>c. c \<noteq> dot) s; rest = dropWhile (\<lambda>c. c \<noteq> dot) s
      in int_part_ok ip \<and> (rest = [] \<or> frac_part_ok (tl rest)))"

definition CANONICAL_DECIMAL_RE :: "string \<Rightarrow> bool" where
  "CANONICAL_DECIMAL_RE = matches_line decimal_body"

definition parse_decimal_text :: "string \<Rightarrow> error + rat" where
  "parse_decimal_text text =
     (if \<not> CANONICAL_DECIMAL_RE text then Inl CanonicalFormError
      else if dot \<in> set text then
        (let int_part = takeWhile (\<lambda>c. c \<noteq> dot) text;
             frac_part = tl (dropWhile (\<lambda>c. c \<noteq> dot) text)
         in Inr (of_int (py_int (int_part @ frac_part)) / 10 ^ length frac_part))
      else Inr (of_int (py_int text)))"

text \<open>\<open>while d % p == 0: d //= p; k += 1\<close>: the power of \<open>p\<close> in \<open>d\<close> and what is left.\<close>

fun strip_factor :: "nat \<Rightarrow> nat \<Rightarrow> nat \<times> nat" where
  "strip_factor p d =
     (if 1 < p \<and> 0 < d \<and> d mod p = 0
      then (let (k, r) = strip_factor p (d div p) in (Suc k, r)) else (0, d))"

declare strip_factor.simps [simp del]

definition format_canonical_decimal :: "rat \<Rightarrow> error + string" where
  "format_canonical_decimal v =
     (if v < 0 then Inl CanonicalFormError
      else
        let (num, den) = quotient_of v;
            (twos, d1) = strip_factor 2 (nat den);
            (fives, d2) = strip_factor 5 d1
        in if d2 \<noteq> 1 then Inl CanonicalFormError
           else
             let scale = max twos fives
             in if scale > MAX_FRAC_DIGITS then Inl CanonicalFormError
                else
                  let scaled = num * 10 ^ scale div den;
                      text = rjust (str_int scaled) (scale + 1) (CHR ''0'');
                      out = (if scale = 0 then text
                             else rstrip_char dot (rstrip_char (CHR ''0'')
                               (take (length text - scale) text @ dot # drop (length text - scale) text)))
                  in if \<not> CANONICAL_DECIMAL_RE out then Inl CanonicalFormError else Inr out)"

text \<open>An amount that is not a whole number of atomic units is refused, not rounded.\<close>

definition to_atomic :: "rat \<Rightarrow> int \<Rightarrow> error + int" where
  "to_atomic v decimals =
     (if decimals < 0 then Inl CanonicalFormError
      else let (num, den) = quotient_of (v * 10 ^ nat decimals)
           in if den \<noteq> 1 then Inl CanonicalFormError else Inr num)"

definition from_atomic :: "int \<Rightarrow> int \<Rightarrow> rat" where
  "from_atomic atomic decimals = of_int atomic / 10 ^ nat decimals"

subsection \<open>The shape of a canonical decimal\<close>

lemma split_no_dot:
  assumes "dot \<notin> set ip"
  shows "takeWhile (\<lambda>c. c \<noteq> dot) ip = ip" "dropWhile (\<lambda>c. c \<noteq> dot) ip = []"
    "takeWhile (\<lambda>c. c \<noteq> dot) (ip @ dot # f) = ip"
    "dropWhile (\<lambda>c. c \<noteq> dot) (ip @ dot # f) = dot # f"
  using assms by (induction ip) auto

lemma decimal_body_iff:
  "decimal_body s \<longleftrightarrow>
     int_part_ok s \<or> (\<exists>ip f. int_part_ok ip \<and> frac_part_ok f \<and> s = ip @ dot # f)"
proof -
  have nodot: "dot \<notin> set ip" if "int_part_ok ip" for ip
    using that all_digits_mem [of ip dot] by (auto simp: int_part_ok_def dot_def)
  show ?thesis
  proof
    assume body: "decimal_body s"
    let ?ip = "takeWhile (\<lambda>c. c \<noteq> dot) s" and ?r = "dropWhile (\<lambda>c. c \<noteq> dot) s"
    show "int_part_ok s \<or> (\<exists>ip f. int_part_ok ip \<and> frac_part_ok f \<and> s = ip @ dot # f)"
    proof (cases "?r = []")
      case True
      then have "?ip = s" by (metis append_Nil2 takeWhile_dropWhile_id)
      with body show ?thesis by (simp add: decimal_body_def Let_def)
    next
      case False
      then have "hd ?r = dot" using hd_dropWhile [OF False] by simp
      with False have "s = ?ip @ dot # tl ?r"
        by (metis list.collapse takeWhile_dropWhile_id)
      with False body show ?thesis by (auto simp: decimal_body_def Let_def)
    qed
  next
    assume "int_part_ok s \<or> (\<exists>ip f. int_part_ok ip \<and> frac_part_ok f \<and> s = ip @ dot # f)"
    then show "decimal_body s"
    proof (elim disjE exE conjE)
      assume "int_part_ok s"
      with nodot [of s] show ?thesis by (simp add: decimal_body_def split_no_dot)
    next
      fix ip f assume "int_part_ok ip" "frac_part_ok f" "s = ip @ dot # f"
      with nodot [of ip] show ?thesis by (auto simp: decimal_body_def split_no_dot)
    qed
  qed
qed

lemma int_part_facts:
  assumes "int_part_ok ip"
  shows "all_digits ip" "ip \<noteq> []" "dot \<notin> set ip" "newline \<notin> set ip"
  using assms all_digits_mem [of ip dot] all_digits_no_newline [of ip]
  by (auto simp: int_part_ok_def dot_def canon_digits_def)

lemma frac_part_facts:
  assumes "frac_part_ok f"
  shows "all_digits f" "f \<noteq> []" "dot \<notin> set f" "newline \<notin> set f"
  using assms all_digits_mem [of f dot] all_digits_no_newline [of f]
  by (auto simp: frac_part_ok_def dot_def)

lemma decimal_body_no_newline: "decimal_body s \<Longrightarrow> newline \<notin> set s"
  by (auto simp: decimal_body_iff newline_def dot_def
      dest: int_part_facts(4) [unfolded newline_def] frac_part_facts(4) [unfolded newline_def])

lemma parse_plain_int: "int_part_ok s \<Longrightarrow> parse_decimal_text s = Inr (of_nat (digits_val s))"
  by (auto simp: parse_decimal_text_def CANONICAL_DECIMAL_RE_def matches_line_def decimal_body_iff
      int_part_facts)

lemma parse_plain_frac:
  assumes "int_part_ok ip" "frac_part_ok f"
  shows "parse_decimal_text (ip @ dot # f) = Inr (of_nat (digits_val (ip @ f)) / 10 ^ length f)"
proof -
  have "decimal_body (ip @ dot # f)"
    using assms by (auto simp: decimal_body_iff)
  then show ?thesis
    using int_part_facts(1,3) [OF assms(1)] frac_part_facts(1) [OF assms(2)]
    by (simp add: parse_decimal_text_def CANONICAL_DECIMAL_RE_def matches_line_def Let_def
        split_no_dot)
qed

subsection \<open>The scale of a fraction\<close>

lemma strip_factor_spec:
  "strip_factor p d = (k, r) \<Longrightarrow> 1 < p \<Longrightarrow> 0 < d \<Longrightarrow> d = p ^ k * r \<and> \<not> p dvd r \<and> 0 < r"
proof (induction p d arbitrary: k rule: strip_factor.induct)
  case (1 p d)
  show ?case
  proof (cases "d mod p = 0")
    case True
    obtain k' where k': "strip_factor p (d div p) = (k', r)" "k = Suc k'"
      using "1.prems" True by (auto simp: strip_factor.simps [of p d] split: prod.splits)
    have pos: "0 < d div p"
      using True "1.prems" by (simp add: dvd_imp_le div_greater_zero_iff mod_eq_0_iff_dvd)
    have "d div p = p ^ k' * r \<and> \<not> p dvd r \<and> 0 < r"
      using "1.IH" [OF _ k'(1) "1.prems"(2) pos] "1.prems" True by simp
    moreover have "d = p * (d div p)"
      using True by auto
    ultimately show ?thesis
      using k'(2) by (metis mult.assoc power_Suc)
  next
    case False
    then show ?thesis
      using "1.prems" by (auto simp: strip_factor.simps [of p d] mod_eq_0_iff_dvd)
  qed
qed

lemma coprime_2_power: "\<not> 2 dvd (r::nat) \<Longrightarrow> coprime r (2 ^ k)"
  by (simp add: coprime_commute)

lemma coprime_5_power:
  assumes "\<not> 5 dvd (r::nat)" shows "coprime r (5 ^ k)"
proof -
  let ?g = "gcd r 5"
  have "?g dvd 5" by simp
  then have "?g \<le> 5" by (rule dvd_imp_le) simp
  moreover have "?g \<noteq> 5" using assms by (metis gcd_dvd1)
  moreover have "?g \<noteq> 0" by simp
  ultimately have "?g = 1 \<or> ?g = 2 \<or> ?g = 3 \<or> ?g = 4" by linarith
  then have "?g = 1" using \<open>?g dvd 5\<close> by (elim disjE) simp_all
  then have "coprime r 5" by (simp add: coprime_iff_gcd_eq_1)
  then show ?thesis by simp
qed

text \<open>
  The two loops of the printer: what is left is 1 exactly for a denominator that divides a
  power of ten, and the larger exponent is the least such power.
\<close>

lemma scale_spec:
  fixes d :: nat
  assumes "0 < d" "strip_factor 2 d = (a, d1)" "strip_factor 5 d1 = (b, d2)"
  shows "d dvd 10 ^ k \<longleftrightarrow> d2 = 1 \<and> max a b \<le> k"
proof -
  have d: "d = 2 ^ a * d1" "\<not> 2 dvd d1" "0 < d1"
    using strip_factor_spec [OF assms(2)] assms(1) by auto
  have d1: "d1 = 5 ^ b * d2" "\<not> 5 dvd d2"
    using strip_factor_spec [OF assms(3)] d(3) by auto
  have odd: "\<not> 2 dvd d2" using d(2) d1(1) by auto
  have ten: "(10::nat) ^ k = 2 ^ k * 5 ^ k" by (simp flip: power_mult_distrib)
  show ?thesis
  proof
    assume dvd: "d dvd 10 ^ k"
    have "d2 dvd 2 ^ k * 5 ^ k"
      using dvd d(1) d1(1) ten by (metis dvd_mult_right)
    then have "d2 dvd 1"
      using coprime_2_power [OF odd, of k] coprime_5_power [OF d1(2), of k]
      by (metis coprime_dvd_mult_right_iff coprime_common_divisor dvd_refl)
    then have one: "d2 = 1" by simp
    have "2 ^ a dvd (2::nat) ^ k * 5 ^ k"
      using dvd d(1) ten by (metis dvd_mult_left)
    moreover have "coprime ((2::nat) ^ a) (5 ^ k)" by simp
    ultimately have "(2::nat) ^ a dvd 2 ^ k" using coprime_dvd_mult_left_iff by blast
    then have a: "a \<le> k" by (simp add: power_dvd_imp_le)
    have "5 ^ b dvd (2::nat) ^ k * 5 ^ k"
      using dvd d(1) d1(1) ten by (metis dvd_mult_left dvd_mult_right)
    moreover have "coprime ((5::nat) ^ b) (2 ^ k)" by simp
    ultimately have "(5::nat) ^ b dvd 5 ^ k" using coprime_dvd_mult_right_iff by blast
    then have "b \<le> k" by (simp add: power_dvd_imp_le)
    with a one show "d2 = 1 \<and> max a b \<le> k" by simp
  next
    assume "d2 = 1 \<and> max a b \<le> k"
    then have "d = 2 ^ a * 5 ^ b" "a \<le> k" "b \<le> k" using d(1) d1(1) by auto
    then show "d dvd 10 ^ k"
      unfolding ten by (simp add: le_imp_power_dvd mult_dvd_mono)
  qed
qed

lemma quotient_facts:
  assumes "quotient_of v = (num, den)"
  shows "0 < den" "coprime num den" "v = of_int num / of_int den"
  using assms quotient_of_denom_pos [OF assms] quotient_of_coprime [OF assms] quotient_of_div [OF assms]
  by simp_all

text \<open>A power of ten clears the denominator exactly when the denominator divides it.\<close>

lemma integral_scaled:
  assumes "quotient_of v = (num, den)"
  shows "(\<exists>M. v * 10 ^ k = of_int M) \<longleftrightarrow> nat den dvd 10 ^ k"
    and "v * 10 ^ k = of_int M \<Longrightarrow> num * 10 ^ k div den = M"
proof -
  note q = quotient_facts [OF assms]
  have eq: "v * 10 ^ k = of_int M \<longleftrightarrow> num * 10 ^ k = M * den" for M
  proof -
    have "v * 10 ^ k = of_int M \<longleftrightarrow> (of_int num * 10 ^ k :: rat) = of_int M * of_int den"
      using q(1) by (simp add: q(3) field_simps)
    also have "\<dots> \<longleftrightarrow> (of_int (num * 10 ^ k) :: rat) = of_int (M * den)" by simp
    also have "\<dots> \<longleftrightarrow> num * 10 ^ k = M * den" by (simp only: of_int_eq_iff)
    finally show ?thesis .
  qed
  have nat_dvd: "nat den dvd 10 ^ k \<longleftrightarrow> den dvd 10 ^ k"
    using q(1) by (metis int_dvd_int_iff nat_0_le of_nat_numeral of_nat_power order_less_imp_le)
  have "(\<exists>M. num * 10 ^ k = M * den) \<longleftrightarrow> den dvd num * 10 ^ k"
    by (auto simp: dvd_def mult.commute)
  also have "\<dots> \<longleftrightarrow> den dvd 10 ^ k"
    using q(2) by (metis coprime_commute coprime_dvd_mult_right_iff)
  finally show "(\<exists>M. v * 10 ^ k = of_int M) \<longleftrightarrow> nat den dvd 10 ^ k"
    by (simp add: eq nat_dvd)
  show "v * 10 ^ k = of_int M \<Longrightarrow> num * 10 ^ k div den = M"
    using q(1) by (simp add: eq)
qed

subsection \<open>Padding a scaled integer into its two parts\<close>

lemma rjust_split:
  assumes "t = rjust (nat_str M) (k + 1) (CHR ''0'')"
  shows "all_digits t" "digits_val t = M" "k < length t" "canon_digits (take (length t - k) t)"
proof -
  let ?j = "k + 1 - length (nat_str M)"
  have t: "t = replicate ?j (CHR ''0'') @ nat_str M" using assms by (simp add: rjust_def)
  show "all_digits t" "digits_val t = M" "k < length t" by (simp_all add: t)
  show "canon_digits (take (length t - k) t)"
  proof (cases "?j = 0")
    case False
    then have "length t - k = Suc 0" by (simp add: t)
    moreover obtain i where "?j = Suc i" using False by (cases ?j) auto
    then have "t = CHR ''0'' # replicate i (CHR ''0'') @ nat_str M" using t by simp
    ultimately show ?thesis by (simp only: take_Suc_Cons take0) (simp add: canon_digits_def)
  next
    case True
    then have tM: "t = nat_str M" by (simp add: t)
    show ?thesis
    proof (cases "M = 0")
      case True
      with \<open>k < length t\<close> tM show ?thesis by (simp add: canon_digits_def)
    next
      case False
      then have "hd t \<noteq> CHR ''0''" using hd_nat_str tM by simp
      then show ?thesis
        using \<open>k < length t\<close> \<open>all_digits t\<close> set_take_subset [of "length t - k" t]
        by (cases t) (auto simp: canon_digits_def all_digits_def list_all_iff hd_take)
    qed
  qed
qed

lemma digits_split_unique:
  assumes "canon_digits ip" "canon_digits ip'" "all_digits f" "all_digits f'" "length f = length f'"
    and "digits_val (ip @ f) = digits_val (ip' @ f')"
  shows "ip = ip' \<and> f = f'"
proof -
  let ?p = "(10::nat) ^ length f'"
  have lt: "digits_val f < ?p" "digits_val f' < ?p"
    using assms digits_val_less [of f] digits_val_less [of f'] by simp_all
  have eq: "digits_val ip * ?p + digits_val f = digits_val ip' * ?p + digits_val f'"
    using assms(5,6) by simp
  have "digits_val ip = (digits_val ip * ?p + digits_val f) div ?p" using lt by simp
  also have "\<dots> = digits_val ip'" using lt by (simp add: eq)
  finally have "digits_val ip = digits_val ip'" .
  moreover from this have "digits_val f = digits_val f'" using eq by simp
  ultimately show ?thesis
    using assms by (auto intro: canon_digits_inj digits_val_inj)
qed

lemma last_digit:
  assumes "s \<noteq> []" "all_digits s"
  shows "last s = CHR ''0'' \<longleftrightarrow> 10 dvd digits_val s"
proof -
  obtain b c where s: "s = b @ [c]" using assms(1) by (cases s rule: rev_cases) auto
  have "10 dvd digits_val s \<longleftrightarrow> 10 dvd digit_val c"
    by (simp add: s dvd_add_right_iff)
  also have "\<dots> \<longleftrightarrow> digit_val c = 0"
    using digit_val_less [of c] assms s
    by (metis all_digits_simps(2,3) dvd_0_right dvd_eq_mod_eq_0 mod_less)
  finally show ?thesis using assms s by (simp add: digit_val_0_iff)
qed

lemma rstrip_char_last: "s = [] \<or> last s \<noteq> c \<Longrightarrow> rstrip_char c s = s"
  by (cases s rule: rev_cases) (auto simp: rstrip_char_def)

subsection \<open>The printer and the parser are inverse\<close>

lemma print_scaled:
  assumes v: "0 \<le> v" and q: "quotient_of v = (num, den)"
    and st: "strip_factor 2 (nat den) = (a, d1)" "strip_factor 5 d1 = (b, d2)"
    and k: "d2 = 1" "max a b = k" "k \<le> MAX_FRAC_DIGITS"
  shows "\<exists>M ip f. v = of_nat M / 10 ^ k \<and> digits_val (ip @ f) = M \<and> length f = k \<and>
    canon_digits ip \<and> all_digits f \<and> (k = 0 \<or> last f \<noteq> CHR ''0'') \<and>
    format_canonical_decimal v =
       (let out = (if k = 0 then ip else ip @ dot # f)
        in if CANONICAL_DECIMAL_RE out then Inr out else Inl CanonicalFormError)"
proof -
  note den = quotient_facts(1) [OF q]
  have dvd: "nat den dvd 10 ^ j \<longleftrightarrow> k \<le> j" for j
    using scale_spec [OF _ st, of j] den k by simp
  obtain M' where M': "v * 10 ^ k = of_int M'"
    using integral_scaled(1) [OF q, of k] dvd by auto
  have "0 \<le> v * 10 ^ k" using v by simp
  then have pos: "0 \<le> M'" by (simp add: M')
  define M where "M = nat M'"
  have vM: "v * 10 ^ k = of_nat M" using M' pos by (simp add: M_def)
  then have veq: "v = of_nat M / 10 ^ k" by (simp add: field_simps)
  have scaled: "num * 10 ^ k div den = int M"
    using integral_scaled(2) [OF q M'] pos by (simp add: M_def)
  define t where "t = rjust (nat_str M) (k + 1) (CHR ''0'')"
  define ip where "ip = take (length t - k) t"
  define f where "f = drop (length t - k) t"
  note sp = rjust_split [OF t_def]
  have tif: "t = ip @ f" by (simp add: ip_def f_def)
  have lenf: "length f = k" using sp(3) by (simp add: f_def)
  have ipok: "canon_digits ip" using sp(4) by (simp add: ip_def)
  have fdig: "all_digits f" using sp(1) tif by simp
  have ndvd: "\<not> 10 dvd M" if "k \<noteq> 0"
  proof
    assume "10 dvd M"
    then obtain M1 where M1: "M = 10 * M1" unfolding dvd_def by blast
    obtain j where j: "k = Suc j" using \<open>k \<noteq> 0\<close> not0_implies_Suc by blast
    have "v * 10 ^ j = of_int (int M1)" using vM by (simp add: M1 j)
    then have "nat den dvd 10 ^ j" using integral_scaled(1) [OF q, of j] by blast
    then show False using dvd [of j] j by simp
  qed
  have lastf: "last f \<noteq> CHR ''0''" if "k \<noteq> 0"
    using that ndvd last_digit [of t] sp(1,2,3) lenf tif by auto
  have ipt: "ip = t" if "k = 0" using that lenf tif by simp
  have out: "rstrip_char dot (rstrip_char (CHR ''0'') (ip @ dot # f)) = ip @ dot # f" if "k \<noteq> 0"
  proof -
    have ne: "f \<noteq> []" using that lenf by auto
    then have "last f \<noteq> dot" using all_digits_mem [OF fdig last_in_set] by (auto simp: dot_def)
    with ne lastf [OF that] show ?thesis by (subst (1 2) rstrip_char_last) auto
  qed
  have si: "str_int (int M) = nat_str M" by (simp add: str_int_def)
  have tS: "rjust (nat_str M) (Suc k) (CHR ''0'') = t" by (simp add: t_def)
  then have t0: "rjust (nat_str M) (Suc 0) (CHR ''0'') = t" if "k = 0" using that by simp
  have "format_canonical_decimal v =
       (let out = (if k = 0 then ip else ip @ dot # f)
        in if CANONICAL_DECIMAL_RE out then Inr out else Inl CanonicalFormError)"
    using v st k out ipt t0
    by (auto simp: format_canonical_decimal_def q scaled Let_def si tS simp flip: ip_def f_def)
  moreover have "digits_val (ip @ f) = M" using sp(2) tif by simp
  moreover have "k = 0 \<or> last f \<noteq> CHR ''0''" using lastf by blast
  ultimately show ?thesis using veq lenf ipok fdig by blast
qed

lemma split_dot_inj:
  assumes "dot \<notin> set ip" "dot \<notin> set ip'"
    and eq: "(if f = [] then ip else ip @ dot # f) = (if f' = [] then ip' else ip' @ dot # f')"
  shows "ip = ip' \<and> f = f'"
proof -
  have tw: "takeWhile (\<lambda>c. c \<noteq> dot) (if g = [] then i else i @ dot # g) = i" if "dot \<notin> set i" for i g
    using that by (simp add: split_no_dot)
  have "ip = ip'" using tw [OF assms(1), of f] tw [OF assms(2), of f'] eq by simp
  with eq show ?thesis by (auto split: if_splits)
qed

lemma decimal_value:
  assumes "decimal_body s"
  obtains ip f where "s = (if f = [] then ip else ip @ dot # f)" "int_part_ok ip"
    "f = [] \<or> frac_part_ok f" "parse_decimal_text s = Inr (of_nat (digits_val (ip @ f)) / 10 ^ length f)"
  using assms unfolding decimal_body_iff
proof (elim disjE exE conjE)
  assume "int_part_ok s"
  then show thesis by (intro that [of "[]" s]) (simp_all add: parse_plain_int)
next
  fix ip f assume "int_part_ok ip" "frac_part_ok f" "s = ip @ dot # f"
  then show thesis
    by (intro that [of f ip]) (simp_all add: parse_plain_frac frac_part_facts(2))
qed

lemma format_then_parse:
  assumes "format_canonical_decimal v = Inr s"
  shows "decimal_body s \<and> parse_decimal_text s = Inr v"
proof -
  have v: "0 \<le> v" using assms by (auto simp: format_canonical_decimal_def split: if_splits)
  obtain num den where q: "quotient_of v = (num, den)" by fastforce
  obtain a d1 where st1: "strip_factor 2 (nat den) = (a, d1)" by fastforce
  obtain b d2 where st2: "strip_factor 5 d1 = (b, d2)" by fastforce
  have k: "d2 = 1" "max a b \<le> MAX_FRAC_DIGITS"
    using assms by (auto simp: format_canonical_decimal_def q st1 st2 Let_def split: if_splits)
  obtain M ip f where f: "v = of_nat M / 10 ^ max a b" "digits_val (ip @ f) = M"
    "length f = max a b" "canon_digits ip" "all_digits f" "max a b = 0 \<or> last f \<noteq> CHR ''0''"
    "format_canonical_decimal v =
       (let out = (if max a b = 0 then ip else ip @ dot # f)
        in if CANONICAL_DECIMAL_RE out then Inr out else Inl CanonicalFormError)"
    using print_scaled [OF v q st1 st2 k(1) refl k(2)] by blast
  have s: "s = (if f = [] then ip else ip @ dot # f)" "CANONICAL_DECIMAL_RE s"
    using assms f(3,7) by (auto simp: Let_def split: if_splits)
  have "newline \<notin> set s"
    using all_digits_no_newline [of ip] all_digits_no_newline [of f] f(4,5)
    by (auto simp: s(1) dot_def newline_def)
  then have body: "decimal_body s"
    using s(2) by (simp add: CANONICAL_DECIMAL_RE_def matches_line_plain)
  from decimal_value [OF body] obtain ip' f' where
    d: "s = (if f' = [] then ip' else ip' @ dot # f')" "int_part_ok ip'" "f' = [] \<or> frac_part_ok f'"
       "parse_decimal_text s = Inr (of_nat (digits_val (ip' @ f')) / 10 ^ length f')" by blast
  have "dot \<notin> set ip"
    using f(4) all_digits_mem [of ip dot] by (auto simp: dot_def)
  then have "ip' = ip \<and> f' = f"
    using split_dot_inj [OF int_part_facts(3) [OF d(2)]] d(1) s(1) by metis
  then show ?thesis using body d(4) f(1,2,3) by (simp del: digits_val_append)
qed

lemma parse_then_format:
  assumes body: "decimal_body s" and parse: "parse_decimal_text s = Inr v"
  shows "format_canonical_decimal v = Inr s"
proof -
  from decimal_value [OF body] obtain ip f where
    s: "s = (if f = [] then ip else ip @ dot # f)" "int_part_ok ip" "f = [] \<or> frac_part_ok f"
       "parse_decimal_text s = Inr (of_nat (digits_val (ip @ f)) / 10 ^ length f)" by blast
  define M k where "M = digits_val (ip @ f)" and "k = length f"
  have veq: "v = of_nat M / 10 ^ k" using s(4) parse by (simp add: M_def k_def del: digits_val_append)
  then have v: "0 \<le> v" and vM: "v * 10 ^ k = of_int (int M)" by simp_all
  obtain num den where q: "quotient_of v = (num, den)" by fastforce
  obtain a d1 where st1: "strip_factor 2 (nat den) = (a, d1)" by fastforce
  obtain b d2 where st2: "strip_factor 5 d1 = (b, d2)" by fastforce
  have dvd: "nat den dvd 10 ^ j \<longleftrightarrow> d2 = 1 \<and> max a b \<le> j" for j
    using scale_spec [OF _ st1 st2, of j] quotient_facts(1) [OF q] by simp
  have "nat den dvd 10 ^ k" using integral_scaled(1) [OF q, of k] vM by blast
  then have d2: "d2 = 1" and le: "max a b \<le> k" using dvd by auto
  have k30: "k \<le> MAX_FRAC_DIGITS" using s(3) by (auto simp: k_def frac_part_ok_def)
  have digs: "all_digits ip" "all_digits f" "ip \<noteq> []"
    using s(3) int_part_facts [OF s(2)] frac_part_facts(1) [of f] by auto
  have eqk: "max a b = k"
  proof (rule ccontr)
    assume "max a b \<noteq> k"
    with le have lt: "max a b < k" by linarith
    then have f: "frac_part_ok f" using s(3) by (auto simp: k_def)
    obtain j where j: "k = Suc j" "max a b \<le> j" using lt by (cases k) auto
    then obtain M' where M': "v * 10 ^ j = of_int M'"
      using integral_scaled(1) [OF q, of j] dvd d2 by auto
    then have "of_int (int M) = (of_int (10 * M') :: rat)"
      using vM by (simp add: j(1) algebra_simps)
    then have "int M = 10 * M'" by (simp only: of_int_eq_iff)
    then have "10 dvd M" by presburger
    then have "last (ip @ f) = CHR ''0''"
      using last_digit [of "ip @ f"] digs by (simp add: M_def)
    with f show False by (simp add: frac_part_ok_def)
  qed
  obtain M' ip' f' where p: "v = of_nat M' / 10 ^ k" "digits_val (ip' @ f') = M'"
    "length f' = k" "canon_digits ip'" "all_digits f'"
    "format_canonical_decimal v =
       (let out = (if k = 0 then ip' else ip' @ dot # f')
        in if CANONICAL_DECIMAL_RE out then Inr out else Inl CanonicalFormError)"
    using print_scaled [OF v q st1 st2 d2 eqk k30] by blast
  have "M' = M" using p(1) veq by simp
  then have "ip' = ip \<and> f' = f"
    using p s(2) digs by (intro digits_split_unique) (simp_all add: k_def M_def int_part_ok_def)
  then have "(if k = 0 then ip' else ip' @ dot # f') = s" using s(1) by (auto simp: k_def)
  with body p(6) show ?thesis
    by (simp add: CANONICAL_DECIMAL_RE_def matches_line_def Let_def)
qed

lemma format_iff_parse:
  "format_canonical_decimal v = Inr s \<longleftrightarrow> newline \<notin> set s \<and> parse_decimal_text s = Inr v"
proof
  assume "format_canonical_decimal v = Inr s"
  then show "newline \<notin> set s \<and> parse_decimal_text s = Inr v"
    using format_then_parse decimal_body_no_newline by blast
next
  assume a: "newline \<notin> set s \<and> parse_decimal_text s = Inr v"
  then have "decimal_body s"
    by (auto simp: parse_decimal_text_def CANONICAL_DECIMAL_RE_def matches_line_plain
        split: if_splits)
  with a show "format_canonical_decimal v = Inr s"
    by (intro parse_then_format) simp_all
qed

text \<open>
  \<^bold>\<open>C28.\<close> The printer and the parser of canonical decimals are inverse: a text is what
  \<open>format_canonical_decimal\<close> prints for a value exactly when it has no line break and
  \<open>parse_canonical_decimal\<close> reads that value from it. So a value has at most one
  canonical spelling, and every accepted spelling free of line breaks is canonical.
\<close>

theorem decimal_codec:
  "format_canonical_decimal v = Inr s \<longleftrightarrow> newline \<notin> set s \<and> parse_decimal_text s = Inr v"
  by (rule format_iff_parse)

text \<open>
  \<^bold>\<open>C40.\<close> The admission pattern ends in \<open>$\<close>, which Python also matches before a final
  line break: any canonical decimal with a line break appended is admitted. When it has a
  fraction the line break is counted as a fractional digit, so the value read is a tenth
  of the value the digits denote.
\<close>

theorem trailing_newline_admitted:
  assumes "int_part_ok ip" "frac_part_ok f" "parse_decimal_text (ip @ dot # f) = Inr v"
  shows "parse_decimal_text (ip @ [newline]) = parse_decimal_text ip \<and>
         parse_decimal_text (ip @ dot # f @ [newline]) = Inr (v / 10)"
proof
  note ip = int_part_facts [OF assms(1)] and f = frac_part_facts [OF assms(2)]
  have v: "v = of_nat (digits_val (ip @ f)) / 10 ^ length f"
    using parse_plain_frac [OF assms(1,2)] assms(3) by (simp del: digits_val_append)
  have "decimal_body ip" using assms(1) by (simp add: decimal_body_iff)
  then show "parse_decimal_text (ip @ [newline]) = parse_decimal_text ip"
    using ip parse_plain_int [OF assms(1)]
    by (auto simp: parse_decimal_text_def CANONICAL_DECIMAL_RE_def matches_line_def py_int_def
        newline_def dot_def)
  let ?s = "ip @ dot # f @ [newline]"
  have "matches_line decimal_body ?s"
    using assms(1,2) by (auto simp: matches_line_def butlast_append decimal_body_iff)
  moreover have "py_int (ip @ f @ [newline]) = int (digits_val (ip @ f))"
    by (simp add: py_int_def butlast_append del: digits_val_append)
  ultimately show "parse_decimal_text ?s = Inr (v / 10)"
    using split_no_dot(3,4) [OF ip(3), of "f @ [newline]"]
    by (simp add: parse_decimal_text_def CANONICAL_DECIMAL_RE_def Let_def v del: digits_val_append)
qed

theorem trailing_newline_admitted_witness:
  "parse_decimal_text (''0'' @ dot # ''5'' @ [newline]) = Inr (1 / 20)"
proof -
  have ip: "int_part_ok ''0''" by (simp add: int_part_ok_def canon_digits_def MAX_INT_DIGITS_def)
  have f: "frac_part_ok ''5''" by (simp add: frac_part_ok_def is_digit_def MAX_FRAC_DIGITS_def)
  have v: "parse_decimal_text (''0'' @ dot # ''5'') = Inr (1 / 2)"
    using parse_plain_frac [OF ip f] by (simp add: digit_val_def)
  show ?thesis using trailing_newline_admitted [OF ip f v] by simp
qed

subsection \<open>Atomic units\<close>

lemma to_atomic_eq_Inr:
  "to_atomic v d = Inr n \<longleftrightarrow> 0 \<le> d \<and> v * 10 ^ nat d = of_int n"
proof -
  obtain num den where q: "quotient_of (v * 10 ^ nat d) = (num, den)" by fastforce
  note qf = quotient_facts [OF q]
  have "den = 1" "num = n" if "v * 10 ^ nat d = of_int n"
    using that q by (simp_all add: quotient_of_int)
  moreover have "v * 10 ^ nat d = of_int num" if "den = 1" using that qf(3) by simp
  ultimately show ?thesis
    by (auto simp: to_atomic_def q split: if_splits)
qed

text \<open>
  \<open>to_atomic\<close> is exact: it succeeds with \<open>n\<close> exactly when the scale is not negative
  and \<open>n\<close> atomic units are the amount itself, so \<open>from_atomic\<close> recovers it; nothing is
  ever rounded.
\<close>

theorem to_atomic_exact:
  "to_atomic v d = Inr n \<longleftrightarrow> 0 \<le> d \<and> from_atomic n d = v"
  by (auto simp: to_atomic_eq_Inr from_atomic_def field_simps)

end
