(* ===== verification/Json.thy ===== *)
theory Json
  imports Canon
begin

text \<open>
  JSON values as the code handles them after \<open>json.loads\<close>, and the encoding half of
  \<open>qntyspot/canon.py\<close>: \<open>canonical_json_str\<close> with sorted keys, minimal separators and
  ASCII escapes. An object is the list of its members in insertion order; a Python dict
  has distinct keys. The digest function is \<open>hashlib\<close>'s SHA-256, a parameter here.
\<close>

datatype json =
    JNull
  | JBool bool
  | JInt int
  | JStr string
  | JList "json list"
  | JObj "(string \<times> json) list"

text \<open>\<open>obj.get(key)\<close> on a dict, and the set of its keys.\<close>

definition jget :: "string \<Rightarrow> (string \<times> json) list \<Rightarrow> json" where
  "jget k kvs = (case map_of kvs k of None \<Rightarrow> JNull | Some v \<Rightarrow> v)"

definition jkeys :: "(string \<times> json) list \<Rightarrow> string set" where
  "jkeys kvs = set (map fst kvs)"

lemma jkeys_simps [simp]: "jkeys [] = {}" "jkeys ((k, v) # kvs) = insert k (jkeys kvs)"
  by (simp_all add: jkeys_def)

lemma jget_simps [simp]:
  "jget k [] = JNull" "jget k ((k', v) # kvs) = (if k = k' then v else jget k kvs)"
  by (simp_all add: jget_def)

text \<open>The parser of values: only a JSON string can be a canonical decimal.\<close>

fun parse_canonical_decimal :: "json \<Rightarrow> error + rat" where
  "parse_canonical_decimal (JStr text) = parse_decimal_text text"
| "parse_canonical_decimal _ = Inl CanonicalFormError"

subsection \<open>The encoder\<close>

definition hex_digit :: "nat \<Rightarrow> char" where
  "hex_digit n = (if n < 10 then char_of (48 + n) else char_of (87 + n))"

definition escape_char :: "char \<Rightarrow> string" where
  "escape_char c =
     (if c = CHR 0x22 then [CHR 0x5C, CHR 0x22]
      else if c = CHR 0x5C then [CHR 0x5C, CHR 0x5C]
      else if c = CHR 0x0A then [CHR 0x5C, CHR ''n'']
      else if c = CHR 0x0D then [CHR 0x5C, CHR ''r'']
      else if c = CHR 0x09 then [CHR 0x5C, CHR ''t'']
      else if c = CHR 0x0C then [CHR 0x5C, CHR ''f'']
      else if c = CHR 0x08 then [CHR 0x5C, CHR ''b'']
      else if 32 \<le> (of_char c :: nat) \<and> (of_char c :: nat) \<le> 126 then [c]
      else [CHR 0x5C, CHR ''u'', CHR ''0'', CHR ''0'',
            hex_digit (of_char c div 16), hex_digit (of_char c mod 16)])"

definition quote :: "string \<Rightarrow> string" where
  "quote s = CHR 0x22 # concat (map escape_char s) @ [CHR 0x22]"

fun join :: "char \<Rightarrow> string list \<Rightarrow> string" where
  "join c [] = []"
| "join c [x] = x"
| "join c (x # y # ys) = x @ c # join c (y # ys)"

fun canonical_json_str :: "json \<Rightarrow> string" where
  "canonical_json_str JNull = ''null''"
| "canonical_json_str (JBool b) = (if b then ''true'' else ''false'')"
| "canonical_json_str (JInt n) = str_int n"
| "canonical_json_str (JStr s) = quote s"
| "canonical_json_str (JList xs) = CHR ''['' # join CHR '','' (map canonical_json_str xs) @ [CHR '']'']"
| "canonical_json_str (JObj kvs) =
     CHR ''{'' # join CHR '',''
       (map (\<lambda>(k, t). quote k @ CHR '':'' # t)
         (sort_key fst (map (\<lambda>(k, v). (k, canonical_json_str v)) kvs))) @ [CHR ''}'']"

type_synonym digest_fn = "string \<Rightarrow> string"

definition digest_object :: "digest_fn \<Rightarrow> json \<Rightarrow> string" where
  "digest_object sha256_hex obj = sha256_hex (canonical_json_str obj)"

text \<open>
  The value a canonical document denotes: every object with its members in key order.
\<close>

fun json_canon :: "json \<Rightarrow> json" where
  "json_canon (JList xs) = JList (map json_canon xs)"
| "json_canon (JObj kvs) = JObj (sort_key fst (map (\<lambda>(k, v). (k, json_canon v)) kvs))"
| "json_canon j = j"

end
