(* ===== verification/Identity.thy ===== *)
theory Identity
  imports Json
begin

text \<open>
  Instrument identity, \<open>qntyspot/identity.py\<close>: EVM and Solana references with their
  admission checks, the identity strings that key every table of the ledger, and the
  admitted instrument.
\<close>

datatype AssetClass = FUNGIBLE

datatype SolanaCluster = MAINNET_BETA | DEVNET | TESTNET

datatype TokenProgram = SPL_TOKEN | TOKEN_2022

fun AssetClass_value :: "AssetClass \<Rightarrow> string" where
  "AssetClass_value FUNGIBLE = ''FUNGIBLE''"

fun SolanaCluster_value :: "SolanaCluster \<Rightarrow> string" where
  "SolanaCluster_value MAINNET_BETA = ''mainnet-beta''"
| "SolanaCluster_value DEVNET = ''devnet''"
| "SolanaCluster_value TESTNET = ''testnet''"

fun TokenProgram_value :: "TokenProgram \<Rightarrow> string" where
  "TokenProgram_value SPL_TOKEN = ''SPL_TOKEN''"
| "TokenProgram_value TOKEN_2022 = ''TOKEN_2022''"

text \<open>\<open>Enum(raw)\<close>: the member with that value, or \<open>ValueError\<close>.\<close>

definition enum_of :: "('a \<Rightarrow> string) \<Rightarrow> 'a list \<Rightarrow> json \<Rightarrow> error + 'a" where
  "enum_of val members raw =
     (case raw of JStr s \<Rightarrow> (case find (\<lambda>m. val m = s) members of
                              None \<Rightarrow> Inl PyValueError | Some m \<Rightarrow> Inr m)
      | _ \<Rightarrow> Inl PyValueError)"

definition AssetClass_of :: "json \<Rightarrow> error + AssetClass" where
  "AssetClass_of = enum_of AssetClass_value [FUNGIBLE]"

definition SolanaCluster_of :: "json \<Rightarrow> error + SolanaCluster" where
  "SolanaCluster_of = enum_of SolanaCluster_value [MAINNET_BETA, DEVNET, TESTNET]"

definition TokenProgram_of :: "json \<Rightarrow> error + TokenProgram" where
  "TokenProgram_of = enum_of TokenProgram_value [SPL_TOKEN, TOKEN_2022]"

text \<open>\<open>try: ... except ValueError: raise e\<close>.\<close>

definition on_value_error :: "error \<Rightarrow> error + 'a \<Rightarrow> error + 'a" where
  "on_value_error e r = (case r of Inl PyValueError \<Rightarrow> Inl e | _ \<Rightarrow> r)"

subsection \<open>Base58\<close>

definition B58_ALPHABET :: string where
  "B58_ALPHABET = ''123456789ABCDEFGHJKLMNPQRSTUVWXYZabcdefghijkmnopqrstuvwxyz''"

fun index_of :: "char \<Rightarrow> string \<Rightarrow> nat option" where
  "index_of c [] = None"
| "index_of c (x # xs) = (if x = c then Some 0 else map_option Suc (index_of c xs))"

text \<open>\<open>num.to_bytes((num.bit_length() + 7) // 8, "big")\<close>: the minimal big-endian bytes.\<close>

fun be_bytes :: "nat \<Rightarrow> nat list" where
  "be_bytes n = (if n = 0 then [] else be_bytes (n div 256) @ [n mod 256])"

declare be_bytes.simps [simp del]

definition base58_num :: "string \<Rightarrow> error + nat" where
  "base58_num text =
     rfold (\<lambda>num ch. case index_of ch B58_ALPHABET of
                       None \<Rightarrow> Inl IdentityError | Some idx \<Rightarrow> Inr (num * 58 + idx)) 0 text"

definition decode_base58 :: "string \<Rightarrow> error + nat list" where
  "decode_base58 text =
     rbind (base58_num text) (\<lambda>num.
       let leading_zeros = length text - length (dropWhile (\<lambda>c. c = CHR ''1'') text)
       in Inr (replicate leading_zeros 0 @ be_bytes num))"

subsection \<open>References\<close>

definition MAX_CHAIN_ID :: int where
  "MAX_CHAIN_ID = 2 ^ 63 - 36"

definition is_lower_hex :: "char \<Rightarrow> bool" where
  "is_lower_hex c \<longleftrightarrow> is_digit c \<or> 97 \<le> (of_char c :: nat) \<and> (of_char c :: nat) \<le> 102"

definition EVM_ADDRESS_RE :: "string \<Rightarrow> bool" where
  "EVM_ADDRESS_RE = matches_line (\<lambda>s. take 2 s = ''0x'' \<and> length s = 42 \<and> list_all is_lower_hex (drop 2 s))"

definition BASE58_RE :: "string \<Rightarrow> bool" where
  "BASE58_RE = matches_line (\<lambda>s. 32 \<le> length s \<and> length s \<le> 44 \<and> list_all (\<lambda>c. c \<in> set B58_ALPHABET) s)"

text \<open>\<open>int(address, 16) == 0\<close> on a text the address pattern matched.\<close>

definition hex_text_is_zero :: "string \<Rightarrow> bool" where
  "hex_text_is_zero s \<longleftrightarrow> list_all (\<lambda>c. c = CHR ''0'' \<or> c = newline) (drop 2 s)"

datatype InstrumentRef =
    EvmInstrumentRef (chain_id: int) (contract_address: string)
  | SolanaInstrumentRef (cluster: SolanaCluster) (mint_address: string) (token_program: TokenProgram)

definition make_evm_ref :: "json \<Rightarrow> json \<Rightarrow> error + InstrumentRef" where
  "make_evm_ref chain_id_raw address_raw =
     (case chain_id_raw of
        JInt cid \<Rightarrow>
          if \<not> (1 \<le> cid \<and> cid \<le> MAX_CHAIN_ID) then Inl IdentityError
          else (case address_raw of
                  JStr addr \<Rightarrow>
                    if \<not> EVM_ADDRESS_RE addr then Inl IdentityError
                    else if hex_text_is_zero addr then Inl IdentityError
                    else Inr (EvmInstrumentRef cid addr)
                | _ \<Rightarrow> Inl IdentityError)
      | _ \<Rightarrow> Inl IdentityError)"

definition make_solana_ref :: "SolanaCluster \<Rightarrow> json \<Rightarrow> TokenProgram \<Rightarrow> error + InstrumentRef" where
  "make_solana_ref clus mint_raw program =
     (case mint_raw of
        JStr mint \<Rightarrow>
          if take 2 mint = ''0x'' then Inl IdentityError
          else if \<not> BASE58_RE mint then Inl IdentityError
          else rbind (decode_base58 mint) (\<lambda>raw.
            if length raw \<noteq> 32 then Inl IdentityError
            else if raw = replicate 32 0 then Inl IdentityError
            else Inr (SolanaInstrumentRef clus mint program))
      | _ \<Rightarrow> Inl IdentityError)"

fun namespace :: "InstrumentRef \<Rightarrow> string" where
  "namespace (EvmInstrumentRef _ _) = ''evm''"
| "namespace (SolanaInstrumentRef _ _ _) = ''solana''"

fun identity_string :: "InstrumentRef \<Rightarrow> string" where
  "identity_string (EvmInstrumentRef cid addr) = ''evm:'' @ str_int cid @ '':'' @ addr"
| "identity_string (SolanaInstrumentRef c mint p) =
     ''solana:'' @ SolanaCluster_value c @ '':'' @ mint @ '':'' @ TokenProgram_value p"

fun identity_fields :: "InstrumentRef \<Rightarrow> (string \<times> json) list" where
  "identity_fields (EvmInstrumentRef cid addr) =
     [(''namespace'', JStr ''evm''), (''chain_id'', JInt cid), (''contract_address'', JStr addr)]"
| "identity_fields (SolanaInstrumentRef c mint p) =
     [(''namespace'', JStr ''solana''), (''cluster'', JStr (SolanaCluster_value c)),
      (''mint_address'', JStr mint), (''token_program'', JStr (TokenProgram_value p))]"

fun ref_network_id :: "InstrumentRef \<Rightarrow> string" where
  "ref_network_id (EvmInstrumentRef cid _) = ''evm:'' @ str_int cid"
| "ref_network_id (SolanaInstrumentRef c _ _) = ''solana:'' @ SolanaCluster_value c"

definition REQUIRED_KEYS :: "(string \<times> string set) list" where
  "REQUIRED_KEYS =
     [(''evm'', {''namespace'', ''chain_id'', ''contract_address''}),
      (''solana'', {''namespace'', ''cluster'', ''mint_address'', ''token_program''})]"

text \<open>
  \<open>namespace not in _REQUIRED_KEYS\<close> hashes the value: a list or an object there is an
  unhashable key, a \<open>TypeError\<close> the caller does not catch.
\<close>

definition parse_instrument_ref :: "json \<Rightarrow> error + InstrumentRef" where
  "parse_instrument_ref raw =
     (case raw of
        JObj obj \<Rightarrow>
          (case jget ''namespace'' obj of
             JStr ns \<Rightarrow>
               (case map_of REQUIRED_KEYS ns of
                  None \<Rightarrow> Inl IdentityError
                | Some required \<Rightarrow>
                    if \<not> required \<subseteq> jkeys obj then Inl IdentityError
                    else if \<not> jkeys obj \<subseteq> required then Inl IdentityError
                    else if ns = ''evm'' then
                      make_evm_ref (jget ''chain_id'' obj) (jget ''contract_address'' obj)
                    else
                      rbind (on_value_error IdentityError (SolanaCluster_of (jget ''cluster'' obj))) (\<lambda>clus.
                      rbind (on_value_error IdentityError (TokenProgram_of (jget ''token_program'' obj))) (\<lambda>program.
                        make_solana_ref clus (jget ''mint_address'' obj) program)))
           | JList _ \<Rightarrow> Inl PyTypeError
           | JObj _ \<Rightarrow> Inl PyTypeError
           | _ \<Rightarrow> Inl IdentityError)
      | _ \<Rightarrow> Inl IdentityError)"

subsection \<open>Instruments\<close>

text \<open>White space as \<open>str.strip\<close> sees it, and whether stripping changes or empties a text.\<close>

definition is_space :: "char \<Rightarrow> bool" where
  "is_space c = (let n = (of_char c :: nat)
     in 9 \<le> n \<and> n \<le> 13 \<or> 28 \<le> n \<and> n \<le> 32 \<or> n = 133 \<or> n = 160)"

definition strip :: "string \<Rightarrow> string" where
  "strip s = rev (dropWhile is_space (rev (dropWhile is_space s)))"

record InstrumentV0 =
  ref :: InstrumentRef
  decimals :: int
  asset_class :: AssetClass
  display_symbol :: "string option"

definition make_instrument ::
  "InstrumentRef \<Rightarrow> int \<Rightarrow> AssetClass \<Rightarrow> string option \<Rightarrow> error + InstrumentV0" where
  "make_instrument r d ac symbol =
     (if \<not> (0 \<le> d \<and> d \<le> 36) then Inl IdentityError
      else if ac \<noteq> FUNGIBLE then Inl IdentityError
      else (case symbol of
              None \<Rightarrow> Inr \<lparr>ref = r, decimals = d, asset_class = ac, display_symbol = None\<rparr>
            | Some s \<Rightarrow>
                if strip s = [] then Inl IdentityError
                else if 64 < length s then Inl IdentityError
                else Inr \<lparr>ref = r, decimals = d, asset_class = ac, display_symbol = Some s\<rparr>))"

definition instrument_id :: "InstrumentV0 \<Rightarrow> string" where
  "instrument_id i = identity_string (ref i)"

definition network_id :: "InstrumentV0 \<Rightarrow> string" where
  "network_id i = ref_network_id (ref i)"

definition identity_object :: "InstrumentV0 \<Rightarrow> json" where
  "identity_object i = JObj (identity_fields (ref i) @
     [(''decimals'', JInt (decimals i)), (''asset_class'', JStr (AssetClass_value (asset_class i)))])"

definition identity_digest :: "digest_fn \<Rightarrow> InstrumentV0 \<Rightarrow> string" where
  "identity_digest H i = digest_object H (identity_object i)"

definition policy_object :: "InstrumentV0 \<Rightarrow> json" where
  "policy_object i = JObj
     [(''ref'', JObj (identity_fields (ref i))), (''decimals'', JInt (decimals i)),
      (''asset_class'', JStr (AssetClass_value (asset_class i)))]"

subsection \<open>Admitted references\<close>

text \<open>A reference the constructors of the source accept.\<close>

fun ref_admitted :: "InstrumentRef \<Rightarrow> bool" where
  "ref_admitted (EvmInstrumentRef cid addr) \<longleftrightarrow>
     make_evm_ref (JInt cid) (JStr addr) = Inr (EvmInstrumentRef cid addr)"
| "ref_admitted (SolanaInstrumentRef c mint p) \<longleftrightarrow>
     make_solana_ref c (JStr mint) p = Inr (SolanaInstrumentRef c mint p)"

lemma make_evm_ref_cases:
  assumes "make_evm_ref a b = Inr r"
  obtains cid addr where "a = JInt cid" "b = JStr addr" "r = EvmInstrumentRef cid addr"
    "1 \<le> cid" "EVM_ADDRESS_RE addr" "ref_admitted r"
  using assms by (cases a; cases b) (auto simp: make_evm_ref_def split: if_splits)

lemma index_of_mem: "index_of c s = Some i \<Longrightarrow> c \<in> set s"
  by (induction s arbitrary: i) (auto split: if_splits)

lemma base58_num_alphabet:
  "rfold (\<lambda>num ch. case index_of ch B58_ALPHABET of
      None \<Rightarrow> Inl IdentityError | Some idx \<Rightarrow> Inr (num * 58 + idx)) n s = Inr m
   \<Longrightarrow> set s \<subseteq> set B58_ALPHABET \<and> newline \<notin> set s"
proof (induction s arbitrary: n)
  case (Cons c s)
  then obtain i where i: "index_of c B58_ALPHABET = Some i"
    by (auto simp: res_simps split: option.splits)
  with Cons have "set s \<subseteq> set B58_ALPHABET \<and> newline \<notin> set s" by simp
  moreover have "newline \<notin> set B58_ALPHABET" by (simp add: B58_ALPHABET_def newline_def)
  ultimately show ?case using index_of_mem [OF i] by auto
qed simp

lemma make_solana_ref_cases:
  assumes "make_solana_ref c b p = Inr r"
  obtains mint where "b = JStr mint" "r = SolanaInstrumentRef c mint p" "BASE58_RE mint"
    "newline \<notin> set mint" "set mint \<subseteq> set B58_ALPHABET" "ref_admitted r"
proof -
  obtain mint where b: "b = JStr mint"
    using assms by (cases b) (simp_all add: make_solana_ref_def)
  have r: "r = SolanaInstrumentRef c mint p" and re: "BASE58_RE mint"
    and dec: "\<exists>raw. decode_base58 mint = Inr raw"
    using assms by (auto simp: b make_solana_ref_def res_simps split: if_splits)
  have "newline \<notin> set mint" "set mint \<subseteq> set B58_ALPHABET"
    using dec base58_num_alphabet [of 0 mint] by (auto simp: decode_base58_def base58_num_def res_simps)
  then show thesis using that [OF b r re] assms b r by simp
qed

lemma parse_instrument_ref_admitted:
  "parse_instrument_ref raw = Inr r \<Longrightarrow> ref_admitted r"
  unfolding parse_instrument_ref_def
  by (auto simp: res_simps split: json.splits option.splits if_splits
      elim!: make_evm_ref_cases make_solana_ref_cases)

lemma enum_of_value [simp]:
  "AssetClass_of (JStr (AssetClass_value a)) = Inr a"
  "SolanaCluster_of (JStr (SolanaCluster_value c)) = Inr c"
  "TokenProgram_of (JStr (TokenProgram_value p)) = Inr p"
  subgoal by (cases a) (simp add: AssetClass_of_def enum_of_def)
  subgoal by (cases c) (simp_all add: SolanaCluster_of_def enum_of_def)
  subgoal by (cases p) (simp_all add: TokenProgram_of_def enum_of_def)
  done

lemma identity_fields_parse:
  "ref_admitted r \<Longrightarrow> parse_instrument_ref (JObj (identity_fields r)) = Inr r"
  by (cases r) (auto simp: parse_instrument_ref_def REQUIRED_KEYS_def on_value_error_def)

text \<open>
  Parsing the fields an admitted reference renders gives the reference back: the
  canonical form of an instrument identity is itself admissible and loses nothing.
\<close>

theorem identity_fields_roundtrip:
  assumes "ref_admitted r"
  shows "parse_instrument_ref (JObj (identity_fields r)) = Inr r"
  using assms by (rule identity_fields_parse)

definition sample_address :: string where
  "sample_address = ''0x0000000000000000000000000000000000000001''"

lemma sample_address_admitted:
  "ref_admitted (EvmInstrumentRef 8453 sample_address)"
  by (simp add: sample_address_def make_evm_ref_def EVM_ADDRESS_RE_def matches_line_def
      hex_text_is_zero_def MAX_CHAIN_ID_def newline_def is_lower_hex_def is_digit_def)

lemma identity_fields_roundtrip_witness:
  "parse_instrument_ref (JObj (identity_fields (EvmInstrumentRef 8453 sample_address))) =
     Inr (EvmInstrumentRef 8453 sample_address)"
  by (rule identity_fields_roundtrip [OF sample_address_admitted])

lemma colon_free:
  "CHR '':'' \<notin> set (str_int n)" "CHR '':'' \<notin> set (SolanaCluster_value c)"
proof -
  show "CHR '':'' \<notin> set (str_int n)"
    using all_digits_mem [OF all_digits_nat_str, of "CHR '':''"]
    by (auto simp: str_int_def is_digit_def)
  show "CHR '':'' \<notin> set (SolanaCluster_value c)"
    by (cases c) simp_all
qed

lemma split_colon:
  assumes "CHR '':'' \<notin> set a" "CHR '':'' \<notin> set b" "a @ CHR '':'' # s = b @ CHR '':'' # t"
  shows "a = b \<and> s = t"
  using assms by (simp add: append_eq_append_conv2) (auto simp: append_eq_Cons_conv Cons_eq_append_conv)

lemma TokenProgram_value_inj: "TokenProgram_value p = TokenProgram_value q \<longleftrightarrow> p = q"
  by (cases p; cases q) simp_all

lemma SolanaCluster_value_inj: "SolanaCluster_value p = SolanaCluster_value q \<longleftrightarrow> p = q"
  by (cases p; cases q) simp_all

lemma admitted_mint_colon_free:
  assumes "ref_admitted (SolanaInstrumentRef c mint p)"
  shows "CHR '':'' \<notin> set mint"
proof -
  have "set mint \<subseteq> set B58_ALPHABET"
    using assms by (auto elim: make_solana_ref_cases)
  moreover have "CHR '':'' \<notin> set B58_ALPHABET" by (simp add: B58_ALPHABET_def)
  ultimately show ?thesis by blast
qed

text \<open>
  \<^bold>\<open>C33.\<close> Identity strings identify: two admitted references with the same identity string
  are the same reference, across both namespaces, so an EVM asset is never taken for a
  Solana mint, nor one chain, mint or token program for another.
\<close>

theorem identity_string_inj:
  assumes "ref_admitted r" "ref_admitted r'" "identity_string r = identity_string r'"
  shows "r = r'"
proof (cases r)
  case (EvmInstrumentRef cid addr)
  with assms(3) obtain cid' addr' where r': "r' = EvmInstrumentRef cid' addr'" by (cases r') auto
  with EvmInstrumentRef assms(3) have "str_int cid @ CHR '':'' # addr = str_int cid' @ CHR '':'' # addr'"
    by simp
  then have "str_int cid = str_int cid' \<and> addr = addr'"
    by (intro split_colon colon_free)
  then show ?thesis using EvmInstrumentRef r' by simp
next
  case (SolanaInstrumentRef c mint p)
  with assms(3) obtain c' mint' p' where r': "r' = SolanaInstrumentRef c' mint' p'" by (cases r') auto
  with SolanaInstrumentRef assms(3)
  have eq: "SolanaCluster_value c @ CHR '':'' # (mint @ CHR '':'' # TokenProgram_value p) =
      SolanaCluster_value c' @ CHR '':'' # (mint' @ CHR '':'' # TokenProgram_value p')" by simp
  then have c: "SolanaCluster_value c = SolanaCluster_value c'"
    and rest: "mint @ CHR '':'' # TokenProgram_value p = mint' @ CHR '':'' # TokenProgram_value p'"
    using split_colon [OF colon_free(2) colon_free(2) eq] by blast+
  have "mint = mint' \<and> TokenProgram_value p = TokenProgram_value p'"
    using assms(1,2) SolanaInstrumentRef r'
    by (intro split_colon rest admitted_mint_colon_free) auto
  with c show ?thesis
    using SolanaInstrumentRef r' by (simp add: TokenProgram_value_inj SolanaCluster_value_inj)
qed

lemma identity_string_inj_witness:
  "identity_string (EvmInstrumentRef 8453 sample_address) =
     identity_string (EvmInstrumentRef (8000 + 453) sample_address) \<and>
   EvmInstrumentRef 8453 sample_address = EvmInstrumentRef (8000 + 453) sample_address"
proof
  show eq: "identity_string (EvmInstrumentRef 8453 sample_address) =
     identity_string (EvmInstrumentRef (8000 + 453) sample_address)" by simp
  show "EvmInstrumentRef 8453 sample_address = EvmInstrumentRef (8000 + 453) sample_address"
    using identity_string_inj [OF sample_address_admitted _ eq] sample_address_admitted by simp
qed

end
