(* ===== verification/States.thy ===== *)
theory States
  imports Errors
begin

text \<open>
  The lifecycle state machine of \<open>qntyspot/states.py\<close>: the states of an economic
  action, the enumerated transition table, the state classes the recovery and the
  budget layer use, and what the table guarantees about runs of an action.
\<close>

datatype intent_state =
    ARMED
  | TRIGGERED
  | QUOTE_PINNED
  | SIMULATED
  | RESERVED
  | SIGNED
  | SUBMITTED
  | INCLUDED
  | CONFIRMED
  | RECONCILED
  | FILLED
  | CANCELLED
  | EXPIRED
  | REJECTED
  | SAFE_HALT

text \<open>Iteration over the enumeration, in declaration order.\<close>

definition IntentState :: "intent_state list" where
  "IntentState = [ARMED, TRIGGERED, QUOTE_PINNED, SIMULATED, RESERVED, SIGNED, SUBMITTED,
     INCLUDED, CONFIRMED, RECONCILED, FILLED, CANCELLED, EXPIRED, REJECTED, SAFE_HALT]"

definition TERMINAL_STATES :: "intent_state set" where
  "TERMINAL_STATES = {FILLED, CANCELLED, EXPIRED, REJECTED, SAFE_HALT}"

definition PRE_COMMITMENT_STATES :: "intent_state set" where
  "PRE_COMMITMENT_STATES = {ARMED, TRIGGERED, QUOTE_PINNED, SIMULATED, RESERVED}"

definition EXTERNALLY_AMBIGUOUS_STATES :: "intent_state set" where
  "EXTERNALLY_AMBIGUOUS_STATES = {SIGNED, SUBMITTED, INCLUDED, CONFIRMED}"

definition BUDGET_HOLDING_STATES :: "intent_state set" where
  "BUDGET_HOLDING_STATES = {RESERVED, SIGNED, SUBMITTED, INCLUDED, CONFIRMED, RECONCILED}"

lemmas state_class_defs =
  TERMINAL_STATES_def PRE_COMMITMENT_STATES_def EXTERNALLY_AMBIGUOUS_STATES_def
  BUDGET_HOLDING_STATES_def

fun TRANSITIONS :: "intent_state \<Rightarrow> intent_state set" where
  "TRANSITIONS ARMED = {TRIGGERED, CANCELLED, EXPIRED, REJECTED, SAFE_HALT}"
| "TRANSITIONS TRIGGERED = {QUOTE_PINNED, CANCELLED, EXPIRED, REJECTED, SAFE_HALT}"
| "TRANSITIONS QUOTE_PINNED = {SIMULATED, CANCELLED, EXPIRED, REJECTED, SAFE_HALT}"
| "TRANSITIONS SIMULATED = {RESERVED, CANCELLED, EXPIRED, REJECTED, SAFE_HALT}"
| "TRANSITIONS RESERVED = {SIGNED, INCLUDED, CANCELLED, EXPIRED, REJECTED, SAFE_HALT}"
| "TRANSITIONS SIGNED = {SUBMITTED, REJECTED, SAFE_HALT}"
| "TRANSITIONS SUBMITTED = {INCLUDED, REJECTED, SAFE_HALT}"
| "TRANSITIONS INCLUDED = {CONFIRMED, REJECTED, SAFE_HALT}"
| "TRANSITIONS CONFIRMED = {RECONCILED, SAFE_HALT}"
| "TRANSITIONS RECONCILED = {FILLED, SAFE_HALT}"
| "TRANSITIONS FILLED = {}"
| "TRANSITIONS CANCELLED = {}"
| "TRANSITIONS EXPIRED = {}"
| "TRANSITIONS REJECTED = {}"
| "TRANSITIONS SAFE_HALT = {}"

definition is_legal_transition :: "intent_state \<Rightarrow> intent_state \<Rightarrow> bool" where
  "is_legal_transition src dst \<longleftrightarrow> dst \<in> TRANSITIONS src"

definition assert_legal_transition :: "intent_state \<Rightarrow> intent_state \<Rightarrow> error + unit" where
  "assert_legal_transition src dst =
     (if dst \<notin> TRANSITIONS src then Inl StateTransitionError else Inr ())"

definition all_illegal_transitions :: "(intent_state \<times> intent_state) list" where
  "all_illegal_transitions =
     filter (\<lambda>(src, dst). dst \<notin> TRANSITIONS src) (List.product IntentState IntentState)"

subsection \<open>Facts about the table\<close>

lemma IntentState_complete [simp]: "s \<in> set IntentState"
  by (cases s) (simp_all add: IntentState_def)

lemma assert_legal_eq_Inr [res_simps]:
  "assert_legal_transition src dst = Inr u \<longleftrightarrow> is_legal_transition src dst"
  by (simp add: assert_legal_transition_def is_legal_transition_def)

text \<open>The two module-level assertions of the source.\<close>

lemma terminal_iff_no_exit: "s \<in> TERMINAL_STATES \<longleftrightarrow> TRANSITIONS s = {}"
  by (cases s) (simp_all add: TERMINAL_STATES_def)

lemma illegal_from_terminal [simp]: "s \<in> TERMINAL_STATES \<Longrightarrow> \<not> is_legal_transition s t"
  by (simp add: is_legal_transition_def terminal_iff_no_exit)

lemma safe_halt_always_open: "s \<notin> TERMINAL_STATES \<Longrightarrow> is_legal_transition s SAFE_HALT"
  by (cases s) (simp_all add: is_legal_transition_def TERMINAL_STATES_def)

lemma set_all_illegal_transitions:
  "set all_illegal_transitions = {(src, dst). \<not> is_legal_transition src dst}"
  by (auto simp: all_illegal_transitions_def is_legal_transition_def)

text \<open>How far an action has come: every legal transition strictly advances it.\<close>

fun progress :: "intent_state \<Rightarrow> nat" where
  "progress ARMED = 0"
| "progress TRIGGERED = 1"
| "progress QUOTE_PINNED = 2"
| "progress SIMULATED = 3"
| "progress RESERVED = 4"
| "progress SIGNED = 5"
| "progress SUBMITTED = 6"
| "progress INCLUDED = 7"
| "progress CONFIRMED = 8"
| "progress RECONCILED = 9"
| "progress _ = 10"

lemma legal_transition_progress: "is_legal_transition s t \<Longrightarrow> progress s < progress t"
  by (cases s) (auto simp: is_legal_transition_def)

subsection \<open>Runs of one action\<close>

text \<open>A run is a sequence of states in which each step is in the table.\<close>

fun legal_run :: "intent_state \<Rightarrow> intent_state list \<Rightarrow> bool" where
  "legal_run s [] = True"
| "legal_run s (t # ts) = (is_legal_transition s t \<and> legal_run t ts)"

inductive leads_to :: "intent_state \<Rightarrow> intent_state \<Rightarrow> bool" where
  here: "leads_to s s"
| step: "leads_to s t \<Longrightarrow> is_legal_transition t u \<Longrightarrow> leads_to s u"

lemma leads_to_trans: "leads_to t u \<Longrightarrow> leads_to s t \<Longrightarrow> leads_to s u"
  by (induction rule: leads_to.induct) (auto intro: leads_to.step)

lemma legal_run_leads_to: "legal_run s ts \<Longrightarrow> t \<in> set ts \<Longrightarrow> leads_to s t"
proof (induction ts arbitrary: s)
  case (Cons u ts)
  then have "leads_to s u"
    by (auto intro: leads_to.intros)
  with Cons show ?case
    by (auto intro: leads_to_trans)
qed simp

lemma legal_run_bounded: "legal_run s ts \<Longrightarrow> length ts + progress s \<le> 10"
proof (induction ts arbitrary: s)
  case Nil
  then show ?case by (cases s) simp_all
next
  case (Cons t ts)
  then show ?case
    using legal_transition_progress [of s t] by fastforce
qed

text \<open>The states an action can still be in once something may exist outside the process.\<close>

definition committed :: "intent_state \<Rightarrow> bool" where
  "committed s \<longleftrightarrow> s \<notin> PRE_COMMITMENT_STATES \<and> s \<noteq> CANCELLED \<and> s \<noteq> EXPIRED"

lemma committed_step: "is_legal_transition s t \<Longrightarrow> committed s \<Longrightarrow> committed t"
  by (cases s) (auto simp: is_legal_transition_def committed_def PRE_COMMITMENT_STATES_def)

lemma committed_leads_to: "leads_to s t \<Longrightarrow> committed s \<Longrightarrow> committed t"
  by (induction rule: leads_to.induct) (auto intro: committed_step)

text \<open>
  \<^bold>\<open>C37.\<close> Once an action has been signed, no sequence of legal transitions cancels it,
  expires it or takes it back to a state before the commitment: an economic effect that
  may exist outside the process can only end filled, rejected or halted.
\<close>

theorem signed_never_withdrawn:
  assumes "legal_run SIGNED ts" "t \<in> set ts"
  shows "t \<notin> PRE_COMMITMENT_STATES \<and> t \<noteq> CANCELLED \<and> t \<noteq> EXPIRED"
  using committed_leads_to [OF legal_run_leads_to [OF assms]]
  by (simp add: committed_def PRE_COMMITMENT_STATES_def)

lemma signed_never_withdrawn_witness:
  "SAFE_HALT \<notin> PRE_COMMITMENT_STATES \<and> SAFE_HALT \<noteq> CANCELLED \<and> SAFE_HALT \<noteq> EXPIRED \<and>
   legal_run SIGNED [SUBMITTED, INCLUDED, SAFE_HALT]"
  using signed_never_withdrawn [of "[SUBMITTED, INCLUDED, SAFE_HALT]" SAFE_HALT]
  by (simp add: is_legal_transition_def)

text \<open>
  \<^bold>\<open>C38.\<close> Every lifecycle ends: a run of legal transitions has at most ten steps, and
  from every state on it that is not terminal the action can still be halted, so no
  sequence of transitions leaves an action without a way to stop it.
\<close>

theorem lifecycle_bounded_and_haltable:
  assumes "legal_run s ts"
  shows "length ts \<le> 10 \<and>
    (\<forall>t \<in> set (s # ts). t \<in> TERMINAL_STATES \<or> SAFE_HALT \<in> TRANSITIONS t)"
  using legal_run_bounded [OF assms] safe_halt_always_open
  by (auto simp: is_legal_transition_def)

lemma lifecycle_bounded_and_haltable_witness:
  "SAFE_HALT \<in> TRANSITIONS SIMULATED \<and>
   legal_run ARMED [TRIGGERED, QUOTE_PINNED, SIMULATED, RESERVED]"
  using lifecycle_bounded_and_haltable [of ARMED "[TRIGGERED, QUOTE_PINNED, SIMULATED, RESERVED]"]
  by (simp add: is_legal_transition_def TERMINAL_STATES_def)

end
