(* ===== verification/Domain.thy ===== *)
theory Domain
  imports Identity States
begin

text \<open>
  The immutable domain model, \<open>qntyspot/domain.py\<close>: each frozen dataclass is a record,
  built by a function that runs the checks of its \<open>__post_init__\<close>. Amounts are integer
  atomic units, prices and ratios exact rationals. Field names carry a prefix, since the
  source's dataclasses share many of them.
\<close>

definition BPS_DENOMINATOR :: int where
  "BPS_DENOMINATOR = 10000"

definition ceil_div :: "int \<Rightarrow> int \<Rightarrow> error + int" where
  "ceil_div num den = (if den \<le> 0 then Inl QntySpotError else Inr (- ((- num) div den)))"

datatype Side = BUY | SELL

fun opposite :: "Side \<Rightarrow> Side" where
  "opposite BUY = SELL"
| "opposite SELL = BUY"

datatype LadderKind = ENTRY | EXIT

datatype CycleStatus = OPEN | COMPLETED | HALTED

datatype ReservationStatus = ACTIVE | COMMITTED | RELEASED | QUARANTINED

fun Side_value :: "Side \<Rightarrow> string" where
  "Side_value BUY = ''BUY''"
| "Side_value SELL = ''SELL''"

fun LadderKind_value :: "LadderKind \<Rightarrow> string" where
  "LadderKind_value ENTRY = ''ENTRY''"
| "LadderKind_value EXIT = ''EXIT''"

definition Side_of :: "json \<Rightarrow> error + Side" where
  "Side_of = enum_of Side_value [BUY, SELL]"

definition LadderKind_of :: "json \<Rightarrow> error + LadderKind" where
  "LadderKind_of = enum_of LadderKind_value [ENTRY, EXIT]"

lemma Side_of_value [simp]: "Side_of (JStr (Side_value s)) = Inr s"
  by (cases s) (simp_all add: Side_of_def enum_of_def)

lemma LadderKind_of_value [simp]: "LadderKind_of (JStr (LadderKind_value k)) = Inr k"
  by (cases k) (simp_all add: LadderKind_of_def enum_of_def)

lemma Side_value_inj [simp]: "Side_value s = Side_value t \<longleftrightarrow> s = t"
  by (cases s; cases t) simp_all

text \<open>A canonical decimal as a JSON string, or the error of its printer.\<close>

definition jdecimal :: "rat \<Rightarrow> error + json" where
  "jdecimal v = rbind (format_canonical_decimal v) (\<lambda>s. Inr (JStr s))"

lemma jdecimal_eq_Inr: "jdecimal v = Inr j \<longleftrightarrow> (\<exists>s. j = JStr s \<and> format_canonical_decimal v = Inr s)"
  by (auto simp: jdecimal_def res_simps)

lemma jdecimal_parse: "jdecimal v = Inr j \<Longrightarrow> parse_canonical_decimal j = Inr v"
  by (auto simp: jdecimal_eq_Inr format_then_parse)

lemma jdecimal_of_text: "parse_canonical_decimal (JStr s) = Inr v \<Longrightarrow> newline \<notin> set s \<Longrightarrow> jdecimal v = Inr (JStr s)"
  by (simp add: jdecimal_eq_Inr format_iff_parse)

subsection \<open>Ladders\<close>

record LadderLevelV0 =
  lv_level_id :: string
  lv_kind :: LadderKind
  lv_side :: Side
  lv_index :: nat
  lv_trigger_price :: rat
  lv_input_amount :: "rat option"
  lv_input_ratio :: "rat option"

definition make_level :: "LadderLevelV0 \<Rightarrow> error + LadderLevelV0" where
  "make_level l =
     (case lv_kind l of
        ENTRY \<Rightarrow>
          (case (lv_input_amount l, lv_input_ratio l) of
             (Some amount, None) \<Rightarrow>
               if amount \<le> 0 then Inl PolicySchemaError
               else if lv_trigger_price l \<le> 0 then Inl PolicySchemaError else Inr l
           | _ \<Rightarrow> Inl PolicySchemaError)
      | EXIT \<Rightarrow>
          (case (lv_input_ratio l, lv_input_amount l) of
             (Some ratio, None) \<Rightarrow>
               if \<not> (0 < ratio \<and> ratio \<le> 1) then Inl PolicySchemaError
               else if lv_trigger_price l \<le> 0 then Inl PolicySchemaError else Inr l
           | _ \<Rightarrow> Inl PolicySchemaError))"

definition opt_decimal :: "string \<Rightarrow> rat option \<Rightarrow> error + (string \<times> json) list" where
  "opt_decimal key v =
     (case v of None \<Rightarrow> Inr [] | Some x \<Rightarrow> rbind (jdecimal x) (\<lambda>j. Inr [(key, j)]))"

definition level_canonical_object :: "LadderLevelV0 \<Rightarrow> error + json" where
  "level_canonical_object l =
     rbind (jdecimal (lv_trigger_price l)) (\<lambda>trigger.
     rbind (opt_decimal ''input_amount'' (lv_input_amount l)) (\<lambda>amount.
     rbind (opt_decimal ''input_ratio'' (lv_input_ratio l)) (\<lambda>ratio.
       Inr (JObj ([(''level_id'', JStr (lv_level_id l)), (''trigger_price'', trigger)] @ amount @ ratio)))))"

record LadderV0 =
  ld_kind :: LadderKind
  ld_side :: Side
  ld_levels :: "LadderLevelV0 list"

text \<open>The pairwise check of neighbouring rungs in the direction the side implies.\<close>

fun strictly_monotone :: "Side \<Rightarrow> LadderLevelV0 list \<Rightarrow> bool" where
  "strictly_monotone s (prev # cur # rest) \<longleftrightarrow>
     (if s = BUY then lv_trigger_price cur < lv_trigger_price prev
      else lv_trigger_price prev < lv_trigger_price cur) \<and> strictly_monotone s (cur # rest)"
| "strictly_monotone s _ \<longleftrightarrow> True"

definition make_ladder :: "LadderKind \<Rightarrow> Side \<Rightarrow> LadderLevelV0 list \<Rightarrow> error + LadderV0" where
  "make_ladder kind side levels =
     (if levels = [] then Inl PolicySchemaError
      else if \<not> strictly_monotone side levels then Inl PolicySchemaError
      else Inr \<lparr>ld_kind = kind, ld_side = side, ld_levels = levels\<rparr>)"

definition ladder_canonical_object :: "LadderV0 \<Rightarrow> error + json" where
  "ladder_canonical_object ld =
     rbind (traverse level_canonical_object (ld_levels ld)) (\<lambda>js. Inr (JObj [(''levels'', JList js)]))"

subsection \<open>Budgets and policies\<close>

record PortfolioBudgetV0 =
  allocation_atomic :: int
  per_order_cap_atomic :: int
  per_instrument_cap_atomic :: int
  per_network_cap_atomic :: int
  global_cap_atomic :: int
  reserved_cash_atomic :: int

definition make_budget :: "PortfolioBudgetV0 \<Rightarrow> error + PortfolioBudgetV0" where
  "make_budget b =
     (if \<exists>x \<in> set [allocation_atomic b, per_order_cap_atomic b, per_instrument_cap_atomic b,
                  per_network_cap_atomic b, global_cap_atomic b]. x \<le> 0
      then Inl PolicySchemaError
      else if reserved_cash_atomic b < 0 then Inl PolicySchemaError
      else if per_order_cap_atomic b > allocation_atomic b then Inl PolicySchemaError
      else if allocation_atomic b > per_instrument_cap_atomic b then Inl PolicySchemaError
      else if per_instrument_cap_atomic b > per_network_cap_atomic b then Inl PolicySchemaError
      else if per_network_cap_atomic b > global_cap_atomic b then Inl PolicySchemaError
      else if reserved_cash_atomic b \<ge> global_cap_atomic b then Inl PolicySchemaError
      else Inr b)"

definition spendable_global_atomic :: "PortfolioBudgetV0 \<Rightarrow> int" where
  "spendable_global_atomic b = global_cap_atomic b - reserved_cash_atomic b"

record PolicyV0 =
  policy_name :: string
  base :: InstrumentV0
  quote_instrument :: InstrumentV0
  pol_side :: Side
  entry_ladder :: LadderV0
  exit_ladder :: LadderV0
  budget :: PortfolioBudgetV0
  max_executable_price :: rat
  min_executable_price :: rat
  max_price_impact_bps :: int
  max_slippage_bps :: int
  valid_from_epoch_s :: int
  expiry_epoch_s :: int
  quote_ttl_s :: int
  max_cycles :: int
  rearm_hysteresis_bps :: int
  rearm_cooldown_s :: int
  profit_recycle_ratio :: rat
  banked_profit_ratio :: rat
  canonical :: json

definition policy_id :: "digest_fn \<Rightarrow> PolicyV0 \<Rightarrow> string" where
  "policy_id H p = digest_object H (canonical p)"

definition pol_instrument_id :: "PolicyV0 \<Rightarrow> string" where
  "pol_instrument_id p = instrument_id (base p)"

definition pol_quote_instrument_id :: "PolicyV0 \<Rightarrow> string" where
  "pol_quote_instrument_id p = instrument_id (quote_instrument p)"

definition pol_network_id :: "PolicyV0 \<Rightarrow> string" where
  "pol_network_id p = network_id (base p)"

definition levels :: "PolicyV0 \<Rightarrow> LadderLevelV0 list" where
  "levels p = ld_levels (entry_ladder p) @ ld_levels (exit_ladder p)"

definition level :: "PolicyV0 \<Rightarrow> string \<Rightarrow> error + LadderLevelV0" where
  "level p lid =
     (case find (\<lambda>l. lv_level_id l = lid) (levels p) of
        None \<Rightarrow> Inl PolicySchemaError | Some l \<Rightarrow> Inr l)"

subsection \<open>Economic actions\<close>

definition economic_action_object :: "string \<Rightarrow> string \<Rightarrow> string \<Rightarrow> string \<Rightarrow> Side \<Rightarrow> json" where
  "economic_action_object pid iid cid lid side = JObj
     [(''v'', JStr ''qntyspot.economic_action.v0''), (''policy_id'', JStr pid),
      (''instrument_id'', JStr iid), (''cycle_id'', JStr cid), (''level_id'', JStr lid),
      (''side'', JStr (Side_value side))]"

definition economic_action_id ::
  "digest_fn \<Rightarrow> string \<Rightarrow> string \<Rightarrow> string \<Rightarrow> string \<Rightarrow> Side \<Rightarrow> string" where
  "economic_action_id H pid iid cid lid side =
     digest_object H (economic_action_object pid iid cid lid side)"

record EconomicBounds =
  eb_side :: Side
  eb_input_instrument_id :: string
  eb_output_instrument_id :: string
  max_input_atomic :: int
  eb_min_output_atomic :: int
  limit_price :: rat
  eb_max_price_impact_bps :: int
  eb_max_slippage_bps :: int
  deadline_epoch_s :: int

definition make_bounds :: "EconomicBounds \<Rightarrow> error + EconomicBounds" where
  "make_bounds b =
     (if max_input_atomic b \<le> 0 then Inl QntySpotError
      else if eb_min_output_atomic b \<le> 0 then Inl QntySpotError
      else if limit_price b \<le> 0 then Inl QntySpotError
      else if eb_input_instrument_id b = eb_output_instrument_id b then Inl QntySpotError
      else Inr b)"

definition bounds_canonical_object :: "EconomicBounds \<Rightarrow> error + json" where
  "bounds_canonical_object b =
     rbind (jdecimal (limit_price b)) (\<lambda>price. Inr (JObj
       [(''side'', JStr (Side_value (eb_side b))),
        (''input_instrument_id'', JStr (eb_input_instrument_id b)),
        (''output_instrument_id'', JStr (eb_output_instrument_id b)),
        (''max_input_atomic'', JStr (str_int (max_input_atomic b))),
        (''min_output_atomic'', JStr (str_int (eb_min_output_atomic b))),
        (''limit_price'', price),
        (''max_price_impact_bps'', JInt (eb_max_price_impact_bps b)),
        (''max_slippage_bps'', JInt (eb_max_slippage_bps b)),
        (''deadline_epoch_s'', JInt (deadline_epoch_s b))]))"

record IntentV0 =
  in_economic_action_id :: string
  in_policy_id :: string
  in_instrument_id :: string
  in_quote_instrument_id :: string
  in_network_id :: string
  in_cycle_id :: string
  in_level_id :: string
  in_side :: Side
  in_kind :: LadderKind
  in_bounds :: EconomicBounds
  in_quote_exposure_atomic :: int
  in_state :: intent_state

definition intent_canonical_object :: "IntentV0 \<Rightarrow> error + (string \<times> json) list" where
  "intent_canonical_object i =
     rbind (bounds_canonical_object (in_bounds i)) (\<lambda>bounds. Inr
       [(''economic_action_id'', JStr (in_economic_action_id i)),
        (''policy_id'', JStr (in_policy_id i)),
        (''instrument_id'', JStr (in_instrument_id i)),
        (''quote_instrument_id'', JStr (in_quote_instrument_id i)),
        (''network_id'', JStr (in_network_id i)),
        (''cycle_id'', JStr (in_cycle_id i)),
        (''level_id'', JStr (in_level_id i)),
        (''side'', JStr (Side_value (in_side i))),
        (''kind'', JStr (LadderKind_value (in_kind i))),
        (''bounds'', bounds),
        (''quote_exposure_atomic'', JStr (str_int (in_quote_exposure_atomic i)))])"

record QuoteV0 =
  qt_quote_id :: string
  qt_economic_action_id :: string
  qt_input_atomic :: int
  qt_output_atomic :: int
  pinned_at_epoch_s :: int
  expires_at_epoch_s :: int
  qt_source :: string

definition make_quote :: "QuoteV0 \<Rightarrow> error + QuoteV0" where
  "make_quote q =
     (if qt_input_atomic q \<le> 0 \<or> qt_output_atomic q \<le> 0 then Inl QntySpotError
      else if expires_at_epoch_s q \<le> pinned_at_epoch_s q then Inl QntySpotError
      else Inr q)"

subsection \<open>Fill receipts\<close>

record FillReceiptV0 =
  rc_receipt_id :: string
  rc_economic_action_id :: string
  rc_external_ref :: string
  input_atomic_filled :: int
  output_atomic_filled :: int
  fee_atomic :: int
  observed_at_epoch_s :: int
  rc_source :: string

definition make_receipt :: "FillReceiptV0 \<Rightarrow> error + FillReceiptV0" where
  "make_receipt r =
     (if input_atomic_filled r \<le> 0 \<or> output_atomic_filled r \<le> 0 then Inl QntySpotError
      else if fee_atomic r < 0 then Inl QntySpotError
      else Inr r)"

definition receipt_canonical_object :: "FillReceiptV0 \<Rightarrow> (string \<times> json) list" where
  "receipt_canonical_object r =
     [(''receipt_id'', JStr (rc_receipt_id r)),
      (''economic_action_id'', JStr (rc_economic_action_id r)),
      (''external_ref'', JStr (rc_external_ref r)),
      (''input_atomic_filled'', JStr (str_int (input_atomic_filled r))),
      (''output_atomic_filled'', JStr (str_int (output_atomic_filled r))),
      (''fee_atomic'', JStr (str_int (fee_atomic r))),
      (''observed_at_epoch_s'', JInt (observed_at_epoch_s r)),
      (''source'', JStr (rc_source r))]"

definition prorated_min_output :: "FillReceiptV0 \<Rightarrow> EconomicBounds \<Rightarrow> error + int" where
  "prorated_min_output r b =
     ceil_div (eb_min_output_atomic b * input_atomic_filled r) (max_input_atomic b)"

text \<open>The second conjunct is not evaluated when the first is false.\<close>

definition satisfies :: "FillReceiptV0 \<Rightarrow> EconomicBounds \<Rightarrow> error + bool" where
  "satisfies r b =
     (if \<not> input_atomic_filled r \<le> max_input_atomic b then Inr False
      else rbind (prorated_min_output r b) (\<lambda>floor. Inr (floor \<le> output_atomic_filled r)))"

subsection \<open>Ceiling division\<close>

lemma le_div_iff_mult_le:
  fixes a x d :: int
  assumes "0 < d" shows "a \<le> x div d \<longleftrightarrow> a * d \<le> x"
proof
  assume "a \<le> x div d"
  then have "a * d \<le> x div d * d" using assms by (simp add: mult_right_mono)
  also have "\<dots> \<le> x" using pos_mod_sign [OF assms, of x] div_mult_mod_eq [of x d] by linarith
  finally show "a * d \<le> x" .
next
  assume "a * d \<le> x"
  then have "a * d div d \<le> x div d" using assms by (rule zdiv_mono1)
  then show "a \<le> x div d" using assms by simp
qed

lemma neg_div_le_iff:
  fixes n d q :: int
  assumes "0 < d" shows "- ((- n) div d) \<le> q \<longleftrightarrow> n \<le> q * d"
proof -
  have "- ((- n) div d) \<le> q \<longleftrightarrow> - q \<le> (- n) div d" by linarith
  also have "\<dots> \<longleftrightarrow> - q * d \<le> - n" by (rule le_div_iff_mult_le [OF assms])
  finally show ?thesis by simp
qed

text \<open>
  \<open>ceil_div\<close> is the exact ceiling: on a positive denominator it returns the least
  integer whose multiple of the denominator covers the numerator.
\<close>

theorem ceil_div_least:
  assumes "ceil_div n d = Inr q"
  shows "0 < d \<and> n \<le> q * d \<and> (\<forall>p. n \<le> p * d \<longrightarrow> q \<le> p)"
proof -
  have d: "0 < d" and q: "q = - ((- n) div d)"
    using assms by (auto simp: ceil_div_def split: if_splits)
  have eq: "q \<le> p \<longleftrightarrow> n \<le> p * d" for p using neg_div_le_iff [OF d] q by blast
  show ?thesis using d eq [of q] eq by blast
qed

theorem ceil_div_least_witness: "ceil_div 7 2 = Inr 4 \<and> (7::int) \<le> 4 * 2"
proof -
  have h: "ceil_div 7 2 = Inr 4" by (simp add: ceil_div_def)
  show ?thesis using h ceil_div_least [OF h] by simp
qed

lemma ceil_div_le_iff: "ceil_div n d = Inr q \<Longrightarrow> q \<le> p \<longleftrightarrow> n \<le> p * d"
  by (auto simp: ceil_div_def neg_div_le_iff split: if_splits)

lemma ceil_div_Inr [simp]: "0 < d \<Longrightarrow> ceil_div n d = Inr (- ((- n) div d))"
  by (simp add: ceil_div_def)

lemma ceil_div_eq_Inr: "ceil_div n d = Inr q \<longleftrightarrow> 0 < d \<and> q = - ((- n) div d)"
  by (auto simp: ceil_div_def)

lemma ceil_div_mono:
  "ceil_div n d = Inr q \<Longrightarrow> ceil_div n' d = Inr q' \<Longrightarrow> n \<le> n' \<Longrightarrow> q \<le> q'"
  by (metis ceil_div_le_iff order_refl order_trans)

subsection \<open>What the constructors admit\<close>

lemma make_bounds_eq_Inr [res_simps]:
  "make_bounds b = Inr b' \<longleftrightarrow> b' = b \<and> 0 < max_input_atomic b \<and> 0 < eb_min_output_atomic b \<and>
     0 < limit_price b \<and> eb_input_instrument_id b \<noteq> eb_output_instrument_id b"
  by (auto simp: make_bounds_def)

lemma make_receipt_eq_Inr [res_simps]:
  "make_receipt r = Inr r' \<longleftrightarrow> r' = r \<and> 0 < input_atomic_filled r \<and> 0 < output_atomic_filled r \<and>
     0 \<le> fee_atomic r"
  by (auto simp: make_receipt_def)

lemma make_budget_eq_Inr:
  "make_budget b = Inr b' \<longleftrightarrow> b' = b \<and> 0 < per_order_cap_atomic b \<and>
     per_order_cap_atomic b \<le> allocation_atomic b \<and>
     allocation_atomic b \<le> per_instrument_cap_atomic b \<and>
     per_instrument_cap_atomic b \<le> per_network_cap_atomic b \<and>
     per_network_cap_atomic b \<le> global_cap_atomic b \<and>
     0 \<le> reserved_cash_atomic b \<and> reserved_cash_atomic b < global_cap_atomic b"
  by (auto simp: make_budget_def)

lemma make_level_eq_Inr:
  "make_level l = Inr l' \<longleftrightarrow> l' = l \<and> 0 < lv_trigger_price l \<and>
     (case lv_kind l of
        ENTRY \<Rightarrow> \<exists>a. lv_input_amount l = Some a \<and> 0 < a \<and> lv_input_ratio l = None
      | EXIT \<Rightarrow> \<exists>r. lv_input_ratio l = Some r \<and> 0 < r \<and> r \<le> 1 \<and> lv_input_amount l = None)"
  by (auto simp: make_level_def split: LadderKind.splits option.splits)

lemma satisfies_iff_price:
  assumes "make_bounds b = Inr b"
  shows "satisfies r b = Inr True \<longleftrightarrow>
    input_atomic_filled r \<le> max_input_atomic b \<and>
    eb_min_output_atomic b * input_atomic_filled r \<le> output_atomic_filled r * max_input_atomic b"
proof -
  have "0 < max_input_atomic b" using assms by (simp add: res_simps)
  then show ?thesis
    by (auto simp: satisfies_def prorated_min_output_def neg_div_le_iff)
qed

end
