(* ===== verification/Economics.thy ===== *)
theory Economics
  imports Domain
begin

text \<open>
  Turning a policy rung into an absolute economic limit, \<open>qntyspot/economics.py\<close>: the
  limit price of a leg, the rounded-up minimum output, exit sizes, deadlines, and the
  bounds and intent built from them. The lemmas relate the integer bounds to prices.
\<close>

definition leg_limit_price :: "PolicyV0 \<Rightarrow> LadderLevelV0 \<Rightarrow> rat" where
  "leg_limit_price p l =
     (let slip = of_int (max_slippage_bps p) / of_int BPS_DENOMINATOR
      in if lv_side l = BUY
         then min (lv_trigger_price l * (1 + slip)) (max_executable_price p)
         else max (lv_trigger_price l * (1 - slip)) (min_executable_price p))"

definition min_output_atomic :: "Side \<Rightarrow> int \<Rightarrow> rat \<Rightarrow> int \<Rightarrow> int \<Rightarrow> error + int" where
  "min_output_atomic side input price base_decimals quote_decimals =
     (let (pn, pd) = quotient_of price
      in if side = BUY
         then ceil_div (input * 10 ^ nat base_decimals * pd) (pn * 10 ^ nat quote_decimals)
         else ceil_div (input * pn * 10 ^ nat quote_decimals) (pd * 10 ^ nat base_decimals))"

definition exit_input_atomic :: "LadderLevelV0 \<Rightarrow> int \<Rightarrow> error + int" where
  "exit_input_atomic l inventory =
     (if lv_kind l \<noteq> EXIT then Inl QntySpotError
      else (case lv_input_ratio l of
              None \<Rightarrow> Inl QntySpotError
            | Some ratio \<Rightarrow>
                if inventory < 0 then Inl QntySpotError
                else (let (rn, rd) = quotient_of ratio; amount = inventory * rn div rd
                      in if amount \<le> 0 then Inl LevelNotExecutableError else Inr amount)))"

definition action_deadline :: "PolicyV0 \<Rightarrow> int \<Rightarrow> error + int" where
  "action_deadline p now_epoch_s =
     (if now_epoch_s < valid_from_epoch_s p then Inl LevelNotExecutableError
      else if now_epoch_s \<ge> expiry_epoch_s p then Inl LevelNotExecutableError
      else Inr (min (now_epoch_s + quote_ttl_s p) (expiry_epoch_s p)))"

definition rearm_threshold_price :: "PolicyV0 \<Rightarrow> LadderLevelV0 \<Rightarrow> rat" where
  "rearm_threshold_price p l =
     (let hysteresis = of_int (rearm_hysteresis_bps p) / of_int BPS_DENOMINATOR
      in if lv_side l = BUY then lv_trigger_price l * (1 + hysteresis)
         else lv_trigger_price l * (1 - hysteresis))"

text \<open>The input of a rung: a fixed amount for an entry, a share of the inventory for an exit.\<close>

definition rung_input_atomic :: "PolicyV0 \<Rightarrow> LadderLevelV0 \<Rightarrow> int option \<Rightarrow> error + int" where
  "rung_input_atomic p l inventory =
     (if lv_kind l = ENTRY then
        (if inventory \<noteq> None then Inl QntySpotError
         else (case lv_input_amount l of
                 None \<Rightarrow> Inl PyTypeError
               | Some amount \<Rightarrow>
                   let input_decimals = (if lv_side l = BUY then decimals (quote_instrument p)
                                         else decimals (base p));
                       (num, den) = quotient_of (amount * 10 ^ nat input_decimals)
                   in if den \<noteq> 1 then Inl LevelNotExecutableError else Inr num))
      else (case inventory of
              None \<Rightarrow> Inl QntySpotError
            | Some held \<Rightarrow> exit_input_atomic l held))"

definition build_bounds ::
  "PolicyV0 \<Rightarrow> LadderLevelV0 \<Rightarrow> int \<Rightarrow> int option \<Rightarrow> error + EconomicBounds" where
  "build_bounds p l now_epoch_s inventory =
     rbind (action_deadline p now_epoch_s) (\<lambda>deadline.
       let price = leg_limit_price p l; bd = decimals (base p); qd = decimals (quote_instrument p)
       in rbind (rung_input_atomic p l inventory) (\<lambda>input.
          rbind (min_output_atomic (lv_side l) input price bd qd) (\<lambda>out.
            if out \<le> 0 then Inl LevelNotExecutableError
            else
              let (input_id, output_id) =
                    (if lv_side l = BUY then (pol_quote_instrument_id p, pol_instrument_id p)
                     else (pol_instrument_id p, pol_quote_instrument_id p))
              in make_bounds
                   \<lparr>eb_side = lv_side l, eb_input_instrument_id = input_id,
                    eb_output_instrument_id = output_id, max_input_atomic = input,
                    eb_min_output_atomic = out, limit_price = price,
                    eb_max_price_impact_bps = max_price_impact_bps p,
                    eb_max_slippage_bps = max_slippage_bps p, deadline_epoch_s = deadline\<rparr>)))"

definition build_intent ::
  "digest_fn \<Rightarrow> PolicyV0 \<Rightarrow> string \<Rightarrow> LadderLevelV0 \<Rightarrow> int \<Rightarrow> int option \<Rightarrow> error + IntentV0" where
  "build_intent H p cycle_id l now_epoch_s inventory =
     rbind (build_bounds p l now_epoch_s inventory) (\<lambda>bounds.
       let exposure = (if lv_side l = BUY then max_input_atomic bounds else 0)
       in if lv_side l = BUY \<and> exposure > per_order_cap_atomic (budget p)
          then Inl LevelNotExecutableError
          else Inr
            \<lparr>in_economic_action_id =
               economic_action_id H (policy_id H p) (pol_instrument_id p) cycle_id (lv_level_id l) (lv_side l),
             in_policy_id = policy_id H p, in_instrument_id = pol_instrument_id p,
             in_quote_instrument_id = pol_quote_instrument_id p, in_network_id = pol_network_id p,
             in_cycle_id = cycle_id, in_level_id = lv_level_id l, in_side = lv_side l,
             in_kind = lv_kind l, in_bounds = bounds, in_quote_exposure_atomic = exposure,
             in_state = ARMED\<rparr>)"

subsection \<open>Prices\<close>

text \<open>
  The price at which an input was exchanged for an output, in quote per base of human
  units: for a BUY the input is quote and the output base, for a SELL the reverse.
\<close>

definition executed_price :: "Side \<Rightarrow> int \<Rightarrow> int \<Rightarrow> int \<Rightarrow> int \<Rightarrow> rat" where
  "executed_price side input out base_decimals quote_decimals =
     (if side = BUY
      then from_atomic input quote_decimals / from_atomic out base_decimals
      else from_atomic out quote_decimals / from_atomic input base_decimals)"

definition price_within :: "Side \<Rightarrow> rat \<Rightarrow> rat \<Rightarrow> bool" where
  "price_within side price limit \<longleftrightarrow> (if side = BUY then price \<le> limit else limit \<le> price)"

lemma leg_limit_price_clamped:
  "lv_side l = BUY \<Longrightarrow> leg_limit_price p l \<le> max_executable_price p"
  "lv_side l = SELL \<Longrightarrow> min_executable_price p \<le> leg_limit_price p l"
  by (simp_all add: leg_limit_price_def Let_def)

lemma rat_less_eq_cross:
  fixes a b :: rat and n d :: int
  assumes "0 < d" "0 < b"
  shows "a / b \<le> of_int n / of_int d \<longleftrightarrow> a * of_int d \<le> of_int n * b"
    and "of_int n / of_int d \<le> a / b \<longleftrightarrow> of_int n * b \<le> a * of_int d"
  using assms by (simp_all add: field_simps)

lemma of_int_mult_pow: "(of_int (a * 10 ^ k * b) :: rat) = of_int a * 10 ^ k * of_int b"
  by simp

lemma min_output_price_iff:
  assumes m: "min_output_atomic side input price bd qd = Inr m"
    and pos: "0 < input" "0 < out"
  shows "m \<le> out \<longleftrightarrow> price_within side (executed_price side input out bd qd) price"
proof -
  obtain pn pd where q: "quotient_of price = (pn, pd)" by fastforce
  have pd: "0 < pd" and pr: "price = of_int pn / of_int pd"
    using quotient_facts [OF q] by simp_all
  let ?B = "10 ^ nat bd" and ?Q = "10 ^ nat qd"
  show ?thesis
  proof (cases side)
    case BUY
    have c: "ceil_div (input * ?B * pd) (pn * ?Q) = Inr m"
      using m by (simp add: min_output_atomic_def q BUY)
    have "m \<le> out \<longleftrightarrow> input * ?B * pd \<le> out * (pn * ?Q)"
      by (rule ceil_div_le_iff [OF c])
    also have "\<dots> \<longleftrightarrow> (of_int (input * ?B * pd) :: rat) \<le> of_int (out * (pn * ?Q))"
      by (simp only: of_int_le_iff)
    also have "\<dots> \<longleftrightarrow> executed_price BUY input out bd qd \<le> price"
      using pd pos by (simp add: executed_price_def from_atomic_def pr field_simps)
    finally show ?thesis by (simp add: BUY price_within_def)
  next
    case SELL
    have c: "ceil_div (input * pn * ?Q) (pd * ?B) = Inr m"
      using m by (simp add: min_output_atomic_def q SELL)
    have "m \<le> out \<longleftrightarrow> input * pn * ?Q \<le> out * (pd * ?B)"
      by (rule ceil_div_le_iff [OF c])
    also have "\<dots> \<longleftrightarrow> (of_int (input * pn * ?Q) :: rat) \<le> of_int (out * (pd * ?B))"
      by (simp only: of_int_le_iff)
    also have "\<dots> \<longleftrightarrow> price \<le> executed_price SELL input out bd qd"
      using pd pos by (simp add: executed_price_def from_atomic_def pr field_simps)
    finally show ?thesis by (simp add: SELL price_within_def)
  qed
qed

text \<open>A fill no worse per unit than a committed pair has a price no worse than that pair.\<close>

lemma price_within_scaled:
  assumes "price_within side (executed_price side M m bd qd) limit"
    and "m * i \<le> out * M" "0 < M" "0 < m" "0 < i" "0 < out"
  shows "price_within side (executed_price side i out bd qd) limit"
proof -
  have r: "(of_int m :: rat) * of_int i \<le> of_int out * of_int M"
    using assms(2) by (metis of_int_le_iff of_int_mult)
  have "executed_price BUY i out bd qd \<le> executed_price BUY M m bd qd"
    "executed_price SELL M m bd qd \<le> executed_price SELL i out bd qd"
    using r assms(3-6) by (simp_all add: executed_price_def from_atomic_def field_simps)
  then show ?thesis
    using assms(1) by (cases side) (auto simp: price_within_def)
qed

lemma build_bounds_cases:
  assumes "build_bounds p l now_epoch_s held = Inr b"
  obtains "action_deadline p now_epoch_s = Inr (deadline_epoch_s b)"
    "rung_input_atomic p l held = Inr (max_input_atomic b)"
    "min_output_atomic (lv_side l) (max_input_atomic b) (leg_limit_price p l)
       (decimals (base p)) (decimals (quote_instrument p)) = Inr (eb_min_output_atomic b)"
    "limit_price b = leg_limit_price p l" "eb_side b = lv_side l" "make_bounds b = Inr b"
    "0 < max_input_atomic b" "0 < eb_min_output_atomic b"
  using assms
  by (cases "lv_side l") (auto simp: build_bounds_def Let_def res_simps split: if_splits)

text \<open>
  \<^bold>\<open>C27.\<close> The contract of the economics layer: any receipt, partial or full, that satisfies
  the bounds built for a rung settled at a price inside the rung's limit and inside the
  policy's hard executable price, whatever the decimals of the two instruments.
\<close>

theorem settled_price_within_policy:
  assumes b: "build_bounds p l now_epoch_s held = Inr b"
    and r: "make_receipt r = Inr r" "satisfies r b = Inr True"
  shows "price_within (lv_side l)
      (executed_price (lv_side l) (input_atomic_filled r) (output_atomic_filled r)
         (decimals (base p)) (decimals (quote_instrument p))) (leg_limit_price p l) \<and>
    price_within (lv_side l)
      (executed_price (lv_side l) (input_atomic_filled r) (output_atomic_filled r)
         (decimals (base p)) (decimals (quote_instrument p)))
      (if lv_side l = BUY then max_executable_price p else min_executable_price p)"
proof -
  from b obtain bb: "make_bounds b = Inr b" "0 < max_input_atomic b" "0 < eb_min_output_atomic b"
    and m: "min_output_atomic (lv_side l) (max_input_atomic b) (leg_limit_price p l)
       (decimals (base p)) (decimals (quote_instrument p)) = Inr (eb_min_output_atomic b)"
    by (rule build_bounds_cases)
  have "price_within (lv_side l) (executed_price (lv_side l) (max_input_atomic b)
      (eb_min_output_atomic b) (decimals (base p)) (decimals (quote_instrument p))) (leg_limit_price p l)"
    using min_output_price_iff [OF m bb(2,3)] by simp
  moreover have "eb_min_output_atomic b * input_atomic_filled r \<le> output_atomic_filled r * max_input_atomic b"
    using satisfies_iff_price [OF bb(1)] r(2) by blast
  ultimately have w: "price_within (lv_side l) (executed_price (lv_side l) (input_atomic_filled r)
      (output_atomic_filled r) (decimals (base p)) (decimals (quote_instrument p))) (leg_limit_price p l)"
    using price_within_scaled [OF _ _ bb(2,3)] r(1) by (simp add: make_receipt_eq_Inr)
  then show ?thesis
    using leg_limit_price_clamped [of l p]
    by (cases "lv_side l") (auto simp: price_within_def)
qed

text \<open>
  The bounds live inside the policy's life: they are built only while the policy is
  current, and the deadline is after the moment of building, within the quote's time to
  live and never past the policy's expiry.
\<close>

theorem build_bounds_deadline:
  assumes "build_bounds p l now_epoch_s held = Inr b" "0 < quote_ttl_s p"
  shows "valid_from_epoch_s p \<le> now_epoch_s \<and> now_epoch_s < deadline_epoch_s b \<and>
    deadline_epoch_s b \<le> expiry_epoch_s p \<and> deadline_epoch_s b \<le> now_epoch_s + quote_ttl_s p"
proof -
  from assms(1) have "action_deadline p now_epoch_s = Inr (deadline_epoch_s b)"
    by (rule build_bounds_cases)
  with assms(2) show ?thesis by (auto simp: action_deadline_def split: if_splits)
qed

subsection \<open>Exit sizes\<close>

lemma exit_input_atomic_eq:
  assumes "exit_input_atomic l held = Inr a"
  obtains ratio where "lv_kind l = EXIT" "lv_input_ratio l = Some ratio" "0 \<le> held" "0 < a"
    "of_int a \<le> of_int held * ratio"
proof -
  from assms obtain ratio where ratio: "lv_input_ratio l = Some ratio"
    by (auto simp: exit_input_atomic_def split: if_splits option.splits)
  obtain rn rd where q: "quotient_of ratio = (rn, rd)" by fastforce
  note qf = quotient_facts [OF q]
  have a: "a = held * rn div rd" "0 < a" "lv_kind l = EXIT" "0 \<le> held"
    using assms by (auto simp: exit_input_atomic_def ratio q Let_def split: if_splits)
  have "a * rd \<le> held * rn"
    using le_div_iff_mult_le [OF qf(1), of a "held * rn"] a(1) by simp
  then have "(of_int a :: rat) * of_int rd \<le> of_int held * of_int rn"
    by (metis of_int_le_iff of_int_mult)
  then have "of_int a \<le> of_int held * ratio"
    using qf(1) by (simp add: qf(3) field_simps)
  with ratio a show thesis by (intro that)
qed

text \<open>
  A ladder never disposes of more than is held: if the exit ratios of a list of rungs
  sum to at most one, the sizes those rungs compute from one inventory sum to at most
  that inventory.
\<close>

theorem exit_ladder_never_oversells:
  assumes "list_all2 (\<lambda>l a. exit_input_atomic l held = Inr a) ls as"
    and "sum_list (map (\<lambda>l. the (lv_input_ratio l)) ls) \<le> 1" and "ls \<noteq> []"
  shows "sum_list as \<le> held"
proof -
  have "(of_int (sum_list as) :: rat) \<le> of_int held * sum_list (map (\<lambda>l. the (lv_input_ratio l)) ls)"
    using assms(1)
  proof (induction rule: list_all2_induct)
    case (Cons l ls a as)
    from Cons(1) obtain ratio where "lv_input_ratio l = Some ratio" "of_int a \<le> of_int held * ratio"
      by (rule exit_input_atomic_eq)
    with Cons show ?case by (simp add: distrib_left)
  qed simp
  also have "\<dots> \<le> of_int held * 1"
  proof (rule mult_left_mono [OF assms(2)])
    from assms(1,3) obtain l a where "exit_input_atomic l held = Inr a" by (cases ls; cases as) auto
    then show "(0::rat) \<le> of_int held" by (rule exit_input_atomic_eq) simp
  qed
  finally show ?thesis by simp
qed

lemma build_intent_cases:
  assumes "build_intent H p cid l now_epoch_s held = Inr i"
  obtains "build_bounds p l now_epoch_s held = Inr (in_bounds i)" "in_state i = ARMED"
    "in_quote_exposure_atomic i = (if lv_side l = BUY then max_input_atomic (in_bounds i) else 0)"
    "lv_side l = BUY \<longrightarrow> in_quote_exposure_atomic i \<le> per_order_cap_atomic (budget p)"
    "in_policy_id i = policy_id H p" "in_instrument_id i = pol_instrument_id p"
    "in_quote_instrument_id i = pol_quote_instrument_id p" "in_network_id i = pol_network_id p"
    "in_cycle_id i = cid" "in_level_id i = lv_level_id l" "in_side i = lv_side l" "in_kind i = lv_kind l"
    "in_economic_action_id i = economic_action_id H (policy_id H p) (pol_instrument_id p) cid (lv_level_id l) (lv_side l)"
  using assms by (auto simp: build_intent_def Let_def res_simps split: if_splits)

text \<open>
  The intent built for a rung starts ARMED; a BUY puts exactly its maximum input at
  risk, positive and within the per-order cap, a SELL puts nothing at risk.
\<close>

theorem build_intent_exposure:
  assumes "build_intent H p cid l now_epoch_s held = Inr i"
  shows "in_state i = ARMED \<and>
    (if lv_side l = BUY
     then 0 < in_quote_exposure_atomic i \<and> in_quote_exposure_atomic i = max_input_atomic (in_bounds i) \<and>
          in_quote_exposure_atomic i \<le> per_order_cap_atomic (budget p)
     else in_quote_exposure_atomic i = 0)"
proof -
  from assms obtain b: "build_bounds p l now_epoch_s held = Inr (in_bounds i)" and i: "in_state i = ARMED"
    "in_quote_exposure_atomic i = (if lv_side l = BUY then max_input_atomic (in_bounds i) else 0)"
    "lv_side l = BUY \<longrightarrow> in_quote_exposure_atomic i \<le> per_order_cap_atomic (budget p)"
    by (rule build_intent_cases)
  from b have "0 < max_input_atomic (in_bounds i)" by (rule build_bounds_cases)
  with i show ?thesis by simp
qed

subsection \<open>A concrete policy\<close>

definition sample_instrument :: "string \<Rightarrow> InstrumentV0" where
  "sample_instrument addr =
     \<lparr>ref = EvmInstrumentRef 1 (''0x'' @ replicate 38 (CHR ''0'') @ addr), decimals = 0,
      asset_class = FUNGIBLE, display_symbol = None\<rparr>"

definition sample_entry :: LadderLevelV0 where
  "sample_entry = \<lparr>lv_level_id = ''E1'', lv_kind = ENTRY, lv_side = BUY, lv_index = 0,
     lv_trigger_price = 2, lv_input_amount = Some 100, lv_input_ratio = None\<rparr>"

definition sample_exit :: LadderLevelV0 where
  "sample_exit = \<lparr>lv_level_id = ''X1'', lv_kind = EXIT, lv_side = SELL, lv_index = 0,
     lv_trigger_price = 3, lv_input_amount = None, lv_input_ratio = Some 1\<rparr>"

definition sample_policy :: PolicyV0 where
  "sample_policy =
     \<lparr>policy_name = ''sample'', base = sample_instrument ''01'', quote_instrument = sample_instrument ''02'',
      pol_side = BUY,
      entry_ladder = \<lparr>ld_kind = ENTRY, ld_side = BUY, ld_levels = [sample_entry]\<rparr>,
      exit_ladder = \<lparr>ld_kind = EXIT, ld_side = SELL, ld_levels = [sample_exit]\<rparr>,
      budget = \<lparr>allocation_atomic = 200, per_order_cap_atomic = 150, per_instrument_cap_atomic = 300,
        per_network_cap_atomic = 400, global_cap_atomic = 500, reserved_cash_atomic = 100\<rparr>,
      max_executable_price = 3, min_executable_price = 1, max_price_impact_bps = 100,
      max_slippage_bps = 0, valid_from_epoch_s = 1000, expiry_epoch_s = 2000, quote_ttl_s = 30,
      max_cycles = 5, rearm_hysteresis_bps = 0, rearm_cooldown_s = 0, profit_recycle_ratio = 0,
      banked_profit_ratio = 0, canonical = JObj [(''policy_name'', JStr ''sample'')]\<rparr>"

lemmas sample_defs = sample_policy_def sample_entry_def sample_exit_def sample_instrument_def

definition sample_buy_bounds :: EconomicBounds where
  "sample_buy_bounds = \<lparr>eb_side = BUY,
     eb_input_instrument_id = pol_quote_instrument_id sample_policy,
     eb_output_instrument_id = pol_instrument_id sample_policy,
     max_input_atomic = 100, eb_min_output_atomic = 50, limit_price = 2,
     eb_max_price_impact_bps = 100, eb_max_slippage_bps = 0, deadline_epoch_s = 1040\<rparr>"

definition sample_fill :: FillReceiptV0 where
  "sample_fill = \<lparr>rc_receipt_id = ''r1'', rc_economic_action_id = ''a1'', rc_external_ref = ''tx1'',
     input_atomic_filled = 50, output_atomic_filled = 25, fee_atomic = 1, observed_at_epoch_s = 1020,
     rc_source = ''fixture''\<rparr>"

lemma sample_build_bounds: "build_bounds sample_policy sample_entry 1010 None = Inr sample_buy_bounds"
  by (simp add: build_bounds_def sample_buy_bounds_def sample_defs action_deadline_def
      leg_limit_price_def rung_input_atomic_def min_output_atomic_def make_bounds_def
      pol_instrument_id_def pol_quote_instrument_id_def instrument_id_def)

lemma sample_exit_input: "exit_input_atomic sample_exit 40 = Inr 40"
  by (simp add: exit_input_atomic_def sample_exit_def)

theorem settled_price_within_policy_witness:
  "price_within BUY (executed_price BUY 50 25 0 0) 3"
proof -
  have r: "make_receipt sample_fill = Inr sample_fill" "satisfies sample_fill sample_buy_bounds = Inr True"
    by (simp_all add: make_receipt_def sample_fill_def satisfies_def prorated_min_output_def sample_buy_bounds_def)
  show ?thesis
    using settled_price_within_policy [OF sample_build_bounds r]
    by (simp add: sample_defs sample_fill_def)
qed

theorem build_bounds_deadline_witness:
  "(1010::int) < 1040 \<and> deadline_epoch_s sample_buy_bounds \<le> expiry_epoch_s sample_policy"
  using build_bounds_deadline [OF sample_build_bounds] by (simp add: sample_policy_def sample_buy_bounds_def)

theorem exit_ladder_never_oversells_witness: "sum_list [40::int] \<le> 40"
proof (rule exit_ladder_never_oversells [of 40 "[sample_exit]"])
  show "list_all2 (\<lambda>l a. exit_input_atomic l 40 = Inr a) [sample_exit] [40]"
    by (simp add: sample_exit_input)
  show "sum_list (map (\<lambda>l. the (lv_input_ratio l)) [sample_exit]) \<le> 1"
    by (simp add: sample_exit_def)
qed simp

theorem build_intent_exposure_witness:
  "\<exists>i. build_intent (\<lambda>s. s) sample_policy ''c'' sample_entry 1010 None = Inr i \<and> in_state i = ARMED \<and>
       in_quote_exposure_atomic i = 100"
proof -
  have "lv_side sample_entry = BUY" "per_order_cap_atomic (budget sample_policy) = 150"
    "max_input_atomic sample_buy_bounds = 100"
    by (simp_all add: sample_entry_def sample_policy_def sample_buy_bounds_def)
  then obtain i where i: "build_intent (\<lambda>s. s) sample_policy ''c'' sample_entry 1010 None = Inr i"
    by (simp add: build_intent_def sample_build_bounds)
  then have "in_bounds i = sample_buy_bounds"
    by (elim build_intent_cases) (simp add: sample_build_bounds)
  with i show ?thesis
    using build_intent_exposure [OF i] by (simp add: sample_entry_def sample_buy_bounds_def)
qed

end
