(* ===== verification/PreliveEconomics.thy ===== *)
theory PreliveEconomics
  imports Economics
begin

text \<open>
  Pre-live capital economics, \<open>qntyspot/prelive_economics.py\<close>: narrowing an execution to
  a smaller input, the position ceilings of the first live phase, and the split of
  realized profit from principal by weighted-average cost basis. The lemmas show that
  money is conserved over a list of trades and that rounding never creates capital.
\<close>

definition prorated_min_output_atomic :: "EconomicBounds \<Rightarrow> int \<Rightarrow> error + int" where
  "prorated_min_output_atomic b input =
     (if input \<le> 0 then Inl QntySpotError
      else if input > max_input_atomic b then Inl QntySpotError
      else ceil_div (eb_min_output_atomic b * input) (max_input_atomic b))"

subsection \<open>Position ceilings\<close>

record DustLiveConcurrencyV0 =
  max_open_positions_global :: int
  max_open_positions_per_network :: int
  max_open_positions_per_instrument :: int
  max_in_flight_entries :: int

definition make_ceiling :: "DustLiveConcurrencyV0 \<Rightarrow> error + DustLiveConcurrencyV0" where
  "make_ceiling c =
     (if max_open_positions_global c \<le> 0 then Inl QntySpotError
      else if max_open_positions_per_network c \<le> 0 then Inl QntySpotError
      else if max_open_positions_per_instrument c \<le> 0 then Inl QntySpotError
      else if max_in_flight_entries c \<le> 0 then Inl QntySpotError
      else if max_open_positions_per_network c > max_open_positions_global c then Inl QntySpotError
      else if max_open_positions_per_instrument c > max_open_positions_per_network c
        then Inl QntySpotError
      else Inr c)"

record PositionConcurrencySnapshotV0 =
  open_positions_global :: int
  open_positions_network :: int
  open_positions_instrument :: int
  in_flight_entries :: int

definition make_concurrency_snapshot ::
  "PositionConcurrencySnapshotV0 \<Rightarrow> error + PositionConcurrencySnapshotV0" where
  "make_concurrency_snapshot s =
     (if open_positions_global s < 0 then Inl QntySpotError
      else if open_positions_network s < 0 then Inl QntySpotError
      else if open_positions_instrument s < 0 then Inl QntySpotError
      else if in_flight_entries s < 0 then Inl QntySpotError
      else if open_positions_network s > open_positions_global s then Inl QntySpotError
      else if open_positions_instrument s > open_positions_network s then Inl QntySpotError
      else Inr s)"

definition concurrency_failures ::
  "DustLiveConcurrencyV0 \<Rightarrow> PositionConcurrencySnapshotV0 \<Rightarrow> string list" where
  "concurrency_failures limit snapshot =
     (if open_positions_global snapshot \<ge> max_open_positions_global limit
      then [''GLOBAL_POSITION_CEILING''] else []) @
     (if open_positions_network snapshot \<ge> max_open_positions_per_network limit
      then [''NETWORK_POSITION_CEILING''] else []) @
     (if open_positions_instrument snapshot \<ge> max_open_positions_per_instrument limit
      then [''INSTRUMENT_POSITION_CEILING''] else []) @
     (if in_flight_entries snapshot \<ge> max_in_flight_entries limit
      then [''IN_FLIGHT_ENTRY_CEILING''] else [])"

definition assert_new_entry_concurrency ::
  "DustLiveConcurrencyV0 \<Rightarrow> PositionConcurrencySnapshotV0 \<Rightarrow> error + unit" where
  "assert_new_entry_concurrency limit snapshot =
     (if concurrency_failures limit snapshot \<noteq> [] then Inl LevelNotExecutableError else Inr ())"

subsection \<open>Profit allocation\<close>

record ExecutedTradeV0 =
  tr_position_id :: string
  tr_base_instrument_id :: string
  tr_quote_instrument_id :: string
  tr_side :: Side
  base_atomic :: int
  quote_atomic :: int
  external_cost_quote_atomic :: int

definition make_trade :: "ExecutedTradeV0 \<Rightarrow> error + ExecutedTradeV0" where
  "make_trade t =
     (if tr_position_id t = [] \<or> tr_base_instrument_id t = [] \<or> tr_quote_instrument_id t = []
      then Inl QntySpotError
      else if tr_base_instrument_id t = tr_quote_instrument_id t then Inl QntySpotError
      else if base_atomic t \<le> 0 then Inl QntySpotError
      else if quote_atomic t \<le> 0 then Inl QntySpotError
      else if external_cost_quote_atomic t < 0 then Inl QntySpotError
      else Inr t)"

record ProfitAllocationV0 =
  pa_position_id :: string
  pa_base_instrument_id :: string
  pa_quote_instrument_id :: string
  realized_pnl :: rat
  realized_profit :: rat
  realized_loss :: rat
  remaining_inventory :: int
  remaining_cost_basis :: rat
  recyclable_profit :: int
  banked_profit :: int
  retained_profit :: rat
  external_cost :: int

text \<open>The accumulators of the loop over trades.\<close>

record pnl_acc =
  acc_inventory :: int
  acc_cost_basis :: rat
  acc_realized :: rat
  acc_external :: int

definition pnl_start :: pnl_acc where
  "pnl_start = \<lparr>acc_inventory = 0, acc_cost_basis = 0, acc_realized = 0, acc_external = 0\<rparr>"

definition trade_step ::
  "string \<Rightarrow> string \<Rightarrow> string \<Rightarrow> pnl_acc \<Rightarrow> ExecutedTradeV0 \<Rightarrow> error + pnl_acc" where
  "trade_step pid bid qid a t =
     (if tr_position_id t \<noteq> pid \<or> tr_base_instrument_id t \<noteq> bid \<or> tr_quote_instrument_id t \<noteq> qid
      then Inl QntySpotError
      else
        let external = acc_external a + external_cost_quote_atomic t
        in if tr_side t = BUY then
             Inr (a\<lparr>acc_external := external, acc_inventory := acc_inventory a + base_atomic t,
                    acc_cost_basis := acc_cost_basis a
                      + of_int (quote_atomic t + external_cost_quote_atomic t)\<rparr>)
           else if base_atomic t > acc_inventory a then Inl QntySpotError
           else
             let released_basis = acc_cost_basis a * (of_int (base_atomic t) / of_int (acc_inventory a));
                 net_proceeds = of_int (quote_atomic t - external_cost_quote_atomic t);
                 inventory = acc_inventory a - base_atomic t
             in Inr \<lparr>acc_inventory = inventory,
                  acc_cost_basis = (if inventory = 0 then 0 else acc_cost_basis a - released_basis),
                  acc_realized = acc_realized a + (net_proceeds - released_basis),
                  acc_external = external\<rparr>)"

definition floor_fraction :: "rat \<Rightarrow> int" where
  "floor_fraction f = (let (n, d) = quotient_of f in n div d)"

definition unit_ratio :: "rat \<Rightarrow> error + rat" where
  "unit_ratio v = (if v < 0 \<or> v > 1 then Inl QntySpotError else Inr v)"

definition compute_profit_allocation ::
  "ExecutedTradeV0 list \<Rightarrow> string \<Rightarrow> string \<Rightarrow> string \<Rightarrow> rat \<Rightarrow> rat \<Rightarrow> error + ProfitAllocationV0" where
  "compute_profit_allocation trades pid bid qid recycle bank =
     (if pid = [] \<or> bid = [] \<or> qid = [] then Inl QntySpotError
      else if bid = qid then Inl QntySpotError
      else
        rbind (unit_ratio recycle) (\<lambda>recycle_ratio.
        rbind (unit_ratio bank) (\<lambda>bank_ratio.
          if recycle_ratio + bank_ratio > 1 then Inl QntySpotError
          else
            rbind (rfold (trade_step pid bid qid) pnl_start trades) (\<lambda>a.
              let profit = max (acc_realized a) 0;
                  loss = max (- acc_realized a) 0;
                  recyclable = floor_fraction (profit * recycle_ratio);
                  banked = floor_fraction (profit * bank_ratio)
              in Inr \<lparr>pa_position_id = pid, pa_base_instrument_id = bid, pa_quote_instrument_id = qid,
                   realized_pnl = acc_realized a, realized_profit = profit, realized_loss = loss,
                   remaining_inventory = acc_inventory a, remaining_cost_basis = acc_cost_basis a,
                   recyclable_profit = recyclable, banked_profit = banked,
                   retained_profit = profit - of_int recyclable - of_int banked,
                   external_cost = acc_external a\<rparr>))))"

subsection \<open>Conservation over the trades\<close>

text \<open>What a list of trades bought and sold, and the money that moved.\<close>

definition base_flow :: "ExecutedTradeV0 \<Rightarrow> int" where
  "base_flow t = (if tr_side t = BUY then base_atomic t else - base_atomic t)"

definition quote_flow :: "ExecutedTradeV0 \<Rightarrow> int" where
  "quote_flow t = (if tr_side t = BUY then - quote_atomic t else quote_atomic t)
     - external_cost_quote_atomic t"

definition acc_ok :: "pnl_acc \<Rightarrow> bool" where
  "acc_ok a \<longleftrightarrow> 0 \<le> acc_inventory a \<and> 0 \<le> acc_cost_basis a \<and>
     (acc_inventory a = 0 \<longrightarrow> acc_cost_basis a = 0)"

lemma trade_step_facts:
  assumes "trade_step pid bid qid a t = Inr a'" "make_trade t = Inr t" "acc_ok a"
  shows "acc_ok a' \<and> acc_inventory a' = acc_inventory a + base_flow t \<and>
    acc_realized a' - acc_cost_basis a' = acc_realized a - acc_cost_basis a + of_int (quote_flow t) \<and>
    acc_external a' = acc_external a + external_cost_quote_atomic t"
proof -
  have t: "0 < base_atomic t" "0 < quote_atomic t" "0 \<le> external_cost_quote_atomic t"
    using assms(2) by (auto simp: make_trade_def split: if_splits)
  show ?thesis
  proof (cases "tr_side t")
    case BUY
    with assms t show ?thesis
      by (auto simp: trade_step_def Let_def acc_ok_def base_flow_def quote_flow_def split: if_splits)
  next
    case SELL
    with assms(1) have le: "base_atomic t \<le> acc_inventory a"
      by (auto simp: trade_step_def Let_def split: if_splits)
    then have pos: "0 < acc_inventory a" using t by simp
    have share: "acc_cost_basis a * (of_int (base_atomic t) / of_int (acc_inventory a)) \<le> acc_cost_basis a"
      using assms(3) le pos by (intro mult_left_le) (auto simp: acc_ok_def)
    show ?thesis
      using assms SELL le pos share
      by (auto simp: trade_step_def Let_def acc_ok_def base_flow_def quote_flow_def split: if_splits)
  qed
qed

lemma trades_facts:
  assumes "rfold (trade_step pid bid qid) a ts = Inr a'" "\<forall>t \<in> set ts. make_trade t = Inr t" "acc_ok a"
  shows "acc_ok a' \<and> acc_inventory a' = acc_inventory a + sum_list (map base_flow ts) \<and>
    acc_realized a' - acc_cost_basis a' =
      acc_realized a - acc_cost_basis a + of_int (sum_list (map quote_flow ts)) \<and>
    acc_external a' = acc_external a + sum_list (map external_cost_quote_atomic ts)"
  using assms
proof (induction ts arbitrary: a)
  case (Cons t ts)
  then obtain b where b: "trade_step pid bid qid a t = Inr b" "rfold (trade_step pid bid qid) b ts = Inr a'"
    by (auto simp: res_simps)
  have s: "acc_ok b \<and> acc_inventory b = acc_inventory a + base_flow t \<and>
    acc_realized b - acc_cost_basis b = acc_realized a - acc_cost_basis a + of_int (quote_flow t) \<and>
    acc_external b = acc_external a + external_cost_quote_atomic t"
    using trade_step_facts [OF b(1)] Cons.prems by simp
  with Cons.IH [OF b(2)] Cons.prems show ?case by simp
qed simp

lemma allocation_cases:
  assumes "compute_profit_allocation ts pid bid qid recycle bank = Inr r"
  obtains a where "rfold (trade_step pid bid qid) pnl_start ts = Inr a"
    "realized_pnl r = acc_realized a" "remaining_cost_basis r = acc_cost_basis a"
    "remaining_inventory r = acc_inventory a" "external_cost r = acc_external a"
    "realized_profit r = max (acc_realized a) 0" "realized_loss r = max (- acc_realized a) 0"
    "recyclable_profit r = floor_fraction (realized_profit r * recycle)"
    "banked_profit r = floor_fraction (realized_profit r * bank)"
    "retained_profit r = realized_profit r - of_int (recyclable_profit r) - of_int (banked_profit r)"
    "0 \<le> recycle" "0 \<le> bank" "recycle + bank \<le> 1"
  using assms
  by (auto simp: compute_profit_allocation_def unit_ratio_def Let_def res_simps split: if_splits)

text \<open>
  \<^bold>\<open>C29.\<close> Money is conserved: over any admitted list of trades the realized result is the
  quote that came in less the quote that went out less all external costs, plus the cost
  still carried by the remaining inventory; the inventory is what was bought less what was
  sold, is never negative, and carries no cost once it is empty.
\<close>

theorem profit_conservation:
  assumes "compute_profit_allocation ts pid bid qid recycle bank = Inr r"
    and "\<forall>t \<in> set ts. make_trade t = Inr t"
  shows "realized_pnl r = of_int (sum_list (map quote_flow ts)) + remaining_cost_basis r \<and>
    remaining_inventory r = sum_list (map base_flow ts) \<and> 0 \<le> remaining_inventory r \<and>
    0 \<le> remaining_cost_basis r \<and> (remaining_inventory r = 0 \<longrightarrow> remaining_cost_basis r = 0) \<and>
    external_cost r = sum_list (map external_cost_quote_atomic ts)"
proof -
  from assms(1) obtain a where a: "rfold (trade_step pid bid qid) pnl_start ts = Inr a"
    "realized_pnl r = acc_realized a" "remaining_cost_basis r = acc_cost_basis a"
    "remaining_inventory r = acc_inventory a" "external_cost r = acc_external a"
    by (rule allocation_cases)
  have "acc_ok pnl_start" by (simp add: acc_ok_def pnl_start_def)
  from trades_facts [OF a(1) assms(2) this] a(2-5) show ?thesis
    by (auto simp: acc_ok_def pnl_start_def)
qed

lemma floor_fraction_floor: "floor_fraction f = \<lfloor>f\<rfloor>"
  by (simp add: floor_fraction_def rat_floor_code)

text \<open>
  \<^bold>\<open>C30.\<close> The split creates no capital: the recyclable, banked and retained parts sum to the
  realized profit exactly, none is negative, each integer part is at most its share, and a
  losing or flat result recycles and banks nothing.
\<close>

theorem profit_split_conservative:
  assumes "compute_profit_allocation ts pid bid qid recycle bank = Inr r"
  shows "of_int (recyclable_profit r) + of_int (banked_profit r) + retained_profit r = realized_profit r \<and>
    0 \<le> recyclable_profit r \<and> 0 \<le> banked_profit r \<and> 0 \<le> retained_profit r \<and>
    of_int (recyclable_profit r) \<le> realized_profit r * recycle \<and>
    of_int (banked_profit r) \<le> realized_profit r * bank \<and>
    (realized_pnl r \<le> 0 \<longrightarrow> recyclable_profit r = 0 \<and> banked_profit r = 0) \<and>
    realized_profit r - realized_loss r = realized_pnl r"
proof -
  from assms obtain a :: pnl_acc where a: "realized_pnl r = acc_realized a"
    "realized_profit r = max (acc_realized a) 0" "realized_loss r = max (- acc_realized a) 0"
    "recyclable_profit r = floor_fraction (realized_profit r * recycle)"
    "banked_profit r = floor_fraction (realized_profit r * bank)"
    "retained_profit r = realized_profit r - of_int (recyclable_profit r) - of_int (banked_profit r)"
    and rt: "0 \<le> recycle" "0 \<le> bank" "recycle + bank \<le> 1"
    by (rule allocation_cases)
  let ?p = "realized_profit r"
  have p: "0 \<le> ?p" using a(2) by simp
  have le: "of_int (recyclable_profit r) \<le> ?p * recycle" "of_int (banked_profit r) \<le> ?p * bank"
    using a(4,5) by (simp_all add: floor_fraction_floor)
  have "?p * recycle + ?p * bank \<le> ?p"
    using mult_left_mono [OF rt(3) p] by (simp add: distrib_left)
  then have ret: "0 \<le> retained_profit r" using a(6) le by simp
  have nn: "0 \<le> recyclable_profit r" "0 \<le> banked_profit r"
    using a(4,5) p rt by (simp_all add: floor_fraction_floor)
  have zero: "realized_pnl r \<le> 0 \<longrightarrow> recyclable_profit r = 0 \<and> banked_profit r = 0"
    using a(1,2,4,5) by (auto simp: floor_fraction_floor)
  show ?thesis using le ret nn zero a(1,2,3,6) by simp
qed

text \<open>
  A new entry is admitted exactly when every count is strictly below its ceiling, so
  admitting one more position cannot push any count above its ceiling.
\<close>

theorem new_entry_admitted_iff:
  "assert_new_entry_concurrency c s = Inr () \<longleftrightarrow>
     open_positions_global s + 1 \<le> max_open_positions_global c \<and>
     open_positions_network s + 1 \<le> max_open_positions_per_network c \<and>
     open_positions_instrument s + 1 \<le> max_open_positions_per_instrument c \<and>
     in_flight_entries s + 1 \<le> max_in_flight_entries c"
  by (auto simp: assert_new_entry_concurrency_def concurrency_failures_def)

text \<open>
  Narrowing keeps the price: any output that meets the floor of a smaller input
  executes at a price within the limit the full bounds were built for.
\<close>

theorem narrowed_price_within_limit:
  assumes "build_bounds p l now_epoch_s held = Inr b"
    and "prorated_min_output_atomic b input = Inr m" "m \<le> out" "0 < out"
  shows "price_within (lv_side l)
    (executed_price (lv_side l) input out (decimals (base p)) (decimals (quote_instrument p)))
    (leg_limit_price p l)"
proof -
  from assms(1) obtain mo: "min_output_atomic (lv_side l) (max_input_atomic b) (leg_limit_price p l)
       (decimals (base p)) (decimals (quote_instrument p)) = Inr (eb_min_output_atomic b)"
    and pos: "0 < max_input_atomic b" "0 < eb_min_output_atomic b"
    by (rule build_bounds_cases)
  have inp: "0 < input" and c: "ceil_div (eb_min_output_atomic b * input) (max_input_atomic b) = Inr m"
    using assms(2) by (auto simp: prorated_min_output_atomic_def split: if_splits)
  have "eb_min_output_atomic b * input \<le> out * max_input_atomic b"
    using ceil_div_le_iff [OF c] assms(3) by blast
  then show ?thesis
    using min_output_price_iff [OF mo pos] pos inp assms(4)
    by (intro price_within_scaled [OF _ _ pos inp assms(4)]) simp_all
qed

subsection \<open>Concrete runs\<close>

definition sample_trades :: "ExecutedTradeV0 list" where
  "sample_trades =
     [\<lparr>tr_position_id = ''p'', tr_base_instrument_id = ''b'', tr_quote_instrument_id = ''q'',
       tr_side = BUY, base_atomic = 10, quote_atomic = 100, external_cost_quote_atomic = 10\<rparr>,
      \<lparr>tr_position_id = ''p'', tr_base_instrument_id = ''b'', tr_quote_instrument_id = ''q'',
       tr_side = SELL, base_atomic = 5, quote_atomic = 80, external_cost_quote_atomic = 4\<rparr>]"

definition sample_allocation :: ProfitAllocationV0 where
  "sample_allocation = \<lparr>pa_position_id = ''p'', pa_base_instrument_id = ''b'', pa_quote_instrument_id = ''q'',
     realized_pnl = 21, realized_profit = 21, realized_loss = 0, remaining_inventory = 5,
     remaining_cost_basis = 55, recyclable_profit = 21, banked_profit = 0, retained_profit = 0,
     external_cost = 14\<rparr>"

lemma sample_allocation_run:
  "compute_profit_allocation sample_trades ''p'' ''b'' ''q'' 1 0 = Inr sample_allocation"
  by (simp add: compute_profit_allocation_def sample_trades_def sample_allocation_def unit_ratio_def
      trade_step_def pnl_start_def floor_fraction_def)

theorem profit_conservation_witness: "realized_pnl sample_allocation = of_int (- 34) + 55"
  using profit_conservation [OF sample_allocation_run]
  by (simp add: sample_trades_def sample_allocation_def make_trade_def quote_flow_def)

theorem profit_split_conservative_witness: "recyclable_profit sample_allocation = 21 \<and> 0 \<le> retained_profit sample_allocation"
  using profit_split_conservative [OF sample_allocation_run] by (simp add: sample_allocation_def)

theorem narrowed_price_within_limit_witness: "price_within BUY (executed_price BUY 50 25 0 0) 2"
proof -
  have "prorated_min_output_atomic sample_buy_bounds 50 = Inr 25"
    by (simp add: prorated_min_output_atomic_def sample_buy_bounds_def)
  from narrowed_price_within_limit [OF sample_build_bounds this, of 25] show ?thesis
    by (simp add: sample_defs leg_limit_price_def)
qed

end
