(* ===== verification/Policy.thy ===== *)
theory Policy
  imports Domain
begin

text \<open>
  The strict policy reader of \<open>qntyspot/policy.py\<close>: an object is consumed key by key and a
  left-over key is an error, every section is checked in the order of the source, and the
  canonical form the policy is identified by is rebuilt from the admitted values.
\<close>

subsection \<open>Objects consumed key by key\<close>

text \<open>\<open>_Obj\<close>: the members not yet taken. \<open>take\<close> pops a member or fails.\<close>

type_synonym Obj = "(string \<times> json) list"

definition rbind2 :: "'e + 'a \<times> 'b \<Rightarrow> ('a \<Rightarrow> 'b \<Rightarrow> 'e + 'c) \<Rightarrow> 'e + 'c" where
  "rbind2 r f = rbind r (\<lambda>p. f (fst p) (snd p))"

lemma rbind2_simps [simp]: "rbind2 (Inr (x, y)) f = f x y" "rbind2 (Inl e) f = Inl e"
  by (simp_all add: rbind2_def)

lemma rbind2_eq_Inr [res_simps]: "rbind2 r f = Inr z \<longleftrightarrow> (\<exists>x y. r = Inr (x, y) \<and> f x y = Inr z)"
  by (cases r) (auto simp: rbind2_def)

definition Obj :: "json \<Rightarrow> error + Obj" where
  "Obj raw = (case raw of JObj kvs \<Rightarrow> Inr kvs | _ \<Rightarrow> Inl PolicySchemaError)"

fun drop_key :: "string \<Rightarrow> Obj \<Rightarrow> Obj" where
  "drop_key k [] = []"
| "drop_key k ((k', v) # obj) = (if k' = k then drop_key k obj else (k', v) # drop_key k obj)"

definition take_key :: "string \<Rightarrow> Obj \<Rightarrow> error + json \<times> Obj" where
  "take_key k obj = (case map_of obj k of None \<Rightarrow> Inl PolicySchemaError
                     | Some v \<Rightarrow> Inr (v, drop_key k obj))"

definition take_optional :: "string \<Rightarrow> Obj \<Rightarrow> json option \<times> Obj" where
  "take_optional k obj = (map_of obj k, drop_key k obj)"

definition done_obj :: "Obj \<Rightarrow> error + unit" where
  "done_obj obj = require (obj = []) PolicySchemaError"

text \<open>\<open>f(obj.take(key))\<close>.\<close>

definition take_with :: "(json \<Rightarrow> error + 'a) \<Rightarrow> string \<Rightarrow> Obj \<Rightarrow> error + 'a \<times> Obj" where
  "take_with f k obj = rbind2 (take_key k obj) (\<lambda>raw obj'. rbind (f raw) (\<lambda>x. Inr (x, obj')))"

subsection \<open>Values\<close>

definition policy_int :: "int \<Rightarrow> int \<Rightarrow> json \<Rightarrow> error + int" where
  "policy_int minimum maximum value =
     (case value of
        JInt n \<Rightarrow> if minimum \<le> n \<and> n \<le> maximum then Inr n else Inl PolicySchemaError
      | _ \<Rightarrow> Inl PolicySchemaError)"

definition policy_bps :: "json \<Rightarrow> error + int" where
  "policy_bps = policy_int 0 BPS_DENOMINATOR"

definition policy_decimal :: "bool \<Rightarrow> json \<Rightarrow> error + rat" where
  "policy_decimal allow_zero value =
     rbind (parse_canonical_decimal value) (\<lambda>frac.
       if frac = 0 \<and> \<not> allow_zero then Inl PolicySchemaError else Inr frac)"

definition policy_text :: "nat \<Rightarrow> json \<Rightarrow> error + string" where
  "policy_text max_len value =
     (case value of
        JStr s \<Rightarrow>
          if s = [] \<or> strip s \<noteq> s then Inl PolicySchemaError
          else if length s > max_len then Inl PolicySchemaError
          else Inr s
      | _ \<Rightarrow> Inl PolicySchemaError)"

text \<open>\<open>Enum(_text(value))\<close> with the \<open>ValueError\<close> turned into the schema's error.\<close>

definition text_enum :: "(json \<Rightarrow> error + 'a) \<Rightarrow> json \<Rightarrow> error + 'a" where
  "text_enum enum value =
     on_value_error PolicySchemaError (rbind (policy_text 128 value) (\<lambda>s. enum (JStr s)))"

definition policy_instrument :: "json \<Rightarrow> error + InstrumentV0" where
  "policy_instrument raw =
     rbind (Obj raw) (\<lambda>obj.
     rbind2 (take_with parse_instrument_ref ''ref'' obj) (\<lambda>r obj.
     rbind2 (take_with (policy_int 0 36) ''decimals'' obj) (\<lambda>d obj.
     case take_optional ''asset_class'' obj of (asset_class_raw, obj) \<Rightarrow>
     case take_optional ''display_symbol'' obj of (symbol_raw, obj) \<Rightarrow>
     rbind (done_obj obj) (\<lambda>_.
     rbind (case asset_class_raw of None \<Rightarrow> Inr FUNGIBLE | Some v \<Rightarrow> text_enum AssetClass_of v) (\<lambda>ac.
     rbind (case symbol_raw of None \<Rightarrow> Inr None
            | Some v \<Rightarrow> rbind (policy_text 64 v) (\<lambda>s. Inr (Some s))) (\<lambda>symbol.
       make_instrument r d ac symbol))))))"

subsection \<open>Ladders\<close>

definition MAX_LEVELS_PER_LADDER :: nat where
  "MAX_LEVELS_PER_LADDER = 64"

definition policy_level :: "LadderKind \<Rightarrow> Side \<Rightarrow> nat \<Rightarrow> string list \<Rightarrow> json \<Rightarrow> error + LadderLevelV0" where
  "policy_level kind side index seen raw =
     rbind (Obj raw) (\<lambda>lobj.
     rbind2 (take_with (policy_text 64) ''level_id'' lobj) (\<lambda>lid lobj.
     rbind (require (lid \<notin> set seen) PolicySchemaError) (\<lambda>_.
     rbind2 (take_with (policy_decimal False) ''trigger_price'' lobj) (\<lambda>trigger lobj.
     rbind2 (case kind of
               ENTRY \<Rightarrow> rbind2 (take_with (policy_decimal False) ''input_amount'' lobj) (\<lambda>a lobj.
                          Inr ((Some a, None), lobj))
             | EXIT \<Rightarrow> rbind2 (take_with (policy_decimal False) ''input_ratio'' lobj) (\<lambda>r lobj.
                         if r > 1 then Inl PolicySchemaError else Inr ((None, Some r), lobj))) (\<lambda>sizes lobj.
     rbind (done_obj lobj) (\<lambda>_.
       make_level \<lparr>lv_level_id = lid, lv_kind = kind, lv_side = side, lv_index = index,
         lv_trigger_price = trigger, lv_input_amount = fst sizes, lv_input_ratio = snd sizes\<rparr>))))))"

fun policy_levels :: "LadderKind \<Rightarrow> Side \<Rightarrow> nat \<Rightarrow> string list \<Rightarrow> json list \<Rightarrow>
    error + LadderLevelV0 list \<times> string list" where
  "policy_levels kind side index seen [] = Inr ([], seen)"
| "policy_levels kind side index seen (raw # raws) =
     rbind (policy_level kind side index seen raw) (\<lambda>l.
     rbind2 (policy_levels kind side (Suc index) (lv_level_id l # seen) raws) (\<lambda>ls seen'.
       Inr (l # ls, seen')))"

definition policy_ladder :: "LadderKind \<Rightarrow> Side \<Rightarrow> string list \<Rightarrow> json \<Rightarrow>
    error + LadderV0 \<times> string list" where
  "policy_ladder kind side seen raw =
     rbind (Obj raw) (\<lambda>obj.
     rbind2 (take_key ''levels'' obj) (\<lambda>levels_raw obj.
     rbind (done_obj obj) (\<lambda>_.
     case levels_raw of
       JList raws \<Rightarrow>
         if raws = [] then Inl PolicySchemaError
         else if length raws > MAX_LEVELS_PER_LADDER then Inl PolicySchemaError
         else rbind2 (policy_levels kind side 0 seen raws) (\<lambda>ls seen'.
                rbind (make_ladder kind side ls) (\<lambda>ld. Inr (ld, seen')))
     | _ \<Rightarrow> Inl PolicySchemaError)))"

subsection \<open>Sections\<close>

text \<open>The \<open>capital\<close> section, in quote units as it was written.\<close>

record Capital =
  cap_allocation :: rat
  cap_per_order :: rat
  cap_per_instrument :: rat
  cap_per_network :: rat
  cap_global :: rat
  cap_reserved_cash :: rat

definition policy_capital :: "json \<Rightarrow> error + Capital" where
  "policy_capital raw =
     rbind (Obj raw) (\<lambda>cap.
     rbind2 (take_with (policy_decimal False) ''allocation_quote'' cap) (\<lambda>allocation cap.
     rbind2 (take_with (policy_decimal False) ''per_order_cap_quote'' cap) (\<lambda>per_order cap.
     rbind2 (take_with (policy_decimal False) ''per_instrument_cap_quote'' cap) (\<lambda>per_instrument cap.
     rbind2 (take_with (policy_decimal False) ''per_network_cap_quote'' cap) (\<lambda>per_network cap.
     rbind2 (take_with (policy_decimal False) ''global_portfolio_cap_quote'' cap) (\<lambda>global_cap cap.
     rbind2 (take_with (policy_decimal True) ''reserved_cash_quote'' cap) (\<lambda>reserved_cash cap.
     rbind (done_obj cap) (\<lambda>_.
       Inr \<lparr>cap_allocation = allocation, cap_per_order = per_order,
            cap_per_instrument = per_instrument, cap_per_network = per_network,
            cap_global = global_cap, cap_reserved_cash = reserved_cash\<rparr>))))))))"

definition capital_budget :: "Capital \<Rightarrow> int \<Rightarrow> error + PortfolioBudgetV0" where
  "capital_budget c qd =
     rbind (to_atomic (cap_allocation c) qd) (\<lambda>allocation.
     rbind (to_atomic (cap_per_order c) qd) (\<lambda>per_order.
     rbind (to_atomic (cap_per_instrument c) qd) (\<lambda>per_instrument.
     rbind (to_atomic (cap_per_network c) qd) (\<lambda>per_network.
     rbind (to_atomic (cap_global c) qd) (\<lambda>global_cap.
     rbind (to_atomic (cap_reserved_cash c) qd) (\<lambda>reserved_cash.
       make_budget \<lparr>allocation_atomic = allocation, per_order_cap_atomic = per_order,
         per_instrument_cap_atomic = per_instrument, per_network_cap_atomic = per_network,
         global_cap_atomic = global_cap, reserved_cash_atomic = reserved_cash\<rparr>))))))"

record Limits =
  lim_max_executable_price :: rat
  lim_min_executable_price :: rat
  lim_max_price_impact_bps :: int
  lim_max_slippage_bps :: int

definition policy_limits :: "json \<Rightarrow> error + Limits" where
  "policy_limits raw =
     rbind (Obj raw) (\<lambda>lim.
     rbind2 (take_with (policy_decimal False) ''max_executable_price'' lim) (\<lambda>mx lim.
     rbind2 (take_with (policy_decimal False) ''min_executable_price'' lim) (\<lambda>mn lim.
     rbind2 (take_with policy_bps ''max_price_impact_bps'' lim) (\<lambda>impact lim.
     rbind2 (take_with policy_bps ''max_slippage_bps'' lim) (\<lambda>slippage lim.
     rbind (done_obj lim) (\<lambda>_.
     rbind (require (\<not> mn > mx) PolicySchemaError) (\<lambda>_.
       Inr \<lparr>lim_max_executable_price = mx, lim_min_executable_price = mn,
            lim_max_price_impact_bps = impact, lim_max_slippage_bps = slippage\<rparr>)))))))"

definition MAX_EPOCH_S :: int where
  "MAX_EPOCH_S = 4102444800"

record Timing =
  tim_valid_from :: int
  tim_expiry :: int
  tim_quote_ttl :: int

definition policy_timing :: "json \<Rightarrow> error + Timing" where
  "policy_timing raw =
     rbind (Obj raw) (\<lambda>tim.
     rbind2 (take_with (policy_int 0 MAX_EPOCH_S) ''valid_from_epoch_s'' tim) (\<lambda>valid_from tim.
     rbind2 (take_with (policy_int 0 MAX_EPOCH_S) ''expiry_epoch_s'' tim) (\<lambda>expiry tim.
     rbind2 (take_with (policy_int 1 86400) ''quote_ttl_s'' tim) (\<lambda>ttl tim.
     rbind (done_obj tim) (\<lambda>_.
     rbind (require (\<not> expiry \<le> valid_from) PolicySchemaError) (\<lambda>_.
       Inr \<lparr>tim_valid_from = valid_from, tim_expiry = expiry, tim_quote_ttl = ttl\<rparr>))))))"

record Reentry =
  ree_max_cycles :: int
  ree_hysteresis_bps :: int
  ree_cooldown_s :: int

definition policy_reentry :: "json \<Rightarrow> error + Reentry" where
  "policy_reentry raw =
     rbind (Obj raw) (\<lambda>ree.
     rbind2 (take_with (policy_int 1 10000) ''max_cycles'' ree) (\<lambda>cycles ree.
     rbind2 (take_with policy_bps ''rearm_hysteresis_bps'' ree) (\<lambda>hyst ree.
     rbind2 (take_with (policy_int 0 MAX_EPOCH_S) ''rearm_cooldown_s'' ree) (\<lambda>cooldown ree.
     rbind (done_obj ree) (\<lambda>_.
       Inr \<lparr>ree_max_cycles = cycles, ree_hysteresis_bps = hyst, ree_cooldown_s = cooldown\<rparr>)))))"

text \<open>The optional \<open>recycling\<close> section; absent, both ratios are zero.\<close>

definition policy_recycling :: "json option \<Rightarrow> error + rat \<times> rat" where
  "policy_recycling raw =
     (case raw of
        None \<Rightarrow> Inr (0, 0)
      | Some v \<Rightarrow>
          rbind (Obj v) (\<lambda>rec.
          rbind2 (take_with (policy_decimal True) ''profit_recycle_ratio'' rec) (\<lambda>recycle rec.
          rbind2 (take_with (policy_decimal True) ''banked_profit_ratio'' rec) (\<lambda>banked rec.
          rbind (done_obj rec) (\<lambda>_.
          rbind (require (\<not> recycle + banked > 1) PolicySchemaError) (\<lambda>_.
            Inr (recycle, banked)))))))"

subsection \<open>Cross-field checks and the canonical form\<close>

definition require_le :: "rat \<Rightarrow> rat \<Rightarrow> error + unit" where
  "require_le a b = require (\<not> a > b) PolicySchemaError"

definition cross_field_checks ::
  "Side \<Rightarrow> LadderV0 \<Rightarrow> LadderV0 \<Rightarrow> int \<Rightarrow> PortfolioBudgetV0 \<Rightarrow> Limits \<Rightarrow> error + unit" where
  "cross_field_checks side entry exit qd bud lims =
     (case side of
        BUY \<Rightarrow>
          rbind (check_all (\<lambda>l.
            rbind (to_atomic (the (lv_input_amount l)) qd) (\<lambda>level_atomic.
            rbind (require (\<not> level_atomic > per_order_cap_atomic bud) PolicySchemaError) (\<lambda>_.
              require_le (lv_trigger_price l) (lim_max_executable_price lims)))) (ld_levels entry)) (\<lambda>_.
          check_all (\<lambda>l. require_le (lim_min_executable_price lims) (lv_trigger_price l)) (ld_levels exit))
      | SELL \<Rightarrow>
          rbind (check_all (\<lambda>l. require_le (lim_min_executable_price lims) (lv_trigger_price l))
            (ld_levels entry)) (\<lambda>_.
          check_all (\<lambda>l. require_le (lv_trigger_price l) (lim_max_executable_price lims)) (ld_levels exit)))"

definition capital_canonical :: "Capital \<Rightarrow> error + json" where
  "capital_canonical c =
     rbind (jdecimal (cap_allocation c)) (\<lambda>allocation.
     rbind (jdecimal (cap_per_order c)) (\<lambda>per_order.
     rbind (jdecimal (cap_per_instrument c)) (\<lambda>per_instrument.
     rbind (jdecimal (cap_per_network c)) (\<lambda>per_network.
     rbind (jdecimal (cap_global c)) (\<lambda>global_cap.
     rbind (jdecimal (cap_reserved_cash c)) (\<lambda>reserved_cash.
       Inr (JObj [(''allocation_quote'', allocation), (''per_order_cap_quote'', per_order),
         (''per_instrument_cap_quote'', per_instrument), (''per_network_cap_quote'', per_network),
         (''global_portfolio_cap_quote'', global_cap), (''reserved_cash_quote'', reserved_cash)])))))))"

definition limits_canonical :: "Limits \<Rightarrow> error + json" where
  "limits_canonical l =
     rbind (jdecimal (lim_max_executable_price l)) (\<lambda>mx.
     rbind (jdecimal (lim_min_executable_price l)) (\<lambda>mn.
       Inr (JObj [(''max_executable_price'', mx), (''min_executable_price'', mn),
         (''max_price_impact_bps'', JInt (lim_max_price_impact_bps l)),
         (''max_slippage_bps'', JInt (lim_max_slippage_bps l))])))"

definition timing_canonical :: "Timing \<Rightarrow> json" where
  "timing_canonical t =
     JObj [(''valid_from_epoch_s'', JInt (tim_valid_from t)),
       (''expiry_epoch_s'', JInt (tim_expiry t)), (''quote_ttl_s'', JInt (tim_quote_ttl t))]"

definition reentry_canonical :: "Reentry \<Rightarrow> json" where
  "reentry_canonical r =
     JObj [(''max_cycles'', JInt (ree_max_cycles r)),
       (''rearm_hysteresis_bps'', JInt (ree_hysteresis_bps r)),
       (''rearm_cooldown_s'', JInt (ree_cooldown_s r))]"

definition recycling_canonical :: "rat \<Rightarrow> rat \<Rightarrow> error + json" where
  "recycling_canonical recycle banked =
     rbind (jdecimal recycle) (\<lambda>a. rbind (jdecimal banked) (\<lambda>b.
       Inr (JObj [(''profit_recycle_ratio'', a), (''banked_profit_ratio'', b)])))"

subsection \<open>The policy\<close>

definition POLICY_SCHEMA_ID :: string where
  "POLICY_SCHEMA_ID = ''qntyspot.policy.v0''"

text \<open>The instruments: distinct, in one namespace and on one network.\<close>

definition pair_checks :: "InstrumentV0 \<Rightarrow> InstrumentV0 \<Rightarrow> error + unit" where
  "pair_checks bas quo =
     (if instrument_id bas = instrument_id quo then Inl PolicySchemaError
      else if namespace (ref bas) \<noteq> namespace (ref quo) then Inl PolicySchemaError
      else if network_id bas \<noteq> network_id quo then Inl PolicySchemaError
      else Inr ())"

definition exit_ratio_check :: "LadderV0 \<Rightarrow> error + unit" where
  "exit_ratio_check exit =
     (let total = sum_list (map (\<lambda>l. the (lv_input_ratio l)) (ld_levels exit)) in
      if total > 1 then rbind (format_canonical_decimal total) (\<lambda>_. Inl PolicySchemaError)
      else Inr ())"

text \<open>Everything \<open>parse_policy\<close> has read once the document is consumed.\<close>

record Parts =
  pt_name :: string
  pt_side :: Side
  pt_base :: InstrumentV0
  pt_quote :: InstrumentV0
  pt_entry :: LadderV0
  pt_exit :: LadderV0
  pt_capital :: Capital
  pt_budget :: PortfolioBudgetV0
  pt_limits :: Limits
  pt_timing :: Timing
  pt_reentry :: Reentry
  pt_recycle :: rat
  pt_banked :: rat

definition policy_parts :: "json \<Rightarrow> error + Parts" where
  "policy_parts raw =
     rbind (Obj raw) (\<lambda>root.
     rbind2 (take_with (policy_text 128) ''schema'' root) (\<lambda>schema root.
     rbind (require (schema = POLICY_SCHEMA_ID) PolicySchemaError) (\<lambda>_.
     rbind2 (take_with (policy_text 128) ''policy_name'' root) (\<lambda>name root.
     rbind2 (take_with (text_enum Side_of) ''side'' root) (\<lambda>side root.
     rbind2 (take_with policy_instrument ''base'' root) (\<lambda>bas root.
     rbind2 (take_with policy_instrument ''quote'' root) (\<lambda>quo root.
     rbind (pair_checks bas quo) (\<lambda>_.
     rbind2 (take_with (policy_ladder ENTRY side []) ''entry_ladder'' root) (\<lambda>entry_seen root.
     rbind2 (take_with (policy_ladder EXIT (opposite side) (snd entry_seen)) ''exit_ladder'' root) (\<lambda>exit_seen root.
     rbind (exit_ratio_check (fst exit_seen)) (\<lambda>_.
     rbind2 (take_with policy_capital ''capital'' root) (\<lambda>cap root.
     rbind (capital_budget cap (decimals quo)) (\<lambda>bud.
     rbind2 (take_with policy_limits ''limits'' root) (\<lambda>lim root.
     rbind2 (take_with policy_timing ''timing'' root) (\<lambda>tim root.
     rbind2 (take_with policy_reentry ''reentry'' root) (\<lambda>ree root.
     case take_optional ''recycling'' root of (recycling_raw, root) \<Rightarrow>
     rbind2 (policy_recycling recycling_raw) (\<lambda>recycle banked.
     rbind (done_obj root) (\<lambda>_.
     rbind (cross_field_checks side (fst entry_seen) (fst exit_seen) (decimals quo) bud lim) (\<lambda>_.
       Inr \<lparr>pt_name = name, pt_side = side, pt_base = bas, pt_quote = quo,
            pt_entry = fst entry_seen, pt_exit = fst exit_seen, pt_capital = cap, pt_budget = bud,
            pt_limits = lim, pt_timing = tim, pt_reentry = ree,
            pt_recycle = recycle, pt_banked = banked\<rparr>)))))))))))))))))))"

definition parts_canonical :: "Parts \<Rightarrow> error + json" where
  "parts_canonical p =
     rbind (ladder_canonical_object (pt_entry p)) (\<lambda>entry.
     rbind (ladder_canonical_object (pt_exit p)) (\<lambda>exit.
     rbind (capital_canonical (pt_capital p)) (\<lambda>cap.
     rbind (limits_canonical (pt_limits p)) (\<lambda>lim.
     rbind (recycling_canonical (pt_recycle p) (pt_banked p)) (\<lambda>rec.
       Inr (JObj [(''schema'', JStr POLICY_SCHEMA_ID), (''policy_name'', JStr (pt_name p)),
         (''side'', JStr (Side_value (pt_side p))),
         (''base'', policy_object (pt_base p)), (''quote'', policy_object (pt_quote p)),
         (''entry_ladder'', entry), (''exit_ladder'', exit), (''capital'', cap), (''limits'', lim),
         (''timing'', timing_canonical (pt_timing p)), (''reentry'', reentry_canonical (pt_reentry p)),
         (''recycling'', rec)]))))))"

definition parts_policy :: "Parts \<Rightarrow> json \<Rightarrow> PolicyV0" where
  "parts_policy p canon =
     \<lparr>policy_name = pt_name p, base = pt_base p, quote_instrument = pt_quote p,
      pol_side = pt_side p, entry_ladder = pt_entry p, exit_ladder = pt_exit p,
      budget = pt_budget p,
      max_executable_price = lim_max_executable_price (pt_limits p),
      min_executable_price = lim_min_executable_price (pt_limits p),
      max_price_impact_bps = lim_max_price_impact_bps (pt_limits p),
      max_slippage_bps = lim_max_slippage_bps (pt_limits p),
      valid_from_epoch_s = tim_valid_from (pt_timing p), expiry_epoch_s = tim_expiry (pt_timing p),
      quote_ttl_s = tim_quote_ttl (pt_timing p),
      max_cycles = ree_max_cycles (pt_reentry p),
      rearm_hysteresis_bps = ree_hysteresis_bps (pt_reentry p),
      rearm_cooldown_s = ree_cooldown_s (pt_reentry p),
      profit_recycle_ratio = pt_recycle p, banked_profit_ratio = pt_banked p,
      canonical = canon\<rparr>"

definition parse_policy :: "json \<Rightarrow> error + PolicyV0" where
  "parse_policy raw =
     rbind (policy_parts raw) (\<lambda>p. rbind (parts_canonical p) (\<lambda>canon. Inr (parts_policy p canon)))"

subsection \<open>Admitted values are read back from what they print\<close>

lemma take_with_simps [simp]:
  "take_with f k ((k, v) # obj) = rbind (f v) (\<lambda>x. Inr (x, drop_key k obj))"
  by (simp add: take_with_def take_key_def)

text \<open>A value some document reads as \<open>x\<close>.\<close>

definition reads :: "(json \<Rightarrow> error + 'a) \<Rightarrow> 'a \<Rightarrow> bool" where
  "reads f x \<longleftrightarrow> (\<exists>v. f v = Inr x)"

lemma reads_int: "reads (policy_int a b) n \<Longrightarrow> policy_int a b (JInt n) = Inr n"
  unfolding reads_def
  apply (elim exE)
  subgoal for v by (cases v) (auto simp: policy_int_def split: if_splits)
  done

lemma reads_bps: "reads policy_bps n \<Longrightarrow> policy_bps (JInt n) = Inr n"
  by (simp add: policy_bps_def reads_int)

lemma reads_text: "reads (policy_text m) s \<Longrightarrow> policy_text m (JStr s) = Inr s"
  unfolding reads_def
  apply (elim exE)
  subgoal for v by (cases v) (auto simp: policy_text_def split: if_splits)
  done

lemma reads_decimal:
  "reads (policy_decimal z) x \<Longrightarrow> jdecimal x = Inr j \<Longrightarrow> policy_decimal z j = Inr x"
  by (auto simp: reads_def policy_decimal_def res_simps jdecimal_parse split: if_splits)

lemma take_withD: "take_with f k obj = Inr (x, obj') \<Longrightarrow> reads f x"
  by (auto simp: reads_def take_with_def res_simps)

lemma parse_decimal_nonneg: "parse_decimal_text s = Inr v \<Longrightarrow> 0 \<le> v"
  by (auto simp: parse_decimal_text_def Let_def py_int_def split: if_splits)

lemma policy_decimal_pos:
  "policy_decimal z v = Inr x \<Longrightarrow> 0 \<le> x \<and> (\<not> z \<longrightarrow> 0 < x)"
  by (cases v) (auto simp: policy_decimal_def res_simps parse_decimal_nonneg less_le
      split: if_splits)

text \<open>The section readers, inverted once.\<close>

lemma policy_capital_reads:
  assumes "policy_capital raw = Inr c"
  shows "reads (policy_decimal False) (cap_allocation c)" "reads (policy_decimal False) (cap_per_order c)"
    "reads (policy_decimal False) (cap_per_instrument c)" "reads (policy_decimal False) (cap_per_network c)"
    "reads (policy_decimal False) (cap_global c)" "reads (policy_decimal True) (cap_reserved_cash c)"
  using assms unfolding policy_capital_def by (auto simp: res_simps dest!: take_withD)

lemma policy_capital_reread:
  assumes "policy_capital raw = Inr c" "capital_canonical c = Inr j"
  shows "policy_capital j = Inr c"
proof -
  obtain a b d e f g where
    j: "jdecimal (cap_allocation c) = Inr a" "jdecimal (cap_per_order c) = Inr b"
      "jdecimal (cap_per_instrument c) = Inr d" "jdecimal (cap_per_network c) = Inr e"
      "jdecimal (cap_global c) = Inr f" "jdecimal (cap_reserved_cash c) = Inr g"
    and eq: "j = JObj [(''allocation_quote'', a), (''per_order_cap_quote'', b),
         (''per_instrument_cap_quote'', d), (''per_network_cap_quote'', e),
         (''global_portfolio_cap_quote'', f), (''reserved_cash_quote'', g)]"
    using assms(2) by (auto simp: capital_canonical_def res_simps)
  note r = policy_capital_reads [OF assms(1)]
  show ?thesis
    by (simp add: eq policy_capital_def Obj_def done_obj_def reads_decimal [OF r(1) j(1)]
        reads_decimal [OF r(2) j(2)] reads_decimal [OF r(3) j(3)] reads_decimal [OF r(4) j(4)]
        reads_decimal [OF r(5) j(5)] reads_decimal [OF r(6) j(6)])
qed

lemma policy_limits_reads:
  assumes "policy_limits raw = Inr l"
  shows "reads (policy_decimal False) (lim_max_executable_price l)"
    "reads (policy_decimal False) (lim_min_executable_price l)"
    "reads policy_bps (lim_max_price_impact_bps l)" "reads policy_bps (lim_max_slippage_bps l)"
    "lim_min_executable_price l \<le> lim_max_executable_price l"
  using assms unfolding policy_limits_def by (auto simp: res_simps dest!: take_withD)

lemma policy_limits_reread:
  assumes "policy_limits raw = Inr l" "limits_canonical l = Inr j"
  shows "policy_limits j = Inr l"
proof -
  obtain a b where
    j: "jdecimal (lim_max_executable_price l) = Inr a" "jdecimal (lim_min_executable_price l) = Inr b"
    and eq: "j = JObj [(''max_executable_price'', a), (''min_executable_price'', b),
         (''max_price_impact_bps'', JInt (lim_max_price_impact_bps l)),
         (''max_slippage_bps'', JInt (lim_max_slippage_bps l))]"
    using assms(2) by (auto simp: limits_canonical_def res_simps)
  note r = policy_limits_reads [OF assms(1)]
  show ?thesis
    using r(5) by (simp add: eq policy_limits_def Obj_def done_obj_def reads_decimal [OF r(1) j(1)]
        reads_decimal [OF r(2) j(2)] reads_bps [OF r(3)] reads_bps [OF r(4)] not_less)
qed

lemma policy_timing_reads:
  assumes "policy_timing raw = Inr t"
  shows "reads (policy_int 0 MAX_EPOCH_S) (tim_valid_from t)"
    "reads (policy_int 0 MAX_EPOCH_S) (tim_expiry t)" "reads (policy_int 1 86400) (tim_quote_ttl t)"
    "tim_valid_from t < tim_expiry t"
  using assms unfolding policy_timing_def by (auto simp: res_simps dest!: take_withD)

lemma policy_timing_reread:
  assumes "policy_timing raw = Inr t"
  shows "policy_timing (timing_canonical t) = Inr t"
  using policy_timing_reads [OF assms]
  by (simp add: timing_canonical_def policy_timing_def Obj_def done_obj_def reads_int)

lemma policy_reentry_reads:
  assumes "policy_reentry raw = Inr r"
  shows "reads (policy_int 1 10000) (ree_max_cycles r)"
    "reads policy_bps (ree_hysteresis_bps r)" "reads (policy_int 0 MAX_EPOCH_S) (ree_cooldown_s r)"
  using assms unfolding policy_reentry_def by (auto simp: res_simps dest!: take_withD)

lemma policy_reentry_reread:
  assumes "policy_reentry raw = Inr r"
  shows "policy_reentry (reentry_canonical r) = Inr r"
  using policy_reentry_reads [OF assms]
  by (simp add: reentry_canonical_def policy_reentry_def Obj_def done_obj_def reads_int reads_bps)

lemma decimal_zero: "reads (policy_decimal True) 0"
  using parse_plain_int [of "''0''"]
  by (auto simp: reads_def policy_decimal_def int_part_ok_def canon_digits_def MAX_INT_DIGITS_def
      digit_val_def intro!: exI [of _ "JStr ''0''"])

lemma policy_recycling_reads:
  assumes "policy_recycling raw = Inr (a, b)"
  shows "reads (policy_decimal True) a" "reads (policy_decimal True) b" "a + b \<le> 1"
  using assms decimal_zero unfolding policy_recycling_def
  by (auto simp: res_simps split: option.splits dest!: take_withD)

lemma policy_recycling_reread:
  assumes "policy_recycling raw = Inr (a, b)" "recycling_canonical a b = Inr j"
  shows "policy_recycling (Some j) = Inr (a, b)"
proof -
  obtain x y where
    j: "jdecimal a = Inr x" "jdecimal b = Inr y"
    and eq: "j = JObj [(''profit_recycle_ratio'', x), (''banked_profit_ratio'', y)]"
    using assms(2) by (auto simp: recycling_canonical_def res_simps)
  note r = policy_recycling_reads [OF assms(1)]
  show ?thesis
    using r(3) by (simp add: eq policy_recycling_def Obj_def done_obj_def reads_decimal [OF r(1) j(1)]
        reads_decimal [OF r(2) j(2)] not_less)
qed

subsection \<open>Instruments and ladders are read back\<close>

definition forget_symbol :: "InstrumentV0 \<Rightarrow> InstrumentV0" where
  "forget_symbol i = i\<lparr>display_symbol := None\<rparr>"

lemma forget_symbol_simps [simp]:
  "ref (forget_symbol i) = ref i" "decimals (forget_symbol i) = decimals i"
  "asset_class (forget_symbol i) = asset_class i" "instrument_id (forget_symbol i) = instrument_id i"
  "network_id (forget_symbol i) = network_id i" "policy_object (forget_symbol i) = policy_object i"
  "identity_digest H (forget_symbol i) = identity_digest H i"
  by (simp_all add: forget_symbol_def instrument_id_def network_id_def policy_object_def
      identity_digest_def identity_object_def)

lemma policy_instrument_reads:
  assumes "policy_instrument raw = Inr i"
  shows "ref_admitted (ref i)" "reads (policy_int 0 36) (decimals i)" "0 \<le> decimals i" "decimals i \<le> 36"
proof -
  obtain r d ac sym where *: "reads parse_instrument_ref r" "reads (policy_int 0 36) d"
      "make_instrument r d ac sym = Inr i"
    using assms by (auto simp: policy_instrument_def take_optional_def res_simps dest!: take_withD)
  then have "ref i = r" "decimals i = d" "0 \<le> decimals i" "decimals i \<le> 36"
    by (auto simp: make_instrument_def split: if_splits option.splits)
  with * show "ref_admitted (ref i)" "reads (policy_int 0 36) (decimals i)" "0 \<le> decimals i" "decimals i \<le> 36"
    by (auto simp: reads_def parse_instrument_ref_admitted)
qed

lemma asset_class_only: "asset_class (i :: InstrumentV0) = FUNGIBLE"
  by (cases "asset_class i")

lemma policy_instrument_reread:
  assumes "policy_instrument raw = Inr i"
  shows "policy_instrument (policy_object i) = Inr (forget_symbol i)"
proof -
  note r = policy_instrument_reads [OF assms]
  have "text_enum AssetClass_of (JStr ''FUNGIBLE'') = Inr FUNGIBLE"
    using enum_of_value(1) [of FUNGIBLE]
    by (simp add: text_enum_def policy_text_def strip_def is_space_def on_value_error_def)
  then show ?thesis
    using r asset_class_only [of i] by (cases i) (simp add: policy_object_def policy_instrument_def Obj_def take_optional_def
      done_obj_def identity_fields_parse reads_int make_instrument_def forget_symbol_def)
qed

text \<open>What a ladder of one side reads as.\<close>

lemma policy_level_reads:
  assumes "policy_level kind side index seen raw = Inr l"
  shows "reads (policy_text 64) (lv_level_id l)" "lv_level_id l \<notin> set seen"
    "reads (policy_decimal False) (lv_trigger_price l)"
    "lv_kind l = kind" "lv_side l = side" "lv_index l = index" "make_level l = Inr l"
    "kind = ENTRY \<Longrightarrow> \<exists>a. lv_input_amount l = Some a \<and> lv_input_ratio l = None \<and> reads (policy_decimal False) a"
    "kind = EXIT \<Longrightarrow> \<exists>r. lv_input_ratio l = Some r \<and> lv_input_amount l = None \<and> reads (policy_decimal False) r \<and> r \<le> 1"
  using assms
  by (cases kind; auto simp: policy_level_def res_simps make_level_eq_Inr split: if_splits
      dest!: take_withD)+

lemma policy_level_reread:
  assumes "policy_level kind side index seen raw = Inr l" "level_canonical_object l = Inr j"
  shows "policy_level kind side index seen j = Inr l"
proof -
  note r = policy_level_reads [OF assms(1)]
  obtain t where t: "jdecimal (lv_trigger_price l) = Inr t"
    using assms(2) by (auto simp: level_canonical_object_def res_simps)
  show ?thesis
  proof (cases kind)
    case ENTRY
    with r(8) obtain a where a: "lv_input_amount l = Some a" "lv_input_ratio l = None"
      "reads (policy_decimal False) a" by blast
    obtain ja where ja: "jdecimal a = Inr ja"
      and j: "j = JObj [(''level_id'', JStr (lv_level_id l)), (''trigger_price'', t), (''input_amount'', ja)]"
      using assms(2) t a by (auto simp: level_canonical_object_def opt_decimal_def res_simps)
    have "make_level \<lparr>lv_level_id = lv_level_id l, lv_kind = ENTRY, lv_side = side, lv_index = index,
        lv_trigger_price = lv_trigger_price l, lv_input_amount = Some a, lv_input_ratio = None\<rparr> = Inr l"
      using r(4-7) a ENTRY by (cases l) simp
    then show ?thesis
      using r(2) ENTRY
      by (simp add: j policy_level_def Obj_def done_obj_def reads_text [OF r(1)]
          reads_decimal [OF r(3) t] reads_decimal [OF a(3) ja])
  next
    case EXIT
    with r(9) obtain a where a: "lv_input_ratio l = Some a" "lv_input_amount l = None"
      "reads (policy_decimal False) a" "a \<le> 1" by blast
    obtain ja where ja: "jdecimal a = Inr ja"
      and j: "j = JObj [(''level_id'', JStr (lv_level_id l)), (''trigger_price'', t), (''input_ratio'', ja)]"
      using assms(2) t a by (auto simp: level_canonical_object_def opt_decimal_def res_simps)
    have "make_level \<lparr>lv_level_id = lv_level_id l, lv_kind = EXIT, lv_side = side, lv_index = index,
        lv_trigger_price = lv_trigger_price l, lv_input_amount = None, lv_input_ratio = Some a\<rparr> = Inr l"
      using r(4-7) a EXIT by (cases l) simp
    then show ?thesis
      using r(2) EXIT a(4)
      by (simp add: j policy_level_def Obj_def done_obj_def reads_text [OF r(1)]
          reads_decimal [OF r(3) t] reads_decimal [OF a(3) ja] not_less)
  qed
qed

lemma policy_levels_reread:
  assumes "policy_levels kind side index seen raws = Inr (ls, seen')"
    and "traverse level_canonical_object ls = Inr js"
  shows "policy_levels kind side index seen js = Inr (ls, seen') \<and> length js = length raws"
  using assms
proof (induction raws arbitrary: index seen ls js)
  case (Cons raw raws)
  from Cons.prems obtain l ls' j js' where *: "policy_level kind side index seen raw = Inr l" "ls = l # ls'"
      "policy_levels kind side (Suc index) (lv_level_id l # seen) raws = Inr (ls', seen')"
      "level_canonical_object l = Inr j" "traverse level_canonical_object ls' = Inr js'" "js = j # js'"
    by (auto simp: res_simps)
  show ?case
    using Cons.IH [OF *(3) *(5)] policy_level_reread [OF *(1) *(4)] by (simp add: *(2,6))
qed (auto simp: res_simps)

lemma policy_ladder_unfold:
  assumes "policy_ladder kind side seen raw = Inr (ld, seen')"
  obtains raws where "policy_levels kind side 0 seen raws = Inr (ld_levels ld, seen')"
    "raws \<noteq> []" "length raws \<le> MAX_LEVELS_PER_LADDER" "ld_kind ld = kind" "ld_side ld = side"
    "make_ladder kind side (ld_levels ld) = Inr ld"
proof -
  from assms obtain obj levels_raw obj' where "take_key ''levels'' obj = Inr (levels_raw, obj')"
    and body: "(case levels_raw of
       JList raws \<Rightarrow>
         if raws = [] then Inl PolicySchemaError
         else if length raws > MAX_LEVELS_PER_LADDER then Inl PolicySchemaError
         else rbind2 (policy_levels kind side 0 seen raws) (\<lambda>ls seen'.
                rbind (make_ladder kind side ls) (\<lambda>ld. Inr (ld, seen')))
     | _ \<Rightarrow> Inl PolicySchemaError) = Inr (ld, seen')"
    unfolding policy_ladder_def rbind_eq_Inr rbind2_eq_Inr by blast
  then obtain raws where raws: "levels_raw = JList raws" by (cases levels_raw) simp_all
  from body obtain ls where ls: "raws \<noteq> []" "length raws \<le> MAX_LEVELS_PER_LADDER"
      "policy_levels kind side 0 seen raws = Inr (ls, seen')" "make_ladder kind side ls = Inr ld"
    by (auto simp: raws res_simps split: if_splits)
  then have "ld_levels ld = ls" "ld_kind ld = kind" "ld_side ld = side"
    by (auto simp: make_ladder_def split: if_splits)
  with ls show thesis using that by blast
qed

lemma policy_ladder_reread:
  assumes "policy_ladder kind side seen raw = Inr (ld, seen')" "ladder_canonical_object ld = Inr j"
  shows "policy_ladder kind side seen j = Inr (ld, seen')"
proof -
  from policy_ladder_unfold [OF assms(1)] obtain raws where
    r: "policy_levels kind side 0 seen raws = Inr (ld_levels ld, seen')"
    "raws \<noteq> []" "length raws \<le> MAX_LEVELS_PER_LADDER" "make_ladder kind side (ld_levels ld) = Inr ld" .
  obtain js where js: "traverse level_canonical_object (ld_levels ld) = Inr js"
    and j: "j = JObj [(''levels'', JList js)]"
    using assms(2) by (auto simp: ladder_canonical_object_def res_simps)
  have "policy_levels kind side 0 seen js = Inr (ld_levels ld, seen') \<and> length js = length raws"
    by (rule policy_levels_reread [OF r(1) js])
  then show ?thesis
    using r(2-4) by (auto simp: j policy_ladder_def Obj_def take_key_def done_obj_def)
qed

subsection \<open>The policy is read back from its canonical form\<close>

definition forget_symbols :: "PolicyV0 \<Rightarrow> PolicyV0" where
  "forget_symbols p = p\<lparr>base := forget_symbol (base p), quote_instrument := forget_symbol (quote_instrument p)\<rparr>"

definition forget_part_symbols :: "Parts \<Rightarrow> Parts" where
  "forget_part_symbols q = q\<lparr>pt_base := forget_symbol (pt_base q), pt_quote := forget_symbol (pt_quote q)\<rparr>"

lemma policy_parts_reads:
  assumes "policy_parts raw = Inr q"
  shows "reads (policy_text 128) (pt_name q)"
    "reads policy_instrument (pt_base q)" "reads policy_instrument (pt_quote q)"
    "pair_checks (pt_base q) (pt_quote q) = Inr ()"
    "\<exists>seen seen'. reads (policy_ladder ENTRY (pt_side q) []) (pt_entry q, seen) \<and>
       reads (policy_ladder EXIT (opposite (pt_side q)) seen) (pt_exit q, seen')"
    "exit_ratio_check (pt_exit q) = Inr ()"
    "reads policy_capital (pt_capital q)"
    "capital_budget (pt_capital q) (decimals (pt_quote q)) = Inr (pt_budget q)"
    "reads policy_limits (pt_limits q)" "reads policy_timing (pt_timing q)" "reads policy_reentry (pt_reentry q)"
    "\<exists>v. policy_recycling v = Inr (pt_recycle q, pt_banked q)"
    "cross_field_checks (pt_side q) (pt_entry q) (pt_exit q) (decimals (pt_quote q)) (pt_budget q) (pt_limits q) = Inr ()"
proof -
  obtain name side bas quo entry seen exit seen' cap bud lims tim ree rr recycle banked where *:
    "reads (policy_text 128) name" "reads policy_instrument bas" "reads policy_instrument quo"
    "pair_checks bas quo = Inr ()" "reads (policy_ladder ENTRY side []) (entry, seen)"
    "reads (policy_ladder EXIT (opposite side) seen) (exit, seen')" "exit_ratio_check exit = Inr ()"
    "reads policy_capital cap" "capital_budget cap (decimals quo) = Inr bud"
    "reads policy_limits lims" "reads policy_timing tim" "reads policy_reentry ree"
    "policy_recycling rr = Inr (recycle, banked)"
    "cross_field_checks side entry exit (decimals quo) bud lims = Inr ()"
    and q: "q = \<lparr>pt_name = name, pt_side = side, pt_base = bas, pt_quote = quo,
            pt_entry = entry, pt_exit = exit, pt_capital = cap, pt_budget = bud,
            pt_limits = lims, pt_timing = tim, pt_reentry = ree,
            pt_recycle = recycle, pt_banked = banked\<rparr>"
    using assms unfolding policy_parts_def take_optional_def
    by (clarsimp simp: res_simps dest!: take_withD)
  show "reads (policy_text 128) (pt_name q)"
    "reads policy_instrument (pt_base q)" "reads policy_instrument (pt_quote q)"
    "pair_checks (pt_base q) (pt_quote q) = Inr ()"
    "\<exists>seen seen'. reads (policy_ladder ENTRY (pt_side q) []) (pt_entry q, seen) \<and>
       reads (policy_ladder EXIT (opposite (pt_side q)) seen) (pt_exit q, seen')"
    "exit_ratio_check (pt_exit q) = Inr ()"
    "reads policy_capital (pt_capital q)"
    "capital_budget (pt_capital q) (decimals (pt_quote q)) = Inr (pt_budget q)"
    "reads policy_limits (pt_limits q)" "reads policy_timing (pt_timing q)" "reads policy_reentry (pt_reentry q)"
    "\<exists>v. policy_recycling v = Inr (pt_recycle q, pt_banked q)"
    "cross_field_checks (pt_side q) (pt_entry q) (pt_exit q) (decimals (pt_quote q)) (pt_budget q) (pt_limits q) = Inr ()"
    using *(5,6,13) by (auto simp: q *(1-4,7-12,14))
qed

lemma schema_text: "policy_text 128 (JStr POLICY_SCHEMA_ID) = Inr POLICY_SCHEMA_ID"
  by (simp add: policy_text_def POLICY_SCHEMA_ID_def strip_def is_space_def)

lemma side_text: "text_enum Side_of (JStr (Side_value s)) = Inr s"
proof -
  have "policy_text 128 (JStr (Side_value s)) = Inr (Side_value s)"
    by (cases s) (simp_all add: policy_text_def strip_def is_space_def)
  then show ?thesis by (simp add: text_enum_def on_value_error_def)
qed

lemma parts_canonical_cases:
  assumes "parts_canonical q = Inr c"
  obtains entry exit cap lims rec where
    "ladder_canonical_object (pt_entry q) = Inr entry" "ladder_canonical_object (pt_exit q) = Inr exit"
    "capital_canonical (pt_capital q) = Inr cap" "limits_canonical (pt_limits q) = Inr lims"
    "recycling_canonical (pt_recycle q) (pt_banked q) = Inr rec"
    "c = JObj [(''schema'', JStr POLICY_SCHEMA_ID), (''policy_name'', JStr (pt_name q)),
         (''side'', JStr (Side_value (pt_side q))),
         (''base'', policy_object (pt_base q)), (''quote'', policy_object (pt_quote q)),
         (''entry_ladder'', entry), (''exit_ladder'', exit), (''capital'', cap), (''limits'', lims),
         (''timing'', timing_canonical (pt_timing q)), (''reentry'', reentry_canonical (pt_reentry q)),
         (''recycling'', rec)]"
  using assms unfolding parts_canonical_def by (auto simp: res_simps)

lemma readsE: "reads f x \<Longrightarrow> (\<And>v. f v = Inr x \<Longrightarrow> thesis) \<Longrightarrow> thesis"
  by (auto simp: reads_def)

lemma policy_parts_reread:
  assumes "policy_parts raw = Inr q" "parts_canonical q = Inr c"
  shows "policy_parts c = Inr (forget_part_symbols q)"
proof -
  note r = policy_parts_reads [OF assms(1)]
  from parts_canonical_cases [OF assms(2)] obtain entry exit cap lims rec where
    can: "ladder_canonical_object (pt_entry q) = Inr entry" "ladder_canonical_object (pt_exit q) = Inr exit"
    "capital_canonical (pt_capital q) = Inr cap" "limits_canonical (pt_limits q) = Inr lims"
    "recycling_canonical (pt_recycle q) (pt_banked q) = Inr rec"
    and c: "c = JObj [(''schema'', JStr POLICY_SCHEMA_ID), (''policy_name'', JStr (pt_name q)),
         (''side'', JStr (Side_value (pt_side q))),
         (''base'', policy_object (pt_base q)), (''quote'', policy_object (pt_quote q)),
         (''entry_ladder'', entry), (''exit_ladder'', exit), (''capital'', cap), (''limits'', lims),
         (''timing'', timing_canonical (pt_timing q)), (''reentry'', reentry_canonical (pt_reentry q)),
         (''recycling'', rec)]" .
  have name: "policy_text 128 (JStr (pt_name q)) = Inr (pt_name q)"
    by (rule reads_text [OF r(1)])
  have inst: "policy_instrument (policy_object (pt_base q)) = Inr (forget_symbol (pt_base q))"
    "policy_instrument (policy_object (pt_quote q)) = Inr (forget_symbol (pt_quote q))"
    using r(2,3) by (auto elim!: readsE dest: policy_instrument_reread)
  obtain seen seen' where lad: "policy_ladder ENTRY (pt_side q) [] entry = Inr (pt_entry q, seen)"
    "policy_ladder EXIT (opposite (pt_side q)) seen exit = Inr (pt_exit q, seen')"
    using r(5) can(1,2) by (meson policy_ladder_reread readsE)
  have sec: "policy_capital cap = Inr (pt_capital q)" "policy_limits lims = Inr (pt_limits q)"
    "policy_timing (timing_canonical (pt_timing q)) = Inr (pt_timing q)"
    "policy_reentry (reentry_canonical (pt_reentry q)) = Inr (pt_reentry q)"
    "policy_recycling (Some rec) = Inr (pt_recycle q, pt_banked q)"
    using r(7,9-12) can(3-5)
    by (meson policy_capital_reread policy_limits_reread policy_timing_reread policy_reentry_reread
        policy_recycling_reread readsE)+
  have pc: "pair_checks (forget_symbol (pt_base q)) (forget_symbol (pt_quote q)) = Inr ()"
    using r(4) by (auto simp: pair_checks_def split: if_splits)
  have eq: "\<lparr>pt_name = pt_name q, pt_side = pt_side q, pt_base = forget_symbol (pt_base q),
      pt_quote = forget_symbol (pt_quote q), pt_entry = pt_entry q, pt_exit = pt_exit q,
      pt_capital = pt_capital q, pt_budget = pt_budget q, pt_limits = pt_limits q,
      pt_timing = pt_timing q, pt_reentry = pt_reentry q, pt_recycle = pt_recycle q,
      pt_banked = pt_banked q\<rparr> = forget_part_symbols q"
    by (cases q) (simp add: forget_part_symbols_def)
  show ?thesis
    by (simp add: c policy_parts_def Obj_def schema_text name side_text inst pc lad r(6,8,13) sec
        take_optional_def done_obj_def eq)
qed

lemma parse_policy_cases:
  assumes "parse_policy raw = Inr p"
  obtains q where "policy_parts raw = Inr q" "parts_canonical q = Inr (canonical p)"
    "p = parts_policy q (canonical p)"
  using assms by (auto simp: parse_policy_def parts_policy_def res_simps)

lemma parse_canonical:
  assumes "parse_policy raw = Inr p"
  shows "parse_policy (canonical p) = Inr (forget_symbols p)"
proof -
  from parse_policy_cases [OF assms] obtain q where
    q: "policy_parts raw = Inr q" "parts_canonical q = Inr (canonical p)" "p = parts_policy q (canonical p)" .
  have "parts_canonical (forget_part_symbols q) = parts_canonical q"
    by (simp add: parts_canonical_def forget_part_symbols_def)
  moreover have "parts_policy (forget_part_symbols q) (canonical p) = forget_symbols p"
    by (subst q(3)) (simp add: parts_policy_def forget_part_symbols_def forget_symbols_def)
  ultimately show ?thesis
    by (simp add: parse_policy_def policy_parts_reread [OF q(1,2)] q(2))
qed

subsection \<open>What an admitted policy guarantees\<close>

definition level_ok :: "LadderKind \<Rightarrow> Side \<Rightarrow> LadderLevelV0 \<Rightarrow> bool" where
  "level_ok kind side l \<longleftrightarrow> make_level l = Inr l \<and> lv_kind l = kind \<and> lv_side l = side"

lemma policy_levels_facts:
  "policy_levels kind side index seen raws = Inr (ls, seen') \<Longrightarrow>
     set seen' = set seen \<union> set (map lv_level_id ls) \<and> distinct (map lv_level_id ls) \<and>
     set seen \<inter> set (map lv_level_id ls) = {} \<and> list_all (level_ok kind side) ls"
proof (induction raws arbitrary: index seen ls)
  case (Cons raw raws)
  from Cons.prems obtain l ls' where *: "policy_level kind side index seen raw = Inr l" "ls = l # ls'"
      "policy_levels kind side (Suc index) (lv_level_id l # seen) raws = Inr (ls', seen')"
    by (auto simp: res_simps)
  show ?case
    using Cons.IH [OF *(3)] policy_level_reads [OF *(1)] by (auto simp: *(2) level_ok_def)
qed (auto simp: res_simps)

definition ladder_ok :: "LadderKind \<Rightarrow> Side \<Rightarrow> LadderV0 \<Rightarrow> bool" where
  "ladder_ok kind side ld \<longleftrightarrow> ld_kind ld = kind \<and> ld_side ld = side \<and> ld_levels ld \<noteq> [] \<and>
     strictly_monotone side (ld_levels ld) \<and> list_all (level_ok kind side) (ld_levels ld)"

lemma policy_ladder_facts:
  assumes "policy_ladder kind side seen raw = Inr (ld, seen')"
  shows "ladder_ok kind side ld" "set seen' = set seen \<union> set (map lv_level_id (ld_levels ld))"
    "distinct (map lv_level_id (ld_levels ld))" "set seen \<inter> set (map lv_level_id (ld_levels ld)) = {}"
proof -
  from policy_ladder_unfold [OF assms] obtain raws where
    r: "policy_levels kind side 0 seen raws = Inr (ld_levels ld, seen')"
    "ld_kind ld = kind" "ld_side ld = side" "make_ladder kind side (ld_levels ld) = Inr ld" .
  note f = policy_levels_facts [OF r(1)]
  show "set seen' = set seen \<union> set (map lv_level_id (ld_levels ld))"
    "distinct (map lv_level_id (ld_levels ld))" "set seen \<inter> set (map lv_level_id (ld_levels ld)) = {}"
    using f by blast+
  show "ladder_ok kind side ld"
    using f r(2-4) by (auto simp: ladder_ok_def make_ladder_def split: if_splits)
qed

definition within_limits :: "PolicyV0 \<Rightarrow> bool" where
  "within_limits p \<longleftrightarrow>
     (case pol_side p of
        BUY \<Rightarrow>
          (\<forall>l \<in> set (ld_levels (entry_ladder p)). lv_trigger_price l \<le> max_executable_price p \<and>
             (\<exists>n. to_atomic (the (lv_input_amount l)) (decimals (quote_instrument p)) = Inr n \<and>
                  n \<le> per_order_cap_atomic (budget p))) \<and>
          (\<forall>l \<in> set (ld_levels (exit_ladder p)). min_executable_price p \<le> lv_trigger_price l)
      | SELL \<Rightarrow>
          (\<forall>l \<in> set (ld_levels (entry_ladder p)). min_executable_price p \<le> lv_trigger_price l) \<and>
          (\<forall>l \<in> set (ld_levels (exit_ladder p)). lv_trigger_price l \<le> max_executable_price p))"

definition policy_wf :: "PolicyV0 \<Rightarrow> bool" where
  "policy_wf p \<longleftrightarrow>
     ref_admitted (ref (base p)) \<and> ref_admitted (ref (quote_instrument p)) \<and>
     0 \<le> decimals (base p) \<and> decimals (base p) \<le> 36 \<and>
     0 \<le> decimals (quote_instrument p) \<and> decimals (quote_instrument p) \<le> 36 \<and>
     instrument_id (base p) \<noteq> instrument_id (quote_instrument p) \<and>
     network_id (base p) = network_id (quote_instrument p) \<and>
     ladder_ok ENTRY (pol_side p) (entry_ladder p) \<and>
     ladder_ok EXIT (opposite (pol_side p)) (exit_ladder p) \<and>
     distinct (map lv_level_id (levels p)) \<and>
     sum_list (map (\<lambda>l. the (lv_input_ratio l)) (ld_levels (exit_ladder p))) \<le> 1 \<and>
     make_budget (budget p) = Inr (budget p) \<and>
     0 < min_executable_price p \<and> min_executable_price p \<le> max_executable_price p \<and>
     0 \<le> valid_from_epoch_s p \<and> valid_from_epoch_s p < expiry_epoch_s p \<and> 1 \<le> quote_ttl_s p \<and>
     1 \<le> max_cycles p \<and> 0 \<le> rearm_cooldown_s p \<and>
     0 \<le> profit_recycle_ratio p \<and> 0 \<le> banked_profit_ratio p \<and>
     profit_recycle_ratio p + banked_profit_ratio p \<le> 1 \<and>
     within_limits p"

lemma cross_field_within_limits:
  assumes "cross_field_checks (pol_side p) (entry_ladder p) (exit_ladder p)
      (decimals (quote_instrument p)) (budget p) lims = Inr ()"
    and "lim_max_executable_price lims = max_executable_price p"
    and "lim_min_executable_price lims = min_executable_price p"
  shows "within_limits p"
  using assms by (cases "pol_side p")
    (auto simp: cross_field_checks_def within_limits_def require_le_def res_simps not_less)

lemma policy_int_bounds: "reads (policy_int a b) n \<Longrightarrow> a \<le> n \<and> n \<le> b"
  using reads_int [of a b n] by (auto simp: policy_int_def split: if_splits)

lemma reads_decimal_pos: "reads (policy_decimal z) x \<Longrightarrow> 0 \<le> x \<and> (\<not> z \<longrightarrow> 0 < x)"
  by (auto simp: reads_def dest: policy_decimal_pos)

lemma make_budget_self: "make_budget b = Inr b' \<Longrightarrow> make_budget b' = Inr b'"
  by (simp add: make_budget_eq_Inr)

lemma parse_policy_wf:
  assumes "parse_policy raw = Inr p"
  shows "policy_wf p"
proof -
  from parse_policy_cases [OF assms] obtain q where
    q: "policy_parts raw = Inr q" and p: "p = parts_policy q (canonical p)" .
  note r = policy_parts_reads [OF q]
  have sel: "base p = pt_base q" "quote_instrument p = pt_quote q" "pol_side p = pt_side q"
    "entry_ladder p = pt_entry q" "exit_ladder p = pt_exit q" "budget p = pt_budget q"
    "max_executable_price p = lim_max_executable_price (pt_limits q)"
    "min_executable_price p = lim_min_executable_price (pt_limits q)"
    "valid_from_epoch_s p = tim_valid_from (pt_timing q)" "expiry_epoch_s p = tim_expiry (pt_timing q)"
    "quote_ttl_s p = tim_quote_ttl (pt_timing q)" "max_cycles p = ree_max_cycles (pt_reentry q)"
    "rearm_cooldown_s p = ree_cooldown_s (pt_reentry q)"
    "profit_recycle_ratio p = pt_recycle q" "banked_profit_ratio p = pt_banked q"
    by (subst p, simp add: parts_policy_def)+
  have inst: "ref_admitted (ref i) \<and> 0 \<le> decimals i \<and> decimals i \<le> 36" if "reads policy_instrument i" for i
    using that by (auto elim!: readsE dest: policy_instrument_reads)
  have pair: "instrument_id (base p) \<noteq> instrument_id (quote_instrument p)"
    "network_id (base p) = network_id (quote_instrument p)"
    using r(4) by (auto simp: sel pair_checks_def split: if_splits)
  obtain seen seen' a b where lad: "policy_ladder ENTRY (pt_side q) [] a = Inr (pt_entry q, seen)"
    "policy_ladder EXIT (opposite (pt_side q)) seen b = Inr (pt_exit q, seen')"
    using r(5) by (auto simp: reads_def)
  have dist: "distinct (map lv_level_id (levels p))"
    using policy_ladder_facts [OF lad(1)] policy_ladder_facts [OF lad(2)]
    by (simp add: levels_def sel Int_commute)
  have ratio: "sum_list (map (\<lambda>l. the (lv_input_ratio l)) (ld_levels (exit_ladder p))) \<le> 1"
    using r(6) by (auto simp: sel exit_ratio_check_def Let_def res_simps split: if_splits)
  have bud: "make_budget (budget p) = Inr (budget p)"
    using r(8) unfolding capital_budget_def sel rbind_eq_Inr by (blast intro: make_budget_self)
  note lim = policy_limits_reads and tim = policy_timing_reads and ree = policy_reentry_reads
  have lims: "0 < min_executable_price p" "min_executable_price p \<le> max_executable_price p"
    using r(9) lim(2) [THEN reads_decimal_pos] lim(5) unfolding sel by (blast elim: readsE)+
  have tims: "0 \<le> valid_from_epoch_s p" "valid_from_epoch_s p < expiry_epoch_s p" "1 \<le> quote_ttl_s p"
    using r(10) tim(1,3) [THEN policy_int_bounds] tim(4) unfolding sel by (blast elim: readsE)+
  have rees: "1 \<le> max_cycles p" "0 \<le> rearm_cooldown_s p"
    using r(11) ree(1,3) [THEN policy_int_bounds] unfolding sel by (blast elim: readsE)+
  have recs: "0 \<le> profit_recycle_ratio p" "0 \<le> banked_profit_ratio p"
    "profit_recycle_ratio p + banked_profit_ratio p \<le> 1"
    using r(12) policy_recycling_reads(1,2) [THEN reads_decimal_pos] policy_recycling_reads(3)
    unfolding sel by blast+
  have wl: "within_limits p"
    by (rule cross_field_within_limits [where lims = "pt_limits q"]) (use r(13) in \<open>simp_all add: sel\<close>)
  show ?thesis
    using inst [OF r(2)] inst [OF r(3)] pair policy_ladder_facts(1) [OF lad(1)]
      policy_ladder_facts(1) [OF lad(2)] dist ratio bud lims tims rees recs wl
    by (simp add: policy_wf_def sel)
qed

text \<open>
  \<^bold>\<open>C31.\<close> An admitted policy is well formed: its caps are ordered (order, allocation,
  instrument, network, portfolio), level ids are unique across both ladders, ladders are
  strictly monotone in the direction of their side, exits never sum to more than what is
  held, both instruments are admitted references on one network, the recycling ratios
  create no capital, and no rung is priced or sized so that it could never execute.
\<close>

theorem admitted_policy_wf:
  assumes "parse_policy raw = Inr p"
  shows "policy_wf p"
  using assms by (rule parse_policy_wf)

text \<open>
  \<^bold>\<open>C32.\<close> The canonical form of an admitted policy is itself an admissible document: it is
  read back as the same policy, up to the display symbols the canonical form leaves out,
  and it has the same canonical form, hence the same \<open>policy_id\<close>.
\<close>

theorem canonical_policy_reparses:
  assumes "parse_policy raw = Inr p"
  shows "\<exists>p'. parse_policy (canonical p) = Inr p' \<and> p' = forget_symbols p \<and>
     policy_id H p' = policy_id H p"
  using parse_canonical [OF assms] by (simp add: forget_symbols_def policy_id_def)

text \<open>A document the reader admits.\<close>

definition sample_ref :: "string \<Rightarrow> json" where
  "sample_ref addr = JObj [(''ref'', JObj [(''namespace'', JStr ''evm''), (''chain_id'', JInt 57073),
      (''contract_address'', JStr (''0x00000000000000000000000000000000000000'' @ addr))]),
     (''decimals'', JInt 6)]"

definition sample_document :: json where
  "sample_document = JObj
     [(''schema'', JStr POLICY_SCHEMA_ID), (''policy_name'', JStr ''sample''), (''side'', JStr ''BUY''),
      (''base'', sample_ref ''01''), (''quote'', sample_ref ''02''),
      (''entry_ladder'', JObj [(''levels'', JList
         [JObj [(''level_id'', JStr ''E1''), (''trigger_price'', JStr ''2''), (''input_amount'', JStr ''100'')],
          JObj [(''level_id'', JStr ''E2''), (''trigger_price'', JStr ''1''), (''input_amount'', JStr ''100'')]])]),
      (''exit_ladder'', JObj [(''levels'', JList
         [JObj [(''level_id'', JStr ''X1''), (''trigger_price'', JStr ''3''), (''input_ratio'', JStr ''0.5'')]])]),
      (''capital'', JObj [(''allocation_quote'', JStr ''150''), (''per_order_cap_quote'', JStr ''100''),
         (''per_instrument_cap_quote'', JStr ''200''), (''per_network_cap_quote'', JStr ''300''),
         (''global_portfolio_cap_quote'', JStr ''400''), (''reserved_cash_quote'', JStr ''50'')]),
      (''limits'', JObj [(''max_executable_price'', JStr ''4''), (''min_executable_price'', JStr ''1''),
         (''max_price_impact_bps'', JInt 50), (''max_slippage_bps'', JInt 50)]),
      (''timing'', JObj [(''valid_from_epoch_s'', JInt 1000), (''expiry_epoch_s'', JInt 2000),
         (''quote_ttl_s'', JInt 30)]),
      (''reentry'', JObj [(''max_cycles'', JInt 3), (''rearm_hysteresis_bps'', JInt 100),
         (''rearm_cooldown_s'', JInt 60)])]"

lemmas digit_defs = int_part_ok_def canon_digits_def MAX_INT_DIGITS_def digit_val_def is_digit_def

lemma sample_decimals:
  "policy_decimal z (JStr ''1'') = Inr 1" "policy_decimal z (JStr ''2'') = Inr 2"
  "policy_decimal z (JStr ''3'') = Inr 3" "policy_decimal z (JStr ''4'') = Inr 4"
  "policy_decimal z (JStr ''50'') = Inr 50" "policy_decimal z (JStr ''100'') = Inr 100"
  "policy_decimal z (JStr ''150'') = Inr 150" "policy_decimal z (JStr ''200'') = Inr 200"
  "policy_decimal z (JStr ''300'') = Inr 300" "policy_decimal z (JStr ''400'') = Inr 400"
  "policy_decimal z (JStr ''0.5'') = Inr (1 / 2)"
  using parse_plain_frac [of "''0''" "''5''"]
  by (simp_all add: policy_decimal_def parse_plain_int digit_defs dot_def frac_part_ok_def MAX_FRAC_DIGITS_def)

definition sample_address_of :: "string \<Rightarrow> string" where
  "sample_address_of addr = ''0x00000000000000000000000000000000000000'' @ addr"

definition sample_pair :: "string \<Rightarrow> InstrumentV0" where
  "sample_pair addr = \<lparr>ref = EvmInstrumentRef 57073 (sample_address_of addr), decimals = 6,
     asset_class = FUNGIBLE, display_symbol = None\<rparr>"

lemma sample_instruments:
  "policy_instrument (sample_ref ''01'') = Inr (sample_pair ''01'')"
  "policy_instrument (sample_ref ''02'') = Inr (sample_pair ''02'')"
  by (simp_all add: sample_pair_def sample_address_of_def sample_ref_def policy_instrument_def Obj_def policy_int_def take_optional_def
      done_obj_def make_instrument_def parse_instrument_ref_def REQUIRED_KEYS_def make_evm_ref_def EVM_ADDRESS_RE_def matches_line_def
      hex_text_is_zero_def MAX_CHAIN_ID_def newline_def is_lower_hex_def is_digit_def)

lemma sample_level_ids: "policy_text 64 (JStr ''E1'') = Inr ''E1''" "policy_text 64 (JStr ''E2'') = Inr ''E2''"
  "policy_text 64 (JStr ''X1'') = Inr ''X1''" "policy_text 128 (JStr ''sample'') = Inr ''sample''"
  by (simp_all add: policy_text_def strip_def is_space_def)

lemma sample_ladders:
  "policy_ladder ENTRY BUY [] (JObj [(''levels'', JList
         [JObj [(''level_id'', JStr ''E1''), (''trigger_price'', JStr ''2''), (''input_amount'', JStr ''100'')],
          JObj [(''level_id'', JStr ''E2''), (''trigger_price'', JStr ''1''), (''input_amount'', JStr ''100'')]])]) =
   Inr (\<lparr>ld_kind = ENTRY, ld_side = BUY, ld_levels =
      [\<lparr>lv_level_id = ''E1'', lv_kind = ENTRY, lv_side = BUY, lv_index = 0, lv_trigger_price = 2,
        lv_input_amount = Some 100, lv_input_ratio = None\<rparr>,
       \<lparr>lv_level_id = ''E2'', lv_kind = ENTRY, lv_side = BUY, lv_index = 1, lv_trigger_price = 1,
        lv_input_amount = Some 100, lv_input_ratio = None\<rparr>]\<rparr>, [''E2'', ''E1''])"
  "policy_ladder EXIT SELL [''E2'', ''E1''] (JObj [(''levels'', JList
         [JObj [(''level_id'', JStr ''X1''), (''trigger_price'', JStr ''3''), (''input_ratio'', JStr ''0.5'')]])]) =
   Inr (\<lparr>ld_kind = EXIT, ld_side = SELL, ld_levels =
      [\<lparr>lv_level_id = ''X1'', lv_kind = EXIT, lv_side = SELL, lv_index = 0, lv_trigger_price = 3,
        lv_input_amount = None, lv_input_ratio = Some (1 / 2)\<rparr>]\<rparr>, [''X1'', ''E2'', ''E1''])"
  by (simp_all add: policy_ladder_def policy_level_def Obj_def take_key_def done_obj_def sample_decimals
      sample_level_ids make_level_def make_ladder_def MAX_LEVELS_PER_LADDER_def)

lemma sample_to_atomic: "to_atomic (numeral n) 6 = Inr (numeral n * 1000000)"
  by (simp add: to_atomic_eq_Inr)

lemma sample_sections:
  "policy_capital (JObj [(''allocation_quote'', JStr ''150''), (''per_order_cap_quote'', JStr ''100''),
         (''per_instrument_cap_quote'', JStr ''200''), (''per_network_cap_quote'', JStr ''300''),
         (''global_portfolio_cap_quote'', JStr ''400''), (''reserved_cash_quote'', JStr ''50'')]) =
   Inr \<lparr>cap_allocation = 150, cap_per_order = 100, cap_per_instrument = 200, cap_per_network = 300,
      cap_global = 400, cap_reserved_cash = 50\<rparr>"
  "policy_limits (JObj [(''max_executable_price'', JStr ''4''), (''min_executable_price'', JStr ''1''),
         (''max_price_impact_bps'', JInt 50), (''max_slippage_bps'', JInt 50)]) =
   Inr \<lparr>lim_max_executable_price = 4, lim_min_executable_price = 1, lim_max_price_impact_bps = 50,
      lim_max_slippage_bps = 50\<rparr>"
  "policy_timing (JObj [(''valid_from_epoch_s'', JInt 1000), (''expiry_epoch_s'', JInt 2000),
         (''quote_ttl_s'', JInt 30)]) = Inr \<lparr>tim_valid_from = 1000, tim_expiry = 2000, tim_quote_ttl = 30\<rparr>"
  "policy_reentry (JObj [(''max_cycles'', JInt 3), (''rearm_hysteresis_bps'', JInt 100),
         (''rearm_cooldown_s'', JInt 60)]) =
   Inr \<lparr>ree_max_cycles = 3, ree_hysteresis_bps = 100, ree_cooldown_s = 60\<rparr>"
  "policy_recycling None = Inr (0, 0)"
  by (simp_all add: policy_capital_def policy_limits_def policy_timing_def policy_reentry_def
      policy_recycling_def Obj_def done_obj_def sample_decimals policy_int_def policy_bps_def
      BPS_DENOMINATOR_def MAX_EPOCH_S_def)

lemma sample_formats:
  "jdecimal 0 = Inr (JStr ''0'')" "jdecimal 1 = Inr (JStr ''1'')" "jdecimal 2 = Inr (JStr ''2'')" "jdecimal 3 = Inr (JStr ''3'')"
  "jdecimal 4 = Inr (JStr ''4'')" "jdecimal 50 = Inr (JStr ''50'')" "jdecimal 100 = Inr (JStr ''100'')"
  "jdecimal 150 = Inr (JStr ''150'')" "jdecimal 200 = Inr (JStr ''200'')"
  "jdecimal 300 = Inr (JStr ''300'')" "jdecimal 400 = Inr (JStr ''400'')" "jdecimal (1 / 2) = Inr (JStr ''0.5'')"
  using parse_plain_frac [of "''0''" "''5''"]
  by (auto intro!: jdecimal_of_text simp: parse_plain_int digit_defs newline_def dot_def frac_part_ok_def MAX_FRAC_DIGITS_def)

lemma sample_parts: "\<exists>q c. policy_parts sample_document = Inr q \<and> parts_canonical q = Inr c"
proof -
  have side: "text_enum Side_of (JStr ''BUY'') = Inr BUY" using side_text [of BUY] by simp
  show ?thesis
    by (simp add: sample_document_def policy_parts_def Obj_def schema_text sample_level_ids side
        sample_instruments sample_ladders sample_sections pair_checks_def instrument_id_def network_id_def
        sample_pair_def sample_address_of_def exit_ratio_check_def capital_budget_def sample_to_atomic make_budget_def
        take_optional_def done_obj_def cross_field_checks_def require_le_def
        parts_canonical_def ladder_canonical_object_def level_canonical_object_def opt_decimal_def sample_formats
        capital_canonical_def limits_canonical_def recycling_canonical_def)
qed

lemma sample_admitted: "\<exists>p. parse_policy sample_document = Inr p"
  using sample_parts by (auto simp: parse_policy_def)

lemma admitted_policy_wf_witness: "\<exists>p. parse_policy sample_document = Inr p \<and> policy_wf p"
  using sample_admitted admitted_policy_wf by blast

lemma canonical_policy_reparses_witness:
  "\<exists>p p'. parse_policy sample_document = Inr p \<and> parse_policy (canonical p) = Inr p' \<and>
     policy_id (\<lambda>s. s) p' = policy_id (\<lambda>s. s) p"
  using sample_admitted canonical_policy_reparses [of sample_document _ "\<lambda>s. s"] by blast
end
