(* ===== verification/Atomics.thy ===== *)
theory Atomics
  imports Policy
begin

text \<open>
  Atomic amounts inside SQLite, \<open>qntyspot/ledger/atomics.py\<close>. An amount is stored as the
  text of a canonical natural number, and the user functions the budget guard calls work
  on stored values: text or the integers and NULLs SQL expressions produce. The ledger's
  model keeps such columns as integers; this theory shows that the text functions compute
  exactly what integer arithmetic computes on the values they store.
\<close>

text \<open>A value SQLite hands to a user function.\<close>

datatype sql_value = SqlNull | SqlInt int | SqlText string

definition ATOMIC_RE :: "string \<Rightarrow> bool" where
  "ATOMIC_RE = matches_line canon_digits"

definition encode_atomic :: "int \<Rightarrow> error + string" where
  "encode_atomic value = (if value < 0 then Inl LedgerError else Inr (str_int value))"

definition decode_atomic :: "string option \<Rightarrow> error + int" where
  "decode_atomic text =
     (case text of
        None \<Rightarrow> Inl LedgerError
      | Some s \<Rightarrow> if \<not> ATOMIC_RE s then Inl LedgerError else Inr (py_int s))"

definition to_int :: "sql_value \<Rightarrow> error + int option" where
  "to_int value =
     (case value of
        SqlNull \<Rightarrow> Inr None
      | SqlInt n \<Rightarrow> Inr (Some n)
      | SqlText s \<Rightarrow> if ATOMIC_RE s then Inr (Some (py_int s)) else Inl LedgerError)"

text \<open>The aggregates, as folds of their \<open>step\<close> over the rows.\<close>

definition AtomicSum_step :: "int \<Rightarrow> sql_value \<Rightarrow> error + int" where
  "AtomicSum_step acc value =
     rbind (to_int value) (\<lambda>parsed. case parsed of None \<Rightarrow> Inr acc | Some n \<Rightarrow> Inr (acc + n))"

definition atomic_sum :: "sql_value list \<Rightarrow> error + string" where
  "atomic_sum rows = rbind (rfold AtomicSum_step 0 rows) (\<lambda>acc. Inr (str_int acc))"

definition AtomicMin_step :: "int option \<Rightarrow> sql_value \<Rightarrow> error + int option" where
  "AtomicMin_step best value =
     rbind (to_int value) (\<lambda>parsed.
       case parsed of
         None \<Rightarrow> Inr best
       | Some n \<Rightarrow> (case best of
                      None \<Rightarrow> Inr (Some n)
                    | Some b \<Rightarrow> Inr (Some (if n < b then n else b))))"

definition atomic_min :: "sql_value list \<Rightarrow> error + sql_value" where
  "atomic_min rows =
     rbind (rfold AtomicMin_step None rows) (\<lambda>best.
       Inr (case best of None \<Rightarrow> SqlNull | Some n \<Rightarrow> SqlText (str_int n)))"

definition atomic_add :: "sql_value \<Rightarrow> sql_value \<Rightarrow> error + sql_value" where
  "atomic_add a b =
     rbind (to_int a) (\<lambda>left. rbind (to_int b) (\<lambda>right.
       case (left, right) of
         (Some l, Some r) \<Rightarrow> Inr (SqlText (str_int (l + r)))
       | _ \<Rightarrow> Inr SqlNull))"

definition atomic_sub :: "sql_value \<Rightarrow> sql_value \<Rightarrow> error + sql_value" where
  "atomic_sub a b =
     rbind (to_int a) (\<lambda>left. rbind (to_int b) (\<lambda>right.
       case (left, right) of
         (Some l, Some r) \<Rightarrow> Inr (SqlText (str_int (max (l - r) 0)))
       | _ \<Rightarrow> Inr SqlNull))"

definition atomic_le :: "sql_value \<Rightarrow> sql_value \<Rightarrow> error + int" where
  "atomic_le a b =
     rbind (to_int a) (\<lambda>left. rbind (to_int b) (\<lambda>right.
       case (left, right) of
         (Some l, Some r) \<Rightarrow> Inr (if l \<le> r then 1 else 0)
       | _ \<Rightarrow> Inr 0))"

text \<open>
  The column checks: the GLOB pattern of a positive amount, a first character in
  \<open>1\<close> to \<open>9\<close> and no character outside \<open>0\<close> to \<open>9\<close>.
\<close>

definition positive_atomic_check :: "string \<Rightarrow> bool" where
  "positive_atomic_check s \<longleftrightarrow> (case s of [] \<Rightarrow> False | c # _ \<Rightarrow> is_digit c \<and> c \<noteq> CHR ''0'') \<and> all_digits s"

definition non_negative_atomic_check :: "string \<Rightarrow> bool" where
  "non_negative_atomic_check s \<longleftrightarrow> s = ''0'' \<or> positive_atomic_check s"

subsection \<open>Stored amounts denote their integers\<close>

lemma non_negative_check_iff: "non_negative_atomic_check s \<longleftrightarrow> canon_digits s"
  by (cases s) (auto simp: non_negative_atomic_check_def positive_atomic_check_def canon_digits_def)

lemma canon_digits_str_int: "0 \<le> n \<Longrightarrow> canon_digits (str_int n)"
  by (simp add: str_int_def)

lemma to_int_text: "canon_digits s \<Longrightarrow> to_int (SqlText s) = Inr (Some (int (digits_val s)))"
  by (simp add: to_int_def ATOMIC_RE_def matches_line_def)

lemma to_int_str_int [simp]: "0 \<le> n \<Longrightarrow> to_int (SqlText (str_int n)) = Inr (Some n)"
  using canon_digits_str_int [of n] py_int_str_int [of n]
  by (simp add: to_int_def ATOMIC_RE_def matches_line_def)

lemma encode_eq_Inr [res_simps]: "encode_atomic n = Inr s \<longleftrightarrow> 0 \<le> n \<and> s = str_int n"
  by (auto simp: encode_atomic_def)

text \<open>
  Encoding and decoding are inverse: what \<open>encode_atomic\<close> writes passes the column
  check and is decoded to the same integer, at any magnitude, and every text that passes
  the column check is the encoding of the integer it decodes to.
\<close>

theorem atomic_codec:
  "(\<exists>n. encode_atomic n = Inr s \<and> decode_atomic (Some s) = Inr n) \<longleftrightarrow> non_negative_atomic_check s"
proof
  assume "\<exists>n. encode_atomic n = Inr s \<and> decode_atomic (Some s) = Inr n"
  then show "non_negative_atomic_check s"
    by (auto simp: res_simps non_negative_check_iff canon_digits_str_int)
next
  assume "non_negative_atomic_check s"
  then have c: "canon_digits s" by (simp add: non_negative_check_iff)
  then have "str_int (int (digits_val s)) = s" by (simp add: str_int_def nat_str_digits_val)
  with c show "\<exists>n. encode_atomic n = Inr s \<and> decode_atomic (Some s) = Inr n"
    by (intro exI [of _ "int (digits_val s)"])
      (simp add: encode_atomic_def decode_atomic_def ATOMIC_RE_def matches_line_def)
qed

lemma rfold_sum:
  assumes "list_all (\<lambda>n. 0 \<le> n) ns"
  shows "rfold AtomicSum_step t (map (SqlText \<circ> str_int) ns) = Inr (t + sum_list ns)"
  using assms by (induction ns arbitrary: t) (auto simp: AtomicSum_step_def)

lemma rfold_min:
  assumes "list_all (\<lambda>n. 0 \<le> n) ns"
  shows "rfold AtomicMin_step (Some b) (map (SqlText \<circ> str_int) ns) = Inr (Some (Min (set (b # ns))))"
  using assms
proof (induction ns arbitrary: b)
  case (Cons n ns)
  have "Min (set ((if n < b then n else b) # ns)) = Min (set (b # n # ns))"
    by (cases "ns = []") (auto simp: min_def)
  with Cons show ?case by (simp add: AtomicMin_step_def)
qed simp

lemma str_int_nonneg_sum: "list_all (\<lambda>n. 0 \<le> n) ns \<Longrightarrow> (0 :: int) \<le> sum_list ns"
  by (induction ns) auto

lemma atomic_sum_str: "list_all (\<lambda>n. 0 \<le> n) ns \<Longrightarrow> atomic_sum (map (SqlText \<circ> str_int) ns) = Inr (str_int (sum_list ns))"
  using rfold_sum [of ns 0] by (simp add: atomic_sum_def)

lemma atomic_min_str:
  assumes "list_all (\<lambda>n. 0 \<le> n) caps" "caps \<noteq> []"
  shows "atomic_min (map (SqlText \<circ> str_int) caps) = Inr (SqlText (str_int (Min (set caps))))"
proof -
  obtain c cs where c: "caps = c # cs" using assms(2) by (cases caps) auto
  then have "rfold AtomicMin_step None (map (SqlText \<circ> str_int) caps) = Inr (Some (Min (set caps)))"
    using rfold_min [of cs c] assms(1) by (simp add: AtomicMin_step_def)
  then show ?thesis by (simp add: atomic_min_def)
qed

text \<open>
  \<^bold>\<open>C39.\<close> On stored amounts the SQL functions compute integer arithmetic exactly: the
  aggregate over a column is the text of the sum of its integers, the minimum that of
  the least, and the guard's comparison of \<open>held + amount\<close> with a cap is the comparison
  of the integers, with an empty column's minimum NULL and failing every comparison.
\<close>

theorem atomics_refine_integers:
  assumes "list_all (\<lambda>n. 0 \<le> n) ns" "0 \<le> amount" "0 \<le> cap" "list_all (\<lambda>n. 0 \<le> n) caps"
  shows "rbind (atomic_sum (map (SqlText \<circ> str_int) ns)) (\<lambda>held.
      rbind (atomic_add (SqlText held) (SqlText (str_int amount))) (\<lambda>t. atomic_le t (SqlText (str_int cap))))
      = Inr (if sum_list ns + amount \<le> cap then 1 else 0) \<and>
    (caps \<noteq> [] \<longrightarrow> atomic_min (map (SqlText \<circ> str_int) caps) = Inr (SqlText (str_int (Min (set caps))))) \<and>
    rbind (atomic_min []) (atomic_le (SqlText (str_int amount))) = Inr 0 \<and>
    atomic_sub (SqlText (str_int cap)) (SqlText (str_int amount)) =
      Inr (SqlText (str_int (if amount \<le> cap then cap - amount else 0)))"
proof (intro conjI impI)
  show "rbind (atomic_sum (map (SqlText \<circ> str_int) ns)) (\<lambda>held.
      rbind (atomic_add (SqlText held) (SqlText (str_int amount))) (\<lambda>t. atomic_le t (SqlText (str_int cap))))
      = Inr (if sum_list ns + amount \<le> cap then 1 else 0)"
    using assms str_int_nonneg_sum [OF assms(1)] by (simp add: atomic_sum_str atomic_add_def atomic_le_def)
  show "atomic_min (map (SqlText \<circ> str_int) caps) = Inr (SqlText (str_int (Min (set caps))))" if "caps \<noteq> []"
    by (rule atomic_min_str [OF assms(4) that])
  show "rbind (atomic_min []) (atomic_le (SqlText (str_int amount))) = Inr 0"
    using assms(2) by (simp add: atomic_min_def atomic_le_def to_int_def [of SqlNull])
  show "atomic_sub (SqlText (str_int cap)) (SqlText (str_int amount)) =
      Inr (SqlText (str_int (if amount \<le> cap then cap - amount else 0)))"
    using assms(2,3) by (simp add: atomic_sub_def max_def)
qed

lemma atomics_refine_integers_witness:
  "rbind (atomic_sum (map (SqlText \<circ> str_int) [100, 50])) (\<lambda>held.
      rbind (atomic_add (SqlText held) (SqlText (str_int 10))) (\<lambda>t. atomic_le t (SqlText (str_int 160)))) = Inr 1 \<and>
   atomic_min (map (SqlText \<circ> str_int) [9, 10]) = Inr (SqlText (str_int 9))"
  using atomics_refine_integers [of "[100, 50]" 10 160 "[9, 10]"] by simp

end
