(* ===== verification/Schema.thy ===== *)
theory Schema
  imports Atomics
begin

text \<open>
  The database of \<open>qntyspot/ledger/schema.py\<close>: one record per table row, the database as
  the lists of its rows in insertion order, and the insertions and updates the ledger
  runs, each with the CHECK, PRIMARY KEY, UNIQUE and FOREIGN KEY constraints and the
  triggers of its table. Columns holding an atomic amount are integers (theory Atomics),
  columns holding canonical JSON are the JSON value they decode to.
\<close>

definition SCHEMA_VERSION :: int where
  "SCHEMA_VERSION = 1"

datatype EventType =
    CYCLE_OPENED | CYCLE_COMPLETED | CYCLE_HALTED | INTENT_CREATED | INTENT_TRANSITION
  | FILL_RECEIPT_APPENDED | EXACT_BYTES_RESUMED | CHAIN_TRUTH_RECOVERED

definition CYCLE_EVENT_TYPES :: "EventType set" where
  "CYCLE_EVENT_TYPES = {CYCLE_OPENED, CYCLE_COMPLETED, CYCLE_HALTED}"

text \<open>The texts of \<open>from_state\<close> and \<open>to_state\<close>: a state of an intent or of a cycle.\<close>

datatype state_label = Intent intent_state | Cycle CycleStatus

subsection \<open>Rows\<close>

record instrument_row =
  ir_id :: string
  ir_namespace :: string
  ir_network :: string
  ir_decimals :: int
  ir_asset_class :: AssetClass
  ir_digest :: string
  ir_identity :: json

record policy_row =
  pr_id :: string
  pr_name :: string
  pr_side :: Side
  pr_instrument :: string
  pr_quote :: string
  pr_network :: string
  pr_allocation :: int
  pr_per_order_cap :: int
  pr_per_instrument_cap :: int
  pr_per_network_cap :: int
  pr_global_cap :: int
  pr_reserved_cash :: int
  pr_max_cycles :: int
  pr_canonical :: json

record level_row =
  lr_policy :: string
  lr_level :: string
  lr_kind :: LadderKind
  lr_side :: Side
  lr_index :: nat
  lr_trigger :: string
  lr_amount :: "string option"
  lr_ratio :: "string option"

record cycle_row =
  cr_id :: string
  cr_policy :: string
  cr_index :: int
  cr_status :: CycleStatus

record intent_row =
  nr_id :: string
  nr_policy :: string
  nr_instrument :: string
  nr_quote :: string
  nr_network :: string
  nr_cycle :: string
  nr_level :: string
  nr_side :: Side
  nr_kind :: LadderKind
  nr_state :: intent_state
  nr_exposure :: int
  nr_bounds :: json

record event_row =
  ev_seq :: int
  ev_type :: EventType
  ev_policy :: string
  ev_cycle :: string
  ev_action :: "string option"
  ev_from :: "state_label option"
  ev_to :: "state_label option"
  ev_at :: int
  ev_payload :: json

record reservation_row =
  br_id :: string
  br_policy :: string
  br_instrument :: string
  br_quote :: string
  br_network :: string
  br_amount :: int
  br_status :: ReservationStatus
  br_reserved_seq :: int
  br_settled_seq :: "int option"

record receipt_row =
  fr_id :: string
  fr_action :: string
  fr_ref :: string
  fr_input :: int
  fr_output :: int
  fr_fee :: int
  fr_observed :: int
  fr_source :: string
  fr_seq :: int

text \<open>
  The columns of the execution tables (\<open>ledger/execution_schema.py\<close>) the store reads;
  the execution runtime writes them, the store never does.
\<close>

datatype action_kind = ECONOMIC | APPROVAL
datatype ChainPresence = P_ABSENT | P_PENDING | P_INCLUDED
datatype ReceiptStatus = RS_SUCCESS | RS_REVERTED
datatype verdict = V_SETTLED | V_REVERTED | V_AMBIGUOUS

record reconciliation_row =
  rr_id :: string
  rr_action :: string
  rr_verdict :: verdict
  rr_receipt :: "string option"
  rr_hash :: "string option"
  rr_chain :: "int option"
  rr_taker :: "string option"

record origin_row =
  or_id :: string
  or_action :: string
  or_hash :: string
  or_chain :: int
  or_taker :: string

record external_ref_row = origin_row +
  er_economic_action :: string

record observation_row =
  co_action :: string
  co_signed :: "string option"
  co_external :: "string option"
  co_presence :: ChainPresence
  co_receipt_status :: "ReceiptStatus option"
  co_input :: "int option"
  co_output :: "int option"

record exec_tables =
  external_actions :: "(string \<times> action_kind) list"
  signed_transactions :: "origin_row list"
  external_transaction_refs :: "external_ref_row list"
  chain_observations :: "observation_row list"
  reconciliations :: "reconciliation_row list"

text \<open>The database; \<open>exec_surface\<close> is \<open>None\<close> while the execution tables do not exist.\<close>

record db =
  instruments :: "instrument_row list"
  policies :: "policy_row list"
  ladder_levels :: "level_row list"
  cycles :: "cycle_row list"
  intents :: "intent_row list"
  state_events :: "event_row list"
  budget_reservations :: "reservation_row list"
  fill_receipts :: "receipt_row list"
  exec_surface :: "exec_tables option"

definition empty_db :: db where
  "empty_db = \<lparr>instruments = [], policies = [], ladder_levels = [], cycles = [], intents = [],
     state_events = [], budget_reservations = [], fill_receipts = [], exec_surface = None\<rparr>"

subsection \<open>Keyed tables\<close>

definition find_row :: "('r \<Rightarrow> 'k) \<Rightarrow> 'k \<Rightarrow> 'r list \<Rightarrow> 'r option" where
  "find_row key k t = find (\<lambda>r. key r = k) t"

definition has_row :: "('r \<Rightarrow> 'k) \<Rightarrow> 'k \<Rightarrow> 'r list \<Rightarrow> bool" where
  "has_row key k t \<longleftrightarrow> k \<in> set (map key t)"

definition update_row :: "('r \<Rightarrow> 'k) \<Rightarrow> 'k \<Rightarrow> ('r \<Rightarrow> 'r) \<Rightarrow> 'r list \<Rightarrow> 'r list" where
  "update_row key k f t = map (\<lambda>r. if key r = k then f r else r) t"

lemma find_row_SomeD: "find_row key k t = Some r \<Longrightarrow> r \<in> set t \<and> key r = k"
  by (auto simp: find_row_def find_Some_iff)

lemma find_row_None [tbl_simps]: "find_row key k t = None \<longleftrightarrow> \<not> has_row key k t"
  by (auto simp: find_row_def has_row_def find_None_iff)

lemma find_row_Some_has: "find_row key k t = Some r \<Longrightarrow> has_row key k t"
  by (auto simp: has_row_def dest: find_row_SomeD)

lemma has_row_find: "has_row key k t \<Longrightarrow> \<exists>r. find_row key k t = Some r"
  using find_row_None [of key k t] by (cases "find_row key k t") auto

lemma find_row_iff:
  assumes "distinct (map key t)"
  shows "find_row key k t = Some r \<longleftrightarrow> r \<in> set t \<and> key r = k"
  using assms
proof (induction t)
  case (Cons x xs)
  then show ?case by (force simp: find_row_def)
qed (simp add: find_row_def)

lemma has_row_simps [tbl_simps]:
  "has_row key k [] = False" "has_row key k (x # xs) = (key x = k \<or> has_row key k xs)"
  "has_row key k (xs @ ys) = (has_row key k xs \<or> has_row key k ys)"
  by (auto simp: has_row_def)

lemma find_row_append [tbl_simps]:
  "find_row key k (xs @ ys) = (case find_row key k xs of None \<Rightarrow> find_row key k ys | Some r \<Rightarrow> Some r)"
  by (induction xs) (auto simp: find_row_def)

lemma find_row_Cons [tbl_simps]:
  "find_row key k (x # xs) = (if key x = k then Some x else find_row key k xs)"
  "find_row key k [] = None"
  by (simp_all add: find_row_def)

text \<open>
  The interface of a table whose rows are updated in place: an update of some of a row's
  columns that leaves its key alone. What is found after it, and which keys there are,
  follows.
\<close>

locale keyed_update =
  fixes key :: "'r \<Rightarrow> 'k" and upd :: "'v \<Rightarrow> 'r \<Rightarrow> 'r"
  assumes key_upd: "key (upd v r) = key r"
begin

lemma keys_update: "map key (update_row key k (upd v) t) = map key t"
  by (simp add: update_row_def key_upd comp_def cong: map_cong if_cong)

lemma has_update: "has_row key k' (update_row key k (upd v) t) = has_row key k' t"
  unfolding has_row_def keys_update ..

lemma find_update:
  "find_row key k' (update_row key k (upd v) t) =
     (if k' = k then map_option (upd v) (find_row key k t) else find_row key k' t)"
  by (induction t) (auto simp: find_row_def update_row_def key_upd)

lemma in_update:
  assumes "distinct (map key t)" "find_row key k t = Some r"
  shows "set (update_row key k (upd v) t) = insert (upd v r) {x \<in> set t. key x \<noteq> k}"
  using find_row_SomeD [OF assms(2)] assms(1)
  by (auto simp: update_row_def image_iff key_upd eq_key_imp_eq_value inj_on_def distinct_map)

end

definition set_state :: "intent_state \<Rightarrow> intent_row \<Rightarrow> intent_row" where
  "set_state st r = r\<lparr>nr_state := st\<rparr>"

definition set_cycle_status :: "CycleStatus \<Rightarrow> cycle_row \<Rightarrow> cycle_row" where
  "set_cycle_status st r = r\<lparr>cr_status := st\<rparr>"

definition set_settled :: "ReservationStatus \<times> int option \<Rightarrow> reservation_row \<Rightarrow> reservation_row" where
  "set_settled v r = r\<lparr>br_status := fst v, br_settled_seq := snd v\<rparr>"

interpretation upd_intent: keyed_update nr_id set_state
  by unfold_locales (simp add: set_state_def)

interpretation upd_cycle: keyed_update cr_id set_cycle_status
  by unfold_locales (simp add: set_cycle_status_def)

interpretation upd_reservation: keyed_update br_id set_settled
  by unfold_locales (simp add: set_settled_def)

lemmas upd_tables [tbl_simps] =
  upd_intent.keys_update upd_intent.has_update upd_intent.find_update
  upd_cycle.keys_update upd_cycle.has_update upd_cycle.find_update
  upd_reservation.keys_update upd_reservation.has_update upd_reservation.find_update

subsection \<open>Insertions\<close>

definition INT64_MAX :: int where
  "INT64_MAX = 2 ^ 63 - 1"

definition insert_instrument :: "instrument_row \<Rightarrow> db \<Rightarrow> error + db" where
  "insert_instrument r d =
     (if \<not> (ir_namespace r \<in> {''evm'', ''solana''} \<and> 0 \<le> ir_decimals r \<and> ir_decimals r \<le> 36) then Inl SqliteCheck
      else if has_row ir_id (ir_id r) (instruments d) then Inl SqliteUnique
      else Inr (d\<lparr>instruments := instruments d @ [r]\<rparr>))"

definition insert_policy :: "policy_row \<Rightarrow> db \<Rightarrow> error + db" where
  "insert_policy r d =
     (if \<not> (0 < pr_allocation r \<and> 0 < pr_per_order_cap r \<and> 0 < pr_per_instrument_cap r \<and>
            0 < pr_per_network_cap r \<and> 0 < pr_global_cap r \<and> 0 \<le> pr_reserved_cash r \<and>
            1 \<le> pr_max_cycles r) then Inl SqliteCheck
      else if has_row pr_id (pr_id r) (policies d) then Inl SqliteUnique
      else if \<not> (has_row ir_id (pr_instrument r) (instruments d) \<and>
                 has_row ir_id (pr_quote r) (instruments d)) then Inl SqliteForeignKey
      else Inr (d\<lparr>policies := policies d @ [r]\<rparr>))"

definition level_key :: "level_row \<Rightarrow> string \<times> string" where
  "level_key r = (lr_policy r, lr_level r)"

definition insert_level :: "level_row \<Rightarrow> db \<Rightarrow> error + db" where
  "insert_level r d =
     (if \<not> ((lr_amount r = None) \<noteq> (lr_ratio r = None)) then Inl SqliteCheck
      else if has_row level_key (level_key r) (ladder_levels d) then Inl SqliteUnique
      else if \<not> has_row pr_id (lr_policy r) (policies d) then Inl SqliteForeignKey
      else Inr (d\<lparr>ladder_levels := ladder_levels d @ [r]\<rparr>))"

definition cycle_slot :: "cycle_row \<Rightarrow> string \<times> int" where
  "cycle_slot r = (cr_policy r, cr_index r)"

definition insert_cycle :: "cycle_row \<Rightarrow> db \<Rightarrow> error + db" where
  "insert_cycle r d =
     (if \<not> 0 \<le> cr_index r then Inl SqliteCheck
      else if has_row cr_id (cr_id r) (cycles d) \<or> has_row cycle_slot (cycle_slot r) (cycles d)
        then Inl SqliteUnique
      else if \<not> has_row pr_id (cr_policy r) (policies d) then Inl SqliteForeignKey
      else Inr (d\<lparr>cycles := cycles d @ [r]\<rparr>))"

text \<open>The exactly-once economic identity: the second UNIQUE constraint of \<open>intents\<close>.\<close>

definition intent_slot :: "intent_row \<Rightarrow> string \<times> string \<times> string \<times> string \<times> Side" where
  "intent_slot r = (nr_policy r, nr_instrument r, nr_cycle r, nr_level r, nr_side r)"

definition insert_intent :: "intent_row \<Rightarrow> db \<Rightarrow> error + db" where
  "insert_intent r d =
     (if \<not> 0 \<le> nr_exposure r then Inl SqliteCheck
      else if has_row nr_id (nr_id r) (intents d) \<or> has_row intent_slot (intent_slot r) (intents d)
        then Inl SqliteUnique
      else if \<not> (has_row pr_id (nr_policy r) (policies d) \<and>
                 has_row ir_id (nr_instrument r) (instruments d) \<and>
                 has_row ir_id (nr_quote r) (instruments d) \<and>
                 has_row cr_id (nr_cycle r) (cycles d) \<and>
                 has_row level_key (nr_policy r, nr_level r) (ladder_levels d)) then Inl SqliteForeignKey
      else Inr (d\<lparr>intents := intents d @ [r]\<rparr>))"

text \<open>\<open>state_events\<close>: a duplicate \<open>seq\<close> aborts in the trigger that runs before the insert.\<close>

definition insert_event :: "event_row \<Rightarrow> db \<Rightarrow> error + db" where
  "insert_event e d =
     (if has_row ev_seq (ev_seq e) (state_events d) then Inl SqliteAbort
      else if \<not> (0 \<le> ev_at e \<and> (ev_action e = None) = (ev_type e \<in> CYCLE_EVENT_TYPES) \<and>
                 (ev_to e = None) = (ev_type e = FILL_RECEIPT_APPENDED)) then Inl SqliteCheck
      else if \<not> (has_row pr_id (ev_policy e) (policies d) \<and> has_row cr_id (ev_cycle e) (cycles d) \<and>
                 (case ev_action e of None \<Rightarrow> True | Some a \<Rightarrow> has_row nr_id a (intents d))) then Inl SqliteForeignKey
      else Inr (d\<lparr>state_events := state_events d @ [e]\<rparr>))"

definition insert_reservation :: "reservation_row \<Rightarrow> db \<Rightarrow> error + db" where
  "insert_reservation r d =
     (if \<not> 0 < br_amount r then Inl SqliteCheck
      else if has_row br_id (br_id r) (budget_reservations d) then Inl SqliteUnique
      else if \<not> (has_row nr_id (br_id r) (intents d) \<and> has_row pr_id (br_policy r) (policies d) \<and>
                 has_row ir_id (br_instrument r) (instruments d) \<and>
                 has_row ir_id (br_quote r) (instruments d)) then Inl SqliteForeignKey
      else Inr (d\<lparr>budget_reservations := budget_reservations d @ [r]\<rparr>))"

definition insert_receipt :: "receipt_row \<Rightarrow> db \<Rightarrow> error + db" where
  "insert_receipt r d =
     (if has_row fr_id (fr_id r) (fill_receipts d) \<or> has_row fr_ref (fr_ref r) (fill_receipts d)
        then Inl SqliteAbort
      else if \<not> (0 < fr_input r \<and> 0 < fr_output r \<and> 0 \<le> fr_fee r \<and> 0 \<le> fr_observed r) then Inl SqliteCheck
      else if \<not> has_row nr_id (fr_action r) (intents d) then Inl SqliteForeignKey
      else Inr (d\<lparr>fill_receipts := fill_receipts d @ [r]\<rparr>))"

text \<open>\<open>sqlite3.IntegrityError\<close> and its UNIQUE message.\<close>

definition integrity_error :: "error \<Rightarrow> bool" where
  "integrity_error e \<longleftrightarrow> e \<in> {SqliteUnique, SqliteForeignKey, SqliteCheck, SqliteAbort}"

subsection \<open>Updates\<close>

definition update_intent_state :: "string \<Rightarrow> intent_state \<Rightarrow> db \<Rightarrow> db" where
  "update_intent_state a st d = d\<lparr>intents := update_row nr_id a (set_state st) (intents d)\<rparr>"

definition update_cycle_status :: "string \<Rightarrow> CycleStatus \<Rightarrow> db \<Rightarrow> db" where
  "update_cycle_status c st d = d\<lparr>cycles := update_row cr_id c (set_cycle_status st) (cycles d)\<rparr>"

definition update_reservation :: "string \<Rightarrow> ReservationStatus \<Rightarrow> int option \<Rightarrow> db \<Rightarrow> db" where
  "update_reservation a st seq d =
     d\<lparr>budget_reservations := update_row br_id a (set_settled (st, seq)) (budget_reservations d)\<rparr>"

lemmas table_updates = update_intent_state_def update_cycle_status_def update_reservation_def

text \<open>\<open>state_events\<close> and \<open>fill_receipts\<close> refuse every UPDATE and DELETE that touches a row.\<close>

definition append_only_update :: "('r \<Rightarrow> bool) \<Rightarrow> ('r \<Rightarrow> 'r) \<Rightarrow> 'r list \<Rightarrow> error + 'r list" where
  "append_only_update p f t = (if \<exists>r \<in> set t. p r then Inl SqliteAbort else Inr t)"

subsection \<open>Successful insertions\<close>

lemma insert_instrument_Inr [res_simps]:
  "insert_instrument r d = Inr d' \<longleftrightarrow> ir_namespace r \<in> {''evm'', ''solana''} \<and> 0 \<le> ir_decimals r \<and>
     ir_decimals r \<le> 36 \<and> \<not> has_row ir_id (ir_id r) (instruments d) \<and>
     d' = d\<lparr>instruments := instruments d @ [r]\<rparr>"
  by (auto simp: insert_instrument_def)

lemma insert_policy_Inr [res_simps]:
  "insert_policy r d = Inr d' \<longleftrightarrow> 0 < pr_allocation r \<and> 0 < pr_per_order_cap r \<and>
     0 < pr_per_instrument_cap r \<and> 0 < pr_per_network_cap r \<and> 0 < pr_global_cap r \<and>
     0 \<le> pr_reserved_cash r \<and> 1 \<le> pr_max_cycles r \<and> \<not> has_row pr_id (pr_id r) (policies d) \<and>
     has_row ir_id (pr_instrument r) (instruments d) \<and> has_row ir_id (pr_quote r) (instruments d) \<and>
     d' = d\<lparr>policies := policies d @ [r]\<rparr>"
  by (auto simp: insert_policy_def)

lemma insert_level_Inr [res_simps]:
  "insert_level r d = Inr d' \<longleftrightarrow> (lr_amount r = None) \<noteq> (lr_ratio r = None) \<and>
     \<not> has_row level_key (level_key r) (ladder_levels d) \<and> has_row pr_id (lr_policy r) (policies d) \<and>
     d' = d\<lparr>ladder_levels := ladder_levels d @ [r]\<rparr>"
  by (auto simp: insert_level_def)

lemma insert_cycle_Inr [res_simps]:
  "insert_cycle r d = Inr d' \<longleftrightarrow> 0 \<le> cr_index r \<and> \<not> has_row cr_id (cr_id r) (cycles d) \<and>
     \<not> has_row cycle_slot (cycle_slot r) (cycles d) \<and> has_row pr_id (cr_policy r) (policies d) \<and>
     d' = d\<lparr>cycles := cycles d @ [r]\<rparr>"
  by (auto simp: insert_cycle_def)

lemma insert_intent_Inr [res_simps]:
  "insert_intent r d = Inr d' \<longleftrightarrow> 0 \<le> nr_exposure r \<and> \<not> has_row nr_id (nr_id r) (intents d) \<and>
     \<not> has_row intent_slot (intent_slot r) (intents d) \<and> has_row pr_id (nr_policy r) (policies d) \<and>
     has_row ir_id (nr_instrument r) (instruments d) \<and> has_row ir_id (nr_quote r) (instruments d) \<and>
     has_row cr_id (nr_cycle r) (cycles d) \<and>
     has_row level_key (nr_policy r, nr_level r) (ladder_levels d) \<and>
     d' = d\<lparr>intents := intents d @ [r]\<rparr>"
  by (auto simp: insert_intent_def)

lemma insert_event_Inr [res_simps]:
  "insert_event e d = Inr d' \<longleftrightarrow> \<not> has_row ev_seq (ev_seq e) (state_events d) \<and> 0 \<le> ev_at e \<and>
     (ev_action e = None) = (ev_type e \<in> CYCLE_EVENT_TYPES) \<and>
     (ev_to e = None) = (ev_type e = FILL_RECEIPT_APPENDED) \<and>
     has_row pr_id (ev_policy e) (policies d) \<and> has_row cr_id (ev_cycle e) (cycles d) \<and>
     (case ev_action e of None \<Rightarrow> True | Some a \<Rightarrow> has_row nr_id a (intents d)) \<and>
     d' = d\<lparr>state_events := state_events d @ [e]\<rparr>"
  by (auto simp: insert_event_def)

lemma insert_reservation_Inr [res_simps]:
  "insert_reservation r d = Inr d' \<longleftrightarrow> 0 < br_amount r \<and>
     \<not> has_row br_id (br_id r) (budget_reservations d) \<and> has_row nr_id (br_id r) (intents d) \<and>
     has_row pr_id (br_policy r) (policies d) \<and> has_row ir_id (br_instrument r) (instruments d) \<and>
     has_row ir_id (br_quote r) (instruments d) \<and>
     d' = d\<lparr>budget_reservations := budget_reservations d @ [r]\<rparr>"
  by (auto simp: insert_reservation_def)

lemma insert_receipt_Inr [res_simps]:
  "insert_receipt r d = Inr d' \<longleftrightarrow> \<not> has_row fr_id (fr_id r) (fill_receipts d) \<and>
     \<not> has_row fr_ref (fr_ref r) (fill_receipts d) \<and> 0 < fr_input r \<and> 0 < fr_output r \<and>
     0 \<le> fr_fee r \<and> 0 \<le> fr_observed r \<and> has_row nr_id (fr_action r) (intents d) \<and>
     d' = d\<lparr>fill_receipts := fill_receipts d @ [r]\<rparr>"
  by (auto simp: insert_receipt_def)

end
