(* ===== verification/Store.thy ===== *)
theory Store
  imports Schema
begin

text \<open>
  The ledger store, \<open>qntyspot/ledger/store.py\<close>. Every write is a body over the database,
  run by \<open>write_txn\<close> inside one transaction: an exception rolls the database back,
  and a nested write joins the transaction of its caller.
\<close>

text \<open>An amount written to an atomic column, as the integer the column then denotes.\<close>

definition store_atomic :: "int \<Rightarrow> error + int" where
  "store_atomic n = rbind (encode_atomic n) (\<lambda>s. decode_atomic (Some s))"

lemma store_atomic_eq: "store_atomic n = (if n < 0 then Inl LedgerError else Inr n)"
  using canon_digits_str_int [of n]
  by (auto simp: store_atomic_def encode_atomic_def decode_atomic_def ATOMIC_RE_def matches_line_def)
    (simp add: str_int_def)

text \<open>\<open>decode_atomic(payload[key])\<close> on a decoded JSON object.\<close>

fun decode_json_atomic :: "json \<Rightarrow> error + int" where
  "decode_json_atomic (JStr s) = decode_atomic (Some s)"
| "decode_json_atomic _ = Inl LedgerError"

definition jfetch :: "string \<Rightarrow> json \<Rightarrow> error + json" where
  "jfetch k j = (case j of
      JObj kvs \<Rightarrow> (case map_of kvs k of None \<Rightarrow> Inl PyKeyError | Some v \<Rightarrow> Inr v)
    | _ \<Rightarrow> Inl PyTypeError)"

definition jget_attr :: "string \<Rightarrow> json \<Rightarrow> error + json" where
  "jget_attr k j = (case j of JObj kvs \<Rightarrow> Inr (jget k kvs) | _ \<Rightarrow> Inl PyAttributeError)"

lemma decode_str_int [simp]: "0 \<le> n \<Longrightarrow> decode_json_atomic (JStr (str_int n)) = Inr n"
  using store_atomic_eq [of n] by (simp add: store_atomic_def encode_atomic_def)

subsection \<open>Transactions\<close>

record ledger =
  lg_db :: db
  lg_depth :: nat

definition write_txn :: "(db, error, 'a) body \<Rightarrow> ledger \<Rightarrow> (error + 'a) \<times> ledger" where
  "write_txn body lg =
     (if lg_depth lg \<noteq> 0 then
        (case body (lg_db lg) of (r, d') \<Rightarrow> (r, lg\<lparr>lg_db := d'\<rparr>))
      else
        (case body (lg_db lg) of
           (Inl e, _) \<Rightarrow> (Inl e, lg)
         | (Inr x, d') \<Rightarrow> (Inr x, lg\<lparr>lg_db := d'\<rparr>)))"

definition RELEASING_STATES :: "intent_state set" where
  "RELEASING_STATES = {CANCELLED, EXPIRED, REJECTED}"

definition RECEIPT_STATES :: "intent_state set" where
  "RECEIPT_STATES = {RESERVED, SUBMITTED, INCLUDED, CONFIRMED, RECONCILED, SAFE_HALT}"

definition cycle_id_for :: "string \<Rightarrow> int \<Rightarrow> error + string" where
  "cycle_id_for pid index =
     (if index < 0 then Inl LedgerError else Inr (pid @ '':'' @ str_int index))"

subsection \<open>Events\<close>

definition next_seq :: "db \<Rightarrow> int" where
  "next_seq d = foldr max (map ev_seq (state_events d)) 0 + 1"

definition append_event ::
  "EventType \<Rightarrow> string \<Rightarrow> string \<Rightarrow> string option \<Rightarrow> state_label option \<Rightarrow> state_label option \<Rightarrow>
   int \<Rightarrow> json \<Rightarrow> (db, error, int) body" where
  "append_event etype pid cid aid from to now payload =
     sbind (sguard (0 \<le> now) LedgerError) (\<lambda>_.
     sbind (sguard (now \<le> INT64_MAX) PyOverflowError) (\<lambda>_.
     sbind (sget next_seq) (\<lambda>seq.
     sbind (swrite (insert_event
       \<lparr>ev_seq = seq, ev_type = etype, ev_policy = pid, ev_cycle = cid, ev_action = aid,
        ev_from = from, ev_to = to, ev_at = now, ev_payload = payload\<rparr>)) (\<lambda>_.
     sret seq))))"

subsection \<open>Admission\<close>

definition instrument_row_of :: "digest_fn \<Rightarrow> InstrumentV0 \<Rightarrow> instrument_row" where
  "instrument_row_of H i =
     \<lparr>ir_id = instrument_id i, ir_namespace = namespace (ref i), ir_network = network_id i,
      ir_decimals = decimals i, ir_asset_class = asset_class i, ir_digest = identity_digest H i,
      ir_identity = identity_object i\<rparr>"

definition upsert_instrument :: "digest_fn \<Rightarrow> InstrumentV0 \<Rightarrow> (db, error, unit) body" where
  "upsert_instrument H i =
     sbind (sget (\<lambda>d. find_row ir_id (instrument_id i) (instruments d))) (\<lambda>row.
     case row of
       Some r \<Rightarrow> sguard (ir_digest r = identity_digest H i) LedgerError
     | None \<Rightarrow> swrite (insert_instrument (instrument_row_of H i)))"

definition policy_row_of :: "digest_fn \<Rightarrow> PolicyV0 \<Rightarrow> error + policy_row" where
  "policy_row_of H p =
     (let b = budget p in
      rbind (store_atomic (allocation_atomic b)) (\<lambda>allocation.
      rbind (store_atomic (per_order_cap_atomic b)) (\<lambda>per_order.
      rbind (store_atomic (per_instrument_cap_atomic b)) (\<lambda>per_instrument.
      rbind (store_atomic (per_network_cap_atomic b)) (\<lambda>per_network.
      rbind (store_atomic (global_cap_atomic b)) (\<lambda>global_cap.
      rbind (store_atomic (reserved_cash_atomic b)) (\<lambda>reserved_cash.
        Inr \<lparr>pr_id = policy_id H p, pr_name = policy_name p, pr_side = pol_side p,
             pr_instrument = pol_instrument_id p, pr_quote = pol_quote_instrument_id p,
             pr_network = pol_network_id p, pr_allocation = allocation,
             pr_per_order_cap = per_order, pr_per_instrument_cap = per_instrument,
             pr_per_network_cap = per_network, pr_global_cap = global_cap,
             pr_reserved_cash = reserved_cash, pr_max_cycles = max_cycles p,
             pr_canonical = canonical p\<rparr>)))))))"

definition opt_format :: "rat option \<Rightarrow> error + string option" where
  "opt_format v = (case v of None \<Rightarrow> Inr None | Some x \<Rightarrow> rbind (format_canonical_decimal x) (\<lambda>s. Inr (Some s)))"

definition level_row_of :: "string \<Rightarrow> LadderLevelV0 \<Rightarrow> error + level_row" where
  "level_row_of pid l =
     rbind (format_canonical_decimal (lv_trigger_price l)) (\<lambda>trigger.
     rbind (opt_format (lv_input_amount l)) (\<lambda>amount.
     rbind (opt_format (lv_input_ratio l)) (\<lambda>ratio.
       Inr \<lparr>lr_policy = pid, lr_level = lv_level_id l, lr_kind = lv_kind l, lr_side = lv_side l,
            lr_index = lv_index l, lr_trigger = trigger, lr_amount = amount, lr_ratio = ratio\<rparr>)))"

definition insert_level_of :: "string \<Rightarrow> LadderLevelV0 \<Rightarrow> (db, error, unit) body" where
  "insert_level_of pid l = sbind (slift (level_row_of pid l)) (\<lambda>r. swrite (insert_level r))"

definition admit_policy_body :: "digest_fn \<Rightarrow> PolicyV0 \<Rightarrow> (db, error, string) body" where
  "admit_policy_body H p =
     sbind (upsert_instrument H (base p)) (\<lambda>_.
     sbind (upsert_instrument H (quote_instrument p)) (\<lambda>_.
     sbind (sget policies) (\<lambda>existing.
     sbind (sguard (list_all (\<lambda>r. pr_quote r = pol_quote_instrument_id p) existing) LedgerError) (\<lambda>_.
     case find_row pr_id (policy_id H p) existing of
       Some r \<Rightarrow>
         sbind (sguard (canonical_json_str (pr_canonical r) = canonical_json_str (canonical p)) LedgerError)
           (\<lambda>_. sret (policy_id H p))
     | None \<Rightarrow>
         sbind (slift (policy_row_of H p)) (\<lambda>row.
         sbind (swrite (insert_policy row)) (\<lambda>_.
         sbind (sfor (insert_level_of (policy_id H p)) (levels p)) (\<lambda>_.
           sret (policy_id H p))))))))"

definition admit_policy :: "digest_fn \<Rightarrow> PolicyV0 \<Rightarrow> ledger \<Rightarrow> (error + string) \<times> ledger" where
  "admit_policy H p = write_txn (admit_policy_body H p)"

subsection \<open>Cycles\<close>

definition open_cycle_body :: "string \<Rightarrow> string \<Rightarrow> int \<Rightarrow> int \<Rightarrow> (db, error, string) body" where
  "open_cycle_body pid cid index now =
     sbind (sget cycles) (\<lambda>cs.
     sbind (sguard (\<not> has_row cr_id cid cs) LedgerError) (\<lambda>_.
     sbind (swrite (insert_cycle \<lparr>cr_id = cid, cr_policy = pid, cr_index = index, cr_status = OPEN\<rparr>)) (\<lambda>_.
     sbind (append_event CYCLE_OPENED pid cid None None (Some (Cycle OPEN)) now
       (JObj [(''cycle_index'', JInt index)])) (\<lambda>_.
     sret cid))))"

definition open_cycle :: "digest_fn \<Rightarrow> PolicyV0 \<Rightarrow> int \<Rightarrow> int \<Rightarrow> ledger \<Rightarrow> (error + string) \<times> ledger" where
  "open_cycle H p index now lg =
     (if index \<ge> max_cycles p then (Inl LedgerError, lg)
      else case cycle_id_for (policy_id H p) index of
             Inl e \<Rightarrow> (Inl e, lg)
           | Inr cid \<Rightarrow> write_txn (open_cycle_body (policy_id H p) cid index now) lg)"

definition close_cycle_body :: "string \<Rightarrow> CycleStatus \<Rightarrow> int \<Rightarrow> (db, error, unit) body" where
  "close_cycle_body cid status now =
     sbind (sget (\<lambda>d. find_row cr_id cid (cycles d))) (\<lambda>row.
     case row of
       None \<Rightarrow> sraise LedgerError
     | Some c \<Rightarrow>
         sbind (sguard (cr_status c = OPEN) LedgerError) (\<lambda>_.
         sbind (sput (update_cycle_status cid status)) (\<lambda>_.
         sbind (append_event (if status = COMPLETED then CYCLE_COMPLETED else CYCLE_HALTED)
           (cr_policy c) cid None (Some (Cycle OPEN)) (Some (Cycle status)) now (JObj [])) (\<lambda>_.
         sret ()))))"

definition close_cycle :: "string \<Rightarrow> CycleStatus \<Rightarrow> int \<Rightarrow> ledger \<Rightarrow> (error + unit) \<times> ledger" where
  "close_cycle cid status now lg =
     (if status \<notin> {COMPLETED, HALTED} then (Inl LedgerError, lg)
      else write_txn (close_cycle_body cid status now) lg)"

subsection \<open>Projections\<close>

definition held_where :: "(reservation_row \<Rightarrow> bool) \<Rightarrow> db \<Rightarrow> int" where
  "held_where scope d =
     sum_list (map br_amount (filter (\<lambda>r. br_status r \<noteq> RELEASED \<and> scope r) (budget_reservations d)))"

definition held_atomic :: "string option \<Rightarrow> string option \<Rightarrow> string option \<Rightarrow> db \<Rightarrow> int" where
  "held_atomic pid iid nid =
     held_where (\<lambda>r. (case pid of None \<Rightarrow> True | Some v \<Rightarrow> br_policy r = v) \<and>
                     (case iid of None \<Rightarrow> True | Some v \<Rightarrow> br_instrument r = v) \<and>
                     (case nid of None \<Rightarrow> True | Some v \<Rightarrow> br_network r = v))"

definition total_filled :: "(receipt_row \<Rightarrow> int) \<Rightarrow> string \<Rightarrow> db \<Rightarrow> int" where
  "total_filled col a d = sum_list (map col (filter (\<lambda>f. fr_action f = a) (fill_receipts d)))"

definition filled_sum :: "Side \<Rightarrow> (receipt_row \<Rightarrow> int) \<Rightarrow> string \<Rightarrow> db \<Rightarrow> int" where
  "filled_sum side col cid d =
     sum_list (map (\<lambda>i. total_filled col (nr_id i) d)
       (filter (\<lambda>i. nr_cycle i = cid \<and> nr_state i = FILLED \<and> nr_side i = side) (intents d)))"

definition opening_events :: "db \<Rightarrow> event_row list" where
  "opening_events d = sort_key ev_seq (filter (\<lambda>e. ev_type e = CYCLE_OPENED) (state_events d))"

text \<open>The \<open>inventory_carry\<close> of an opening payload when it is an object naming the source.\<close>

definition carry_source :: "json \<Rightarrow> error + json option" where
  "carry_source payload =
     rbind (jget_attr ''inventory_carry'' payload) (\<lambda>carry.
       case carry of JObj kvs \<Rightarrow> Inr (Some (jget ''source_cycle_id'' kvs)) | _ \<Rightarrow> Inr None)"

definition carry_in_of :: "json \<Rightarrow> error + int" where
  "carry_in_of payload =
     rbind (jget_attr ''inventory_carry'' payload) (\<lambda>carry.
       case carry of
         JNull \<Rightarrow> Inr 0
       | JObj kvs \<Rightarrow>
           if jkeys kvs = {''amount_atomic'', ''source_cycle_id''}
           then decode_json_atomic (jget ''amount_atomic'' kvs) else Inl LedgerError
       | _ \<Rightarrow> Inl LedgerError)"

definition carry_out_of :: "string \<Rightarrow> json \<Rightarrow> error + int" where
  "carry_out_of cid payload =
     rbind (carry_source payload) (\<lambda>src.
       if src = Some (JStr cid) then
         rbind (jget_attr ''inventory_carry'' payload) (\<lambda>carry.
         rbind (jfetch ''amount_atomic'' carry) decode_json_atomic)
       else Inr 0)"

record projection =
  pj_cycle :: string
  pj_policy :: string
  pj_status :: CycleStatus
  pj_requires_reconciliation :: bool
  pj_inventory :: int
  pj_base_acquired :: int
  pj_base_disposed :: int
  pj_carry_in :: int
  pj_carry_out :: int
  pj_quote_proceeds :: int
  pj_quote_spent :: int
  pj_held :: int
  pj_next_entry :: "string list"
  pj_next_exit :: "string list"

definition eligible_levels :: "LadderKind \<Rightarrow> string \<Rightarrow> string \<Rightarrow> db \<Rightarrow> string list" where
  "eligible_levels kind pid cid d =
     (let consumed = set (map nr_level (filter (\<lambda>i. nr_cycle i = cid) (intents d)))
      in map lr_level (filter (\<lambda>l. lr_kind l = kind \<and> lr_level l \<notin> consumed)
           (sort_key lr_index (filter (\<lambda>l. lr_policy l = pid) (ladder_levels d)))))"

definition cycle_projection :: "string \<Rightarrow> db \<Rightarrow> error + projection" where
  "cycle_projection cid d =
     (case find_row cr_id cid (cycles d) of
        None \<Rightarrow> Inl LedgerError
      | Some c \<Rightarrow>
          (case find_row ev_cycle cid (opening_events d) of
             None \<Rightarrow> Inl LedgerError
           | Some opening \<Rightarrow>
               rbind (carry_in_of (ev_payload opening)) (\<lambda>carry_in.
               rbind (rfold (\<lambda>acc e. rbind (carry_out_of cid (ev_payload e)) (\<lambda>n. Inr (acc + n))) 0
                 (opening_events d)) (\<lambda>carry_out.
               let base_in = filled_sum BUY fr_output cid d; base_out = filled_sum SELL fr_input cid d
               in Inr \<lparr>pj_cycle = cid, pj_policy = cr_policy c, pj_status = cr_status c,
                 pj_requires_reconciliation = list_ex (\<lambda>i. nr_cycle i = cid \<and> nr_state i = SAFE_HALT) (intents d),
                 pj_inventory = carry_in + base_in - base_out - carry_out,
                 pj_base_acquired = base_in, pj_base_disposed = base_out,
                 pj_carry_in = carry_in, pj_carry_out = carry_out,
                 pj_quote_proceeds = filled_sum SELL fr_output cid d,
                 pj_quote_spent = filled_sum BUY fr_input cid d,
                 pj_held = held_atomic None None None d,
                 pj_next_entry = eligible_levels ENTRY (cr_policy c) cid d,
                 pj_next_exit = eligible_levels EXIT (cr_policy c) cid d\<rparr>))))"

definition inventory_atomic :: "string \<Rightarrow> db \<Rightarrow> error + int" where
  "inventory_atomic cid d = rbind (cycle_projection cid d) (\<lambda>pj. Inr (pj_inventory pj))"

subsection \<open>Carrying inventory into a successor cycle\<close>

text \<open>The asset and the network of a policy row, which a carry may not change.\<close>

definition asset_of :: "policy_row \<Rightarrow> string \<times> string \<times> string" where
  "asset_of r = (pr_instrument r, pr_quote r, pr_network r)"

definition continue_inventory_body ::
  "digest_fn \<Rightarrow> string \<Rightarrow> PolicyV0 \<Rightarrow> int \<Rightarrow> string \<Rightarrow> int \<Rightarrow> (db, error, string) body" where
  "continue_inventory_body H source_cid p index cid now =
     sbind (sget (\<lambda>d. find_row pr_id (policy_id H p) (policies d))) (\<lambda>successor.
     case successor of None \<Rightarrow> sraise LedgerError | Some successor_row \<Rightarrow>
     sbind (sguard (canonical_json_str (pr_canonical successor_row) = canonical_json_str (canonical p))
       LedgerError) (\<lambda>_.
     sbind (sget (\<lambda>d. case find_row cr_id source_cid (cycles d) of
                        None \<Rightarrow> None
                      | Some c \<Rightarrow> map_option (Pair c) (find_row pr_id (cr_policy c) (policies d)))) (\<lambda>source.
     case source of None \<Rightarrow> sraise LedgerError | Some (c, source_row) \<Rightarrow>
     sbind (sguard (cr_status c = OPEN) LedgerError) (\<lambda>_.
     sbind (sguard (cid \<noteq> source_cid) LedgerError) (\<lambda>_.
     sbind (sguard (asset_of source_row = asset_of successor_row) LedgerError) (\<lambda>_.
     sbind (sget cycles) (\<lambda>cs.
     sbind (sguard (\<not> has_row cr_id cid cs) LedgerError) (\<lambda>_.
     sbind (sget intents) (\<lambda>is.
     sbind (sguard (list_all (\<lambda>i. nr_cycle i = source_cid \<longrightarrow>
         nr_state i \<in> TERMINAL_STATES \<and> nr_state i \<noteq> SAFE_HALT) is) LedgerError) (\<lambda>_.
     sbind (sget opening_events) (\<lambda>openings.
     sbind (slift (check_all (\<lambda>e. rbind (carry_source (ev_payload e)) (\<lambda>src.
         require (src \<noteq> Some (JStr source_cid)) LedgerError)) openings)) (\<lambda>_.
     sbind (sget (inventory_atomic source_cid)) (\<lambda>inventory.
     sbind (slift inventory) (\<lambda>carried.
     sbind (sguard (0 < carried) LedgerError) (\<lambda>_.
     sbind (sput (update_cycle_status source_cid COMPLETED)) (\<lambda>_.
     sbind (append_event CYCLE_COMPLETED (cr_policy c) source_cid None (Some (Cycle OPEN))
       (Some (Cycle COMPLETED)) now (JObj [])) (\<lambda>_.
     sbind (swrite (insert_cycle
       \<lparr>cr_id = cid, cr_policy = policy_id H p, cr_index = index, cr_status = OPEN\<rparr>)) (\<lambda>_.
     sbind (append_event CYCLE_OPENED (policy_id H p) cid None None (Some (Cycle OPEN)) now
       (JObj [(''cycle_index'', JInt index),
         (''inventory_carry'', JObj [(''amount_atomic'', JStr (str_int carried)),
            (''source_cycle_id'', JStr source_cid)])])) (\<lambda>_.
     sret cid)))))))))))))))))))"

definition continue_inventory_into_successor_cycle ::
  "digest_fn \<Rightarrow> string \<Rightarrow> PolicyV0 \<Rightarrow> int \<Rightarrow> int \<Rightarrow> ledger \<Rightarrow> (error + string) \<times> ledger" where
  "continue_inventory_into_successor_cycle H source_cid p index now lg =
     (if index < 0 then (Inl LedgerError, lg)
      else if index \<ge> max_cycles p then (Inl LedgerError, lg)
      else if now < 0 then (Inl LedgerError, lg)
      else if \<not> (valid_from_epoch_s p \<le> now \<and> now < expiry_epoch_s p) then (Inl LedgerError, lg)
      else case cycle_id_for (policy_id H p) index of
             Inl e \<Rightarrow> (Inl e, lg)
           | Inr cid \<Rightarrow> write_txn (continue_inventory_body H source_cid p index cid now) lg)"

subsection \<open>Intents\<close>

definition intent_row_of :: "IntentV0 \<Rightarrow> error + intent_row" where
  "intent_row_of i =
     rbind (store_atomic (in_quote_exposure_atomic i)) (\<lambda>exposure.
     rbind (bounds_canonical_object (in_bounds i)) (\<lambda>bounds.
       Inr \<lparr>nr_id = in_economic_action_id i, nr_policy = in_policy_id i,
            nr_instrument = in_instrument_id i, nr_quote = in_quote_instrument_id i,
            nr_network = in_network_id i, nr_cycle = in_cycle_id i, nr_level = in_level_id i,
            nr_side = in_side i, nr_kind = in_kind i, nr_state = ARMED, nr_exposure = exposure,
            nr_bounds = bounds\<rparr>))"

text \<open>The insertion with its \<open>except sqlite3.IntegrityError\<close>.\<close>

definition insert_intent_once :: "intent_row \<Rightarrow> db \<Rightarrow> error + db" where
  "insert_intent_once r d =
     (case insert_intent r d of
        Inl e \<Rightarrow> Inl (if e = SqliteUnique then DuplicateEconomicActionError
                      else if integrity_error e then LedgerError else e)
      | Inr d' \<Rightarrow> Inr d')"

definition create_intent_body :: "IntentV0 \<Rightarrow> int \<Rightarrow> (db, error, unit) body" where
  "create_intent_body i now =
     sbind (slift (intent_row_of i)) (\<lambda>row.
     sbind (swrite (insert_intent_once row)) (\<lambda>_.
     sbind (slift (intent_canonical_object i)) (\<lambda>payload.
     sbind (append_event INTENT_CREATED (in_policy_id i) (in_cycle_id i) (Some (in_economic_action_id i))
       None (Some (Intent ARMED)) now (JObj payload)) (\<lambda>_.
     sret ()))))"

definition create_intent :: "IntentV0 \<Rightarrow> int \<Rightarrow> ledger \<Rightarrow> (error + unit) \<times> ledger" where
  "create_intent i now lg =
     (if in_state i \<noteq> ARMED then (Inl LedgerError, lg) else write_txn (create_intent_body i now) lg)"

definition intent_row_for :: "string \<Rightarrow> db \<Rightarrow> error + intent_row" where
  "intent_row_for a d =
     (case find_row nr_id a (intents d) of None \<Rightarrow> Inl LedgerError | Some r \<Rightarrow> Inr r)"

definition intent_state_for :: "string \<Rightarrow> db \<Rightarrow> error + intent_state" where
  "intent_state_for a d = rbind (intent_row_for a d) (\<lambda>r. Inr (nr_state r))"

subsection \<open>The execution surface\<close>

definition execution_surface_present :: "db \<Rightarrow> bool" where
  "execution_surface_present d \<longleftrightarrow> exec_surface d \<noteq> None"

definition has_settled_receipt :: "string \<Rightarrow> db \<Rightarrow> error + bool" where
  "has_settled_receipt a d =
     (case exec_surface d of
        None \<Rightarrow> Inl SqliteOperational
      | Some e \<Rightarrow> Inr (list_ex (\<lambda>r. rr_action r = a \<and> rr_verdict r = V_SETTLED \<and>
          list_ex (\<lambda>f. rr_receipt r = Some (fr_id f) \<and> fr_action f = rr_action r) (fill_receipts d))
          (reconciliations e)))"

definition bound_to :: "reconciliation_row \<Rightarrow> ('a) origin_row_scheme \<Rightarrow> bool" where
  "bound_to r og \<longleftrightarrow> or_action og = rr_action r \<and> rr_hash r = Some (or_hash og) \<and>
     rr_chain r = Some (or_chain og) \<and> rr_taker r = Some (or_taker og)"

definition reverted_observation :: "observation_row \<Rightarrow> bool" where
  "reverted_observation co \<longleftrightarrow> co_presence co = P_INCLUDED \<and> co_receipt_status co = Some RS_REVERTED"

definition has_bound_reverted_reconciliation :: "string \<Rightarrow> db \<Rightarrow> error + bool" where
  "has_bound_reverted_reconciliation a d =
     (case exec_surface d of
        None \<Rightarrow> Inl LedgerError
      | Some e \<Rightarrow> Inr (list_ex (\<lambda>r. rr_action r = a \<and> rr_verdict r = V_REVERTED \<and>
          (list_ex (\<lambda>st. bound_to r st \<and> list_ex (\<lambda>co. co_action co = or_action st \<and>
               co_signed co = Some (or_id st) \<and> reverted_observation co) (chain_observations e))
             (signed_transactions e) \<or>
           list_ex (\<lambda>er. bound_to r er \<and> list_ex (\<lambda>co. co_action co = or_action er \<and>
               co_external co = Some (or_id er) \<and> reverted_observation co) (chain_observations e))
             (external_transaction_refs e))) (reconciliations e)))"

text \<open>The committed bounds of an intent against the sums of its receipts.\<close>

definition bounds_amounts :: "json \<Rightarrow> error + int \<times> int" where
  "bounds_amounts bounds =
     rbind (rbind (jfetch ''max_input_atomic'' bounds) decode_json_atomic) (\<lambda>max_input.
     rbind (rbind (jfetch ''min_output_atomic'' bounds) decode_json_atomic) (\<lambda>min_output.
       Inr (max_input, min_output)))"

definition required_output :: "int \<Rightarrow> int \<Rightarrow> int \<Rightarrow> int" where
  "required_output max_input min_output total_in = - ((- min_output * total_in) div max_input)"

definition receipt_within_bounds :: "string \<Rightarrow> json \<Rightarrow> db \<Rightarrow> error + bool" where
  "receipt_within_bounds a bounds d =
     rbind (bounds_amounts bounds) (\<lambda>(max_input, min_output).
       let total_in = total_filled fr_input a d; total_out = total_filled fr_output a d in
       if total_in > max_input then Inr False
       else Inr (total_out \<ge> required_output max_input min_output total_in))"

definition settled_fill_within_bounds :: "string \<Rightarrow> db \<Rightarrow> error + bool" where
  "settled_fill_within_bounds a d =
     rbind (intent_row_for a d) (\<lambda>row.
     rbind (bounds_amounts (nr_bounds row)) (\<lambda>(max_input, min_output).
       let total_in = total_filled fr_input a d; total_out = total_filled fr_output a d in
       if total_in \<le> 0 \<or> total_in > max_input then Inr False
       else Inr (total_out \<ge> required_output max_input min_output total_in)))"

subsection \<open>Budget\<close>

text \<open>A comparison with a NULL cap is false.\<close>

definition le_cap :: "int \<Rightarrow> int option \<Rightarrow> bool" where
  "le_cap n cap = (case cap of None \<Rightarrow> False | Some c \<Rightarrow> n \<le> c)"

definition tightest :: "int list \<Rightarrow> int option" where
  "tightest ns = (case ns of [] \<Rightarrow> None | _ \<Rightarrow> Some (Min (set ns)))"

definition spendable :: "policy_row \<Rightarrow> int" where
  "spendable r = max (pr_global_cap r - pr_reserved_cash r) 0"

text \<open>The WHERE clause of the reservation: the five caps, read in one statement.\<close>

definition caps_admit :: "intent_row \<Rightarrow> int \<Rightarrow> db \<Rightarrow> bool" where
  "caps_admit i amount d \<longleftrightarrow>
     (let policy = find_row pr_id (nr_policy i) (policies d);
          caps = (\<lambda>col scope. tightest (map col (filter scope (policies d)))) in
      le_cap amount (map_option pr_per_order_cap policy) \<and>
      le_cap (amount + held_where (\<lambda>r. br_policy r = nr_policy i) d) (map_option pr_allocation policy) \<and>
      le_cap (amount + held_where (\<lambda>r. br_instrument r = nr_instrument i) d)
        (caps pr_per_instrument_cap (\<lambda>p. pr_instrument p = nr_instrument i)) \<and>
      le_cap (amount + held_where (\<lambda>r. br_network r = nr_network i) d)
        (caps pr_per_network_cap (\<lambda>p. pr_network p = nr_network i)) \<and>
      le_cap (amount + held_where (\<lambda>r. True) d) (caps spendable (\<lambda>p. True)))"

definition reserve :: "string \<Rightarrow> intent_row \<Rightarrow> (db, error, unit) body" where
  "reserve a i =
     (if nr_exposure i = 0 then sret ()
      else
        sbind (sget (\<lambda>d. has_row br_id a (budget_reservations d))) (\<lambda>holds.
        sbind (sguard (\<not> holds) DuplicateEconomicActionError) (\<lambda>_.
        sbind (sget next_seq) (\<lambda>seq.
        sbind (sget (caps_admit i (nr_exposure i))) (\<lambda>ok.
        sbind (sguard ok BudgetExceededError) (\<lambda>_.
        swrite (insert_reservation
          \<lparr>br_id = a, br_policy = nr_policy i, br_instrument = nr_instrument i,
           br_quote = nr_quote i, br_network = nr_network i, br_amount = nr_exposure i,
           br_status = ACTIVE, br_reserved_seq = seq, br_settled_seq = None\<rparr>)))))))"

definition settle_reservation :: "string \<Rightarrow> ReservationStatus \<Rightarrow> (db, error, unit) body" where
  "settle_reservation a status =
     sbind (sget (\<lambda>d. find_row br_id a (budget_reservations d))) (\<lambda>row.
     if row = None \<or> br_status (the row) \<noteq> ACTIVE then sret ()
     else sput (\<lambda>d. update_reservation a status (Some (next_seq d)) d))"

subsection \<open>Transitions\<close>

text \<open>The consequence of a transition for budget and evidence, before the state moves.\<close>

definition transition_effect :: "string \<Rightarrow> intent_row \<Rightarrow> intent_state \<Rightarrow> (db, error, unit) body" where
  "transition_effect a row to_state =
     (let src = nr_state row in
      if to_state = RESERVED then reserve a row
      else if to_state = FILLED then
        sbind (sget execution_surface_present) (\<lambda>present.
        sbind (if src = RECONCILED \<and> present then
                 sbind (sget (has_settled_receipt a)) (\<lambda>h. sbind (slift h) (\<lambda>ok. sguard ok LedgerError))
               else sret ()) (\<lambda>_.
        settle_reservation a COMMITTED))
      else if to_state \<in> RELEASING_STATES then
        sbind (if src \<in> {SIGNED, SUBMITTED, INCLUDED, CONFIRMED} then
                 sbind (sget (has_bound_reverted_reconciliation a)) (\<lambda>h.
                 sbind (slift h) (\<lambda>ok. sguard ok LedgerError))
               else sret ()) (\<lambda>_.
        settle_reservation a RELEASED)
      else if to_state = RECONCILED then
        sbind (sget execution_surface_present) (\<lambda>present.
        if present then
          sbind (sget (has_settled_receipt a)) (\<lambda>h. sbind (slift h) (\<lambda>ok. sguard ok LedgerError))
        else sret ())
      else if to_state = SAFE_HALT then settle_reservation a QUARANTINED
      else sret ())"

definition transition_body ::
  "string \<Rightarrow> intent_state \<Rightarrow> int \<Rightarrow> (string \<times> json) list \<Rightarrow> (db, error, unit) body" where
  "transition_body a to_state now payload =
     sbind (sget (intent_row_for a)) (\<lambda>found.
     sbind (slift found) (\<lambda>row.
     sbind (slift (assert_legal_transition (nr_state row) to_state)) (\<lambda>_.
     sbind (transition_effect a row to_state) (\<lambda>_.
     sbind (sput (update_intent_state a to_state)) (\<lambda>_.
     sbind (append_event INTENT_TRANSITION (nr_policy row) (nr_cycle row) (Some a)
       (Some (Intent (nr_state row))) (Some (Intent to_state)) now (JObj payload)) (\<lambda>_.
     sret ()))))))"

definition transition ::
  "string \<Rightarrow> intent_state \<Rightarrow> int \<Rightarrow> (string \<times> json) list \<Rightarrow> ledger \<Rightarrow> (error + unit) \<times> ledger" where
  "transition a to_state now payload = write_txn (transition_body a to_state now payload)"

subsection \<open>Recovery of a halted action from terminal chain truth\<close>

definition recovery_payload :: "reconciliation_row \<Rightarrow> string \<Rightarrow> json" where
  "recovery_payload r expected = JObj
     [(''reconciliation_id'', JStr (rr_id r)),
      (''receipt_id'', case rr_receipt r of None \<Rightarrow> JNull | Some f \<Rightarrow> JStr f),
      (''recovery_type'', JStr ''TERMINAL_CHAIN_TRUTH_AFTER_SAFE_HALT''),
      (''verdict'', JStr expected)]"

text \<open>The UPDATE of a quarantined reservation, whose row count must be one.\<close>

definition unquarantine :: "string \<Rightarrow> ReservationStatus \<Rightarrow> int option \<Rightarrow> (db, error, unit) body" where
  "unquarantine a status seq =
     sbind (sget (\<lambda>d. find_row br_id a (budget_reservations d))) (\<lambda>row.
     sbind (sguard (row \<noteq> None \<and> br_status (the row) = QUARANTINED) LedgerError) (\<lambda>_.
     sput (update_reservation a status seq)))"

definition recovery_evidence :: "string \<Rightarrow> intent_state \<Rightarrow> intent_row \<Rightarrow> (db, error, unit) body" where
  "recovery_evidence a to_state row =
     (if to_state = RECONCILED then
        sbind (sget (has_settled_receipt a)) (\<lambda>h. sbind (slift h) (\<lambda>ok. sbind (sguard ok LedgerError) (\<lambda>_.
        sbind (sget (settled_fill_within_bounds a)) (\<lambda>w. sbind (slift w) (\<lambda>ok. sbind (sguard ok LedgerError) (\<lambda>_.
        if nr_exposure row > 0 then unquarantine a ACTIVE None else sret ()))))))
      else
        sbind (sget (has_bound_reverted_reconciliation a)) (\<lambda>h. sbind (slift h) (\<lambda>ok. sguard ok LedgerError)))"

definition recovery_release :: "string \<Rightarrow> intent_state \<Rightarrow> intent_row \<Rightarrow> int \<Rightarrow> (db, error, unit) body" where
  "recovery_release a to_state row seq =
     (if to_state = REJECTED \<and> nr_exposure row > 0 then unquarantine a RELEASED (Some seq) else sret ())"

definition recover_safe_halt_body :: "string \<Rightarrow> intent_state \<Rightarrow> int \<Rightarrow> (db, error, unit) body" where
  "recover_safe_halt_body a to_state now =
     sbind (sget (intent_row_for a)) (\<lambda>found.
     sbind (slift found) (\<lambda>row.
     sbind (sguard (nr_state row = SAFE_HALT) LedgerError) (\<lambda>_.
     sbind (sget (\<lambda>d. find_row br_id a (budget_reservations d))) (\<lambda>reservation.
     sbind (sguard (if nr_exposure row = 0 then reservation = None
                    else reservation \<noteq> None \<and> br_status (the reservation) = QUARANTINED) LedgerError) (\<lambda>_.
     sbind (sget exec_surface) (\<lambda>surface.
     case surface of None \<Rightarrow> sraise SqliteOperational | Some e \<Rightarrow>
     case find_row rr_action a (reconciliations e) of None \<Rightarrow> sraise LedgerError | Some r \<Rightarrow>
     sbind (sguard (rr_verdict r = (if to_state = RECONCILED then V_SETTLED else V_REVERTED)) LedgerError) (\<lambda>_.
     sbind (recovery_evidence a to_state row) (\<lambda>_.
     sbind (append_event CHAIN_TRUTH_RECOVERED (nr_policy row) (nr_cycle row) (Some a)
       (Some (Intent SAFE_HALT)) (Some (Intent to_state)) now
       (recovery_payload r (if to_state = RECONCILED then ''SETTLED'' else ''REVERTED''))) (\<lambda>seq.
     sbind (recovery_release a to_state row seq) (\<lambda>_.
     sput (update_intent_state a to_state)))))))))))"

definition recover_safe_halt_from_terminal_chain_truth ::
  "string \<Rightarrow> intent_state \<Rightarrow> int \<Rightarrow> ledger \<Rightarrow> (error + unit) \<times> ledger" where
  "recover_safe_halt_from_terminal_chain_truth a to_state now lg =
     (if to_state \<notin> {RECONCILED, REJECTED} then (Inl LedgerError, lg)
      else write_txn (recover_safe_halt_body a to_state now) lg)"

subsection \<open>Receipts\<close>

definition receipt_row_of :: "FillReceiptV0 \<Rightarrow> int \<Rightarrow> error + receipt_row" where
  "receipt_row_of r seq =
     rbind (store_atomic (input_atomic_filled r)) (\<lambda>inp.
     rbind (store_atomic (output_atomic_filled r)) (\<lambda>out.
     rbind (store_atomic (fee_atomic r)) (\<lambda>fee.
     rbind (require (observed_at_epoch_s r \<le> INT64_MAX) PyOverflowError) (\<lambda>_.
       Inr \<lparr>fr_id = rc_receipt_id r, fr_action = rc_economic_action_id r, fr_ref = rc_external_ref r,
            fr_input = inp, fr_output = out, fr_fee = fee, fr_observed = observed_at_epoch_s r,
            fr_source = rc_source r, fr_seq = seq\<rparr>))))"

definition insert_receipt_once :: "receipt_row \<Rightarrow> db \<Rightarrow> error + db" where
  "insert_receipt_once r d =
     (case insert_receipt r d of
        Inl e \<Rightarrow> Inl (if integrity_error e then LedgerError else e)
      | Inr d' \<Rightarrow> Inr d')"

definition halt_on_bounds :: "string \<Rightarrow> intent_row \<Rightarrow> int \<Rightarrow> (db, error, unit) body" where
  "halt_on_bounds a row now =
     sbind (slift (assert_legal_transition (nr_state row) SAFE_HALT)) (\<lambda>_.
     sbind (settle_reservation a QUARANTINED) (\<lambda>_.
     sbind (sput (update_intent_state a SAFE_HALT)) (\<lambda>_.
     sbind (append_event INTENT_TRANSITION (nr_policy row) (nr_cycle row) (Some a)
       (Some (Intent (nr_state row))) (Some (Intent SAFE_HALT)) now
       (JObj [(''reason'', JStr ''FILL_OUTSIDE_COMMITTED_BOUNDS'')])) (\<lambda>_.
     sret ()))))"

definition append_fill_receipt_in_transaction :: "FillReceiptV0 \<Rightarrow> int \<Rightarrow> (db, error, bool) body" where
  "append_fill_receipt_in_transaction r now =
     (let a = rc_economic_action_id r in
      sbind (sget (intent_row_for a)) (\<lambda>found.
      sbind (slift found) (\<lambda>row.
      sbind (sguard (nr_state row \<in> RECEIPT_STATES) LedgerError) (\<lambda>_.
      sbind (sget next_seq) (\<lambda>seq.
      sbind (slift (receipt_row_of r seq)) (\<lambda>frow.
      sbind (swrite (insert_receipt_once frow)) (\<lambda>_.
      sbind (append_event FILL_RECEIPT_APPENDED (nr_policy row) (nr_cycle row) (Some a)
        (Some (Intent (nr_state row))) None now (JObj (receipt_canonical_object r))) (\<lambda>_.
      sbind (sget (receipt_within_bounds a (nr_bounds row))) (\<lambda>fits.
      sbind (slift fits) (\<lambda>ok.
      sbind (if \<not> ok \<and> nr_state row \<noteq> SAFE_HALT then halt_on_bounds a row now else sret ()) (\<lambda>_.
      sret ok)))))))))))"

definition append_fill_receipt :: "FillReceiptV0 \<Rightarrow> int \<Rightarrow> ledger \<Rightarrow> (error + bool) \<times> ledger" where
  "append_fill_receipt r now lg =
     (if execution_surface_present (lg_db lg) then (Inl LedgerError, lg)
      else write_txn (append_fill_receipt_in_transaction r now) lg)"

text \<open>
  The settlement binding of \<open>execution_contract.py\<close>: what the ledger expects of the
  chain, and the opaque binding only the ledger runtime can mint (\<open>va_minted\<close>).
\<close>

definition hex_text :: "string \<Rightarrow> nat \<Rightarrow> string \<Rightarrow> bool" where
  "hex_text pre n = matches_line (\<lambda>s. take (length pre) s = pre \<and>
     length s = length pre + n \<and> list_all is_lower_hex (drop (length pre) s))"

record SettlementExpectationV0 =
  se_action :: string
  se_hash :: string
  se_chain :: int
  se_taker :: string
  se_acknowledged :: bool

definition make_expectation :: "SettlementExpectationV0 \<Rightarrow> error + SettlementExpectationV0" where
  "make_expectation se =
     (if \<not> hex_text [] 64 (se_action se) then Inl ChainTruthError
      else if \<not> hex_text ''0x'' 64 (se_hash se) then Inl ChainTruthError
      else if se_chain se \<le> 0 then Inl ChainTruthError
      else if \<not> EVM_ADDRESS_RE (se_taker se) then Inl ChainTruthError
      else if hex_text_is_zero (se_taker se) then Inl ChainTruthError
      else Inr se)"

record ValidatedEconomicActionV0 =
  va_action :: string
  va_hash :: string
  va_chain :: int
  va_taker :: string
  va_minted :: bool

definition assert_matches :: "ValidatedEconomicActionV0 \<Rightarrow> SettlementExpectationV0 \<Rightarrow> error + unit" where
  "assert_matches va se =
     (if \<not> va_minted va then Inl ChainTruthError
      else if va_action va \<noteq> se_action se \<or> va_hash va \<noteq> se_hash se \<or>
        va_chain va \<noteq> se_chain se \<or> va_taker va \<noteq> se_taker se then Inl ChainTruthError
      else Inr ())"

text \<open>The one transaction origin of an economic action: signed here, or referred to.\<close>

definition transaction_origin :: "string \<Rightarrow> exec_tables \<Rightarrow> (bool \<times> origin_row) option" where
  "transaction_origin a e =
     (if map_of (external_actions e) a \<noteq> Some ECONOMIC then None
      else case (find_row or_action a (signed_transactions e),
                 find_row or_action a (external_transaction_refs e)) of
             (Some st, None) \<Rightarrow> Some (True, st)
           | (None, Some er) \<Rightarrow> Some (False, origin_row.truncate er)
           | _ \<Rightarrow> None)"

definition successful_observation :: "bool \<Rightarrow> origin_row \<Rightarrow> FillReceiptV0 \<Rightarrow> observation_row \<Rightarrow> bool" where
  "successful_observation signed og r co \<longleftrightarrow> co_action co = rc_economic_action_id r \<and>
     (if signed then co_signed co else co_external co) = Some (or_id og) \<and>
     co_presence co = P_INCLUDED \<and> co_receipt_status co = Some RS_SUCCESS \<and>
     co_input co = Some (input_atomic_filled r) \<and> co_output co = Some (output_atomic_filled r)"

definition append_execution_fill_receipt_body ::
  "FillReceiptV0 \<Rightarrow> ValidatedEconomicActionV0 \<Rightarrow> int \<Rightarrow> (db, error, bool) body" where
  "append_execution_fill_receipt_body r va now =
     sbind (sget exec_surface) (\<lambda>surface.
     case surface of None \<Rightarrow> sraise LedgerError | Some e \<Rightarrow>
     case transaction_origin (rc_economic_action_id r) e of None \<Rightarrow> sraise LedgerError
     | Some (signed, og) \<Rightarrow>
     sbind (slift (make_expectation
       \<lparr>se_action = rc_economic_action_id r, se_hash = or_hash og, se_chain = or_chain og,
        se_taker = or_taker og, se_acknowledged = signed\<rparr>)) (\<lambda>expectation.
     sbind (slift (assert_matches va expectation)) (\<lambda>_.
     sbind (sguard (rc_external_ref r = or_hash og) LedgerError) (\<lambda>_.
     sbind (slift (store_atomic (input_atomic_filled r))) (\<lambda>_.
     sbind (slift (store_atomic (output_atomic_filled r))) (\<lambda>_.
     sbind (sguard (list_ex (successful_observation signed og r) (chain_observations e)) LedgerError) (\<lambda>_.
     append_fill_receipt_in_transaction r now)))))))"

definition append_execution_fill_receipt ::
  "FillReceiptV0 \<Rightarrow> ValidatedEconomicActionV0 \<Rightarrow> int \<Rightarrow> ledger \<Rightarrow> (error + bool) \<times> ledger" where
  "append_execution_fill_receipt r va now = write_txn (append_execution_fill_receipt_body r va now)"

subsection \<open>Snapshot and integrity\<close>

record RuntimeStateV0 =
  sn_schema_version :: int
  sn_policies :: "policy_row list"
  sn_instruments :: "instrument_row list"
  sn_cycles :: "cycle_row list"
  sn_levels :: "level_row list"
  sn_intents :: "intent_row list"
  sn_events :: "event_row list"
  sn_reservations :: "reservation_row list"
  sn_receipts :: "receipt_row list"
  sn_derived :: "projection list"

definition level_order :: "level_row list \<Rightarrow> level_row list" where
  "level_order ls = sort_key lr_policy (sort_key (LadderKind_value \<circ> lr_kind) (sort_key lr_index ls))"

definition snapshot :: "db \<Rightarrow> error + RuntimeStateV0" where
  "snapshot d =
     rbind (traverse (\<lambda>cid. cycle_projection cid d) (sort (map cr_id (cycles d)))) (\<lambda>derived.
       Inr \<lparr>sn_schema_version = SCHEMA_VERSION,
         sn_policies = sort_key pr_id (policies d),
         sn_instruments = sort_key ir_id (instruments d),
         sn_cycles = sort_key cr_id (cycles d),
         sn_levels = level_order (ladder_levels d),
         sn_intents = sort_key nr_id (intents d),
         sn_events = sort_key ev_seq (state_events d),
         sn_reservations = sort_key br_id (budget_reservations d),
         sn_receipts = sort_key fr_id (fill_receipts d),
         sn_derived = derived\<rparr>)"

text \<open>\<open>PRAGMA foreign_key_check\<close> on the tables of the store.\<close>

definition foreign_keys_ok :: "db \<Rightarrow> bool" where
  "foreign_keys_ok d \<longleftrightarrow>
     list_all (\<lambda>p. has_row ir_id (pr_instrument p) (instruments d) \<and>
       has_row ir_id (pr_quote p) (instruments d)) (policies d) \<and>
     list_all (\<lambda>l. has_row pr_id (lr_policy l) (policies d)) (ladder_levels d) \<and>
     list_all (\<lambda>c. has_row pr_id (cr_policy c) (policies d)) (cycles d) \<and>
     list_all (\<lambda>i. has_row pr_id (nr_policy i) (policies d) \<and>
       has_row ir_id (nr_instrument i) (instruments d) \<and> has_row ir_id (nr_quote i) (instruments d) \<and>
       has_row cr_id (nr_cycle i) (cycles d) \<and>
       has_row level_key (nr_policy i, nr_level i) (ladder_levels d)) (intents d) \<and>
     list_all (\<lambda>e. has_row pr_id (ev_policy e) (policies d) \<and> has_row cr_id (ev_cycle e) (cycles d) \<and>
       (case ev_action e of None \<Rightarrow> True | Some a \<Rightarrow> has_row nr_id a (intents d))) (state_events d) \<and>
     list_all (\<lambda>r. has_row nr_id (br_id r) (intents d) \<and> has_row pr_id (br_policy r) (policies d) \<and>
       has_row ir_id (br_instrument r) (instruments d) \<and>
       has_row ir_id (br_quote r) (instruments d)) (budget_reservations d) \<and>
     list_all (\<lambda>f. has_row nr_id (fr_action f) (intents d)) (fill_receipts d)"

definition stale_active :: "db \<Rightarrow> reservation_row \<Rightarrow> bool" where
  "stale_active d r \<longleftrightarrow> br_status r = ACTIVE \<and>
     (case find_row nr_id (br_id r) (intents d) of None \<Rightarrow> False
      | Some i \<Rightarrow> nr_state i \<notin> BUDGET_HOLDING_STATES)"

definition quarantine_mismatch :: "db \<Rightarrow> reservation_row \<Rightarrow> bool" where
  "quarantine_mismatch d r \<longleftrightarrow>
     (case find_row nr_id (br_id r) (intents d) of None \<Rightarrow> False
      | Some i \<Rightarrow> (br_status r = QUARANTINED) \<noteq> (nr_state i = SAFE_HALT))"

definition integrity_check :: "db \<Rightarrow> error + unit" where
  "integrity_check d =
     (if \<not> foreign_keys_ok d then Inl LedgerError
      else if \<not> distinct (map ev_seq (state_events d)) then Inl LedgerError
      else if list_ex (\<lambda>r. \<not> has_row nr_id (br_id r) (intents d)) (budget_reservations d) then Inl LedgerError
      else if list_ex (stale_active d) (budget_reservations d) then Inl LedgerError
      else if list_ex (quarantine_mismatch d) (budget_reservations d) then Inl LedgerError
      else Inr ())"

definition open_ledger :: ledger where
  "open_ledger = \<lparr>lg_db = empty_db, lg_depth = 0\<rparr>"

end
