(* ===== verification/Ledger.thy ===== *)
theory Ledger
  imports Store
begin

text \<open>
  Runs of the ledger: the operations of the store as data, what every one of them keeps
  (key uniqueness, foreign keys, the event sequence, the append-only tables), and the
  databases a sequence of operations reaches.
\<close>

subsection \<open>Operations\<close>

datatype operation =
    AdmitPolicy PolicyV0
  | OpenCycle PolicyV0 int int
  | CloseCycle string CycleStatus int
  | ContinueInventory string PolicyV0 int int
  | CreateIntent IntentV0 int
  | Transition string intent_state int "(string \<times> json) list"
  | RecoverSafeHalt string intent_state int
  | AppendReceipt FillReceiptV0 int
  | AppendExecutionReceipt FillReceiptV0 ValidatedEconomicActionV0 int

text \<open>The result of an operation, keeping whether it raised.\<close>

definition outcome :: "(error + 'a) \<times> ledger \<Rightarrow> error option \<times> ledger" where
  "outcome r = (case r of (Inl e, lg) \<Rightarrow> (Some e, lg) | (Inr _, lg) \<Rightarrow> (None, lg))"

fun run :: "digest_fn \<Rightarrow> operation \<Rightarrow> ledger \<Rightarrow> error option \<times> ledger" where
  "run H (AdmitPolicy p) lg = outcome (admit_policy H p lg)"
| "run H (OpenCycle p index now) lg = outcome (open_cycle H p index now lg)"
| "run H (CloseCycle cid status now) lg = outcome (close_cycle cid status now lg)"
| "run H (ContinueInventory cid p index now) lg =
     outcome (continue_inventory_into_successor_cycle H cid p index now lg)"
| "run H (CreateIntent i now) lg = outcome (create_intent i now lg)"
| "run H (Transition a st now payload) lg = outcome (transition a st now payload lg)"
| "run H (RecoverSafeHalt a st now) lg = outcome (recover_safe_halt_from_terminal_chain_truth a st now lg)"
| "run H (AppendReceipt r now) lg = outcome (append_fill_receipt r now lg)"
| "run H (AppendExecutionReceipt r va now) lg = outcome (append_execution_fill_receipt r va now lg)"

text \<open>Arguments the constructors of the domain classes admit.\<close>

fun op_args_ok :: "operation \<Rightarrow> bool" where
  "op_args_ok (AdmitPolicy p) \<longleftrightarrow> (\<exists>raw. parse_policy raw = Inr p)"
| "op_args_ok (OpenCycle p _ _) \<longleftrightarrow> (\<exists>raw. parse_policy raw = Inr p)"
| "op_args_ok (ContinueInventory _ p _ _) \<longleftrightarrow> (\<exists>raw. parse_policy raw = Inr p)"
| "op_args_ok (CreateIntent i _) \<longleftrightarrow> make_bounds (in_bounds i) = Inr (in_bounds i)"
| "op_args_ok (AppendReceipt r _) \<longleftrightarrow> make_receipt r = Inr r"
| "op_args_ok (AppendExecutionReceipt r _ _) \<longleftrightarrow> make_receipt r = Inr r"
| "op_args_ok _ \<longleftrightarrow> True"

text \<open>The body an operation runs in its transaction, or the error it raises before one.\<close>

definition body_unit :: "(db, error, 'a) body \<Rightarrow> (db, error, unit) body" where
  "body_unit m = sbind m (\<lambda>_. sret ())"

fun op_body :: "digest_fn \<Rightarrow> operation \<Rightarrow> db \<Rightarrow> (error + unit) \<times> db" where
  "op_body H (AdmitPolicy p) = body_unit (admit_policy_body H p)"
| "op_body H (OpenCycle p index now) =
     (if index \<ge> max_cycles p then sraise LedgerError
      else body_unit (sbind (slift (cycle_id_for (policy_id H p) index)) (\<lambda>cid.
        open_cycle_body (policy_id H p) cid index now)))"
| "op_body H (CloseCycle cid status now) =
     (if status \<notin> {COMPLETED, HALTED} then sraise LedgerError else body_unit (close_cycle_body cid status now))"
| "op_body H (ContinueInventory cid p index now) =
     (if index < 0 \<or> index \<ge> max_cycles p \<or> now < 0 \<or>
         \<not> (valid_from_epoch_s p \<le> now \<and> now < expiry_epoch_s p) then sraise LedgerError
      else body_unit (sbind (slift (cycle_id_for (policy_id H p) index)) (\<lambda>new.
        continue_inventory_body H cid p index new now)))"
| "op_body H (CreateIntent i now) =
     (if in_state i \<noteq> ARMED then sraise LedgerError else create_intent_body i now)"
| "op_body H (Transition a st now payload) = transition_body a st now payload"
| "op_body H (RecoverSafeHalt a st now) =
     (if st \<notin> {RECONCILED, REJECTED} then sraise LedgerError else recover_safe_halt_body a st now)"
| "op_body H (AppendReceipt r now) =
     sbind (sget execution_surface_present) (\<lambda>present.
       if present then sraise LedgerError else body_unit (append_fill_receipt_in_transaction r now))"
| "op_body H (AppendExecutionReceipt r va now) = body_unit (append_execution_fill_receipt_body r va now)"

definition at_rest :: "db \<Rightarrow> ledger" where
  "at_rest d = \<lparr>lg_db = d, lg_depth = 0\<rparr>"

lemma at_rest_simps [simp]: "lg_db (at_rest d) = d" "lg_depth (at_rest d) = 0"
  by (simp_all add: at_rest_def)

lemma write_txn_top:
  "write_txn m (at_rest d) = (case m d of (Inl e, _) \<Rightarrow> (Inl e, at_rest d) | (Inr x, d') \<Rightarrow> (Inr x, at_rest d'))"
  by (auto simp: write_txn_def at_rest_def split: prod.splits sum.splits)

text \<open>
  An operation outside any transaction either runs its body to the end and commits, or
  leaves the database it found.
\<close>

lemma run_top:
  "run H op (at_rest d) = (case op_body H op d of (Inl e, _) \<Rightarrow> (Some e, at_rest d) | (Inr _, d') \<Rightarrow> (None, at_rest d'))"
  by (cases op) (auto simp: outcome_def write_txn_top admit_policy_def open_cycle_def close_cycle_def
      continue_inventory_into_successor_cycle_def create_intent_def transition_def
      recover_safe_halt_from_terminal_chain_truth_def append_fill_receipt_def
      append_execution_fill_receipt_def body_unit_def sbind_def sret_def sraise_def slift_def sget_def
      split: prod.splits sum.splits)

subsection \<open>What every operation keeps\<close>

text \<open>A body keeps a property of the database when it returns.\<close>

definition keeps :: "('s \<Rightarrow> bool) \<Rightarrow> ('s, 'e, 'a) body \<Rightarrow> bool" where
  "keeps I m \<longleftrightarrow> (\<forall>d x d'. m d = (Inr x, d') \<longrightarrow> I d \<longrightarrow> I d')"

named_theorems keeps_intros \<open>rules for the property a body keeps\<close>

lemma keeps_sbind [keeps_intros]: "keeps I m \<Longrightarrow> (\<And>x. keeps I (f x)) \<Longrightarrow> keeps I (sbind m f)"
  unfolding keeps_def by (metis sbind_eq_Inr)

lemma keeps_readers [keeps_intros]:
  "keeps I (sret x)" "keeps I (sraise e)" "keeps I (sget f)" "keeps I (slift r)" "keeps I (sguard b e)"
  by (auto simp: keeps_def res_simps)

lemma keeps_sput: "(\<And>d. I d \<Longrightarrow> I (f d)) \<Longrightarrow> keeps I (sput f)"
  by (simp add: keeps_def res_simps)

lemma keeps_swrite: "(\<And>d d'. f d = Inr d' \<Longrightarrow> I d \<Longrightarrow> I d') \<Longrightarrow> keeps I (swrite f)"
  by (simp add: keeps_def res_simps)

lemma keeps_sfor [keeps_intros]: "(\<And>x. keeps I (f x)) \<Longrightarrow> keeps I (sfor f xs)"
  by (induction xs) (auto intro: keeps_intros)

lemma keeps_cases [keeps_intros]:
  "(b \<Longrightarrow> keeps I m) \<Longrightarrow> (\<not> b \<Longrightarrow> keeps I n) \<Longrightarrow> keeps I (if b then m else n)"
  "(v = None \<Longrightarrow> keeps I m) \<Longrightarrow> (\<And>x. v = Some x \<Longrightarrow> keeps I (g x)) \<Longrightarrow>
     keeps I (case v of None \<Rightarrow> m | Some x \<Rightarrow> g x)"
  by (auto split: option.split)

lemma keeps_pair: "(\<And>x y. keeps I (g x y)) \<Longrightarrow> keeps I (case q of (x, y) \<Rightarrow> g x y)"
  by (cases q) simp

lemma keeps_slift_sbind: "(\<And>x. r = Inr x \<Longrightarrow> keeps I (f x)) \<Longrightarrow> keeps I (sbind (slift r) f)"
  unfolding keeps_def by (auto simp: sbind_eq_Inr slift_eq)

text \<open>
  The interface of a property the registering statements keep: the insertions of
  instruments, policies, levels, cycles, new intents and events, and the closing of a
  cycle. The operations that move no intent then keep it.
\<close>

locale registration_invariant =
  fixes I :: "db \<Rightarrow> bool"
  assumes ins_instrument: "insert_instrument ir d = Inr d' \<Longrightarrow> I d \<Longrightarrow> I d'"
    and ins_policy: "insert_policy pr d = Inr d' \<Longrightarrow> I d \<Longrightarrow> I d'"
    and ins_level: "insert_level lr d = Inr d' \<Longrightarrow> I d \<Longrightarrow> I d'"
    and ins_cycle: "insert_cycle cr d = Inr d' \<Longrightarrow> I d \<Longrightarrow> I d'"
    and ins_intent: "insert_intent nr d = Inr d' \<Longrightarrow> nr_state nr = ARMED \<Longrightarrow> I d \<Longrightarrow> I d'"
    and ins_event: "insert_event ev d = Inr d' \<Longrightarrow> ev_seq ev = next_seq d \<Longrightarrow> I d \<Longrightarrow> I d'"
    and upd_cycle: "I d \<Longrightarrow> I (update_cycle_status c cs d)"
begin

lemma keeps_registrations:
  "keeps I (swrite (insert_instrument ir))" "keeps I (swrite (insert_policy pr))"
  "keeps I (swrite (insert_level lr))" "keeps I (swrite (insert_cycle cr))"
  by (rule keeps_swrite, erule (1) ins_instrument ins_policy ins_level ins_cycle)+

lemma keeps_insert_intent: "nr_state nr = ARMED \<Longrightarrow> keeps I (swrite (insert_intent_once nr))"
  by (rule keeps_swrite) (auto simp: insert_intent_once_def split: sum.splits dest: ins_intent)

lemma keeps_close: "keeps I (sput (update_cycle_status c cs))"
  by (auto intro!: keeps_sput upd_cycle)

lemma keeps_append_event: "keeps I (append_event etype pid cid aid from to now payload)"
  by (auto simp: keeps_def append_event_def insert_event_Inr [symmetric] sbind_eq_Inr sguard_eq_Inr sget_eq
      swrite_eq_Inr sret_eq intro: ins_event)

lemmas keeps_registering = keeps_registrations keeps_close keeps_append_event

lemma keeps_admit: "keeps I (admit_policy_body H p)"
  unfolding admit_policy_body_def upsert_instrument_def insert_level_of_def
  by (intro keeps_intros keeps_registering)

lemma keeps_cycles:
  "keeps I (open_cycle_body pid cid index now)" "keeps I (close_cycle_body cid cs now)"
  unfolding open_cycle_body_def close_cycle_body_def by (intro keeps_intros keeps_registering)+

lemma keeps_continue: "keeps I (continue_inventory_body H src p index cid now)"
  unfolding continue_inventory_body_def by (intro keeps_intros keeps_registering keeps_pair)

lemma keeps_create: "keeps I (create_intent_body i now)"
proof -
  have "nr_state row = ARMED" if "intent_row_of i = Inr row" for row
    using that by (auto simp: intent_row_of_def rbind_eq_Inr)
  then show ?thesis
    unfolding create_intent_body_def
    by (intro keeps_slift_sbind keeps_sbind [OF keeps_insert_intent] keeps_intros keeps_registering)
qed

lemma keeps_registering_op:
  assumes "\<And>a st now pl. op \<noteq> Transition a st now pl" "\<And>a st now. op \<noteq> RecoverSafeHalt a st now"
    "\<And>r now. op \<noteq> AppendReceipt r now" "\<And>r va now. op \<noteq> AppendExecutionReceipt r va now"
  shows "keeps I (op_body H op)"
  using assms by (cases op) (auto simp: body_unit_def intro!: keeps_intros keeps_admit keeps_cycles
      keeps_continue keeps_create)

end

text \<open>
  The interface of a property every statement of the store keeps, those that move
  intents, budget and receipts included. Every operation of the ledger then keeps it.
\<close>

locale statement_invariant = registration_invariant +
  assumes ins_reservation: "insert_reservation br d = Inr d' \<Longrightarrow> I d \<Longrightarrow> I d'"
    and ins_receipt: "insert_receipt fr d = Inr d' \<Longrightarrow> I d \<Longrightarrow> I d'"
    and upd_intent: "I d \<Longrightarrow> I (update_intent_state a st d)"
    and upd_reservation: "I d \<Longrightarrow> I (update_reservation a rs sq d)"
begin

lemma keeps_movements:
  "keeps I (swrite (insert_reservation br))" "keeps I (sput (update_intent_state a st))"
  "keeps I (sput (update_reservation a rs sq))"
  "keeps I (sput (\<lambda>d. update_reservation a rs (Some (next_seq d)) d))"
  by (auto intro!: keeps_sput keeps_swrite upd_intent upd_reservation elim: ins_reservation)

lemma keeps_insert_receipt: "keeps I (swrite (insert_receipt_once fr))"
  by (rule keeps_swrite) (auto simp: insert_receipt_once_def split: sum.splits dest: ins_receipt)

lemmas keeps_statements = keeps_registering keeps_movements keeps_insert_receipt

lemma keeps_reservations:
  "keeps I (reserve a i)" "keeps I (settle_reservation a rs)" "keeps I (unquarantine a rs sq)"
  unfolding reserve_def settle_reservation_def unquarantine_def Let_def
  by (intro keeps_intros keeps_statements)+

lemma keeps_transition: "keeps I (transition_body a st now payload)"
  unfolding transition_body_def transition_effect_def Let_def
  by (intro keeps_intros keeps_statements keeps_reservations)

lemma keeps_recover: "keeps I (recover_safe_halt_body a st now)"
  unfolding recover_safe_halt_body_def recovery_evidence_def recovery_release_def
  by (intro keeps_intros keeps_statements keeps_reservations)

lemma keeps_receipt: "keeps I (append_fill_receipt_in_transaction r now)"
  unfolding append_fill_receipt_in_transaction_def halt_on_bounds_def Let_def
  by (intro keeps_intros keeps_statements keeps_reservations)

lemma keeps_execution_receipt: "keeps I (append_execution_fill_receipt_body r va now)"
  unfolding append_execution_fill_receipt_body_def by (intro keeps_intros keeps_receipt keeps_pair)

lemma keeps_op: "keeps I (op_body H op)"
  by (cases op) (auto simp: body_unit_def intro!: keeps_intros keeps_admit keeps_cycles keeps_continue
      keeps_create keeps_transition keeps_recover keeps_receipt keeps_execution_receipt)

lemma op_invariant: "op_body H op d = (Inr u, d') \<Longrightarrow> I d \<Longrightarrow> I d'"
  using keeps_op unfolding keeps_def by blast

end

subsection \<open>Keys, sequence numbers and references\<close>

definition keys_ok :: "db \<Rightarrow> bool" where
  "keys_ok d \<longleftrightarrow> distinct (map ir_id (instruments d)) \<and> distinct (map pr_id (policies d)) \<and>
     distinct (map level_key (ladder_levels d)) \<and> distinct (map cr_id (cycles d)) \<and>
     distinct (map cycle_slot (cycles d)) \<and> distinct (map nr_id (intents d)) \<and>
     distinct (map intent_slot (intents d)) \<and> distinct (map br_id (budget_reservations d)) \<and>
     distinct (map fr_id (fill_receipts d)) \<and> distinct (map fr_ref (fill_receipts d))"

definition seqs_ok :: "db \<Rightarrow> bool" where
  "seqs_ok d \<longleftrightarrow> map ev_seq (state_events d) = map int [Suc 0..<Suc (length (state_events d))]"

lemma foldr_max_upt: "foldr max (map int [Suc 0..<Suc n]) 0 = int n"
proof -
  have "foldr max (map int [Suc k..<Suc (k + m)]) 0 = (if m = 0 then 0 else int (k + m))" for k m
  proof (induction m arbitrary: k)
    case (Suc m)
    have "[Suc k..<Suc (k + Suc m)] = Suc k # [Suc (Suc k)..<Suc (Suc k + m)]"
      by (simp add: upt_conv_Cons del: upt_Suc)
    then show ?case using Suc [of "Suc k"] by (simp del: upt_Suc)
  qed simp
  from this [of 0 n] show ?thesis by (simp del: upt_Suc)
qed

lemma next_seq_length: "seqs_ok d \<Longrightarrow> next_seq d = int (length (state_events d)) + 1"
  by (simp add: next_seq_def seqs_ok_def foldr_max_upt del: upt_Suc)

lemma distinct_snoc: "distinct (map f (xs @ [x])) \<longleftrightarrow> distinct (map f xs) \<and> \<not> has_row f (f x) xs"
  by (auto simp: has_row_def)

lemma slots_kept:
  "map intent_slot (update_row nr_id a (set_state st) t) = map intent_slot t"
  "map cycle_slot (update_row cr_id c (set_cycle_status cs) u) = map cycle_slot u"
  by (simp_all add: update_row_def intent_slot_def cycle_slot_def set_state_def set_cycle_status_def)

interpretation keys: statement_invariant keys_ok
  by unfold_locales (auto simp: keys_ok_def res_simps table_updates tbl_simps slots_kept has_row_def)

interpretation seqs: statement_invariant seqs_ok
proof unfold_locales
  fix ev d d'
  assume "insert_event ev d = Inr d'" "ev_seq ev = next_seq d" "seqs_ok d"
  then show "seqs_ok d'" using next_seq_length [of d] by (simp add: res_simps seqs_ok_def)
qed (simp_all add: seqs_ok_def res_simps table_updates del: upt_Suc)

lemma list_all_update_row:
  assumes "list_all P t" "\<And>r. P r \<Longrightarrow> P (f r)"
  shows "list_all P (update_row key k f t)"
  using assms by (auto simp: update_row_def list_all_iff)

lemma ball_update_row:
  "(\<forall>x \<in> set (update_row key k f t). P x) \<longleftrightarrow> (\<forall>x \<in> set t. P (if key x = k then f x else x))"
  by (auto simp: update_row_def)

lemma set_fields [simp]:
  "nr_policy (set_state st r) = nr_policy r" "nr_instrument (set_state st r) = nr_instrument r"
  "nr_quote (set_state st r) = nr_quote r" "nr_cycle (set_state st r) = nr_cycle r"
  "nr_level (set_state st r) = nr_level r" "nr_id (set_state st r) = nr_id r"
  "nr_network (set_state st r) = nr_network r" "nr_exposure (set_state st r) = nr_exposure r"
  "nr_bounds (set_state st r) = nr_bounds r" "nr_side (set_state st r) = nr_side r"
  "nr_kind (set_state st r) = nr_kind r" "nr_state (set_state st r) = st"
  "cr_policy (set_cycle_status cs c) = cr_policy c" "cr_id (set_cycle_status cs c) = cr_id c"
  "cr_index (set_cycle_status cs c) = cr_index c" "cr_status (set_cycle_status cs c) = cs"
  "br_id (set_settled v b) = br_id b" "br_policy (set_settled v b) = br_policy b"
  "br_instrument (set_settled v b) = br_instrument b" "br_quote (set_settled v b) = br_quote b"
  "br_network (set_settled v b) = br_network b" "br_amount (set_settled v b) = br_amount b"
  "br_reserved_seq (set_settled v b) = br_reserved_seq b" "br_status (set_settled v b) = fst v"
  "br_settled_seq (set_settled v b) = snd v"
  by (simp_all add: set_state_def set_cycle_status_def set_settled_def)

interpretation refs: statement_invariant foreign_keys_ok
proof unfold_locales
  fix ir d d'
  assume "insert_instrument ir d = Inr d'" "foreign_keys_ok d"
  then show "foreign_keys_ok d'" by (auto simp: foreign_keys_ok_def res_simps tbl_simps list_all_iff split: option.splits)
next
  fix pr d d'
  assume "insert_policy pr d = Inr d'" "foreign_keys_ok d"
  then show "foreign_keys_ok d'" by (auto simp: foreign_keys_ok_def res_simps tbl_simps list_all_iff split: option.splits)
next
  fix lr d d'
  assume "insert_level lr d = Inr d'" "foreign_keys_ok d"
  then show "foreign_keys_ok d'" by (auto simp: foreign_keys_ok_def res_simps tbl_simps list_all_iff split: option.splits)
next
  fix cr d d'
  assume "insert_cycle cr d = Inr d'" "foreign_keys_ok d"
  then show "foreign_keys_ok d'" by (auto simp: foreign_keys_ok_def res_simps tbl_simps list_all_iff split: option.splits)
next
  fix nr d d'
  assume "insert_intent nr d = Inr d'" "foreign_keys_ok d"
  then show "foreign_keys_ok d'"
    by (auto simp: foreign_keys_ok_def res_simps tbl_simps list_all_iff split: option.splits)
next
  fix ev d d'
  assume "insert_event ev d = Inr d'" "foreign_keys_ok d"
  then show "foreign_keys_ok d'" by (auto simp: foreign_keys_ok_def res_simps tbl_simps list_all_iff split: option.splits)
next
  fix br d d'
  assume "insert_reservation br d = Inr d'" "foreign_keys_ok d"
  then show "foreign_keys_ok d'" by (auto simp: foreign_keys_ok_def res_simps tbl_simps list_all_iff split: option.splits)
next
  fix fr d d'
  assume "insert_receipt fr d = Inr d'" "foreign_keys_ok d"
  then show "foreign_keys_ok d'" by (auto simp: foreign_keys_ok_def res_simps tbl_simps list_all_iff split: option.splits)
next
  fix d a st
  assume "foreign_keys_ok d"
  then show "foreign_keys_ok (update_intent_state a st d)"
    by (auto simp: foreign_keys_ok_def table_updates tbl_simps ball_update_row list_all_iff split: option.splits)
next
  fix d c cs
  assume "foreign_keys_ok d"
  then show "foreign_keys_ok (update_cycle_status c cs d)"
    by (auto simp: foreign_keys_ok_def table_updates tbl_simps ball_update_row list_all_iff split: option.splits)
next
  fix d a rs sq
  assume "foreign_keys_ok d"
  then show "foreign_keys_ok (update_reservation a rs sq d)"
    by (auto simp: foreign_keys_ok_def table_updates tbl_simps ball_update_row list_all_iff split: option.splits)
qed

subsection \<open>The append-only tables\<close>

text \<open>
  \<open>extends d0 d\<close>: every row \<open>d0\<close> recorded in the log, the receipts and the tables of
  identities is still where it was in \<open>d\<close>.
\<close>

definition extends :: "db \<Rightarrow> db \<Rightarrow> bool" where
  "extends d0 d \<longleftrightarrow> prefix (state_events d0) (state_events d) \<and>
     prefix (fill_receipts d0) (fill_receipts d) \<and> prefix (instruments d0) (instruments d) \<and>
     prefix (policies d0) (policies d) \<and> prefix (ladder_levels d0) (ladder_levels d) \<and>
     prefix (map nr_id (intents d0)) (map nr_id (intents d)) \<and>
     prefix (map intent_slot (intents d0)) (map intent_slot (intents d)) \<and>
     prefix (map cr_id (cycles d0)) (map cr_id (cycles d)) \<and>
     prefix (map br_id (budget_reservations d0)) (map br_id (budget_reservations d))"

interpretation extended: statement_invariant "extends d0"
  by unfold_locales (auto simp: extends_def res_simps table_updates tbl_simps slots_kept)

lemma extends_refl [simp]: "extends d d"
  by (simp add: extends_def)

lemma extends_trans: "extends a b \<Longrightarrow> extends b c \<Longrightarrow> extends a c"
  by (auto simp: extends_def intro: prefix_order.trans)


end
