(* ===== verification/Budget.thy ===== *)
theory Budget
  imports Ledger
begin

text \<open>
  What a transition does to an intent, to its budget reservation and to the log, and the
  invariants of the budget: a reservation's status is the one its intent's state calls
  for, and what a policy holds never exceeds its allocation.
\<close>

subsection \<open>Successful transitions\<close>

definition push_event :: "event_row \<Rightarrow> db \<Rightarrow> db" where
  "push_event e d = d\<lparr>state_events := state_events d @ [e]\<rparr>"

definition event_of ::
  "db \<Rightarrow> EventType \<Rightarrow> string \<Rightarrow> string \<Rightarrow> string option \<Rightarrow> state_label option \<Rightarrow> state_label option \<Rightarrow>
   int \<Rightarrow> json \<Rightarrow> event_row" where
  "event_of d etype pid cid aid from to now payload =
     \<lparr>ev_seq = next_seq d, ev_type = etype, ev_policy = pid, ev_cycle = cid, ev_action = aid,
      ev_from = from, ev_to = to, ev_at = now, ev_payload = payload\<rparr>"

lemma event_of_cong: "state_events d = state_events d' \<Longrightarrow> event_of d = event_of d'"
  by (intro ext) (simp add: event_of_def next_seq_def)

lemma append_event_Inr [res_simps]:
  "append_event etype pid cid aid from to now payload d = (Inr seq, d') \<longleftrightarrow>
     0 \<le> now \<and> now \<le> INT64_MAX \<and> seq = next_seq d \<and>
     insert_event (event_of d etype pid cid aid from to now payload) d = Inr d'"
  by (auto simp: append_event_def event_of_def sbind_eq_Inr sguard_eq_Inr sget_eq swrite_eq_Inr sret_eq)

lemma insert_event_push: "insert_event e d = Inr d' \<Longrightarrow> d' = push_event e d"
  by (simp add: res_simps push_event_def)

definition settled :: "string \<Rightarrow> ReservationStatus \<Rightarrow> db \<Rightarrow> db" where
  "settled a status d =
     (case find_row br_id a (budget_reservations d) of
        None \<Rightarrow> d
      | Some r \<Rightarrow> if br_status r = ACTIVE then update_reservation a status (Some (next_seq d)) d else d)"

lemma settle_reservation_run: "settle_reservation a status d = (Inr (), settled a status d)"
  by (auto simp: settle_reservation_def settled_def sbind_run body_defs split: option.splits)

definition reservation_of :: "db \<Rightarrow> intent_row \<Rightarrow> reservation_row" where
  "reservation_of d i =
     \<lparr>br_id = nr_id i, br_policy = nr_policy i, br_instrument = nr_instrument i,
      br_quote = nr_quote i, br_network = nr_network i, br_amount = nr_exposure i,
      br_status = ACTIVE, br_reserved_seq = next_seq d, br_settled_seq = None\<rparr>"

definition reserved :: "intent_row \<Rightarrow> db \<Rightarrow> db" where
  "reserved i d = (if nr_exposure i = 0 then d
     else d\<lparr>budget_reservations := budget_reservations d @ [reservation_of d i]\<rparr>)"

text \<open>The status a reservation takes when its intent moves to a state.\<close>

fun settle_target :: "intent_state \<Rightarrow> ReservationStatus option" where
  "settle_target FILLED = Some COMMITTED"
| "settle_target CANCELLED = Some RELEASED"
| "settle_target EXPIRED = Some RELEASED"
| "settle_target REJECTED = Some RELEASED"
| "settle_target SAFE_HALT = Some QUARANTINED"
| "settle_target _ = None"

definition effect_db :: "intent_row \<Rightarrow> intent_state \<Rightarrow> db \<Rightarrow> db" where
  "effect_db i st d =
     (if st = RESERVED then reserved i d
      else case settle_target st of None \<Rightarrow> d | Some status \<Rightarrow> settled (nr_id i) status d)"

text \<open>What a transition has checked once it returns.\<close>

definition transition_checked :: "intent_row \<Rightarrow> intent_state \<Rightarrow> db \<Rightarrow> bool" where
  "transition_checked i st d \<longleftrightarrow> is_legal_transition (nr_state i) st \<and>
     (st = RESERVED \<and> nr_exposure i \<noteq> 0 \<longrightarrow>
        \<not> has_row br_id (nr_id i) (budget_reservations d) \<and> caps_admit i (nr_exposure i) d \<and>
        insert_reservation (reservation_of d i) d = Inr (reserved i d)) \<and>
     (st \<in> {FILLED, RECONCILED} \<longrightarrow> execution_surface_present d \<longrightarrow>
        has_settled_receipt (nr_id i) d = Inr True) \<and>
     (st \<in> RELEASING_STATES \<and> nr_state i \<in> {SIGNED, SUBMITTED, INCLUDED, CONFIRMED} \<longrightarrow>
        has_bound_reverted_reconciliation (nr_id i) d = Inr True)"

lemma reserve_Inr:
  assumes "reserve (nr_id i) i d = (Inr u, d')"
  shows "d' = reserved i d" and "nr_exposure i \<noteq> 0 \<Longrightarrow>
    \<not> has_row br_id (nr_id i) (budget_reservations d) \<and> caps_admit i (nr_exposure i) d \<and>
    insert_reservation (reservation_of d i) d = Inr (reserved i d)"
  using assms
  by (auto simp: reserve_def reserved_def reservation_of_def sbind_eq_Inr sguard_eq_Inr sget_eq swrite_eq_Inr
      sret_eq insert_reservation_Inr split: if_splits)

lemma transition_effect_Inr:
  assumes "transition_effect (nr_id i) i st d = (Inr u, d')" "is_legal_transition (nr_state i) st"
  shows "d' = effect_db i st d \<and> transition_checked i st d"
proof -
  have filled: "nr_state i = RECONCILED" if "st = FILLED"
    using assms(2) that by (cases "nr_state i") (auto simp: is_legal_transition_def)
  have rel: "st = CANCELLED \<or> st = EXPIRED \<or> st = REJECTED \<longleftrightarrow> st \<in> RELEASING_STATES"
    by (auto simp: RELEASING_STATES_def)
  show ?thesis
  proof (cases st)
    case RESERVED
    then show ?thesis using assms reserve_Inr [of i d u d']
      by (auto simp: transition_effect_def Let_def effect_db_def transition_checked_def RELEASING_STATES_def)
  next
    case FILLED
    then show ?thesis using assms filled
      by (auto simp: transition_effect_def Let_def effect_db_def transition_checked_def RELEASING_STATES_def
          sbind_eq_Inr sguard_eq_Inr sget_eq slift_eq sret_eq settle_reservation_run split: if_splits)
  qed (use assms in \<open>auto simp: transition_effect_def Let_def effect_db_def transition_checked_def RELEASING_STATES_def
          sbind_eq_Inr sguard_eq_Inr sget_eq slift_eq sret_eq settle_reservation_run split: if_splits\<close>)
qed

definition transition_event :: "intent_row \<Rightarrow> intent_state \<Rightarrow> int \<Rightarrow> json \<Rightarrow> db \<Rightarrow> event_row" where
  "transition_event i st now payload d =
     event_of d INTENT_TRANSITION (nr_policy i) (nr_cycle i) (Some (nr_id i))
       (Some (Intent (nr_state i))) (Some (Intent st)) now payload"

lemma intent_row_for_Inr [res_simps]:
  "intent_row_for a d = Inr i \<longleftrightarrow> find_row nr_id a (intents d) = Some i"
  by (auto simp: intent_row_for_def split: option.splits)

lemma settled_frame [simp]:
  "state_events (settled a s d) = state_events d" "intents (settled a s d) = intents d"
  "policies (settled a s d) = policies d" "cycles (settled a s d) = cycles d"
  "instruments (settled a s d) = instruments d" "ladder_levels (settled a s d) = ladder_levels d"
  "fill_receipts (settled a s d) = fill_receipts d" "exec_surface (settled a s d) = exec_surface d"
  by (simp_all add: settled_def table_updates split: option.splits)

lemma reserved_frame [simp]:
  "state_events (reserved i d) = state_events d" "intents (reserved i d) = intents d"
  "policies (reserved i d) = policies d" "cycles (reserved i d) = cycles d"
  "instruments (reserved i d) = instruments d" "ladder_levels (reserved i d) = ladder_levels d"
  "fill_receipts (reserved i d) = fill_receipts d" "exec_surface (reserved i d) = exec_surface d"
  by (simp_all add: reserved_def)

lemma effect_frame [simp]:
  "state_events (effect_db i st d) = state_events d" "intents (effect_db i st d) = intents d"
  "policies (effect_db i st d) = policies d" "cycles (effect_db i st d) = cycles d"
  "instruments (effect_db i st d) = instruments d" "ladder_levels (effect_db i st d) = ladder_levels d"
  "fill_receipts (effect_db i st d) = fill_receipts d" "exec_surface (effect_db i st d) = exec_surface d"
  by (simp_all add: effect_db_def split: option.splits)

lemma next_seq_cong: "state_events d = state_events d' \<Longrightarrow> next_seq d = next_seq d'"
  by (simp add: next_seq_def)

text \<open>A successful transition, with its whole effect.\<close>

lemma transition_body_Inr:
  assumes "transition_body a st now payload d = (Inr u, d')"
  obtains i where "find_row nr_id a (intents d) = Some i" "nr_id i = a" "transition_checked i st d"
    "0 \<le> now" "now \<le> INT64_MAX"
    "insert_event (transition_event i st now (JObj payload) d) (update_intent_state a st (effect_db i st d)) = Inr d'"
    "d' = push_event (transition_event i st now (JObj payload) d) (update_intent_state a st (effect_db i st d))"
proof -
  obtain i d1 where i: "find_row nr_id a (intents d) = Some i"
    and legal: "is_legal_transition (nr_state i) st"
    and eff: "transition_effect a i st d = (Inr (), d1)"
    and ev: "0 \<le> now" "now \<le> INT64_MAX"
      "insert_event (event_of (update_intent_state a st d1) INTENT_TRANSITION (nr_policy i) (nr_cycle i) (Some a)
        (Some (Intent (nr_state i))) (Some (Intent st)) now (JObj payload)) (update_intent_state a st d1) = Inr d'"
    using assms unfolding transition_body_def
    by (auto simp: sbind_eq_Inr sget_eq slift_eq sput_eq sret_eq append_event_Inr intent_row_for_Inr assert_legal_eq_Inr)
  have a: "nr_id i = a" using find_row_SomeD [OF i] by simp
  have d1: "d1 = effect_db i st d \<and> transition_checked i st d"
    by (rule transition_effect_Inr [OF eff [folded a] legal])
  have "event_of (update_intent_state a st (effect_db i st d)) = event_of d"
    by (intro ext) (simp add: event_of_def table_updates next_seq_def)
  then have "insert_event (transition_event i st now (JObj payload) d) (update_intent_state a st (effect_db i st d)) = Inr d'"
    using ev(3) d1 by (simp add: transition_event_def a)
  then show thesis
    using that [OF i a _ ev(1,2)] d1 insert_event_push by blast
qed

lemma transition_body_run:
  assumes "find_row nr_id a (intents d) = Some i" "is_legal_transition (nr_state i) st"
    and "transition_effect a i st d = (Inr (), d1)" "0 \<le> now" "now \<le> INT64_MAX"
    and "insert_event (event_of (update_intent_state a st d1) INTENT_TRANSITION (nr_policy i) (nr_cycle i) (Some a)
       (Some (Intent (nr_state i))) (Some (Intent st)) now (JObj pl)) (update_intent_state a st d1) = Inr d'"
  shows "transition_body a st now pl d = (Inr (), d')"
proof -
  have "append_event INTENT_TRANSITION (nr_policy i) (nr_cycle i) (Some a)
       (Some (Intent (nr_state i))) (Some (Intent st)) now (JObj pl) (update_intent_state a st d1) =
       (Inr (next_seq (update_intent_state a st d1)), d')"
    using assms(4-6) by (simp add: append_event_Inr)
  moreover have "assert_legal_transition (nr_state i) st = Inr ()" using assms(2) by (simp add: assert_legal_eq_Inr)
  ultimately show ?thesis
    using assms(1,3) by (simp add: transition_body_def sbind_run body_defs intent_row_for_def)
qed

subsection \<open>The reservation follows the state\<close>

text \<open>The status the reservation of a capital-consuming intent has in each state.\<close>

fun status_of :: "intent_state \<Rightarrow> ReservationStatus option" where
  "status_of FILLED = Some COMMITTED"
| "status_of CANCELLED = Some RELEASED"
| "status_of EXPIRED = Some RELEASED"
| "status_of REJECTED = Some RELEASED"
| "status_of SAFE_HALT = Some QUARANTINED"
| "status_of st = (if st \<in> BUDGET_HOLDING_STATES then Some ACTIVE else None)"

definition reservation_fits :: "intent_row list \<Rightarrow> reservation_row \<Rightarrow> bool" where
  "reservation_fits is r \<longleftrightarrow>
     (\<exists>i. find_row nr_id (br_id r) is = Some i \<and> br_policy r = nr_policy i \<and>
        br_instrument r = nr_instrument i \<and> br_quote r = nr_quote i \<and> br_network r = nr_network i \<and>
        br_amount r = nr_exposure i \<and> 0 < br_amount r \<and> status_of (nr_state i) = Some (br_status r))"

definition coupled :: "db \<Rightarrow> bool" where
  "coupled d \<longleftrightarrow> list_all (reservation_fits (intents d)) (budget_reservations d) \<and>
     list_all (\<lambda>i. nr_state i \<in> BUDGET_HOLDING_STATES \<union> {FILLED} \<and> nr_exposure i \<noteq> 0 \<longrightarrow>
        has_row br_id (nr_id i) (budget_reservations d)) (intents d)"

lemma status_of_move:
  assumes "is_legal_transition s t" "status_of s = Some st"
  shows "st = ACTIVE \<and> status_of t = Some (case settle_target t of None \<Rightarrow> ACTIVE | Some v \<Rightarrow> v)"
  using assms by (cases s) (auto simp: is_legal_transition_def BUDGET_HOLDING_STATES_def)

lemma settle_target_status: "settle_target t = Some v \<Longrightarrow> status_of t = Some v"
  by (cases t) simp_all

text \<open>
  One intent moves and its reservation, if it has one, takes the status of the new state:
  the shape of every transition but the one that reserves.
\<close>

definition moved :: "string \<Rightarrow> intent_state \<Rightarrow> ReservationStatus \<times> int option \<Rightarrow> db \<Rightarrow> db" where
  "moved a st v d = d\<lparr>intents := update_row nr_id a (set_state st) (intents d),
     budget_reservations := update_row br_id a (set_settled v) (budget_reservations d)\<rparr>"

lemma coupled_moved:
  assumes c: "coupled d" and i: "find_row nr_id a (intents d) = Some i"
    and st: "has_row br_id a (budget_reservations d) \<Longrightarrow> status_of st = Some (fst v)"
    and hold: "st \<in> BUDGET_HOLDING_STATES \<union> {FILLED} \<Longrightarrow> nr_exposure i \<noteq> 0 \<Longrightarrow>
      has_row br_id a (budget_reservations d)"
    and k: "distinct (map nr_id (intents d))"
  shows "coupled (moved a st v d)"
proof -
  have i': "i \<in> set (intents d)" "nr_id i = a" using find_row_SomeD [OF i] by auto
  have fits: "reservation_fits (intents (moved a st v d)) (if br_id r = a then set_settled v r else r)"
    if r: "r \<in> set (budget_reservations d)" for r
  proof -
    have f: "reservation_fits (intents d) r" using c r by (auto simp: coupled_def list_all_iff)
    have "has_row br_id (br_id r) (budget_reservations d)" using r by (auto simp: has_row_def)
    with f i st show ?thesis by (auto simp: reservation_fits_def moved_def tbl_simps)
  qed
  have holds: "has_row br_id (nr_id j) (budget_reservations d)"
    if j: "j \<in> set (intents d)"
      and "nr_state (if nr_id j = a then set_state st j else j) \<in> BUDGET_HOLDING_STATES \<union> {FILLED}"
      and "nr_exposure j \<noteq> 0" for j
  proof (cases "nr_id j = a")
    case True
    then have "j = i" using j i' k by (metis eq_key_imp_eq_value distinct_map inj_on_def)
    with that hold i' show ?thesis by simp
  next
    case False
    with that c show ?thesis by (auto simp: coupled_def list_all_iff)
  qed
  show ?thesis
    using fits holds
    by (auto simp: coupled_def moved_def list_all_iff ball_update_row tbl_simps)
qed

text \<open>A settled reservation in terms of \<open>moved\<close>.\<close>

definition settle_value :: "string \<Rightarrow> ReservationStatus \<Rightarrow> db \<Rightarrow> (ReservationStatus \<times> int option)" where
  "settle_value a status d =
     (case find_row br_id a (budget_reservations d) of
        None \<Rightarrow> (status, None)
      | Some r \<Rightarrow> if br_status r = ACTIVE then (status, Some (next_seq d)) else (br_status r, br_settled_seq r))"

lemma update_row_idle:
  assumes "distinct (map key t)" "\<And>r. find_row key k t = Some r \<Longrightarrow> f r = r"
  shows "update_row key k f t = t"
  unfolding update_row_def by (rule map_idI) (use assms find_row_iff [OF assms(1)] in auto)

lemma settled_moved:
  assumes "keys_ok d"
  shows "update_intent_state a st (settled a status d) = moved a st (settle_value a status d) d"
proof -
  have k: "distinct (map br_id (budget_reservations d))" using assms by (simp add: keys_ok_def)
  have idle: "update_row br_id a (set_settled v) (budget_reservations d) = budget_reservations d"
    if "\<And>r. find_row br_id a (budget_reservations d) = Some r \<Longrightarrow> set_settled v r = r" for v
    by (rule update_row_idle [OF k that])
  show ?thesis
  proof (cases "find_row br_id a (budget_reservations d)")
    case None
    then show ?thesis
      using idle [of "(status, None)"] by (simp add: settled_def settle_value_def moved_def table_updates)
  next
    case (Some r)
    then show ?thesis
      using idle [of "(br_status r, br_settled_seq r)"]
      by (simp add: settled_def settle_value_def moved_def table_updates set_settled_def)
  qed
qed

lemma unsettled_moved:
  assumes "keys_ok d" "\<And>r. find_row br_id a (budget_reservations d) = Some r \<Longrightarrow> v = (br_status r, br_settled_seq r)"
  shows "update_intent_state a st d = moved a st v d"
proof -
  have k: "distinct (map br_id (budget_reservations d))" using assms by (simp add: keys_ok_def)
  have "update_row br_id a (set_settled v) (budget_reservations d) = budget_reservations d"
    by (rule update_row_idle [OF k]) (use assms(2) in \<open>auto simp: set_settled_def\<close>)
  then show ?thesis by (simp add: moved_def table_updates)
qed

lemma coupled_reservation:
  assumes "coupled d" "find_row nr_id a (intents d) = Some i" "find_row br_id a (budget_reservations d) = Some r"
  shows "status_of (nr_state i) = Some (br_status r) \<and> br_amount r = nr_exposure i \<and> br_policy r = nr_policy i"
  using assms find_row_SomeD [OF assms(3)] by (auto simp: coupled_def list_all_iff reservation_fits_def)

text \<open>The value a legal transition leaves in the reservation of its intent.\<close>

definition move_value :: "intent_row \<Rightarrow> intent_state \<Rightarrow> db \<Rightarrow> ReservationStatus \<times> int option" where
  "move_value i st d =
     (case settle_target st of
        Some status \<Rightarrow> settle_value (nr_id i) status d
      | None \<Rightarrow> (case find_row br_id (nr_id i) (budget_reservations d) of
                  None \<Rightarrow> (ACTIVE, None) | Some r \<Rightarrow> (br_status r, br_settled_seq r)))"

lemma effect_moved:
  assumes "keys_ok d" "st \<noteq> RESERVED"
  shows "update_intent_state (nr_id i) st (effect_db i st d) = moved (nr_id i) st (move_value i st d) d"
  using assms settled_moved [OF assms(1)]
  by (auto simp: effect_db_def move_value_def intro!: unsettled_moved split: option.splits)

lemma move_value_status:
  assumes "coupled d" "find_row nr_id (nr_id i) (intents d) = Some i" "is_legal_transition (nr_state i) st"
    "has_row br_id (nr_id i) (budget_reservations d)"
  shows "status_of st = Some (fst (move_value i st d))"
proof -
  obtain r where r: "find_row br_id (nr_id i) (budget_reservations d) = Some r"
    using has_row_find [OF assms(4)] by blast
  have "status_of (nr_state i) = Some (br_status r)"
    using coupled_reservation [OF assms(1,2) r] by simp
  from status_of_move [OF assms(3) this] show ?thesis
    by (auto simp: move_value_def settle_value_def r split: option.splits)
qed

lemma holding_step:
  "is_legal_transition s t \<Longrightarrow> t \<noteq> RESERVED \<Longrightarrow> t \<in> BUDGET_HOLDING_STATES \<union> {FILLED} \<Longrightarrow> s \<in> BUDGET_HOLDING_STATES"
  by (cases s) (auto simp: is_legal_transition_def BUDGET_HOLDING_STATES_def)

lemma coupled_transition:
  assumes c: "coupled d" and k: "keys_ok d" and i: "find_row nr_id a (intents d) = Some i" "nr_id i = a"
    and chk: "transition_checked i st d"
  shows "coupled (update_intent_state a st (effect_db i st d))"
proof (cases "st = RESERVED")
  case False
  have legal: "is_legal_transition (nr_state i) st" using chk by (simp add: transition_checked_def)
  have kn: "distinct (map nr_id (intents d))" using k by (simp add: keys_ok_def)
  have "has_row br_id a (budget_reservations d)"
    if "st \<in> BUDGET_HOLDING_STATES \<union> {FILLED}" "nr_exposure i \<noteq> 0"
    using holding_step [OF legal False that(1)] c find_row_SomeD [OF i(1)] that(2) i(2)
    by (auto simp: coupled_def list_all_iff)
  then have "coupled (moved a st (move_value i st d) d)"
    using move_value_status [OF c _ legal] i
    by (intro coupled_moved [OF c i(1)] kn) auto
  then show ?thesis using effect_moved [OF k False, of i] i(2) by simp
next
  case True
  have src: "nr_state i = SIMULATED" using chk True
    by (cases "nr_state i") (auto simp: transition_checked_def is_legal_transition_def)
  have none: "\<not> has_row br_id a (budget_reservations d)"
    using coupled_reservation [OF c i(1)] has_row_find [of br_id a "budget_reservations d"]
    by (auto simp: src BUDGET_HOLDING_STATES_def)
  have kn: "distinct (map nr_id (intents d))" using k by (simp add: keys_ok_def)
  have other: "br_id r \<noteq> a" if "r \<in> set (budget_reservations d)" for r
    using none that by (auto simp: has_row_def)
  have ex: "nr_exposure i \<noteq> 0 \<Longrightarrow> 0 < nr_exposure i"
    using chk True by (auto simp: transition_checked_def insert_reservation_Inr reservation_of_def)
  have same: "j = i" if "j \<in> set (intents d)" "nr_id j = a" for j
    using that find_row_SomeD [OF i(1)] i(2) kn by (metis distinct_map inj_on_def)
  show ?thesis
    using c other i same ex
    by (auto simp: coupled_def True effect_db_def reserved_def reservation_of_def table_updates list_all_iff
        ball_update_row reservation_fits_def tbl_simps BUDGET_HOLDING_STATES_def dest: same split: if_splits)
qed

subsection \<open>Capital held\<close>

definition budget_ok :: "db \<Rightarrow> bool" where
  "budget_ok d \<longleftrightarrow>
     list_all (\<lambda>p. held_where (\<lambda>r. br_policy r = pr_id p) d \<le> pr_allocation p) (policies d) \<and>
     list_all (\<lambda>r. list_all (\<lambda>p. pr_id p = br_policy r \<longrightarrow> br_amount r \<le> pr_per_order_cap p) (policies d))
       (budget_reservations d)"

definition scope_ok :: "(reservation_row \<Rightarrow> bool) \<Rightarrow> bool" where
  "scope_ok scope \<longleftrightarrow> (\<forall>v r. scope (set_settled v r) = scope r)"

lemma scopes_ok [simp]:
  "scope_ok (\<lambda>r. br_policy r = x)" "scope_ok (\<lambda>r. br_instrument r = x)" "scope_ok (\<lambda>r. br_network r = x)"
  "scope_ok (\<lambda>r. True)"
  by (simp_all add: scope_ok_def)

lemma held_update_le:
  assumes "scope_ok scope" "list_all (\<lambda>r. 0 \<le> br_amount r) rs"
    and "\<And>r. r \<in> set rs \<Longrightarrow> br_id r = a \<Longrightarrow> br_status r = RELEASED \<Longrightarrow> fst v = RELEASED"
  shows "sum_list (map br_amount (filter (\<lambda>r. br_status r \<noteq> RELEASED \<and> scope r) (update_row br_id a (set_settled v) rs)))
     \<le> sum_list (map br_amount (filter (\<lambda>r. br_status r \<noteq> RELEASED \<and> scope r) rs))"
  using assms(2,3)
proof (induction rs)
  case (Cons r rs)
  have "scope (set_settled v r) = scope r" using assms(1) unfolding scope_ok_def by blast
  with Cons show ?case by (auto simp: update_row_def)
qed (simp add: update_row_def)

lemma held_moved_le:
  assumes "scope_ok scope" "coupled d"
    and "\<And>r. r \<in> set (budget_reservations d) \<Longrightarrow> br_id r = a \<Longrightarrow> br_status r = RELEASED \<Longrightarrow> fst v = RELEASED"
  shows "held_where scope (moved a st v d) \<le> held_where scope d"
proof -
  have "list_all (\<lambda>r. 0 \<le> br_amount r) (budget_reservations d)"
    using assms(2) by (auto simp: coupled_def list_all_iff reservation_fits_def)
  from held_update_le [OF assms(1) this assms(3)] show ?thesis
    by (simp add: held_where_def moved_def)
qed

lemma budget_moved:
  assumes "budget_ok d" "coupled d"
    and "\<And>r. r \<in> set (budget_reservations d) \<Longrightarrow> br_id r = a \<Longrightarrow> br_status r = RELEASED \<Longrightarrow> fst v = RELEASED"
  shows "budget_ok (moved a st v d)"
proof -
  have "held_where (\<lambda>r. br_policy r = x) (moved a st v d) \<le> held_where (\<lambda>r. br_policy r = x) d" for x
    by (rule held_moved_le [OF _ assms(2,3)]) auto
  moreover have "\<forall>r \<in> set (budget_reservations (moved a st v d)). \<exists>r' \<in> set (budget_reservations d).
      br_policy r = br_policy r' \<and> br_amount r = br_amount r'"
    by (auto simp: moved_def ball_update_row)
  ultimately show ?thesis
    using assms(1) unfolding budget_ok_def list_all_iff
    by (fastforce simp: moved_def intro: order_trans)
qed

lemma held_reserved:
  "held_where scope (reserved i d) =
     (if nr_exposure i \<noteq> 0 \<and> scope (reservation_of d i) then nr_exposure i else 0) + held_where scope d"
  by (simp add: held_where_def reserved_def reservation_of_def)

lemma held_frame [simp]:
  "held_where scope (push_event e d) = held_where scope d"
  "held_where scope (update_intent_state a st d) = held_where scope d"
  by (simp_all add: held_where_def push_event_def table_updates)

lemma find_policy:
  "keys_ok d \<Longrightarrow> p \<in> set (policies d) \<Longrightarrow> find_row pr_id (pr_id p) (policies d) = Some p"
  by (subst find_row_iff) (auto simp: keys_ok_def)

lemma tightest_le: "le_cap n (tightest cs) \<Longrightarrow> c \<in> set cs \<Longrightarrow> n \<le> c"
  by (auto simp: le_cap_def tightest_def split: list.splits option.splits)

text \<open>What the guard admits: after the reservation, every cap of every policy concerned holds.\<close>

lemma caps_admit_bounds:
  assumes "caps_admit i amount d" "keys_ok d" "p \<in> set (policies d)"
  shows "pr_id p = nr_policy i \<Longrightarrow> amount \<le> pr_per_order_cap p \<and>
      amount + held_where (\<lambda>r. br_policy r = nr_policy i) d \<le> pr_allocation p"
    and "pr_instrument p = nr_instrument i \<Longrightarrow>
      amount + held_where (\<lambda>r. br_instrument r = nr_instrument i) d \<le> pr_per_instrument_cap p"
    and "pr_network p = nr_network i \<Longrightarrow>
      amount + held_where (\<lambda>r. br_network r = nr_network i) d \<le> pr_per_network_cap p"
    and "amount + held_where (\<lambda>r. True) d \<le> spendable p"
proof -
  note guard = assms(1) [unfolded caps_admit_def Let_def]
  show "pr_id p = nr_policy i \<Longrightarrow> amount \<le> pr_per_order_cap p \<and>
      amount + held_where (\<lambda>r. br_policy r = nr_policy i) d \<le> pr_allocation p"
    using guard find_policy [OF assms(2,3)] by (simp add: le_cap_def)
  show "pr_instrument p = nr_instrument i \<Longrightarrow>
      amount + held_where (\<lambda>r. br_instrument r = nr_instrument i) d \<le> pr_per_instrument_cap p"
    using guard assms(3) tightest_le [of _ "map pr_per_instrument_cap (filter (\<lambda>p. pr_instrument p = nr_instrument i) (policies d))"]
    by auto
  show "pr_network p = nr_network i \<Longrightarrow>
      amount + held_where (\<lambda>r. br_network r = nr_network i) d \<le> pr_per_network_cap p"
    using guard assms(3) tightest_le [of _ "map pr_per_network_cap (filter (\<lambda>p. pr_network p = nr_network i) (policies d))"]
    by auto
  show "amount + held_where (\<lambda>r. True) d \<le> spendable p"
    using guard assms(3) tightest_le [of _ "map spendable (policies d)"] by auto
qed

lemma budget_frame:
  "budget_ok (push_event e d) = budget_ok d" "budget_ok (update_intent_state a st d) = budget_ok d"
  "coupled (push_event e d) = coupled d"
  by (simp_all add: budget_ok_def coupled_def) (simp_all add: push_event_def table_updates)

lemma budget_transition:
  assumes b: "budget_ok d" and c: "coupled d" and k: "keys_ok d"
    and i: "find_row nr_id a (intents d) = Some i" "nr_id i = a" and chk: "transition_checked i st d"
  shows "budget_ok (update_intent_state a st (effect_db i st d))"
proof (cases "st = RESERVED")
  case False
  have legal: "is_legal_transition (nr_state i) st" using chk by (simp add: transition_checked_def)
  have "fst (move_value i st d) = RELEASED"
    if r: "r \<in> set (budget_reservations d)" "br_id r = a" "br_status r = RELEASED" for r
  proof -
    have "find_row br_id a (budget_reservations d) = Some r"
      using r k by (subst find_row_iff) (auto simp: keys_ok_def)
    from coupled_reservation [OF c i(1) this] status_of_move [OF legal] r(3) show ?thesis by auto
  qed
  from budget_moved [OF b c this] show ?thesis using effect_moved [OF k False, of i] i(2) by simp
next
  case True
  have "budget_ok (reserved i d)"
  proof (cases "nr_exposure i = 0")
    case False
    then have adm: "caps_admit i (nr_exposure i) d" using chk True by (simp add: transition_checked_def)
    show ?thesis
      using b caps_admit_bounds(1) [OF adm k] False
      by (auto simp: budget_ok_def list_all_iff held_reserved reservation_of_def)
        (auto simp: reserved_def reservation_of_def)
  qed (use b in \<open>simp add: reserved_def\<close>)
  then show ?thesis by (simp add: True effect_db_def budget_frame)
qed

subsection \<open>Recovery from terminal chain truth and receipts\<close>

lemma unquarantine_Inr [res_simps]:
  "unquarantine a status seq d = (Inr u, d') \<longleftrightarrow>
     (\<exists>r. find_row br_id a (budget_reservations d) = Some r \<and> br_status r = QUARANTINED) \<and>
     d' = update_reservation a status seq d"
  by (auto simp: unquarantine_def sbind_eq_Inr sget_eq sguard_eq_Inr sput_eq)

definition recovery_event :: "intent_row \<Rightarrow> intent_state \<Rightarrow> reconciliation_row \<Rightarrow> int \<Rightarrow> db \<Rightarrow> event_row" where
  "recovery_event i st r now d =
     event_of d CHAIN_TRUTH_RECOVERED (nr_policy i) (nr_cycle i) (Some (nr_id i))
       (Some (Intent SAFE_HALT)) (Some (Intent st)) now
       (recovery_payload r (if st = RECONCILED then ''SETTLED'' else ''REVERTED''))"

definition recovery_value :: "intent_state \<Rightarrow> db \<Rightarrow> ReservationStatus \<times> int option" where
  "recovery_value st d = (if st = RECONCILED then (ACTIVE, None) else (RELEASED, Some (next_seq d)))"

text \<open>What the recovery of a halted action has checked once it returns.\<close>

definition recovery_checked :: "intent_row \<Rightarrow> intent_state \<Rightarrow> reconciliation_row \<Rightarrow> db \<Rightarrow> bool" where
  "recovery_checked i st r d \<longleftrightarrow> nr_state i = SAFE_HALT \<and> st \<in> {RECONCILED, REJECTED} \<and>
     (if nr_exposure i = 0 then \<not> has_row br_id (nr_id i) (budget_reservations d)
      else \<exists>b. find_row br_id (nr_id i) (budget_reservations d) = Some b \<and> br_status b = QUARANTINED) \<and>
     (\<exists>e. exec_surface d = Some e \<and> find_row rr_action (nr_id i) (reconciliations e) = Some r) \<and>
     (if st = RECONCILED then rr_verdict r = V_SETTLED \<and> has_settled_receipt (nr_id i) d = Inr True \<and>
        settled_fill_within_bounds (nr_id i) d = Inr True
      else rr_verdict r = V_REVERTED \<and> has_bound_reverted_reconciliation (nr_id i) d = Inr True)"

lemma moved_push: "moved a st v (push_event e d) = push_event e (moved a st v d)"
  by (simp add: moved_def push_event_def)

lemma update_both:
  "update_intent_state a st (update_reservation a rs sq d) = moved a st (rs, sq) d"
  "update_intent_state a st (push_event e d') = push_event e (update_intent_state a st d')"
  "update_reservation a rs sq (push_event e d') = push_event e (update_reservation a rs sq d')"
  by (simp_all add: moved_def table_updates push_event_def)

lemma update_no_reservation:
  "\<not> has_row br_id a (budget_reservations d) \<Longrightarrow> update_intent_state a st d = moved a st v d"
proof -
  assume "\<not> has_row br_id a (budget_reservations d)"
  then have "update_row br_id a (set_settled v) (budget_reservations d) = budget_reservations d"
    by (auto simp: update_row_def has_row_def intro!: map_idI)
  then show ?thesis by (simp add: moved_def table_updates)
qed

lemma recovery_evidence_Inr:
  "recovery_evidence a st i d = (Inr u, d') \<longleftrightarrow>
     (if st = RECONCILED then has_settled_receipt a d = Inr True \<and> settled_fill_within_bounds a d = Inr True \<and>
        (if nr_exposure i > 0 then unquarantine a ACTIVE None d = (Inr u, d') else d' = d)
      else has_bound_reverted_reconciliation a d = Inr True \<and> d' = d)"
  by (auto simp: recovery_evidence_def sbind_eq_Inr sget_eq slift_eq sguard_eq_Inr sret_eq)

lemma recovery_release_Inr:
  "recovery_release a st i seq d = (Inr u, d') \<longleftrightarrow>
     (if st = REJECTED \<and> nr_exposure i > 0 then unquarantine a RELEASED (Some seq) d = (Inr u, d') else d' = d)"
  by (auto simp: recovery_release_def sret_eq)

lemma recover_body_Inr:
  assumes "recover_safe_halt_body a st now d = (Inr u, d')" "st \<in> {RECONCILED, REJECTED}"
    and pos: "\<And>i. find_row nr_id a (intents d) = Some i \<Longrightarrow> 0 \<le> nr_exposure i"
  obtains i r where "find_row nr_id a (intents d) = Some i" "nr_id i = a" "recovery_checked i st r d"
    "0 \<le> now" "now \<le> INT64_MAX"
    "insert_event (recovery_event i st r now d)
       (if st = RECONCILED \<and> nr_exposure i > 0 then update_reservation a ACTIVE None d else d) =
     Inr (push_event (recovery_event i st r now d)
       (if st = RECONCILED \<and> nr_exposure i > 0 then update_reservation a ACTIVE None d else d))"
    "d' = push_event (recovery_event i st r now d) (moved a st (recovery_value st d) d)"
proof -
  obtain i e r d1 d2 d3 where i: "find_row nr_id a (intents d) = Some i" and halt: "nr_state i = SAFE_HALT"
    and res: "if nr_exposure i = 0 then find_row br_id a (budget_reservations d) = None
       else find_row br_id a (budget_reservations d) \<noteq> None \<and>
         br_status (the (find_row br_id a (budget_reservations d))) = QUARANTINED"
    and e: "exec_surface d = Some e" and r: "find_row rr_action a (reconciliations e) = Some r"
    and verdict: "rr_verdict r = (if st = RECONCILED then V_SETTLED else V_REVERTED)"
    and evid: "recovery_evidence a st i d = (Inr (), d1)"
    and ev: "0 \<le> now" "now \<le> INT64_MAX" "insert_event (event_of d1 CHAIN_TRUTH_RECOVERED (nr_policy i) (nr_cycle i) (Some a)
       (Some (Intent SAFE_HALT)) (Some (Intent st)) now
       (recovery_payload r (if st = RECONCILED then ''SETTLED'' else ''REVERTED''))) d1 = Inr d2"
    and fin: "recovery_release a st i (next_seq d1) d2 = (Inr (), d3)" "d' = update_intent_state a st d3"
    using assms(1) unfolding recover_safe_halt_body_def
    by (auto simp: sbind_eq_Inr sget_eq slift_eq sguard_eq_Inr sput_eq intent_row_for_Inr append_event_Inr
        sraise_eq case_option_run)
  have a: "nr_id i = a" using find_row_SomeD [OF i] by simp
  have p: "0 \<le> nr_exposure i" using pos [OF i] .
  let ?d1 = "if st = RECONCILED \<and> nr_exposure i > 0 then update_reservation a ACTIVE None d else d"
  have d1: "d1 = ?d1" using evid by (auto simp: recovery_evidence_Inr unquarantine_Inr split: if_splits)
  have same: "event_of d1 = event_of d" "next_seq d1 = next_seq d"
    by (auto simp: d1 event_of_def table_updates next_seq_def intro!: ext)
  have ins: "insert_event (recovery_event i st r now d) ?d1 = Inr d2"
    using ev(3) by (simp add: recovery_event_def a same d1 [symmetric])
  then have d2: "d2 = push_event (recovery_event i st r now d) ?d1" by (rule insert_event_push)
  have chk: "recovery_checked i st r d"
    using halt assms(2) res e r verdict evid a
    by (auto simp: recovery_checked_def recovery_evidence_Inr find_row_None split: if_splits dest!: has_row_find)
  have none: "\<not> has_row br_id a (budget_reservations d)" if "\<not> 0 < nr_exposure i"
    using res p that by (auto simp: find_row_None)
  have "d' = push_event (recovery_event i st r now d) (moved a st (recovery_value st d) d)"
  proof (cases "0 < nr_exposure i")
    case True
    then show ?thesis
      using fin assms(2) by (auto simp: recovery_release_Inr unquarantine_Inr d2 update_both recovery_value_def same)
  next
    case False
    then show ?thesis
      using fin update_no_reservation [OF none [OF False], of st]
      by (auto simp: recovery_release_Inr d2 update_both)
  qed
  then show thesis using that [OF i a chk ev(1,2)] ins d2 by blast
qed

lemma coupled_recovery:
  assumes "coupled d" "keys_ok d" "find_row nr_id a (intents d) = Some i" "nr_id i = a" "recovery_checked i st r d"
  shows "coupled (moved a st (recovery_value st d) d)"
proof (rule coupled_moved [OF assms(1,3)])
  show "status_of st = Some (fst (recovery_value st d))"
    using assms(5) by (auto simp: recovery_checked_def recovery_value_def BUDGET_HOLDING_STATES_def)
  show "has_row br_id a (budget_reservations d)" if "nr_exposure i \<noteq> 0"
    using assms(4,5) that by (auto simp: recovery_checked_def intro: find_row_Some_has)
  show "distinct (map nr_id (intents d))" using assms(2) by (simp add: keys_ok_def)
qed

lemma budget_recovery:
  assumes "budget_ok d" "coupled d" "keys_ok d" "find_row nr_id a (intents d) = Some i" "nr_id i = a"
    "recovery_checked i st r d"
  shows "budget_ok (moved a st (recovery_value st d) d)"
proof (rule budget_moved [OF assms(1,2)])
  fix b
  assume b: "b \<in> set (budget_reservations d)" "br_id b = a" "br_status b = RELEASED"
  then have "find_row br_id a (budget_reservations d) = Some b"
    using assms(3) by (subst find_row_iff) (auto simp: keys_ok_def)
  with b(3) assms(5,6) show "fst (recovery_value st d) = RELEASED"
    by (auto simp: recovery_checked_def find_row_Some_has split: if_splits)
qed

definition receipt_event :: "intent_row \<Rightarrow> FillReceiptV0 \<Rightarrow> int \<Rightarrow> db \<Rightarrow> event_row" where
  "receipt_event i r now d =
     event_of d FILL_RECEIPT_APPENDED (nr_policy i) (nr_cycle i) (Some (nr_id i))
       (Some (Intent (nr_state i))) None now (JObj (receipt_canonical_object r))"

definition with_receipt :: "receipt_row \<Rightarrow> db \<Rightarrow> db" where
  "with_receipt f d = d\<lparr>fill_receipts := fill_receipts d @ [f]\<rparr>"

definition halt_payload :: json where
  "halt_payload = JObj [(''reason'', JStr ''FILL_OUTSIDE_COMMITTED_BOUNDS'')]"

lemma insert_receipt_once_Inr [res_simps]:
  "insert_receipt_once f d = Inr d' \<longleftrightarrow> insert_receipt f d = Inr d'"
  by (auto simp: insert_receipt_once_def split: sum.splits)

lemma halt_on_bounds_Inr:
  assumes "halt_on_bounds a i now d = (Inr u, d')" "nr_id i = a"
  shows "is_legal_transition (nr_state i) SAFE_HALT \<and>
    insert_event (transition_event i SAFE_HALT now halt_payload d)
      (update_intent_state a SAFE_HALT (settled a QUARANTINED d)) = Inr d' \<and>
    d' = push_event (transition_event i SAFE_HALT now halt_payload d)
      (update_intent_state a SAFE_HALT (settled a QUARANTINED d))"
proof -
  have same: "event_of (update_intent_state x SAFE_HALT (settled y QUARANTINED d)) = event_of d" for x y
    by (rule event_of_cong) (simp add: table_updates)
  have "is_legal_transition (nr_state i) SAFE_HALT"
    "insert_event (transition_event i SAFE_HALT now halt_payload d)
      (update_intent_state a SAFE_HALT (settled a QUARANTINED d)) = Inr d'"
    using assms unfolding halt_on_bounds_def
    by (auto simp: sbind_eq_Inr slift_eq settle_reservation_run sput_eq sret_eq append_event_Inr assert_legal_eq_Inr
        transition_event_def halt_payload_def same)
  then show ?thesis using insert_event_push by blast
qed

text \<open>A receipt: the row, its event, and the halt when the committed bounds are broken.\<close>

lemma append_receipt_Inr:
  assumes "append_fill_receipt_in_transaction r now d = (Inr ok, d')"
  obtains i f where "find_row nr_id (rc_economic_action_id r) (intents d) = Some i"
    "nr_id i = rc_economic_action_id r" "nr_state i \<in> RECEIPT_STATES" "0 \<le> now" "now \<le> INT64_MAX"
    "receipt_row_of r (next_seq d) = Inr f" "insert_receipt f d = Inr (with_receipt f d)"
    "insert_event (receipt_event i r now d) (with_receipt f d) =
       Inr (push_event (receipt_event i r now d) (with_receipt f d))"
    "receipt_within_bounds (nr_id i) (nr_bounds i) (with_receipt f d) = Inr ok"
    "if \<not> ok \<and> nr_state i \<noteq> SAFE_HALT then
       is_legal_transition (nr_state i) SAFE_HALT \<and>
       (let d1 = push_event (receipt_event i r now d) (with_receipt f d);
            e = transition_event i SAFE_HALT now halt_payload d1;
            d2 = update_intent_state (nr_id i) SAFE_HALT (settled (nr_id i) QUARANTINED d1)
        in insert_event e d2 = Inr d' \<and> d' = push_event e d2)
     else d' = push_event (receipt_event i r now d) (with_receipt f d)"
proof -
  let ?a = "rc_economic_action_id r"
  obtain i f d1 d2 where i: "find_row nr_id ?a (intents d) = Some i" "nr_state i \<in> RECEIPT_STATES"
    and f: "receipt_row_of r (next_seq d) = Inr f" "insert_receipt f d = Inr d1"
    and ev: "0 \<le> now" "now \<le> INT64_MAX" "insert_event (event_of d1 FILL_RECEIPT_APPENDED (nr_policy i) (nr_cycle i) (Some ?a)
        (Some (Intent (nr_state i))) None now (JObj (receipt_canonical_object r))) d1 = Inr d2"
    and ok: "receipt_within_bounds ?a (nr_bounds i) d2 = Inr ok"
    and fin: "(if \<not> ok \<and> nr_state i \<noteq> SAFE_HALT then halt_on_bounds ?a i now else sret ()) d2 = (Inr (), d')"
    using assms unfolding append_fill_receipt_in_transaction_def Let_def
    by (auto simp: sbind_eq_Inr sget_eq slift_eq sguard_eq_Inr swrite_eq_Inr sret_eq intent_row_for_Inr
        append_event_Inr insert_receipt_once_Inr)
  have a: "nr_id i = ?a" using find_row_SomeD [OF i(1)] by simp
  have d1: "d1 = with_receipt f d" using f(2) by (simp add: insert_receipt_Inr with_receipt_def)
  have "event_of d1 = event_of d" by (auto simp: d1 with_receipt_def event_of_def next_seq_def intro!: ext)
  then have ins: "insert_event (receipt_event i r now d) (with_receipt f d) = Inr d2"
    using ev(3) by (simp add: receipt_event_def a d1)
  then have d2: "d2 = push_event (receipt_event i r now d) (with_receipt f d)" by (rule insert_event_push)
  have within: "receipt_within_bounds ?a (nr_bounds i) d2 = receipt_within_bounds ?a (nr_bounds i) (with_receipt f d)"
    by (simp add: receipt_within_bounds_def total_filled_def d2 push_event_def)
  show thesis
  proof (rule that [OF i(1) a i(2) ev(1,2) f(1)])
    show "insert_receipt f d = Inr (with_receipt f d)" using f(2) d1 by simp
    show "insert_event (receipt_event i r now d) (with_receipt f d) =
       Inr (push_event (receipt_event i r now d) (with_receipt f d))" using ins d2 by simp
    show "receipt_within_bounds (nr_id i) (nr_bounds i) (with_receipt f d) = Inr ok" using ok within a by simp
    show "if \<not> ok \<and> nr_state i \<noteq> SAFE_HALT then
       is_legal_transition (nr_state i) SAFE_HALT \<and>
       (let d1 = push_event (receipt_event i r now d) (with_receipt f d);
            e = transition_event i SAFE_HALT now halt_payload d1;
            d2 = update_intent_state (nr_id i) SAFE_HALT (settled (nr_id i) QUARANTINED d1)
        in insert_event e d2 = Inr d' \<and> d' = push_event e d2)
     else d' = push_event (receipt_event i r now d) (with_receipt f d)"
      using fin halt_on_bounds_Inr [of ?a i now d2 "()" d'] a
      by (auto simp: Let_def d2 sret_eq split: if_splits)
  qed
qed

subsection \<open>The invariant of the ledger\<close>

definition ledger_inv :: "db \<Rightarrow> bool" where
  "ledger_inv d \<longleftrightarrow> keys_ok d \<and> seqs_ok d \<and> foreign_keys_ok d \<and> coupled d \<and> budget_ok d \<and>
     list_all (\<lambda>i. 0 \<le> nr_exposure i) (intents d)"

interpretation exposures: statement_invariant "\<lambda>d. list_all (\<lambda>i. 0 \<le> nr_exposure i) (intents d)"
  by unfold_locales (auto simp: res_simps table_updates list_all_iff ball_update_row)

text \<open>A new policy holds nothing, a new intent has no reservation.\<close>

definition linked :: "db \<Rightarrow> bool" where
  "linked d \<longleftrightarrow> foreign_keys_ok d \<and> coupled d \<and> budget_ok d"

lemma held_unknown_policy:
  assumes "foreign_keys_ok d" "\<not> has_row pr_id x (policies d)"
  shows "held_where (\<lambda>r. br_policy r = x) d = 0"
proof -
  have "br_policy r \<noteq> x" if "r \<in> set (budget_reservations d)" for r
    using assms that by (auto simp: foreign_keys_ok_def list_all_iff)
  then have "filter (\<lambda>r. br_status r \<noteq> RELEASED \<and> br_policy r = x) (budget_reservations d) = []"
    by (auto simp: filter_empty_conv)
  then show ?thesis by (simp add: held_where_def)
qed

interpretation registered: registration_invariant linked
proof unfold_locales
  fix ir d d'
  assume "insert_instrument ir d = Inr d'" "linked d"
  then show "linked d'" using refs.ins_instrument [of ir d d']
    by (auto simp: linked_def coupled_def budget_ok_def held_where_def insert_instrument_Inr)
next
  fix pr d d'
  assume ins: "insert_policy pr d = Inr d'" and l: "linked d"
  have fk: "foreign_keys_ok d'" using refs.ins_policy [OF ins] l by (simp add: linked_def)
  have d': "d' = d\<lparr>policies := policies d @ [pr]\<rparr>" and new: "\<not> has_row pr_id (pr_id pr) (policies d)"
    and pos: "0 < pr_allocation pr" using ins by (auto simp: insert_policy_Inr)
  have "held_where (\<lambda>r. br_policy r = pr_id pr) d = 0"
    using held_unknown_policy [OF _ new] l by (simp add: linked_def)
  moreover have "\<forall>r \<in> set (budget_reservations d). br_policy r \<noteq> pr_id pr"
    using l new by (auto simp: linked_def foreign_keys_ok_def list_all_iff)
  ultimately show "linked d'"
    using l fk pos by (auto simp: linked_def coupled_def budget_ok_def held_where_def d' list_all_iff)
next
  fix lr d d'
  assume "insert_level lr d = Inr d'" "linked d"
  then show "linked d'" using refs.ins_level [of lr d d']
    by (auto simp: linked_def coupled_def budget_ok_def held_where_def insert_level_Inr)
next
  fix cr d d'
  assume "insert_cycle cr d = Inr d'" "linked d"
  then show "linked d'" using refs.ins_cycle [of cr d d']
    by (auto simp: linked_def coupled_def budget_ok_def held_where_def insert_cycle_Inr)
next
  fix nr d d'
  assume ins: "insert_intent nr d = Inr d'" and armed: "nr_state nr = ARMED" and l: "linked d"
  have fk: "foreign_keys_ok d'" using refs.ins_intent [OF ins armed] l by (simp add: linked_def)
  show "linked d'"
    using l fk ins armed
    by (auto simp: linked_def coupled_def budget_ok_def held_where_def insert_intent_Inr reservation_fits_def
        list_all_iff tbl_simps BUDGET_HOLDING_STATES_def; force)
next
  fix ev d d'
  assume ins: "insert_event ev d = Inr d'" "ev_seq ev = next_seq d" and l: "linked d"
  have "d' = d\<lparr>state_events := state_events d @ [ev]\<rparr>" using ins by (simp add: insert_event_Inr)
  then show "linked d'" using refs.ins_event [OF ins] l
    by (simp add: linked_def coupled_def budget_ok_def held_where_def)
next
  fix d c cs
  assume "linked d"
  then show "linked (update_cycle_status c cs d)" using refs.upd_cycle [of d c cs]
    by (auto simp: linked_def coupled_def budget_ok_def held_where_def table_updates)
qed

lemma inv_parts:
  assumes "ledger_inv d"
  shows "keys_ok d" "seqs_ok d" "foreign_keys_ok d" "coupled d" "budget_ok d" "linked d"
    "find_row nr_id a (intents d) = Some i \<Longrightarrow> 0 \<le> nr_exposure i"
  using assms by (auto simp: ledger_inv_def linked_def list_all_iff dest: find_row_SomeD)

lemma linked_push: "insert_event e d = Inr d' \<Longrightarrow> coupled d \<and> budget_ok d \<Longrightarrow> coupled d' \<and> budget_ok d'"
  using insert_event_push [of e d d'] by (simp add: budget_frame)

lemma transition_linked:
  assumes "transition_body a st now pl d = (Inr u, d')" "ledger_inv d"
  shows "coupled d' \<and> budget_ok d'"
proof -
  from transition_body_Inr [OF assms(1)] obtain i where
    i: "find_row nr_id a (intents d) = Some i" "nr_id i = a" "transition_checked i st d"
    and ins: "insert_event (transition_event i st now (JObj pl) d) (update_intent_state a st (effect_db i st d)) = Inr d'"
    by blast
  note inv = inv_parts [OF assms(2)]
  show ?thesis
    by (rule linked_push [OF ins]) (intro conjI coupled_transition budget_transition inv i)
qed

lemma recover_linked:
  assumes "recover_safe_halt_body a st now d = (Inr u, d')" "st \<in> {RECONCILED, REJECTED}" "ledger_inv d"
  shows "coupled d' \<and> budget_ok d'"
proof -
  note inv = inv_parts [OF assms(3)]
  have pos: "0 \<le> nr_exposure i" if "find_row nr_id a (intents d) = Some i" for i
    by (rule inv(7) [OF that])
  from recover_body_Inr [OF assms(1,2) pos] obtain i r where
    i: "find_row nr_id a (intents d) = Some i" "nr_id i = a" "recovery_checked i st r d"
    and d': "d' = push_event (recovery_event i st r now d) (moved a st (recovery_value st d) d)"
    by blast
  show ?thesis
    unfolding d' budget_frame
    using coupled_recovery [OF inv(4,1) i] budget_recovery [OF inv(5,4,1) i] ..
qed

lemma receipt_frame:
  "coupled (with_receipt f d) = coupled d" "budget_ok (with_receipt f d) = budget_ok d"
  "keys_ok (push_event e d) = keys_ok d"
  by (simp_all add: coupled_def budget_ok_def held_where_def with_receipt_def keys_ok_def push_event_def)

lemma receipt_linked:
  assumes "append_fill_receipt_in_transaction r now d = (Inr ok, d')" "ledger_inv d"
  shows "coupled d' \<and> budget_ok d'"
proof -
  note inv = inv_parts [OF assms(2)]
  from append_receipt_Inr [OF assms(1)] obtain i f where
    i: "find_row nr_id (rc_economic_action_id r) (intents d) = Some i" "nr_id i = rc_economic_action_id r"
    and f: "insert_receipt f d = Inr (with_receipt f d)"
    and fin: "if \<not> ok \<and> nr_state i \<noteq> SAFE_HALT then
       is_legal_transition (nr_state i) SAFE_HALT \<and>
       (let d1 = push_event (receipt_event i r now d) (with_receipt f d);
            e = transition_event i SAFE_HALT now halt_payload d1;
            d2 = update_intent_state (nr_id i) SAFE_HALT (settled (nr_id i) QUARANTINED d1)
        in insert_event e d2 = Inr d' \<and> d' = push_event e d2)
     else d' = push_event (receipt_event i r now d) (with_receipt f d)"
    by blast
  let ?d1 = "push_event (receipt_event i r now d) (with_receipt f d)"
  have d1: "coupled ?d1 \<and> budget_ok ?d1" using inv by (simp add: budget_frame receipt_frame)
  have k1: "keys_ok ?d1" using keys.ins_receipt [OF f] inv by (simp add: receipt_frame)
  have i1: "find_row nr_id (nr_id i) (intents ?d1) = Some i"
    using i by (simp add: push_event_def with_receipt_def)
  show ?thesis
  proof (cases "\<not> ok \<and> nr_state i \<noteq> SAFE_HALT")
    case True
    then have legal: "is_legal_transition (nr_state i) SAFE_HALT"
      and ins: "insert_event (transition_event i SAFE_HALT now halt_payload ?d1)
        (update_intent_state (nr_id i) SAFE_HALT (settled (nr_id i) QUARANTINED ?d1)) = Inr d'"
      using fin by (auto simp: Let_def)
    have chk: "transition_checked i SAFE_HALT ?d1"
      using legal by (simp add: transition_checked_def RELEASING_STATES_def)
    have eff: "effect_db i SAFE_HALT ?d1 = settled (nr_id i) QUARANTINED ?d1" by (simp add: effect_db_def)
    have "coupled (update_intent_state (nr_id i) SAFE_HALT (effect_db i SAFE_HALT ?d1)) \<and>
      budget_ok (update_intent_state (nr_id i) SAFE_HALT (effect_db i SAFE_HALT ?d1))"
      by (intro conjI coupled_transition budget_transition i1 refl chk k1) (use d1 in auto)
    then show ?thesis using linked_push [OF ins] unfolding eff by blast
  next
    case False
    then show ?thesis using fin d1 by (simp split: if_splits)
  qed
qed

lemma execution_receipt_Inr:
  assumes "append_execution_fill_receipt_body r va now d = (Inr ok, d')"
  shows "append_fill_receipt_in_transaction r now d = (Inr ok, d')"
  using assms unfolding append_execution_fill_receipt_body_def
  by (auto simp: sbind_eq_Inr sget_eq slift_eq sguard_eq_Inr sraise_eq case_option_run)

lemma body_unit_Inr: "body_unit m d = (Inr u, d') \<longleftrightarrow> (\<exists>x. m d = (Inr x, d'))"
  by (simp add: body_unit_def sbind_eq_Inr sret_eq)

lemma op_body_linked:
  assumes "op_body H op d = (Inr u, d')" "ledger_inv d"
  shows "coupled d' \<and> budget_ok d'"
proof -
  have reg: "linked d'" if "keeps linked (op_body H op)"
    using that assms inv_parts(6) [OF assms(2)] unfolding keeps_def by blast
  show ?thesis
  proof (cases op)
    case (Transition a st now pl)
    then show ?thesis using assms transition_linked by auto
  next
    case (RecoverSafeHalt a st now)
    then show ?thesis using assms recover_linked [of a st now d "()" d']
      by (auto simp: sraise_eq split: if_splits)
  next
    case (AppendReceipt r now)
    then show ?thesis using assms receipt_linked
      by (auto simp: sbind_eq_Inr sget_eq sraise_eq body_unit_Inr split: if_splits)
  next
    case (AppendExecutionReceipt r va now)
    then obtain ok where "append_execution_fill_receipt_body r va now d = (Inr ok, d')"
      using assms by (auto simp: body_unit_Inr)
    from receipt_linked [OF execution_receipt_Inr [OF this] assms(2)] show ?thesis .
  qed (use reg registered.keeps_registering_op [of op H] in \<open>auto simp: linked_def\<close>)
qed

lemma op_body_inv:
  assumes "op_body H op d = (Inr u, d')" "ledger_inv d"
  shows "ledger_inv d'"
  using op_body_linked [OF assms] keys.op_invariant [OF assms(1)] seqs.op_invariant [OF assms(1)]
    refs.op_invariant [OF assms(1)] exposures.op_invariant [OF assms(1)] assms(2)
  by (simp add: ledger_inv_def)

end
