(* ===== verification/SampleRun.thy ===== *)
theory SampleRun
  imports Budget
begin

text \<open>
  A concrete run used to show that the hypotheses of the ledger's properties can hold: the
  sample policy is admitted, a cycle opened, one rung armed and driven to RESERVED. The
  digest function is a constant one, which is enough for one policy.
\<close>

definition sample_digest :: string where
  "sample_digest = replicate 64 (CHR ''a'')"

definition sample_action :: string where
  "sample_action = replicate 64 (CHR ''b'')"

definition sample_hash :: digest_fn where
  "sample_hash = (\<lambda>_. sample_digest)"

definition sample_entry_levels :: "LadderLevelV0 list" where
  "sample_entry_levels =
     [\<lparr>lv_level_id = ''E1'', lv_kind = ENTRY, lv_side = BUY, lv_index = 0, lv_trigger_price = 2,
       lv_input_amount = Some 100, lv_input_ratio = None\<rparr>,
      \<lparr>lv_level_id = ''E2'', lv_kind = ENTRY, lv_side = BUY, lv_index = 1, lv_trigger_price = 1,
       lv_input_amount = Some 100, lv_input_ratio = None\<rparr>]"

definition sample_exit_levels :: "LadderLevelV0 list" where
  "sample_exit_levels =
     [\<lparr>lv_level_id = ''X1'', lv_kind = EXIT, lv_side = SELL, lv_index = 0, lv_trigger_price = 3,
       lv_input_amount = None, lv_input_ratio = Some (1 / 2)\<rparr>]"

definition sample_parsed :: Parts where
  "sample_parsed = \<lparr>pt_name = ''sample'', pt_side = BUY, pt_base = sample_pair ''01'',
     pt_quote = sample_pair ''02'',
     pt_entry = \<lparr>ld_kind = ENTRY, ld_side = BUY, ld_levels = sample_entry_levels\<rparr>,
     pt_exit = \<lparr>ld_kind = EXIT, ld_side = SELL, ld_levels = sample_exit_levels\<rparr>,
     pt_capital = \<lparr>cap_allocation = 150, cap_per_order = 100, cap_per_instrument = 200,
       cap_per_network = 300, cap_global = 400, cap_reserved_cash = 50\<rparr>,
     pt_budget = \<lparr>allocation_atomic = 150000000, per_order_cap_atomic = 100000000,
       per_instrument_cap_atomic = 200000000, per_network_cap_atomic = 300000000,
       global_cap_atomic = 400000000, reserved_cash_atomic = 50000000\<rparr>,
     pt_limits = \<lparr>lim_max_executable_price = 4, lim_min_executable_price = 1,
       lim_max_price_impact_bps = 50, lim_max_slippage_bps = 50\<rparr>,
     pt_timing = \<lparr>tim_valid_from = 1000, tim_expiry = 2000, tim_quote_ttl = 30\<rparr>,
     pt_reentry = \<lparr>ree_max_cycles = 3, ree_hysteresis_bps = 100, ree_cooldown_s = 60\<rparr>,
     pt_recycle = 0, pt_banked = 0\<rparr>"

definition sample_admitted_policy :: PolicyV0 where
  "sample_admitted_policy =
     parts_policy sample_parsed (case parts_canonical sample_parsed of Inr c \<Rightarrow> c | Inl _ \<Rightarrow> JNull)"

lemma sample_parsed_ok: "policy_parts sample_document = Inr sample_parsed"
proof -
  have side: "text_enum Side_of (JStr ''BUY'') = Inr BUY" using side_text [of BUY] by simp
  show ?thesis
    by (simp add: sample_document_def policy_parts_def Obj_def schema_text sample_level_ids side
        sample_instruments sample_ladders sample_sections pair_checks_def instrument_id_def network_id_def
        sample_pair_def sample_address_of_def exit_ratio_check_def capital_budget_def sample_to_atomic make_budget_def
        take_optional_def done_obj_def cross_field_checks_def require_le_def sample_parsed_def
        sample_entry_levels_def sample_exit_levels_def)
qed

lemma sample_policy_parses: "parse_policy sample_document = Inr sample_admitted_policy"
  using sample_parts sample_parsed_ok by (auto simp: parse_policy_def sample_admitted_policy_def)

lemma sample_prints:
  "format_canonical_decimal 1 = Inr ''1''" "format_canonical_decimal 2 = Inr ''2''"
  "format_canonical_decimal 3 = Inr ''3''" "format_canonical_decimal 100 = Inr ''100''"
  "format_canonical_decimal (1 / 2) = Inr ''0.5''"
  using sample_formats by (simp_all add: jdecimal_eq_Inr)

lemma sample_policy_fields [simp]:
  "base sample_admitted_policy = sample_pair ''01''" "quote_instrument sample_admitted_policy = sample_pair ''02''"
  "policy_name sample_admitted_policy = ''sample''" "pol_side sample_admitted_policy = BUY"
  "levels sample_admitted_policy = sample_entry_levels @ sample_exit_levels"
  "max_cycles sample_admitted_policy = 3" "policy_id sample_hash sample_admitted_policy = sample_digest"
  "valid_from_epoch_s sample_admitted_policy = 1000" "expiry_epoch_s sample_admitted_policy = 2000"
  "budget sample_admitted_policy = \<lparr>allocation_atomic = 150000000, per_order_cap_atomic = 100000000,
       per_instrument_cap_atomic = 200000000, per_network_cap_atomic = 300000000,
       global_cap_atomic = 400000000, reserved_cash_atomic = 50000000\<rparr>"
  by (simp_all add: sample_admitted_policy_def parts_policy_def sample_parsed_def levels_def
      policy_id_def digest_object_def sample_hash_def)

definition sample_base_id :: string where
  "sample_base_id = instrument_id (sample_pair ''01'')"

definition sample_quote_id :: string where
  "sample_quote_id = instrument_id (sample_pair ''02'')"

lemma sample_ids_differ [simp]: "sample_base_id \<noteq> sample_quote_id" "sample_quote_id \<noteq> sample_base_id"
  by (simp_all add: sample_base_id_def sample_quote_id_def instrument_id_def sample_pair_def sample_address_of_def)

lemma sample_networks: "network_id (sample_pair a) = ''evm:57073''"
proof -
  have "nat_str 57073 = ''57073''"
    using nat_str_digits_val [of "''57073''"]
    by (simp add: canon_digits_def is_digit_def digit_val_def)
  then show ?thesis by (simp add: network_id_def sample_pair_def str_int_def)
qed

definition sample_policy_row :: policy_row where
  "sample_policy_row = \<lparr>pr_id = sample_digest, pr_name = ''sample'', pr_side = BUY, pr_instrument = sample_base_id,
     pr_quote = sample_quote_id, pr_network = ''evm:57073'', pr_allocation = 150000000,
     pr_per_order_cap = 100000000, pr_per_instrument_cap = 200000000, pr_per_network_cap = 300000000,
     pr_global_cap = 400000000, pr_reserved_cash = 50000000, pr_max_cycles = 3,
     pr_canonical = canonical sample_admitted_policy\<rparr>"

definition sample_level_rows :: "level_row list" where
  "sample_level_rows =
     [\<lparr>lr_policy = sample_digest, lr_level = ''E1'', lr_kind = ENTRY, lr_side = BUY, lr_index = 0,
       lr_trigger = ''2'', lr_amount = Some ''100'', lr_ratio = None\<rparr>,
      \<lparr>lr_policy = sample_digest, lr_level = ''E2'', lr_kind = ENTRY, lr_side = BUY, lr_index = 1,
       lr_trigger = ''1'', lr_amount = Some ''100'', lr_ratio = None\<rparr>,
      \<lparr>lr_policy = sample_digest, lr_level = ''X1'', lr_kind = EXIT, lr_side = SELL, lr_index = 0,
       lr_trigger = ''3'', lr_amount = None, lr_ratio = Some ''0.5''\<rparr>]"

definition sample_admitted_db :: db where
  "sample_admitted_db = empty_db\<lparr>
     instruments := [instrument_row_of sample_hash (sample_pair ''01''), instrument_row_of sample_hash (sample_pair ''02'')],
     policies := [sample_policy_row], ladder_levels := sample_level_rows\<rparr>"

lemma sample_row_of: "policy_row_of sample_hash sample_admitted_policy = Inr sample_policy_row"
  by (simp add: policy_row_of_def store_atomic_eq sample_policy_row_def pol_instrument_id_def
      pol_quote_instrument_id_def pol_network_id_def sample_base_id_def sample_quote_id_def sample_networks)

lemma sample_instrument_rows [simp]:
  "ir_id (instrument_row_of sample_hash (sample_pair ''01'')) = sample_base_id"
  "ir_id (instrument_row_of sample_hash (sample_pair ''02'')) = sample_quote_id"
  "ir_namespace (instrument_row_of sample_hash (sample_pair a)) = ''evm''"
  "ir_decimals (instrument_row_of sample_hash (sample_pair a)) = 6"
  by (simp_all add: instrument_row_of_def sample_base_id_def sample_quote_id_def) (simp_all add: sample_pair_def)

lemma sample_admission:
  "op_body sample_hash (AdmitPolicy sample_admitted_policy) empty_db = (Inr (), sample_admitted_db)"
proof -
  have up: "upsert_instrument sample_hash (sample_pair ''01'') empty_db =
      (Inr (), empty_db\<lparr>instruments := [instrument_row_of sample_hash (sample_pair ''01'')]\<rparr>)"
    "upsert_instrument sample_hash (sample_pair ''02'')
       (empty_db\<lparr>instruments := [instrument_row_of sample_hash (sample_pair ''01'')]\<rparr>) =
      (Inr (), empty_db\<lparr>instruments := [instrument_row_of sample_hash (sample_pair ''01''),
        instrument_row_of sample_hash (sample_pair ''02'')]\<rparr>)"
    by (simp_all add: upsert_instrument_def sbind_run body_defs tbl_simps empty_db_def insert_instrument_def
        sample_base_id_def [symmetric] sample_quote_id_def [symmetric])
  have lv: "sfor (insert_level_of sample_digest) (sample_entry_levels @ sample_exit_levels)
      (empty_db\<lparr>instruments := rows, policies := [sample_policy_row]\<rparr>) =
      (Inr (), empty_db\<lparr>instruments := rows, policies := [sample_policy_row], ladder_levels := sample_level_rows\<rparr>)" for rows
    by (simp add: sample_entry_levels_def sample_exit_levels_def insert_level_of_def level_row_of_def opt_format_def
        sample_prints sbind_run body_defs insert_level_def tbl_simps empty_db_def level_key_def sample_level_rows_def
        sample_policy_row_def)
  have ip: "insert_policy sample_policy_row (empty_db\<lparr>instruments := [instrument_row_of sample_hash (sample_pair ''01''),
        instrument_row_of sample_hash (sample_pair ''02'')]\<rparr>) =
      Inr (empty_db\<lparr>instruments := [instrument_row_of sample_hash (sample_pair ''01''),
        instrument_row_of sample_hash (sample_pair ''02'')], policies := [sample_policy_row]\<rparr>)"
    by (simp add: insert_policy_def sample_policy_row_def tbl_simps empty_db_def)
  have none: "policies (empty_db\<lparr>instruments := rows\<rparr>) = []" for rows by (simp add: empty_db_def)
  show ?thesis
    by (simp add: body_unit_def admit_policy_body_def sbind_run up none sample_row_of ip lv body_defs tbl_simps
        sample_admitted_db_def)
qed

subsection \<open>One rung\<close>

definition sample_bounds_of :: EconomicBounds where
  "sample_bounds_of = \<lparr>eb_side = BUY, eb_input_instrument_id = sample_quote_id,
     eb_output_instrument_id = sample_base_id, max_input_atomic = 100000000, eb_min_output_atomic = 50000000,
     limit_price = 2, eb_max_price_impact_bps = 50, eb_max_slippage_bps = 50, deadline_epoch_s = 1030\<rparr>"

definition sample_intent :: IntentV0 where
  "sample_intent = \<lparr>in_economic_action_id = sample_action, in_policy_id = sample_digest, in_instrument_id = sample_base_id,
     in_quote_instrument_id = sample_quote_id, in_network_id = ''evm:57073'', in_cycle_id = sample_digest @ '':0'',
     in_level_id = ''E1'', in_side = BUY, in_kind = ENTRY, in_bounds = sample_bounds_of,
     in_quote_exposure_atomic = 100000000, in_state = ARMED\<rparr>"

definition sample_bounds_json :: json where
  "sample_bounds_json = JObj
     [(''side'', JStr ''BUY''), (''input_instrument_id'', JStr sample_quote_id),
      (''output_instrument_id'', JStr sample_base_id),
      (''max_input_atomic'', JStr (str_int 100000000)), (''min_output_atomic'', JStr (str_int 50000000)),
      (''limit_price'', JStr ''2''), (''max_price_impact_bps'', JInt 50), (''max_slippage_bps'', JInt 50),
      (''deadline_epoch_s'', JInt 1030)]"

lemma sample_bounds_print: "bounds_canonical_object sample_bounds_of = Inr sample_bounds_json"
  by (simp add: bounds_canonical_object_def sample_bounds_of_def sample_formats sample_bounds_json_def)

definition sample_intent_row :: "intent_state \<Rightarrow> intent_row" where
  "sample_intent_row st = \<lparr>nr_id = sample_action, nr_policy = sample_digest, nr_instrument = sample_base_id,
     nr_quote = sample_quote_id, nr_network = ''evm:57073'', nr_cycle = sample_digest @ '':0'', nr_level = ''E1'',
     nr_side = BUY, nr_kind = ENTRY, nr_state = st, nr_exposure = 100000000, nr_bounds = sample_bounds_json\<rparr>"

definition sample_event :: "int \<Rightarrow> EventType \<Rightarrow> string option \<Rightarrow> state_label option \<Rightarrow> state_label option \<Rightarrow>
    json \<Rightarrow> event_row" where
  "sample_event seq etype aid from to payload =
     \<lparr>ev_seq = seq, ev_type = etype, ev_policy = sample_digest, ev_cycle = sample_digest @ '':0'', ev_action = aid,
      ev_from = from, ev_to = to, ev_at = 1000, ev_payload = payload\<rparr>"

definition sample_opening :: event_row where
  "sample_opening = sample_event 1 CYCLE_OPENED None None (Some (Cycle OPEN)) (JObj [(''cycle_index'', JInt 0)])"

definition sample_move :: "int \<Rightarrow> intent_state \<Rightarrow> intent_state \<Rightarrow> event_row" where
  "sample_move seq src dst =
     sample_event seq INTENT_TRANSITION (Some sample_action) (Some (Intent src)) (Some (Intent dst)) (JObj [])"

definition sample_creation :: "(string \<times> json) list" where
  "sample_creation = (case intent_canonical_object sample_intent of Inr kvs \<Rightarrow> kvs | Inl _ \<Rightarrow> [])"

definition sample_cycle :: cycle_row where
  "sample_cycle = \<lparr>cr_id = sample_digest @ '':0'', cr_policy = sample_digest, cr_index = 0, cr_status = OPEN\<rparr>"

definition sample_created :: event_row where
  "sample_created = sample_event 2 INTENT_CREATED (Some sample_action) None (Some (Intent ARMED)) (JObj sample_creation)"

text \<open>The database with the cycle open, and with the rung in a state after some events.\<close>

definition sample_open_db :: db where
  "sample_open_db = sample_admitted_db\<lparr>cycles := [sample_cycle], state_events := [sample_opening]\<rparr>"

definition sample_rung_db :: "intent_state \<Rightarrow> event_row list \<Rightarrow> db" where
  "sample_rung_db st evs = sample_open_db\<lparr>intents := [sample_intent_row st],
     state_events := [sample_opening, sample_created] @ evs\<rparr>"

lemma sample_table_simps [simp]:
  "policies sample_admitted_db = [sample_policy_row]" "ladder_levels sample_admitted_db = sample_level_rows"
  "instruments sample_admitted_db = [instrument_row_of sample_hash (sample_pair ''01''), instrument_row_of sample_hash (sample_pair ''02'')]"
  "cycles sample_admitted_db = []" "intents sample_admitted_db = []" "state_events sample_admitted_db = []"
  "budget_reservations sample_admitted_db = []" "fill_receipts sample_admitted_db = []"
  "exec_surface sample_admitted_db = None"
  by (simp_all add: sample_admitted_db_def empty_db_def)

lemmas sample_row_defs = sample_policy_row_def sample_cycle_def sample_intent_row_def sample_event_def
  sample_opening_def sample_created_def sample_move_def

lemma sample_opens:
  "op_body sample_hash (OpenCycle sample_admitted_policy 0 1000) sample_admitted_db = (Inr (), sample_open_db)"
proof -
  have cid: "cycle_id_for sample_digest 0 = Inr (sample_digest @ '':0'')" by (simp add: cycle_id_for_def str_int_def)
  show ?thesis
    by (simp add: body_unit_def open_cycle_body_def sbind_run body_defs cid tbl_simps insert_cycle_def cycle_slot_def
        append_event_def next_seq_def insert_event_def CYCLE_EVENT_TYPES_def INT64_MAX_def sample_open_db_def
        sample_row_defs)
qed

lemma sample_creates:
  "op_body sample_hash (CreateIntent sample_intent 1000) sample_open_db = (Inr (), sample_rung_db ARMED [])"
proof -
  have row: "intent_row_of sample_intent = Inr (sample_intent_row ARMED)"
    by (simp add: intent_row_of_def sample_intent_def store_atomic_eq sample_bounds_print sample_intent_row_def)
  have pay: "intent_canonical_object sample_intent = Inr sample_creation"
    by (simp add: sample_creation_def intent_canonical_object_def) (simp add: sample_intent_def sample_bounds_print)
  have key: "in_state sample_intent = ARMED" "in_policy_id sample_intent = sample_digest" "in_cycle_id sample_intent = sample_digest @ '':0''"
    "in_economic_action_id sample_intent = sample_action" by (simp_all add: sample_intent_def)
  show ?thesis
    by (simp add: create_intent_body_def sbind_run body_defs row pay key insert_intent_once_def insert_intent_def
        tbl_simps intent_slot_def append_event_def next_seq_def insert_event_def CYCLE_EVENT_TYPES_def INT64_MAX_def
        sample_open_db_def sample_rung_db_def sample_row_defs level_key_def sample_level_rows_def)
qed

text \<open>The tables of the rung database.\<close>

lemma sample_rung_simps [simp]:
  "intents (sample_rung_db st evs) = [sample_intent_row st]"
  "state_events (sample_rung_db st evs) = [sample_opening, sample_created] @ evs"
  "cycles (sample_rung_db st evs) = [sample_cycle]" "policies (sample_rung_db st evs) = [sample_policy_row]"
  "budget_reservations (sample_rung_db st evs) = []" "fill_receipts (sample_rung_db st evs) = []"
  "exec_surface (sample_rung_db st evs) = None"
  "instruments (sample_rung_db st evs) = instruments sample_admitted_db"
  "sample_intent_row st\<lparr>nr_state := st'\<rparr> = sample_intent_row st'"
  by (simp_all add: sample_rung_db_def sample_open_db_def sample_intent_row_def)

lemma sample_rung_update: "update_intent_state sample_action st' (sample_rung_db st evs) = sample_rung_db st' evs"
  by (simp add: update_intent_state_def update_row_def set_state_def)
    (simp add: sample_rung_db_def sample_intent_row_def)

lemma sample_row_simps [simp]:
  "nr_id (sample_intent_row st) = sample_action" "nr_policy (sample_intent_row st) = sample_digest"
  "nr_cycle (sample_intent_row st) = sample_digest @ '':0''" "nr_state (sample_intent_row st) = st"
  "nr_exposure (sample_intent_row st) = 100000000" "nr_instrument (sample_intent_row st) = sample_base_id"
  "nr_quote (sample_intent_row st) = sample_quote_id" "nr_network (sample_intent_row st) = ''evm:57073''"
  "ev_seq (sample_move n s t) = n" "ev_seq sample_opening = 1" "ev_seq sample_created = 2"
  "pr_id sample_policy_row = sample_digest" "cr_id sample_cycle = sample_digest @ '':0''"
  by (simp_all add: sample_row_defs)

lemma sample_moves:
  assumes "is_legal_transition st st'" "st' \<in> {TRIGGERED, QUOTE_PINNED, SIMULATED}"
    and "next_seq (sample_rung_db st' evs) = seq" "\<not> has_row ev_seq seq (state_events (sample_rung_db st' evs))"
  shows "op_body sample_hash (Transition sample_action st' 1000 []) (sample_rung_db st evs) =
    (Inr (), sample_rung_db st' (evs @ [sample_move seq st st']))"
proof -
  have "transition_body sample_action st' 1000 [] (sample_rung_db st evs) = (Inr (), sample_rung_db st' (evs @ [sample_move seq st st']))"
  proof (rule transition_body_run [where i = "sample_intent_row st"])
    show "find_row nr_id sample_action (intents (sample_rung_db st evs)) = Some (sample_intent_row st)"
      by (simp add: tbl_simps)
    show "is_legal_transition (nr_state (sample_intent_row st)) st'" using assms(1) by simp
    show "transition_effect sample_action (sample_intent_row st) st' (sample_rung_db st evs) = (Inr (), sample_rung_db st evs)"
      using assms(2) by (auto simp: transition_effect_def Let_def RELEASING_STATES_def sret_def)
    show "(0::int) \<le> 1000" "(1000::int) \<le> INT64_MAX" by (simp_all add: INT64_MAX_def)
    have e: "event_of (sample_rung_db st' evs) INTENT_TRANSITION sample_digest (sample_digest @ '':0'') (Some sample_action)
        (Some (Intent st)) (Some (Intent st')) 1000 (JObj []) = sample_move seq st st'"
      using assms(3) by (simp add: event_of_def sample_move_def sample_event_def)
    show "insert_event (event_of (update_intent_state sample_action st' (sample_rung_db st evs)) INTENT_TRANSITION
          (nr_policy (sample_intent_row st)) (nr_cycle (sample_intent_row st)) (Some sample_action)
          (Some (Intent (nr_state (sample_intent_row st)))) (Some (Intent st')) 1000 (JObj []))
        (update_intent_state sample_action st' (sample_rung_db st evs)) =
        Inr (sample_rung_db st' (evs @ [sample_move seq st st']))"
      unfolding sample_rung_update
      using assms(4)
      by (simp add: e insert_event_Inr tbl_simps) (simp add: sample_move_def sample_event_def CYCLE_EVENT_TYPES_def tbl_simps sample_rung_db_def)
  qed
  then show ?thesis by simp
qed

text \<open>The rung armed, triggered, quoted and simulated, and then reserved.\<close>

definition sample_simulated_db :: db where
  "sample_simulated_db = sample_rung_db SIMULATED
     [sample_move 3 ARMED TRIGGERED, sample_move 4 TRIGGERED QUOTE_PINNED, sample_move 5 QUOTE_PINNED SIMULATED]"

definition sample_reservation :: reservation_row where
  "sample_reservation = \<lparr>br_id = sample_action, br_policy = sample_digest, br_instrument = sample_base_id, br_quote = sample_quote_id,
     br_network = ''evm:57073'', br_amount = 100000000, br_status = ACTIVE, br_reserved_seq = 6, br_settled_seq = None\<rparr>"

definition sample_reserved_db :: db where
  "sample_reserved_db = sample_rung_db RESERVED
     [sample_move 3 ARMED TRIGGERED, sample_move 4 TRIGGERED QUOTE_PINNED, sample_move 5 QUOTE_PINNED SIMULATED,
      sample_move 6 SIMULATED RESERVED]\<lparr>budget_reservations := [sample_reservation]\<rparr>"

lemma sample_caps: "caps_admit (sample_intent_row SIMULATED) 100000000 sample_simulated_db"
  by (simp add: caps_admit_def Let_def sample_simulated_db_def tbl_simps le_cap_def tightest_def held_where_def spendable_def)
    (simp add: sample_policy_row_def tightest_def)

lemma sample_reserves:
  "op_body sample_hash (Transition sample_action RESERVED 1000 []) sample_simulated_db = (Inr (), sample_reserved_db)"
proof -
  let ?evs = "[sample_move 3 ARMED TRIGGERED, sample_move 4 TRIGGERED QUOTE_PINNED, sample_move 5 QUOTE_PINNED SIMULATED]"
  let ?d = "sample_rung_db SIMULATED ?evs" and ?r = "sample_rung_db RESERVED ?evs"
  have seq: "next_seq ?d = 6" "next_seq (?r\<lparr>budget_reservations := rs\<rparr>) = 6" for rs by (simp_all add: next_seq_def)
  have "transition_body sample_action RESERVED 1000 [] ?d = (Inr (), sample_reserved_db)"
  proof (rule transition_body_run [where i = "sample_intent_row SIMULATED" and ?d1.0 = "?d\<lparr>budget_reservations := [sample_reservation]\<rparr>"])
    show "find_row nr_id sample_action (intents ?d) = Some (sample_intent_row SIMULATED)" by (simp add: tbl_simps)
    show "is_legal_transition (nr_state (sample_intent_row SIMULATED)) RESERVED" by (simp add: is_legal_transition_def)
    have "insert_reservation sample_reservation ?d = Inr (?d\<lparr>budget_reservations := [sample_reservation]\<rparr>)"
      by (simp add: insert_reservation_Inr tbl_simps sample_reservation_def)
    moreover have "\<lparr>br_id = sample_action, br_policy = sample_digest, br_instrument = sample_base_id, br_quote = sample_quote_id,
        br_network = ''evm:57073'', br_amount = 100000000, br_status = ACTIVE, br_reserved_seq = 6, br_settled_seq = None\<rparr> =
      sample_reservation" by (simp add: sample_reservation_def)
    ultimately have "reserve sample_action (sample_intent_row SIMULATED) ?d = (Inr (), ?d\<lparr>budget_reservations := [sample_reservation]\<rparr>)"
      using sample_caps [unfolded sample_simulated_db_def]
      by (simp add: reserve_def sbind_run body_defs tbl_simps seq)
    then show "transition_effect sample_action (sample_intent_row SIMULATED) RESERVED ?d =
        (Inr (), ?d\<lparr>budget_reservations := [sample_reservation]\<rparr>)"
      by (simp add: transition_effect_def)
    show "(0::int) \<le> 1000" "(1000::int) \<le> INT64_MAX" by (simp_all add: INT64_MAX_def)
    have up: "update_intent_state sample_action RESERVED (?d\<lparr>budget_reservations := [sample_reservation]\<rparr>) =
        ?r\<lparr>budget_reservations := [sample_reservation]\<rparr>"
      using sample_rung_update [of RESERVED SIMULATED ?evs]
      by (simp add: update_intent_state_def update_row_def set_state_def)
        (simp add: sample_rung_db_def sample_intent_row_def)
    have e: "event_of (?r\<lparr>budget_reservations := [sample_reservation]\<rparr>) INTENT_TRANSITION sample_digest (sample_digest @ '':0'') (Some sample_action)
        (Some (Intent SIMULATED)) (Some (Intent RESERVED)) 1000 (JObj []) = sample_move 6 SIMULATED RESERVED"
      by (simp add: event_of_def seq) (simp add: sample_move_def sample_event_def)
    show "insert_event (event_of (update_intent_state sample_action RESERVED (?d\<lparr>budget_reservations := [sample_reservation]\<rparr>))
          INTENT_TRANSITION (nr_policy (sample_intent_row SIMULATED)) (nr_cycle (sample_intent_row SIMULATED)) (Some sample_action)
          (Some (Intent (nr_state (sample_intent_row SIMULATED)))) (Some (Intent RESERVED)) 1000 (JObj []))
        (update_intent_state sample_action RESERVED (?d\<lparr>budget_reservations := [sample_reservation]\<rparr>)) =
        Inr sample_reserved_db"
      unfolding up
      by (simp add: e insert_event_Inr tbl_simps)
        (simp add: sample_move_def sample_event_def CYCLE_EVENT_TYPES_def tbl_simps sample_rung_db_def sample_reserved_db_def)
  qed
  then show ?thesis by (simp add: sample_simulated_db_def)
qed

end
