(* ===== verification/Reachable.thy ===== *)
theory Reachable
  imports SampleRun
begin

text \<open>
  The databases the ledger reaches and the guarantees over them: an operation that raises
  changes nothing, the log only grows, the integrity check never fails, no cap is exceeded
  when capital is reserved, and an economic action is created at most once.
\<close>

subsection \<open>Reachable databases\<close>

text \<open>
  From the empty ledger, by operations of the store, each in a transaction of its own,
  and by whatever the execution runtime does to its own tables.
\<close>

inductive reachable :: "digest_fn \<Rightarrow> db \<Rightarrow> bool" for H where
  empty: "reachable H empty_db"
| operation: "reachable H d \<Longrightarrow> op_args_ok op \<Longrightarrow> run H op (at_rest d) = (r, lg) \<Longrightarrow> reachable H (lg_db lg)"
| execution: "reachable H d \<Longrightarrow> reachable H (d\<lparr>exec_surface := e\<rparr>)"

definition db_after :: "digest_fn \<Rightarrow> operation \<Rightarrow> db \<Rightarrow> db" where
  "db_after H op d = lg_db (snd (run H op (at_rest d)))"

lemma run_cases:
  assumes "run H op (at_rest d) = (r, lg)"
  obtains (raised) e where "r = Some e" "lg = at_rest d" "\<And>u d'. op_body H op d \<noteq> (Inr u, d')"
  | (committed) d' where "r = None" "lg = at_rest d'" "op_body H op d = (Inr (), d')"
  using assms by (auto simp: run_top split: prod.splits sum.splits)

lemma inv_empty: "ledger_inv empty_db"
  by (simp add: ledger_inv_def empty_db_def keys_ok_def seqs_ok_def foreign_keys_ok_def coupled_def budget_ok_def)

lemma inv_exec: "ledger_inv (d\<lparr>exec_surface := e\<rparr>) = ledger_inv d"
  by (simp add: ledger_inv_def keys_ok_def seqs_ok_def foreign_keys_ok_def coupled_def budget_ok_def
      held_where_def cong: option.case_cong del: upt_Suc)

lemma inv_run: "run H op (at_rest d) = (r, lg) \<Longrightarrow> ledger_inv d \<Longrightarrow> ledger_inv (lg_db lg)"
  by (erule run_cases) (auto intro: op_body_inv)

lemma reachable_inv: "reachable H d \<Longrightarrow> ledger_inv d"
  by (induction rule: reachable.induct) (auto simp: inv_empty inv_exec intro: inv_run)

lemma reachable_body:
  assumes "reachable H d" "op_args_ok op" "op_body H op d = (Inr (), d')"
  shows "reachable H d'"
proof -
  have "run H op (at_rest d) = (None, at_rest d')"
    using assms(3) by (simp add: run_top del: run.simps op_body.simps)
  from reachable.operation [OF assms(1,2) this] show ?thesis by simp
qed

text \<open>The sample run up to the reservation.\<close>

lemma sample_bounds_made: "make_bounds (in_bounds sample_intent) = Inr (in_bounds sample_intent)"
  by (simp add: sample_intent_def make_bounds_def sample_bounds_of_def res_simps BPS_DENOMINATOR_def)

lemma sample_simulated_reachable: "reachable sample_hash sample_simulated_db"
proof -
  have args: "op_args_ok (AdmitPolicy sample_admitted_policy)" "op_args_ok (OpenCycle sample_admitted_policy 0 1000)"
    "op_args_ok (CreateIntent sample_intent 1000)"
    using sample_policy_parses sample_bounds_made by auto
  note steps = reachable_body [OF reachable_body [OF reachable_body [OF reachable.empty args(1) sample_admission]
    args(2) sample_opens] args(3) sample_creates]
  have mv: "reachable sample_hash (sample_rung_db st evs) \<Longrightarrow> is_legal_transition st st' \<Longrightarrow>
      st' \<in> {TRIGGERED, QUOTE_PINNED, SIMULATED} \<Longrightarrow> next_seq (sample_rung_db st' evs) = seq \<Longrightarrow>
      \<not> has_row ev_seq seq (state_events (sample_rung_db st' evs)) \<Longrightarrow>
      reachable sample_hash (sample_rung_db st' (evs @ [sample_move seq st st']))" for st st' evs seq
    by (rule reachable_body [OF _ _ sample_moves]) auto
  from mv [OF steps, of TRIGGERED 3] have "reachable sample_hash (sample_rung_db TRIGGERED [sample_move 3 ARMED TRIGGERED])"
    by (simp add: is_legal_transition_def next_seq_def tbl_simps)
  from mv [OF this, of QUOTE_PINNED 4] have "reachable sample_hash
      (sample_rung_db QUOTE_PINNED [sample_move 3 ARMED TRIGGERED, sample_move 4 TRIGGERED QUOTE_PINNED])"
    by (simp add: is_legal_transition_def next_seq_def tbl_simps)
  from mv [OF this, of SIMULATED 5] show ?thesis
    by (simp add: is_legal_transition_def next_seq_def tbl_simps sample_simulated_db_def)
qed

lemma sample_reserved_reachable: "reachable sample_hash sample_reserved_db"
  by (rule reachable_body [OF sample_simulated_reachable _ sample_reserves]) simp

lemma sample_reserved_simps [simp]:
  "policies sample_reserved_db = [sample_policy_row]" "budget_reservations sample_reserved_db = [sample_reservation]"
  "intents sample_reserved_db = [sample_intent_row RESERVED]" "intents sample_simulated_db = [sample_intent_row SIMULATED]"
  by (simp_all add: sample_reserved_db_def sample_simulated_db_def)

subsection \<open>Rollback and the append-only log\<close>

text \<open>
  \<^bold>\<open>C18.\<close> An operation that raises leaves the database exactly as it found it, whatever its
  statements had written before the exception.
\<close>

theorem failed_operation_rolls_back:
  assumes "run H op (at_rest d) = (Some e, lg)"
  shows "lg = at_rest d"
  using assms by (auto elim: run_cases)

text \<open>Opening a cycle at a negative time: the row is written, then the event is refused.\<close>

lemma sample_open_fails:
  "op_body sample_hash (OpenCycle sample_admitted_policy 0 (-1)) sample_admitted_db =
     (Inl LedgerError, sample_admitted_db\<lparr>cycles := [sample_cycle]\<rparr>)"
proof -
  have cid: "cycle_id_for sample_digest 0 = Inr (sample_digest @ '':0'')" by (simp add: cycle_id_for_def str_int_def)
  show ?thesis
    by (simp add: body_unit_def open_cycle_body_def sbind_run body_defs cid tbl_simps insert_cycle_def cycle_slot_def
        append_event_def sample_row_defs)
qed

lemma failed_operation_rolls_back_witness:
  "snd (run sample_hash (OpenCycle sample_admitted_policy 0 (-1)) (at_rest sample_admitted_db)) =
     at_rest sample_admitted_db \<and>
   snd (op_body sample_hash (OpenCycle sample_admitted_policy 0 (-1)) sample_admitted_db) \<noteq> sample_admitted_db"
proof -
  have run: "run sample_hash (OpenCycle sample_admitted_policy 0 (-1)) (at_rest sample_admitted_db) =
      (Some LedgerError, snd (run sample_hash (OpenCycle sample_admitted_policy 0 (-1)) (at_rest sample_admitted_db)))"
    by (simp add: run_top sample_open_fails del: run.simps op_body.simps)
  have "cycles (sample_admitted_db\<lparr>cycles := [sample_cycle]\<rparr>) \<noteq> cycles sample_admitted_db" by simp
  then show ?thesis
    using failed_operation_rolls_back [OF run] unfolding sample_open_fails by (metis snd_conv)
qed

text \<open>A log that every step extends: recorded entries stay where they are.\<close>

locale recorded_log =
  fixes step :: "'op \<Rightarrow> 'st \<Rightarrow> 'st" and log :: "'st \<Rightarrow> 'e list"
  assumes step_extends: "prefix (log s) (log (step op s))"
begin

lemma fold_extends: "prefix (log s) (log (fold step ops s))"
proof (induction ops arbitrary: s)
  case (Cons op ops)
  then show ?case using step_extends [of s op] by (auto intro: prefix_order.trans)
qed simp

lemma entry_stays: "n < length (log s) \<Longrightarrow> log (fold step ops s) ! n = log s ! n"
  using fold_extends [of s ops] by (auto simp: prefix_def nth_append)

lemma entries_stay: "set (log s) \<subseteq> set (log (fold step ops s))"
  using fold_extends [of s ops] by (auto simp: prefix_def)

end

lemma db_after_extends: "extends d (db_after H op d)"
proof -
  obtain r lg where run: "run H op (at_rest d) = (r, lg)" by fastforce
  have "extends d (lg_db lg)"
    using run by (rule run_cases) (auto dest: extended.op_invariant [where ?d0.0 = d])
  then show ?thesis by (simp add: db_after_def run)
qed

interpretation event_log: recorded_log "db_after H" state_events for H
  by unfold_locales (use db_after_extends in \<open>auto simp: extends_def\<close>)

interpretation receipt_log: recorded_log "db_after H" fill_receipts for H
  by unfold_locales (use db_after_extends in \<open>auto simp: extends_def\<close>)

interpretation policy_log: recorded_log "db_after H" policies for H
  by unfold_locales (use db_after_extends in \<open>auto simp: extends_def\<close>)

interpretation intent_ids: recorded_log "db_after H" "\<lambda>d. map nr_id (intents d)" for H
  by unfold_locales (use db_after_extends in \<open>auto simp: extends_def\<close>)

interpretation intent_slots: recorded_log "db_after H" "\<lambda>d. map intent_slot (intents d)" for H
  by unfold_locales (use db_after_extends in \<open>auto simp: extends_def\<close>)

text \<open>
  \<^bold>\<open>C19.\<close> The event log and the receipts are append-only: whatever operations run, whether
  they succeed or raise, the events and receipts recorded before are still there, in the
  same places, followed by what the operations added.
\<close>

theorem log_append_only:
  "prefix (state_events d) (state_events (fold (db_after H) ops d)) \<and>
   prefix (fill_receipts d) (fill_receipts (fold (db_after H) ops d))"
  by (intro conjI event_log.fold_extends receipt_log.fold_extends)

subsection \<open>Integrity and capital\<close>

lemma inv_integrity:
  assumes "ledger_inv d"
  shows "integrity_check d = Inr ()"
proof -
  note inv = inv_parts [OF assms]
  have fits: "reservation_fits (intents d) r" if "r \<in> set (budget_reservations d)" for r
    using inv(4) that by (auto simp: coupled_def list_all_iff)
  have hold: "s \<in> BUDGET_HOLDING_STATES" if "status_of s = Some ACTIVE" for s
    using that by (cases s) (auto split: if_splits)
  have quar: "(v = QUARANTINED) = (s = SAFE_HALT)" if "status_of s = Some v" for s v
    using that by (cases s) (auto split: if_splits)
  have "\<not> stale_active d r \<and> \<not> quarantine_mismatch d r \<and> has_row nr_id (br_id r) (intents d)"
    if "r \<in> set (budget_reservations d)" for r
    using fits [OF that] hold quar
    by (auto simp: reservation_fits_def stale_active_def quarantine_mismatch_def find_row_Some_has)
  moreover have "distinct (map ev_seq (state_events d))"
    using inv(2) by (simp add: seqs_ok_def distinct_map del: upt_Suc)
  ultimately show ?thesis
    using inv(3) by (auto simp: integrity_check_def list_ex_iff)
qed

text \<open>
  \<^bold>\<open>C1.\<close> The integrity check never fails on a ledger that was only ever written through its
  operations: foreign keys hold, sequence numbers are distinct, every reservation has its
  intent, an active one is held by an intent in a budget-holding state, and capital is
  quarantined exactly while its action is in SAFE_HALT.
\<close>

theorem reachable_integrity:
  assumes "reachable H d"
  shows "integrity_check d = Inr ()"
  by (rule inv_integrity [OF reachable_inv [OF assms]])

lemma reachable_integrity_witness:
  "integrity_check sample_reserved_db = Inr () \<and> budget_reservations sample_reserved_db \<noteq> []"
  using reachable_integrity [OF sample_reserved_reachable] by simp

lemma held_atomic_policy: "held_atomic (Some x) None None d = held_where (\<lambda>r. br_policy r = x) d"
  by (simp add: held_atomic_def)

text \<open>
  \<^bold>\<open>C2.\<close> A policy never holds more than its allocation, counting active, spent and
  quarantined capital, and no single reservation exceeds the policy's order cap: after any
  sequence of operations, failures and halts included.
\<close>

theorem allocation_never_exceeded:
  assumes "reachable H d" "p \<in> set (policies d)"
  shows "held_atomic (Some (pr_id p)) None None d \<le> pr_allocation p \<and>
    (\<forall>r \<in> set (budget_reservations d). br_policy r = pr_id p \<longrightarrow> br_amount r \<le> pr_per_order_cap p)"
  using inv_parts(5) [OF reachable_inv [OF assms(1)]] assms(2)
  by (auto simp: held_atomic_policy budget_ok_def list_all_iff)

lemma allocation_never_exceeded_witness:
  "held_atomic (Some sample_digest) None None sample_reserved_db \<le> 150000000 \<and>
   held_atomic (Some sample_digest) None None sample_reserved_db = 100000000"
  using allocation_never_exceeded [OF sample_reserved_reachable, of sample_policy_row]
  by (simp add: held_atomic_policy held_where_def sample_reservation_def sample_policy_row_def)

text \<open>
  \<^bold>\<open>C3.\<close> When an action that consumes capital enters RESERVED, then at that moment every cap
  of every admitted policy it falls under holds with the reservation counted: its
  policy's order cap and allocation, the tightest instrument and network cap, and the
  tightest portfolio cap net of reserved cash.
\<close>

theorem reservation_within_every_cap:
  assumes "reachable H d" "run H (Transition a RESERVED now payload) (at_rest d) = (None, lg)"
    and "find_row nr_id a (intents d) = Some i" "nr_exposure i \<noteq> 0" "p \<in> set (policies (lg_db lg))"
  shows "(pr_id p = nr_policy i \<longrightarrow> nr_exposure i \<le> pr_per_order_cap p \<and>
      held_atomic (Some (nr_policy i)) None None (lg_db lg) \<le> pr_allocation p) \<and>
    (pr_instrument p = nr_instrument i \<longrightarrow>
      held_atomic None (Some (nr_instrument i)) None (lg_db lg) \<le> pr_per_instrument_cap p) \<and>
    (pr_network p = nr_network i \<longrightarrow>
      held_atomic None None (Some (nr_network i)) (lg_db lg) \<le> pr_per_network_cap p) \<and>
    held_atomic None None None (lg_db lg) \<le> max (pr_global_cap p - pr_reserved_cash p) 0"
proof -
  note inv = inv_parts [OF reachable_inv [OF assms(1)]]
  obtain d' where d': "lg = at_rest d'" "transition_body a RESERVED now payload d = (Inr (), d')"
    by (rule run_cases [OF assms(2)]) auto
  from transition_body_Inr [OF d'(2)] obtain e where
    chk: "transition_checked i RESERVED d"
    and db: "d' = push_event e (update_intent_state a RESERVED (effect_db i RESERVED d))"
    using assms(3) by (metis option.inject)
  have pol: "policies d' = policies d" by (simp add: db push_event_def table_updates)
  have adm: "caps_admit i (nr_exposure i) d" using chk assms(4) by (simp add: transition_checked_def)
  have held: "held_where scope d' = nr_exposure i + held_where scope d"
    if "scope (reservation_of d i)" for scope
    using that assms(4) by (simp add: db effect_db_def held_reserved)
  have p: "p \<in> set (policies d)" using assms(5) d'(1) pol by simp
  note caps = caps_admit_bounds [OF adm inv(1) p]
  show ?thesis
    using caps held [of "\<lambda>r. br_policy r = nr_policy i"] held [of "\<lambda>r. br_instrument r = nr_instrument i"]
      held [of "\<lambda>r. br_network r = nr_network i"] held [of "\<lambda>r. True"]
    by (auto simp: d'(1) held_atomic_def reservation_of_def spendable_def)
qed

lemma reservation_within_every_cap_witness:
  "held_atomic None None None sample_reserved_db \<le> 350000000 \<and>
   run sample_hash (Transition sample_action RESERVED 1000 []) (at_rest sample_simulated_db) = (None, at_rest sample_reserved_db)"
proof -
  have run: "run sample_hash (Transition sample_action RESERVED 1000 []) (at_rest sample_simulated_db) =
      (None, at_rest sample_reserved_db)"
    using sample_reserves by (simp add: run_top del: run.simps op_body.simps)
  have "held_atomic None None None sample_reserved_db \<le> max (pr_global_cap sample_policy_row - pr_reserved_cash sample_policy_row) 0"
    using reservation_within_every_cap [OF sample_simulated_reachable run, of "sample_intent_row SIMULATED" sample_policy_row]
    by (simp add: tbl_simps)
  then show ?thesis using run by (simp add: sample_policy_row_def)
qed

subsection \<open>Exactly once\<close>

text \<open>
  \<^bold>\<open>C17.\<close> An economic action is created at most once, forever: once an intent exists, then
  after any operations whatsoever, its cancellation or failure included, creating an
  intent with the same economic action id, or for the same rung of the same cycle
  (policy, instrument, cycle, level, side), raises and writes nothing.
\<close>

theorem exactly_once:
  assumes "i \<in> set (intents d)"
    and "in_economic_action_id j = nr_id i \<or>
      (in_policy_id j, in_instrument_id j, in_cycle_id j, in_level_id j, in_side j) = intent_slot i"
    and "in_state j = ARMED" "intent_row_of j = Inr row"
  shows "run H (CreateIntent j now) (at_rest (fold (db_after H) ops d)) =
    (Some DuplicateEconomicActionError, at_rest (fold (db_after H) ops d))"
proof -
  let ?d = "fold (db_after H) ops d"
  have row: "nr_id row = in_economic_action_id j" "0 \<le> nr_exposure row"
    "intent_slot row = (in_policy_id j, in_instrument_id j, in_cycle_id j, in_level_id j, in_side j)"
    using assms(4) by (auto simp: intent_row_of_def rbind_eq_Inr store_atomic_eq intent_slot_def split: if_splits)
  have "has_row nr_id (nr_id i) (intents ?d)" "has_row intent_slot (intent_slot i) (intents ?d)"
    using assms(1) intent_ids.entries_stay [of d H ops] intent_slots.entries_stay [of d H ops]
    by (auto simp: has_row_def)
  then have "insert_intent_once row ?d = Inl DuplicateEconomicActionError"
    using row assms(2) by (auto simp: insert_intent_once_def insert_intent_def)
  then have "op_body H (CreateIntent j now) ?d = (Inl DuplicateEconomicActionError, ?d)"
    using assms(3,4) by (simp add: create_intent_body_def sbind_run body_defs)
  then show ?thesis by (simp add: run_top del: run.simps op_body.simps)
qed

lemma exactly_once_witness:
  "run sample_hash (CreateIntent sample_intent 1000)
     (at_rest (fold (db_after sample_hash) [Transition sample_action CANCELLED 1000 []] sample_reserved_db)) =
   (Some DuplicateEconomicActionError,
    at_rest (fold (db_after sample_hash) [Transition sample_action CANCELLED 1000 []] sample_reserved_db))"
proof -
  have "intent_row_of sample_intent = Inr (sample_intent_row ARMED)"
    by (simp add: intent_row_of_def sample_intent_def store_atomic_eq sample_bounds_print sample_intent_row_def)
  then show ?thesis
    by (intro exactly_once [where i = "sample_intent_row RESERVED"]) (simp_all add: sample_intent_def)
qed

end
