(* ===== verification/Operations.thy ===== *)
theory Operations
  imports Reachable
begin

text \<open>
  What the successful operations on cycles and intents do to the database, in closed form,
  and the invariant of the opening events: every cycle has one, and the inventory carries
  they record name an existing source and a positive amount.
\<close>

subsection \<open>Opening, closing, continuing, creating\<close>

definition open_event :: "string \<Rightarrow> string \<Rightarrow> json \<Rightarrow> int \<Rightarrow> db \<Rightarrow> event_row" where
  "open_event pid cid payload now d =
     event_of d CYCLE_OPENED pid cid None None (Some (Cycle OPEN)) now payload"

definition close_event :: "cycle_row \<Rightarrow> CycleStatus \<Rightarrow> int \<Rightarrow> db \<Rightarrow> event_row" where
  "close_event c status now d =
     event_of d (if status = COMPLETED then CYCLE_COMPLETED else CYCLE_HALTED) (cr_policy c) (cr_id c)
       None (Some (Cycle OPEN)) (Some (Cycle status)) now (JObj [])"

definition new_cycle :: "string \<Rightarrow> string \<Rightarrow> int \<Rightarrow> cycle_row" where
  "new_cycle pid cid index = \<lparr>cr_id = cid, cr_policy = pid, cr_index = index, cr_status = OPEN\<rparr>"

definition with_cycle :: "cycle_row \<Rightarrow> db \<Rightarrow> db" where
  "with_cycle c d = d\<lparr>cycles := cycles d @ [c]\<rparr>"

definition with_intent :: "intent_row \<Rightarrow> db \<Rightarrow> db" where
  "with_intent i d = d\<lparr>intents := intents d @ [i]\<rparr>"

definition plain_payload :: "int \<Rightarrow> json" where
  "plain_payload index = JObj [(''cycle_index'', JInt index)]"

definition carry_payload :: "int \<Rightarrow> int \<Rightarrow> string \<Rightarrow> json" where
  "carry_payload index n src = JObj [(''cycle_index'', JInt index),
     (''inventory_carry'', JObj [(''amount_atomic'', JStr (str_int n)), (''source_cycle_id'', JStr src)])]"

lemmas added_defs = push_event_def with_cycle_def with_intent_def with_receipt_def

lemma event_of_same:
  "event_of (with_cycle c d) = event_of d" "event_of (with_intent i d) = event_of d"
  "event_of (update_cycle_status cid st d) = event_of d"
  by (intro event_of_cong; simp add: added_defs table_updates)+

lemma open_cycle_Inr:
  assumes "open_cycle_body pid cid index now d = (Inr x, d')"
  shows "insert_cycle (new_cycle pid cid index) d = Inr (with_cycle (new_cycle pid cid index) d) \<and>
    0 \<le> now \<and> now \<le> INT64_MAX \<and>
    insert_event (open_event pid cid (plain_payload index) now d) (with_cycle (new_cycle pid cid index) d) = Inr d' \<and>
    d' = push_event (open_event pid cid (plain_payload index) now d) (with_cycle (new_cycle pid cid index) d)"
proof -
  obtain d1 where ins: "insert_cycle (new_cycle pid cid index) d = Inr d1"
    and ev: "0 \<le> now" "now \<le> INT64_MAX" "insert_event (open_event pid cid (plain_payload index) now d1) d1 = Inr d'"
    using assms unfolding open_cycle_body_def new_cycle_def
    by (auto simp: sbind_eq_Inr sget_eq sguard_eq_Inr swrite_eq_Inr sret_eq append_event_Inr open_event_def plain_payload_def)
  have d1: "d1 = with_cycle (new_cycle pid cid index) d" using ins by (simp add: insert_cycle_Inr with_cycle_def)
  have "open_event pid cid (plain_payload index) now d1 = open_event pid cid (plain_payload index) now d"
    by (simp add: d1 open_event_def event_of_same)
  then have ev': "insert_event (open_event pid cid (plain_payload index) now d) d1 = Inr d'" using ev(3) by simp
  show ?thesis using ins ev ev' insert_event_push [OF ev'] unfolding d1 by simp
qed

lemma close_cycle_Inr:
  assumes "close_cycle_body cid status now d = (Inr x, d')"
  obtains c where "find_row cr_id cid (cycles d) = Some c" "cr_id c = cid" "cr_status c = OPEN"
    "0 \<le> now" "now \<le> INT64_MAX"
    "insert_event (close_event c status now d) (update_cycle_status cid status d) = Inr d'"
    "d' = push_event (close_event c status now d) (update_cycle_status cid status d)"
proof -
  obtain c where c: "find_row cr_id cid (cycles d) = Some c" "cr_status c = OPEN"
    and ev: "0 \<le> now" "now \<le> INT64_MAX"
      "insert_event (event_of (update_cycle_status cid status d) (if status = COMPLETED then CYCLE_COMPLETED else CYCLE_HALTED)
         (cr_policy c) cid None (Some (Cycle OPEN)) (Some (Cycle status)) now (JObj [])) (update_cycle_status cid status d) = Inr d'"
    using assms unfolding close_cycle_body_def
    by (auto simp: sbind_eq_Inr sget_eq sguard_eq_Inr sput_eq sret_eq append_event_Inr case_option_run sraise_eq)
  have id: "cr_id c = cid" using find_row_SomeD [OF c(1)] by simp
  have ins: "insert_event (close_event c status now d) (update_cycle_status cid status d) = Inr d'"
    using ev(3) by (simp add: close_event_def event_of_same id)
  show thesis by (rule that [OF c(1) id c(2) ev(1,2) ins insert_event_push [OF ins]])
qed

lemma create_intent_Inr:
  assumes "create_intent_body i now d = (Inr u, d')"
  obtains row payload where "intent_row_of i = Inr row" "intent_canonical_object i = Inr payload"
    "insert_intent row d = Inr (with_intent row d)" "0 \<le> now" "now \<le> INT64_MAX"
    "insert_event (event_of d INTENT_CREATED (nr_policy row) (nr_cycle row) (Some (nr_id row)) None
       (Some (Intent ARMED)) now (JObj payload)) (with_intent row d) = Inr d'"
    "d' = push_event (event_of d INTENT_CREATED (nr_policy row) (nr_cycle row) (Some (nr_id row)) None
       (Some (Intent ARMED)) now (JObj payload)) (with_intent row d)"
proof -
  obtain row payload d1 where row: "intent_row_of i = Inr row" and pay: "intent_canonical_object i = Inr payload"
    and ins: "insert_intent_once row d = Inr d1"
    and ev: "0 \<le> now" "now \<le> INT64_MAX" "insert_event (event_of d1 INTENT_CREATED (in_policy_id i) (in_cycle_id i)
      (Some (in_economic_action_id i)) None (Some (Intent ARMED)) now (JObj payload)) d1 = Inr d'"
    using assms unfolding create_intent_body_def
    by (auto simp: sbind_eq_Inr slift_eq swrite_eq_Inr sret_eq append_event_Inr)
  have ins': "insert_intent row d = Inr d1"
    using ins by (auto simp: insert_intent_once_def split: sum.splits)
  then have d1: "d1 = with_intent row d" by (simp add: insert_intent_Inr with_intent_def)
  have ids: "nr_policy row = in_policy_id i" "nr_cycle row = in_cycle_id i" "nr_id row = in_economic_action_id i"
    using row by (auto simp: intent_row_of_def rbind_eq_Inr)
  have ev': "insert_event (event_of d INTENT_CREATED (nr_policy row) (nr_cycle row) (Some (nr_id row)) None
       (Some (Intent ARMED)) now (JObj payload)) (with_intent row d) = Inr d'"
    using ev(3) by (simp add: d1 ids event_of_same)
  show thesis
    by (rule that [OF row pay _ ev(1,2) ev' insert_event_push [OF ev']]) (use ins' d1 in simp)
qed

text \<open>What the continuation of an inventory has checked once it returns.\<close>

definition continue_checked ::
  "digest_fn \<Rightarrow> string \<Rightarrow> PolicyV0 \<Rightarrow> string \<Rightarrow> int \<Rightarrow> cycle_row \<Rightarrow> db \<Rightarrow> bool" where
  "continue_checked H src p cid n c d \<longleftrightarrow>
     find_row cr_id src (cycles d) = Some c \<and> cr_status c = OPEN \<and> cid \<noteq> src \<and> 0 < n \<and>
     inventory_atomic src d = Inr n \<and>
     (\<exists>sr tr. find_row pr_id (cr_policy c) (policies d) = Some sr \<and>
        find_row pr_id (policy_id H p) (policies d) = Some tr \<and> asset_of sr = asset_of tr) \<and>
     (\<forall>i \<in> set (intents d). nr_cycle i = src \<longrightarrow> nr_state i \<in> TERMINAL_STATES \<and> nr_state i \<noteq> SAFE_HALT) \<and>
     (\<forall>e \<in> set (opening_events d). \<exists>s. carry_source (ev_payload e) = Inr s \<and> s \<noteq> Some (JStr src))"

definition source_closed :: "string \<Rightarrow> cycle_row \<Rightarrow> int \<Rightarrow> db \<Rightarrow> db" where
  "source_closed src c now d = push_event (close_event c COMPLETED now d) (update_cycle_status src COMPLETED d)"

lemma continue_Inr:
  assumes "continue_inventory_body H src p index cid now d = (Inr x, d')"
  obtains n c where "continue_checked H src p cid n c d" "0 \<le> now" "now \<le> INT64_MAX"
    "insert_event (close_event c COMPLETED now d) (update_cycle_status src COMPLETED d) = Inr (source_closed src c now d)"
    "insert_cycle (new_cycle (policy_id H p) cid index) (source_closed src c now d) =
       Inr (with_cycle (new_cycle (policy_id H p) cid index) (source_closed src c now d))"
    "insert_event (open_event (policy_id H p) cid (carry_payload index n src) now (source_closed src c now d))
       (with_cycle (new_cycle (policy_id H p) cid index) (source_closed src c now d)) = Inr d'"
    "d' = push_event (open_event (policy_id H p) cid (carry_payload index n src) now (source_closed src c now d))
       (with_cycle (new_cycle (policy_id H p) cid index) (source_closed src c now d))"
proof -
  obtain tr c sr n d1 d2 where tr: "find_row pr_id (policy_id H p) (policies d) = Some tr"
    and c: "find_row cr_id src (cycles d) = Some c" "find_row pr_id (cr_policy c) (policies d) = Some sr"
    and guards: "cr_status c = OPEN" "cid \<noteq> src" "asset_of sr = asset_of tr"
      "list_all (\<lambda>i. nr_cycle i = src \<longrightarrow> nr_state i \<in> TERMINAL_STATES \<and> nr_state i \<noteq> SAFE_HALT) (intents d)"
      "check_all (\<lambda>e. rbind (carry_source (ev_payload e)) (\<lambda>s. require (s \<noteq> Some (JStr src)) LedgerError))
         (opening_events d) = Inr ()"
      "inventory_atomic src d = Inr n" "0 < n"
    and ev1: "0 \<le> now" "now \<le> INT64_MAX"
      "insert_event (event_of (update_cycle_status src COMPLETED d) CYCLE_COMPLETED (cr_policy c) src None
         (Some (Cycle OPEN)) (Some (Cycle COMPLETED)) now (JObj [])) (update_cycle_status src COMPLETED d) = Inr d1"
    and ins: "insert_cycle (new_cycle (policy_id H p) cid index) d1 = Inr d2"
    and ev2: "insert_event (event_of d2 CYCLE_OPENED (policy_id H p) cid None None (Some (Cycle OPEN)) now
         (carry_payload index n src)) d2 = Inr d'"
    using assms unfolding continue_inventory_body_def new_cycle_def carry_payload_def
    by (auto simp: sbind_eq_Inr sget_eq sguard_eq_Inr swrite_eq_Inr sput_eq sret_eq slift_eq append_event_Inr
        case_option_run sraise_eq split: option.splits prod.splits)
  have id: "cr_id c = src" using find_row_SomeD [OF c(1)] by simp
  have chk: "continue_checked H src p cid n c d"
    using c tr guards by (auto simp: continue_checked_def list_all_iff check_all_eq_Inr rbind_eq_Inr require_eq_Inr)
  have ev1': "insert_event (close_event c COMPLETED now d) (update_cycle_status src COMPLETED d) = Inr d1"
    using ev1(3) by (simp add: close_event_def event_of_same id)
  have d1: "d1 = source_closed src c now d" using insert_event_push [OF ev1'] by (simp add: source_closed_def)
  have d2: "d2 = with_cycle (new_cycle (policy_id H p) cid index) d1" using ins by (simp add: insert_cycle_Inr with_cycle_def)
  have ev2': "insert_event (open_event (policy_id H p) cid (carry_payload index n src) now d1) d2 = Inr d'"
    using ev2 by (simp add: open_event_def d2 event_of_same)
  show thesis
    using that [OF chk ev1(1,2)] ev1' ins ev2' insert_event_push [OF ev2'] unfolding d1 d2 by blast
qed

subsection \<open>Steps that cannot fail\<close>

text \<open>The next sequence number is free, so an event of known rows is always appended.\<close>

lemma next_seq_free: "seqs_ok d \<Longrightarrow> \<not> has_row ev_seq (next_seq d) (state_events d)"
  by (auto simp: has_row_def next_seq_length seqs_ok_def simp del: upt_Suc)

lemma append_cycle_event_run:
  assumes "seqs_ok d" "has_row cr_id cid (cycles d)" "has_row pr_id pid (policies d)"
    and "et \<in> CYCLE_EVENT_TYPES" "dst \<noteq> None" "0 \<le> now" "now \<le> INT64_MAX"
  shows "append_event et pid cid None src dst now pl d =
    (Inr (next_seq d), push_event (event_of d et pid cid None src dst now pl) d)"
proof -
  have "\<not> has_row ev_seq (next_seq d) (state_events d)" by (rule next_seq_free [OF assms(1)])
  then have "insert_event (event_of d et pid cid None src dst now pl) d = Inr (push_event (event_of d et pid cid None src dst now pl) d)"
    using assms by (auto simp: insert_event_Inr push_event_def event_of_def CYCLE_EVENT_TYPES_def)
  then show ?thesis using assms(6,7) by (simp add: append_event_Inr)
qed

lemma seqs_push: "seqs_ok d \<Longrightarrow> seqs_ok (push_event (event_of d et pid cid aid src dst now pl) d)"
  by (simp add: seqs_ok_def next_seq_length push_event_def event_of_def)

lemma append_intent_event_run:
  assumes "seqs_ok d" "foreign_keys_ok d" "find_row nr_id a (intents d) = Some i"
    and "et \<notin> CYCLE_EVENT_TYPES" "(dst = None) = (et = FILL_RECEIPT_APPENDED)" "0 \<le> now"
    and "state_events d2 = state_events d" "policies d2 = policies d" "cycles d2 = cycles d"
    and "map nr_id (intents d2) = map nr_id (intents d)"
  shows "insert_event (event_of d et (nr_policy i) (nr_cycle i) (Some a) src dst now pl) d2 =
    Inr (push_event (event_of d et (nr_policy i) (nr_cycle i) (Some a) src dst now pl) d2)"
proof -
  have i: "i \<in> set (intents d)" "nr_id i = a" using find_row_SomeD [OF assms(3)] by auto
  have "has_row nr_id a (intents d2)" using i assms(10) by (metis has_row_def in_set_conv_nth list.set_map image_eqI)
  moreover have "has_row pr_id (nr_policy i) (policies d)" "has_row cr_id (nr_cycle i) (cycles d)"
    using assms(2) i(1) by (auto simp: foreign_keys_ok_def list_all_iff)
  ultimately show ?thesis
    using assms(4-9) next_seq_free [OF assms(1)] by (simp add: insert_event_Inr event_of_def push_event_def)
qed

text \<open>A legal transition whose effect succeeds.\<close>

lemma transition_runs:
  assumes "seqs_ok d" "foreign_keys_ok d" "find_row nr_id a (intents d) = Some i" "is_legal_transition (nr_state i) st"
    and "transition_effect a i st d = (Inr (), effect_db i st d)" "0 \<le> now" "now \<le> INT64_MAX"
  shows "transition_body a st now pl d =
    (Inr (), push_event (transition_event i st now (JObj pl) d) (update_intent_state a st (effect_db i st d)))"
proof (rule transition_body_run [OF assms(3-7)])
  have a: "nr_id i = a" using find_row_SomeD [OF assms(3)] by simp
  have e: "event_of (update_intent_state a st (effect_db i st d)) = event_of d"
    by (rule event_of_cong) (simp add: table_updates)
  show "insert_event (event_of (update_intent_state a st (effect_db i st d)) INTENT_TRANSITION (nr_policy i) (nr_cycle i)
      (Some a) (Some (Intent (nr_state i))) (Some (Intent st)) now (JObj pl)) (update_intent_state a st (effect_db i st d)) =
    Inr (push_event (transition_event i st now (JObj pl) d) (update_intent_state a st (effect_db i st d)))"
    unfolding e transition_event_def a
    by (rule append_intent_event_run [OF assms(1-3)])
      (simp_all add: CYCLE_EVENT_TYPES_def assms(6) table_updates tbl_simps)
qed

text \<open>Admission touches the tables of identities only.\<close>

definition runtime :: "db \<Rightarrow> cycle_row list \<times> intent_row list \<times> event_row list \<times>
    reservation_row list \<times> receipt_row list \<times> exec_tables option" where
  "runtime d = (cycles d, intents d, state_events d, budget_reservations d, fill_receipts d, exec_surface d)"

lemma admit_keeps_runtime: "keeps (\<lambda>d. runtime d = x) (admit_policy_body H p)"
proof -
  have "keeps (\<lambda>d. runtime d = x) (swrite (insert_instrument ir))"
    "keeps (\<lambda>d. runtime d = x) (swrite (insert_policy pr))"
    "keeps (\<lambda>d. runtime d = x) (swrite (insert_level lr))" for ir pr lr
    by (rule keeps_swrite; simp add: runtime_def insert_instrument_Inr insert_policy_Inr insert_level_Inr)+
  then show ?thesis
    unfolding admit_policy_body_def upsert_instrument_def insert_level_of_def by (intro keeps_intros)
qed

lemma admit_Inr: "admit_policy_body H p d = (Inr x, d') \<Longrightarrow> runtime d' = runtime d"
  using admit_keeps_runtime unfolding keeps_def by blast

lemma runtime_eq:
  "runtime d' = runtime d \<longleftrightarrow> cycles d' = cycles d \<and> intents d' = intents d \<and> state_events d' = state_events d \<and>
     budget_reservations d' = budget_reservations d \<and> fill_receipts d' = fill_receipts d \<and> exec_surface d' = exec_surface d"
  by (simp add: runtime_def)

subsection \<open>Opening events\<close>

definition carry_ok :: "cycle_row list \<Rightarrow> event_row \<Rightarrow> bool" where
  "carry_ok cs e \<longleftrightarrow> (ev_type e = CYCLE_OPENED \<longrightarrow>
     (\<exists>index. ev_payload e = plain_payload index) \<or>
     (\<exists>index n src. ev_payload e = carry_payload index n src \<and> 0 < n \<and> has_row cr_id src cs))"

definition openings_ok :: "db \<Rightarrow> bool" where
  "openings_ok d \<longleftrightarrow> list_all (carry_ok (cycles d)) (state_events d) \<and>
     list_all (\<lambda>c. cr_id c \<noteq> [] \<and> list_ex (\<lambda>e. ev_type e = CYCLE_OPENED \<and> ev_cycle e = cr_id c) (state_events d)) (cycles d)"

lemma cycle_id_nonempty: "cycle_id_for pid index = Inr cid \<Longrightarrow> cid \<noteq> []"
  by (auto simp: cycle_id_for_def split: if_splits)

lemma openings_frame:
  assumes "openings_ok d" "map cr_id (cycles d') = map cr_id (cycles d)"
    and "state_events d' = state_events d @ evs" "list_all (\<lambda>e. ev_type e \<noteq> CYCLE_OPENED) evs"
  shows "openings_ok d'"
proof -
  have has: "has_row cr_id k (cycles d') = has_row cr_id k (cycles d)" for k using assms(2) by (simp add: has_row_def)
  have "\<exists>c \<in> set (cycles d). cr_id c = cr_id c'" if "c' \<in> set (cycles d')" for c'
  proof -
    have "cr_id c' \<in> set (map cr_id (cycles d))" using that assms(2) [symmetric] by simp
    then show ?thesis by auto
  qed
  then show ?thesis
    using assms(1,3,4) by (force simp: openings_ok_def carry_ok_def list_all_iff list_ex_iff has)
qed

lemma openings_add:
  assumes "openings_ok d" "cycles d' = cycles d @ [c]" "state_events d' = state_events d @ [e]"
    and "ev_cycle e = cr_id c" "cr_id c \<noteq> []" "ev_type e = CYCLE_OPENED" "carry_ok (cycles d) e"
  shows "openings_ok d'"
  using assms by (auto simp: openings_ok_def carry_ok_def list_all_iff list_ex_iff tbl_simps)

lemma events_pushed [simp]:
  "state_events (push_event e d) = state_events d @ [e]" "cycles (push_event e d) = cycles d"
  "intents (push_event e d) = intents d" "policies (push_event e d) = policies d"
  "budget_reservations (push_event e d) = budget_reservations d" "fill_receipts (push_event e d) = fill_receipts d"
  "instruments (push_event e d) = instruments d" "ladder_levels (push_event e d) = ladder_levels d"
  "exec_surface (push_event e d) = exec_surface d"
  by (simp_all add: push_event_def)

lemma added_rows [simp]:
  "state_events (with_cycle c d) = state_events d" "cycles (with_cycle c d) = cycles d @ [c]"
  "intents (with_cycle c d) = intents d" "policies (with_cycle c d) = policies d"
  "fill_receipts (with_cycle c d) = fill_receipts d" "budget_reservations (with_cycle c d) = budget_reservations d"
  "ladder_levels (with_cycle c d) = ladder_levels d"
  "state_events (with_intent i d) = state_events d" "cycles (with_intent i d) = cycles d"
  "intents (with_intent i d) = intents d @ [i]" "policies (with_intent i d) = policies d"
  "state_events (with_receipt f d) = state_events d" "cycles (with_receipt f d) = cycles d"
  "intents (with_receipt f d) = intents d" "fill_receipts (with_receipt f d) = fill_receipts d @ [f]"
  "state_events (moved a st v d) = state_events d" "cycles (moved a st v d) = cycles d"
  by (simp_all add: with_cycle_def with_intent_def with_receipt_def moved_def)

lemma update_frame [simp]:
  "state_events (update_intent_state a st d) = state_events d" "cycles (update_intent_state a st d) = cycles d"
  "fill_receipts (update_intent_state a st d) = fill_receipts d"
  "state_events (update_cycle_status c cs d) = state_events d" "intents (update_cycle_status c cs d) = intents d"
  "map cr_id (cycles (update_cycle_status c cs d)) = map cr_id (cycles d)"
  "policies (update_cycle_status c cs d) = policies d" "fill_receipts (update_cycle_status c cs d) = fill_receipts d"
  "ladder_levels (update_cycle_status c cs d) = ladder_levels d"
  "budget_reservations (update_cycle_status c cs d) = budget_reservations d"
  by (simp_all add: table_updates tbl_simps)

lemma event_of_type [simp]:
  "ev_type (event_of d etype pid cid aid src dst now payload) = etype"
  "ev_cycle (event_of d etype pid cid aid src dst now payload) = cid"
  "ev_payload (event_of d etype pid cid aid src dst now payload) = payload"
  "ev_seq (event_of d etype pid cid aid src dst now payload) = next_seq d"
  "ev_policy (event_of d etype pid cid aid src dst now payload) = pid"
  "ev_action (event_of d etype pid cid aid src dst now payload) = aid"
  by (simp_all add: event_of_def)

lemma receipt_events:
  assumes "append_fill_receipt_in_transaction r now d = (Inr ok, d')"
  shows "cycles d' = cycles d \<and> (\<exists>evs. state_events d' = state_events d @ evs \<and> list_all (\<lambda>e. ev_type e \<noteq> CYCLE_OPENED) evs)"
proof -
  from append_receipt_Inr [OF assms] obtain i f where
    fin: "if \<not> ok \<and> nr_state i \<noteq> SAFE_HALT then
       is_legal_transition (nr_state i) SAFE_HALT \<and>
       (let d1 = push_event (receipt_event i r now d) (with_receipt f d);
            e = transition_event i SAFE_HALT now halt_payload d1;
            d2 = update_intent_state (nr_id i) SAFE_HALT (settled (nr_id i) QUARANTINED d1)
        in insert_event e d2 = Inr d' \<and> d' = push_event e d2)
     else d' = push_event (receipt_event i r now d) (with_receipt f d)"
    by blast
  show ?thesis
  proof (cases "\<not> ok \<and> nr_state i \<noteq> SAFE_HALT")
    case True
    then have "d' = push_event (transition_event i SAFE_HALT now halt_payload (push_event (receipt_event i r now d) (with_receipt f d)))
      (update_intent_state (nr_id i) SAFE_HALT (settled (nr_id i) QUARANTINED (push_event (receipt_event i r now d) (with_receipt f d))))"
      using fin by (simp add: Let_def)
    then show ?thesis by (simp add: receipt_event_def transition_event_def)
  next
    case False
    then show ?thesis using fin by (auto simp: receipt_event_def)
  qed
qed

lemma op_body_openings:
  assumes op: "op_body H op d = (Inr u, d')" and inv: "ledger_inv d" and ok: "openings_ok d"
  shows "openings_ok d'"
proof (cases op)
  case (AdmitPolicy p)
  then have "runtime d' = runtime d" using op admit_Inr by (auto simp: body_unit_Inr)
  then show ?thesis using ok by (simp add: runtime_eq openings_ok_def)
next
  case (OpenCycle p index now)
  then obtain cid x where cid: "cycle_id_for (policy_id H p) index = Inr cid"
    and "open_cycle_body (policy_id H p) cid index now d = (Inr x, d')"
    using op by (auto simp: body_unit_Inr sbind_eq_Inr slift_eq sraise_eq split: if_splits)
  from open_cycle_Inr [OF this(2)] cycle_id_nonempty [OF cid] show ?thesis
    by (intro openings_add [OF ok, where c = "new_cycle (policy_id H p) cid index"])
      (auto simp: open_event_def new_cycle_def carry_ok_def)
next
  case (CloseCycle cid status now)
  then obtain x where "close_cycle_body cid status now d = (Inr x, d')"
    using op by (auto simp: body_unit_Inr sraise_eq split: if_splits)
  from close_cycle_Inr [OF this] obtain c where
    "d' = push_event (close_event c status now d) (update_cycle_status cid status d)" by blast
  then show ?thesis
    by (intro openings_frame [OF ok, where evs = "[close_event c status now d]"]) (auto simp: close_event_def)
next
  case (ContinueInventory src p index now)
  then obtain cid x where cid: "cycle_id_for (policy_id H p) index = Inr cid"
    and body: "continue_inventory_body H src p index cid now d = (Inr x, d')"
    using op by (auto simp: body_unit_Inr sbind_eq_Inr slift_eq sraise_eq split: if_splits)
  from continue_Inr [OF body] obtain n c where chk: "continue_checked H src p cid n c d"
    and d': "d' = push_event (open_event (policy_id H p) cid (carry_payload index n src) now (source_closed src c now d))
       (with_cycle (new_cycle (policy_id H p) cid index) (source_closed src c now d))" by blast
  have ok1: "openings_ok (source_closed src c now d)"
    by (rule openings_frame [OF ok, where evs = "[close_event c COMPLETED now d]"]) (auto simp: source_closed_def close_event_def)
  have "has_row cr_id src (cycles (source_closed src c now d))"
    using chk by (auto simp: continue_checked_def source_closed_def table_updates tbl_simps find_row_Some_has)
  then show ?thesis
    using chk cycle_id_nonempty [OF cid] unfolding d'
    by (intro openings_add [OF ok1, where c = "new_cycle (policy_id H p) cid index"])
      (auto simp: open_event_def new_cycle_def carry_ok_def continue_checked_def)
next
  case (CreateIntent i now)
  then have "create_intent_body i now d = (Inr (), d')" using op by (auto simp: sraise_eq split: if_splits)
  from create_intent_Inr [OF this] obtain row payload where
    "d' = push_event (event_of d INTENT_CREATED (nr_policy row) (nr_cycle row) (Some (nr_id row)) None
       (Some (Intent ARMED)) now (JObj payload)) (with_intent row d)" by blast
  then show ?thesis by (intro openings_frame [OF ok]) auto
next
  case (Transition a st now pl)
  then have "transition_body a st now pl d = (Inr (), d')" using op by simp
  from transition_body_Inr [OF this] obtain i where
    "d' = push_event (transition_event i st now (JObj pl) d) (update_intent_state a st (effect_db i st d))" by blast
  then show ?thesis by (intro openings_frame [OF ok]) (auto simp: transition_event_def)
next
  case (RecoverSafeHalt a st now)
  then have b: "recover_safe_halt_body a st now d = (Inr (), d')" "st \<in> {RECONCILED, REJECTED}"
    using op by (auto simp: sraise_eq split: if_splits)
  from recover_body_Inr [OF b] inv_parts(7) [OF inv] obtain i r where
    "d' = push_event (recovery_event i st r now d) (moved a st (recovery_value st d) d)" by blast
  then show ?thesis by (intro openings_frame [OF ok]) (auto simp: recovery_event_def)
next
  case (AppendReceipt r now)
  then obtain ok' where "append_fill_receipt_in_transaction r now d = (Inr ok', d')"
    using op by (auto simp: sbind_eq_Inr sget_eq sraise_eq body_unit_Inr split: if_splits)
  from receipt_events [OF this] show ?thesis using openings_frame [OF ok] by metis
next
  case (AppendExecutionReceipt r va now)
  then obtain ok' where "append_execution_fill_receipt_body r va now d = (Inr ok', d')"
    using op by (auto simp: body_unit_Inr)
  from receipt_events [OF execution_receipt_Inr [OF this]] show ?thesis using openings_frame [OF ok] by metis
qed

lemma reachable_openings: "reachable H d \<Longrightarrow> openings_ok d"
proof (induction rule: reachable.induct)
  case (operation d op r lg)
  from operation(3) show ?case
  proof (rule run_cases)
    fix d'
    assume "lg = at_rest d'" "op_body H op d = (Inr (), d')"
    then show ?thesis using op_body_openings reachable_inv [OF operation(1)] operation.IH by simp
  qed (use operation.IH in simp)
qed (simp_all add: openings_ok_def empty_db_def)

end
