(* ===== verification/Guarantees.thy ===== *)
theory Guarantees
  imports Operations
begin

text \<open>
  What the ledger guarantees about receipts, the release of capital and carried inventory.
\<close>

subsection \<open>Receipts outside the committed bounds\<close>

definition fills_within :: "int \<Rightarrow> int \<Rightarrow> int \<Rightarrow> int \<Rightarrow> bool" where
  "fills_within max_input min_output tin tout \<longleftrightarrow> tin \<le> max_input \<and> min_output * tin \<le> tout * max_input"

lemma le_div_iff: "0 < (m::int) \<Longrightarrow> k \<le> a div m \<longleftrightarrow> k * m \<le> a"
proof
  assume m: "0 < m" and "k \<le> a div m"
  then have "k * m \<le> a div m * m" by (simp add: mult_right_mono)
  also have "\<dots> \<le> a" using div_mult_mod_eq [of a m] pos_mod_sign [OF m, of a] by linarith
  finally show "k * m \<le> a" .
next
  assume "0 < m" "k * m \<le> a"
  then show "k \<le> a div m" using zdiv_mono1 [of "k * m" a m] by simp
qed

lemma required_output_iff:
  assumes "0 < mx"
  shows "required_output mx mn tin \<le> tout \<longleftrightarrow> mn * tin \<le> tout * mx"
  using le_div_iff [OF assms, of "- tout" "- mn * tin"] unfolding required_output_def by linarith

lemma receipt_within_iff:
  assumes "bounds_amounts bounds = Inr (mx, mn)" "0 < total_filled fr_input a d"
  shows "receipt_within_bounds a bounds d =
    Inr (fills_within mx mn (total_filled fr_input a d) (total_filled fr_output a d))"
  using assms required_output_iff [of mx mn "total_filled fr_input a d" "total_filled fr_output a d"]
  by (auto simp: receipt_within_bounds_def fills_within_def Let_def)

lemma filled_positive:
  assumes "insert_receipt f d = Inr (with_receipt f d)" "list_all (\<lambda>f. 0 < fr_input f) (fill_receipts d)" "fr_action f = a"
  shows "0 < total_filled fr_input a (with_receipt f d)"
proof -
  have "0 \<le> sum_list (map fr_input (filter (\<lambda>f. fr_action f = a) (fill_receipts d)))"
    using assms(2) by (fastforce simp: list_all_iff intro: sum_list_nonneg less_imp_le)
  then show ?thesis using assms(1,3) by (simp add: total_filled_def with_receipt_def insert_receipt_Inr)
qed

interpretation receipts_pos: statement_invariant "\<lambda>d. list_all (\<lambda>f. 0 < fr_input f) (fill_receipts d)"
  by unfold_locales (auto simp: res_simps table_updates)

lemma reachable_receipts_pos: "reachable H d \<Longrightarrow> list_all (\<lambda>f. 0 < fr_input f) (fill_receipts d)"
proof (induction rule: reachable.induct)
  case (operation d op r lg)
  from operation(3) show ?case
    by (rule run_cases) (use operation.IH receipts_pos.op_invariant in auto)
qed (simp_all add: empty_db_def)

text \<open>
  \<^bold>\<open>C5.\<close> A receipt is never refused for disagreeing with what was committed, and it is never
  absorbed silently either. After it is appended, the action is unchanged exactly when
  the receipts of the action together stay within the committed maximum input and honour
  the committed price, output per input; otherwise the action is in SAFE_HALT and the
  capital it holds is quarantined.
\<close>

theorem out_of_bounds_receipt_halts:
  assumes "reachable H d" "run H (AppendReceipt r now) (at_rest d) = (None, lg)"
    and "find_row nr_id (rc_economic_action_id r) (intents d) = Some i"
    and "bounds_amounts (nr_bounds i) = Inr (mx, mn)"
  shows "\<exists>f. fill_receipts (lg_db lg) = fill_receipts d @ [f] \<and> fr_ref f = rc_external_ref r \<and>
    (if fills_within mx mn (total_filled fr_input (nr_id i) (lg_db lg)) (total_filled fr_output (nr_id i) (lg_db lg))
     then intents (lg_db lg) = intents d \<and> budget_reservations (lg_db lg) = budget_reservations d
     else (\<exists>i'. find_row nr_id (nr_id i) (intents (lg_db lg)) = Some i' \<and> nr_state i' = SAFE_HALT) \<and>
       (\<forall>b \<in> set (budget_reservations (lg_db lg)). br_id b = nr_id i \<longrightarrow> br_status b = QUARANTINED))"
proof -
  obtain d' where lg: "lg = at_rest d'" and op: "op_body H (AppendReceipt r now) d = (Inr (), d')"
    by (rule run_cases [OF assms(2)]) auto
  then obtain ok where ap: "append_fill_receipt_in_transaction r now d = (Inr ok, d')"
    by (auto simp: sbind_eq_Inr sget_eq sraise_eq body_unit_Inr split: if_splits)
  from append_receipt_Inr [OF ap] assms(3) obtain f where
    i: "nr_id i = rc_economic_action_id r" and f: "receipt_row_of r (next_seq d) = Inr f" "insert_receipt f d = Inr (with_receipt f d)"
    and ok: "receipt_within_bounds (nr_id i) (nr_bounds i) (with_receipt f d) = Inr ok"
    and fin: "if \<not> ok \<and> nr_state i \<noteq> SAFE_HALT then
       is_legal_transition (nr_state i) SAFE_HALT \<and>
       (let d1 = push_event (receipt_event i r now d) (with_receipt f d);
            e = transition_event i SAFE_HALT now halt_payload d1;
            d2 = update_intent_state (nr_id i) SAFE_HALT (settled (nr_id i) QUARANTINED d1)
        in insert_event e d2 = Inr d' \<and> d' = push_event e d2)
     else d' = push_event (receipt_event i r now d) (with_receipt f d)"
    by (metis option.inject)
  have row: "fr_action f = nr_id i" "fr_ref f = rc_external_ref r"
    using f(1) i by (auto simp: receipt_row_of_def rbind_eq_Inr)
  have frs: "fill_receipts d' = fill_receipts d @ [f]" using fin by (auto simp: Let_def split: if_splits)
  then have tot: "total_filled col (nr_id i) d' = total_filled col (nr_id i) (with_receipt f d)" for col
    by (simp add: total_filled_def)
  have ok': "ok = fills_within mx mn (total_filled fr_input (nr_id i) d') (total_filled fr_output (nr_id i) d')"
    using ok receipt_within_iff [OF assms(4) filled_positive [OF f(2) reachable_receipts_pos [OF assms(1)] row(1)]]
    by (simp add: tot)
  have inv: "ledger_inv d'" using op_body_inv [OF op] reachable_inv [OF assms(1)] by simp
  have idem: "intents d' = intents d \<and> budget_reservations d' = budget_reservations d" if "ok"
    using fin that by (simp add: with_receipt_def push_event_def)
  have halt: "\<exists>i'. find_row nr_id (nr_id i) (intents d') = Some i' \<and> nr_state i' = SAFE_HALT" if "\<not> ok"
  proof (cases "nr_state i = SAFE_HALT")
    case True
    then show ?thesis using fin assms(3) i by simp
  next
    case False
    then have "intents d' = update_row nr_id (nr_id i) (set_state SAFE_HALT) (intents d)"
      using fin that by (auto simp: Let_def update_intent_state_def)
    then show ?thesis using assms(3) i by (auto simp: tbl_simps set_state_def)
  qed
  have quar: "br_status b = QUARANTINED"
    if "\<not> ok" "b \<in> set (budget_reservations d')" "br_id b = nr_id i" for b
  proof -
    have "reservation_fits (intents d') b" using inv_parts(4) [OF inv] that(2) by (simp add: coupled_def list_all_iff)
    then show ?thesis using halt [OF that(1)] that(3) by (auto simp: reservation_fits_def)
  qed
  show ?thesis using frs row(2) idem halt quar unfolding lg ok' by (intro exI [of _ f]) auto
qed

subsection \<open>Capital is released only on proof\<close>

interpretation held_table: registration_invariant "\<lambda>d. budget_reservations d = rs" for rs
  by unfold_locales (auto simp: res_simps table_updates)

lemma find_moved:
  "find_row br_id b (budget_reservations (moved a st v d)) =
     (if b = a then map_option (set_settled v) (find_row br_id a (budget_reservations d))
      else find_row br_id b (budget_reservations d))"
  by (simp add: moved_def tbl_simps)

text \<open>
  \<^bold>\<open>C4.\<close> Whatever operation runs, committed or not, capital leaves the held pool only in
  two ways: the action was still RESERVED, so nothing had been signed for it, or the
  execution tables hold a reconciliation that binds a confirmed revert of exactly its
  transaction. In particular no timeout, no halt and no receipt ever releases capital.
\<close>

theorem capital_released_only_on_proof:
  assumes "reachable H d" "run H op (at_rest d) = (r, lg)"
    and "find_row br_id a (budget_reservations d) = Some b" "br_status b \<noteq> RELEASED"
    and "find_row br_id a (budget_reservations (lg_db lg)) = Some b'" "br_status b' = RELEASED"
  shows "\<exists>i. find_row nr_id a (intents d) = Some i \<and>
    (nr_state i = RESERVED \<or> has_bound_reverted_reconciliation a d = Inr True)"
proof -
  note inv = inv_parts [OF reachable_inv [OF assms(1)]]
  obtain d' where lg: "lg = at_rest d'" and op: "op_body H op d = (Inr (), d')"
    by (rule run_cases [OF assms(2)]) (use assms(3-6) in auto)
  have same: False if "budget_reservations d' = budget_reservations d"
    using that assms(3-6) by (simp add: lg)
  have reg: False if "keeps (\<lambda>d'. budget_reservations d' = budget_reservations d) (op_body H op)"
    using that op same unfolding keeps_def by blast
  have recv: False if "append_fill_receipt_in_transaction r now d = (Inr ok, d')" for r now ok
  proof -
    from append_receipt_Inr [OF that] obtain i f where
      fin: "if \<not> ok \<and> nr_state i \<noteq> SAFE_HALT then
         is_legal_transition (nr_state i) SAFE_HALT \<and>
         (let d1 = push_event (receipt_event i r now d) (with_receipt f d);
              e = transition_event i SAFE_HALT now halt_payload d1;
              d2 = update_intent_state (nr_id i) SAFE_HALT (settled (nr_id i) QUARANTINED d1)
          in insert_event e d2 = Inr d' \<and> d' = push_event e d2)
       else d' = push_event (receipt_event i r now d) (with_receipt f d)"
      by blast
    then show False
      using assms(3-6) same
      by (auto simp: lg Let_def settled_def table_updates tbl_simps set_settled_def push_event_def with_receipt_def
          split: option.splits if_splits)
  qed
  show ?thesis
  proof (cases op)
    case (Transition x st now pl)
    then have "transition_body x st now pl d = (Inr (), d')" using op by simp
    from transition_body_Inr [OF this] obtain i where i: "find_row nr_id x (intents d) = Some i" "nr_id i = x"
      and chk: "transition_checked i st d"
      and d': "d' = push_event (transition_event i st now (JObj pl) d) (update_intent_state x st (effect_db i st d))"
      by blast
    have legal: "is_legal_transition (nr_state i) st" using chk by (simp add: transition_checked_def)
    show ?thesis
    proof (cases "st = RESERVED")
      case True
      then have "find_row br_id a (budget_reservations d') = Some b"
        using assms(3) by (auto simp: d' effect_db_def reserved_def table_updates push_event_def tbl_simps)
      then show ?thesis using assms(4-6) by (simp add: lg)
    next
      case False
      then have res: "budget_reservations d' = budget_reservations (moved x st (move_value i st d) d)"
        using effect_moved [OF inv(1), of st i] i(2) by (simp add: d' push_event_def)
      then have a: "a = x" using assms(3-6) by (auto simp: lg find_moved split: if_splits)
      have st: "status_of (nr_state i) = Some (br_status b)" using coupled_reservation [OF inv(4) i(1)] assms(3) a by simp
      have "br_status b' = fst (move_value i st d)"
        using assms(3,5) by (auto simp: lg res find_moved a set_settled_def)
      then have "settle_target st = Some RELEASED"
        using assms(3,4,6) i(2) a
        by (auto simp: move_value_def settle_value_def split: option.splits if_splits)
      then have "st \<in> RELEASING_STATES" by (cases st) (auto simp: RELEASING_STATES_def)
      then have "nr_state i = RESERVED \<or> has_bound_reverted_reconciliation a d = Inr True"
        using chk st legal i(2) a
        by (cases "nr_state i") (auto simp: transition_checked_def BUDGET_HOLDING_STATES_def is_legal_transition_def RELEASING_STATES_def)
      then show ?thesis using i(1) a by blast
    qed
  next
    case (RecoverSafeHalt x st now)
    then have b: "recover_safe_halt_body x st now d = (Inr (), d')" "st \<in> {RECONCILED, REJECTED}"
      using op by (auto simp: sraise_eq split: if_splits)
    from recover_body_Inr [OF b] inv(7) obtain i q where i: "find_row nr_id x (intents d) = Some i" "nr_id i = x"
      and chk: "recovery_checked i st q d"
      and d': "d' = push_event (recovery_event i st q now d) (moved x st (recovery_value st d) d)" by blast
    have a: "a = x" using assms(3-6) by (auto simp: lg d' push_event_def find_moved split: if_splits)
    have "br_status b' = fst (recovery_value st d)"
      using assms(3,5) by (auto simp: lg d' push_event_def find_moved a set_settled_def)
    then have "st = REJECTED" using b(2) assms(6) by (auto simp: recovery_value_def)
    then show ?thesis using chk i a by (auto simp: recovery_checked_def)
  next
    case (AppendReceipt r now)
    then show ?thesis using op recv by (auto simp: sbind_eq_Inr sget_eq sraise_eq body_unit_Inr split: if_splits)
  next
    case (AppendExecutionReceipt r va now)
    then obtain ok where "append_execution_fill_receipt_body r va now d = (Inr ok, d')" using op by (auto simp: body_unit_Inr)
    then show ?thesis using recv execution_receipt_Inr by blast
  qed (use reg held_table.keeps_registering_op [of op "budget_reservations d" H] in auto)
qed

end
