(* ===== verification/Carry.thy ===== *)
theory Carry
  imports Guarantees
begin

text \<open>
  The inventory of a cycle and its continuation into a successor cycle: the projection of
  every cycle of a reachable ledger is defined, and a carry moves the whole inventory of
  the source, once.
\<close>

subsection \<open>Opening events in log order\<close>

lemma sorted_events: "seqs_ok d \<Longrightarrow> sorted (map ev_seq (state_events d))"
proof -
  have "sorted (map int [Suc 0..<n])" for n
    unfolding sorted_map by (rule sorted_wrt_mono_rel [OF _ sorted_upt]) simp
  then show "seqs_ok d \<Longrightarrow> ?thesis" unfolding seqs_ok_def by (simp del: upt_Suc)
qed

lemma sort_key_sorted: "sorted (map f xs) \<Longrightarrow> sort_key f xs = xs"
  by (induction xs) (auto simp: insort_is_Cons)

lemma sorted_filter_key: "sorted (map f xs) \<Longrightarrow> sorted (map f (filter P xs))"
  by (induction xs) auto

lemma opening_events_filter:
  "seqs_ok d \<Longrightarrow> opening_events d = filter (\<lambda>e. ev_type e = CYCLE_OPENED) (state_events d)"
  by (simp add: opening_events_def sort_key_sorted sorted_filter_key sorted_events)

text \<open>The amount an opening event carries in, and the amount it takes out of a cycle.\<close>

definition carried_in :: "event_row \<Rightarrow> int" where
  "carried_in e = (case carry_in_of (ev_payload e) of Inl _ \<Rightarrow> 0 | Inr n \<Rightarrow> n)"

definition carried_out :: "string \<Rightarrow> event_row \<Rightarrow> int" where
  "carried_out cid e = (case carry_out_of cid (ev_payload e) of Inl _ \<Rightarrow> 0 | Inr n \<Rightarrow> n)"

lemma decode_text [simp]: "0 \<le> n \<Longrightarrow> decode_atomic (Some (str_int n)) = Inr n"
  using decode_str_int [of n] by simp

lemma payload_carries:
  "carry_in_of (plain_payload index) = Inr 0" "carry_out_of cid (plain_payload index) = Inr 0"
  "carry_source (plain_payload index) = Inr None"
  "0 \<le> n \<Longrightarrow> carry_in_of (carry_payload index n src) = Inr n"
  "0 \<le> n \<Longrightarrow> carry_out_of cid (carry_payload index n src) = Inr (if src = cid then n else 0)"
  "carry_source (carry_payload index n src) = Inr (Some (JStr src))"
  by (auto simp: carry_in_of_def carry_out_of_def carry_source_def plain_payload_def carry_payload_def jget_attr_def
      jfetch_def)

lemma carry_ok_reads:
  assumes "carry_ok cs e" "ev_type e = CYCLE_OPENED"
  shows "carry_in_of (ev_payload e) = Inr (carried_in e) \<and> carry_out_of cid (ev_payload e) = Inr (carried_out cid e) \<and>
    (carried_out cid e \<noteq> 0 \<longrightarrow> carry_source (ev_payload e) = Inr (Some (JStr cid)) \<and> has_row cr_id cid cs)"
  using assms by (auto simp: carry_ok_def carried_in_def carried_out_def payload_carries split: if_splits)

lemma rfold_add:
  assumes "\<And>x. x \<in> set xs \<Longrightarrow> f x = Inr (g x)"
  shows "rfold (\<lambda>acc x. rbind (f x) (\<lambda>n. Inr (acc + n))) (s :: int) xs = Inr (s + sum_list (map g xs))"
  using assms by (induction xs arbitrary: s) auto

subsection \<open>The projection of a cycle\<close>

definition opening_of :: "string \<Rightarrow> db \<Rightarrow> event_row option" where
  "opening_of cid d = find_row ev_cycle cid (opening_events d)"

definition settled_inventory :: "string \<Rightarrow> db \<Rightarrow> int" where
  "settled_inventory cid d = filled_sum BUY fr_output cid d - filled_sum SELL fr_input cid d"

definition taken_out :: "string \<Rightarrow> db \<Rightarrow> int" where
  "taken_out cid d = sum_list (map (carried_out cid) (opening_events d))"

lemma opening_exists:
  assumes "openings_ok d" "has_row cr_id cid (cycles d)"
  obtains e where "opening_of cid d = Some e" "e \<in> set (opening_events d)" "ev_cycle e = cid"
proof -
  have "has_row ev_cycle cid (opening_events d)"
  proof -
    obtain c where "c \<in> set (cycles d)" "cr_id c = cid" using assms(2) by (auto simp: has_row_def)
    then obtain e where "e \<in> set (state_events d)" "ev_type e = CYCLE_OPENED" "ev_cycle e = cid"
      using assms(1) by (fastforce simp: openings_ok_def list_all_iff list_ex_iff)
    then show ?thesis by (auto simp: has_row_def opening_events_def intro!: image_eqI [of _ _ e])
  qed
  then obtain e where "find_row ev_cycle cid (opening_events d) = Some e" by (blast dest: has_row_find)
  then show thesis using that find_row_SomeD by (metis opening_of_def)
qed

lemma opening_reads:
  assumes "openings_ok d" "e \<in> set (opening_events d)"
  shows "carry_ok (cycles d) e \<and> ev_type e = CYCLE_OPENED"
  using assms by (auto simp: opening_events_def openings_ok_def list_all_iff)

lemma projection_defined:
  assumes "openings_ok d" "find_row cr_id cid (cycles d) = Some c" "opening_of cid d = Some e"
  shows "cycle_projection cid d = Inr \<lparr>pj_cycle = cid, pj_policy = cr_policy c, pj_status = cr_status c,
     pj_requires_reconciliation = list_ex (\<lambda>i. nr_cycle i = cid \<and> nr_state i = SAFE_HALT) (intents d),
     pj_inventory = carried_in e + filled_sum BUY fr_output cid d - filled_sum SELL fr_input cid d - taken_out cid d,
     pj_base_acquired = filled_sum BUY fr_output cid d, pj_base_disposed = filled_sum SELL fr_input cid d,
     pj_carry_in = carried_in e, pj_carry_out = taken_out cid d,
     pj_quote_proceeds = filled_sum SELL fr_output cid d, pj_quote_spent = filled_sum BUY fr_input cid d,
     pj_held = held_atomic None None None d,
     pj_next_entry = eligible_levels ENTRY (cr_policy c) cid d,
     pj_next_exit = eligible_levels EXIT (cr_policy c) cid d\<rparr>"
proof -
  have e: "e \<in> set (opening_events d)" using assms(3) find_row_SomeD by (metis opening_of_def)
  have "carry_in_of (ev_payload e) = Inr (carried_in e)"
    using carry_ok_reads opening_reads [OF assms(1) e] by blast
  moreover have "rfold (\<lambda>acc e. rbind (carry_out_of cid (ev_payload e)) (\<lambda>n. Inr (acc + n))) 0 (opening_events d) =
      Inr (0 + taken_out cid d)"
    unfolding taken_out_def
    by (rule rfold_add) (use carry_ok_reads opening_reads [OF assms(1)] in blast)
  ultimately show ?thesis
    using assms(2,3) by (simp add: cycle_projection_def opening_of_def [symmetric] Let_def)
qed

lemma inventory_defined:
  assumes "openings_ok d" "find_row cr_id cid (cycles d) = Some c" "opening_of cid d = Some e"
  shows "inventory_atomic cid d = Inr (carried_in e + settled_inventory cid d - taken_out cid d)"
  by (simp add: inventory_atomic_def projection_defined [OF assms] settled_inventory_def)

lemma settled_inventory_cong:
  assumes "intents d = intents d'" "fill_receipts d = fill_receipts d'"
  shows "settled_inventory cid d = settled_inventory cid d'"
  using assms by (simp add: settled_inventory_def filled_sum_def total_filled_def)

lemma settled_inventory_new:
  "foreign_keys_ok d \<Longrightarrow> \<not> has_row cr_id cid (cycles d) \<Longrightarrow> settled_inventory cid d = 0"
proof -
  assume "foreign_keys_ok d" "\<not> has_row cr_id cid (cycles d)"
  then have "\<forall>i \<in> set (intents d). nr_cycle i \<noteq> cid" by (auto simp: foreign_keys_ok_def list_all_iff)
  then show ?thesis by (simp add: settled_inventory_def filled_sum_def)
qed

subsection \<open>Continuing an inventory\<close>

lemma taken_out_unknown:
  assumes "openings_ok d" "\<not> has_row cr_id cid (cycles d)"
  shows "taken_out cid d = 0"
proof -
  have "carried_out cid e = 0" if "e \<in> set (opening_events d)" for e
    using carry_ok_reads [of "cycles d" e cid] opening_reads [OF assms(1) that] assms(2) by blast
  then show ?thesis by (simp add: taken_out_def cong: map_cong)
qed

lemma opening_unknown:
  assumes "foreign_keys_ok d" "\<not> has_row cr_id cid (cycles d)"
  shows "opening_of cid d = None"
  using assms by (auto simp: opening_of_def opening_events_def find_row_None has_row_def foreign_keys_ok_def list_all_iff)

lemma continued_openings:
  assumes "seqs_ok d" "seqs_ok (push_event (open_event pid cid payload now (source_closed src c now d)) d2)"
    and "state_events d2 = state_events (source_closed src c now d)"
  shows "opening_events (push_event (open_event pid cid payload now (source_closed src c now d)) d2) =
    opening_events d @ [open_event pid cid payload now (source_closed src c now d)]"
  using assms by (simp add: opening_events_filter source_closed_def close_event_def open_event_def)

lemma continue_moves_inventory:
  assumes inv: "ledger_inv d" "openings_ok d" and inv': "ledger_inv d'" "openings_ok d'"
    and body: "continue_inventory_body H src p index cid now d = (Inr x, d')"
  shows "\<exists>n. 0 < n \<and> inventory_atomic src d = Inr n \<and> inventory_atomic src d' = Inr 0 \<and>
    inventory_atomic cid d' = Inr n \<and> (\<exists>e \<in> set (opening_events d'). carry_source (ev_payload e) = Inr (Some (JStr src)))"
proof -
  note i = inv_parts [OF inv(1)] and i' = inv_parts [OF inv'(1)]
  from continue_Inr [OF body] obtain n c where chk: "continue_checked H src p cid n c d"
    and new: "insert_cycle (new_cycle (policy_id H p) cid index) (source_closed src c now d) =
       Inr (with_cycle (new_cycle (policy_id H p) cid index) (source_closed src c now d))"
    and d': "d' = push_event (open_event (policy_id H p) cid (carry_payload index n src) now (source_closed src c now d))
       (with_cycle (new_cycle (policy_id H p) cid index) (source_closed src c now d))" (is "d' = push_event ?e ?d2")
    by blast
  have n: "0 < n" "inventory_atomic src d = Inr n" "cid \<noteq> src" "find_row cr_id src (cycles d) = Some c"
    using chk by (auto simp: continue_checked_def)
  have tables: "intents d' = intents d" "fill_receipts d' = fill_receipts d"
    by (simp_all add: d' source_closed_def)
  have fresh: "\<not> has_row cr_id cid (cycles d)"
    using new by (simp add: insert_cycle_Inr new_cycle_def source_closed_def has_row_def)
  have cyc: "cycles d' = update_row cr_id src (set_cycle_status COMPLETED) (cycles d) @ [new_cycle (policy_id H p) cid index]"
    by (simp add: d' source_closed_def update_cycle_status_def)
  have openings: "opening_events d' = opening_events d @ [?e]"
    using continued_openings [OF i(2)] i'(2) unfolding d' by simp
  have e: "ev_cycle ?e = cid" "ev_payload ?e = carry_payload index n src" by (simp_all add: open_event_def)
  have outs: "taken_out s d' = taken_out s d + (if s = src then n else 0)" for s
    using n(1) by (simp add: taken_out_def openings carried_out_def e payload_carries)
  obtain e0 where e0: "opening_of src d = Some e0"
    using opening_exists [OF inv(2)] find_row_Some_has [OF n(4)] by metis
  then have e0': "opening_of src d' = Some e0" by (simp add: opening_of_def openings tbl_simps)
  have "carried_in e0 + settled_inventory src d - taken_out src d = n"
    using inventory_defined [OF inv(2) n(4) e0] n(2) by simp
  moreover have "inventory_atomic src d' = Inr (carried_in e0 + settled_inventory src d' - taken_out src d')"
    by (rule inventory_defined [OF inv'(2) _ e0', where c = "set_cycle_status COMPLETED c"])
      (use n(4) in \<open>simp add: cyc tbl_simps\<close>)
  ultimately have src: "inventory_atomic src d' = Inr 0"
    using settled_inventory_cong [OF tables] by (simp add: outs)
  have cid_new: "find_row cr_id cid (cycles d') = Some (new_cycle (policy_id H p) cid index)"
  proof -
    have none: "find_row cr_id cid (cycles d) = None" using fresh by (simp add: find_row_None)
    show ?thesis using n(3) by (simp add: cyc find_row_append find_row_Cons upd_cycle.find_update none) (simp add: new_cycle_def)
  qed
  have "opening_of cid d' = Some ?e"
    using opening_unknown [OF i(3) fresh] e(1) by (simp add: opening_of_def openings tbl_simps(5-7) find_row_append find_row_Cons)
  from inventory_defined [OF inv'(2) cid_new this] have "inventory_atomic cid d' = Inr n"
    using n(1,3) settled_inventory_cong [OF tables] settled_inventory_new [OF i(3) fresh] taken_out_unknown [OF inv(2) fresh]
    by (simp add: outs carried_in_def e payload_carries)
  then show ?thesis using n src openings e payload_carries(6) by auto
qed

text \<open>
  \<^bold>\<open>C7.\<close> Continuing a cycle's inventory moves all of it, exactly once: when the operation
  succeeds, the source had a positive inventory, has none afterwards, the successor
  cycle holds exactly what the source held, and after any later operations whatsoever a
  second continuation of the same source raises and changes nothing.
\<close>

theorem inventory_carried_once:
  assumes "reachable H d" "op_args_ok (ContinueInventory src p index now)"
    and "run H (ContinueInventory src p index now) (at_rest d) = (None, lg)"
    and "cycle_id_for (policy_id H p) index = Inr cid"
  shows "\<exists>n. 0 < n \<and> inventory_atomic src d = Inr n \<and> inventory_atomic src (lg_db lg) = Inr 0 \<and>
    inventory_atomic cid (lg_db lg) = Inr n \<and>
    (\<forall>ops p' index' now'. \<exists>e. run H (ContinueInventory src p' index' now') (at_rest (fold (db_after H) ops (lg_db lg))) =
      (Some e, at_rest (fold (db_after H) ops (lg_db lg))))"
proof -
  obtain d' where lg: "lg = at_rest d'" and op: "op_body H (ContinueInventory src p index now) d = (Inr (), d')"
    by (rule run_cases [OF assms(3)]) auto
  then obtain x where body: "continue_inventory_body H src p index cid now d = (Inr x, d')"
    using assms(4) by (auto simp: body_unit_Inr sbind_eq_Inr slift_eq sraise_eq split: if_splits)
  have r': "reachable H d'" by (rule reachable_body [OF assms(1,2) op])
  from continue_moves_inventory [OF reachable_inv [OF assms(1)] reachable_openings [OF assms(1)]
      reachable_inv [OF r'] reachable_openings [OF r'] body]
  obtain n e where n: "0 < n" "inventory_atomic src d = Inr n" "inventory_atomic src d' = Inr 0" "inventory_atomic cid d' = Inr n"
    and e: "e \<in> set (opening_events d')" "carry_source (ev_payload e) = Inr (Some (JStr src))" by blast
  have "\<exists>e. run H (ContinueInventory src p' index' now') (at_rest (fold (db_after H) ops d')) =
      (Some e, at_rest (fold (db_after H) ops d'))" for ops p' index' now'
  proof -
    obtain q l where q: "run H (ContinueInventory src p' index' now') (at_rest (fold (db_after H) ops d')) = (q, l)"
      by fastforce
    have False if "op_body H (ContinueInventory src p' index' now') (fold (db_after H) ops d') = (Inr (), d2)" for d2
    proof -
      from that obtain cid' x where "continue_inventory_body H src p' index' cid' now' (fold (db_after H) ops d') = (Inr x, d2)"
      by (auto simp: body_unit_Inr sbind_eq_Inr slift_eq sraise_eq split: if_splits)
      then obtain m c where chk: "continue_checked H src p' cid' m c (fold (db_after H) ops d')"
        by (rule continue_Inr) blast
      have "e \<in> set (opening_events (fold (db_after H) ops d'))"
        using e(1) event_log.entries_stay [of d' H ops] by (auto simp: opening_events_def)
      then show False using chk e(2) by (auto simp: continue_checked_def)
    qed
    note none = this
    show ?thesis
    proof (rule run_cases [OF q])
      show ?thesis if "q = Some e" "l = at_rest (fold (db_after H) ops d')" for e using q that by blast
    qed (use none in blast)
  qed
  then show ?thesis using n by (auto simp: lg)
qed

end
