(* ===== verification/SampleFill.thy ===== *)
theory SampleFill
  imports Carry
begin

text \<open>
  The sample run continued: a fill within the bounds and one outside them, the settled
  action, and the inventory carried into the next cycle.
\<close>

definition sample_receipt :: "string \<Rightarrow> int \<Rightarrow> FillReceiptV0" where
  "sample_receipt rid out = \<lparr>rc_receipt_id = rid, rc_economic_action_id = sample_action, rc_external_ref = rid,
     input_atomic_filled = 100000000, output_atomic_filled = out, fee_atomic = 0, observed_at_epoch_s = 1000,
     rc_source = ''chain''\<rparr>"

definition sample_receipt_row :: "string \<Rightarrow> int \<Rightarrow> receipt_row" where
  "sample_receipt_row rid out = \<lparr>fr_id = rid, fr_action = sample_action, fr_ref = rid, fr_input = 100000000,
     fr_output = out, fr_fee = 0, fr_observed = 1000, fr_source = ''chain'', fr_seq = 7\<rparr>"

definition sample_receipt_event :: "string \<Rightarrow> int \<Rightarrow> event_row" where
  "sample_receipt_event rid out = sample_event 7 FILL_RECEIPT_APPENDED (Some sample_action) (Some (Intent RESERVED)) None
     (JObj (receipt_canonical_object (sample_receipt rid out)))"

definition sample_reserved_events :: "event_row list" where
  "sample_reserved_events = [sample_move 3 ARMED TRIGGERED, sample_move 4 TRIGGERED QUOTE_PINNED,
     sample_move 5 QUOTE_PINNED SIMULATED, sample_move 6 SIMULATED RESERVED]"

text \<open>The rung in a state, with some events after its reservation and the rows of its budget and fills.\<close>

definition sample_state :: "intent_state \<Rightarrow> event_row list \<Rightarrow> reservation_row list \<Rightarrow> receipt_row list \<Rightarrow> db" where
  "sample_state st evs rs fs = (sample_rung_db st (sample_reserved_events @ evs))
     \<lparr>budget_reservations := rs, fill_receipts := fs\<rparr>"

lemma sample_state_simps [simp]:
  "intents (sample_state st evs rs fs) = [sample_intent_row st]"
  "state_events (sample_state st evs rs fs) = [sample_opening, sample_created] @ sample_reserved_events @ evs"
  "cycles (sample_state st evs rs fs) = [sample_cycle]" "policies (sample_state st evs rs fs) = [sample_policy_row]"
  "budget_reservations (sample_state st evs rs fs) = rs" "fill_receipts (sample_state st evs rs fs) = fs"
  "exec_surface (sample_state st evs rs fs) = None"
  "instruments (sample_state st evs rs fs) = instruments sample_admitted_db"
  "ladder_levels (sample_state st evs rs fs) = sample_level_rows"
  by (simp_all add: sample_state_def) (simp add: sample_rung_db_def sample_open_db_def)

lemma sample_reserved_state: "sample_reserved_db = sample_state RESERVED [] [sample_reservation] []"
  by (simp add: sample_reserved_db_def sample_state_def sample_reserved_events_def sample_rung_db_def sample_open_db_def
      sample_admitted_db_def empty_db_def)

lemma sample_state_update:
  "update_intent_state sample_action st' (sample_state st evs rs fs) = sample_state st' evs rs fs"
  "push_event e (sample_state st evs rs fs) = sample_state st (evs @ [e]) rs fs"
  "with_receipt f (sample_state st evs rs fs) = sample_state st evs rs (fs @ [f])"
  using sample_rung_update [of st' st "sample_reserved_events @ evs"]
  by (simp_all add: sample_state_def update_intent_state_def push_event_def with_receipt_def sample_rung_db_def
      update_row_def set_state_def)

lemma sample_bounds_amounts: "bounds_amounts (nr_bounds (sample_intent_row st)) = Inr (100000000, 50000000)"
  by (simp add: bounds_amounts_def sample_intent_row_def sample_bounds_json_def jfetch_def)

lemma sample_receipt_row_of: "0 < out \<Longrightarrow> receipt_row_of (sample_receipt rid out) 7 = Inr (sample_receipt_row rid out)"
  by (simp add: receipt_row_of_def sample_receipt_def store_atomic_eq sample_receipt_row_def INT64_MAX_def)

lemma sample_next: "next_seq (sample_state st evs rs fs) = max 6 (foldr max (map ev_seq evs) 0) + 1"
  by (simp add: next_seq_def sample_reserved_events_def max.assoc [symmetric])

lemma sample_within:
  "receipt_within_bounds sample_action (nr_bounds (sample_intent_row st)) (sample_state st evs rs [sample_receipt_row rid out]) =
     Inr (50000000 \<le> out)"
  by (simp add: receipt_within_bounds_def sample_bounds_amounts total_filled_def required_output_def Let_def)
    (simp add: sample_receipt_row_def)

lemma sample_insert_receipt:
  "0 < out \<Longrightarrow> insert_receipt (sample_receipt_row rid out) (sample_state st evs rs []) =
     Inr (sample_state st evs rs [sample_receipt_row rid out])"
  using sample_state_update(3) [of "sample_receipt_row rid out" st evs rs "[]"]
  by (simp add: insert_receipt_Inr with_receipt_def tbl_simps) (simp add: sample_receipt_row_def)

lemma sample_event_simps [simp]:
  "ev_seq (sample_event n et aid src dst pl) = n" "ev_type (sample_event n et aid src dst pl) = et"
  "ev_policy (sample_event n et aid src dst pl) = sample_digest" "ev_cycle (sample_event n et aid src dst pl) = sample_digest @ '':0''"
  "ev_action (sample_event n et aid src dst pl) = aid" "ev_to (sample_event n et aid src dst pl) = dst"
  "ev_at (sample_event n et aid src dst pl) = 1000"
  by (simp_all add: sample_event_def)

lemma sample_insert_event:
  assumes "next_seq (sample_state st evs rs fs) = n" "et \<notin> CYCLE_EVENT_TYPES" "(dst = None) = (et = FILL_RECEIPT_APPENDED)"
    and "list_all (\<lambda>e. ev_seq e < n) evs" "6 < n"
  shows "append_event et sample_digest (sample_digest @ '':0'') (Some sample_action) src dst 1000 pl (sample_state st evs rs fs) =
    (Inr n, sample_state st (evs @ [sample_event n et (Some sample_action) src dst pl]) rs fs)"
proof -
  have e: "event_of (sample_state st evs rs fs) et sample_digest (sample_digest @ '':0'') (Some sample_action) src dst 1000 pl =
      sample_event n et (Some sample_action) src dst pl"
    using assms(1) by (simp add: event_of_def sample_event_def)
  have "\<not> has_row ev_seq n (state_events (sample_state st evs rs fs))"
    using assms(4,5) by (auto simp: has_row_def sample_reserved_events_def list_all_iff)
  then have "insert_event (sample_event n et (Some sample_action) src dst pl) (sample_state st evs rs fs) =
      Inr (push_event (sample_event n et (Some sample_action) src dst pl) (sample_state st evs rs fs))"
    using assms(2,3) by (simp add: insert_event_Inr tbl_simps push_event_def)
  then show ?thesis
    using assms(1) by (simp add: append_event_Inr e sample_state_update INT64_MAX_def)
qed

text \<open>A fill within the committed bounds, and one whose output is too low.\<close>

lemma sample_fills:
  assumes "50000000 \<le> out"
  shows "op_body sample_hash (AppendReceipt (sample_receipt rid out) 1000) (sample_state RESERVED [] rs []) =
    (Inr (), sample_state RESERVED [sample_receipt_event rid out] rs [sample_receipt_row rid out])"
proof -
  have "append_event FILL_RECEIPT_APPENDED sample_digest (sample_digest @ '':0'') (Some sample_action) (Some (Intent RESERVED)) None 1000
      (JObj (receipt_canonical_object (sample_receipt rid out))) (sample_state RESERVED [] rs [sample_receipt_row rid out]) =
      (Inr 7, sample_state RESERVED [sample_receipt_event rid out] rs [sample_receipt_row rid out])"
    using sample_insert_event [of RESERVED "[]" rs _ 7 FILL_RECEIPT_APPENDED None]
    by (simp add: sample_next CYCLE_EVENT_TYPES_def sample_receipt_event_def)
  moreover have "rc_economic_action_id (sample_receipt rid out) = sample_action" by (simp add: sample_receipt_def)
  moreover have "insert_receipt_once (sample_receipt_row rid out) (sample_state RESERVED [] rs []) =
      Inr (sample_state RESERVED [] rs [sample_receipt_row rid out])"
    using assms by (simp add: insert_receipt_once_Inr sample_insert_receipt)
  moreover have "receipt_row_of (sample_receipt rid out) (next_seq (sample_state RESERVED [] rs [])) = Inr (sample_receipt_row rid out)"
    using assms by (simp add: sample_next sample_receipt_row_of)
  ultimately show ?thesis
    using assms
    by (simp add: body_unit_def append_fill_receipt_in_transaction_def Let_def sbind_run body_defs execution_surface_present_def
        intent_row_for_def tbl_simps RECEIPT_STATES_def sample_within)
qed

lemma sample_state_budget: "(sample_state st evs rs fs)\<lparr>budget_reservations := rs'\<rparr> = sample_state st evs rs' fs"
  by (simp add: sample_state_def)

lemma sample_reservation_simps [simp]: "br_id sample_reservation = sample_action" "br_status sample_reservation = ACTIVE"
  by (simp_all add: sample_reservation_def)

lemma sample_settled:
  "settled sample_action status (sample_state st evs [sample_reservation] fs) =
     sample_state st evs [set_settled (status, Some (next_seq (sample_state st evs [sample_reservation] fs))) sample_reservation] fs"
  by (simp add: settled_def find_row_Cons update_reservation_def update_row_def sample_state_budget)

lemma sample_halts:
  assumes "0 < out" "out < 50000000"
  shows "\<exists>evs b. op_body sample_hash (AppendReceipt (sample_receipt rid out) 1000) (sample_state RESERVED [] [sample_reservation] []) =
    (Inr (), sample_state SAFE_HALT evs [b] [sample_receipt_row rid out])"
proof -
  have ev: "append_event FILL_RECEIPT_APPENDED sample_digest (sample_digest @ '':0'') (Some sample_action) (Some (Intent RESERVED)) None 1000
      (JObj (receipt_canonical_object (sample_receipt rid out))) (sample_state RESERVED [] rs [sample_receipt_row rid out]) =
      (Inr 7, sample_state RESERVED [sample_receipt_event rid out] rs [sample_receipt_row rid out])" for rs
    using sample_insert_event [of RESERVED "[]" rs _ 7 FILL_RECEIPT_APPENDED None]
    by (simp add: sample_next CYCLE_EVENT_TYPES_def sample_receipt_event_def)
  have seq: "ev_seq (sample_receipt_event rid out) = 7" by (simp add: sample_receipt_event_def)
  have halt: "append_event INTENT_TRANSITION sample_digest (sample_digest @ '':0'') (Some sample_action) (Some (Intent RESERVED)) (Some (Intent SAFE_HALT)) 1000 pl
      (sample_state SAFE_HALT [sample_receipt_event rid out] rs fs) =
      (Inr 8, sample_state SAFE_HALT [sample_receipt_event rid out,
         sample_event 8 INTENT_TRANSITION (Some sample_action) (Some (Intent RESERVED)) (Some (Intent SAFE_HALT)) pl] rs fs)" for rs fs pl
    using sample_insert_event [of SAFE_HALT "[sample_receipt_event rid out]" rs fs 8 INTENT_TRANSITION]
    by (simp add: sample_next CYCLE_EVENT_TYPES_def seq)
  have "halt_on_bounds sample_action (sample_intent_row RESERVED) 1000
      (sample_state RESERVED [sample_receipt_event rid out] [sample_reservation] [sample_receipt_row rid out]) =
      (Inr (), sample_state SAFE_HALT [sample_receipt_event rid out,
         sample_event 8 INTENT_TRANSITION (Some sample_action) (Some (Intent RESERVED)) (Some (Intent SAFE_HALT)) halt_payload]
         [set_settled (QUARANTINED, Some 8) sample_reservation] [sample_receipt_row rid out])"
    by (simp add: halt_on_bounds_def sbind_run body_defs assert_legal_transition_def settle_reservation_run sample_settled sample_next seq
        sample_state_update halt halt_payload_def)
  moreover have "rc_economic_action_id (sample_receipt rid out) = sample_action" by (simp add: sample_receipt_def)
  moreover have "insert_receipt_once (sample_receipt_row rid out) (sample_state RESERVED [] rs []) =
      Inr (sample_state RESERVED [] rs [sample_receipt_row rid out])" for rs
    using assms by (simp add: insert_receipt_once_Inr sample_insert_receipt)
  moreover have "receipt_row_of (sample_receipt rid out) (next_seq (sample_state RESERVED [] rs [])) = Inr (sample_receipt_row rid out)" for rs
    using assms by (simp add: sample_next sample_receipt_row_of)
  ultimately show ?thesis
    using assms
    by (simp add: body_unit_def append_fill_receipt_in_transaction_def Let_def sbind_run body_defs execution_surface_present_def
        intent_row_for_def tbl_simps RECEIPT_STATES_def sample_within ev; blast)
qed

text \<open>A transition of the rung whose effect on the budget is known.\<close>

lemma sample_transition:
  assumes "is_legal_transition st st'" "next_seq (sample_state st' evs rs' fs) = n" "list_all (\<lambda>e. ev_seq e < n) evs" "6 < n"
    and "transition_effect sample_action (sample_intent_row st) st' (sample_state st evs rs fs) = (Inr (), sample_state st evs rs' fs)"
  shows "op_body sample_hash (Transition sample_action st' 1000 []) (sample_state st evs rs fs) =
    (Inr (), sample_state st' (evs @ [sample_move n st st']) rs' fs)"
proof -
  have "append_event INTENT_TRANSITION sample_digest (sample_digest @ '':0'') (Some sample_action) (Some (Intent st)) (Some (Intent st')) 1000 (JObj [])
      (sample_state st' evs rs' fs) = (Inr n, sample_state st' (evs @ [sample_move n st st']) rs' fs)"
    using sample_insert_event [OF assms(2) _ _ assms(3,4), of INTENT_TRANSITION]
    by (simp add: CYCLE_EVENT_TYPES_def sample_move_def)
  moreover have "assert_legal_transition st st' = Inr ()" using assms(1) by (simp add: assert_legal_eq_Inr)
  ultimately show ?thesis
    using assms(5) by (simp add: transition_body_def sbind_run body_defs intent_row_for_def tbl_simps sample_state_update)
qed

text \<open>Included, confirmed, reconciled and filled.\<close>

definition sample_committed :: reservation_row where
  "sample_committed = set_settled (COMMITTED, Some 11) sample_reservation"

definition sample_fill_events :: "event_row list" where
  "sample_fill_events = [sample_receipt_event ''r1'' 60000000, sample_move 8 RESERVED INCLUDED,
     sample_move 9 INCLUDED CONFIRMED, sample_move 10 CONFIRMED RECONCILED, sample_move 11 RECONCILED FILLED]"

definition sample_filled_db :: db where
  "sample_filled_db = sample_state FILLED sample_fill_events [sample_committed] [sample_receipt_row ''r1'' 60000000]"

lemma sample_receipt_seq [simp]: "ev_seq (sample_receipt_event rid out) = 7"
  by (simp add: sample_receipt_event_def)

lemma sample_idle_effect:
  "st \<in> {INCLUDED, CONFIRMED, RECONCILED} \<Longrightarrow>
     transition_effect sample_action i st (sample_state s evs rs fs) = (Inr (), sample_state s evs rs fs)"
  by (elim insertE emptyE; simp add: transition_effect_def RELEASING_STATES_def sbind_run body_defs execution_surface_present_def)

lemma sample_settling_effects:
  "transition_effect sample_action i FILLED (sample_state s evs [sample_reservation] fs) =
     (Inr (), sample_state s evs [set_settled (COMMITTED, Some (next_seq (sample_state s evs [sample_reservation] fs))) sample_reservation] fs)"
  "transition_effect sample_action (sample_intent_row RESERVED) CANCELLED (sample_state s evs [sample_reservation] fs) =
     (Inr (), sample_state s evs [set_settled (RELEASED, Some (next_seq (sample_state s evs [sample_reservation] fs))) sample_reservation] fs)"
  by (simp_all add: transition_effect_def RELEASING_STATES_def sbind_run body_defs execution_surface_present_def
      settle_reservation_run sample_settled)

lemma sample_reservation_reachable: "reachable sample_hash (sample_state RESERVED [] [sample_reservation] [])"
  using sample_reserved_reachable by (simp add: sample_reserved_state)

lemma sample_receipt_args: "0 < out \<Longrightarrow> op_args_ok (AppendReceipt (sample_receipt rid out) 1000)"
  by (simp add: make_receipt_def sample_receipt_def)

lemma sample_step_reachable:
  assumes "reachable sample_hash (sample_state st evs rs fs)" "is_legal_transition st st'"
    and "next_seq (sample_state st' evs rs' fs) = n" "list_all (\<lambda>e. ev_seq e < n) evs" "6 < n"
    and "transition_effect sample_action (sample_intent_row st) st' (sample_state st evs rs fs) = (Inr (), sample_state st evs rs' fs)"
  shows "reachable sample_hash (sample_state st' (evs @ [sample_move n st st']) rs' fs)"
  by (rule reachable_body [OF assms(1) _ sample_transition [OF assms(2-6)]]) simp

lemma sample_filled_reachable: "reachable sample_hash sample_filled_db"
proof -
  have "reachable sample_hash (sample_state RESERVED [sample_receipt_event ''r1'' 60000000] [sample_reservation] [sample_receipt_row ''r1'' 60000000])"
    by (rule reachable_body [OF sample_reservation_reachable sample_receipt_args sample_fills]) simp_all
  from sample_step_reachable [OF this, where st' = INCLUDED and n = 8, OF _ _ _ _ sample_idle_effect]
  have "reachable sample_hash (sample_state INCLUDED [sample_receipt_event ''r1'' 60000000, sample_move 8 RESERVED INCLUDED]
      [sample_reservation] [sample_receipt_row ''r1'' 60000000])"
    by (simp add: is_legal_transition_def sample_next)
  from sample_step_reachable [OF this, where st' = CONFIRMED and n = 9, OF _ _ _ _ sample_idle_effect]
  have "reachable sample_hash (sample_state CONFIRMED [sample_receipt_event ''r1'' 60000000, sample_move 8 RESERVED INCLUDED,
      sample_move 9 INCLUDED CONFIRMED] [sample_reservation] [sample_receipt_row ''r1'' 60000000])"
    by (simp add: is_legal_transition_def sample_next)
  from sample_step_reachable [OF this, where st' = RECONCILED and n = 10, OF _ _ _ _ sample_idle_effect]
  have "reachable sample_hash (sample_state RECONCILED [sample_receipt_event ''r1'' 60000000, sample_move 8 RESERVED INCLUDED,
      sample_move 9 INCLUDED CONFIRMED, sample_move 10 CONFIRMED RECONCILED] [sample_reservation] [sample_receipt_row ''r1'' 60000000])"
    by (simp add: is_legal_transition_def sample_next)
  from sample_step_reachable [OF this, where st' = FILLED and n = 11, OF _ _ _ _ sample_settling_effects(1)] show ?thesis
    by (simp add: is_legal_transition_def sample_next sample_filled_db_def sample_fill_events_def sample_committed_def)
qed

lemma sample_opening_payload: "ev_payload sample_opening = plain_payload 0"
  by (simp add: sample_opening_def sample_event_def plain_payload_def)

lemma sample_openings: "opening_events sample_filled_db = [sample_opening]"
  using inv_parts(2) [OF reachable_inv [OF sample_filled_reachable]]
  by (simp add: opening_events_filter)
    (simp add: sample_filled_db_def sample_opening_def sample_created_def sample_reserved_events_def sample_fill_events_def
      sample_move_def sample_receipt_event_def)

lemma sample_inventory: "inventory_atomic (sample_digest @ '':0'') sample_filled_db = Inr 60000000"
proof -
  have e: "opening_of (sample_digest @ '':0'') sample_filled_db = Some sample_opening"
    using inv_parts(2) [OF reachable_inv [OF sample_filled_reachable]]
    by (simp add: opening_of_def opening_events_filter) (simp add: sample_filled_db_def sample_opening_def tbl_simps)
  note sample_openings
  moreover note sample_opening_payload
  moreover have "settled_inventory (sample_digest @ '':0'') sample_filled_db = 60000000"
    by (simp add: settled_inventory_def filled_sum_def total_filled_def sample_filled_db_def)
      (simp add: sample_intent_row_def sample_receipt_row_def)
  moreover have "find_row cr_id (sample_digest @ '':0'') (cycles sample_filled_db) = Some sample_cycle"
    by (simp add: sample_filled_db_def tbl_simps)
  ultimately show ?thesis
    using inventory_defined [OF reachable_openings [OF sample_filled_reachable] _ e]
    by (simp add: taken_out_def carried_in_def carried_out_def payload_carries)
qed

text \<open>The next cycle of the same policy takes over the inventory.\<close>

lemma sample_cycle_simps [simp]:
  "cr_policy sample_cycle = sample_digest" "cr_status sample_cycle = OPEN" "cr_index sample_cycle = 0"
  "pr_canonical sample_policy_row = canonical sample_admitted_policy"
  by (simp_all add: sample_cycle_def sample_policy_row_def)

lemma sample_continues:
  "\<exists>d'. op_body sample_hash (ContinueInventory (sample_digest @ '':0'') sample_admitted_policy 1 1000) sample_filled_db = (Inr (), d')"
proof -
  have cid: "cycle_id_for sample_digest 1 = Inr (sample_digest @ '':1'')"
    using nat_str_digits_val [of "''1''"]
    by (simp add: cycle_id_for_def str_int_def canon_digits_def is_digit_def digit_val_def)
  have tables: "policies sample_filled_db = [sample_policy_row]" "cycles sample_filled_db = [sample_cycle]"
    "intents sample_filled_db = [sample_intent_row FILLED]"
    by (simp_all add: sample_filled_db_def)
  let ?d = "update_cycle_status (sample_digest @ '':0'') COMPLETED sample_filled_db"
  have seqs: "seqs_ok ?d"
    using inv_parts(2) [OF reachable_inv [OF sample_filled_reachable]] by (simp add: seqs_ok_def del: upt_Suc)
  have now: "(0::int) \<le> 1000" "(1000::int) \<le> INT64_MAX" by (simp_all add: INT64_MAX_def)
  let ?e = "event_of ?d CYCLE_COMPLETED sample_digest (sample_digest @ '':0'') None (Some (Cycle OPEN)) (Some (Cycle COMPLETED)) 1000 (JObj [])"
  have close: "append_event CYCLE_COMPLETED sample_digest (sample_digest @ '':0'') None (Some (Cycle OPEN)) (Some (Cycle COMPLETED)) 1000 (JObj []) ?d =
      (Inr (next_seq ?d), push_event ?e ?d)"
    by (rule append_cycle_event_run [OF seqs])
      (simp_all add: tables tbl_simps update_cycle_status_def CYCLE_EVENT_TYPES_def now)
  let ?c = "new_cycle sample_digest (sample_digest @ '':1'') 1"
  have ins: "insert_cycle ?c (push_event ?e ?d) = Inr (with_cycle ?c (push_event ?e ?d))"
    by (simp add: insert_cycle_Inr with_cycle_def tables tbl_simps update_cycle_status_def new_cycle_def cycle_slot_def
        update_row_def set_cycle_status_def)
  have seqs2: "seqs_ok (with_cycle ?c (push_event ?e ?d))"
    using seqs_push [OF seqs] by (simp add: seqs_ok_def del: upt_Suc)
  have open2: "\<exists>n d'. append_event CYCLE_OPENED sample_digest (sample_digest @ '':1'') None None (Some (Cycle OPEN)) 1000 pl (with_cycle ?c (push_event ?e ?d)) = (Inr n, d')" for pl
    by (intro exI, rule append_cycle_event_run [OF seqs2])
      (simp_all add: tables tbl_simps new_cycle_def CYCLE_EVENT_TYPES_def now)
  obtain n d3 where d3: "append_event CYCLE_OPENED sample_digest (sample_digest @ '':1'') None None (Some (Cycle OPEN)) 1000
      (carry_payload 1 60000000 (sample_digest @ '':0'')) (with_cycle ?c (push_event ?e ?d)) = (Inr n, d3)"
    using open2 by blast
  have "\<exists>d'. continue_inventory_body sample_hash (sample_digest @ '':0'') sample_admitted_policy 1 (sample_digest @ '':1'') 1000 sample_filled_db = (Inr (sample_digest @ '':1''), d')"
    using d3 ins
    by (simp add: sbind_run body_defs continue_inventory_body_def tables find_row_Cons sample_openings
      sample_inventory close has_row_simps TERMINAL_STATES_def new_cycle_def payload_carries sample_opening_payload carry_payload_def)
  then show ?thesis by (auto simp: body_unit_def sbind_run body_defs cid)
qed

subsection \<open>Witnesses\<close>

lemma run_of_body: "op_body H op d = (Inr (), d') \<Longrightarrow> run H op (at_rest d) = (None, at_rest d')"
  by (simp add: run_top del: run.simps op_body.simps)

lemma out_of_bounds_receipt_halts_witness:
  "\<exists>lg. run sample_hash (AppendReceipt (sample_receipt ''r1'' 10000000) 1000) (at_rest sample_reserved_db) = (None, lg) \<and>
     (\<exists>i'. find_row nr_id sample_action (intents (lg_db lg)) = Some i' \<and> nr_state i' = SAFE_HALT)"
proof -
  obtain evs b where body: "op_body sample_hash (AppendReceipt (sample_receipt ''r1'' 10000000) 1000) sample_reserved_db =
      (Inr (), sample_state SAFE_HALT evs [b] [sample_receipt_row ''r1'' 10000000])"
    using sample_halts [of 10000000 "''r1''"] by (auto simp: sample_reserved_state)
  let ?d = "sample_state SAFE_HALT evs [b] [sample_receipt_row ''r1'' 10000000]"
  have id: "rc_economic_action_id (sample_receipt ''r1'' 10000000) = sample_action" by (simp add: sample_receipt_def)
  have i: "find_row nr_id (rc_economic_action_id (sample_receipt ''r1'' 10000000)) (intents sample_reserved_db) =
      Some (sample_intent_row RESERVED)"
    by (simp add: id find_row_Cons)
  have "total_filled fr_input sample_action ?d = 100000000" "total_filled fr_output sample_action ?d = 10000000"
    by (simp_all add: total_filled_def sample_receipt_row_def)
  then have "\<exists>i'. find_row nr_id sample_action (intents ?d) = Some i' \<and> nr_state i' = SAFE_HALT"
    using out_of_bounds_receipt_halts [OF sample_reserved_reachable run_of_body [OF body] i sample_bounds_amounts]
    by (simp add: fills_within_def)
  then show ?thesis using run_of_body [OF body] by auto
qed

lemma capital_released_only_on_proof_witness:
  "\<exists>lg b. run sample_hash (Transition sample_action CANCELLED 1000 []) (at_rest sample_reserved_db) = (None, lg) \<and>
     find_row br_id sample_action (budget_reservations (lg_db lg)) = Some b \<and> br_status b = RELEASED \<and>
     (\<exists>i. find_row nr_id sample_action (intents sample_reserved_db) = Some i \<and>
       (nr_state i = RESERVED \<or> has_bound_reverted_reconciliation sample_action sample_reserved_db = Inr True))"
proof -
  let ?b = "set_settled (RELEASED, Some 7) sample_reservation"
  let ?d = "sample_state CANCELLED ([] @ [sample_move 7 RESERVED CANCELLED]) [?b] []"
  have "op_body sample_hash (Transition sample_action CANCELLED 1000 []) (sample_state RESERVED [] [sample_reservation] []) = (Inr (), ?d)"
    by (rule sample_transition) (simp_all add: is_legal_transition_def sample_settling_effects sample_next)
  then have run: "run sample_hash (Transition sample_action CANCELLED 1000 []) (at_rest sample_reserved_db) = (None, at_rest ?d)"
    unfolding sample_reserved_state by (rule run_of_body)
  have b: "find_row br_id sample_action (budget_reservations sample_reserved_db) = Some sample_reservation"
    "find_row br_id sample_action (budget_reservations (lg_db (at_rest ?d))) = Some ?b" "br_status ?b = RELEASED"
    by (simp_all add: find_row_Cons set_settled_def)
  have "br_status sample_reservation \<noteq> RELEASED" by simp
  from capital_released_only_on_proof [OF sample_reserved_reachable run b(1) this b(2,3)] show ?thesis
    using run b(2,3) by blast
qed

lemma inventory_carried_once_witness:
  "inventory_atomic (sample_digest @ '':0'') sample_filled_db = Inr 60000000 \<and>
   inventory_atomic (sample_digest @ '':1'') (db_after sample_hash (ContinueInventory (sample_digest @ '':0'') sample_admitted_policy 1 1000) sample_filled_db) =
     Inr 60000000"
proof -
  let ?op = "ContinueInventory (sample_digest @ '':0'') sample_admitted_policy 1 1000"
  obtain d' where body: "op_body sample_hash ?op sample_filled_db = (Inr (), d')" using sample_continues by blast
  have args: "op_args_ok ?op" using sample_policy_parses by auto
  have cid: "cycle_id_for (policy_id sample_hash sample_admitted_policy) 1 = Inr (sample_digest @ '':1'')"
    using nat_str_digits_val [of "''1''"]
    by (simp add: cycle_id_for_def str_int_def canon_digits_def is_digit_def digit_val_def)
  from inventory_carried_once [OF sample_filled_reachable args run_of_body [OF body] cid] show ?thesis
    using run_of_body [OF body] sample_inventory by (auto simp: db_after_def simp del: run.simps)
qed

end
