(* ===== verification/Recovery.thy ===== *)
theory Recovery
  imports SampleFill
begin

text \<open>
  Restart recovery, \<open>qntyspot/ledger/recovery.py\<close>: every non-terminal intent is sorted by its
  state alone into abandon, halt or complete, and the transitions run one by one, each in
  a transaction of its own. What a restart guarantees follows: everything ends terminal,
  nothing that may exist outside the process is released, and nothing is executed.
\<close>

datatype RecoveryDisposition = ABANDON | RECONCILIATION_REQUIRED | COMPLETE_FROM_RECEIPT

primrec RecoveryDisposition_value :: "RecoveryDisposition \<Rightarrow> string" where
  "RecoveryDisposition_value ABANDON = ''ABANDON''"
| "RecoveryDisposition_value RECONCILIATION_REQUIRED = ''RECONCILIATION_REQUIRED''"
| "RecoveryDisposition_value COMPLETE_FROM_RECEIPT = ''COMPLETE_FROM_RECEIPT''"

record RecoveryAction =
  ra_action :: string
  ra_from :: intent_state
  ra_to :: intent_state
  ra_disposition :: RecoveryDisposition
  ra_reason :: string

primrec IntentState_value :: "intent_state \<Rightarrow> string" where
  "IntentState_value ARMED = ''ARMED''"
| "IntentState_value TRIGGERED = ''TRIGGERED''"
| "IntentState_value QUOTE_PINNED = ''QUOTE_PINNED''"
| "IntentState_value SIMULATED = ''SIMULATED''"
| "IntentState_value RESERVED = ''RESERVED''"
| "IntentState_value SIGNED = ''SIGNED''"
| "IntentState_value SUBMITTED = ''SUBMITTED''"
| "IntentState_value INCLUDED = ''INCLUDED''"
| "IntentState_value CONFIRMED = ''CONFIRMED''"
| "IntentState_value RECONCILED = ''RECONCILED''"
| "IntentState_value FILLED = ''FILLED''"
| "IntentState_value CANCELLED = ''CANCELLED''"
| "IntentState_value EXPIRED = ''EXPIRED''"
| "IntentState_value REJECTED = ''REJECTED''"
| "IntentState_value SAFE_HALT = ''SAFE_HALT''"

definition receipt_count :: "db \<Rightarrow> string \<Rightarrow> nat" where
  "receipt_count d a = length (filter (\<lambda>f. fr_action f = a) (fill_receipts d))"

definition external_ref_count :: "db \<Rightarrow> string \<Rightarrow> nat" where
  "external_ref_count d a =
     (case exec_surface d of None \<Rightarrow> 0
      | Some e \<Rightarrow> length (filter (\<lambda>r. er_economic_action r = a) (external_transaction_refs e)))"

definition recovery_action :: "db \<Rightarrow> intent_row \<Rightarrow> RecoveryAction option" where
  "recovery_action d i =
     (let state = nr_state i; act = (\<lambda>dst disp reason. Some \<lparr>ra_action = nr_id i, ra_from = state,
        ra_to = dst, ra_disposition = disp, ra_reason = reason\<rparr>) in
      if state \<in> TERMINAL_STATES then None
      else if state = RESERVED \<and> external_ref_count d (nr_id i) > 0 then
        act SAFE_HALT RECONCILIATION_REQUIRED
          (''a reserved action has an externally created transaction reference; '' @
           ''restart must reconcile chain truth and may not release its hold'')
      else if state \<in> PRE_COMMITMENT_STATES then
        act CANCELLED ABANDON
          (''no venue-visible step was taken before the restart; the rung is '' @
           ''abandoned and its EconomicActionID stays consumed for this cycle'')
      else if state \<in> EXTERNALLY_AMBIGUOUS_STATES then
        act SAFE_HALT RECONCILIATION_REQUIRED
          (''restart found the action in '' @ IntentState_value state @ ''; the outcome is only '' @
           ''knowable from external truth, and V0A has no reconciler'')
      else if state = RECONCILED \<and> receipt_count d (nr_id i) > 0 then
        act FILLED COMPLETE_FROM_RECEIPT
          (''a durable fill receipt already exists; completing is bookkeeping '' @
           ''over recorded evidence, not a new economic action'')
      else
        act SAFE_HALT RECONCILIATION_REQUIRED
          (IntentState_value state @ '' without a fill receipt is a contradiction the '' @
           ''ledger cannot resolve on its own''))"

definition recovery_actions :: "db \<Rightarrow> RecoveryAction list" where
  "recovery_actions d = List.map_filter (recovery_action d) (sort_key nr_id (intents d))"

fun apply_recovery :: "int \<Rightarrow> RecoveryAction list \<Rightarrow> ledger \<Rightarrow> (error + unit) \<times> ledger" where
  "apply_recovery now [] lg = (Inr (), lg)"
| "apply_recovery now (act # acts) lg =
     (case transition (ra_action act) (ra_to act) now
         [(''recovery'', JStr (RecoveryDisposition_value (ra_disposition act))),
          (''reason'', JStr (ra_reason act))] lg of
        (Inl e, lg') \<Rightarrow> (Inl e, lg')
      | (Inr _, lg') \<Rightarrow> apply_recovery now acts lg')"

definition recover :: "int \<Rightarrow> ledger \<Rightarrow> (error + RecoveryAction list) \<times> ledger" where
  "recover now lg =
     (let acts = recovery_actions (lg_db lg) in
      case apply_recovery now acts lg of
        (Inl e, lg') \<Rightarrow> (Inl e, lg')
      | (Inr _, lg') \<Rightarrow> (Inr acts, lg'))"

subsection \<open>One action\<close>

definition settled_evidence :: "db \<Rightarrow> bool" where
  "settled_evidence d \<longleftrightarrow> (exec_surface d \<noteq> None \<longrightarrow>
     list_all (\<lambda>i. nr_state i = RECONCILED \<and> 0 < receipt_count d (nr_id i) \<longrightarrow>
       has_settled_receipt (nr_id i) d = Inr True) (intents d))"

lemma recovery_action_Some:
  assumes "recovery_action d i = Some act"
  shows "ra_action act = nr_id i \<and> ra_from act = nr_state i \<and> nr_state i \<notin> TERMINAL_STATES \<and>
    is_legal_transition (nr_state i) (ra_to act) \<and> ra_to act \<in> {CANCELLED, SAFE_HALT, FILLED} \<and>
    (ra_to act = CANCELLED \<longrightarrow> nr_state i \<in> PRE_COMMITMENT_STATES) \<and>
    (ra_to act = FILLED \<longrightarrow> nr_state i = RECONCILED \<and> 0 < receipt_count d (nr_id i))"
  using assms
  by (cases "nr_state i") (auto simp: recovery_action_def Let_def state_class_defs is_legal_transition_def split: if_splits)

lemma recovery_action_None: "recovery_action d i = None \<longleftrightarrow> nr_state i \<in> TERMINAL_STATES"
  by (simp add: recovery_action_def Let_def)

text \<open>What an action reads besides its intent never changes during a recovery.\<close>

definition same_evidence :: "db \<Rightarrow> db \<Rightarrow> bool" where
  "same_evidence d d' \<longleftrightarrow> fill_receipts d' = fill_receipts d \<and> exec_surface d' = exec_surface d"

lemma recovery_effect:
  assumes act: "recovery_action d i = Some act" and ev: "settled_evidence d" "i \<in> set (intents d)" "same_evidence d d'"
  shows "transition_effect (nr_id i) i (ra_to act) d' = (Inr (), effect_db i (ra_to act) d')"
proof -
  note a = recovery_action_Some [OF act]
  consider "ra_to act = CANCELLED" "nr_state i \<in> PRE_COMMITMENT_STATES" | "ra_to act = SAFE_HALT"
    | "ra_to act = FILLED" "nr_state i = RECONCILED" "0 < receipt_count d (nr_id i)"
    using a by auto
  then show ?thesis
  proof cases
    case 1
    then show ?thesis
      by (auto simp: transition_effect_def effect_db_def Let_def RELEASING_STATES_def PRE_COMMITMENT_STATES_def
          sbind_run body_defs settle_reservation_run)
  next
    case 2
    then show ?thesis by (simp add: transition_effect_def effect_db_def RELEASING_STATES_def settle_reservation_run)
  next
    case 3
    have "has_settled_receipt (nr_id i) d' = has_settled_receipt (nr_id i) d" "exec_surface d' = exec_surface d"
      using ev(3) by (simp_all add: same_evidence_def has_settled_receipt_def cong: option.case_cong)
    moreover have "has_settled_receipt (nr_id i) d = Inr True" if "exec_surface d \<noteq> None"
      using ev(1,2) 3 that by (auto simp: settled_evidence_def list_all_iff)
    ultimately show ?thesis using 3
      by (auto simp: transition_effect_def effect_db_def Let_def sbind_run body_defs execution_surface_present_def
          settle_reservation_run)
  qed
qed

lemma transition_moves:
  assumes "ledger_inv d" "find_row nr_id a (intents d) = Some i" "nr_id i = a" "transition_checked i st d" "st \<noteq> RESERVED"
    "scope_ok scope"
  shows "held_where scope (update_intent_state a st (effect_db i st d)) \<le> held_where scope d"
proof -
  note inv = inv_parts [OF assms(1)]
  have legal: "is_legal_transition (nr_state i) st" using assms(4) by (simp add: transition_checked_def)
  have "fst (move_value i st d) = RELEASED"
    if r: "r \<in> set (budget_reservations d)" "br_id r = a" "br_status r = RELEASED" for r
  proof -
    have "find_row br_id a (budget_reservations d) = Some r"
      using r inv(1) by (subst find_row_iff) (auto simp: keys_ok_def)
    from coupled_reservation [OF inv(4) assms(2) this] status_of_move [OF legal] r(3) show ?thesis by auto
  qed
  from held_moved_le [OF assms(6) inv(4) this] show ?thesis
    using effect_moved [OF inv(1) assms(5), of i] assms(3) by simp
qed

lemma recovery_step:
  assumes act: "recovery_action d i = Some act" and i: "i \<in> set (intents d)"
    and ev: "settled_evidence d" "same_evidence d d'" and inv: "ledger_inv d'"
    and found: "find_row nr_id (nr_id i) (intents d') = Some i" and now: "0 \<le> now" "now \<le> INT64_MAX"
  shows "\<exists>d1. transition (ra_action act) (ra_to act) now pl (at_rest d') = (Inr (), at_rest d1) \<and> ledger_inv d1 \<and>
    same_evidence d d1 \<and> extends d' d1 \<and> intents d1 = update_row nr_id (nr_id i) (set_state (ra_to act)) (intents d') \<and>
    (\<forall>scope. scope_ok scope \<longrightarrow> held_where scope d1 \<le> held_where scope d')"
proof -
  note a = recovery_action_Some [OF act] and p = inv_parts [OF inv]
  have legal: "is_legal_transition (nr_state i) (ra_to act)" and no_res: "ra_to act \<noteq> RESERVED" using a by auto
  have eff: "transition_effect (nr_id i) i (ra_to act) d' = (Inr (), effect_db i (ra_to act) d')"
    by (rule recovery_effect [OF act ev(1) i ev(2)])
  let ?d1 = "push_event (transition_event i (ra_to act) now (JObj pl) d')
      (update_intent_state (nr_id i) (ra_to act) (effect_db i (ra_to act) d'))"
  have body: "transition_body (nr_id i) (ra_to act) now pl d' = (Inr (), ?d1)"
    by (rule transition_runs [OF p(2,3) found legal eff now])
  have chk: "transition_checked i (ra_to act) d'" using transition_effect_Inr [OF eff legal] by simp
  have "transition (ra_action act) (ra_to act) now pl (at_rest d') = (Inr (), at_rest ?d1)"
    using a body by (simp add: transition_def write_txn_top)
  moreover have "ledger_inv ?d1" using op_body_inv [of H "Transition (nr_id i) (ra_to act) now pl"] body inv by simp
  moreover have "extends d' ?d1"
    using extended.op_invariant [of H "Transition (nr_id i) (ra_to act) now pl" d' "()" ?d1 d'] body by simp
  moreover have "same_evidence d ?d1" using ev(2) by (simp add: same_evidence_def push_event_def table_updates)
  moreover have "intents ?d1 = update_row nr_id (nr_id i) (set_state (ra_to act)) (intents d')"
    by (simp add: update_intent_state_def)
  moreover have "\<forall>scope. scope_ok scope \<longrightarrow> held_where scope ?d1 \<le> held_where scope d'"
    using transition_moves [OF inv found refl chk no_res] by simp
  ultimately show ?thesis by (intro exI [of _ ?d1] conjI)
qed

subsection \<open>The whole recovery\<close>

definition rec_state :: "RecoveryAction list \<Rightarrow> intent_row \<Rightarrow> intent_row" where
  "rec_state acts i = (case find_row ra_action (nr_id i) acts of None \<Rightarrow> i | Some act \<Rightarrow> set_state (ra_to act) i)"

lemma rec_state_Cons:
  assumes "ra_action act \<notin> ra_action ` set acts"
  shows "map (rec_state acts) (update_row nr_id (ra_action act) (set_state (ra_to act)) is) = map (rec_state (act # acts)) is"
proof -
  have "find_row ra_action (ra_action act) acts = None"
    using assms by (auto simp: find_row_None has_row_def)
  then show ?thesis
    by (auto simp: update_row_def rec_state_def find_row_Cons set_state_def)
qed

lemma apply_recovery_runs:
  assumes "distinct (map ra_action acts)" "settled_evidence d" "same_evidence d d'" "ledger_inv d'" "0 \<le> now" "now \<le> INT64_MAX"
    and "\<And>act. act \<in> set acts \<Longrightarrow> \<exists>i \<in> set (intents d). recovery_action d i = Some act \<and>
      find_row nr_id (nr_id i) (intents d') = Some i"
  shows "\<exists>d''. apply_recovery now acts (at_rest d') = (Inr (), at_rest d'') \<and> ledger_inv d'' \<and> same_evidence d d'' \<and>
    extends d' d'' \<and> intents d'' = map (rec_state acts) (intents d') \<and> (\<forall>scope. scope_ok scope \<longrightarrow> held_where scope d'' \<le> held_where scope d')"
  using assms(1,3,4,7)
proof (induction acts arbitrary: d')
  case Nil
  then show ?case by (auto simp: rec_state_def find_row_Cons)
next
  case (Cons act acts)
  from Cons.prems(4) [of act] obtain i where i: "i \<in> set (intents d)" "recovery_action d i = Some act"
    "find_row nr_id (nr_id i) (intents d') = Some i" by auto
  from recovery_step [OF i(2,1) assms(2) Cons.prems(2,3) i(3) assms(5,6)] obtain d1 where
    d1: "transition (ra_action act) (ra_to act) now [(''recovery'', JStr (RecoveryDisposition_value (ra_disposition act))),
          (''reason'', JStr (ra_reason act))] (at_rest d') = (Inr (), at_rest d1)"
      "ledger_inv d1" "same_evidence d d1" "extends d' d1" "intents d1 = update_row nr_id (nr_id i) (set_state (ra_to act)) (intents d')"
      "\<And>scope. scope_ok scope \<Longrightarrow> held_where scope d1 \<le> held_where scope d'"
    by blast
  have id: "ra_action act = nr_id i" using recovery_action_Some [OF i(2)] by simp
  have "\<exists>j \<in> set (intents d). recovery_action d j = Some x \<and> find_row nr_id (nr_id j) (intents d1) = Some j"
    if "x \<in> set acts" for x
  proof -
    obtain j where j: "j \<in> set (intents d)" "recovery_action d j = Some x" "find_row nr_id (nr_id j) (intents d') = Some j"
      using Cons.prems(4) [of x] \<open>x \<in> set acts\<close> by auto
    have "ra_action x = nr_id j" using recovery_action_Some [OF j(2)] by simp
    then have "nr_id j \<noteq> nr_id i" using Cons.prems(1) that id by force
    then show ?thesis using j by (intro bexI [of _ j]) (auto simp: d1(5) upd_intent.find_update)
  qed
  from Cons.IH [OF _ d1(3,2) this] Cons.prems(1) obtain d'' where
    d'': "apply_recovery now acts (at_rest d1) = (Inr (), at_rest d'')" "ledger_inv d''" "same_evidence d d''" "extends d1 d''"
      "intents d'' = map (rec_state acts) (intents d1)" "\<And>scope. scope_ok scope \<Longrightarrow> held_where scope d'' \<le> held_where scope d1"
    by auto
  have "intents d'' = map (rec_state (act # acts)) (intents d')"
    using rec_state_Cons [of act acts "intents d'"] Cons.prems(1) by (simp add: d''(5) d1(5) id)
  moreover have "held_where scope d'' \<le> held_where scope d'" if "scope_ok scope" for scope
    using d''(6) [OF that] d1(6) [OF that] by simp
  moreover have "extends d' d''" by (rule extends_trans [OF d1(4) d''(4)])
  ultimately show ?case using d1(1) d''(1-3) by auto
qed

text \<open>The row of an intent after recovery.\<close>

definition recovered :: "db \<Rightarrow> intent_row \<Rightarrow> intent_row" where
  "recovered d i = (case recovery_action d i of None \<Rightarrow> i | Some act \<Rightarrow> set_state (ra_to act) i)"

lemma recovery_actions_keys:
  assumes "keys_ok d"
  shows "distinct (map ra_action (recovery_actions d))"
    and "act \<in> set (recovery_actions d) \<longleftrightarrow> (\<exists>i \<in> set (intents d). recovery_action d i = Some act)"
proof -
  have "distinct (map nr_id (sort_key nr_id (intents d)))"
    using assms by (simp add: keys_ok_def distinct_map)
  moreover have "distinct (map nr_id is) \<Longrightarrow> distinct (map ra_action (List.map_filter (recovery_action d) is)) \<and>
      ra_action ` set (List.map_filter (recovery_action d) is) \<subseteq> nr_id ` set is" for "is"
  proof (induction "is")
    case (Cons i "is")
    then show ?case
      using recovery_action_Some [of d i] by (auto simp: List.map_filter_simps split: option.splits)
  qed (simp add: List.map_filter_simps)
  ultimately show "distinct (map ra_action (recovery_actions d))" by (simp add: recovery_actions_def)
  show "act \<in> set (recovery_actions d) \<longleftrightarrow> (\<exists>i \<in> set (intents d). recovery_action d i = Some act)"
    by (auto simp: recovery_actions_def List.map_filter_def image_iff)
qed

lemma rec_state_recovered:
  assumes "keys_ok d" "i \<in> set (intents d)"
  shows "rec_state (recovery_actions d) i = recovered d i"
proof (cases "recovery_action d i")
  case None
  have "\<not> has_row ra_action (nr_id i) (recovery_actions d)"
  proof
    assume "has_row ra_action (nr_id i) (recovery_actions d)"
    then obtain j act where "j \<in> set (intents d)" "recovery_action d j = Some act" "ra_action act = nr_id i"
      by (auto simp: has_row_def recovery_actions_keys(2) [OF assms(1)])
    moreover then have "j = i" using assms recovery_action_Some [of d j act]
      by (auto simp: keys_ok_def distinct_map inj_on_def)
    ultimately show False using None by simp
  qed
  then have "find_row ra_action (nr_id i) (recovery_actions d) = None" by (simp add: find_row_None)
  then show ?thesis using None by (simp add: rec_state_def recovered_def)
next
  case (Some act)
  then have "find_row ra_action (nr_id i) (recovery_actions d) = Some act"
    using recovery_actions_keys [OF assms(1)] recovery_action_Some [OF Some] assms(2)
    by (subst find_row_iff) auto
  then show ?thesis using Some by (simp add: rec_state_def recovered_def)
qed

lemma recover_runs:
  assumes "ledger_inv d" "settled_evidence d" "0 \<le> now" "now \<le> INT64_MAX"
  shows "\<exists>d'. recover now (at_rest d) = (Inr (recovery_actions d), at_rest d') \<and> ledger_inv d' \<and> same_evidence d d' \<and>
    extends d d' \<and> intents d' = map (recovered d) (intents d) \<and> (\<forall>scope. scope_ok scope \<longrightarrow> held_where scope d' \<le> held_where scope d)"
proof -
  note k = inv_parts(1) [OF assms(1)]
  have found: "\<exists>i \<in> set (intents d). recovery_action d i = Some act \<and> find_row nr_id (nr_id i) (intents d) = Some i"
    if "act \<in> set (recovery_actions d)" for act
    using that k by (auto simp: recovery_actions_keys(2) [OF k] find_row_iff keys_ok_def)
  have "same_evidence d d" by (simp add: same_evidence_def)
  from apply_recovery_runs [OF recovery_actions_keys(1) [OF k] assms(2) this assms(1,3,4) found]
  obtain d' where "apply_recovery now (recovery_actions d) (at_rest d) = (Inr (), at_rest d')" "ledger_inv d'" "same_evidence d d'" "extends d d'"
    "intents d' = map (rec_state (recovery_actions d)) (intents d)" "\<forall>scope. scope_ok scope \<longrightarrow> held_where scope d' \<le> held_where scope d"
    by blast
  moreover have "map (rec_state (recovery_actions d)) (intents d) = map (recovered d) (intents d)"
    by (rule map_cong [OF refl rec_state_recovered [OF k]])
  ultimately show ?thesis by (intro exI [of _ d']) (simp add: recover_def)
qed

lemma recovered_terminal: "nr_state (recovered d i) \<in> TERMINAL_STATES"
proof (cases "recovery_action d i")
  case None
  then have "nr_state i \<in> TERMINAL_STATES" using recovery_action_None by blast
  then show ?thesis using None by (simp add: recovered_def)
next
  case (Some act)
  then show ?thesis using recovery_action_Some [OF Some]
    by (auto simp: recovered_def set_state_def TERMINAL_STATES_def)
qed

lemma recover_terminal:
  assumes "list_all (\<lambda>i. nr_state i \<in> TERMINAL_STATES) (intents d)"
  shows "recover now (at_rest d) = (Inr [], at_rest d)"
proof -
  have "recovery_actions d = []"
    using assms by (auto simp: recovery_actions_def List.map_filter_def filter_empty_conv list_all_iff recovery_action_None
        simp flip: not_None_eq)
  then show ?thesis by (simp add: recover_def)
qed

text \<open>
  \<^bold>\<open>C8.\<close> A restart brings the ledger to rest: the recovery returns, every intent ends in
  exactly the state its own action names and that state is terminal, no held amount grows
  in any scope, and recovering again finds nothing to do. The one assumption is that an
  action already RECONCILED with a receipt under the execution runtime has its
  settlement recorded.
\<close>

theorem recovery_terminates_safely:
  assumes "reachable H d" "settled_evidence d" "0 \<le> now" "now \<le> INT64_MAX"
  shows "\<exists>d'. recover now (at_rest d) = (Inr (recovery_actions d), at_rest d') \<and>
    intents d' = map (recovered d) (intents d) \<and>
    list_all (\<lambda>i. nr_state i \<in> TERMINAL_STATES) (intents d') \<and>
    recover now (at_rest d') = (Inr [], at_rest d') \<and>
    held_atomic pid iid nid d' \<le> held_atomic pid iid nid d"
proof -
  from recover_runs [OF reachable_inv [OF assms(1)] assms(2-4)] obtain d' where
    d': "recover now (at_rest d) = (Inr (recovery_actions d), at_rest d')" "intents d' = map (recovered d) (intents d)"
    "\<And>scope. scope_ok scope \<Longrightarrow> held_where scope d' \<le> held_where scope d" by blast
  have ended: "list_all (\<lambda>i. nr_state i \<in> TERMINAL_STATES) (intents d')"
    by (simp add: d'(2) list_all_iff recovered_terminal)
  have "scope_ok (\<lambda>r. (case pid of None \<Rightarrow> True | Some v \<Rightarrow> br_policy r = v) \<and>
      (case iid of None \<Rightarrow> True | Some v \<Rightarrow> br_instrument r = v) \<and> (case nid of None \<Rightarrow> True | Some v \<Rightarrow> br_network r = v))"
    by (simp add: scope_ok_def set_settled_def cong: option.case_cong split: option.split)
  from d'(3) [OF this] show ?thesis
    using d'(1,2) ended recover_terminal [OF ended] unfolding held_atomic_def by blast
qed

text \<open>The state of an action that may exist outside the process.\<close>

definition may_exist_outside :: "db \<Rightarrow> intent_row \<Rightarrow> bool" where
  "may_exist_outside d i \<longleftrightarrow> nr_state i \<in> EXTERNALLY_AMBIGUOUS_STATES \<or>
     nr_state i = RESERVED \<and> external_ref_count d (nr_id i) > 0"

lemma outside_halts: "may_exist_outside d i \<Longrightarrow> nr_state (recovered d i) = SAFE_HALT"
  by (auto simp: may_exist_outside_def recovered_def recovery_action_def Let_def set_state_def state_class_defs)

text \<open>
  \<^bold>\<open>C9.\<close> An unknown outcome is never resolved by acting again: an action that had been
  signed or further, or that was reserved with an externally created transaction, is in
  SAFE_HALT after the restart, and the whole capital it reserved is still counted as
  held, in quarantine.
\<close>

theorem ambiguous_capital_stays_held:
  assumes "reachable H d" "settled_evidence d" "0 \<le> now" "now \<le> INT64_MAX"
    and "i \<in> set (intents d)" "may_exist_outside d i" "nr_exposure i \<noteq> 0"
    and "recover now (at_rest d) = (r, lg)"
  shows "(\<exists>i'. find_row nr_id (nr_id i) (intents (lg_db lg)) = Some i' \<and> nr_state i' = SAFE_HALT) \<and>
    (\<exists>b. find_row br_id (nr_id i) (budget_reservations (lg_db lg)) = Some b \<and> br_status b = QUARANTINED \<and>
      br_amount b = nr_exposure i)"
proof -
  note inv = inv_parts [OF reachable_inv [OF assms(1)]]
  from recover_runs [OF reachable_inv [OF assms(1)] assms(2-4)] obtain d' where
    d': "recover now (at_rest d) = (Inr (recovery_actions d), at_rest d')" "ledger_inv d'"
    "extends d d'" "intents d' = map (recovered d) (intents d)" by blast
  have lg: "lg_db lg = d'" using d'(1) assms(8) by simp
  have row: "nr_id (recovered d j) = nr_id j" "nr_exposure (recovered d j) = nr_exposure j" for j
    by (simp_all add: recovered_def set_state_def split: option.splits)
  have i': "find_row nr_id (nr_id i) (intents d') = Some (recovered d i)"
    using inv_parts(1) [OF d'(2)] assms(5) by (subst find_row_iff) (auto simp: keys_ok_def d'(4) row)
  have "nr_state i \<in> BUDGET_HOLDING_STATES" using assms(6) by (auto simp: may_exist_outside_def state_class_defs)
  then have "has_row br_id (nr_id i) (budget_reservations d)"
    using inv(4) assms(5,7) by (auto simp: coupled_def list_all_iff)
  then have "has_row br_id (nr_id i) (budget_reservations d')"
    using d'(3) set_mono_prefix [of "map br_id (budget_reservations d)"] by (auto simp: extends_def has_row_def simp del: set_map)
  then obtain b where b: "find_row br_id (nr_id i) (budget_reservations d') = Some b" by (blast dest: has_row_find)
  from coupled_reservation [OF inv_parts(4) [OF d'(2)] i' b] show ?thesis
    using i' b outside_halts [OF assms(6)] by (simp add: lg row)
qed

subsection \<open>Witnesses\<close>

text \<open>The reserved rung with an externally created transaction, and without.\<close>

definition sample_external_db :: db where
  "sample_external_db = sample_reserved_db\<lparr>exec_surface := Some
     \<lparr>external_actions = [], signed_transactions = [],
      external_transaction_refs = [\<lparr>or_id = ''x1'', or_action = ''e1'', or_hash = ''0x'', or_chain = 1, or_taker = ''t'',
        er_economic_action = sample_action\<rparr>], chain_observations = [], reconciliations = []\<rparr>\<rparr>"

lemma sample_external_reachable: "reachable sample_hash sample_external_db"
  unfolding sample_external_db_def by (rule reachable.execution [OF sample_reserved_reachable])

lemma sample_external_simps [simp]:
  "intents sample_external_db = [sample_intent_row RESERVED]"
  "budget_reservations sample_external_db = [sample_reservation]"
  by (simp_all add: sample_external_db_def)

lemma recovery_terminates_safely_witness:
  "\<exists>d'. recover 2000 (at_rest sample_reserved_db) = (Inr (recovery_actions sample_reserved_db), at_rest d') \<and>
     intents d' = [sample_intent_row CANCELLED] \<and> held_atomic None None None d' \<le> 100000000"
proof -
  have ev: "settled_evidence sample_reserved_db"
    by (simp add: settled_evidence_def)
  have "external_ref_count sample_reserved_db sample_action = 0"
    by (simp add: external_ref_count_def sample_reserved_state)
  then have "recovered sample_reserved_db (sample_intent_row RESERVED) = sample_intent_row CANCELLED"
    by (simp add: recovered_def recovery_action_def Let_def state_class_defs set_state_def)
  moreover have "held_atomic None None None sample_reserved_db = 100000000"
    by (simp add: held_atomic_def held_where_def sample_reservation_def)
  ultimately show ?thesis
    using recovery_terminates_safely [OF sample_reserved_reachable ev, of 2000 None None None]
    by (auto simp: INT64_MAX_def)
qed

lemma ambiguous_capital_stays_held_witness:
  "\<exists>b. find_row br_id sample_action (budget_reservations (lg_db (snd (recover 2000 (at_rest sample_external_db))))) = Some b \<and>
     br_status b = QUARANTINED \<and> br_amount b = 100000000"
proof -
  have ev: "settled_evidence sample_external_db" by (simp add: settled_evidence_def)
  have out: "may_exist_outside sample_external_db (sample_intent_row RESERVED)"
    by (simp add: may_exist_outside_def external_ref_count_def sample_external_db_def)
  show ?thesis
    using ambiguous_capital_stays_held [OF sample_external_reachable ev _ _ _ out _ prod.collapse [symmetric], of 2000]
    by (auto simp: INT64_MAX_def)
qed

end
