(* ===== verification/Snapshot.thy ===== *)
theory Snapshot
  imports Recovery
begin

text \<open>
  The canonical object of a snapshot, \<open>RuntimeStateV0.canonical_object\<close> in
  \<open>qntyspot/domain.py\<close>: every row of every table as a dict of its columns, a column of
  canonical JSON as its text, an atomic amount as its decimal digits.
\<close>

fun CycleStatus_value :: "CycleStatus \<Rightarrow> string" where
  "CycleStatus_value OPEN = ''OPEN''"
| "CycleStatus_value COMPLETED = ''COMPLETED''"
| "CycleStatus_value HALTED = ''HALTED''"

fun ReservationStatus_value :: "ReservationStatus \<Rightarrow> string" where
  "ReservationStatus_value ACTIVE = ''ACTIVE''"
| "ReservationStatus_value COMMITTED = ''COMMITTED''"
| "ReservationStatus_value RELEASED = ''RELEASED''"
| "ReservationStatus_value QUARANTINED = ''QUARANTINED''"

fun EventType_value :: "EventType \<Rightarrow> string" where
  "EventType_value CYCLE_OPENED = ''CYCLE_OPENED''"
| "EventType_value CYCLE_COMPLETED = ''CYCLE_COMPLETED''"
| "EventType_value CYCLE_HALTED = ''CYCLE_HALTED''"
| "EventType_value INTENT_CREATED = ''INTENT_CREATED''"
| "EventType_value INTENT_TRANSITION = ''INTENT_TRANSITION''"
| "EventType_value FILL_RECEIPT_APPENDED = ''FILL_RECEIPT_APPENDED''"
| "EventType_value EXACT_BYTES_RESUMED = ''EXACT_BYTES_RESUMED''"
| "EventType_value CHAIN_TRUTH_RECOVERED = ''CHAIN_TRUTH_RECOVERED''"

fun state_label_value :: "state_label \<Rightarrow> string" where
  "state_label_value (Intent st) = IntentState_value st"
| "state_label_value (Cycle cs) = CycleStatus_value cs"

subsection \<open>Columns\<close>

definition atomic_column :: "int \<Rightarrow> json" where
  "atomic_column n = JStr (str_int n)"

definition json_column :: "json \<Rightarrow> json" where
  "json_column j = JStr (canonical_json_str j)"

definition null_or :: "('a \<Rightarrow> json) \<Rightarrow> 'a option \<Rightarrow> json" where
  "null_or f v = (case v of None \<Rightarrow> JNull | Some x \<Rightarrow> f x)"

subsection \<open>Rows\<close>

definition policy_row_object :: "policy_row \<Rightarrow> json" where
  "policy_row_object r = JObj [(''policy_id'', JStr (pr_id r)), (''policy_name'', JStr (pr_name r)),
     (''side'', JStr (Side_value (pr_side r))), (''instrument_id'', JStr (pr_instrument r)),
     (''quote_instrument_id'', JStr (pr_quote r)), (''network_id'', JStr (pr_network r)),
     (''allocation_atomic'', atomic_column (pr_allocation r)),
     (''per_order_cap_atomic'', atomic_column (pr_per_order_cap r)),
     (''per_instrument_cap_atomic'', atomic_column (pr_per_instrument_cap r)),
     (''per_network_cap_atomic'', atomic_column (pr_per_network_cap r)),
     (''global_cap_atomic'', atomic_column (pr_global_cap r)),
     (''reserved_cash_atomic'', atomic_column (pr_reserved_cash r)),
     (''max_cycles'', JInt (pr_max_cycles r)), (''canonical_json'', json_column (pr_canonical r))]"

definition instrument_row_object :: "instrument_row \<Rightarrow> json" where
  "instrument_row_object r = JObj [(''instrument_id'', JStr (ir_id r)), (''namespace'', JStr (ir_namespace r)),
     (''network_id'', JStr (ir_network r)), (''decimals'', JInt (ir_decimals r)),
     (''asset_class'', JStr (AssetClass_value (ir_asset_class r))),
     (''identity_digest'', JStr (ir_digest r)), (''identity_json'', json_column (ir_identity r))]"

definition cycle_row_object :: "cycle_row \<Rightarrow> json" where
  "cycle_row_object r = JObj [(''cycle_id'', JStr (cr_id r)), (''policy_id'', JStr (cr_policy r)),
     (''cycle_index'', JInt (cr_index r)), (''status'', JStr (CycleStatus_value (cr_status r)))]"

definition level_row_object :: "level_row \<Rightarrow> json" where
  "level_row_object r = JObj [(''policy_id'', JStr (lr_policy r)), (''level_id'', JStr (lr_level r)),
     (''kind'', JStr (LadderKind_value (lr_kind r))), (''side'', JStr (Side_value (lr_side r))),
     (''level_index'', JInt (int (lr_index r))), (''trigger_price'', JStr (lr_trigger r)),
     (''input_amount'', null_or JStr (lr_amount r)), (''input_ratio'', null_or JStr (lr_ratio r))]"

definition intent_row_object :: "intent_row \<Rightarrow> json" where
  "intent_row_object r = JObj [(''economic_action_id'', JStr (nr_id r)), (''policy_id'', JStr (nr_policy r)),
     (''instrument_id'', JStr (nr_instrument r)), (''quote_instrument_id'', JStr (nr_quote r)),
     (''network_id'', JStr (nr_network r)), (''cycle_id'', JStr (nr_cycle r)),
     (''level_id'', JStr (nr_level r)), (''side'', JStr (Side_value (nr_side r))),
     (''kind'', JStr (LadderKind_value (nr_kind r))), (''state'', JStr (IntentState_value (nr_state r))),
     (''quote_exposure_atomic'', atomic_column (nr_exposure r)), (''bounds_json'', json_column (nr_bounds r))]"

definition event_row_object :: "event_row \<Rightarrow> json" where
  "event_row_object r = JObj [(''seq'', JInt (ev_seq r)), (''event_type'', JStr (EventType_value (ev_type r))),
     (''policy_id'', JStr (ev_policy r)), (''cycle_id'', JStr (ev_cycle r)),
     (''economic_action_id'', null_or JStr (ev_action r)),
     (''from_state'', null_or (JStr \<circ> state_label_value) (ev_from r)),
     (''to_state'', null_or (JStr \<circ> state_label_value) (ev_to r)),
     (''occurred_epoch_s'', JInt (ev_at r)), (''payload_json'', json_column (ev_payload r))]"

definition reservation_row_object :: "reservation_row \<Rightarrow> json" where
  "reservation_row_object r = JObj [(''economic_action_id'', JStr (br_id r)), (''policy_id'', JStr (br_policy r)),
     (''instrument_id'', JStr (br_instrument r)), (''quote_instrument_id'', JStr (br_quote r)),
     (''network_id'', JStr (br_network r)), (''amount_atomic'', atomic_column (br_amount r)),
     (''status'', JStr (ReservationStatus_value (br_status r))),
     (''reserved_seq'', JInt (br_reserved_seq r)), (''settled_seq'', null_or JInt (br_settled_seq r))]"

definition receipt_row_object :: "receipt_row \<Rightarrow> json" where
  "receipt_row_object r = JObj [(''receipt_id'', JStr (fr_id r)), (''economic_action_id'', JStr (fr_action r)),
     (''external_ref'', JStr (fr_ref r)), (''input_atomic_filled'', atomic_column (fr_input r)),
     (''output_atomic_filled'', atomic_column (fr_output r)), (''fee_atomic'', atomic_column (fr_fee r)),
     (''observed_at_epoch_s'', JInt (fr_observed r)), (''source'', JStr (fr_source r)),
     (''appended_seq'', JInt (fr_seq r))]"

definition projection_row_object :: "projection \<Rightarrow> json" where
  "projection_row_object r = JObj [(''cycle_id'', JStr (pj_cycle r)), (''policy_id'', JStr (pj_policy r)),
     (''status'', JStr (CycleStatus_value (pj_status r))),
     (''requires_reconciliation'', JBool (pj_requires_reconciliation r)),
     (''filled_base_inventory_atomic'', atomic_column (pj_inventory r)),
     (''base_acquired_atomic'', atomic_column (pj_base_acquired r)),
     (''base_disposed_atomic'', atomic_column (pj_base_disposed r)),
     (''carried_base_inventory_in_atomic'', atomic_column (pj_carry_in r)),
     (''carried_base_inventory_out_atomic'', atomic_column (pj_carry_out r)),
     (''realized_quote_proceeds_atomic'', atomic_column (pj_quote_proceeds r)),
     (''quote_spent_atomic'', atomic_column (pj_quote_spent r)),
     (''held_quote_atomic'', atomic_column (pj_held r)),
     (''next_eligible_entry_levels'', JList (map JStr (pj_next_entry r))),
     (''next_eligible_exit_levels'', JList (map JStr (pj_next_exit r)))]"

subsection \<open>The snapshot\<close>

definition state_canonical_object :: "RuntimeStateV0 \<Rightarrow> json" where
  "state_canonical_object s = JObj
     [(''schema_version'', JInt (sn_schema_version s)),
      (''policies'', JList (map policy_row_object (sn_policies s))),
      (''instruments'', JList (map instrument_row_object (sn_instruments s))),
      (''cycles'', JList (map cycle_row_object (sn_cycles s))),
      (''ladder_levels'', JList (map level_row_object (sn_levels s))),
      (''intents'', JList (map intent_row_object (sn_intents s))),
      (''state_events'', JList (map event_row_object (sn_events s))),
      (''budget_reservations'', JList (map reservation_row_object (sn_reservations s))),
      (''fill_receipts'', JList (map receipt_row_object (sn_receipts s))),
      (''derived'', JList (map projection_row_object (sn_derived s)))]"

definition state_digest :: "digest_fn \<Rightarrow> RuntimeStateV0 \<Rightarrow> string" where
  "state_digest H s = digest_object H (state_canonical_object s)"

end
