(* ===== verification/CanonText.thy ===== *)
theory CanonText
  imports Json
begin

text \<open>
  The canonical text of a JSON value determines the value, up to the order of the
  members of its objects: strings are escaped without ambiguity, and every list or
  object ends at its own bracket. So a digest is taken of the value and of nothing else.
\<close>

subsection \<open>Characters and strings\<close>

definition hex_val :: "char \<Rightarrow> nat" where
  "hex_val c = (let n = of_char c in if n < 58 then n - 48 else n - 87)"

lemma hex_val_digit: "n < 16 \<Longrightarrow> hex_val (hex_digit n) = n"
  by (simp add: hex_digit_def hex_val_def Let_def)

definition short_escape :: "char \<Rightarrow> char" where
  "short_escape e =
     (if e = CHR ''n'' then CHR 0x0A else if e = CHR ''r'' then CHR 0x0D else if e = CHR ''t'' then CHR 0x09
      else if e = CHR ''f'' then CHR 0x0C else if e = CHR ''b'' then CHR 0x08 else e)"

fun unescape :: "string \<Rightarrow> char \<times> string" where
  "unescape (b # e # s) =
     (if b \<noteq> CHR 0x5C then (b, e # s)
      else if e \<noteq> CHR ''u'' then (short_escape e, s)
      else (char_of (16 * hex_val (s ! 2) + hex_val (s ! 3)), drop 4 s))"
| "unescape s = (hd s, tl s)"

lemma unescape_plain: "c \<noteq> CHR 0x5C \<Longrightarrow> unescape (c # s) = (c, s)"
  by (cases s) simp_all

lemma char_nibbles: "char_of (16 * (of_char c div 16) + of_char c mod 16 :: nat) = c"
  by (simp add: mult_div_mod_eq)

lemma unescape_escape: "unescape (escape_char c @ s) = (c, s)"
proof -
  have "of_char c div 16 < (16 :: nat)" using nat_of_char_less_256 [of c] by (intro less_mult_imp_div_less) simp
  then have hex: "char_of (16 * hex_val (hex_digit (of_char c div 16)) + hex_val (hex_digit (of_char c mod 16))) = c"
    by (simp only: hex_val_digit char_nibbles mod_less_divisor zero_less_numeral)
  consider "c \<in> {CHR 0x22, CHR 0x5C, CHR 0x0A, CHR 0x0D, CHR 0x09, CHR 0x0C, CHR 0x08}"
    | "escape_char c = [c]" "c \<noteq> CHR 0x5C"
    | "escape_char c = [CHR 0x5C, CHR ''u'', CHR ''0'', CHR ''0'',
            hex_digit (of_char c div 16), hex_digit (of_char c mod 16)]"
  proof (cases "c \<in> {CHR 0x22, CHR 0x5C, CHR 0x0A, CHR 0x0D, CHR 0x09, CHR 0x0C, CHR 0x08}")
    case False
    then show ?thesis using that(2,3)
      by (cases "32 \<le> (of_char c :: nat) \<and> (of_char c :: nat) \<le> 126") (simp_all add: escape_char_def)
  qed (use that(1) in blast)
  then show ?thesis
  proof cases
    case 1 then show ?thesis by (elim insertE emptyE) (simp_all add: escape_char_def short_escape_def)
  next
    case 2 then show ?thesis by (simp add: unescape_plain)
  next
    case 3 then show ?thesis using hex by simp
  qed
qed

lemma escape_char_inj: "escape_char c @ x = escape_char d @ y \<Longrightarrow> c = d \<and> x = y"
  by (metis unescape_escape prod.inject)

lemma escape_char_head: "escape_char c @ x \<noteq> CHR 0x22 # y"
  by (simp add: escape_char_def)

lemma escapes_inj:
  "concat (map escape_char s) @ CHR 0x22 # x = concat (map escape_char t) @ CHR 0x22 # y \<Longrightarrow> s = t \<and> x = y"
proof (induction s arbitrary: t)
  case Nil
  show ?case
  proof (cases t)
    case (Cons d t')
    with Nil have "escape_char d @ (concat (map escape_char t') @ CHR 0x22 # y) = CHR 0x22 # x"
      by (simp only: list.map concat.simps append.simps append_assoc)
    then show ?thesis using escape_char_head by blast
  next
    case t: Nil
    show ?thesis using Nil unfolding t list.map concat.simps append.simps list.inject by simp
  qed
next
  case (Cons c s)
  show ?case
  proof (cases t)
    case Nil
    with Cons.prems have "escape_char c @ (concat (map escape_char s) @ CHR 0x22 # x) = CHR 0x22 # y"
      by (simp only: list.map concat.simps append.simps append_assoc)
    then show ?thesis using escape_char_head by blast
  next
    case (Cons d t')
    have "c = d \<and> concat (map escape_char s) @ CHR 0x22 # x = concat (map escape_char t') @ CHR 0x22 # y"
      using Cons.prems by (intro escape_char_inj) (simp add: \<open>t = d # t'\<close>)
    then show ?thesis using Cons.IH [of t'] by (simp add: \<open>t = d # t'\<close>)
  qed
qed

lemma quote_inj: "quote s @ x = quote t @ y \<Longrightarrow> s = t \<and> x = y"
  unfolding quote_def append.simps append_assoc list.inject by (blast dest: escapes_inj)

subsection \<open>Integers\<close>

text \<open>What follows a value: the end of the text, a comma or a closing bracket.\<close>

definition follows :: "string \<Rightarrow> bool" where
  "follows r \<longleftrightarrow> r = [] \<or> hd r \<in> {CHR '','', CHR '']'', CHR ''}''}"

lemma follows_simps [simp]: "follows []" "follows (CHR '','' # r)" "follows (CHR '']'' # r)" "follows (CHR ''}'' # r)"
  by (simp_all add: follows_def)

lemma str_int_chars: "c \<in> set (str_int n) \<Longrightarrow> is_digit c \<or> c = CHR ''-''"
  by (auto simp: str_int_def split: if_splits intro: all_digits_mem [OF all_digits_nat_str])

lemma str_int_nonempty: "str_int n \<noteq> []"
  by (auto simp: str_int_def)

lemma str_int_span: "follows r \<Longrightarrow> takeWhile (\<lambda>c. is_digit c \<or> c = CHR ''-'') (str_int n @ r) = str_int n"
proof -
  assume r: "follows r"
  have "takeWhile (\<lambda>c. is_digit c \<or> c = CHR ''-'') r = []"
    using r by (cases r) (auto simp: follows_def is_digit_def)
  then show ?thesis by (simp add: takeWhile_append2 str_int_chars)
qed

lemma str_int_split: "str_int m @ x = str_int n @ y \<Longrightarrow> follows x \<Longrightarrow> follows y \<Longrightarrow> m = n \<and> x = y"
  by (metis str_int_span str_int_inj same_append_eq)

subsection \<open>Sequences of items\<close>

fun items_tail :: "char \<Rightarrow> string list \<Rightarrow> string \<Rightarrow> string" where
  "items_tail cl [] x = cl # x"
| "items_tail cl (t # ts) x = CHR '','' # t @ items_tail cl ts x"

lemma join_items: "join CHR '','' (t # ts) @ cl # x = t @ items_tail cl ts x"
  by (induction ts arbitrary: t) simp_all

definition closer :: "char \<Rightarrow> bool" where
  "closer cl \<longleftrightarrow> cl = CHR '']'' \<or> cl = CHR ''}''"

lemma follows_items: "closer cl \<Longrightarrow> follows (items_tail cl ts x)"
  by (cases ts) (auto simp: closer_def)

definition apart :: "('a \<Rightarrow> string) \<Rightarrow> ('a \<Rightarrow> 'b) \<Rightarrow> 'a \<Rightarrow> bool" where
  "apart enc nf a \<longleftrightarrow>
     (\<forall>b x y. follows x \<longrightarrow> follows y \<longrightarrow> enc a @ x = enc b @ y \<longrightarrow> nf a = nf b \<and> x = y)"

lemma apartD: "apart enc nf a \<Longrightarrow> enc a @ x = enc b @ y \<Longrightarrow> follows x \<Longrightarrow> follows y \<Longrightarrow> nf a = nf b \<and> x = y"
  unfolding apart_def by blast

lemma items_tail_apart:
  "items_tail cl (map enc as) x = items_tail cl (map enc bs) y \<Longrightarrow> closer cl \<Longrightarrow>
   \<forall>a \<in> set as. apart enc nf a \<Longrightarrow> map nf as = map nf bs \<and> x = y"
proof (induction as arbitrary: bs)
  case Nil
  then show ?case by (cases bs) (auto simp: closer_def)
next
  case (Cons a as)
  then obtain b bs' where bs: "bs = b # bs'" by (cases bs) (auto simp: closer_def)
  have "nf a = nf b \<and> items_tail cl (map enc as) x = items_tail cl (map enc bs') y"
    using Cons.prems by (intro apartD [of enc]) (simp_all add: bs follows_items)
  then show ?case using Cons.IH [of bs'] Cons.prems(2,3) by (simp add: bs)
qed

lemma items_apart:
  assumes "join CHR '','' (map enc as) @ cl # x = join CHR '','' (map enc bs) @ cl # y" "closer cl"
    "\<forall>a \<in> set as. apart enc nf a" "\<And>b s z. enc b @ s \<noteq> cl # z"
  shows "map nf as = map nf bs \<and> x = y"
proof (cases as)
  case Nil
  then show ?thesis using assms(1) assms(4)
    by (cases bs) (simp_all add: join_items del: join.simps(3), metis)
next
  case (Cons a as')
  then obtain b bs' where bs: "bs = b # bs'"
    using assms(1,4) by (cases bs) (simp_all add: join_items del: join.simps(3))
  have "enc a @ items_tail cl (map enc as') x = enc b @ items_tail cl (map enc bs') y"
    using assms(1) by (simp add: Cons bs join_items del: join.simps(3))
  then have "nf a = nf b \<and> items_tail cl (map enc as') x = items_tail cl (map enc bs') y"
    using assms(2,3) by (intro apartD [of enc]) (simp_all add: Cons follows_items)
  then show ?thesis using items_tail_apart [of cl enc as' x bs' y nf] assms(2,3) by (simp add: Cons bs)
qed

subsection \<open>Values\<close>

lemma insort_key_map: "insort_key f (g x) (map g xs) = map g (insort_key (f \<circ> g) x xs)"
  by (induction xs) simp_all

lemma sort_key_map: "sort_key f (map g xs) = map g (sort_key (f \<circ> g) xs)"
  by (induction xs) (simp_all add: insort_key_map comp_def)

definition member_text :: "string \<times> json \<Rightarrow> string" where
  "member_text m = quote (fst m) @ CHR '':'' # canonical_json_str (snd m)"

lemma object_text:
  "canonical_json_str (JObj kvs) = CHR ''{'' # join CHR '','' (map member_text (sort_key fst kvs)) @ [CHR ''}'']"
  by (simp add: sort_key_map comp_def case_prod_beta member_text_def [abs_def])

lemma object_canon: "json_canon (JObj kvs) = JObj (map (\<lambda>m. (fst m, json_canon (snd m))) (sort_key fst kvs))"
  by (simp add: sort_key_map comp_def case_prod_beta)

definition head_kind :: "char \<Rightarrow> nat" where
  "head_kind c = (if c = CHR ''n'' then 0 else if c = CHR ''t'' \<or> c = CHR ''f'' then 1
     else if c = CHR 0x22 then 3 else if c = CHR ''['' then 4 else if c = CHR ''{'' then 5
     else if is_digit c \<or> c = CHR ''-'' then 2 else 6)"

primrec json_kind :: "json \<Rightarrow> nat" where
  "json_kind JNull = 0"
| "json_kind (JBool b) = 1"
| "json_kind (JInt n) = 2"
| "json_kind (JStr s) = 3"
| "json_kind (JList xs) = 4"
| "json_kind (JObj kvs) = 5"

lemma number_kind: "is_digit c \<or> c = CHR ''-'' \<Longrightarrow> head_kind c = 2"
  by (auto simp: head_kind_def is_digit_def)

lemma value_head: "\<exists>c s. canonical_json_str j = c # s \<and> head_kind c = json_kind j"
proof (cases j)
  case (JInt n)
  then show ?thesis
    using str_int_nonempty [of n] str_int_chars [of "hd (str_int n)" n] number_kind
    by (cases "str_int n") auto
qed (simp_all add: head_kind_def quote_def)

lemma value_kind: "canonical_json_str j @ x = canonical_json_str j' @ y \<Longrightarrow> json_kind j = json_kind j'"
  using value_head [of j] value_head [of j'] by auto

lemma value_not_closer: "closer cl \<Longrightarrow> canonical_json_str j @ s \<noteq> cl # z"
  using value_head [of j] by (cases j) (auto simp: closer_def head_kind_def is_digit_def)

lemma value_apart: "apart canonical_json_str json_canon j"
proof (induction j)
  case (JList xs)
  have "json_canon (JList xs) = json_canon j \<and> x = y"
    if eq: "canonical_json_str (JList xs) @ x = canonical_json_str j @ y" for j x y
  proof -
    obtain ys where j: "j = JList ys" using value_kind [OF eq] by (cases j) simp_all
    show ?thesis
      using eq JList items_apart [of canonical_json_str xs "CHR '']''" x ys y json_canon] value_not_closer
      by (simp add: j closer_def)
  qed
  then show ?case unfolding apart_def by blast
next
  case (JObj kvs)
  have member: "apart member_text (\<lambda>m. (fst m, json_canon (snd m))) m" if "m \<in> set (sort_key fst kvs)" for m
  proof -
    have "apart canonical_json_str json_canon (snd m)"
      using JObj [of m "snd m"] that by (cases m) simp
    then show ?thesis unfolding apart_def member_text_def append_assoc append.simps
      by (metis quote_inj list.inject)
  qed
  have "json_canon (JObj kvs) = json_canon j \<and> x = y"
    if eq: "canonical_json_str (JObj kvs) @ x = canonical_json_str j @ y" for j x y
  proof -
    obtain ys where j: "j = JObj ys" using value_kind [OF eq] by (cases j) simp_all
    have "join CHR '','' (map member_text (sort_key fst kvs)) @ CHR ''}'' # x =
      join CHR '','' (map member_text (sort_key fst ys)) @ CHR ''}'' # y"
      using eq unfolding j object_text by simp
    then have "map (\<lambda>m. (fst m, json_canon (snd m))) (sort_key fst kvs) =
        map (\<lambda>m. (fst m, json_canon (snd m))) (sort_key fst ys) \<and> x = y"
      by (rule items_apart) (use member in \<open>auto simp: closer_def member_text_def quote_def\<close>)
    then show ?thesis unfolding j object_canon by simp
  qed
  then show ?case unfolding apart_def by blast
next
  case (JBool b)
  have "json_canon (JBool b) = json_canon j \<and> x = y"
    if eq: "canonical_json_str (JBool b) @ x = canonical_json_str j @ y" for j x y
    using eq value_kind [OF eq] by (cases j) (auto split: if_splits)
  then show ?case unfolding apart_def by blast
next
  case (JStr s)
  have "json_canon (JStr s) = json_canon j \<and> x = y"
    if eq: "canonical_json_str (JStr s) @ x = canonical_json_str j @ y" for j x y
    using eq value_kind [OF eq] by (cases j) (auto dest: quote_inj)
  then show ?case unfolding apart_def by blast
next
  case (JInt n)
  have "json_canon (JInt n) = json_canon j \<and> x = y"
    if eq: "canonical_json_str (JInt n) @ x = canonical_json_str j @ y" "follows x" "follows y" for j x y
    using eq value_kind [OF eq(1)] by (cases j) (auto dest: str_int_split)
  then show ?case unfolding apart_def by blast
next
  case JNull
  have "json_canon JNull = json_canon j \<and> x = y"
    if eq: "canonical_json_str JNull @ x = canonical_json_str j @ y" for j x y
    using eq value_kind [OF eq] by (cases j) auto
  then show ?case unfolding apart_def by blast
qed

lemma same_text_same_value: "canonical_json_str j = canonical_json_str j' \<Longrightarrow> json_canon j = json_canon j'"
  using value_apart [of j] apartD [of canonical_json_str json_canon j "[]" j' "[]"] by simp

lemma map_text_canon:
  "(\<And>x. x \<in> set xs \<Longrightarrow> canonical_json_str (json_canon x) = canonical_json_str x) \<Longrightarrow>
   map (canonical_json_str \<circ> json_canon) xs = map canonical_json_str xs"
  by simp

lemma text_canon: "canonical_json_str (json_canon j) = canonical_json_str j"
proof (induction j)
  case (JObj kvs)
  have "map member_text (map (\<lambda>m. (fst m, json_canon (snd m))) (sort_key fst kvs)) =
      map member_text (sort_key fst kvs)"
    using JObj by (auto simp: member_text_def snds.simps)
  moreover have "sort_key fst (map (\<lambda>m. (fst m, json_canon (snd m))) (sort_key fst kvs)) =
      map (\<lambda>m. (fst m, json_canon (snd m))) (sort_key fst kvs)"
    by (intro sort_key_id_if_sorted) (simp add: comp_def)
  ultimately show ?case unfolding object_canon object_text by (simp only:)
qed (simp_all cong: map_cong)

text \<open>
  \<^bold>\<open>C21.\<close> The canonical text is a faithful image of a JSON value: two values have the same
  canonical text, hence the same digest input, exactly when they are equal up to the
  order of the members of their objects. No two different policies, instruments or
  bounds share a digest input.
\<close>

theorem canonical_text_faithful:
  "canonical_json_str j = canonical_json_str j' \<longleftrightarrow> json_canon j = json_canon j'"
  using same_text_same_value text_canon by metis

end
