(* ===== verification/Replay.thy ===== *)
theory Replay
  imports Snapshot CanonText
begin

text \<open>
  Deterministic reconstruction, \<open>qntyspot/ledger/replay.py\<close>: a fresh ledger is rebuilt from
  the canonical policies and the event log alone. Every event is validated against the
  state rebuilt so far, then applied; any disagreement raises.
\<close>

definition must :: "bool \<Rightarrow> (db, error, unit) body" where
  "must b = sguard b ReplayDivergenceError"

text \<open>\<open>set(payload)\<close> and \<open>int(payload[key])\<close> on a decoded JSON value.\<close>

definition is_container :: "json \<Rightarrow> bool" where
  "is_container j = (case j of JList _ \<Rightarrow> True | JObj _ \<Rightarrow> True | _ \<Rightarrow> False)"

definition py_set :: "json \<Rightarrow> error + json set" where
  "py_set j = (case j of
      JObj kvs \<Rightarrow> Inr (JStr ` jkeys kvs)
    | JStr s \<Rightarrow> Inr ((\<lambda>c. JStr [c]) ` set s)
    | JList xs \<Rightarrow> if list_ex is_container xs then Inl PyTypeError else Inr (set xs)
    | _ \<Rightarrow> Inl PyTypeError)"

text \<open>\<open>int(text)\<close>: surrounding white space, one sign, digits with single underscores between them.\<close>

definition py_space :: "char \<Rightarrow> bool" where
  "py_space c = (let n = (of_char c :: nat) in 9 \<le> n \<and> n \<le> 13 \<or> 28 \<le> n \<and> n \<le> 32 \<or> n = 133 \<or> n = 160)"

definition py_strip :: "string \<Rightarrow> string" where
  "py_strip s = rev (dropWhile py_space (rev (dropWhile py_space s)))"

fun digit_groups :: "string \<Rightarrow> bool" where
  "digit_groups [] = False"
| "digit_groups [c] = is_digit c"
| "digit_groups (c # d # s) =
     (is_digit c \<and> (if d = CHR ''_'' then digit_groups s else digit_groups (d # s)))"

definition py_int_digits :: "string \<Rightarrow> error + int" where
  "py_int_digits s =
     (if digit_groups s then Inr (int (digits_val (filter (\<lambda>c. c \<noteq> CHR ''_'') s))) else Inl PyValueError)"

definition py_int_text :: "string \<Rightarrow> error + int" where
  "py_int_text text =
     (case py_strip text of
        [] \<Rightarrow> Inl PyValueError
      | c # s \<Rightarrow>
          if c = CHR ''-'' then rbind (py_int_digits s) (\<lambda>n. Inr (- n))
          else if c = CHR ''+'' then py_int_digits s
          else py_int_digits (c # s))"

definition py_int_of :: "json \<Rightarrow> error + int" where
  "py_int_of j = (case j of
      JInt n \<Rightarrow> Inr n
    | JBool b \<Rightarrow> Inr (if b then 1 else 0)
    | JStr s \<Rightarrow> py_int_text s
    | _ \<Rightarrow> Inl PyTypeError)"

text \<open>A JSON value bound to a NOT NULL column of TEXT affinity.\<close>

definition sql_text :: "json \<Rightarrow> error + string" where
  "sql_text j = (case j of
      JStr s \<Rightarrow> Inr s
    | JInt n \<Rightarrow> Inr (str_int n)
    | JBool b \<Rightarrow> Inr (if b then ''1'' else ''0'')
    | JNull \<Rightarrow> Inl SqliteCheck
    | _ \<Rightarrow> Inl PyTypeError)"

definition sql_enum :: "(json \<Rightarrow> error + 'a) \<Rightarrow> json \<Rightarrow> error + 'a" where
  "sql_enum f j = (case f j of Inl _ \<Rightarrow> Inl SqliteCheck | Inr x \<Rightarrow> Inr x)"

subsection \<open>Cycle events\<close>

definition replayed_carry_in :: "json \<Rightarrow> error + int" where
  "replayed_carry_in payload =
     rbind (jget_attr ''inventory_carry'' payload) (\<lambda>carry.
       case carry of
         JNull \<Rightarrow> Inr 0
       | JObj kvs \<Rightarrow>
           if jkeys kvs = {''amount_atomic'', ''source_cycle_id''}
           then decode_json_atomic (jget ''amount_atomic'' kvs) else Inl ReplayDivergenceError
       | _ \<Rightarrow> Inl ReplayDivergenceError)"

definition replayed_cycle_inventory_atomic :: "string \<Rightarrow> db \<Rightarrow> error + int" where
  "replayed_cycle_inventory_atomic cid d =
     (case find_row ev_cycle cid (opening_events d) of
        None \<Rightarrow> Inl ReplayDivergenceError
      | Some opening \<Rightarrow>
          rbind (replayed_carry_in (ev_payload opening)) (\<lambda>carry_in.
          rbind (rfold (\<lambda>acc e. rbind (carry_out_of cid (ev_payload e)) (\<lambda>n. Inr (acc + n))) 0
            (opening_events d)) (\<lambda>carry_out.
            Inr (carry_in + filled_sum BUY fr_output cid d - filled_sum SELL fr_input cid d - carry_out))))"

definition check_carry :: "string \<Rightarrow> string \<Rightarrow> json \<Rightarrow> (db, error, unit) body" where
  "check_carry pid cid carry =
     (case carry of
       JObj kvs \<Rightarrow>
         sbind (must (jkeys kvs = {''amount_atomic'', ''source_cycle_id''})) (\<lambda>_.
         case jget ''source_cycle_id'' kvs of
           JStr src \<Rightarrow>
             sbind (must (src \<noteq> [] \<and> src \<noteq> cid)) (\<lambda>_.
             sbind (slift (decode_json_atomic (jget ''amount_atomic'' kvs))) (\<lambda>amount.
             sbind (must (0 < amount)) (\<lambda>_.
             sbind (sget (\<lambda>d. case find_row cr_id src (cycles d) of
                        None \<Rightarrow> None
                      | Some c \<Rightarrow> map_option (Pair c) (find_row pr_id (cr_policy c) (policies d)))) (\<lambda>source.
             sbind (must (source \<noteq> None)) (\<lambda>_.
             sbind (must (cr_status (fst (the source)) = COMPLETED)) (\<lambda>_.
             sbind (sget (\<lambda>d. find_row pr_id pid (policies d))) (\<lambda>target.
             sbind (must (target \<noteq> None)) (\<lambda>_.
             sbind (must (asset_of (snd (the source)) = asset_of (the target))) (\<lambda>_.
             sbind (sget intents) (\<lambda>is.
             sbind (must (list_all (\<lambda>i. nr_cycle i = src \<longrightarrow>
                 nr_state i \<in> TERMINAL_STATES \<and> nr_state i \<noteq> SAFE_HALT) is)) (\<lambda>_.
             sbind (sget opening_events) (\<lambda>openings.
             sbind (slift (check_all (\<lambda>e. rbind (carry_source (ev_payload e)) (\<lambda>s.
                 require (s \<noteq> Some (JStr src)) ReplayDivergenceError)) openings)) (\<lambda>_.
             sbind (sget (replayed_cycle_inventory_atomic src)) (\<lambda>inventory.
             sbind (slift inventory) (\<lambda>n.
             must (n = amount))))))))))))))))
         | _ \<Rightarrow> must False)
     | _ \<Rightarrow> must False)"

definition apply_cycle_event :: "EventType \<Rightarrow> string \<Rightarrow> string \<Rightarrow> json \<Rightarrow> (db, error, unit) body" where
  "apply_cycle_event etype pid cid payload =
     (if etype = CYCLE_OPENED then
        sbind (slift (py_set payload)) (\<lambda>keys.
        sbind (must (keys = {JStr ''cycle_index''} \<or> keys = {JStr ''cycle_index'', JStr ''inventory_carry''})) (\<lambda>_.
        sbind (slift (jget_attr ''inventory_carry'' payload)) (\<lambda>carry.
        sbind (if carry \<noteq> JNull then check_carry pid cid carry else sret ()) (\<lambda>_.
        sbind (slift (rbind (jfetch ''cycle_index'' payload) py_int_of)) (\<lambda>index.
        swrite (insert_cycle \<lparr>cr_id = cid, cr_policy = pid, cr_index = index, cr_status = OPEN\<rparr>))))))
      else
        sbind (must (payload = JObj [])) (\<lambda>_.
        sbind (sget (\<lambda>d. find_row cr_id cid (cycles d))) (\<lambda>row.
        sbind (must (row \<noteq> None \<and> cr_status (the row) = OPEN)) (\<lambda>_.
        sput (update_cycle_status cid (if etype = CYCLE_COMPLETED then COMPLETED else HALTED))))))"

subsection \<open>Intent events\<close>

definition replayed_intent :: "string \<Rightarrow> json \<Rightarrow> error + intent_row" where
  "replayed_intent a payload =
     rbind (jfetch ''policy_id'' payload) (\<lambda>policy.
     rbind (jfetch ''instrument_id'' payload) (\<lambda>instrument.
     rbind (jfetch ''quote_instrument_id'' payload) (\<lambda>quot.
     rbind (jfetch ''network_id'' payload) (\<lambda>network.
     rbind (jfetch ''cycle_id'' payload) (\<lambda>cycle.
     rbind (jfetch ''level_id'' payload) (\<lambda>lev.
     rbind (jfetch ''side'' payload) (\<lambda>side.
     rbind (jfetch ''kind'' payload) (\<lambda>kind.
     rbind (rbind (jfetch ''quote_exposure_atomic'' payload) decode_json_atomic) (\<lambda>exposure.
     rbind (store_atomic exposure) (\<lambda>exposure.
     rbind (jfetch ''bounds'' payload) (\<lambda>bounds.
     rbind (sql_text policy) (\<lambda>policy.
     rbind (sql_text instrument) (\<lambda>instrument.
     rbind (sql_text quot) (\<lambda>quot.
     rbind (sql_text network) (\<lambda>network.
     rbind (sql_text cycle) (\<lambda>cycle.
     rbind (sql_text lev) (\<lambda>lev.
     rbind (sql_enum Side_of side) (\<lambda>side.
     rbind (sql_enum LadderKind_of kind) (\<lambda>kind.
       Inr \<lparr>nr_id = a, nr_policy = policy, nr_instrument = instrument, nr_quote = quot,
            nr_network = network, nr_cycle = cycle, nr_level = lev, nr_side = side, nr_kind = kind,
            nr_state = ARMED, nr_exposure = exposure, nr_bounds = bounds\<rparr>)))))))))))))))))))"

definition apply_intent_created :: "string \<Rightarrow> json \<Rightarrow> (db, error, unit) body" where
  "apply_intent_created a payload =
     sbind (slift (jget_attr ''economic_action_id'' payload)) (\<lambda>named.
     sbind (must (named = JStr a)) (\<lambda>_.
     sbind (slift (replayed_intent a payload)) (\<lambda>row.
     swrite (insert_intent row))))"

definition settle_at :: "string \<Rightarrow> ReservationStatus \<Rightarrow> int \<Rightarrow> db \<Rightarrow> db" where
  "settle_at a status seq d =
     (case find_row br_id a (budget_reservations d) of
        None \<Rightarrow> d
      | Some r \<Rightarrow> if br_status r = ACTIVE then update_reservation a status (Some seq) d else d)"

definition label_state :: "state_label option \<Rightarrow> error + intent_state" where
  "label_state l = (case l of Some (Intent st) \<Rightarrow> Inr st | _ \<Rightarrow> Inl PyValueError)"

text \<open>The reconciliation bound to a signed transaction a post-submission rejection needs.\<close>

definition replayed_bound_revert :: "string \<Rightarrow> db \<Rightarrow> error + bool" where
  "replayed_bound_revert a d =
     (case exec_surface d of
        None \<Rightarrow> Inl ReplayDivergenceError
      | Some e \<Rightarrow> Inr (list_ex (\<lambda>r. rr_action r = a \<and> rr_verdict r = V_REVERTED \<and>
          list_ex (bound_to r) (signed_transactions e)) (reconciliations e)))"

definition replay_effect :: "string set \<Rightarrow> string \<Rightarrow> intent_row \<Rightarrow> intent_state \<Rightarrow> int \<Rightarrow> (db, error, unit) body" where
  "replay_effect trusted a row dst seq =
     (if dst = RESERVED \<and> 0 < nr_exposure row then
        swrite (insert_reservation
          \<lparr>br_id = a, br_policy = nr_policy row, br_instrument = nr_instrument row,
           br_quote = nr_quote row, br_network = nr_network row, br_amount = nr_exposure row,
           br_status = ACTIVE, br_reserved_seq = seq, br_settled_seq = None\<rparr>)
      else if dst = FILLED then sput (settle_at a COMMITTED seq)
      else if dst \<in> RELEASING_STATES then
        sbind (if nr_state row \<in> {SIGNED, SUBMITTED, INCLUDED, CONFIRMED} then
                 sbind (sget (replayed_bound_revert a)) (\<lambda>b. sbind (slift b) (\<lambda>bound.
                 must (bound \<or> a \<in> trusted)))
               else sret ()) (\<lambda>_.
        sput (settle_at a RELEASED seq))
      else if dst = SAFE_HALT then sput (settle_at a QUARANTINED seq)
      else sret ())"

definition apply_transition :: "string set \<Rightarrow> string \<Rightarrow> event_row \<Rightarrow> (db, error, unit) body" where
  "apply_transition trusted a e =
     sbind (sget (\<lambda>d. find_row nr_id a (intents d))) (\<lambda>found.
     sbind (must (found \<noteq> None)) (\<lambda>_.
     let row = the found in
     sbind (slift (label_state (ev_to e))) (\<lambda>dst.
     sbind (must (ev_from e = Some (Intent (nr_state row)))) (\<lambda>_.
     sbind (must (is_legal_transition (nr_state row) dst)) (\<lambda>_.
     sbind (replay_effect trusted a row dst (ev_seq e)) (\<lambda>_.
     sput (update_intent_state a dst)))))))"

text \<open>The UPDATE of a quarantined reservation, whose row count must be one.\<close>

definition replay_unquarantine :: "string \<Rightarrow> ReservationStatus \<Rightarrow> int option \<Rightarrow> (db, error, unit) body" where
  "replay_unquarantine a status seq =
     sbind (sget (\<lambda>d. find_row br_id a (budget_reservations d))) (\<lambda>row.
     sbind (must (row \<noteq> None \<and> br_status (the row) = QUARANTINED)) (\<lambda>_.
     sput (update_reservation a status seq)))"

definition apply_exact_bytes_resume :: "string \<Rightarrow> event_row \<Rightarrow> (db, error, unit) body" where
  "apply_exact_bytes_resume a e =
     sbind (must (ev_from e = Some (Intent SAFE_HALT) \<and> ev_to e = Some (Intent SIGNED))) (\<lambda>_.
     sbind (slift (jget_attr ''recovery_type'' (ev_payload e))) (\<lambda>rtype.
     sbind (must (rtype = JStr ''ZERO_SUBMISSION_EXACT_BYTES_RESUME'')) (\<lambda>_.
     sbind (sget (\<lambda>d. find_row nr_id a (intents d))) (\<lambda>found.
     sbind (must (found \<noteq> None)) (\<lambda>_.
     let row = the found in
     sbind (must (nr_state row = SAFE_HALT)) (\<lambda>_.
     sbind (sget (\<lambda>d. find_row br_id a (budget_reservations d))) (\<lambda>reservation.
     sbind (slift (jget_attr ''prior_reservation_status'' (ev_payload e))) (\<lambda>prior.
     sbind (if nr_exposure row = 0 then
              sbind (must (reservation = None)) (\<lambda>_. must (prior = JNull))
            else
              sbind (must (reservation \<noteq> None \<and> br_status (the reservation) = QUARANTINED)) (\<lambda>_.
              must (prior = JStr ''QUARANTINED''))) (\<lambda>_.
     sbind (sput (update_intent_state a SIGNED)) (\<lambda>_.
     if 0 < nr_exposure row then replay_unquarantine a ACTIVE None else sret ()))))))))))"

definition RECOVERY_KEYS :: "json set" where
  "RECOVERY_KEYS = {JStr ''reconciliation_id'', JStr ''receipt_id'', JStr ''recovery_type'', JStr ''verdict''}"

definition replay_recovered :: "string set \<Rightarrow> string \<Rightarrow> intent_row \<Rightarrow> intent_state \<Rightarrow> json \<Rightarrow> json \<Rightarrow> int \<Rightarrow>
    (db, error, unit) body" where
  "replay_recovered trusted a row target verdict receipt seq =
     (if target = RECONCILED then
        (case receipt of
           JStr rid \<Rightarrow>
             sbind (must (verdict = JStr ''SETTLED'' \<and> rid \<noteq> [])) (\<lambda>_.
             sbind (sget (\<lambda>d. list_ex (\<lambda>f. fr_id f = rid \<and> fr_action f = a) (fill_receipts d))) (\<lambda>bound.
             sbind (must bound) (\<lambda>_.
             if 0 < nr_exposure row then replay_unquarantine a ACTIVE None else sret ())))
         | _ \<Rightarrow> must False)
      else
        sbind (must (verdict = JStr ''REVERTED'' \<and> receipt = JNull)) (\<lambda>_.
        sbind (must (a \<in> trusted)) (\<lambda>_.
        if 0 < nr_exposure row then replay_unquarantine a RELEASED (Some seq) else sret ())))"

definition apply_chain_truth_recovery :: "string set \<Rightarrow> string \<Rightarrow> event_row \<Rightarrow> (db, error, unit) body" where
  "apply_chain_truth_recovery trusted a e =
     sbind (slift (py_set (ev_payload e))) (\<lambda>keys.
     sbind (must (keys = RECOVERY_KEYS)) (\<lambda>_.
     sbind (slift (jfetch ''recovery_type'' (ev_payload e))) (\<lambda>rtype.
     sbind (must (rtype = JStr ''TERMINAL_CHAIN_TRUTH_AFTER_SAFE_HALT'')) (\<lambda>_.
     sbind (must (ev_from e = Some (Intent SAFE_HALT))) (\<lambda>_.
     sbind (must (ev_to e = Some (Intent RECONCILED) \<or> ev_to e = Some (Intent REJECTED))) (\<lambda>_.
     let target = (if ev_to e = Some (Intent RECONCILED) then RECONCILED else REJECTED) in
     sbind (sget (\<lambda>d. find_row nr_id a (intents d))) (\<lambda>found.
     sbind (must (found \<noteq> None)) (\<lambda>_.
     let row = the found in
     sbind (must (nr_state row = SAFE_HALT)) (\<lambda>_.
     sbind (sget (\<lambda>d. find_row br_id a (budget_reservations d))) (\<lambda>reservation.
     sbind (must (if nr_exposure row = 0 then reservation = None
                  else reservation \<noteq> None \<and> br_status (the reservation) = QUARANTINED)) (\<lambda>_.
     sbind (slift (jfetch ''verdict'' (ev_payload e))) (\<lambda>verdict.
     sbind (slift (jfetch ''receipt_id'' (ev_payload e))) (\<lambda>receipt.
     sbind (replay_recovered trusted a row target verdict receipt (ev_seq e)) (\<lambda>_.
     sput (update_intent_state a target)))))))))))))))"

definition replayed_receipt :: "string \<Rightarrow> json \<Rightarrow> int \<Rightarrow> error + receipt_row" where
  "replayed_receipt a payload seq =
     rbind (jfetch ''receipt_id'' payload) (\<lambda>rid.
     rbind (jfetch ''external_ref'' payload) (\<lambda>ref.
     rbind (rbind (jfetch ''input_atomic_filled'' payload) decode_json_atomic) (\<lambda>inp.
     rbind (store_atomic inp) (\<lambda>inp.
     rbind (rbind (jfetch ''output_atomic_filled'' payload) decode_json_atomic) (\<lambda>out.
     rbind (store_atomic out) (\<lambda>out.
     rbind (rbind (jfetch ''fee_atomic'' payload) decode_json_atomic) (\<lambda>fee.
     rbind (store_atomic fee) (\<lambda>fee.
     rbind (rbind (jfetch ''observed_at_epoch_s'' payload) py_int_of) (\<lambda>observed.
     rbind (jfetch ''source'' payload) (\<lambda>src.
     rbind (sql_text rid) (\<lambda>rid.
     rbind (sql_text ref) (\<lambda>ref.
     rbind (require (observed \<le> INT64_MAX) PyOverflowError) (\<lambda>_.
     rbind (sql_text src) (\<lambda>src.
       Inr \<lparr>fr_id = rid, fr_action = a, fr_ref = ref, fr_input = inp, fr_output = out, fr_fee = fee,
            fr_observed = observed, fr_source = src, fr_seq = seq\<rparr>))))))))))))))"

definition apply_receipt :: "string \<Rightarrow> json \<Rightarrow> int \<Rightarrow> (db, error, unit) body" where
  "apply_receipt a payload seq =
     sbind (slift (replayed_receipt a payload seq)) (\<lambda>row. swrite (insert_receipt row))"

subsection \<open>The replay\<close>

definition apply_event :: "string set \<Rightarrow> string set \<Rightarrow> event_row \<Rightarrow> (db, error, string set) body" where
  "apply_event trusted seen e =
     (if ev_type e \<in> CYCLE_EVENT_TYPES then
        sbind (must (ev_action e = None)) (\<lambda>_.
        sbind (apply_cycle_event (ev_type e) (ev_policy e) (ev_cycle e) (ev_payload e)) (\<lambda>_.
        sret seen))
      else case ev_action e of
        None \<Rightarrow> sraise ReplayDivergenceError
      | Some a \<Rightarrow>
          if ev_type e = INTENT_CREATED then
            sbind (must (a \<notin> seen)) (\<lambda>_.
            sbind (apply_intent_created a (ev_payload e)) (\<lambda>_.
            sret (insert a seen)))
          else
            sbind (must (a \<in> seen)) (\<lambda>_.
            sbind (case ev_type e of
                INTENT_TRANSITION \<Rightarrow> apply_transition trusted a e
              | EXACT_BYTES_RESUMED \<Rightarrow> apply_exact_bytes_resume a e
              | CHAIN_TRUTH_RECOVERED \<Rightarrow> apply_chain_truth_recovery trusted a e
              | _ \<Rightarrow> apply_receipt a (ev_payload e) (ev_seq e)) (\<lambda>_.
            sret seen)))"

fun replay_events :: "string set \<Rightarrow> string set \<Rightarrow> string set \<Rightarrow> int \<Rightarrow> event_row list \<Rightarrow> (db, error, unit) body" where
  "replay_events known trusted seen last_seq [] = sret ()"
| "replay_events known trusted seen last_seq (e # es) =
     sbind (must (last_seq < ev_seq e)) (\<lambda>_.
     sbind (must (ev_policy e \<in> known)) (\<lambda>_.
     sbind (apply_event trusted seen e) (\<lambda>seen'.
     sbind (sguard (ev_at e \<le> INT64_MAX) PyOverflowError) (\<lambda>_.
     sbind (swrite (insert_event e)) (\<lambda>_.
     replay_events known trusted seen' (ev_seq e) es)))))"

fun replay_policies :: "digest_fn \<Rightarrow> json list \<Rightarrow> ledger \<Rightarrow> (error + unit) \<times> ledger" where
  "replay_policies H [] lg = (Inr (), lg)"
| "replay_policies H (raw # raws) lg =
     (case parse_policy raw of
        Inl e \<Rightarrow> (Inl e, lg)
      | Inr p \<Rightarrow> (case admit_policy H p lg of
            (Inl e, lg') \<Rightarrow> (Inl e, lg')
          | (Inr _, lg') \<Rightarrow> replay_policies H raws lg'))"

definition replay_into ::
  "digest_fn \<Rightarrow> json list \<Rightarrow> event_row list \<Rightarrow> string set \<Rightarrow> bool \<Rightarrow> ledger \<Rightarrow> (error + unit) \<times> ledger" where
  "replay_into H canonical_policies events trusted token target =
     (if execution_surface_present (lg_db target) \<and> \<not> token then (Inl LedgerError, target)
      else if state_events (lg_db target) \<noteq> [] then (Inl LedgerError, target)
      else case replay_policies H canonical_policies target of
          (Inl e, lg) \<Rightarrow> (Inl e, lg)
        | (Inr _, lg) \<Rightarrow>
            write_txn (replay_events (set (map pr_id (policies (lg_db lg)))) trusted {} 0 events) lg)"

definition canonical_policies :: "db \<Rightarrow> json list" where
  "canonical_policies d = map pr_canonical (sort_key pr_id (policies d))"

definition events :: "db \<Rightarrow> event_row list" where
  "events d = sort_key ev_seq (state_events d)"

definition reconstruct :: "digest_fn \<Rightarrow> db \<Rightarrow> error + ledger" where
  "reconstruct H source =
     (case replay_into H (canonical_policies source) (events source) {} False open_ledger of
        (Inl e, _) \<Rightarrow> Inl e
      | (Inr _, target) \<Rightarrow> rbind (integrity_check (lg_db target)) (\<lambda>_. Inr target))"

text \<open>Two reconstructions, each compared with the source as canonical objects.\<close>

definition replayed_digest :: "digest_fn \<Rightarrow> json \<Rightarrow> db \<Rightarrow> error + string" where
  "replayed_digest H original source =
     rbind (reconstruct H source) (\<lambda>target.
     rbind (snapshot (lg_db target)) (\<lambda>replayed.
     rbind (require (json_canon (state_canonical_object replayed) = json_canon original) ReplayDivergenceError)
       (\<lambda>_. Inr (state_digest H replayed))))"

definition assert_replay_equivalence :: "digest_fn \<Rightarrow> db \<Rightarrow> error + string" where
  "assert_replay_equivalence H source =
     rbind (snapshot source) (\<lambda>original.
     rbind (replayed_digest H (state_canonical_object original) source) (\<lambda>a.
     rbind (replayed_digest H (state_canonical_object original) source) (\<lambda>b.
     rbind (require (a = b) ReplayDivergenceError) (\<lambda>_. Inr a))))"

end
