(* ===== verification/Mirror.thy ===== *)
theory Mirror
  imports Replay
begin

text \<open>
  Replaying one event does to a replica of the ledger what the operation that wrote the
  event did to the ledger. The replica has identity tables of its own, which agree with
  the ledger's on every key the ledger uses.
\<close>

subsection \<open>Replicas\<close>

definition mirror :: "db \<Rightarrow> db \<Rightarrow> db" where
  "mirror B d = d\<lparr>instruments := instruments B, policies := policies B, ladder_levels := ladder_levels B\<rparr>"

definition covers :: "db \<Rightarrow> db \<Rightarrow> bool" where
  "covers B d \<longleftrightarrow>
     (\<forall>k. has_row ir_id k (instruments d) \<longrightarrow> has_row ir_id k (instruments B)) \<and>
     (\<forall>k r. find_row pr_id k (policies d) = Some r \<longrightarrow> find_row pr_id k (policies B) = Some r) \<and>
     (\<forall>k. has_row level_key k (ladder_levels d) \<longrightarrow> has_row level_key k (ladder_levels B))"

lemma mirror_simps [simp]:
  "instruments (mirror B d) = instruments B" "policies (mirror B d) = policies B"
  "ladder_levels (mirror B d) = ladder_levels B" "cycles (mirror B d) = cycles d"
  "intents (mirror B d) = intents d" "state_events (mirror B d) = state_events d"
  "budget_reservations (mirror B d) = budget_reservations d" "fill_receipts (mirror B d) = fill_receipts d"
  "exec_surface (mirror B d) = exec_surface d"
  by (simp_all add: mirror_def)

lemma covers_policy: "covers B d \<Longrightarrow> has_row pr_id k (policies d) \<Longrightarrow> has_row pr_id k (policies B)"
  unfolding covers_def by (metis has_row_find find_row_Some_has)

lemma covers_cong:
  "instruments d = instruments d' \<Longrightarrow> policies d = policies d' \<Longrightarrow> ladder_levels d = ladder_levels d' \<Longrightarrow>
   covers B d = covers B d'"
  by (simp add: covers_def)

lemma mirror_updates:
  "mirror B (push_event e d) = push_event e (mirror B d)"
  "mirror B (with_cycle c d) = with_cycle c (mirror B d)"
  "mirror B (with_intent i d) = with_intent i (mirror B d)"
  "mirror B (with_receipt f d) = with_receipt f (mirror B d)"
  "mirror B (update_intent_state a st d) = update_intent_state a st (mirror B d)"
  "mirror B (update_cycle_status cid cs d) = update_cycle_status cid cs (mirror B d)"
  "mirror B (update_reservation a rs seq d) = update_reservation a rs seq (mirror B d)"
  by (simp_all add: mirror_def added_defs table_updates)

lemma mirror_insert_cycle: "covers B d \<Longrightarrow> insert_cycle c d = Inr d' \<Longrightarrow> insert_cycle c (mirror B d) = Inr (mirror B d')"
  by (auto simp: insert_cycle_Inr mirror_def covers_policy)

lemma mirror_insert_intent:
  "covers B d \<Longrightarrow> insert_intent i d = Inr d' \<Longrightarrow> insert_intent i (mirror B d) = Inr (mirror B d')"
  by (auto simp: insert_intent_Inr mirror_def covers_policy) (auto simp: covers_def)

lemma mirror_insert_reservation:
  "covers B d \<Longrightarrow> insert_reservation b d = Inr d' \<Longrightarrow> insert_reservation b (mirror B d) = Inr (mirror B d')"
  by (auto simp: insert_reservation_Inr mirror_def covers_policy) (auto simp: covers_def)

lemma mirror_insert_receipt: "insert_receipt f d = Inr d' \<Longrightarrow> insert_receipt f (mirror B d) = Inr (mirror B d')"
  by (auto simp: insert_receipt_Inr mirror_def)

lemma mirror_insert_event:
  "covers B d \<Longrightarrow> insert_event e d = Inr d' \<Longrightarrow> insert_event e (mirror B d) = Inr (mirror B d')"
  by (auto simp: insert_event_Inr mirror_def covers_policy)

subsection \<open>Replaying a segment of the log\<close>

definition seen_in :: "db \<Rightarrow> string set" where
  "seen_in d = set (map nr_id (intents d))"

definition last_in :: "db \<Rightarrow> int" where
  "last_in d = int (length (state_events d))"

text \<open>The replay of the events an operation appended takes the replica along.\<close>

definition replays :: "db \<Rightarrow> db \<Rightarrow> event_row list \<Rightarrow> db \<Rightarrow> bool" where
  "replays B d evs d' \<longleftrightarrow> state_events d' = state_events d @ evs \<and>
     (\<forall>rest. replay_events (set (map pr_id (policies B))) {} (seen_in d) (last_in d) (evs @ rest) (mirror B d) =
        replay_events (set (map pr_id (policies B))) {} (seen_in d') (last_in d') rest (mirror B d'))"

lemma replays_refl: "replays B d [] d"
  by (simp add: replays_def)

lemma replays_trans: "replays B d evs d' \<Longrightarrow> replays B d' evs' d'' \<Longrightarrow> replays B d (evs @ evs') d''"
  by (simp add: replays_def)

lemma replays_event:
  assumes "apply_event {} (seen_in d) e (mirror B d) = (Inr (seen_in d1), mirror B d1)"
    and "insert_event e d1 = Inr (push_event e d1)" "covers B d1" "state_events d1 = state_events d"
    and "ev_seq e = last_in d + 1" "ev_at e \<le> INT64_MAX"
  shows "replays B d [e] (push_event e d1)"
proof -
  have pol: "ev_policy e \<in> set (map pr_id (policies B))"
    using assms(2,3) covers_policy [of B d1 "ev_policy e"] by (auto simp: insert_event_Inr has_row_def)
  have ins: "insert_event e (mirror B d1) = Inr (mirror B (push_event e d1))"
    by (rule mirror_insert_event [OF assms(3,2)])
  have "seen_in (push_event e d1) = seen_in d1" "last_in (push_event e d1) = last_in d + 1"
    by (simp_all add: seen_in_def last_in_def assms(4))
  then show ?thesis
    using assms(1,4-6) ins pol
    by (simp add: replays_def sbind_run must_def sguard_def sret_def swrite_def)
qed

lemma next_in: "seqs_ok d \<Longrightarrow> next_seq d = last_in d + 1"
  by (simp add: next_seq_length last_in_def)

subsection \<open>Cycle events\<close>

lemma seen_frames [simp]:
  "seen_in (with_cycle c d) = seen_in d" "seen_in (update_cycle_status cid cs d) = seen_in d"
  "seen_in (update_intent_state a st d) = seen_in d" "seen_in (with_receipt f d) = seen_in d"
  "seen_in (with_intent i d) = insert (nr_id i) (seen_in d)" "seen_in (push_event e d) = seen_in d"
  "seen_in (effect_db i st d) = seen_in d" "seen_in (settled a rs d) = seen_in d"
  by (auto simp: seen_in_def update_intent_state_def upd_intent.keys_update simp flip: set_map)

lemma seen_found: "find_row nr_id a (intents d) = Some i \<Longrightarrow> a \<in> seen_in d"
  by (auto simp: seen_in_def has_row_def dest: find_row_Some_has)

lemma apply_plain_open:
  assumes "insert_cycle (new_cycle pid cid index) d = Inr (with_cycle (new_cycle pid cid index) d)" "covers B d"
  shows "apply_cycle_event CYCLE_OPENED pid cid (plain_payload index) (mirror B d) =
    (Inr (), mirror B (with_cycle (new_cycle pid cid index) d))"
proof -
  have "insert_cycle (new_cycle pid cid index) (mirror B d) = Inr (mirror B (with_cycle (new_cycle pid cid index) d))"
    by (rule mirror_insert_cycle [OF assms(2,1)])
  then show ?thesis
    by (simp add: apply_cycle_event_def sbind_run body_defs must_def plain_payload_def py_set_def jget_attr_def
        jfetch_def py_int_of_def new_cycle_def)
qed

lemma apply_close:
  assumes "find_row cr_id cid (cycles d) = Some c" "cr_status c = OPEN" "st \<in> {COMPLETED, HALTED}"
  shows "apply_cycle_event (if st = COMPLETED then CYCLE_COMPLETED else CYCLE_HALTED) pid cid (JObj []) (mirror B d) =
    (Inr (), mirror B (update_cycle_status cid st d))"
  using assms by (auto simp: apply_cycle_event_def sbind_run body_defs must_def mirror_updates)

lemma replayed_inventory:
  assumes "openings_ok d" "opening_of src d = Some e"
  shows "replayed_cycle_inventory_atomic src d = Inr (carried_in e + settled_inventory src d - taken_out src d)"
proof -
  have e: "e \<in> set (opening_events d)" using assms(2) find_row_SomeD by (metis opening_of_def)
  have "replayed_carry_in (ev_payload e) = Inr (carried_in e)"
    using opening_reads [OF assms(1) e]
    by (auto simp: carry_ok_def carried_in_def payload_carries replayed_carry_in_def plain_payload_def
        carry_payload_def jget_attr_def jfetch_def carry_in_of_def)
  moreover have "rfold (\<lambda>acc e. rbind (carry_out_of src (ev_payload e)) (\<lambda>n. Inr (acc + n))) 0 (opening_events d) =
      Inr (0 + taken_out src d)"
    unfolding taken_out_def
    by (rule rfold_add) (use carry_ok_reads opening_reads [OF assms(1)] in blast)
  ultimately show ?thesis
    using assms(2) by (simp add: replayed_cycle_inventory_atomic_def opening_of_def settled_inventory_def)
qed

lemma replayed_inventory_cong:
  "state_events d = state_events d' \<Longrightarrow> intents d = intents d' \<Longrightarrow> fill_receipts d = fill_receipts d' \<Longrightarrow>
   replayed_cycle_inventory_atomic src d = replayed_cycle_inventory_atomic src d'"
  by (simp add: replayed_cycle_inventory_atomic_def opening_events_def filled_sum_def total_filled_def
      cong: option.case_cong)

lemma source_closed_frame [simp]:
  "intents (source_closed src c now d) = intents d" "fill_receipts (source_closed src c now d) = fill_receipts d"
  "policies (source_closed src c now d) = policies d"
  "cycles (source_closed src c now d) = update_row cr_id src (set_cycle_status COMPLETED) (cycles d)"
  "state_events (source_closed src c now d) = state_events d @ [close_event c COMPLETED now d]"
  by (simp_all add: source_closed_def update_cycle_status_def)

lemma opening_events_closed:
  "ev_type e \<noteq> CYCLE_OPENED \<Longrightarrow> state_events d' = state_events d @ [e] \<Longrightarrow> opening_events d' = opening_events d"
  by (simp add: opening_events_def)

lemma check_carry_passes:
  assumes "continue_checked H src p cid n c d" "openings_ok d"
    and "covers B d" "d0 = source_closed src c now d"
  shows "check_carry (policy_id H p) cid (JObj [(''amount_atomic'', JStr (str_int n)), (''source_cycle_id'', JStr src)])
     (mirror B d0) = (Inr (), mirror B d0)"
proof -
  obtain sr tr where
    c: "find_row cr_id src (cycles d) = Some c" "cr_status c = OPEN" "cid \<noteq> src" "0 < n"
    and inv: "inventory_atomic src d = Inr n"
    and pol: "find_row pr_id (cr_policy c) (policies d) = Some sr"
      "find_row pr_id (policy_id H p) (policies d) = Some tr" "asset_of sr = asset_of tr"
    and fin: "\<forall>i \<in> set (intents d). nr_cycle i = src \<longrightarrow> nr_state i \<in> TERMINAL_STATES \<and> nr_state i \<noteq> SAFE_HALT"
    and free: "\<forall>e \<in> set (opening_events d). \<exists>s. carry_source (ev_payload e) = Inr s \<and> s \<noteq> Some (JStr src)"
    using assms(1) by (auto simp: continue_checked_def)
  have polB: "find_row pr_id (cr_policy c) (policies B) = Some sr" "find_row pr_id (policy_id H p) (policies B) = Some tr"
    using pol assms(3) by (auto simp: covers_def)
  have opens: "opening_events (mirror B d0) = opening_events d"
    using opening_events_closed [of "close_event c COMPLETED now d" d0 d]
    by (simp add: assms(4) close_event_def opening_events_def)
  obtain e where e: "opening_of src d = Some e"
    using opening_exists [OF assms(2)] find_row_Some_has [OF c(1)] by blast
  have "replayed_cycle_inventory_atomic src (mirror B d0) = replayed_cycle_inventory_atomic src d"
    by (simp add: replayed_cycle_inventory_atomic_def filled_sum_def total_filled_def opens [unfolded assms(4)] assms(4)
        cong: option.case_cong)
  also have "\<dots> = Inr n"
    using replayed_inventory [OF assms(2) e] inventory_defined [OF assms(2) c(1) e] inv by simp
  finally have inventory: "replayed_cycle_inventory_atomic src (mirror B d0) = Inr n" .
  have srcs: "src \<noteq> []" using assms(2) find_row_SomeD [OF c(1)] by (auto simp: openings_ok_def list_all_iff)
  have found: "find_row cr_id src (cycles d0) = Some (set_cycle_status COMPLETED c)"
    by (simp add: assms(4) upd_cycle.find_update c(1))
  have checks: "check_all (\<lambda>e. rbind (carry_source (ev_payload e)) (\<lambda>s. require (s \<noteq> Some (JStr src)) ReplayDivergenceError))
      (opening_events d) = Inr ()"
    using free by (auto simp: check_all_eq_Inr rbind_eq_Inr require_eq_Inr)
  have terminal: "list_all (\<lambda>i. nr_cycle i = src \<longrightarrow> nr_state i \<in> TERMINAL_STATES \<and> nr_state i \<noteq> SAFE_HALT) (intents d0)"
    using fin by (simp add: list_all_iff assms(4))
  show ?thesis
    using c(3,4) srcs pol(3)
    by (auto simp: check_carry_def sbind_run body_defs must_def found polB inventory checks terminal opens set_cycle_status_def)
qed

lemma apply_carry_open:
  assumes "continue_checked H src p cid n c d" "openings_ok d" "covers B d"
    and "insert_cycle (new_cycle (policy_id H p) cid index) (source_closed src c now d) =
       Inr (with_cycle (new_cycle (policy_id H p) cid index) (source_closed src c now d))"
  shows "apply_cycle_event CYCLE_OPENED (policy_id H p) cid (carry_payload index n src) (mirror B (source_closed src c now d)) =
    (Inr (), mirror B (with_cycle (new_cycle (policy_id H p) cid index) (source_closed src c now d)))"
proof -
  have cov: "covers B (source_closed src c now d)"
    using assms(3) by (subst covers_cong [of _ d]) (simp_all add: source_closed_def update_cycle_status_def)
  have ins: "insert_cycle (new_cycle (policy_id H p) cid index) (mirror B (source_closed src c now d)) =
      Inr (mirror B (with_cycle (new_cycle (policy_id H p) cid index) (source_closed src c now d)))"
    by (rule mirror_insert_cycle [OF cov assms(4)])
  show ?thesis
    using ins check_carry_passes [OF assms(1-3) refl, of now]
    by (simp add: apply_cycle_event_def sbind_run body_defs must_def carry_payload_def py_set_def jget_attr_def
        jfetch_def py_int_of_def new_cycle_def)
qed

subsection \<open>Intent events\<close>

lemma replayed_intent_row:
  assumes "intent_row_of i = Inr row" "intent_canonical_object i = Inr payload"
  shows "replayed_intent (nr_id row) (JObj payload) = Inr row"
proof -
  obtain bounds where b: "bounds_canonical_object (in_bounds i) = Inr bounds"
    and exp: "0 \<le> in_quote_exposure_atomic i"
    using assms(1) by (auto simp: intent_row_of_def rbind_eq_Inr store_atomic_eq split: if_splits)
  show ?thesis
    using assms b exp
    by (auto simp: intent_row_of_def intent_canonical_object_def replayed_intent_def jfetch_def store_atomic_eq
        sql_text_def sql_enum_def)
qed

lemma apply_created:
  assumes "intent_row_of i = Inr row" "intent_canonical_object i = Inr payload"
    and "insert_intent row d = Inr (with_intent row d)" "covers B d"
  shows "apply_intent_created (nr_id row) (JObj payload) (mirror B d) = (Inr (), mirror B (with_intent row d))"
proof -
  have named: "jget_attr ''economic_action_id'' (JObj payload) = Inr (JStr (nr_id row))"
    using assms(1,2) by (auto simp: intent_row_of_def intent_canonical_object_def rbind_eq_Inr jget_attr_def)
  show ?thesis
    using mirror_insert_intent [OF assms(4,3)]
    by (simp add: apply_intent_created_def sbind_run body_defs must_def named replayed_intent_row [OF assms(1,2)])
qed

lemma replayed_receipt_row:
  assumes "receipt_row_of r seq = Inr f"
  shows "replayed_receipt (fr_action f) (JObj (receipt_canonical_object r)) seq = Inr f"
proof -
  from assms have "0 \<le> input_atomic_filled r" "0 \<le> output_atomic_filled r" "0 \<le> fee_atomic r"
    "observed_at_epoch_s r \<le> INT64_MAX"
    by (auto simp: receipt_row_of_def rbind_eq_Inr store_atomic_eq require_eq_Inr split: if_splits)
  then show ?thesis
    using assms
    by (simp add: receipt_row_of_def receipt_canonical_object_def replayed_receipt_def jfetch_def
        store_atomic_eq sql_text_def py_int_of_def) (auto)
qed

lemma apply_received:
  assumes "receipt_row_of r seq = Inr f" "insert_receipt f d = Inr (with_receipt f d)"
  shows "apply_receipt (fr_action f) (JObj (receipt_canonical_object r)) seq (mirror B d) =
    (Inr (), mirror B (with_receipt f d))"
  using mirror_insert_receipt [OF assms(2)]
  by (simp add: apply_receipt_def sbind_run body_defs replayed_receipt_row [OF assms(1)])

lemma mirror_effects:
  "mirror B (settled a rs d) = settled a rs (mirror B d)" "mirror B (effect_db i st d) = effect_db i st (mirror B d)"
proof -
  show settled: "mirror B (settled a rs d) = settled a rs (mirror B d)" for a rs
    by (simp add: settled_def mirror_updates next_seq_def split: option.split)
  have "mirror B (reserved i d) = reserved i (mirror B d)"
    by (simp add: reserved_def reservation_of_def next_seq_def mirror_def)
  then show "mirror B (effect_db i st d) = effect_db i st (mirror B d)"
    by (simp add: effect_db_def settled split: option.split)
qed

lemma settle_at_next: "settle_at a rs (next_seq d) d = settled a rs d"
  by (simp add: settle_at_def settled_def)

lemma replay_effect_run:
  assumes "transition_checked i st d" "covers B d" "exec_surface d = None" "0 \<le> nr_exposure i"
  shows "replay_effect {} (nr_id i) i st (next_seq d) (mirror B d) = (Inr (), mirror B (effect_db i st d))"
proof -
  have seq: "next_seq d = next_seq (mirror B d)" by (simp add: next_seq_def)
  have res: "insert_reservation (reservation_of d i) (mirror B d) = Inr (mirror B (reserved i d))"
    if "st = RESERVED" "nr_exposure i \<noteq> 0"
    using assms(1) that mirror_insert_reservation [OF assms(2)] by (simp add: transition_checked_def)
  have rel: "nr_state i \<notin> {SIGNED, SUBMITTED, INCLUDED, CONFIRMED}" if "st \<in> RELEASING_STATES"
    using assms(1,3) that by (auto simp: transition_checked_def has_bound_reverted_reconciliation_def)
  show ?thesis
  proof (cases "st = RESERVED")
    case True
    then show ?thesis
      using res assms(4)
      by (auto simp: replay_effect_def effect_db_def reserved_def reservation_of_def body_defs RELEASING_STATES_def)
  next
    case False
    show ?thesis
    proof (cases "st \<in> RELEASING_STATES")
      case True
      then show ?thesis
        using rel seq
        by (auto simp: replay_effect_def RELEASING_STATES_def effect_db_def body_defs sbind_run mirror_effects settle_at_next)
    next
      case nr: False
      then show ?thesis
        using False seq
        by (cases st) (auto simp: replay_effect_def RELEASING_STATES_def effect_db_def body_defs mirror_effects settle_at_next)
    qed
  qed
qed

lemma apply_moved:
  assumes "find_row nr_id a (intents d) = Some i" "transition_checked i st d" "covers B d" "exec_surface d = None"
    and "0 \<le> nr_exposure i"
  shows "apply_transition {} a (transition_event i st now pl d) (mirror B d) =
    (Inr (), mirror B (update_intent_state a st (effect_db i st d)))"
proof -
  have a: "nr_id i = a" using find_row_SomeD [OF assms(1)] by simp
  have ev: "ev_from (transition_event i st now pl d) = Some (Intent (nr_state i))"
    "ev_to (transition_event i st now pl d) = Some (Intent st)" "ev_seq (transition_event i st now pl d) = next_seq d"
    by (simp_all add: transition_event_def event_of_def)
  show ?thesis
    using assms(1,2) replay_effect_run [OF assms(2-5)]
    by (simp add: apply_transition_def sbind_run body_defs must_def label_state_def ev transition_checked_def
        mirror_updates a)
qed

subsection \<open>Whole operations\<close>

lemma apply_event_cases:
  "ev_type e \<in> CYCLE_EVENT_TYPES \<Longrightarrow> ev_action e = None \<Longrightarrow>
     apply_cycle_event (ev_type e) (ev_policy e) (ev_cycle e) (ev_payload e) m = (Inr (), m') \<Longrightarrow>
     apply_event T s e m = (Inr s, m')"
  "ev_type e = INTENT_CREATED \<Longrightarrow> ev_action e = Some a \<Longrightarrow> a \<notin> s \<Longrightarrow>
     apply_intent_created a (ev_payload e) m = (Inr (), m') \<Longrightarrow> apply_event T s e m = (Inr (insert a s), m')"
  "ev_type e = INTENT_TRANSITION \<Longrightarrow> ev_action e = Some a \<Longrightarrow> a \<in> s \<Longrightarrow>
     apply_transition T a e m = (Inr (), m') \<Longrightarrow> apply_event T s e m = (Inr s, m')"
  "ev_type e = FILL_RECEIPT_APPENDED \<Longrightarrow> ev_action e = Some a \<Longrightarrow> a \<in> s \<Longrightarrow>
     apply_receipt a (ev_payload e) (ev_seq e) m = (Inr (), m') \<Longrightarrow> apply_event T s e m = (Inr s, m')"
  by (simp_all add: apply_event_def sbind_run body_defs must_def CYCLE_EVENT_TYPES_def)

definition spot_ok :: "db \<Rightarrow> bool" where
  "spot_ok d \<longleftrightarrow> ledger_inv d \<and> openings_ok d \<and> exec_surface d = None"

lemma spot_parts:
  assumes "spot_ok d"
  shows "seqs_ok d" "openings_ok d" "exec_surface d = None" "next_seq d = last_in d + 1"
    "find_row nr_id a (intents d) = Some i \<Longrightarrow> 0 \<le> nr_exposure i"
    "find_row nr_id a (intents d) = Some i \<Longrightarrow> a \<in> seen_in d"
  using assms inv_parts [of d] next_in [of d]
  by (auto simp: spot_ok_def seen_in_def has_row_def dest: find_row_Some_has)

lemma identities_same:
  "covers B (push_event e d) = covers B d" "covers B (with_cycle c d) = covers B d"
  "covers B (with_intent i d) = covers B d" "covers B (with_receipt f d) = covers B d"
  "covers B (update_intent_state a st d) = covers B d" "covers B (update_cycle_status cid cs d) = covers B d"
  "covers B (effect_db i st d) = covers B d"
  by (rule covers_cong; simp add: added_defs table_updates)+

lemma replays_close:
  assumes "find_row cr_id cid (cycles d) = Some c" "cr_status c = OPEN" "st \<in> {COMPLETED, HALTED}"
    and "insert_event (close_event c st now d) (update_cycle_status cid st d) =
      Inr (push_event (close_event c st now d) (update_cycle_status cid st d))"
    and "covers B d" "spot_ok d" "now \<le> INT64_MAX"
  shows "replays B d [close_event c st now d] (push_event (close_event c st now d) (update_cycle_status cid st d))"
proof (rule replays_event [OF _ assms(4)])
  have cid: "cr_id c = cid" using find_row_SomeD [OF assms(1)] by simp
  show "apply_event {} (seen_in d) (close_event c st now d) (mirror B d) =
      (Inr (seen_in (update_cycle_status cid st d)), mirror B (update_cycle_status cid st d))"
    using apply_close [OF assms(1-3)]
    by (auto simp: close_event_def CYCLE_EVENT_TYPES_def cid intro!: apply_event_cases(1))
qed (use assms(5-7) spot_parts(4) [OF assms(6)] in \<open>auto simp: identities_same close_event_def event_of_def\<close>)

lemma replays_open:
  assumes "apply_cycle_event CYCLE_OPENED pid cid payload (mirror B d) = (Inr (), mirror B (with_cycle c d))"
    and "insert_event (open_event pid cid payload now d) (with_cycle c d) =
      Inr (push_event (open_event pid cid payload now d) (with_cycle c d))"
    and "covers B d" "next_seq d = last_in d + 1" "now \<le> INT64_MAX"
  shows "replays B d [open_event pid cid payload now d] (push_event (open_event pid cid payload now d) (with_cycle c d))"
proof (rule replays_event [OF _ assms(2)])
  show "apply_event {} (seen_in d) (open_event pid cid payload now d) (mirror B d) =
      (Inr (seen_in (with_cycle c d)), mirror B (with_cycle c d))"
    using assms(1) by (auto simp: open_event_def CYCLE_EVENT_TYPES_def intro!: apply_event_cases(1))
qed (use assms(3-5) in \<open>auto simp: identities_same open_event_def event_of_def\<close>)

lemma replays_moved:
  assumes "find_row nr_id a (intents d) = Some i" "transition_checked i st d"
    and "insert_event (transition_event i st now pl d) (update_intent_state a st (effect_db i st d)) =
      Inr (push_event (transition_event i st now pl d) (update_intent_state a st (effect_db i st d)))"
    and "covers B d" "exec_surface d = None" "0 \<le> nr_exposure i" "next_seq d = last_in d + 1" "now \<le> INT64_MAX"
  shows "replays B d [transition_event i st now pl d]
    (push_event (transition_event i st now pl d) (update_intent_state a st (effect_db i st d)))"
proof (rule replays_event [OF _ assms(3)])
  have a: "nr_id i = a" "a \<in> seen_in d"
    using find_row_SomeD [OF assms(1)] by (auto simp: seen_in_def)
  have "apply_event {} (seen_in d) (transition_event i st now pl d) (mirror B d) =
      (Inr (seen_in d), mirror B (update_intent_state a st (effect_db i st d)))"
    using apply_moved [OF assms(1,2,4-6)] a
    by (auto simp: transition_event_def intro!: apply_event_cases(3))
  then show "apply_event {} (seen_in d) (transition_event i st now pl d) (mirror B d) =
      (Inr (seen_in (update_intent_state a st (effect_db i st d))), mirror B (update_intent_state a st (effect_db i st d)))"
    by simp
qed (use assms(4,7,8) in \<open>auto simp: identities_same transition_event_def event_of_def\<close>)

lemma replays_created:
  assumes "intent_row_of i = Inr row" "intent_canonical_object i = Inr payload"
    and "insert_intent row d = Inr (with_intent row d)" "now \<le> INT64_MAX" "covers B d" "next_seq d = last_in d + 1"
    and "e = event_of d INTENT_CREATED (nr_policy row) (nr_cycle row) (Some (nr_id row)) None
       (Some (Intent ARMED)) now (JObj payload)"
    and "insert_event e (with_intent row d) = Inr (push_event e (with_intent row d))"
  shows "replays B d [e] (push_event e (with_intent row d))"
proof (rule replays_event [OF _ assms(8)])
  have "nr_id row \<notin> seen_in d" using assms(3) by (auto simp: insert_intent_Inr has_row_def seen_in_def)
  then show "apply_event {} (seen_in d) e (mirror B d) = (Inr (seen_in (with_intent row d)), mirror B (with_intent row d))"
    using apply_created [OF assms(1-3,5)] unfolding assms(7)
    by (auto intro!: apply_event_cases(2))
qed (use assms(4-7) in \<open>auto simp: identities_same event_of_def\<close>)

lemma replays_received:
  assumes "find_row nr_id (rc_economic_action_id r) (intents d) = Some i"
    and "receipt_row_of r (next_seq d) = Inr f" "insert_receipt f d = Inr (with_receipt f d)"
    and "insert_event (receipt_event i r now d) (with_receipt f d) =
       Inr (push_event (receipt_event i r now d) (with_receipt f d))"
    and "now \<le> INT64_MAX" "covers B d" "next_seq d = last_in d + 1"
  shows "replays B d [receipt_event i r now d] (push_event (receipt_event i r now d) (with_receipt f d))"
proof (rule replays_event [OF _ assms(4)])
  have i: "nr_id i = rc_economic_action_id r" "rc_economic_action_id r \<in> seen_in d"
    using find_row_SomeD [OF assms(1)] seen_found [OF assms(1)] by simp_all
  have f: "fr_action f = rc_economic_action_id r"
    using assms(2) by (auto simp: receipt_row_of_def rbind_eq_Inr)
  show "apply_event {} (seen_in d) (receipt_event i r now d) (mirror B d) = (Inr (seen_in (with_receipt f d)), mirror B (with_receipt f d))"
    using apply_received [OF assms(2,3), of B] i f
    by (auto simp: receipt_event_def intro!: apply_event_cases(4))
qed (use assms(5-7) in \<open>auto simp: identities_same receipt_event_def event_of_def\<close>)

text \<open>A receipt, with the halt it may cause.\<close>

lemma receipt_replays:
  assumes "append_fill_receipt_in_transaction r now d = (Inr ok, d')" "spot_ok d" "covers B d"
  shows "\<exists>evs. replays B d evs d'"
proof -
  from append_receipt_Inr [OF assms(1)] obtain i f where
    i: "find_row nr_id (rc_economic_action_id r) (intents d) = Some i" "nr_id i = rc_economic_action_id r"
    and now: "now \<le> INT64_MAX"
    and f: "receipt_row_of r (next_seq d) = Inr f" "insert_receipt f d = Inr (with_receipt f d)"
      "insert_event (receipt_event i r now d) (with_receipt f d) =
         Inr (push_event (receipt_event i r now d) (with_receipt f d))"
    and fin: "if \<not> ok \<and> nr_state i \<noteq> SAFE_HALT then
       is_legal_transition (nr_state i) SAFE_HALT \<and>
       (let d1 = push_event (receipt_event i r now d) (with_receipt f d);
            e = transition_event i SAFE_HALT now halt_payload d1;
            d2 = update_intent_state (nr_id i) SAFE_HALT (settled (nr_id i) QUARANTINED d1)
        in insert_event e d2 = Inr d' \<and> d' = push_event e d2)
     else d' = push_event (receipt_event i r now d) (with_receipt f d)"
    by metis
  define d1 where "d1 = push_event (receipt_event i r now d) (with_receipt f d)"
  have first: "replays B d [receipt_event i r now d] d1"
    unfolding d1_def by (rule replays_received [OF i(1) f now assms(3) spot_parts(4) [OF assms(2)]])
  show ?thesis
  proof (cases "\<not> ok \<and> nr_state i \<noteq> SAFE_HALT")
    case True
    define e where "e = transition_event i SAFE_HALT now halt_payload d1"
    have fin': "is_legal_transition (nr_state i) SAFE_HALT"
      "insert_event e (update_intent_state (nr_id i) SAFE_HALT (effect_db i SAFE_HALT d1)) = Inr d'"
      "d' = push_event e (update_intent_state (nr_id i) SAFE_HALT (effect_db i SAFE_HALT d1))"
      using fin True by (simp_all add: Let_def d1_def e_def effect_db_def)
    have chk: "transition_checked i SAFE_HALT d1"
      using fin'(1) by (simp add: transition_checked_def RELEASING_STATES_def)
    have sq: "seqs_ok d1"
      unfolding d1_def receipt_event_def event_of_same(2) [symmetric]
      using spot_parts(1) [OF assms(2)] by (simp add: seqs_ok_def next_seq_length event_of_def)
    have d1: "find_row nr_id (nr_id i) (intents d1) = Some i" "covers B d1" "exec_surface d1 = None"
      using i assms(3) spot_parts(3) [OF assms(2)] by (simp_all add: d1_def identities_same)
        (simp add: with_receipt_def)
    have "replays B d1 [e] d'"
      using fin'(2) unfolding fin'(3) e_def
      by (rule replays_moved [OF d1(1) chk _ d1(2,3) spot_parts(5) [OF assms(2) i(1)] next_in [OF sq] now])
    from replays_trans [OF first this] show ?thesis by blast
  next
    case False
    then have "d' = d1" using fin by (auto simp: d1_def)
    then show ?thesis using first by blast
  qed
qed

interpretation plain_surface: statement_invariant "\<lambda>d. exec_surface d = x"
  by unfold_locales (auto simp: res_simps table_updates)

lemma covers_before: "extends d d' \<Longrightarrow> covers B d' \<Longrightarrow> covers B d"
  by (auto simp: extends_def covers_def prefix_def has_row_simps find_row_append)

lemma op_extends: "op_body H op d = (Inr u, d') \<Longrightarrow> extends d d'"
  using extended.op_invariant extends_refl by blast

lemma op_spot_ok: "op_body H op d = (Inr u, d') \<Longrightarrow> spot_ok d \<Longrightarrow> spot_ok d'"
  using op_body_inv op_body_openings plain_surface.op_invariant [of H op d u d' None] by (simp add: spot_ok_def)

lemma continue_replays:
  assumes "continue_inventory_body H src p index cid now d = (Inr x, d')" "spot_ok d" "covers B d"
  shows "\<exists>evs. replays B d evs d'"
proof -
  from continue_Inr [OF assms(1)] obtain n c where chk: "continue_checked H src p cid n c d" and now: "now \<le> INT64_MAX"
    and cl: "insert_event (close_event c COMPLETED now d) (update_cycle_status src COMPLETED d) = Inr (source_closed src c now d)"
    and ins: "insert_cycle (new_cycle (policy_id H p) cid index) (source_closed src c now d) =
       Inr (with_cycle (new_cycle (policy_id H p) cid index) (source_closed src c now d))"
    and op: "insert_event (open_event (policy_id H p) cid (carry_payload index n src) now (source_closed src c now d))
       (with_cycle (new_cycle (policy_id H p) cid index) (source_closed src c now d)) = Inr d'"
    and d': "d' = push_event (open_event (policy_id H p) cid (carry_payload index n src) now (source_closed src c now d))
       (with_cycle (new_cycle (policy_id H p) cid index) (source_closed src c now d))"
    by metis
  have c: "find_row cr_id src (cycles d) = Some c" "cr_status c = OPEN" using chk by (simp_all add: continue_checked_def)
  have sq: "seqs_ok (source_closed src c now d)"
    using spot_parts(1) [OF assms(2)]
    by (simp add: source_closed_def close_event_def seqs_ok_def next_seq_length event_of_def)
  have cov: "covers B (source_closed src c now d)" using assms(3) by (simp add: source_closed_def identities_same)
  have first: "replays B d [close_event c COMPLETED now d] (source_closed src c now d)"
    using cl unfolding source_closed_def by (intro replays_close c assms(2,3) now) simp_all
  have "replays B (source_closed src c now d)
      [open_event (policy_id H p) cid (carry_payload index n src) now (source_closed src c now d)] d'"
    using op unfolding d'
    by (intro replays_open apply_carry_open [OF chk spot_parts(2) [OF assms(2)] assms(3) ins] cov next_in [OF sq] now)
  from replays_trans [OF first this] show ?thesis by blast
qed

lemma op_replays:
  assumes op: "op_body H op d = (Inr u, d')" and ok: "spot_ok d" and cov: "covers B d'"
  shows "\<exists>evs. replays B d evs d'"
proof -
  note cov = covers_before [OF op_extends [OF op] cov] and next_d = spot_parts(4) [OF ok]
  show ?thesis
  proof (cases op)
    case (AdmitPolicy p)
    then have "runtime d' = runtime d" using op admit_Inr by (auto simp: body_unit_Inr)
    then have "mirror B d' = mirror B d" "seen_in d' = seen_in d" "last_in d' = last_in d" "state_events d' = state_events d"
      by (simp_all add: runtime_eq mirror_def seen_in_def last_in_def)
    then have "replays B d [] d'" by (simp add: replays_def)
    then show ?thesis by blast
  next
    case (OpenCycle p index now)
    then obtain cid x where "open_cycle_body (policy_id H p) cid index now d = (Inr x, d')"
      using op by (auto simp: body_unit_Inr sbind_eq_Inr slift_eq sraise_eq split: if_splits)
    from open_cycle_Inr [OF this] show ?thesis
      using replays_open [OF apply_plain_open [OF _ cov] _ cov next_d] by metis
  next
    case (CloseCycle cid status now)
    then obtain x where st: "status \<in> {COMPLETED, HALTED}" and "close_cycle_body cid status now d = (Inr x, d')"
      using op by (auto simp: body_unit_Inr sraise_eq split: if_splits)
    from close_cycle_Inr [OF this(2)] show ?thesis
      using replays_close [OF _ _ st _ cov ok] by metis
  next
    case (ContinueInventory src p index now)
    then obtain cid x where "continue_inventory_body H src p index cid now d = (Inr x, d')"
      using op by (auto simp: body_unit_Inr sbind_eq_Inr slift_eq sraise_eq split: if_splits)
    then show ?thesis by (rule continue_replays [OF _ ok cov])
  next
    case (CreateIntent i now)
    then have "create_intent_body i now d = (Inr (), d')" using op by (auto simp: sraise_eq split: if_splits)
    from create_intent_Inr [OF this] show ?thesis
      using replays_created [OF _ _ _ _ cov next_d refl] by metis
  next
    case (Transition a st now pl)
    then have "transition_body a st now pl d = (Inr (), d')" using op by simp
    from transition_body_Inr [OF this] show ?thesis
      using replays_moved [OF _ _ _ cov spot_parts(3) [OF ok] _ next_d] spot_parts(5) [OF ok] by metis
  next
    case (RecoverSafeHalt a st now)
    then have b: "recover_safe_halt_body a st now d = (Inr (), d')" "st \<in> {RECONCILED, REJECTED}"
      using op by (auto simp: sraise_eq split: if_splits)
    then have False using spot_parts(3) [OF ok]
      by (auto simp: recover_safe_halt_body_def sbind_eq_Inr sget_eq sguard_eq_Inr slift_eq sraise_eq case_option_run
          execution_surface_present_def)
    then show ?thesis ..
  next
    case (AppendReceipt r now)
    then obtain ok' where "append_fill_receipt_in_transaction r now d = (Inr ok', d')"
      using op by (auto simp: sbind_eq_Inr sget_eq sraise_eq body_unit_Inr split: if_splits)
    then show ?thesis by (rule receipt_replays [OF _ ok cov])
  next
    case (AppendExecutionReceipt r va now)
    then obtain ok' where "append_execution_fill_receipt_body r va now d = (Inr ok', d')"
      using op by (auto simp: body_unit_Inr)
    from receipt_replays [OF execution_receipt_Inr [OF this] ok cov] show ?thesis .
  qed
qed

end
