(* ===== verification/Catalog.thy ===== *)
theory Catalog
  imports Mirror "HOL-Library.Multiset"
begin

text \<open>
  The tables of identities as the admitted policies determine them, and their
  reconstruction: replaying the canonical documents of a ledger's policies, in order of
  policy id, admits the same policies, levels and instruments.
\<close>

subsection \<open>Admission, in closed form\<close>

definition insts :: "PolicyV0 \<Rightarrow> InstrumentV0 list" where
  "insts p = [base p, quote_instrument p]"

definition upserted :: "digest_fn \<Rightarrow> InstrumentV0 \<Rightarrow> instrument_row list \<Rightarrow> instrument_row list" where
  "upserted H i t = (if has_row ir_id (instrument_id i) t then t else t @ [instrument_row_of H i])"

definition known_digest :: "digest_fn \<Rightarrow> InstrumentV0 \<Rightarrow> instrument_row list \<Rightarrow> bool" where
  "known_digest H i t \<longleftrightarrow> (\<exists>row \<in> set t. ir_id row = instrument_id i \<and> ir_digest row = identity_digest H i)"

lemma instrument_row_sel [simp]:
  "ir_id (instrument_row_of H i) = instrument_id i" "ir_digest (instrument_row_of H i) = identity_digest H i"
  "ir_identity (instrument_row_of H i) = identity_object i"
  by (simp_all add: instrument_row_of_def)

lemma upsert_Inr:
  assumes "upsert_instrument H i d = (Inr u, d')"
  shows "d' = d\<lparr>instruments := upserted H i (instruments d)\<rparr> \<and> known_digest H i (upserted H i (instruments d))"
proof (cases "find_row ir_id (instrument_id i) (instruments d)")
  case None
  then have "\<not> has_row ir_id (instrument_id i) (instruments d)" by (simp add: find_row_None)
  then show ?thesis
    using assms None
    by (auto simp: upsert_instrument_def sbind_eq_Inr sget_eq swrite_eq_Inr insert_instrument_Inr upserted_def known_digest_def)
next
  case (Some r)
  then show ?thesis
    using assms find_row_Some_has [OF Some] find_row_SomeD [OF Some]
    by (auto simp: upsert_instrument_def sbind_eq_Inr sget_eq sguard_eq_Inr upserted_def known_digest_def)
qed

lemma insert_level_of_Inr:
  "insert_level_of pid l d = (Inr u, d') \<longleftrightarrow> (\<exists>row. level_row_of pid l = Inr row \<and> insert_level row d = Inr d')"
  by (auto simp: insert_level_of_def sbind_eq_Inr slift_eq swrite_eq_Inr)

lemma insert_levels_Inr:
  "sfor (insert_level_of pid) ls d = (Inr u, d') \<Longrightarrow>
     \<exists>rows. traverse (level_row_of pid) ls = Inr rows \<and> d' = d\<lparr>ladder_levels := ladder_levels d @ rows\<rparr>"
proof (induction ls arbitrary: d)
  case Nil
  then show ?case by (simp add: sret_eq)
next
  case (Cons l ls)
  then obtain row d1 where row: "level_row_of pid l = Inr row" and d1: "d1 = d\<lparr>ladder_levels := ladder_levels d @ [row]\<rparr>"
    and rest: "sfor (insert_level_of pid) ls d1 = (Inr u, d')"
    by (force simp: sbind_eq_Inr insert_level_of_Inr insert_level_Inr)
  from Cons.IH [OF rest] show ?case using row by (auto simp: d1)
qed

definition readmits :: "digest_fn \<Rightarrow> PolicyV0 \<Rightarrow> policy_row \<Rightarrow> db \<Rightarrow> bool" where
  "readmits H p r d \<longleftrightarrow> find_row pr_id (policy_id H p) (policies d) = Some r \<and>
     canonical_json_str (pr_canonical r) = canonical_json_str (canonical p)"

lemma admit_body_Inr:
  assumes "admit_policy_body H p d = (Inr x, d')"
  obtains (again) r where "readmits H p r d"
      "d' = d\<lparr>instruments := upserted H (quote_instrument p) (upserted H (base p) (instruments d))\<rparr>"
      "\<forall>i \<in> set (insts p). known_digest H i (instruments d')"
    | (new) r rows where "\<not> has_row pr_id (policy_id H p) (policies d)" "policy_row_of H p = Inr r"
      "traverse (level_row_of (policy_id H p)) (levels p) = Inr rows"
      "\<forall>q \<in> set (policies d). pr_quote q = pol_quote_instrument_id p"
      "d' = d\<lparr>instruments := upserted H (quote_instrument p) (upserted H (base p) (instruments d)),
         policies := policies d @ [r], ladder_levels := ladder_levels d @ rows\<rparr>"
      "\<forall>i \<in> set (insts p). known_digest H i (instruments d')"
proof -
  obtain d1 d2 where up: "upsert_instrument H (base p) d = (Inr (), d1)" "upsert_instrument H (quote_instrument p) d1 = (Inr (), d2)"
    and quot: "list_all (\<lambda>r. pr_quote r = pol_quote_instrument_id p) (policies d2)"
    and rest: "(case find_row pr_id (policy_id H p) (policies d2) of
       Some r \<Rightarrow>
         sbind (sguard (canonical_json_str (pr_canonical r) = canonical_json_str (canonical p)) LedgerError)
           (\<lambda>_. sret (policy_id H p))
     | None \<Rightarrow>
         sbind (slift (policy_row_of H p)) (\<lambda>row.
         sbind (swrite (insert_policy row)) (\<lambda>_.
         sbind (sfor (insert_level_of (policy_id H p)) (levels p)) (\<lambda>_.
           sret (policy_id H p))))) d2 = (Inr x, d')"
    using assms unfolding admit_policy_body_def
    by (auto simp: sbind_eq_Inr sget_eq sguard_eq_Inr)
  have d1: "d1 = d\<lparr>instruments := upserted H (base p) (instruments d)\<rparr>" "known_digest H (base p) (instruments d1)"
    using upsert_Inr [OF up(1)] by simp_all
  have d2: "d2 = d\<lparr>instruments := upserted H (quote_instrument p) (upserted H (base p) (instruments d))\<rparr>"
    "known_digest H (quote_instrument p) (instruments d2)"
    using upsert_Inr [OF up(2)] by (simp_all add: d1)
  have known: "\<forall>i \<in> set (insts p). known_digest H i (instruments d2)"
    using d1 d2 by (auto simp: insts_def known_digest_def upserted_def split: if_splits)
  show thesis
  proof (cases "find_row pr_id (policy_id H p) (policies d2)")
    case (Some r)
    with rest have "canonical_json_str (pr_canonical r) = canonical_json_str (canonical p)" "d' = d2"
      by (auto simp: sbind_eq_Inr sguard_eq_Inr sret_eq)
    then show thesis using again [of r] Some known d2(1) by (simp add: readmits_def)
  next
    case None
    with rest obtain r d3 where r: "policy_row_of H p = Inr r" and ins: "insert_policy r d2 = Inr d3"
      and lev: "sfor (insert_level_of (policy_id H p)) (levels p) d3 = (Inr (), d')"
      by (auto simp: sbind_eq_Inr slift_eq swrite_eq_Inr sret_eq)
    obtain rows where "traverse (level_row_of (policy_id H p)) (levels p) = Inr rows"
        "d' = d3\<lparr>ladder_levels := ladder_levels d3 @ rows\<rparr>"
      using insert_levels_Inr [OF lev] by blast
    moreover have "\<not> has_row pr_id (policy_id H p) (policies d)" using None by (simp add: find_row_None d2)
    ultimately show thesis
      using new [of r rows] r ins known quot by (auto simp: insert_policy_Inr d2 list_all_iff)
  qed
qed

subsection \<open>Canonical documents determine their instruments\<close>

lemma canon_member:
  assumes "json_canon (JObj a) = json_canon (JObj b)" "distinct (map fst b)" "(k, v) \<in> set a"
  shows "\<exists>w. map_of b k = Some w \<and> json_canon w = json_canon v"
proof -
  have "(\<lambda>m. (fst m, json_canon (snd m))) ` set a = (\<lambda>m. (fst m, json_canon (snd m))) ` set b"
    using arg_cong [OF assms(1) [unfolded object_canon json.inject], of set] by simp
  then have "(k, json_canon v) \<in> (\<lambda>m. (fst m, json_canon (snd m))) ` set b"
    using assms(3) by (metis (no_types, lifting) fst_conv image_eqI snd_conv)
  then show ?thesis using assms(2) by (auto simp: map_of_eq_Some_iff)
qed

lemma canon_scalar [simp]:
  "json_canon w = JInt n \<longleftrightarrow> w = JInt n" "json_canon w = JStr s \<longleftrightarrow> w = JStr s"
  by (cases w; simp; fail)+

lemma fields_distinct: "distinct (map fst (identity_fields r))"
  by (cases r) simp_all

lemma fields_canon_inj:
  assumes "json_canon (JObj (identity_fields r)) = json_canon (JObj (identity_fields r'))"
  shows "r = r'"
proof -
  have mem: "\<exists>w. map_of (identity_fields r') k = Some w \<and> json_canon w = json_canon v"
    if "(k, v) \<in> set (identity_fields r)" for k v
    by (rule canon_member [OF assms fields_distinct that])
  show ?thesis
  proof (cases r)
    case r: (EvmInstrumentRef cid addr)
    have "map_of (identity_fields r') ''chain_id'' = Some (JInt cid)"
      using mem [of "''chain_id''" "JInt cid"] by (auto simp: r)
    moreover have "map_of (identity_fields r') ''contract_address'' = Some (JStr addr)"
      using mem [of "''contract_address''" "JStr addr"] by (auto simp: r)
    ultimately show ?thesis by (cases r') (simp_all add: r)
  next
    case r: (SolanaInstrumentRef c mint p)
    have "map_of (identity_fields r') ''cluster'' = Some (JStr (SolanaCluster_value c))"
      using mem [of "''cluster''" "JStr (SolanaCluster_value c)"] by (auto simp: r)
    moreover have "map_of (identity_fields r') ''mint_address'' = Some (JStr mint)"
      using mem [of "''mint_address''" "JStr mint"] by (auto simp: r)
    moreover have "map_of (identity_fields r') ''token_program'' = Some (JStr (TokenProgram_value p))"
      using mem [of "''token_program''" "JStr (TokenProgram_value p)"] by (auto simp: r)
    ultimately show ?thesis
      by (cases r') (simp_all add: r TokenProgram_value_inj SolanaCluster_value_inj)
  qed
qed

lemma instrument_canon_inj:
  assumes "json_canon (policy_object i) = json_canon (policy_object j)"
  shows "instrument_row_of H i = instrument_row_of H j"
proof -
  have dist: "distinct (map fst [(''ref'', JObj (identity_fields (ref j))), (''decimals'', JInt (decimals j)),
      (''asset_class'', JStr (AssetClass_value (asset_class j)))])" by simp
  note mem = canon_member [OF assms [unfolded policy_object_def] dist]
  have "ref i = ref j" using mem [of "''ref''"] by (auto intro!: fields_canon_inj)
  moreover have "decimals i = decimals j" using mem [of "''decimals''"] by (auto)
  moreover have "asset_class i = asset_class j"
    by (cases "asset_class i"; cases "asset_class j") simp_all
  ultimately show ?thesis
    by (simp add: instrument_row_of_def instrument_id_def network_id_def identity_digest_def identity_object_def)
qed

lemma canonical_document:
  assumes "parts_canonical a = Inr doc"
  obtains kvs where "doc = JObj kvs" "distinct (map fst kvs)"
    "map_of kvs ''base'' = Some (policy_object (pt_base a))"
    "map_of kvs ''quote'' = Some (policy_object (pt_quote a))"
proof -
  from assms obtain entry exit cap lims rec where
    "doc = JObj [(''schema'', JStr POLICY_SCHEMA_ID), (''policy_name'', JStr (pt_name a)),
         (''side'', JStr (Side_value (pt_side a))),
         (''base'', policy_object (pt_base a)), (''quote'', policy_object (pt_quote a)),
         (''entry_ladder'', entry), (''exit_ladder'', exit), (''capital'', cap), (''limits'', lims),
         (''timing'', timing_canonical (pt_timing a)), (''reentry'', reentry_canonical (pt_reentry a)),
         (''recycling'', rec)]"
    unfolding parts_canonical_def rbind_eq_Inr sum.inject by (elim exE conjE) (erule that [OF sym])
  then show thesis by (rule that) simp_all
qed

lemma same_document_same_instruments:
  assumes "parse_policy raw = Inr p" "parse_policy raw' = Inr q"
    and "canonical_json_str (canonical p) = canonical_json_str (canonical q)"
  shows "map (instrument_row_of H) (insts p) = map (instrument_row_of H) (insts q)"
proof -
  obtain a where a: "policy_parts raw = Inr a" "parts_canonical a = Inr (canonical p)" "p = parts_policy a (canonical p)"
    by (rule parse_policy_cases [OF assms(1)])
  obtain b where b: "policy_parts raw' = Inr b" "parts_canonical b = Inr (canonical q)" "q = parts_policy b (canonical q)"
    by (rule parse_policy_cases [OF assms(2)])
  obtain kvs where doc: "canonical p = JObj kvs" "distinct (map fst kvs)"
      "map_of kvs ''base'' = Some (policy_object (pt_base a))"
      "map_of kvs ''quote'' = Some (policy_object (pt_quote a))"
    by (rule canonical_document [OF a(2)])
  obtain kvs' where doc': "canonical q = JObj kvs'" "distinct (map fst kvs')"
      "map_of kvs' ''base'' = Some (policy_object (pt_base b))"
      "map_of kvs' ''quote'' = Some (policy_object (pt_quote b))"
    by (rule canonical_document [OF b(2)])
  have eq: "json_canon (JObj kvs) = json_canon (JObj kvs')"
    using same_text_same_value [OF assms(3)] unfolding doc(1) doc'(1) .
  have same: "json_canon (policy_object (pt_base a)) = json_canon (policy_object (pt_base b))"
    "json_canon (policy_object (pt_quote a)) = json_canon (policy_object (pt_quote b))"
    using canon_member [OF eq doc'(2) map_of_SomeD [OF doc(3)]] canon_member [OF eq doc'(2) map_of_SomeD [OF doc(4)]]
      doc'(3,4) by simp_all
  have "base p = pt_base a" "quote_instrument p = pt_quote a" "base q = pt_base b" "quote_instrument q = pt_quote b"
    using arg_cong [OF a(3), of base] arg_cong [OF a(3), of quote_instrument]
      arg_cong [OF b(3), of base] arg_cong [OF b(3), of quote_instrument]
    by (simp_all add: parts_policy_def)
  then show ?thesis using instrument_canon_inj [OF same(1), of H] instrument_canon_inj [OF same(2), of H]
    by (simp add: insts_def)
qed

subsection \<open>The catalog\<close>

text \<open>The row of a policy, its levels and its instruments are those its document determines.\<close>

definition document :: "digest_fn \<Rightarrow> db \<Rightarrow> policy_row \<Rightarrow> PolicyV0 \<Rightarrow> bool" where
  "document H d r q \<longleftrightarrow> parse_policy (pr_canonical r) = Inr q \<and> policy_row_of H q = Inr r \<and>
     traverse (level_row_of (pr_id r)) (levels q) = Inr (filter (\<lambda>l. lr_policy l = pr_id r) (ladder_levels d)) \<and>
     (\<forall>i \<in> set (insts q). known_digest H i (instruments d))"

definition catalog :: "digest_fn \<Rightarrow> db \<Rightarrow> bool" where
  "catalog H d \<longleftrightarrow>
     (\<forall>r \<in> set (policies d). \<exists>q. document H d r q) \<and>
     (\<forall>row \<in> set (instruments d). \<exists>r \<in> set (policies d). \<exists>q. parse_policy (pr_canonical r) = Inr q \<and>
        row \<in> set (map (instrument_row_of H) (insts q))) \<and>
     (\<forall>r \<in> set (policies d). \<forall>r' \<in> set (policies d). pr_quote r = pr_quote r')"

lemma forget_facts [simp]:
  "policy_row_of H (forget_symbols p) = policy_row_of H p" "levels (forget_symbols p) = levels p"
  "policy_id H (forget_symbols p) = policy_id H p" "canonical (forget_symbols p) = canonical p"
  "map (instrument_row_of H) (insts (forget_symbols p)) = map (instrument_row_of H) (insts p)"
  by (simp_all add: forget_symbols_def policy_row_of_def levels_def policy_id_def pol_instrument_id_def
      pol_quote_instrument_id_def pol_network_id_def insts_def instrument_row_of_def identity_object_def)

lemma policy_row_sel:
  assumes "policy_row_of H p = Inr r"
  shows "pr_id r = policy_id H p" "pr_canonical r = canonical p" "pr_quote r = pol_quote_instrument_id p"
    "pr_instrument r = pol_instrument_id p"
  using assms by (auto simp: policy_row_of_def Let_def rbind_eq_Inr)

lemma level_rows_policy: "traverse (level_row_of pid) ls = Inr rows \<Longrightarrow> row \<in> set rows \<Longrightarrow> lr_policy row = pid"
  by (induction ls arbitrary: rows) (auto simp: rbind_eq_Inr level_row_of_def)

lemma known_all:
  "(\<forall>i \<in> set is. known_digest H i t) =
     (\<forall>m \<in> set (map (instrument_row_of H) is). \<exists>row \<in> set t. ir_id row = ir_id m \<and> ir_digest row = ir_digest m)"
  by (simp add: known_digest_def)

lemma known_cong:
  "map (instrument_row_of H) is = map (instrument_row_of H) js \<Longrightarrow>
   (\<forall>i \<in> set is. known_digest H i t) = (\<forall>i \<in> set js. known_digest H i t)"
  unfolding known_all by (simp only:)

lemma upserted_known: "known_digest H i t \<Longrightarrow> upserted H i t = t"
  by (auto simp: upserted_def known_digest_def has_row_def rev_image_eqI)

lemma upserted_mono:
  "set t \<subseteq> set (upserted H i t)" "set (upserted H i t) \<subseteq> insert (instrument_row_of H i) (set t)"
  by (auto simp: upserted_def)

lemma catalog_admit:
  assumes cat: "catalog H d" and refs: "foreign_keys_ok d" and p: "parse_policy raw = Inr p"
    and body: "admit_policy_body H p d = (Inr x, d')"
  shows "catalog H d'"
  using body
proof (cases rule: admit_body_Inr)
  case (again r)
  then have r: "r \<in> set (policies d)" using find_row_SomeD by (fastforce simp: readmits_def)
  then obtain q where q: "document H d r q" using cat by (auto simp: catalog_def)
  then have "canonical_json_str (canonical p) = canonical_json_str (canonical q)"
    using again(1) policy_row_sel(2) [of H q r] by (simp add: readmits_def document_def)
  then have "map (instrument_row_of H) (insts p) = map (instrument_row_of H) (insts q)"
    using same_document_same_instruments [OF p, of "pr_canonical r" q] q by (simp add: document_def)
  then have "\<forall>i \<in> set (insts p). known_digest H i (instruments d)"
    using known_cong q unfolding document_def by blast
  then have "d' = d" using again(2) by (simp add: insts_def upserted_known)
  then show ?thesis using cat by simp
next
  case (new r rows)
  have r: "pr_id r = policy_id H p" "pr_canonical r = canonical p" "pr_quote r = pol_quote_instrument_id p"
    using policy_row_sel [OF new(2)] by simp_all
  let ?q = "forget_symbols p"
  have parse: "parse_policy (pr_canonical r) = Inr ?q" using parse_canonical [OF p] r(2) by simp
  have inst: "instruments d' = upserted H (quote_instrument p) (upserted H (base p) (instruments d))"
    and tabs: "policies d' = policies d @ [r]" "ladder_levels d' = ladder_levels d @ rows"
    using new(5) by simp_all
  have sub: "set (instruments d) \<subseteq> set (instruments d')"
    "set (instruments d') \<subseteq> set (map (instrument_row_of H) (insts p)) \<union> set (instruments d)"
    unfolding inst by (auto simp: insts_def upserted_def)
  have known: "known_digest H i (instruments d) \<Longrightarrow> known_digest H i (instruments d')" for i
    using sub(1) by (auto simp: known_digest_def)
  have own: "filter (\<lambda>l. lr_policy l = pr_id r) (ladder_levels d') = rows"
  proof -
    have "filter (\<lambda>l. lr_policy l = pr_id r) (ladder_levels d) = []"
      using refs new(1) r(1) by (auto simp: foreign_keys_ok_def list_all_iff filter_empty_conv)
    moreover have "filter (\<lambda>l. lr_policy l = pr_id r) rows = rows"
      using level_rows_policy [OF new(3)] r(1) by (simp add: filter_id_conv)
    ultimately show ?thesis by (simp add: tabs)
  qed
  have new_doc: "document H d' r ?q"
    unfolding document_def own
    using parse new(2,3,6) r(1) known_cong [OF forget_facts(5) [where H = H and p = p]] by simp
  have old_doc: "document H d' r0 q" if "document H d r0 q" "r0 \<in> set (policies d)" for r0 q
  proof -
    have "pr_id r0 \<noteq> policy_id H p" using new(1) that(2) by (auto simp: has_row_def rev_image_eqI)
    then have "filter (\<lambda>l. lr_policy l = pr_id r0) rows = []"
      using level_rows_policy [OF new(3)] by (auto simp: filter_empty_conv)
    then show ?thesis using that(1) known by (auto simp: document_def tabs)
  qed
  have rows: "\<exists>r \<in> set (policies d'). \<exists>q. parse_policy (pr_canonical r) = Inr q \<and> row \<in> set (map (instrument_row_of H) (insts q))"
    if "row \<in> set (instruments d')" for row
  proof (cases "row \<in> set (instruments d)")
    case True
    then show ?thesis using cat unfolding catalog_def tabs by (metis Un_iff set_append)
  next
    case False
    then have "row \<in> set (map (instrument_row_of H) (insts ?q))" using that sub(2) forget_facts(5) [where H = H and p = p] by auto
    then show ?thesis by (intro bexI [of _ r] exI [of _ ?q] conjI parse) (simp_all add: tabs)
  qed
  have docs: "\<exists>q. document H d' r0 q" if "r0 \<in> set (policies d')" for r0
    using that cat new_doc old_doc unfolding catalog_def by (metis UnE empty_iff insert_iff list.set set_append tabs(1))
  have "\<forall>r0 \<in> set (policies d'). pr_quote r0 = pol_quote_instrument_id p" using new(4) r(3) by (simp add: tabs)
  then show ?thesis
    using docs rows unfolding catalog_def by auto
qed

subsection \<open>Only admission touches the tables of identities\<close>

definition identities :: "db \<Rightarrow> instrument_row list \<times> policy_row list \<times> level_row list" where
  "identities d = (instruments d, policies d, ladder_levels d)"

lemma identities_frame [simp]:
  "identities (push_event e d) = identities d" "identities (with_cycle c d) = identities d"
  "identities (with_intent i d) = identities d" "identities (with_receipt f d) = identities d"
  "identities (update_intent_state a st d) = identities d" "identities (update_cycle_status cid cs d) = identities d"
  "identities (effect_db i st d) = identities d" "identities (settled a rs d) = identities d"
  "identities (moved a st v d) = identities d"
  by (simp_all add: identities_def added_defs table_updates moved_def)

lemma receipt_identities:
  assumes "append_fill_receipt_in_transaction r now d = (Inr ok, d')"
  shows "identities d' = identities d"
  by (rule append_receipt_Inr [OF assms]) (auto simp: Let_def split: if_splits)

lemma op_identities:
  assumes op: "op_body H op d = (Inr u, d')" and inv: "ledger_inv d" and other: "\<And>p. op \<noteq> AdmitPolicy p"
  shows "identities d' = identities d"
proof (cases op)
  case (OpenCycle p index now)
  then obtain cid x where "open_cycle_body (policy_id H p) cid index now d = (Inr x, d')"
    using op by (auto simp: body_unit_Inr sbind_eq_Inr slift_eq sraise_eq split: if_splits)
  from open_cycle_Inr [OF this] show ?thesis by simp
next
  case (CloseCycle cid status now)
  then obtain x where "close_cycle_body cid status now d = (Inr x, d')"
    using op by (auto simp: body_unit_Inr sraise_eq split: if_splits)
  then show ?thesis by (rule close_cycle_Inr) simp
next
  case (ContinueInventory src p index now)
  then obtain cid x where "continue_inventory_body H src p index cid now d = (Inr x, d')"
    using op by (auto simp: body_unit_Inr sbind_eq_Inr slift_eq sraise_eq split: if_splits)
  then show ?thesis by (rule continue_Inr) (simp add: source_closed_def)
next
  case (CreateIntent i now)
  then have "create_intent_body i now d = (Inr (), d')" using op by (auto simp: sraise_eq split: if_splits)
  then show ?thesis by (rule create_intent_Inr) simp
next
  case (Transition a st now pl)
  then have "transition_body a st now pl d = (Inr (), d')" using op by simp
  then show ?thesis by (rule transition_body_Inr) simp
next
  case (RecoverSafeHalt a st now)
  then have b: "recover_safe_halt_body a st now d = (Inr (), d')" "st \<in> {RECONCILED, REJECTED}"
    using op by (auto simp: sraise_eq split: if_splits)
  from recover_body_Inr [OF b] inv_parts(7) [OF inv] obtain i r where
    "d' = push_event (recovery_event i st r now d) (moved a st (recovery_value st d) d)" by blast
  then show ?thesis by simp
next
  case (AppendReceipt r now)
  then obtain ok' where "append_fill_receipt_in_transaction r now d = (Inr ok', d')"
    using op by (auto simp: sbind_eq_Inr sget_eq sraise_eq body_unit_Inr split: if_splits)
  then show ?thesis by (rule receipt_identities)
next
  case (AppendExecutionReceipt r va now)
  then obtain ok' where "append_execution_fill_receipt_body r va now d = (Inr ok', d')"
    using op by (auto simp: body_unit_Inr)
  from receipt_identities [OF execution_receipt_Inr [OF this]] show ?thesis .
qed (use other in simp)

lemma catalog_cong: "identities d = identities d' \<Longrightarrow> catalog H d = catalog H d'"
  by (simp add: identities_def catalog_def document_def)

lemma op_catalog:
  assumes "op_body H op d = (Inr u, d')" "ledger_inv d" "op_args_ok op" "catalog H d"
  shows "catalog H d'"
proof (cases "\<exists>p. op = AdmitPolicy p")
  case True
  then obtain p raw where p: "op = AdmitPolicy p" "parse_policy raw = Inr p" using assms(3) by auto
  then obtain x where "admit_policy_body H p d = (Inr x, d')" using assms(1) by (auto simp: body_unit_Inr)
  then show ?thesis by (rule catalog_admit [OF assms(4) inv_parts(3) [OF assms(2)] p(2)])
next
  case False
  then show ?thesis using catalog_cong op_identities [OF assms(1,2)] assms(4) by blast
qed

text \<open>The checks of the tables of identities hold of every row in them.\<close>

definition identity_rows_ok :: "db \<Rightarrow> bool" where
  "identity_rows_ok d \<longleftrightarrow>
     list_all (\<lambda>r. ir_namespace r \<in> {''evm'', ''solana''} \<and> 0 \<le> ir_decimals r \<and> ir_decimals r \<le> 36) (instruments d) \<and>
     list_all (\<lambda>r. 0 < pr_allocation r \<and> 0 < pr_per_order_cap r \<and> 0 < pr_per_instrument_cap r \<and>
       0 < pr_per_network_cap r \<and> 0 < pr_global_cap r \<and> 0 \<le> pr_reserved_cash r \<and> 1 \<le> pr_max_cycles r) (policies d) \<and>
     list_all (\<lambda>r. (lr_amount r = None) \<noteq> (lr_ratio r = None)) (ladder_levels d)"

interpretation checked_rows: statement_invariant identity_rows_ok
  by unfold_locales (auto simp: identity_rows_ok_def res_simps table_updates)

subsection \<open>Admitting the documents of a catalog\<close>

definition instrument_ok :: "digest_fn \<Rightarrow> (string \<Rightarrow> string) \<Rightarrow> InstrumentV0 \<Rightarrow> bool" where
  "instrument_ok H D i \<longleftrightarrow> identity_digest H i = D (instrument_id i) \<and>
     namespace (ref i) \<in> {''evm'', ''solana''} \<and> 0 \<le> decimals i \<and> decimals i \<le> 36"

lemma upsert_runs:
  assumes "instrument_ok H D i" "\<forall>row \<in> set (instruments d). ir_digest row = D (ir_id row)"
  shows "upsert_instrument H i d = (Inr (), d\<lparr>instruments := upserted H i (instruments d)\<rparr>)"
proof (cases "find_row ir_id (instrument_id i) (instruments d)")
  case None
  then have "\<not> has_row ir_id (instrument_id i) (instruments d)" by (simp add: find_row_None)
  moreover have "insert_instrument (instrument_row_of H i) d =
      Inr (d\<lparr>instruments := instruments d @ [instrument_row_of H i]\<rparr>)" if "\<not> has_row ir_id (instrument_id i) (instruments d)"
    using assms(1) that by (auto simp: insert_instrument_Inr instrument_ok_def instrument_row_of_def)
  ultimately show ?thesis by (simp add: upsert_instrument_def sbind_run body_defs None upserted_def)
next
  case (Some row)
  then have "ir_digest row = identity_digest H i" using assms find_row_SomeD [OF Some] by (simp add: instrument_ok_def)
  then show ?thesis
    using find_row_Some_has [OF Some]
    by (simp add: upsert_instrument_def sbind_run body_defs Some upserted_def)
qed

lemma upserted_digests:
  assumes "instrument_ok H D i" "\<forall>row \<in> set t. ir_digest row = D (ir_id row)"
  shows "\<forall>row \<in> set (upserted H i t). ir_digest row = D (ir_id row)"
  using assms by (auto simp: upserted_def instrument_ok_def)

lemma insert_levels_run:
  assumes "traverse (level_row_of pid) ls = Inr rows" "has_row pr_id pid (policies d)"
    and "\<forall>l \<in> set rows. (lr_amount l = None) \<noteq> (lr_ratio l = None)"
    and "distinct (map level_key rows)" "\<forall>l \<in> set rows. \<not> has_row level_key (level_key l) (ladder_levels d)"
  shows "sfor (insert_level_of pid) ls d = (Inr (), d\<lparr>ladder_levels := ladder_levels d @ rows\<rparr>)"
  using assms
proof (induction ls arbitrary: d rows)
  case Nil
  then show ?case by (simp add: sret_def)
next
  case (Cons l ls)
  then obtain row rows' where row: "level_row_of pid l = Inr row" and rest: "traverse (level_row_of pid) ls = Inr rows'"
    and rows: "rows = row # rows'"
    by (auto simp: rbind_eq_Inr)
  define d1 where "d1 = d\<lparr>ladder_levels := ladder_levels d @ [row]\<rparr>"
  have "lr_policy row = pid" using level_rows_policy [OF Cons.prems(1)] rows by simp
  then have ins: "insert_level_of pid l d = (Inr (), d1)"
    using Cons.prems(2-5) row by (simp add: insert_level_of_Inr insert_level_Inr rows d1_def)
  have "sfor (insert_level_of pid) ls d1 = (Inr (), d1\<lparr>ladder_levels := ladder_levels d1 @ rows'\<rparr>)"
    using Cons.prems(2-5) rest
    by (intro Cons.IH) (auto simp: rows d1_def has_row_simps)
  then show ?case using ins by (simp add: sbind_run rows d1_def)
qed

text \<open>What the admission of a row's document needs beside a ledger it is new to.\<close>

definition admissible :: "digest_fn \<Rightarrow> (string \<Rightarrow> string) \<Rightarrow> policy_row \<Rightarrow> level_row list \<Rightarrow> PolicyV0 \<Rightarrow> bool" where
  "admissible H D r rows q \<longleftrightarrow> parse_policy (pr_canonical r) = Inr q \<and> policy_row_of H q = Inr r \<and>
     traverse (level_row_of (pr_id r)) (levels q) = Inr rows \<and> (\<forall>i \<in> set (insts q). instrument_ok H D i) \<and>
     0 < pr_allocation r \<and> 0 < pr_per_order_cap r \<and> 0 < pr_per_instrument_cap r \<and> 0 < pr_per_network_cap r \<and>
     0 < pr_global_cap r \<and> 0 \<le> pr_reserved_cash r \<and> 1 \<le> pr_max_cycles r \<and>
     (\<forall>l \<in> set rows. (lr_amount l = None) \<noteq> (lr_ratio l = None)) \<and> distinct (map level_key rows)"

definition admitted_db :: "digest_fn \<Rightarrow> policy_row \<Rightarrow> level_row list \<Rightarrow> PolicyV0 \<Rightarrow> db \<Rightarrow> db" where
  "admitted_db H r rows q d = d\<lparr>instruments := fold (upserted H) (insts q) (instruments d),
     policies := policies d @ [r], ladder_levels := ladder_levels d @ rows\<rparr>"

lemma upserted_has: "has_row ir_id (instrument_id i) (upserted H i t)"
  by (simp add: upserted_def has_row_simps)

lemma upserted_keeps: "has_row ir_id k t \<Longrightarrow> has_row ir_id k (upserted H i t)"
  by (simp add: upserted_def has_row_simps)

lemma admit_runs:
  assumes adm: "admissible H D r rows q" and dig: "\<forall>row \<in> set (instruments d). ir_digest row = D (ir_id row)"
    and quot: "\<forall>r0 \<in> set (policies d). pr_quote r0 = pr_quote r" and fresh: "\<not> has_row pr_id (pr_id r) (policies d)"
    and lev: "\<forall>l \<in> set (ladder_levels d). lr_policy l \<noteq> pr_id r"
  shows "admit_policy_body H q d = (Inr (pr_id r), admitted_db H r rows q d)"
proof -
  have q: "policy_row_of H q = Inr r" "traverse (level_row_of (pr_id r)) (levels q) = Inr rows"
    "instrument_ok H D (base q)" "instrument_ok H D (quote_instrument q)"
    using adm by (simp_all add: admissible_def insts_def)
  note r = policy_row_sel [OF q(1)]
  define d1 where "d1 = d\<lparr>instruments := upserted H (base q) (instruments d)\<rparr>"
  define d2 where "d2 = d\<lparr>instruments := upserted H (quote_instrument q) (upserted H (base q) (instruments d))\<rparr>"
  define d3 where "d3 = d2\<lparr>policies := policies d @ [r]\<rparr>"
  have up1: "upsert_instrument H (base q) d = (Inr (), d1)"
    unfolding d1_def by (rule upsert_runs [OF q(3) dig])
  have up2: "upsert_instrument H (quote_instrument q) d1 = (Inr (), d2)"
    using upsert_runs [OF q(4), of d1] upserted_digests [OF q(3) dig] by (simp add: d1_def d2_def)
  have none: "find_row pr_id (policy_id H q) (policies d2) = None"
    using fresh r(1) by (simp add: find_row_None d2_def)
  have "has_row ir_id (pr_instrument r) (instruments d2)" "has_row ir_id (pr_quote r) (instruments d2)"
    using r(3,4) by (auto simp: d2_def pol_instrument_id_def pol_quote_instrument_id_def upserted_has intro: upserted_keeps)
  then have ins: "insert_policy r d2 = Inr d3"
    using adm fresh by (simp add: insert_policy_Inr admissible_def d2_def d3_def)
  have "\<forall>l \<in> set rows. \<not> has_row level_key (level_key l) (ladder_levels d3)"
    using lev level_rows_policy [OF q(2)] by (auto simp: d3_def d2_def has_row_def level_key_def)
  then have levs: "sfor (insert_level_of (policy_id H q)) (levels q) d3 = (Inr (), admitted_db H r rows q d)"
    using insert_levels_run [OF q(2), of d3] adm r(1)
    by (simp add: admissible_def admitted_db_def d3_def d2_def has_row_simps insts_def)
  have ids: "list_all (\<lambda>r. pr_quote r = pol_quote_instrument_id q) (policies d2)"
    using quot r(3) by (simp add: list_all_iff d2_def)
  show ?thesis
    by (simp add: admit_policy_body_def sbind_run body_defs up1 up2 ids none q(1) ins levs r(1))
qed

lemma admitted_db_sel [simp]:
  "instruments (admitted_db H r rows q d) = fold (upserted H) (insts q) (instruments d)"
  "policies (admitted_db H r rows q d) = policies d @ [r]"
  "ladder_levels (admitted_db H r rows q d) = ladder_levels d @ rows"
  by (simp_all add: admitted_db_def)

lemma fold_upserted_rows: "set (fold (upserted H) js t) \<subseteq> set t \<union> instrument_row_of H ` set js"
proof (induction js arbitrary: t)
  case (Cons i js)
  then show ?case using upserted_mono(2) [of H i t] by fastforce
qed simp

lemma fold_upserted_keys:
  "has_row ir_id k t \<or> (\<exists>i \<in> set js. instrument_id i = k) \<Longrightarrow> has_row ir_id k (fold (upserted H) js t)"
proof (induction js arbitrary: t)
  case (Cons i js)
  then show ?case using upserted_has [of i H t] upserted_keeps [of k t H i] by auto
qed simp

lemma upserted_distinct: "distinct (map ir_id t) \<Longrightarrow> distinct (map ir_id (upserted H i t))"
  by (simp add: upserted_def has_row_def)

lemma fold_upserted_distinct: "distinct (map ir_id t) \<Longrightarrow> distinct (map ir_id (fold (upserted H) js t))"
  by (induction js arbitrary: t) (simp_all add: upserted_distinct)

lemma fold_upserted_digests:
  "\<forall>i \<in> set js. instrument_ok H D i \<Longrightarrow> \<forall>row \<in> set t. ir_digest row = D (ir_id row) \<Longrightarrow>
     \<forall>row \<in> set (fold (upserted H) js t). ir_digest row = D (ir_id row)"
proof (induction js arbitrary: t)
  case (Cons i js)
  have "\<forall>row \<in> set (upserted H i t). ir_digest row = D (ir_id row)"
    using Cons.prems by (intro upserted_digests) simp_all
  then show ?case using Cons.IH [of "upserted H i t"] Cons.prems(1) by simp
qed simp

lemmas fold_upserted = fold_upserted_rows fold_upserted_keys fold_upserted_distinct fold_upserted_digests

text \<open>The database a list of documents is admitted into.\<close>

definition catalogued :: "digest_fn \<Rightarrow> (policy_row \<Rightarrow> level_row list) \<Rightarrow> policy_row list \<Rightarrow> PolicyV0 list \<Rightarrow> db \<Rightarrow> db" where
  "catalogued H lv rs qs d = d\<lparr>instruments := fold (upserted H) (concat (map insts qs)) (instruments d),
     policies := policies d @ rs, ladder_levels := ladder_levels d @ concat (map lv rs)\<rparr>"

lemma replay_policies_run:
  assumes "list_all2 (\<lambda>r q. admissible H D r (lv r) q) rs qs" "distinct (map pr_id rs)" "\<forall>r \<in> set rs. pr_quote r = Q"
    and "\<forall>row \<in> set (instruments d). ir_digest row = D (ir_id row)" "\<forall>r \<in> set (policies d). pr_quote r = Q"
    and "\<forall>r \<in> set rs. \<not> has_row pr_id (pr_id r) (policies d) \<and> (\<forall>l \<in> set (ladder_levels d). lr_policy l \<noteq> pr_id r)"
  shows "replay_policies H (map pr_canonical rs) (at_rest d) = (Inr (), at_rest (catalogued H lv rs qs d))"
  using assms
proof (induction arbitrary: d rule: list_all2_induct)
  case Nil
  then show ?case by (simp add: catalogued_def)
next
  case (Cons r rs q qs)
  let ?d1 = "admitted_db H r (lv r) q d"
  have adm: "parse_policy (pr_canonical r) = Inr q" "traverse (level_row_of (pr_id r)) (levels q) = Inr (lv r)"
    "\<forall>i \<in> set (insts q). instrument_ok H D i"
    using Cons.hyps(1) by (simp_all add: admissible_def)
  have "admit_policy_body H q d = (Inr (pr_id r), ?d1)"
    using Cons.prems by (intro admit_runs [OF Cons.hyps(1)]) auto
  then have step: "admit_policy H q (at_rest d) = (Inr (pr_id r), at_rest ?d1)"
    by (simp add: admit_policy_def write_txn_top)
  have digs: "\<forall>row \<in> set (instruments ?d1). ir_digest row = D (ir_id row)"
    using fold_upserted(4) [OF adm(3) Cons.prems(3)] by simp
  have fresh: "\<forall>r' \<in> set rs. \<not> has_row pr_id (pr_id r') (policies ?d1) \<and>
      (\<forall>l \<in> set (ladder_levels ?d1). lr_policy l \<noteq> pr_id r')"
    using Cons.prems(1,5) level_rows_policy [OF adm(2)] by (auto simp: has_row_simps)
  have "replay_policies H (map pr_canonical rs) (at_rest ?d1) = (Inr (), at_rest (catalogued H lv rs qs ?d1))"
    by (rule Cons.IH) (use Cons.prems digs fresh in auto)
  moreover have "catalogued H lv rs qs ?d1 = catalogued H lv (r # rs) (q # qs) d"
    by (simp add: catalogued_def admitted_db_def)
  ultimately show ?case by (simp add: adm(1) step)
qed

end
