(* ===== verification/Reproduce.thy ===== *)
theory Reproduce
  imports Catalog
begin

text \<open>
  The event log is the ledger: replaying the canonical policies and the events of a
  ledger rebuilds a ledger with the same snapshot.
\<close>

subsection \<open>Rows of a source in order of their keys\<close>

lemma sort_key_unique:
  assumes "distinct (map f xs)" "distinct (map f ys)" "set xs = set ys"
  shows "sort_key f xs = sort_key f ys"
proof (rule map_sorted_distinct_set_unique [of f])
  show "inj_on f (set (sort_key f xs) \<union> set (sort_key f ys))"
    using assms by (simp add: distinct_map)
  show "distinct (map f (sort_key f xs))" "distinct (map f (sort_key f ys))"
    using assms by (simp_all add: distinct_map distinct_sort)
qed (use assms(3) in simp_all)

lemma sort_key_groups:
  assumes "\<And>k. filter (\<lambda>x. f x = k) xs = filter (\<lambda>x. f x = k) ys"
  shows "sort_key f xs = sort_key f ys"
proof (rule properties_for_sort_key)
  show "mset (sort_key f ys) = mset xs"
  proof (rule multiset_eqI)
    fix x
    have "count (mset zs) x = count (mset (filter (\<lambda>y. f y = f x) zs)) x" for zs by (induction zs) auto
    then show "count (mset (sort_key f ys)) x = count (mset xs) x" using assms by (metis mset_sort)
  qed
  have eq: "filter (\<lambda>x. k = f x) zs = filter (\<lambda>x. f x = k) zs" for k zs by (rule filter_cong) auto
  show "filter (\<lambda>x. f k = f x) (sort_key f ys) = filter (\<lambda>x. f k = f x) xs" for k
    unfolding eq by (simp add: sort_key_stable assms)
qed simp

text \<open>The levels of each policy, in a list of policies with distinct ids.\<close>

lemma filter_groups:
  assumes "distinct (map key rs)" "\<And>r l. r \<in> set rs \<Longrightarrow> l \<in> set (lv r) \<Longrightarrow> f l = key r"
  shows "filter (\<lambda>l. f l = k) (concat (map lv rs)) = (case find_row key k rs of None \<Rightarrow> [] | Some r \<Rightarrow> lv r)"
  using assms
proof (induction rs)
  case (Cons r rs)
  have own: "filter (\<lambda>l. f l = k) (lv r) = (if key r = k then lv r else [])"
  proof -
    have "\<forall>l \<in> set (lv r). f l = key r" using Cons.prems(2) by simp
    then show ?thesis by (auto simp: filter_id_conv filter_empty_conv)
  qed
  have "filter (\<lambda>l. f l = k) (concat (map lv rs)) = (case find_row key k rs of None \<Rightarrow> [] | Some r \<Rightarrow> lv r)"
    using Cons by simp
  moreover have "find_row key k rs = None" if "key r = k"
    using Cons.prems(1) that by (auto simp: find_row_None has_row_def)
  ultimately show ?case using own by (auto simp: find_row_Cons)
qed (simp add: find_row_Cons)

subsection \<open>The replica of a ledger\<close>

text \<open>
  The digest distinguishes the identities a ledger stores: an instrument of an admitted
  policy whose id and digest are those of a row has the identity of that row.
\<close>

definition identities_distinguished :: "digest_fn \<Rightarrow> db \<Rightarrow> bool" where
  "identities_distinguished H d \<longleftrightarrow>
     list_all (\<lambda>r. case parse_policy (pr_canonical r) of Inl _ \<Rightarrow> True | Inr q \<Rightarrow>
       list_all (\<lambda>i. list_all (\<lambda>row. ir_id row = instrument_id i \<and> ir_digest row = identity_digest H i \<longrightarrow>
           ir_identity row = identity_object i) (instruments d)) (insts q)) (policies d)"

lemma identity_object_inj:
  assumes "identity_object i = identity_object j"
  shows "instrument_row_of H i = instrument_row_of H j"
proof -
  have last: "xs @ [a, b] = ys @ [c, d] \<longleftrightarrow> xs = ys \<and> a = c \<and> b = d" for xs ys :: "(string \<times> json) list" and a b c d
    by (induction xs ys rule: list_induct2') auto
  have eq: "identity_fields (ref i) = identity_fields (ref j)" "decimals i = decimals j"
    using assms by (simp_all add: identity_object_def last)
  have "ref i = ref j" by (rule fields_canon_inj) (simp only: eq)
  moreover have "asset_class i = asset_class j"
    by (cases "asset_class i"; cases "asset_class j") simp_all
  ultimately show ?thesis
    using eq(2) by (simp add: instrument_row_of_def instrument_id_def network_id_def identity_digest_def identity_object_def)
qed

text \<open>What the runs of a ledger without execution tables keep.\<close>

definition replayable :: "digest_fn \<Rightarrow> db \<Rightarrow> bool" where
  "replayable H d \<longleftrightarrow> spot_ok d \<and> catalog H d \<and> identity_rows_ok d"

definition row_digest :: "db \<Rightarrow> string \<Rightarrow> string" where
  "row_digest d k = (case find_row ir_id k (instruments d) of None \<Rightarrow> [] | Some row \<Rightarrow> ir_digest row)"

definition own_levels :: "db \<Rightarrow> policy_row \<Rightarrow> level_row list" where
  "own_levels d r = filter (\<lambda>l. lr_policy l = pr_id r) (ladder_levels d)"

lemma document_admissible:
  assumes "replayable H d" "r \<in> set (policies d)" "document H d r q"
  shows "admissible H (row_digest d) r (own_levels d r) q"
proof -
  have keys: "distinct (map ir_id (instruments d))" "distinct (map level_key (ladder_levels d))"
    using assms(1) inv_parts(1) [of d] by (auto simp: replayable_def spot_ok_def keys_ok_def)
  have q: "parse_policy (pr_canonical r) = Inr q" using assms(3) by (simp add: document_def)
  note wf = parse_policy_wf [OF q]
  have space: "namespace (ref i) \<in> {''evm'', ''solana''}" for i by (cases "ref i") simp_all
  have inst: "instrument_ok H (row_digest d) i" if i: "i \<in> set (insts q)" for i
  proof -
    obtain row where "row \<in> set (instruments d)" "ir_id row = instrument_id i" "ir_digest row = identity_digest H i"
      using assms(3) i by (auto simp: document_def known_digest_def)
    then have "find_row ir_id (instrument_id i) (instruments d) = Some row" by (simp add: find_row_iff [OF keys(1)])
    moreover have "0 \<le> decimals i \<and> decimals i \<le> 36" using i wf by (auto simp: insts_def policy_wf_def)
    ultimately show ?thesis
      using \<open>ir_digest row = _\<close> space [of i] by (simp add: instrument_ok_def row_digest_def)
  qed
  have "distinct (map level_key (own_levels d r))"
    using keys(2) by (simp add: own_levels_def distinct_map inj_on_def)
  then show ?thesis
    using assms inst by (auto simp: admissible_def document_def replayable_def identity_rows_ok_def list_all_iff own_levels_def)
qed

subsection \<open>Rebuilding the identities\<close>

definition rebuilt :: "digest_fn \<Rightarrow> PolicyV0 list \<Rightarrow> db \<Rightarrow> db" where
  "rebuilt H qs d = catalogued H (own_levels d) (sort_key pr_id (policies d)) qs empty_db"

definition documents :: "digest_fn \<Rightarrow> db \<Rightarrow> PolicyV0 list \<Rightarrow> bool" where
  "documents H d qs \<longleftrightarrow> list_all2 (document H d) (sort_key pr_id (policies d)) qs"

lemma list_all2_choice: "\<forall>x \<in> set xs. \<exists>y. P x y \<Longrightarrow> \<exists>ys. list_all2 P xs ys"
  by (induction xs) (auto simp: list_all2_Cons1)

lemma documents_exist:
  assumes "replayable H d"
  obtains qs where "documents H d qs"
proof -
  have "\<forall>r \<in> set (sort_key pr_id (policies d)). \<exists>q. document H d r q"
    using assms by (simp add: replayable_def catalog_def)
  from list_all2_choice [OF this] show thesis using that by (auto simp: documents_def)
qed

lemma rebuilt_sel [simp]:
  "policies (rebuilt H qs d) = sort_key pr_id (policies d)"
  "ladder_levels (rebuilt H qs d) = concat (map (own_levels d) (sort_key pr_id (policies d)))"
  "instruments (rebuilt H qs d) = fold (upserted H) (concat (map insts qs)) []"
  by (simp_all add: rebuilt_def catalogued_def empty_db_def)

lemma policies_replayed:
  assumes "replayable H d" "documents H d qs"
  shows "replay_policies H (canonical_policies d) open_ledger = (Inr (), at_rest (rebuilt H qs d))"
proof -
  have keys: "distinct (map pr_id (policies d))"
    using assms(1) inv_parts(1) [of d] by (auto simp: replayable_def spot_ok_def keys_ok_def)
  have adm: "list_all2 (\<lambda>r q. admissible H (row_digest d) r (own_levels d r) q) (sort_key pr_id (policies d)) qs"
    using assms(2) unfolding documents_def
    by (rule list.rel_mono_strong) (simp add: document_admissible [OF assms(1)])
  have same: "\<forall>r \<in> set (policies d). \<forall>r' \<in> set (policies d). pr_quote r = pr_quote r'"
    using assms(1) unfolding replayable_def catalog_def by blast
  have Q: "\<forall>r \<in> set (sort_key pr_id (policies d)). pr_quote r = pr_quote (hd (policies d))"
  proof
    fix r
    assume "r \<in> set (sort_key pr_id (policies d))"
    then have "r \<in> set (policies d)" "hd (policies d) \<in> set (policies d)" by (auto intro: hd_in_set)
    then show "pr_quote r = pr_quote (hd (policies d))" using same by blast
  qed
  have "distinct (map pr_id (sort_key pr_id (policies d)))"
    using keys by (simp add: distinct_map distinct_sort)
  from replay_policies_run [OF adm this Q, of empty_db] show ?thesis
    by (simp add: canonical_policies_def rebuilt_def open_ledger_def at_rest_def empty_db_def has_row_simps)
qed

lemma own_levels_policy: "l \<in> set (own_levels d r) \<Longrightarrow> lr_policy l = pr_id r"
  by (simp add: own_levels_def)

text \<open>Every policy's levels are rebuilt, in their order.\<close>

lemma rebuilt_groups:
  assumes "replayable H d"
  shows "filter (\<lambda>l. lr_policy l = k) (ladder_levels (rebuilt H qs d)) = filter (\<lambda>l. lr_policy l = k) (ladder_levels d)"
proof -
  have inv: "keys_ok d" "foreign_keys_ok d"
    using assms inv_parts(1,3) [of d] by (auto simp: replayable_def spot_ok_def)
  have dist: "distinct (map pr_id (sort_key pr_id (policies d)))"
    using inv(1) by (simp add: keys_ok_def distinct_map distinct_sort)
  have "filter (\<lambda>l. lr_policy l = k) (ladder_levels (rebuilt H qs d)) =
      (case find_row pr_id k (sort_key pr_id (policies d)) of None \<Rightarrow> [] | Some r \<Rightarrow> own_levels d r)"
    unfolding rebuilt_sel by (rule filter_groups [OF dist]) (simp add: own_levels_policy)
  also have "\<dots> = filter (\<lambda>l. lr_policy l = k) (ladder_levels d)"
  proof (cases "find_row pr_id k (sort_key pr_id (policies d))")
    case None
    then have "\<not> has_row pr_id k (policies d)" by (simp add: find_row_None has_row_def)
    then have "filter (\<lambda>l. lr_policy l = k) (ladder_levels d) = []"
      using inv(2) by (auto simp: filter_empty_conv foreign_keys_ok_def list_all_iff)
    then show ?thesis using None by simp
  next
    case (Some r)
    then show ?thesis using find_row_SomeD [OF Some] by (simp add: own_levels_def)
  qed
  finally show ?thesis .
qed

lemma rebuilt_levels: "replayable H d \<Longrightarrow> set (ladder_levels (rebuilt H qs d)) = set (ladder_levels d)"
proof -
  assume rep: "replayable H d"
  have mem: "l \<in> set ls \<longleftrightarrow> l \<in> set (filter (\<lambda>x. lr_policy x = lr_policy l) ls)" for l ls by simp
  have "l \<in> set (ladder_levels (rebuilt H qs d)) \<longleftrightarrow> l \<in> set (ladder_levels d)" for l
    using mem [of l "ladder_levels (rebuilt H qs d)"] mem [of l "ladder_levels d"]
    unfolding rebuilt_groups [OF rep] by blast
  then show ?thesis by blast
qed

lemma rebuilt_instruments:
  assumes rep: "replayable H d" and docs: "documents H d qs" and clean: "identities_distinguished H d"
  shows "set (instruments (rebuilt H qs d)) = set (instruments d)" "distinct (map ir_id (instruments (rebuilt H qs d)))"
proof -
  let ?is = "concat (map insts qs)"
  have keys: "distinct (map ir_id (instruments d))"
    using rep inv_parts(1) [of d] by (auto simp: replayable_def spot_ok_def keys_ok_def)
  show dist: "distinct (map ir_id (instruments (rebuilt H qs d)))"
    by (simp add: fold_upserted(3))
  have doc: "\<exists>r \<in> set (policies d). document H d r q" if "q \<in> set qs" for q
    using docs that unfolding documents_def by (auto simp: list_all2_conv_all_nth in_set_conv_nth)
      (metis length_sort nth_mem set_sort)
  have own: "\<exists>q \<in> set qs. document H d r q" if "r \<in> set (policies d)" for r
    using docs that unfolding documents_def list_all2_conv_all_nth
    by (metis in_set_conv_nth set_sort)
  text \<open>An instrument of a document is exactly the row the ledger has under its id.\<close>
  have row: "instrument_row_of H i \<in> set (instruments d)" if i: "i \<in> set ?is" for i
  proof -
    obtain q r where q: "r \<in> set (policies d)" "document H d r q" "i \<in> set (insts q)"
      using i doc unfolding set_concat list.set_map by blast
    then obtain m where m: "m \<in> set (instruments d)" "ir_id m = instrument_id i" "ir_digest m = identity_digest H i"
      by (auto simp: document_def known_digest_def)
    have "ir_identity m = identity_object i"
      using clean q m by (auto simp: identities_distinguished_def list_all_iff document_def)
    moreover obtain j where "m = instrument_row_of H j"
      using rep m(1) unfolding replayable_def catalog_def by fastforce
    ultimately have "m = instrument_row_of H i" using identity_object_inj [of j i H] by simp
    then show ?thesis using m(1) by simp
  qed
  have sub: "set (instruments (rebuilt H qs d)) \<subseteq> set (instruments d)"
    using fold_upserted(1) [of H ?is "[]"] row by auto
  moreover have "set (instruments d) \<subseteq> set (instruments (rebuilt H qs d))"
  proof
    fix m
    assume m: "m \<in> set (instruments d)"
    then obtain r q where r: "r \<in> set (policies d)" "parse_policy (pr_canonical r) = Inr q"
        "m \<in> set (map (instrument_row_of H) (insts q))"
      using rep unfolding replayable_def catalog_def by blast
    then have "q \<in> set qs" using own [OF r(1)] by (auto simp: document_def)
    then obtain i where i: "i \<in> set ?is" "m = instrument_row_of H i" using r(3) by auto
    then have "has_row ir_id (instrument_id i) (instruments (rebuilt H qs d))"
      unfolding rebuilt_sel by (intro fold_upserted(2)) auto
    then obtain m' where m': "m' \<in> set (instruments (rebuilt H qs d))" "ir_id m' = instrument_id i"
      by (auto simp: has_row_def)
    have "inj_on ir_id (set (instruments d))" using keys by (simp add: distinct_map)
    then have "m' = m"
      by (rule inj_onD) (use m m' i(2) sub in auto)
    then show "m \<in> set (instruments (rebuilt H qs d))" using m'(1) by simp
  qed
  ultimately show "set (instruments (rebuilt H qs d)) = set (instruments d)" ..
qed

subsection \<open>Rebuilding the runtime state\<close>

lemma db_after_cases: "db_after H op d = d \<or> op_body H op d = (Inr (), db_after H op d)"
  by (auto simp: db_after_def run_top simp del: run.simps op_body.simps split: prod.splits sum.splits)

lemma replayable_step:
  assumes "replayable H d" "op_args_ok op" "op_body H op d = (Inr (), d')"
  shows "replayable H d'"
  using assms op_spot_ok [OF assms(3)] op_catalog [OF assms(3) _ assms(2)] checked_rows.op_invariant [OF assms(3)]
  by (simp add: replayable_def spot_ok_def)

lemma run_replays:
  assumes "replayable H d" "list_all op_args_ok ops"
  shows "replayable H (fold (db_after H) ops d) \<and> extends d (fold (db_after H) ops d) \<and>
    (\<forall>B. covers B (fold (db_after H) ops d) \<longrightarrow> (\<exists>evs. replays B d evs (fold (db_after H) ops d)))"
  using assms
proof (induction ops arbitrary: d)
  case Nil
  then show ?case using replays_refl by auto
next
  case (Cons op ops)
  let ?d1 = "db_after H op d" and ?d' = "fold (db_after H) ops (db_after H op d)"
  have one: "replayable H ?d1 \<and> extends d ?d1 \<and> (\<forall>B. covers B ?d1 \<longrightarrow> (\<exists>evs. replays B d evs ?d1))"
    using db_after_cases [of H op d]
  proof
    assume "op_body H op d = (Inr (), ?d1)"
    then show ?thesis
      using replayable_step [of H d op ?d1] Cons.prems op_extends op_replays by (auto simp: replayable_def)
  qed (use Cons.prems(1) replays_refl in auto)
  have rest: "replayable H ?d'" "extends ?d1 ?d'" "\<And>B. covers B ?d' \<Longrightarrow> \<exists>evs. replays B ?d1 evs ?d'"
    using Cons.IH [of ?d1] one Cons.prems(2) by simp_all
  show ?case
    using one rest covers_before [OF rest(2)] extends_trans [of d ?d1 ?d'] replays_trans by (fastforce)
qed

lemma replayable_empty: "replayable H empty_db"
  using inv_empty
  by (simp add: replayable_def spot_ok_def openings_ok_def empty_db_def catalog_def identity_rows_ok_def)

lemma rebuilt_covers:
  assumes rep: "replayable H d" and docs: "documents H d qs" and clean: "identities_distinguished H d"
  shows "covers (rebuilt H qs d) d"
proof -
  have keys: "distinct (map pr_id (policies d))"
    using rep inv_parts(1) [of d] by (auto simp: replayable_def spot_ok_def keys_ok_def)
  have "distinct (map pr_id (sort_key pr_id (policies d)))" using keys by (simp add: distinct_map distinct_sort)
  then have "find_row pr_id k (policies (rebuilt H qs d)) = Some r \<longleftrightarrow> find_row pr_id k (policies d) = Some r" for k r
    by (simp add: find_row_iff keys)
  moreover have "has_row ir_id k (instruments (rebuilt H qs d)) = has_row ir_id k (instruments d)"
    "has_row level_key l (ladder_levels (rebuilt H qs d)) = has_row level_key l (ladder_levels d)" for k l
    using rebuilt_instruments(1) [OF rep docs clean] rebuilt_levels [OF rep, of qs] by (simp_all add: has_row_def del: rebuilt_sel)
  ultimately show ?thesis by (simp add: covers_def del: rebuilt_sel)
qed

lemma mirror_rebuilt_empty: "mirror (rebuilt H qs d) empty_db = rebuilt H qs d"
  by (simp add: mirror_def rebuilt_def catalogued_def empty_db_def)

subsection \<open>The same snapshot\<close>

lemma snapshot_mirror:
  assumes rep: "replayable H d" and docs: "documents H d qs" and clean: "identities_distinguished H d"
  shows "snapshot (mirror (rebuilt H qs d) d) = snapshot d"
proof -
  let ?B = "rebuilt H qs d"
  have keys: "distinct (map ir_id (instruments d))"
    using rep inv_parts(1) [of d] by (auto simp: replayable_def spot_ok_def keys_ok_def)
  note groups = rebuilt_groups [OF rep]
  have inst: "sort_key ir_id (instruments ?B) = sort_key ir_id (instruments d)"
    by (rule sort_key_unique) (use keys rebuilt_instruments [OF rep docs clean] in simp_all)
  have lev: "level_order (ladder_levels ?B) = level_order (ladder_levels d)"
    unfolding level_order_def
    by (rule sort_key_groups) (simp only: filter_sort groups)
  have proj: "cycle_projection cid (mirror ?B d) = cycle_projection cid d" for cid
    by (simp add: cycle_projection_def eligible_levels_def opening_events_def filled_sum_def total_filled_def
        held_atomic_def held_where_def groups del: rebuilt_sel cong: option.case_cong)
  show ?thesis
    by (simp add: snapshot_def proj inst lev del: rebuilt_sel) (simp add: sort_key_sorted)
qed

lemma integrity_mirror:
  assumes rep: "replayable H d" and docs: "documents H d qs" and clean: "identities_distinguished H d"
  shows "integrity_check (mirror (rebuilt H qs d) d) = Inr ()"
proof -
  let ?B = "rebuilt H qs d"
  have inv: "ledger_inv d" using rep by (simp add: replayable_def spot_ok_def)
  have sets: "set (instruments ?B) = set (instruments d)" "set (policies ?B) = set (policies d)"
    "set (ladder_levels ?B) = set (ladder_levels d)"
    using rebuilt_instruments(1) [OF rep docs clean] rebuilt_levels [OF rep] by simp_all
  have "foreign_keys_ok (mirror ?B d) = foreign_keys_ok d"
    by (simp add: foreign_keys_ok_def list_all_iff has_row_def sets del: rebuilt_sel cong: option.case_cong)
  moreover have "stale_active (mirror ?B d) = stale_active d" "quarantine_mismatch (mirror ?B d) = quarantine_mismatch d"
    by (intro ext; simp add: stale_active_def quarantine_mismatch_def)+
  ultimately have "integrity_check (mirror ?B d) = integrity_check d"
    by (simp add: integrity_check_def)
  then show ?thesis using inv_integrity [OF inv] by simp
qed

subsection \<open>Replay equivalence\<close>

lemma log_replays:
  assumes ops: "list_all op_args_ok ops" and d: "d = fold (db_after H) ops empty_db"
    and docs: "documents H d qs" and clean: "identities_distinguished H d"
  shows "replay_events (set (map pr_id (policies (rebuilt H qs d)))) {} {} 0 (events d) (rebuilt H qs d) =
    (Inr (), mirror (rebuilt H qs d) d)"
proof -
  let ?B = "rebuilt H qs d"
  have rep: "replayable H d" and runs: "\<And>B. covers B d \<Longrightarrow> \<exists>evs. replays B empty_db evs d"
    using run_replays [OF replayable_empty ops] d by auto
  obtain evs where evs: "replays ?B empty_db evs d" using runs rebuilt_covers [OF rep docs clean] by blast
  have "seqs_ok d" using rep inv_parts(2) [of d] by (simp add: replayable_def spot_ok_def)
  then have "events d = state_events d" unfolding events_def by (intro sort_key_sorted sorted_events)
  then have evs_eq: "events d = evs" using evs by (simp add: replays_def empty_db_def)
  have "\<forall>rest. replay_events (set (map pr_id (policies ?B))) {} (seen_in empty_db) (last_in empty_db) (evs @ rest)
      (mirror ?B empty_db) = replay_events (set (map pr_id (policies ?B))) {} (seen_in d) (last_in d) rest (mirror ?B d)"
    using evs unfolding replays_def by blast
  from spec [OF this, of "[]"] show ?thesis
    unfolding mirror_rebuilt_empty evs_eq
    by (simp add: seen_in_def last_in_def empty_db_def sret_def del: rebuilt_sel)
qed

lemma reconstruct_runs:
  assumes ops: "list_all op_args_ok ops" and d: "d = fold (db_after H) ops empty_db"
    and docs: "documents H d qs" and clean: "identities_distinguished H d"
  shows "reconstruct H d = Inr (at_rest (mirror (rebuilt H qs d) d))"
proof -
  have rep: "replayable H d" using run_replays [OF replayable_empty ops] d by simp
  have "replay_into H (canonical_policies d) (events d) {} False open_ledger = (Inr (), at_rest (mirror (rebuilt H qs d) d))"
    using log_replays [OF assms] policies_replayed [OF rep docs]
    by (simp add: replay_into_def execution_surface_present_def open_ledger_def empty_db_def write_txn_top
        del: rebuilt_sel)
  then show ?thesis
    using integrity_mirror [OF rep docs clean] by (simp add: reconstruct_def)
qed

lemma snapshot_defined:
  assumes "openings_ok d"
  shows "\<exists>s. snapshot d = Inr s"
proof -
  have "\<exists>pj. cycle_projection cid d = Inr pj" if "cid \<in> set (sort (map cr_id (cycles d)))" for cid
  proof -
    have row: "has_row cr_id cid (cycles d)" using that by (simp add: has_row_def)
    then obtain c where c: "find_row cr_id cid (cycles d) = Some c" using has_row_find by metis
    obtain e where "opening_of cid d = Some e" using opening_exists [OF assms row] by metis
    with projection_defined [OF assms c this] show ?thesis by blast
  qed
  then have "\<exists>pjs. list_all2 (\<lambda>cid pj. cycle_projection cid d = Inr pj) (sort (map cr_id (cycles d))) pjs"
    by (intro list_all2_choice) blast
  then show ?thesis by (auto simp: snapshot_def traverse_eq_Inr [symmetric])
qed

text \<open>
  \<^bold>\<open>C6.\<close> The canonical policies and the event log determine the ledger. For every ledger written
  by any sequence of operations of the store, whichever of them raised, replaying its
  policies in order of id and its events in order of sequence number raises nowhere, and
  the rebuilt ledger passes the integrity check and has the very snapshot of the source:
  every row of every table and every derived projection. The comparison of two
  reconstructions with the source therefore returns the digest of that snapshot. The
  hypothesis on the digest is that it does not collide on the instruments admitted.
\<close>

theorem replay_reproduces:
  assumes "list_all op_args_ok ops" "d = fold (db_after H) ops empty_db" "identities_distinguished H d"
  shows "\<exists>target s. reconstruct H d = Inr target \<and> snapshot d = Inr s \<and> snapshot (lg_db target) = Inr s \<and>
    integrity_check (lg_db target) = Inr () \<and> assert_replay_equivalence H d = Inr (state_digest H s)"
proof -
  have rep: "replayable H d" using run_replays [OF replayable_empty assms(1)] assms(2) by simp
  obtain qs where docs: "documents H d qs" by (rule documents_exist [OF rep])
  obtain s where s: "snapshot d = Inr s" using snapshot_defined [of d] rep by (auto simp: replayable_def spot_ok_def)
  let ?t = "mirror (rebuilt H qs d) d"
  have run: "reconstruct H d = Inr (at_rest ?t)" by (rule reconstruct_runs [OF assms(1,2) docs assms(3)])
  have t: "snapshot ?t = Inr s" "integrity_check ?t = Inr ()"
    using snapshot_mirror [OF rep docs assms(3)] integrity_mirror [OF rep docs assms(3)] s by simp_all
  then have "assert_replay_equivalence H d = Inr (state_digest H s)"
    by (simp add: assert_replay_equivalence_def replayed_digest_def s run)
  then show ?thesis using run s t by (intro exI [of _ "at_rest ?t"] exI [of _ s]) simp
qed

text \<open>The sample run: a rung created, reserved and filled.\<close>

definition sample_operations :: "operation list" where
  "sample_operations = [AdmitPolicy sample_admitted_policy, OpenCycle sample_admitted_policy 0 1000,
     CreateIntent sample_intent 1000, Transition sample_action TRIGGERED 1000 [], Transition sample_action QUOTE_PINNED 1000 [],
     Transition sample_action SIMULATED 1000 [], Transition sample_action RESERVED 1000 [],
     AppendReceipt (sample_receipt ''r1'' 50000000) 1000]"

definition sample_replayed_db :: db where
  "sample_replayed_db = sample_state RESERVED [sample_receipt_event ''r1'' 50000000] [sample_reservation]
     [sample_receipt_row ''r1'' 50000000]"

lemma db_after_body: "op_body H op d = (Inr u, d') \<Longrightarrow> db_after H op d = d'"
  by (simp add: db_after_def run_top del: run.simps op_body.simps)

lemma sample_operations_run: "sample_replayed_db = fold (db_after sample_hash) sample_operations empty_db"
proof -
  note mv = sample_moves [THEN db_after_body]
  have "db_after sample_hash (Transition sample_action TRIGGERED 1000 []) (sample_rung_db ARMED []) =
      sample_rung_db TRIGGERED [sample_move 3 ARMED TRIGGERED]"
    using mv [of ARMED TRIGGERED "[]" 3] by (simp add: is_legal_transition_def next_seq_def tbl_simps)
  moreover have "db_after sample_hash (Transition sample_action QUOTE_PINNED 1000 []) (sample_rung_db TRIGGERED [sample_move 3 ARMED TRIGGERED]) =
      sample_rung_db QUOTE_PINNED [sample_move 3 ARMED TRIGGERED, sample_move 4 TRIGGERED QUOTE_PINNED]"
    using mv [of TRIGGERED QUOTE_PINNED "[sample_move 3 ARMED TRIGGERED]" 4] by (simp add: is_legal_transition_def next_seq_def tbl_simps)
  moreover have "db_after sample_hash (Transition sample_action SIMULATED 1000 [])
      (sample_rung_db QUOTE_PINNED [sample_move 3 ARMED TRIGGERED, sample_move 4 TRIGGERED QUOTE_PINNED]) = sample_simulated_db"
    using mv [of QUOTE_PINNED SIMULATED "[sample_move 3 ARMED TRIGGERED, sample_move 4 TRIGGERED QUOTE_PINNED]" 5]
    by (simp add: is_legal_transition_def next_seq_def tbl_simps sample_simulated_db_def)
  moreover note db_after_body [OF sample_admission] db_after_body [OF sample_opens] db_after_body [OF sample_creates]
    db_after_body [OF sample_reserves] db_after_body [OF sample_fills [of 50000000 "''r1''" "[sample_reservation]"]]
  ultimately show ?thesis
    by (simp add: sample_operations_def sample_replayed_db_def sample_reserved_state del: op_body.simps)
qed

lemma sample_operations_ok: "list_all op_args_ok sample_operations"
  using sample_policy_parses sample_bounds_made
  by (auto simp: sample_operations_def make_receipt_def sample_receipt_def)

lemma sample_identities: "identities_distinguished sample_hash sample_replayed_db"
proof -
  have same: "identity_object (forget_symbol i) = identity_object i" for i by (simp add: identity_object_def)
  have "parse_policy (pr_canonical sample_policy_row) = Inr (forget_symbols sample_admitted_policy)"
    using parse_canonical [OF sample_policy_parses] policy_row_sel(2) [OF sample_row_of] by simp
  then show ?thesis
    by (simp add: identities_distinguished_def sample_replayed_db_def insts_def forget_symbols_def
        sample_base_id_def [symmetric] sample_quote_id_def [symmetric] same)
qed

lemma replay_reproduces_witness:
  "\<exists>s. snapshot sample_replayed_db = Inr s \<and>
     assert_replay_equivalence sample_hash sample_replayed_db = Inr (state_digest sample_hash s)"
  using replay_reproduces [OF sample_operations_ok sample_operations_run sample_identities] by blast

end
