(* ===== verification/ReplayAudit.thy ===== *)
theory ReplayAudit
  imports Reproduce
begin

text \<open>
  What a successful replay has checked of the log it was given, wherever the log came
  from.
\<close>

text \<open>A replay only adds receipts, and leaves the execution surface alone.\<close>

definition retains_records :: "db \<Rightarrow> db \<Rightarrow> bool" where
  "retains_records d0 d \<longleftrightarrow> exec_surface d = exec_surface d0 \<and> set (fill_receipts d0) \<subseteq> set (fill_receipts d)"

lemma keeps_recorded [keeps_intros]:
  "keeps (retains_records d0) (must b)"
  "keeps (retains_records d0) (swrite (insert_cycle c))" "keeps (retains_records d0) (swrite (insert_intent i))"
  "keeps (retains_records d0) (swrite (insert_event e))" "keeps (retains_records d0) (swrite (insert_receipt f))"
  "keeps (retains_records d0) (swrite (insert_reservation r))"
  "keeps (retains_records d0) (sput (update_intent_state a st))"
  "keeps (retains_records d0) (sput (update_cycle_status cid cs))"
  "keeps (retains_records d0) (sput (update_reservation a rs sq))"
  "keeps (retains_records d0) (sput (settle_at a rs n))"
  by (auto simp: retains_records_def must_def res_simps table_updates settle_at_def
      intro!: keeps_swrite keeps_sput keeps_intros split: option.splits)

lemma keeps_payload_cases [keeps_intros]:
  "keeps I a \<Longrightarrow> (\<And>b. keeps I (f b)) \<Longrightarrow> (\<And>n. keeps I (g n)) \<Longrightarrow> (\<And>s. keeps I (h s)) \<Longrightarrow> (\<And>xs. keeps I (k xs)) \<Longrightarrow>
     (\<And>kvs. keeps I (m kvs)) \<Longrightarrow>
     keeps I (case j of JNull \<Rightarrow> a | JBool b \<Rightarrow> f b | JInt n \<Rightarrow> g n | JStr s \<Rightarrow> h s | JList xs \<Rightarrow> k xs | JObj kvs \<Rightarrow> m kvs)"
  "keeps I b1 \<Longrightarrow> keeps I b2 \<Longrightarrow> keeps I b3 \<Longrightarrow> keeps I b4 \<Longrightarrow> keeps I b5 \<Longrightarrow> keeps I b6 \<Longrightarrow> keeps I b7 \<Longrightarrow> keeps I b8 \<Longrightarrow>
     keeps I (case et of CYCLE_OPENED \<Rightarrow> b1 | CYCLE_COMPLETED \<Rightarrow> b2 | CYCLE_HALTED \<Rightarrow> b3 | INTENT_CREATED \<Rightarrow> b4
       | INTENT_TRANSITION \<Rightarrow> b5 | FILL_RECEIPT_APPENDED \<Rightarrow> b6 | EXACT_BYTES_RESUMED \<Rightarrow> b7 | CHAIN_TRUTH_RECOVERED \<Rightarrow> b8)"
  by (cases j; simp) (cases et; simp)

lemma keeps_replay_effect: "keeps (retains_records d0) (replay_effect T a row st n)"
  unfolding replay_effect_def by (intro keeps_intros)

lemma keeps_apply_event: "keeps (retains_records d0) (apply_event T s e)"
  unfolding apply_event_def apply_cycle_event_def check_carry_def apply_intent_created_def apply_transition_def
    apply_exact_bytes_resume_def apply_chain_truth_recovery_def replay_recovered_def replay_unquarantine_def
    apply_receipt_def Let_def
  by (intro keeps_intros keeps_replay_effect)

text \<open>What a replay has checked of one transition.\<close>

definition transition_audited :: "string set \<Rightarrow> exec_tables option \<Rightarrow> event_row \<Rightarrow> bool" where
  "transition_audited trusted surface e \<longleftrightarrow>
     (\<exists>a s t. ev_action e = Some a \<and> ev_from e = Some (Intent s) \<and> ev_to e = Some (Intent t) \<and>
        is_legal_transition s t \<and>
        (s \<in> {SIGNED, SUBMITTED, INCLUDED, CONFIRMED} \<and> t \<in> RELEASING_STATES \<longrightarrow>
           a \<in> trusted \<or> (\<exists>x. surface = Some x \<and>
             list_ex (\<lambda>r. rr_action r = a \<and> rr_verdict r = V_REVERTED \<and> list_ex (bound_to r) (signed_transactions x))
               (reconciliations x))))"

lemma replay_effect_audited:
  assumes "replay_effect T a row t n d = (Inr u, d')"
    and "nr_state row \<in> {SIGNED, SUBMITTED, INCLUDED, CONFIRMED}" "t \<in> RELEASING_STATES"
  shows "a \<in> T \<or> replayed_bound_revert a d = Inr True"
proof -
  have t: "t \<noteq> RESERVED" "t \<noteq> FILLED" using assms(3) by (auto simp: RELEASING_STATES_def)
  then show ?thesis
    using assms(1) assms(2,3)
    by (auto simp: replay_effect_def sbind_eq_Inr sget_eq slift_eq must_def sguard_eq_Inr split: if_splits)
qed

lemma transition_audit:
  assumes "apply_transition T a e d = (Inr u, d')" "ev_action e = Some a"
  shows "transition_audited T (exec_surface d) e"
proof -
  obtain row t d1 where found: "find_row nr_id a (intents d) = Some row" and lab: "label_state (ev_to e) = Inr t"
    and src: "ev_from e = Some (Intent (nr_state row))" and legal: "is_legal_transition (nr_state row) t"
    and eff: "replay_effect T a row t (ev_seq e) d = (Inr (), d1)"
    using assms(1) unfolding apply_transition_def
    by (auto simp: sbind_eq_Inr sget_eq slift_eq must_def sguard_eq_Inr Let_def)
  have dst: "ev_to e = Some (Intent t)"
    using lab by (auto simp: label_state_def split: option.splits state_label.splits)
  have "a \<in> T \<or> (\<exists>x. exec_surface d = Some x \<and>
      list_ex (\<lambda>r. rr_action r = a \<and> rr_verdict r = V_REVERTED \<and> list_ex (bound_to r) (signed_transactions x)) (reconciliations x))"
    if "nr_state row \<in> {SIGNED, SUBMITTED, INCLUDED, CONFIRMED}" "t \<in> RELEASING_STATES"
    using replay_effect_audited [OF eff that] by (auto simp: replayed_bound_revert_def split: option.splits)
  then show ?thesis using assms(2) src dst legal unfolding transition_audited_def by blast
qed

text \<open>
  What a replay has checked of a recovery from chain truth, the other way out of a quarantine: it
  settles the action only on a SETTLED verdict that names a receipt of the action, and it gives the
  capital back only on a REVERTED verdict, for an action the caller trusts. The receipt is in the
  ledger \<open>d\<close> that the replay builds.
\<close>

definition recovery_audited :: "string set \<Rightarrow> db \<Rightarrow> event_row \<Rightarrow> bool" where
  "recovery_audited trusted d e \<longleftrightarrow>
     (\<exists>a. ev_action e = Some a \<and> ev_from e = Some (Intent SAFE_HALT) \<and>
        (ev_to e = Some (Intent RECONCILED) \<and> jfetch ''verdict'' (ev_payload e) = Inr (JStr ''SETTLED'') \<and>
           (\<exists>f \<in> set (fill_receipts d). fr_action f = a \<and> jfetch ''receipt_id'' (ev_payload e) = Inr (JStr (fr_id f))) \<or>
         ev_to e = Some (Intent REJECTED) \<and> jfetch ''verdict'' (ev_payload e) = Inr (JStr ''REVERTED'') \<and>
           jfetch ''receipt_id'' (ev_payload e) = Inr JNull \<and> a \<in> trusted))"

text \<open>And of a resumption: it makes a halted action SIGNED again, which gives nothing back.\<close>

definition resumption_audited :: "event_row \<Rightarrow> bool" where
  "resumption_audited e \<longleftrightarrow> ev_action e \<noteq> None \<and> ev_from e = Some (Intent SAFE_HALT) \<and> ev_to e = Some (Intent SIGNED) \<and>
     jget_attr ''recovery_type'' (ev_payload e) = Inr (JStr ''ZERO_SUBMISSION_EXACT_BYTES_RESUME'')"

lemma replay_recovered_audited:
  assumes "replay_recovered T a row target verdict receipt n d = (Inr u, d')"
  shows "if target = RECONCILED then verdict = JStr ''SETTLED'' \<and>
      (\<exists>f \<in> set (fill_receipts d). fr_action f = a \<and> receipt = JStr (fr_id f))
    else verdict = JStr ''REVERTED'' \<and> receipt = JNull \<and> a \<in> T"
  using assms unfolding replay_recovered_def
  by (auto simp: sbind_eq_Inr sget_eq must_def sguard_eq_Inr sraise_eq list_ex_iff split: if_splits json.splits)

lemma recovery_audit:
  assumes "apply_chain_truth_recovery T a e d = (Inr u, d')" "ev_action e = Some a"
  shows "recovery_audited T d e"
proof -
  obtain row verdict receipt d1 where src: "ev_from e = Some (Intent SAFE_HALT)"
    and dst: "ev_to e = Some (Intent RECONCILED) \<or> ev_to e = Some (Intent REJECTED)"
    and v: "jfetch ''verdict'' (ev_payload e) = Inr verdict" and r: "jfetch ''receipt_id'' (ev_payload e) = Inr receipt"
    and rec: "replay_recovered T a row (if ev_to e = Some (Intent RECONCILED) then RECONCILED else REJECTED)
      verdict receipt (ev_seq e) d = (Inr (), d1)"
    using assms(1) unfolding apply_chain_truth_recovery_def Let_def
    by (auto simp: sbind_eq_Inr sget_eq slift_eq must_def sguard_eq_Inr)
  show ?thesis
    using replay_recovered_audited [OF rec] src dst v r assms(2) unfolding recovery_audited_def
    by (auto split: if_splits)
qed

lemma resumption_audit:
  assumes "apply_exact_bytes_resume a e d = (Inr u, d')" "ev_action e = Some a"
  shows "resumption_audited e"
  using assms unfolding apply_exact_bytes_resume_def resumption_audited_def
  by (auto simp: sbind_eq_Inr sget_eq slift_eq must_def sguard_eq_Inr Let_def)

text \<open>What a replay has checked of an event; \<open>d\<close> is the ledger it builds.\<close>

definition event_audited :: "string set \<Rightarrow> db \<Rightarrow> event_row \<Rightarrow> bool" where
  "event_audited trusted d e \<longleftrightarrow>
     (case ev_type e of
        INTENT_TRANSITION \<Rightarrow> transition_audited trusted (exec_surface d) e
      | CHAIN_TRUTH_RECOVERED \<Rightarrow> recovery_audited trusted d e
      | EXACT_BYTES_RESUMED \<Rightarrow> resumption_audited e
      | _ \<Rightarrow> True)"

lemma event_audit:
  assumes "apply_event T s e d = (Inr s', d')"
  shows "event_audited T d e"
  using assms transition_audit recovery_audit resumption_audit
  by (cases "ev_type e")
    (auto simp: event_audited_def apply_event_def CYCLE_EVENT_TYPES_def sbind_eq_Inr must_def sguard_eq_Inr sraise_eq
      case_option_run)

lemma keeps_event_audited: "event_audited T d0 e \<Longrightarrow> retains_records d0 d \<Longrightarrow> event_audited T d e"
  by (auto simp: event_audited_def retains_records_def recovery_audited_def split: EventType.splits)

text \<open>
  \<^bold>\<open>C20.\<close> A replay is an audit. Whatever log it is given, if it returns then the sequence
  numbers are positive and strictly increasing, every event belongs to an admitted policy, and
  every event that moves an intent was checked. A transition is one the state machine allows, and
  gives the capital of an action that was signed or submitted back only with evidence of a
  confirmed revert: a reconciliation bound to its signed transaction, or an action id the caller
  trusts. A recovery from chain truth starts in SAFE_HALT; it gives the quarantined capital back
  only on a REVERTED verdict for an action id the caller trusts, and settles only on a SETTLED
  verdict with a receipt of that action in the replayed ledger. A resumption leads from SAFE_HALT to
  SIGNED and gives nothing back.
\<close>

theorem replay_audits_log:
  assumes "replay_events known trusted seen last_seq evs d = (Inr (), d')"
  shows "sorted_wrt (<) (last_seq # map ev_seq evs) \<and>
    (\<forall>e \<in> set evs. ev_policy e \<in> known \<and>
       (ev_type e = INTENT_TRANSITION \<longrightarrow> transition_audited trusted (exec_surface d) e) \<and>
       (ev_type e = CHAIN_TRUTH_RECOVERED \<longrightarrow> recovery_audited trusted d' e) \<and>
       (ev_type e = EXACT_BYTES_RESUMED \<longrightarrow> resumption_audited e))"
proof -
  have "retains_records d d' \<and> sorted_wrt (<) (last_seq # map ev_seq evs) \<and>
    (\<forall>e \<in> set evs. ev_policy e \<in> known \<and> event_audited trusted d' e)"
    using assms
  proof (induction evs arbitrary: seen last_seq d)
    case (Cons e evs)
    obtain seen' d1 d2 where chk: "last_seq < ev_seq e" "ev_policy e \<in> known"
      and app: "apply_event trusted seen e d = (Inr seen', d1)" and ins: "insert_event e d1 = Inr d2"
      and rest: "replay_events known trusted seen' (ev_seq e) evs d2 = (Inr (), d')"
      using Cons.prems by (auto simp: sbind_eq_Inr must_def sguard_eq_Inr swrite_eq_Inr)
    have "retains_records d d1"
      using keeps_apply_event [of d trusted seen e] app unfolding keeps_def retains_records_def by blast
    then have "retains_records d d2" using ins by (simp add: insert_event_Inr retains_records_def)
    with Cons.IH [OF rest] have kept: "retains_records d d'" by (auto simp: retains_records_def)
    show ?case
      using Cons.IH [OF rest] chk kept keeps_event_audited [OF event_audit [OF app] kept] by auto
  qed (simp add: retains_records_def sret_eq)
  then show ?thesis by (auto simp: event_audited_def retains_records_def)
qed

text \<open>The next event of a log whose action was halted: its capital is given back.\<close>

definition sample_recovery :: event_row where
  "sample_recovery = sample_event 8 CHAIN_TRUTH_RECOVERED (Some sample_action) (Some (Intent SAFE_HALT)) (Some (Intent REJECTED))
     (JObj [(''receipt_id'', JNull), (''reconciliation_id'', JStr ''c1''),
        (''recovery_type'', JStr ''TERMINAL_CHAIN_TRUTH_AFTER_SAFE_HALT''), (''verdict'', JStr ''REVERTED'')])"

definition sample_halted_db :: db where
  "sample_halted_db = sample_state SAFE_HALT [sample_move 7 RESERVED SAFE_HALT]
     [set_settled (QUARANTINED, Some 7) sample_reservation] []"

lemma sample_recovers:
  "\<exists>d. replay_events {sample_digest} {sample_action} {sample_action} 7 [sample_recovery] sample_halted_db = (Inr (), d) \<and>
     map br_status (budget_reservations d) = [RELEASED]"
proof -
  have pay: "py_set (ev_payload sample_recovery) = Inr RECOVERY_KEYS"
    "jfetch ''recovery_type'' (ev_payload sample_recovery) = Inr (JStr ''TERMINAL_CHAIN_TRUTH_AFTER_SAFE_HALT'')"
    "jfetch ''verdict'' (ev_payload sample_recovery) = Inr (JStr ''REVERTED'')"
    "jfetch ''receipt_id'' (ev_payload sample_recovery) = Inr JNull"
    by (auto simp: sample_recovery_def sample_event_def py_set_def RECOVERY_KEYS_def jfetch_def)
  have ev: "ev_seq sample_recovery = 8" "ev_type sample_recovery = CHAIN_TRUTH_RECOVERED" "ev_at sample_recovery = 1000"
    "ev_policy sample_recovery = sample_digest" "ev_cycle sample_recovery = sample_digest @ '':0''"
    "ev_action sample_recovery = Some sample_action"
    "ev_from sample_recovery = Some (Intent SAFE_HALT)" "ev_to sample_recovery = Some (Intent REJECTED)"
    by (simp_all add: sample_recovery_def sample_event_def)
  let ?d = "update_intent_state sample_action REJECTED (update_reservation sample_action RELEASED (Some 8) sample_halted_db)"
  have b: "br_id sample_reservation = sample_action" by (simp add: sample_reservation_def)
  have r: "replay_recovered {sample_action} sample_action (sample_intent_row SAFE_HALT) REJECTED (JStr ''REVERTED'') JNull 8
      sample_halted_db = (Inr (), update_reservation sample_action RELEASED (Some 8) sample_halted_db)"
    by (simp add: replay_recovered_def replay_unquarantine_def sbind_run body_defs must_def sample_halted_db_def tbl_simps b)
  have "apply_chain_truth_recovery {sample_action} sample_action sample_recovery sample_halted_db = (Inr (), ?d)"
    by (simp add: apply_chain_truth_recovery_def Let_def sbind_run body_defs must_def pay ev r)
      (simp add: sample_halted_db_def tbl_simps b sbind_run body_defs r [unfolded sample_halted_db_def])
  then have "apply_event {sample_action} {sample_action} sample_recovery sample_halted_db = (Inr {sample_action}, ?d)"
    by (simp add: apply_event_def CYCLE_EVENT_TYPES_def sbind_run body_defs must_def ev)
  moreover have "insert_event sample_recovery ?d = Inr (push_event sample_recovery ?d)"
    by (simp add: insert_event_def ev table_updates sample_halted_db_def tbl_simps has_row_def push_event_def
        CYCLE_EVENT_TYPES_def sample_reserved_events_def)
  ultimately have "replay_events {sample_digest} {sample_action} {sample_action} 7 [sample_recovery] sample_halted_db =
      (Inr (), push_event sample_recovery ?d)"
    by (simp add: sbind_run body_defs must_def ev INT64_MAX_def)
  then show ?thesis
    by (simp add: push_event_def table_updates sample_halted_db_def update_row_def b)
qed

lemma replay_audits_log_witness:
  "sorted_wrt (<) (0 # map ev_seq (events sample_replayed_db)) \<and>
   transition_audited {} None (sample_move 6 SIMULATED RESERVED) \<and>
   (\<exists>d. replay_events {sample_digest} {sample_action} {sample_action} 7 [sample_recovery] sample_halted_db = (Inr (), d) \<and>
     map br_status (budget_reservations d) = [RELEASED] \<and> recovery_audited {sample_action} d sample_recovery)"
proof -
  have aud: "recovery_audited {sample_action} d sample_recovery"
    if "replay_events {sample_digest} {sample_action} {sample_action} 7 [sample_recovery] sample_halted_db = (Inr (), d)" for d
    using replay_audits_log [OF that] by (simp add: sample_recovery_def sample_event_def)
  have rep: "replayable sample_hash sample_replayed_db"
    using run_replays [OF replayable_empty sample_operations_ok] sample_operations_run by metis
  obtain qs where docs: "documents sample_hash sample_replayed_db qs" by (rule documents_exist [OF rep])
  let ?B = "rebuilt sample_hash qs sample_replayed_db"
  have "set (map pr_id (policies ?B)) = {sample_digest}" "exec_surface ?B = None"
    by (simp_all add: sample_replayed_db_def rebuilt_def catalogued_def empty_db_def)
  with replay_audits_log [OF log_replays [OF sample_operations_ok sample_operations_run docs sample_identities]]
  have log: "sorted_wrt (<) (0 # map ev_seq (events sample_replayed_db))"
    "\<forall>e \<in> set (events sample_replayed_db). ev_type e = INTENT_TRANSITION \<longrightarrow> transition_audited {} None e"
    by simp_all
  have "sample_move 6 SIMULATED RESERVED \<in> set (events sample_replayed_db)"
    "ev_type (sample_move 6 SIMULATED RESERVED) = INTENT_TRANSITION"
    by (simp_all add: events_def sample_replayed_db_def sample_reserved_events_def sample_move_def)
  with log(2) have moved: "transition_audited {} None (sample_move 6 SIMULATED RESERVED)" by (metis (no_types))
  obtain d where d: "replay_events {sample_digest} {sample_action} {sample_action} 7 [sample_recovery] sample_halted_db = (Inr (), d)"
    "map br_status (budget_reservations d) = [RELEASED]"
    using sample_recovers by metis
  show ?thesis by (intro conjI exI [of _ d] log(1) moved d aud [OF d(1)])
qed

end
