(* ===== verification/Contract.thy ===== *)
theory Contract
  imports Store CanonText
begin

text \<open>
  The execution contract, \<open>qntyspot/execution_contract.py\<close>, first part: the primitive
  validators, the authority ladder, the reference to an external authority grant, the
  execution session and the binding of the two. A frozen dataclass is a record, its
  \<open>__post_init__\<close> a \<open>make_\<close> function returning the record or the exception; digests are
  \<open>digest_object\<close> over the canonical object, with the hash a parameter.
\<close>

subsection \<open>Texts\<close>

text \<open>\<open>text.split(sep)\<close> for a one-character separator.\<close>

fun split_on :: "char \<Rightarrow> string \<Rightarrow> string list" where
  "split_on c [] = [[]]"
| "split_on c (x # xs) =
     (if x = c then [] # split_on c xs else (x # hd (split_on c xs)) # tl (split_on c xs))"

lemma split_on_nonempty [simp]: "split_on c s \<noteq> []"
  by (induction s) auto

text \<open>Joining the parts with the separator gives the text back.\<close>

lemma join_split_on: "join c (split_on c s) = s"
proof (induction s)
  case (Cons x xs)
  show ?case
  proof (cases "split_on c xs")
    case (Cons p ps)
    with Cons.IH show ?thesis by (cases ps) auto
  qed simp
qed simp

lemma split_on_no_sep: "p \<in> set (split_on c s) \<Longrightarrow> c \<notin> set p"
proof (induction s arbitrary: p)
  case (Cons x xs)
  have "hd (split_on c xs) \<in> set (split_on c xs)" by (simp add: hd_in_set)
  with Cons show ?case
    by (cases "split_on c xs") (auto split: if_splits)
qed simp

definition is_lower :: "char \<Rightarrow> bool" where
  "is_lower c \<longleftrightarrow> 97 \<le> (of_char c :: nat) \<and> (of_char c :: nat) \<le> 122"

definition is_token_char :: "char \<Rightarrow> bool" where
  "is_token_char c \<longleftrightarrow> is_lower c \<or> is_digit c"

text \<open>\<open>[a-z][a-z0-9]*(?:-[a-z0-9]+)*(?:\.[0-9]+)*\<close>: words joined by dashes, then version parts.\<close>

definition portable_body :: "string \<Rightarrow> bool" where
  "portable_body s =
     (let parts = split_on (CHR ''.'') s; words = split_on (CHR ''-'') (hd parts)
      in list_all (\<lambda>w. w \<noteq> [] \<and> list_all is_token_char w) words \<and> is_lower (hd (hd words)) \<and>
         list_all (\<lambda>v. v \<noteq> [] \<and> all_digits v) (tl parts))"

definition PORTABLE_RE :: "string \<Rightarrow> bool" where
  "PORTABLE_RE = matches_line portable_body"

text \<open>\<open>text.strip()\<close> on characters below 256.\<close>

definition is_space :: "char \<Rightarrow> bool" where
  "is_space c \<longleftrightarrow> (of_char c :: nat) \<in> {9, 10, 11, 12, 13, 28, 29, 30, 31, 32, 133, 160}"

definition strip :: "string \<Rightarrow> string" where
  "strip s = rev (dropWhile is_space (rev (dropWhile is_space s)))"

text \<open>\<open>casefold\<close> as far as a comparison with the ASCII tokens below can see it.\<close>

definition fold_char :: "char \<Rightarrow> char" where
  "fold_char c = (if 65 \<le> (of_char c :: nat) \<and> (of_char c :: nat) \<le> 90 then char_of (of_char c + 32 :: nat) else c)"

definition RESERVED_EXACT_SCOPE_TOKENS :: "string set" where
  "RESERVED_EXACT_SCOPE_TOKENS = {''*'', ''any'', ''latest''}"

subsection \<open>Identity objects\<close>

text \<open>
  The canonical objects of the contract list their members in key order and have no
  nested value but texts and numbers; then the canonical text determines the members.
\<close>

fun scalar :: "json \<Rightarrow> bool" where
  "scalar (JList xs) = False"
| "scalar (JObj kvs) = False"
| "scalar _ = True"

definition flat :: "(string \<times> json) list \<Rightarrow> bool" where
  "flat kvs \<longleftrightarrow> sorted (map fst kvs) \<and> list_all (\<lambda>kv. scalar (snd kv)) kvs"

lemma json_canon_scalar: "scalar j \<Longrightarrow> json_canon j = j"
  by (cases j) simp_all

lemma json_canon_flat:
  assumes "flat kvs" shows "json_canon (JObj kvs) = JObj kvs"
proof -
  have "sort_key fst kvs = kvs"
    using assms by (intro sort_key_id_if_sorted) (simp add: flat_def)
  moreover have "map (\<lambda>m. (fst m, json_canon (snd m))) kvs = kvs"
    using assms by (intro map_idI) (auto simp: flat_def list_all_iff json_canon_scalar)
  ultimately show ?thesis unfolding object_canon by simp
qed

lemma flat_text_inj:
  assumes "flat a" "flat b" "canonical_json_str (JObj a) = canonical_json_str (JObj b)"
  shows "a = b"
  using same_text_same_value [OF assms(3)] unfolding json_canon_flat [OF assms(1)] json_canon_flat [OF assms(2)]
  by (rule json.inject(5) [THEN iffD1])

text \<open>The digest separates two values when it separates their canonical texts.\<close>

definition separates :: "digest_fn \<Rightarrow> json \<Rightarrow> json \<Rightarrow> bool" where
  "separates H a b \<longleftrightarrow> (digest_object H a = digest_object H b \<longrightarrow> canonical_json_str a = canonical_json_str b)"

lemma flat_digest_eq_iff:
  assumes "separates H (JObj a) (JObj b)" "flat a" "flat b"
  shows "digest_object H (JObj a) = digest_object H (JObj b) \<longleftrightarrow> a = b"
  using assms flat_text_inj unfolding separates_def by blast

subsection \<open>Primitive validators\<close>

definition MAX_UINT256 :: int where
  "MAX_UINT256 = 2 ^ 256 - 1"

definition COMMIT_RE :: "string \<Rightarrow> bool" where
  "COMMIT_RE = hex_text [] 40"

definition TX_HASH_RE :: "string \<Rightarrow> bool" where
  "TX_HASH_RE = hex_text ''0x'' 64"

definition text_check :: "error \<Rightarrow> (string \<Rightarrow> bool) \<Rightarrow> string \<Rightarrow> error + unit" where
  "text_check e pattern v = require (pattern v) e"

definition digest_check :: "error \<Rightarrow> string \<Rightarrow> error + unit" where
  "digest_check e v = text_check e (hex_text [] 64) v"

definition address_check :: "error \<Rightarrow> string \<Rightarrow> error + unit" where
  "address_check e v = rbind (text_check e EVM_ADDRESS_RE v) (\<lambda>_. require (\<not> hex_text_is_zero v) e)"

definition non_negative_int :: "error \<Rightarrow> int \<Rightarrow> error + unit" where
  "non_negative_int e v = require (0 \<le> v) e"

definition positive_int :: "error \<Rightarrow> int \<Rightarrow> error + unit" where
  "positive_int e v = require (0 < v) e"

definition atomic_check :: "error \<Rightarrow> bool \<Rightarrow> int \<Rightarrow> error + unit" where
  "atomic_check e positive v =
     rbind (if positive then positive_int e v else non_negative_int e v) (\<lambda>_.
       require (v \<le> MAX_UINT256) e)"

definition portable_check :: "string \<Rightarrow> error + unit" where
  "portable_check v =
     rbind (text_check SessionIdentityError PORTABLE_RE v) (\<lambda>_.
       require (length v \<le> 64) SessionIdentityError)"

definition label_check :: "error \<Rightarrow> string \<Rightarrow> error + unit" where
  "label_check e v = require (v \<noteq> [] \<and> length v \<le> 128 \<and> strip v = v) e"

definition assert_exact_scope :: "error \<Rightarrow> string \<Rightarrow> error + unit" where
  "assert_exact_scope e v =
     require (map fold_char (strip v) \<notin> RESERVED_EXACT_SCOPE_TOKENS) e"

definition opt_check :: "('a \<Rightarrow> error + unit) \<Rightarrow> 'a option \<Rightarrow> error + unit" where
  "opt_check f v = (case v of None \<Rightarrow> Inr () | Some x \<Rightarrow> f x)"

definition network_id_for_chain :: "int \<Rightarrow> error + string" where
  "network_id_for_chain cid =
     rbind (positive_int EnvelopeValidationError cid) (\<lambda>_. Inr (''evm:'' @ str_int cid))"

text \<open>A body of checks, in order; the first that fails is the exception.\<close>

abbreviation checks :: "(error + unit) list \<Rightarrow> error + unit" where
  "checks \<equiv> check_all (\<lambda>c. c)"

definition checked :: "(error + unit) list \<Rightarrow> 'a \<Rightarrow> error + 'a" where
  "checked cs x = rbind (checks cs) (\<lambda>_. Inr x)"

lemma checked_eq_Inr [res_simps]: "checked cs x = Inr y \<longleftrightarrow> y = x \<and> list_all (\<lambda>c. c = Inr ()) cs"
  by (auto simp: checked_def res_simps list_all_iff)

lemma check_eq_Inr [res_simps]:
  "text_check e p v = Inr u \<longleftrightarrow> p v"
  "digest_check e v = Inr u \<longleftrightarrow> hex_text [] 64 v"
  "address_check e v = Inr u \<longleftrightarrow> EVM_ADDRESS_RE v \<and> \<not> hex_text_is_zero v"
  "non_negative_int e n = Inr u \<longleftrightarrow> 0 \<le> n"
  "positive_int e n = Inr u \<longleftrightarrow> 0 < n"
  "atomic_check e b n = Inr u \<longleftrightarrow> 0 \<le> n \<and> (b \<longrightarrow> 0 < n) \<and> n \<le> MAX_UINT256"
  "portable_check v = Inr u \<longleftrightarrow> PORTABLE_RE v \<and> length v \<le> 64"
  "label_check e v = Inr u \<longleftrightarrow> v \<noteq> [] \<and> length v \<le> 128 \<and> strip v = v"
  "assert_exact_scope e v = Inr u \<longleftrightarrow> map fold_char (strip v) \<notin> RESERVED_EXACT_SCOPE_TOKENS"
  by (auto simp: text_check_def digest_check_def address_check_def non_negative_int_def
      positive_int_def atomic_check_def portable_check_def label_check_def
      assert_exact_scope_def res_simps)

lemma opt_check_eq_Inr [res_simps]:
  "opt_check f v = Inr u \<longleftrightarrow> (case v of None \<Rightarrow> True | Some x \<Rightarrow> f x = Inr ())"
  by (cases v) (auto simp: opt_check_def)

subsection \<open>Fields that must not exist\<close>

definition SECRET_FIELD_TOKENS :: "string list" where
  "SECRET_FIELD_TOKENS =
     [''key'', ''mnemonic'', ''keystore'', ''payload'', ''password'', ''priv'', ''r_component'',
      ''s_component'', ''v_component'', ''secret'', ''private'', ''credential'', ''signature'',
      ''raw_signed_bytes'', ''seed'']"

text \<open>The names of the fields of a record type, in their order.\<close>

definition assert_no_secret_bearing_fields :: "string list \<Rightarrow> error + unit" where
  "assert_no_secret_bearing_fields names =
     (let offenders = [f. f \<leftarrow> names, t \<leftarrow> SECRET_FIELD_TOKENS, sublist t (map fold_char f)]
      in require (offenders = []) EnvelopeValidationError)"

subsection \<open>The authority ladder\<close>

datatype AuthorityLevel =
    SHADOW
  | RECONCILE_ONLY
  | SUBMIT_EXACT_SIGNED_BYTES
  | HUMAN_SIGNED_EXECUTION
  | AUTONOMOUS_BOUNDED_SIGNER

text \<open>The integer of the \<open>IntEnum\<close>, which orders the levels.\<close>

primrec level_value :: "AuthorityLevel \<Rightarrow> int" where
  "level_value SHADOW = 0"
| "level_value RECONCILE_ONLY = 1"
| "level_value SUBMIT_EXACT_SIGNED_BYTES = 2"
| "level_value HUMAN_SIGNED_EXECUTION = 3"
| "level_value AUTONOMOUS_BOUNDED_SIGNER = 4"

lemma level_value_inj: "level_value a = level_value b \<longleftrightarrow> a = b"
  by (cases a; cases b) simp_all

instantiation AuthorityLevel :: linorder
begin

definition less_eq_AuthorityLevel :: "AuthorityLevel \<Rightarrow> AuthorityLevel \<Rightarrow> bool" where
  "a \<le> b \<longleftrightarrow> level_value a \<le> level_value b"

definition less_AuthorityLevel :: "AuthorityLevel \<Rightarrow> AuthorityLevel \<Rightarrow> bool" where
  "a < b \<longleftrightarrow> level_value a < level_value b"

instance
  by standard (auto simp: less_eq_AuthorityLevel_def less_AuthorityLevel_def level_value_inj)

end

lemmas level_order_defs = less_eq_AuthorityLevel_def less_AuthorityLevel_def

definition AuthorityLevels :: "AuthorityLevel list" where
  "AuthorityLevels = [SHADOW, RECONCILE_ONLY, SUBMIT_EXACT_SIGNED_BYTES, HUMAN_SIGNED_EXECUTION,
     AUTONOMOUS_BOUNDED_SIGNER]"

text \<open>\<open>AuthorityLevel(n)\<close>.\<close>

definition AuthorityLevel_of :: "int \<Rightarrow> error + AuthorityLevel" where
  "AuthorityLevel_of n =
     (case find (\<lambda>l. level_value l = n) AuthorityLevels of None \<Rightarrow> Inl PyValueError | Some l \<Rightarrow> Inr l)"

lemma AuthorityLevel_of_value [simp]: "AuthorityLevel_of (level_value l) = Inr l"
  by (cases l) (simp_all add: AuthorityLevel_of_def AuthorityLevels_def)

datatype Capability =
    OBSERVE_MARKET
  | DECIDE_OFFLINE
  | OBSERVE_CHAIN
  | RECONCILE
  | ACCOUNT_QUARANTINE
  | RESERVE_CAPITAL
  | SUBMIT_EXACT_BYTES
  | CONSTRUCT_ENVELOPE
  | AUTHORIZE_APPROVAL
  | PRODUCE_SIGNATURE

definition L0 :: "Capability set" where
  "L0 = {OBSERVE_MARKET, DECIDE_OFFLINE}"

definition L1 :: "Capability set" where
  "L1 = L0 \<union> {OBSERVE_CHAIN, RECONCILE, ACCOUNT_QUARANTINE, RESERVE_CAPITAL}"

definition L2 :: "Capability set" where
  "L2 = L1 \<union> {SUBMIT_EXACT_BYTES}"

definition L3 :: "Capability set" where
  "L3 = L2 \<union> {CONSTRUCT_ENVELOPE, AUTHORIZE_APPROVAL}"

definition L4 :: "Capability set" where
  "L4 = L3 \<union> {PRODUCE_SIGNATURE}"

primrec LADDER :: "AuthorityLevel \<Rightarrow> Capability set" where
  "LADDER SHADOW = L0"
| "LADDER RECONCILE_ONLY = L1"
| "LADDER SUBMIT_EXACT_SIGNED_BYTES = L2"
| "LADDER HUMAN_SIGNED_EXECUTION = L3"
| "LADDER AUTONOMOUS_BOUNDED_SIGNER = L4"

lemmas ladder_defs = L0_def L1_def L2_def L3_def L4_def

definition KILL_SWITCH_PRESERVED_CAPABILITIES :: "Capability set" where
  "KILL_SWITCH_PRESERVED_CAPABILITIES =
     {OBSERVE_MARKET, DECIDE_OFFLINE, OBSERVE_CHAIN, RECONCILE, ACCOUNT_QUARANTINE}"

definition PHASE_GRANTED_AUTHORITY_LEVEL :: AuthorityLevel where
  "PHASE_GRANTED_AUTHORITY_LEVEL = HUMAN_SIGNED_EXECUTION"

definition assert_phase_ceiling :: "AuthorityLevel \<Rightarrow> error + unit" where
  "assert_phase_ceiling l = require (l \<le> PHASE_GRANTED_AUTHORITY_LEVEL) AuthorityCeilingError"

text \<open>The module-level assertion that the ladder is monotone.\<close>

lemma LADDER_mono: "a \<le> b \<Longrightarrow> LADDER a \<subseteq> LADDER b"
  by (cases a; cases b) (auto simp: ladder_defs level_order_defs)

lemma signature_above_phase: "PRODUCE_SIGNATURE \<in> LADDER l \<longleftrightarrow> PHASE_GRANTED_AUTHORITY_LEVEL < l"
  by (cases l) (auto simp: ladder_defs level_order_defs PHASE_GRANTED_AUTHORITY_LEVEL_def)

subsection \<open>The reference to an external grant\<close>

definition CONTRACT_SCHEMA :: string where
  "CONTRACT_SCHEMA = ''qntyspot.program_b.v0''"

record AuthorityPolicyRefV0 =
  ap_authority_root_id :: string
  ap_granted_level :: AuthorityLevel
  ap_permitted_repository_commit :: string
  ap_permitted_implementation_digest :: string
  ap_permitted_network_id :: string
  ap_permitted_taker_address :: string
  ap_permitted_venue_id :: string
  ap_max_reservation_atomic :: int
  ap_max_cumulative_atomic :: int
  ap_not_before_epoch_s :: int
  ap_not_after_epoch_s :: int
  ap_schema :: string

definition make_authority_policy :: "AuthorityPolicyRefV0 \<Rightarrow> error + AuthorityPolicyRefV0" where
  "make_authority_policy a = checked
     [portable_check (ap_authority_root_id a),
      text_check AuthorityCeilingError COMMIT_RE (ap_permitted_repository_commit a),
      assert_exact_scope AuthorityCeilingError (ap_permitted_repository_commit a),
      digest_check AuthorityCeilingError (ap_permitted_implementation_digest a),
      assert_exact_scope AuthorityCeilingError (ap_permitted_implementation_digest a),
      label_check AuthorityCeilingError (ap_permitted_network_id a),
      assert_exact_scope AuthorityCeilingError (ap_permitted_network_id a),
      address_check AuthorityCeilingError (ap_permitted_taker_address a),
      assert_exact_scope AuthorityCeilingError (ap_permitted_taker_address a),
      portable_check (ap_permitted_venue_id a),
      assert_exact_scope AuthorityCeilingError (ap_permitted_venue_id a),
      atomic_check AuthorityCeilingError True (ap_max_reservation_atomic a),
      atomic_check AuthorityCeilingError True (ap_max_cumulative_atomic a),
      require (ap_max_reservation_atomic a \<le> ap_max_cumulative_atomic a) AuthorityCeilingError,
      non_negative_int AuthorityCeilingError (ap_not_before_epoch_s a),
      positive_int AuthorityCeilingError (ap_not_after_epoch_s a),
      require (ap_not_before_epoch_s a < ap_not_after_epoch_s a) AuthorityCeilingError] a"

definition authority_policy_object :: "AuthorityPolicyRefV0 \<Rightarrow> (string \<times> json) list" where
  "authority_policy_object a =
     [(''authority_root_id'', JStr (ap_authority_root_id a)),
      (''granted_level'', JInt (level_value (ap_granted_level a))),
      (''max_cumulative_atomic'', JStr (str_int (ap_max_cumulative_atomic a))),
      (''max_reservation_atomic'', JStr (str_int (ap_max_reservation_atomic a))),
      (''not_after_epoch_s'', JInt (ap_not_after_epoch_s a)),
      (''not_before_epoch_s'', JInt (ap_not_before_epoch_s a)),
      (''permitted_implementation_digest'', JStr (ap_permitted_implementation_digest a)),
      (''permitted_network_id'', JStr (ap_permitted_network_id a)),
      (''permitted_repository_commit'', JStr (ap_permitted_repository_commit a)),
      (''permitted_taker_address'', JStr (ap_permitted_taker_address a)),
      (''permitted_venue_id'', JStr (ap_permitted_venue_id a)),
      (''schema'', JStr (ap_schema a))]"

definition authority_policy_digest :: "digest_fn \<Rightarrow> AuthorityPolicyRefV0 \<Rightarrow> string" where
  "authority_policy_digest H a = digest_object H (JObj (authority_policy_object a))"

text \<open>The validity interval is half-open; \<open>e\<close> is the exception of the caller's context.\<close>

definition assert_interval :: "error \<Rightarrow> AuthorityPolicyRefV0 \<Rightarrow> int \<Rightarrow> error + unit" where
  "assert_interval e a now =
     rbind (non_negative_int e now) (\<lambda>_.
       require (ap_not_before_epoch_s a \<le> now \<and> now < ap_not_after_epoch_s a) e)"

definition assert_valid_at :: "AuthorityPolicyRefV0 \<Rightarrow> int \<Rightarrow> error + unit" where
  "assert_valid_at a now = assert_interval AuthorityCeilingError a now"

subsection \<open>The execution session\<close>

record ExecutionSessionV0 =
  es_repository_commit :: string
  es_implementation_digest :: string
  es_runtime_identity :: string
  es_db_schema_version :: int
  es_policy_id :: string
  es_authority_policy_digest :: string
  es_taker_address :: string
  es_network_id :: string
  es_venue_id :: string
  es_venue_adapter_version :: string
  es_started_at_epoch_s :: int
  es_session_ordinal :: int
  es_schema :: string

definition make_session :: "ExecutionSessionV0 \<Rightarrow> error + ExecutionSessionV0" where
  "make_session s = checked
     [text_check SessionIdentityError COMMIT_RE (es_repository_commit s),
      digest_check SessionIdentityError (es_implementation_digest s),
      portable_check (es_runtime_identity s),
      non_negative_int SessionIdentityError (es_db_schema_version s),
      digest_check SessionIdentityError (es_policy_id s),
      digest_check SessionIdentityError (es_authority_policy_digest s),
      address_check SessionIdentityError (es_taker_address s),
      label_check SessionIdentityError (es_network_id s),
      portable_check (es_venue_id s),
      portable_check (es_venue_adapter_version s),
      non_negative_int SessionIdentityError (es_started_at_epoch_s s),
      non_negative_int SessionIdentityError (es_session_ordinal s)] s"

definition session_identity_object :: "ExecutionSessionV0 \<Rightarrow> (string \<times> json) list" where
  "session_identity_object s =
     [(''authority_policy_digest'', JStr (es_authority_policy_digest s)),
      (''db_schema_version'', JInt (es_db_schema_version s)),
      (''implementation_digest'', JStr (es_implementation_digest s)),
      (''network_id'', JStr (es_network_id s)),
      (''policy_id'', JStr (es_policy_id s)),
      (''repository_commit'', JStr (es_repository_commit s)),
      (''runtime_identity'', JStr (es_runtime_identity s)),
      (''schema'', JStr (es_schema s)),
      (''taker_address'', JStr (es_taker_address s)),
      (''venue_adapter_version'', JStr (es_venue_adapter_version s)),
      (''venue_id'', JStr (es_venue_id s))]"

definition session_identity_digest :: "digest_fn \<Rightarrow> ExecutionSessionV0 \<Rightarrow> string" where
  "session_identity_digest H s = digest_object H (JObj (session_identity_object s))"

definition session_instance_id :: "digest_fn \<Rightarrow> ExecutionSessionV0 \<Rightarrow> string" where
  "session_instance_id H s = digest_object H (JObj
     [(''identity_digest'', JStr (session_identity_digest H s)),
      (''schema'', JStr (es_schema s @ ''.instance'')),
      (''session_ordinal'', JInt (es_session_ordinal s)),
      (''started_at_epoch_s'', JInt (es_started_at_epoch_s s))])"

text \<open>\<open>^evm:([1-9][0-9]*)$\<close> and the number in its group.\<close>

definition session_chain_id :: "ExecutionSessionV0 \<Rightarrow> error + int" where
  "session_chain_id s =
     (let n = es_network_id s in
      if matches_line (\<lambda>t. take 4 t = ''evm:'' \<and> drop 4 t \<noteq> [] \<and> all_digits (drop 4 t) \<and>
           hd (drop 4 t) \<noteq> CHR ''0'') n
      then Inr (py_int (drop 4 n)) else Inl SessionIdentityError)"

subsection \<open>A transaction created elsewhere\<close>

definition EXTERNAL_TRANSACTION_ORIGIN :: string where
  "EXTERNAL_TRANSACTION_ORIGIN = ''EXTERNAL_TO_QNTYSPOT''"

record ExternalTransactionReferenceV0 =
  xr_session_id :: string
  xr_session_identity_digest :: string
  xr_economic_action_id :: string
  xr_transaction_hash :: string
  xr_chain_id :: int
  xr_taker_address :: string
  xr_authority_policy_digest :: string
  xr_origin :: string
  xr_schema :: string

definition make_external_reference ::
  "ExternalTransactionReferenceV0 \<Rightarrow> error + ExternalTransactionReferenceV0" where
  "make_external_reference x = checked
     [digest_check ChainTruthError (xr_session_id x),
      digest_check ChainTruthError (xr_session_identity_digest x),
      digest_check ChainTruthError (xr_economic_action_id x),
      text_check ChainTruthError TX_HASH_RE (xr_transaction_hash x),
      positive_int ChainTruthError (xr_chain_id x),
      address_check ChainTruthError (xr_taker_address x),
      digest_check ChainTruthError (xr_authority_policy_digest x),
      require (xr_origin x = EXTERNAL_TRANSACTION_ORIGIN) ChainTruthError,
      require (xr_schema x = CONTRACT_SCHEMA @ ''.external_transaction_reference'') ChainTruthError] x"

definition external_reference_object :: "ExternalTransactionReferenceV0 \<Rightarrow> (string \<times> json) list" where
  "external_reference_object x =
     [(''authority_policy_digest'', JStr (xr_authority_policy_digest x)),
      (''chain_id'', JInt (xr_chain_id x)),
      (''economic_action_id'', JStr (xr_economic_action_id x)),
      (''origin'', JStr (xr_origin x)),
      (''schema'', JStr (xr_schema x)),
      (''session_id'', JStr (xr_session_id x)),
      (''session_identity_digest'', JStr (xr_session_identity_digest x)),
      (''taker_address'', JStr (xr_taker_address x)),
      (''transaction_hash'', JStr (xr_transaction_hash x))]"

definition external_transaction_ref_id :: "digest_fn \<Rightarrow> ExternalTransactionReferenceV0 \<Rightarrow> string" where
  "external_transaction_ref_id H x = digest_object H (JObj (external_reference_object x))"

subsection \<open>Binding a session to a grant\<close>

definition assert_authority_session_static_binding ::
  "digest_fn \<Rightarrow> error \<Rightarrow> ExecutionSessionV0 \<Rightarrow> AuthorityPolicyRefV0 \<Rightarrow> error + unit" where
  "assert_authority_session_static_binding H e s a = checks
     [require (es_authority_policy_digest s = authority_policy_digest H a) e,
      require (ap_permitted_repository_commit a = es_repository_commit s) e,
      require (ap_permitted_implementation_digest a = es_implementation_digest s) e,
      require (ap_permitted_network_id a = es_network_id s) e,
      require (ap_permitted_taker_address a = es_taker_address s) e,
      require (ap_permitted_venue_id a = es_venue_id s) e]"

definition assert_authority_session_binding ::
  "digest_fn \<Rightarrow> error \<Rightarrow> ExecutionSessionV0 \<Rightarrow> AuthorityPolicyRefV0 \<Rightarrow> int \<Rightarrow> error + unit" where
  "assert_authority_session_binding H e s a now =
     rbind (assert_authority_session_static_binding H e s a) (\<lambda>_. assert_interval e a now)"

definition binds :: "digest_fn \<Rightarrow> ExecutionSessionV0 \<Rightarrow> AuthorityPolicyRefV0 \<Rightarrow> bool" where
  "binds H s a \<longleftrightarrow> es_authority_policy_digest s = authority_policy_digest H a \<and>
     ap_permitted_repository_commit a = es_repository_commit s \<and>
     ap_permitted_implementation_digest a = es_implementation_digest s \<and>
     ap_permitted_network_id a = es_network_id s \<and>
     ap_permitted_taker_address a = es_taker_address s \<and>
     ap_permitted_venue_id a = es_venue_id s"

definition current :: "AuthorityPolicyRefV0 \<Rightarrow> int \<Rightarrow> bool" where
  "current a now \<longleftrightarrow> 0 \<le> now \<and> ap_not_before_epoch_s a \<le> now \<and> now < ap_not_after_epoch_s a"

lemma binding_eq_Inr [res_simps]:
  "assert_interval e a now = Inr u \<longleftrightarrow> current a now"
  "assert_valid_at a now = Inr u \<longleftrightarrow> current a now"
  "assert_authority_session_static_binding H e s a = Inr u \<longleftrightarrow> binds H s a"
  "assert_authority_session_binding H e s a now = Inr u \<longleftrightarrow> binds H s a \<and> current a now"
  by (auto simp: assert_interval_def assert_valid_at_def assert_authority_session_static_binding_def
      assert_authority_session_binding_def binds_def current_def res_simps)

lemma assert_phase_ceiling_eq_Inr [res_simps]:
  "assert_phase_ceiling l = Inr u \<longleftrightarrow> l \<le> PHASE_GRANTED_AUTHORITY_LEVEL"
  by (simp add: assert_phase_ceiling_def res_simps)

lemma hex_text_sample [simp]: "is_lower_hex c \<Longrightarrow> hex_text pre n (pre @ replicate n c)"
  by (simp add: hex_text_def matches_line_def list_all_iff)

lemma hex_text_sample_Nil [simp]: "is_lower_hex c \<Longrightarrow> hex_text [] n (replicate n c)"
  using hex_text_sample [of c "[]" n] by simp

lemma address_sample [simp]: "is_lower_hex c \<Longrightarrow> EVM_ADDRESS_RE (''0x'' @ replicate 40 c)"
  by (simp add: EVM_ADDRESS_RE_def matches_line_def list_all_iff)

end
