(* ===== verification/Envelope.thy ===== *)
theory Envelope
  imports Contract
begin

text \<open>
  The execution contract, second part: the unsigned envelope a signer may evaluate, the
  approval action, the identity of a signed transaction and a submission attempt. The
  lemmas show which fields an identity determines.
\<close>

definition jopt :: "('a \<Rightarrow> json) \<Rightarrow> 'a option \<Rightarrow> json" where
  "jopt f v = (case v of None \<Rightarrow> JNull | Some x \<Rightarrow> f x)"

lemma jopt_simps [simp]: "jopt f None = JNull" "jopt f (Some x) = f x"
  by (simp_all add: jopt_def)

lemma jopt_JStr_inj [simp]: "jopt JStr v = jopt JStr w \<longleftrightarrow> v = w"
  by (cases v; cases w) simp_all

subsection \<open>The envelope\<close>

record ExecutionEnvelopeV0 =
  env_session_id :: string
  env_session_identity_digest :: string
  env_economic_action_id :: string
  env_chain_id :: int
  env_taker_address :: string
  env_input_instrument_id :: string
  env_output_instrument_id :: string
  env_max_input_atomic :: int
  env_min_output_atomic :: int
  env_transaction_to :: string
  env_transaction_value_atomic :: int
  env_calldata_sha256 :: string
  env_calldata_length :: int
  env_allowance_target :: "string option"
  env_account_nonce :: int
  env_gas_limit_ceiling :: int
  env_max_fee_per_gas_ceiling_atomic :: int
  env_max_priority_fee_per_gas_ceiling_atomic :: int
  env_deadline_epoch_s :: int
  env_authority_policy_digest :: string
  env_plan_id :: string
  env_quote_id :: string
  env_quote_observation_digest :: string
  env_venue_block_number :: int
  env_constructed_at_epoch_s :: int
  env_schema :: string

definition make_envelope :: "ExecutionEnvelopeV0 \<Rightarrow> error + ExecutionEnvelopeV0" where
  "make_envelope v = (let e = EnvelopeValidationError in checked
     [digest_check e (env_session_id v),
      digest_check e (env_session_identity_digest v),
      digest_check e (env_economic_action_id v),
      positive_int e (env_chain_id v),
      address_check e (env_taker_address v),
      label_check e (env_input_instrument_id v),
      label_check e (env_output_instrument_id v),
      require (env_input_instrument_id v \<noteq> env_output_instrument_id v) e,
      atomic_check e True (env_max_input_atomic v),
      atomic_check e True (env_min_output_atomic v),
      address_check e (env_transaction_to v),
      atomic_check e False (env_transaction_value_atomic v),
      digest_check e (env_calldata_sha256 v),
      positive_int e (env_calldata_length v),
      opt_check (address_check e) (env_allowance_target v),
      non_negative_int e (env_account_nonce v),
      positive_int e (env_gas_limit_ceiling v),
      atomic_check e True (env_max_fee_per_gas_ceiling_atomic v),
      atomic_check e False (env_max_priority_fee_per_gas_ceiling_atomic v),
      require (env_max_priority_fee_per_gas_ceiling_atomic v \<le> env_max_fee_per_gas_ceiling_atomic v) e,
      positive_int e (env_deadline_epoch_s v),
      digest_check e (env_authority_policy_digest v),
      digest_check e (env_plan_id v),
      label_check e (env_quote_id v),
      digest_check e (env_quote_observation_digest v),
      non_negative_int e (env_venue_block_number v),
      non_negative_int e (env_constructed_at_epoch_s v)] v)"

definition envelope_identity_object :: "ExecutionEnvelopeV0 \<Rightarrow> (string \<times> json) list" where
  "envelope_identity_object v =
     [(''account_nonce'', JInt (env_account_nonce v)),
      (''allowance_target'', jopt JStr (env_allowance_target v)),
      (''authority_policy_digest'', JStr (env_authority_policy_digest v)),
      (''calldata_length'', JInt (env_calldata_length v)),
      (''calldata_sha256'', JStr (env_calldata_sha256 v)),
      (''chain_id'', JInt (env_chain_id v)),
      (''deadline_epoch_s'', JInt (env_deadline_epoch_s v)),
      (''economic_action_id'', JStr (env_economic_action_id v)),
      (''gas_limit_ceiling'', JInt (env_gas_limit_ceiling v)),
      (''input_instrument_id'', JStr (env_input_instrument_id v)),
      (''max_fee_per_gas_ceiling_atomic'', JStr (str_int (env_max_fee_per_gas_ceiling_atomic v))),
      (''max_input_atomic'', JStr (str_int (env_max_input_atomic v))),
      (''max_priority_fee_per_gas_ceiling_atomic'',
        JStr (str_int (env_max_priority_fee_per_gas_ceiling_atomic v))),
      (''min_output_atomic'', JStr (str_int (env_min_output_atomic v))),
      (''output_instrument_id'', JStr (env_output_instrument_id v)),
      (''schema'', JStr (env_schema v)),
      (''session_identity_digest'', JStr (env_session_identity_digest v)),
      (''taker_address'', JStr (env_taker_address v)),
      (''transaction_to'', JStr (env_transaction_to v)),
      (''transaction_value_atomic'', JStr (str_int (env_transaction_value_atomic v)))]"

definition envelope_evidence_object :: "ExecutionEnvelopeV0 \<Rightarrow> (string \<times> json) list" where
  "envelope_evidence_object v =
     [(''constructed_at_epoch_s'', JInt (env_constructed_at_epoch_s v)),
      (''plan_id'', JStr (env_plan_id v)),
      (''quote_id'', JStr (env_quote_id v)),
      (''quote_observation_digest'', JStr (env_quote_observation_digest v)),
      (''schema'', JStr (env_schema v @ ''.evidence'')),
      (''venue_block_number'', JInt (env_venue_block_number v))]"

definition envelope_id :: "digest_fn \<Rightarrow> ExecutionEnvelopeV0 \<Rightarrow> string" where
  "envelope_id H v = digest_object H (JObj (envelope_identity_object v))"

definition evidence_digest :: "digest_fn \<Rightarrow> ExecutionEnvelopeV0 \<Rightarrow> string" where
  "evidence_digest H v = digest_object H (JObj (envelope_evidence_object v))"

definition env_network_id :: "ExecutionEnvelopeV0 \<Rightarrow> error + string" where
  "env_network_id v = network_id_for_chain (env_chain_id v)"

subsection \<open>The approval action\<close>

record ApprovalActionV0 =
  aa_session_id :: string
  aa_session_identity_digest :: string
  aa_taker_address :: string
  aa_token_address :: string
  aa_spender_address :: string
  aa_requested_allowance_atomic :: int
  aa_observed_prior_allowance_atomic :: int
  aa_authority_policy_digest :: string
  aa_deadline_epoch_s :: int
  aa_economic_action_id :: "string option"
  aa_schema :: string

definition make_approval :: "ApprovalActionV0 \<Rightarrow> error + ApprovalActionV0" where
  "make_approval v = (let e = ApprovalContractError in checked
     [digest_check e (aa_session_id v),
      digest_check e (aa_session_identity_digest v),
      address_check e (aa_taker_address v),
      address_check e (aa_token_address v),
      address_check e (aa_spender_address v),
      atomic_check e True (aa_requested_allowance_atomic v),
      require (aa_requested_allowance_atomic v \<noteq> MAX_UINT256) e,
      atomic_check e False (aa_observed_prior_allowance_atomic v),
      positive_int e (aa_deadline_epoch_s v),
      digest_check e (aa_authority_policy_digest v),
      opt_check (digest_check e) (aa_economic_action_id v)] v)"

definition approval_identity_object :: "ApprovalActionV0 \<Rightarrow> (string \<times> json) list" where
  "approval_identity_object v =
     [(''authority_policy_digest'', JStr (aa_authority_policy_digest v)),
      (''economic_action_id'', jopt JStr (aa_economic_action_id v)),
      (''requested_allowance_atomic'', JStr (str_int (aa_requested_allowance_atomic v))),
      (''schema'', JStr (aa_schema v)),
      (''session_identity_digest'', JStr (aa_session_identity_digest v)),
      (''spender_address'', JStr (aa_spender_address v)),
      (''taker_address'', JStr (aa_taker_address v)),
      (''token_address'', JStr (aa_token_address v))]"

definition approval_action_id :: "digest_fn \<Rightarrow> ApprovalActionV0 \<Rightarrow> string" where
  "approval_action_id H v = digest_object H (JObj (approval_identity_object v))"

subsection \<open>Signed transactions and submissions\<close>

record SignedTransactionRecordV0 =
  sg_envelope_id :: string
  sg_raw_signed_sha256 :: string
  sg_raw_signed_length :: int
  sg_transaction_hash :: string
  sg_chain_id :: int
  sg_account_nonce :: int
  sg_taker_address :: string
  sg_signer_identity :: string
  sg_schema :: string

definition make_signed_transaction :: "SignedTransactionRecordV0 \<Rightarrow> error + SignedTransactionRecordV0" where
  "make_signed_transaction v = (let e = EnvelopeValidationError in checked
     [digest_check e (sg_envelope_id v),
      digest_check e (sg_raw_signed_sha256 v),
      positive_int e (sg_raw_signed_length v),
      text_check e TX_HASH_RE (sg_transaction_hash v),
      positive_int e (sg_chain_id v),
      non_negative_int e (sg_account_nonce v),
      address_check e (sg_taker_address v),
      portable_check (sg_signer_identity v)] v)"

definition signed_transaction_object :: "SignedTransactionRecordV0 \<Rightarrow> (string \<times> json) list" where
  "signed_transaction_object v =
     [(''envelope_id'', JStr (sg_envelope_id v)),
      (''raw_signed_sha256'', JStr (sg_raw_signed_sha256 v)),
      (''schema'', JStr (sg_schema v))]"

definition signed_transaction_id :: "digest_fn \<Rightarrow> SignedTransactionRecordV0 \<Rightarrow> string" where
  "signed_transaction_id H v = digest_object H (JObj (signed_transaction_object v))"

datatype SubmissionAcknowledgment = ACK_ACCEPTED | ACK_REJECTED | ACK_UNKNOWN

record SubmissionAttemptV0 =
  sb_signed_transaction_id :: string
  sb_provider_id :: string
  sb_attempt_ordinal :: int
  sb_submitted_at_epoch_s :: int
  sb_acknowledgment :: SubmissionAcknowledgment
  sb_provider_reported_hash :: "string option"
  sb_error_class :: "string option"
  sb_schema :: string

definition make_submission_attempt :: "SubmissionAttemptV0 \<Rightarrow> error + SubmissionAttemptV0" where
  "make_submission_attempt v = (let e = EnvelopeValidationError in checked
     [digest_check e (sb_signed_transaction_id v),
      portable_check (sb_provider_id v),
      non_negative_int e (sb_attempt_ordinal v),
      non_negative_int e (sb_submitted_at_epoch_s v),
      opt_check (text_check e TX_HASH_RE) (sb_provider_reported_hash v),
      opt_check (label_check e) (sb_error_class v)] v)"

definition submission_attempt_object :: "SubmissionAttemptV0 \<Rightarrow> (string \<times> json) list" where
  "submission_attempt_object v =
     [(''attempt_ordinal'', JInt (sb_attempt_ordinal v)),
      (''provider_id'', JStr (sb_provider_id v)),
      (''schema'', JStr (sb_schema v)),
      (''signed_transaction_id'', JStr (sb_signed_transaction_id v))]"

definition submission_attempt_id :: "digest_fn \<Rightarrow> SubmissionAttemptV0 \<Rightarrow> string" where
  "submission_attempt_id H v = digest_object H (JObj (submission_attempt_object v))"

definition assert_hash_agreement :: "SubmissionAttemptV0 \<Rightarrow> string \<Rightarrow> error + unit" where
  "assert_hash_agreement v expected =
     (case sb_provider_reported_hash v of
        None \<Rightarrow> Inr ()
      | Some h \<Rightarrow> require (h = expected) ChainTruthError)"

end
