(* ===== verification/ChainTruth.thy ===== *)
theory ChainTruth
  imports Contract "HOL-Library.AList" "HOL-Library.Multiset"
begin

text \<open>
  Chain observations and the conclusions the contract permits: \<open>evaluate_chain_truth\<close>,
  \<open>reconcile_to_receipt\<close>, \<open>next_state_for_verdict\<close>, \<open>release_permitted\<close> and the
  capital ceiling of \<open>qntyspot/execution_contract.py\<close>.
\<close>

fun ChainPresence_value :: "ChainPresence \<Rightarrow> string" where
  "ChainPresence_value P_ABSENT = ''ABSENT''"
| "ChainPresence_value P_PENDING = ''PENDING''"
| "ChainPresence_value P_INCLUDED = ''INCLUDED''"

fun ReceiptStatus_value :: "ReceiptStatus \<Rightarrow> string" where
  "ReceiptStatus_value RS_SUCCESS = ''SUCCESS''"
| "ReceiptStatus_value RS_REVERTED = ''REVERTED''"

record ChainObservationV0 =
  ob_provider_id :: string
  ob_transaction_hash :: string
  ob_observed_at_epoch_s :: int
  ob_presence :: ChainPresence
  ob_raw_evidence_sha256 :: string
  ob_block_number :: "int option"
  ob_block_hash :: "string option"
  ob_block_parent_hash :: "string option"
  ob_head_block_number :: "int option"
  ob_head_block_hash :: "string option"
  ob_receipt_status :: "ReceiptStatus option"
  ob_effective_input_atomic :: "int option"
  ob_effective_output_atomic :: "int option"
  ob_schema :: string

definition block_checks :: "ChainObservationV0 \<Rightarrow> error + unit" where
  "block_checks v =
     (let e = ChainTruthError in
      if ob_presence v = P_INCLUDED then
        (case (ob_block_number v, ob_block_hash v, ob_block_parent_hash v, ob_receipt_status v) of
           (Some n, Some h, Some p, Some _) \<Rightarrow>
             checks [non_negative_int e n, text_check e TX_HASH_RE h, text_check e TX_HASH_RE p]
         | _ \<Rightarrow> Inl e)
      else require (ob_block_number v = None \<and> ob_block_hash v = None \<and>
             ob_block_parent_hash v = None \<and> ob_receipt_status v = None) e)"

definition head_checks :: "ChainObservationV0 \<Rightarrow> error + unit" where
  "head_checks v =
     (let e = ChainTruthError in
      case (ob_head_block_number v, ob_head_block_hash v) of
        (None, None) \<Rightarrow> Inr ()
      | (Some n, Some h) \<Rightarrow>
          checks [non_negative_int e n, text_check e TX_HASH_RE h,
            require (\<not> (ob_presence v = P_INCLUDED \<and> n < the (ob_block_number v))) e]
      | _ \<Rightarrow> Inl e)"

definition amount_checks :: "ChainObservationV0 \<Rightarrow> error + unit" where
  "amount_checks v =
     (let e = ChainTruthError in
      if ob_presence v = P_INCLUDED \<and> ob_receipt_status v = Some RS_SUCCESS then
        (case (ob_effective_input_atomic v, ob_effective_output_atomic v) of
           (Some i, Some out) \<Rightarrow> checks [atomic_check e True i, atomic_check e True out]
         | _ \<Rightarrow> Inl e)
      else require (ob_effective_input_atomic v = None \<and> ob_effective_output_atomic v = None) e)"

definition make_observation :: "ChainObservationV0 \<Rightarrow> error + ChainObservationV0" where
  "make_observation v = checked
     [portable_check (ob_provider_id v),
      text_check ChainTruthError TX_HASH_RE (ob_transaction_hash v),
      non_negative_int ChainTruthError (ob_observed_at_epoch_s v),
      digest_check ChainTruthError (ob_raw_evidence_sha256 v),
      block_checks v, head_checks v, amount_checks v] v"

definition observation_object :: "ChainObservationV0 \<Rightarrow> (string \<times> json) list" where
  "observation_object v =
     [(''block_hash'', case_option JNull JStr (ob_block_hash v)),
      (''block_number'', case_option JNull JInt (ob_block_number v)),
      (''block_parent_hash'', case_option JNull JStr (ob_block_parent_hash v)),
      (''effective_input_atomic'', case_option JNull (\<lambda>n. JStr (str_int n)) (ob_effective_input_atomic v)),
      (''effective_output_atomic'', case_option JNull (\<lambda>n. JStr (str_int n)) (ob_effective_output_atomic v)),
      (''head_block_hash'', case_option JNull JStr (ob_head_block_hash v)),
      (''head_block_number'', case_option JNull JInt (ob_head_block_number v)),
      (''observed_at_epoch_s'', JInt (ob_observed_at_epoch_s v)),
      (''presence'', JStr (ChainPresence_value (ob_presence v))),
      (''provider_id'', JStr (ob_provider_id v)),
      (''raw_evidence_sha256'', JStr (ob_raw_evidence_sha256 v)),
      (''receipt_status'', case_option JNull (\<lambda>r. JStr (ReceiptStatus_value r)) (ob_receipt_status v)),
      (''schema'', JStr (ob_schema v)),
      (''transaction_hash'', JStr (ob_transaction_hash v))]"

definition observation_id :: "digest_fn \<Rightarrow> ChainObservationV0 \<Rightarrow> string" where
  "observation_id H v = digest_object H (JObj (observation_object v))"

type_synonym facts =
  "int option \<times> string option \<times> string option \<times> ReceiptStatus option \<times> int option \<times> int option"

definition settlement_facts :: "ChainObservationV0 \<Rightarrow> facts" where
  "settlement_facts v =
     (ob_block_number v, ob_block_hash v, ob_block_parent_hash v, ob_receipt_status v,
      ob_effective_input_atomic v, ob_effective_output_atomic v)"

subsection \<open>Finality and the conclusion\<close>

record FinalityPolicyV0 =
  fp_min_confirmation_depth :: int
  fp_min_agreeing_providers :: int
  fp_schema :: string

definition make_finality :: "FinalityPolicyV0 \<Rightarrow> error + FinalityPolicyV0" where
  "make_finality f = checked
     [positive_int ChainTruthError (fp_min_confirmation_depth f),
      positive_int ChainTruthError (fp_min_agreeing_providers f)] f"

definition finality_object :: "FinalityPolicyV0 \<Rightarrow> json" where
  "finality_object f = JObj
     [(''min_agreeing_providers'', JInt (fp_min_agreeing_providers f)),
      (''min_confirmation_depth'', JInt (fp_min_confirmation_depth f)),
      (''schema'', JStr (fp_schema f))]"

definition ROBINHOOD_V0_FINALITY :: FinalityPolicyV0 where
  "ROBINHOOD_V0_FINALITY = \<lparr>fp_min_confirmation_depth = 32, fp_min_agreeing_providers = 2,
     fp_schema = CONTRACT_SCHEMA @ ''.finality_policy''\<rparr>"

datatype ChainTruthVerdict =
    CT_NO_EVIDENCE
  | CT_VISIBLE
  | CT_INCLUDED
  | CT_CONFIRMED
  | CT_REVERTED
  | CT_AMBIGUOUS

record ChainTruthV0 =
  ct_external_action_id :: string
  ct_transaction_hash :: string
  ct_chain_id :: int
  ct_taker_address :: string
  ct_verdict :: ChainTruthVerdict
  ct_agreeing_provider_count :: int
  ct_confirmation_depth :: int
  ct_block_hash :: "string option"
  ct_receipt_status :: "ReceiptStatus option"
  ct_effective_input_atomic :: "int option"
  ct_effective_output_atomic :: "int option"
  ct_evidence_digest :: string

text \<open>
  Python's stable sort on the pair (time, id), then a dict filled in that order: a
  provider keeps its place and takes the later reading.
\<close>

definition in_time_order :: "digest_fn \<Rightarrow> ChainObservationV0 list \<Rightarrow> ChainObservationV0 list" where
  "in_time_order H obs = sort_key ob_observed_at_epoch_s (sort_key (observation_id H) obs)"

definition latest_by_provider ::
  "digest_fn \<Rightarrow> ChainObservationV0 list \<Rightarrow> (string \<times> ChainObservationV0) list" where
  "latest_by_provider H obs =
     foldl (\<lambda>latest v. AList.update (ob_provider_id v) v latest) [] (in_time_order H obs)"

definition truth_evidence_digest ::
  "digest_fn \<Rightarrow> SettlementExpectationV0 \<Rightarrow> ChainObservationV0 list \<Rightarrow> FinalityPolicyV0 \<Rightarrow> string" where
  "truth_evidence_digest H ex obs fin = digest_object H (JObj
     [(''expectation'', JObj
        [(''chain_id'', JInt (se_chain ex)),
         (''economic_action_id'', JStr (se_action ex)),
         (''submission_acknowledged'', JBool (se_acknowledged ex)),
         (''taker_address'', JStr (se_taker ex)),
         (''transaction_hash'', JStr (se_hash ex))]),
      (''finality'', finality_object fin),
      (''observations'', JList (sort_key (digest_object H) (map (\<lambda>v. JObj (observation_object v)) obs))),
      (''schema'', JStr (CONTRACT_SCHEMA @ ''.chain_truth_evidence''))])"

definition verdict_of ::
  "SettlementExpectationV0 \<Rightarrow> string \<Rightarrow> ChainTruthVerdict \<Rightarrow> int \<Rightarrow> int \<Rightarrow> ChainObservationV0 option \<Rightarrow> ChainTruthV0" where
  "verdict_of ex evidence v agreeing depth included =
     \<lparr>ct_external_action_id = se_action ex, ct_transaction_hash = se_hash ex,
      ct_chain_id = se_chain ex, ct_taker_address = se_taker ex, ct_verdict = v,
      ct_agreeing_provider_count = agreeing, ct_confirmation_depth = depth,
      ct_block_hash = Option.bind included ob_block_hash,
      ct_receipt_status = Option.bind included ob_receipt_status,
      ct_effective_input_atomic = Option.bind included ob_effective_input_atomic,
      ct_effective_output_atomic = Option.bind included ob_effective_output_atomic,
      ct_evidence_digest = evidence\<rparr>"

definition is_included :: "ChainObservationV0 \<Rightarrow> bool" where
  "is_included v \<longleftrightarrow> ob_presence v = P_INCLUDED"

text \<open>How far one provider's head is above the inclusion block; the block is there when included.\<close>

definition depth_below :: "ChainObservationV0 \<Rightarrow> ChainObservationV0 \<Rightarrow> error + int" where
  "depth_below exemplar v =
     (case ob_head_block_number v of
        None \<Rightarrow> Inr 0
      | Some head \<Rightarrow>
          (case ob_block_number exemplar of
             None \<Rightarrow> Inl PyTypeError
           | Some b \<Rightarrow> Inr (max (head - b) 0)))"

text \<open>A provider whose current reading retracts an inclusion it reported before.\<close>

definition retracts :: "ChainObservationV0 list \<Rightarrow> string \<times> ChainObservationV0 \<Rightarrow> bool" where
  "retracts records pv \<longleftrightarrow> \<not> is_included (snd pv) \<and>
     list_ex (\<lambda>prior. ob_provider_id prior = fst pv \<and> is_included prior) records"

definition evaluate_chain_truth ::
  "digest_fn \<Rightarrow> SettlementExpectationV0 \<Rightarrow> ChainObservationV0 list \<Rightarrow> FinalityPolicyV0 \<Rightarrow>
   error + ChainTruthV0" where
  "evaluate_chain_truth H ex records fin =
     (if list_ex (\<lambda>v. ob_transaction_hash v \<noteq> se_hash ex) records then Inl ChainTruthError
      else
        let say = verdict_of ex (truth_evidence_digest H ex records fin);
            latest = latest_by_provider H records;
            included_records = filter is_included (map snd latest);
            fact_sets = remdups (map settlement_facts (filter is_included records))
        in if length fact_sets > 1 then Inr (say CT_AMBIGUOUS 0 0 None)
           else if list_ex (retracts records) latest then Inr (say CT_AMBIGUOUS 0 0 None)
           else if included_records \<noteq> [] \<and> list_ex (\<lambda>pv. \<not> is_included (snd pv)) latest
             then Inr (say CT_AMBIGUOUS 0 0 None)
           else (case included_records of
             [] \<Rightarrow>
               if list_ex (\<lambda>v. ob_presence v = P_PENDING) records then Inr (say CT_VISIBLE 0 0 None)
               else if se_acknowledged ex then Inr (say CT_AMBIGUOUS 0 0 None)
               else Inr (say CT_NO_EVIDENCE 0 0 None)
           | exemplar # _ \<Rightarrow>
               let agreeing_providers = sort (remdups (map ob_provider_id included_records));
                   agreeing = int (length agreeing_providers)
               in if agreeing < fp_min_agreeing_providers fin
                  then Inr (say CT_VISIBLE agreeing 0 (Some exemplar))
                  else rbind (traverse (\<lambda>p. depth_below exemplar (the (map_of latest p))) agreeing_providers) (\<lambda>depths.
                    let depth = Min (set depths)
                    in if depth < fp_min_confirmation_depth fin
                       then Inr (say CT_INCLUDED agreeing depth (Some exemplar))
                       else Inr (say (if ob_receipt_status exemplar = Some RS_SUCCESS then CT_CONFIRMED
                                      else CT_REVERTED) agreeing depth (Some exemplar)))))"

subsection \<open>From truth to a receipt\<close>

definition reconcile_to_receipt ::
  "SettlementExpectationV0 \<Rightarrow> ChainTruthV0 \<Rightarrow> EconomicBounds \<Rightarrow> ValidatedEconomicActionV0 \<Rightarrow>
   string \<Rightarrow> int \<Rightarrow> int \<Rightarrow> string \<Rightarrow> error + FillReceiptV0" where
  "reconcile_to_receipt ex truth bounds va receipt_id fee now source =
     rbind (assert_matches va ex) (\<lambda>_.
     if ct_external_action_id truth \<noteq> se_action ex \<or> ct_transaction_hash truth \<noteq> se_hash ex \<or>
        ct_chain_id truth \<noteq> se_chain ex \<or> ct_taker_address truth \<noteq> se_taker ex
     then Inl ChainTruthError
     else if ct_verdict truth \<noteq> CT_CONFIRMED then Inl SafeHaltError
     else (case (ct_effective_input_atomic truth, ct_effective_output_atomic truth) of
        (Some i, Some out) \<Rightarrow>
          rbind (make_receipt
            \<lparr>rc_receipt_id = receipt_id, rc_economic_action_id = se_action ex,
             rc_external_ref = se_hash ex, input_atomic_filled = i, output_atomic_filled = out,
             fee_atomic = fee, observed_at_epoch_s = now, rc_source = source\<rparr>) (\<lambda>receipt.
          rbind (satisfies receipt bounds) (\<lambda>ok.
            if ok then Inr receipt else Inl SafeHaltError))
      | _ \<Rightarrow> Inl PyTypeError))"

fun next_state_for_verdict :: "ChainTruthVerdict \<Rightarrow> intent_state option" where
  "next_state_for_verdict CT_NO_EVIDENCE = None"
| "next_state_for_verdict CT_VISIBLE = None"
| "next_state_for_verdict CT_INCLUDED = Some INCLUDED"
| "next_state_for_verdict CT_CONFIRMED = Some CONFIRMED"
| "next_state_for_verdict CT_REVERTED = Some REJECTED"
| "next_state_for_verdict CT_AMBIGUOUS = Some SAFE_HALT"

definition release_permitted :: "intent_state \<Rightarrow> ChainTruthVerdict option \<Rightarrow> bool" where
  "release_permitted state_before v =
     (if state_before \<in> PRE_COMMITMENT_STATES then True
      else if state_before \<in> EXTERNALLY_AMBIGUOUS_STATES then v = Some CT_REVERTED
      else False)"

definition assert_within_capital_ceiling :: "int \<Rightarrow> int \<Rightarrow> AuthorityPolicyRefV0 \<Rightarrow> error + unit" where
  "assert_within_capital_ceiling requested held authority = checks
     [atomic_check AuthorityCeilingError True requested,
      atomic_check AuthorityCeilingError False held,
      require (requested \<le> ap_max_reservation_atomic authority) AuthorityCeilingError,
      require (held + requested \<le> ap_max_cumulative_atomic authority) AuthorityCeilingError]"

end
