(* ===== verification/ChainEvidence.thy ===== *)
theory ChainEvidence
  imports ChainTruth
begin

subsection \<open>The latest reading of each provider\<close>

lemma set_in_time_order [simp]: "set (in_time_order H obs) = set obs"
  by (simp add: in_time_order_def)

lemma map_of_fill:
  "map_of (foldl (\<lambda>m v. AList.update (k v) v m) [] xs) p =
     (case filter (\<lambda>v. k v = p) xs of [] \<Rightarrow> None | ys \<Rightarrow> Some (last ys))"
proof (induction xs rule: rev_induct)
  case (snoc x xs)
  then show ?case by (auto simp: update_conv' split: list.splits)
qed simp

lemma distinct_fill:
  "distinct (map fst (foldl (\<lambda>m v. AList.update (k v) v m) [] xs))"
  by (induction xs rule: rev_induct) (simp_all add: distinct_update)

definition current_reading :: "digest_fn \<Rightarrow> ChainObservationV0 list \<Rightarrow> string \<Rightarrow> ChainObservationV0" where
  "current_reading H obs p = last (filter (\<lambda>v. ob_provider_id v = p) (in_time_order H obs))"

definition providers :: "ChainObservationV0 list \<Rightarrow> string set" where
  "providers obs = ob_provider_id ` set obs"

lemma map_of_latest:
  "map_of (latest_by_provider H obs) p =
     (if p \<in> providers obs then Some (current_reading H obs p) else None)"
proof -
  have "filter (\<lambda>v. ob_provider_id v = p) (in_time_order H obs) = [] \<longleftrightarrow> p \<notin> providers obs"
    by (auto simp: filter_empty_conv providers_def)
  then show ?thesis
    by (auto simp: latest_by_provider_def map_of_fill current_reading_def split: list.splits)
qed

lemma distinct_latest: "distinct (map fst (latest_by_provider H obs))"
  by (simp add: latest_by_provider_def distinct_fill)

lemma set_latest: "set (latest_by_provider H obs) = (\<lambda>p. (p, current_reading H obs p)) ` providers obs"
proof -
  have "(p, v) \<in> set (latest_by_provider H obs) \<longleftrightarrow> p \<in> providers obs \<and> v = current_reading H obs p" for p v
    using map_of_eq_Some_iff [OF distinct_latest, of H obs p v] by (auto simp: map_of_latest split: if_splits)
  then show ?thesis by auto
qed

lemma current_reading_mem:
  assumes "p \<in> providers obs"
  shows "current_reading H obs p \<in> set obs \<and> ob_provider_id (current_reading H obs p) = p"
proof -
  let ?ys = "filter (\<lambda>v. ob_provider_id v = p) (in_time_order H obs)"
  have "?ys \<noteq> []" using assms by (auto simp: filter_empty_conv providers_def)
  then have "last ?ys \<in> set ?ys" by (rule last_in_set)
  then show ?thesis by (simp add: current_reading_def)
qed

text \<open>A reading is newest when its provider has none later, ties broken by the identity.\<close>

definition newest :: "digest_fn \<Rightarrow> ChainObservationV0 list \<Rightarrow> ChainObservationV0 \<Rightarrow> bool" where
  "newest H obs v \<longleftrightarrow> v \<in> set obs \<and>
     list_all (\<lambda>w. ob_provider_id w = ob_provider_id v \<longrightarrow>
       ob_observed_at_epoch_s w < ob_observed_at_epoch_s v \<or>
       ob_observed_at_epoch_s w = ob_observed_at_epoch_s v \<and> observation_id H w \<le> observation_id H v) obs"

text \<open>A stable sort refines the order its input already has.\<close>

lemma insort_key_stable:
  fixes f :: "'a \<Rightarrow> 'k::linorder"
  assumes "sorted_wrt (\<lambda>y z. f y < f z \<or> f y = f z \<and> R y z) ys" and "list_all (R x) ys"
  shows "sorted_wrt (\<lambda>y z. f y < f z \<or> f y = f z \<and> R y z) (insort_key f x ys)"
  using assms
proof (induction ys)
  case (Cons y ys)
  show ?case
  proof (cases "f x \<le> f y")
    case True
    with Cons.prems have "f x < f z \<or> f x = f z \<and> R x z" if "z \<in> set (y # ys)" for z
      using that by (force simp: list_all_iff)
    with True Cons.prems show ?thesis by simp
  next
    case False
    with Cons show ?thesis by (auto simp: set_insort_key)
  qed
qed simp

lemma sort_key_stable_wrt:
  fixes f :: "'a \<Rightarrow> 'k::linorder"
  assumes "sorted_wrt R xs"
  shows "sorted_wrt (\<lambda>y z. f y < f z \<or> f y = f z \<and> R y z) (sort_key f xs)"
  using assms
proof (induction xs)
  case (Cons x xs)
  then show ?case by (simp add: insort_key_stable list_all_iff)
qed simp

lemma in_time_order_sorted:
  "sorted_wrt (\<lambda>v w. ob_observed_at_epoch_s v < ob_observed_at_epoch_s w \<or>
     ob_observed_at_epoch_s v = ob_observed_at_epoch_s w \<and> observation_id H v \<le> observation_id H w)
     (in_time_order H obs)"
  unfolding in_time_order_def
  by (rule sort_key_stable_wrt) (use sorted_sort_key [of "observation_id H" obs] in \<open>simp add: sorted_map\<close>)

lemma sorted_wrt_last: "sorted_wrt R xs \<Longrightarrow> w \<in> set xs \<Longrightarrow> w = last xs \<or> R w (last xs)"
  by (induction xs rule: rev_induct) (auto simp: sorted_wrt_append)

lemma current_reading_newest:
  assumes "p \<in> providers obs"
  shows "newest H obs (current_reading H obs p)"
proof -
  let ?v = "current_reading H obs p"
  have v: "?v \<in> set obs" "ob_provider_id ?v = p" using current_reading_mem [OF assms] by auto
  have "ob_observed_at_epoch_s w < ob_observed_at_epoch_s ?v \<or>
      ob_observed_at_epoch_s w = ob_observed_at_epoch_s ?v \<and> observation_id H w \<le> observation_id H ?v"
    if "w \<in> set obs" "ob_provider_id w = p" for w
  proof -
    have "w \<in> set (filter (\<lambda>v. ob_provider_id v = p) (in_time_order H obs))" using that by simp
    from sorted_wrt_last [OF sorted_wrt_filter [OF in_time_order_sorted] this]
    show ?thesis unfolding current_reading_def by auto
  qed
  with v show ?thesis by (auto simp: newest_def list_all_iff)
qed

lemma newest_unique:
  assumes "inj_on (observation_id H) (set obs)" "newest H obs v"
  shows "v = current_reading H obs (ob_provider_id v)"
proof -
  let ?w = "current_reading H obs (ob_provider_id v)"
  have v: "v \<in> set obs" using assms by (simp add: newest_def)
  then have p: "ob_provider_id v \<in> providers obs" by (simp add: providers_def)
  note w = current_reading_mem [OF p, of H] current_reading_newest [OF p, of H]
  then have "observation_id H v = observation_id H ?w"
    using v assms(2) unfolding newest_def list_all_iff by (metis less_asym order.antisym less_irrefl)
  then show ?thesis using assms(1) v w(1) by (simp add: inj_onD)
qed

subsection \<open>What a final verdict takes\<close>

fun final_verdict :: "ReceiptStatus \<Rightarrow> ChainTruthVerdict" where
  "final_verdict RS_SUCCESS = CT_CONFIRMED"
| "final_verdict RS_REVERTED = CT_REVERTED"

definition facts_status :: "facts \<Rightarrow> ReceiptStatus option" where
  "facts_status F = (case F of (_, _, _, r, _, _) \<Rightarrow> r)"

definition final_reading :: "FinalityPolicyV0 \<Rightarrow> facts \<Rightarrow> ChainObservationV0 \<Rightarrow> bool" where
  "final_reading fin F v \<longleftrightarrow> is_included v \<and> settlement_facts v = F \<and>
     (case (ob_head_block_number v, fst F) of
        (Some head, Some b) \<Rightarrow> fp_min_confirmation_depth fin \<le> head - b | _ \<Rightarrow> False)"

definition final_evidence ::
  "digest_fn \<Rightarrow> SettlementExpectationV0 \<Rightarrow> ChainObservationV0 list \<Rightarrow> FinalityPolicyV0 \<Rightarrow>
   ReceiptStatus \<Rightarrow> facts \<Rightarrow> bool" where
  "final_evidence H ex obs fin st F \<longleftrightarrow> facts_status F = Some st \<and>
     list_all (\<lambda>v. ob_transaction_hash v = se_hash ex) obs \<and>
     list_all (\<lambda>v. is_included v \<longrightarrow> settlement_facts v = F) obs \<and>
     list_all (\<lambda>v. newest H obs v \<longrightarrow> final_reading fin F v) obs \<and>
     fp_min_agreeing_providers fin \<le> int (card (providers obs))"

text \<open>The conditions of the last branch, as the code evaluates them.\<close>

definition agreeing_of :: "digest_fn \<Rightarrow> ChainObservationV0 list \<Rightarrow> string list" where
  "agreeing_of H obs = sort (remdups (map ob_provider_id (filter is_included (map snd (latest_by_provider H obs)))))"

lemma truth_branches:
  "evaluate_chain_truth H ex obs fin = Inr t \<and> ct_verdict t = final_verdict st \<longleftrightarrow>
   (let latest = latest_by_provider H obs; included = filter is_included (map snd latest);
        agreeing = agreeing_of H obs in
    list_all (\<lambda>v. ob_transaction_hash v = se_hash ex) obs \<and>
    length (remdups (map settlement_facts (filter is_included obs))) \<le> 1 \<and>
    \<not> list_ex (retracts obs) latest \<and> included \<noteq> [] \<and> list_all (\<lambda>pv. is_included (snd pv)) latest \<and>
    fp_min_agreeing_providers fin \<le> int (length agreeing) \<and>
    (\<exists>depths. traverse (\<lambda>p. depth_below (hd included) (the (map_of latest p))) agreeing = Inr depths \<and>
       fp_min_confirmation_depth fin \<le> Min (set depths) \<and>
       (ob_receipt_status (hd included) = Some RS_SUCCESS \<longleftrightarrow> st = RS_SUCCESS) \<and>
       t = verdict_of ex (truth_evidence_digest H ex obs fin) (final_verdict st) (int (length agreeing))
             (Min (set depths)) (Some (hd included))))"
  (is "?l \<longleftrightarrow> ?r")
proof -
  let ?L = "latest_by_provider H obs"
  show ?thesis
  proof (cases "filter is_included (map snd ?L)")
    case Nil
    then show ?thesis
      by (cases st) (auto simp: evaluate_chain_truth_def Let_def verdict_of_def split: if_splits)
  next
    case (Cons x xs)
    have neg: "list_all (\<lambda>v. ob_transaction_hash v = se_hash ex) obs \<longleftrightarrow>
        \<not> list_ex (\<lambda>v. ob_transaction_hash v \<noteq> se_hash ex) obs"
      "list_all (\<lambda>pv. is_included (snd pv)) ?L \<longleftrightarrow> \<not> list_ex (\<lambda>pv. \<not> is_included (snd pv)) ?L"
      by (auto simp: list_all_iff list_ex_iff)
    have ag: "sort (remdups (map ob_provider_id (x # xs))) = agreeing_of H obs"
      by (simp add: agreeing_of_def Cons)
    show ?thesis
      unfolding evaluate_chain_truth_def Let_def Cons list.case ag neg
      by (cases st; cases "ob_receipt_status x = Some RS_SUCCESS")
        (auto simp: verdict_of_def rbind_eq_Inr not_less split: if_splits)
  qed
qed

lemma included_valid:
  assumes "make_observation v = Inr v" "is_included v"
  shows "\<exists>b r. ob_block_number v = Some b \<and> ob_receipt_status v = Some r"
  using assms
  by (auto simp: make_observation_def checked_eq_Inr block_checks_def is_included_def Let_def split: option.splits)

lemma depth_below_final:
  assumes "0 < m" "ob_block_number x = Some b"
  shows "(\<exists>d. depth_below x v = Inr d \<and> m \<le> d) \<longleftrightarrow>
    (case ob_head_block_number v of None \<Rightarrow> False | Some head \<Rightarrow> m \<le> head - b)"
  using assms by (auto simp: depth_below_def split: option.splits)

lemma length_remdups_le_1: "length (remdups xs) \<le> 1 \<longleftrightarrow> (\<forall>x \<in> set xs. \<forall>y \<in> set xs. x = y)"
proof -
  have "length (remdups xs) \<le> 1 \<longleftrightarrow> card (set xs) \<le> 1" by (simp add: length_remdups_card_conv)
  also have "\<dots> \<longleftrightarrow> (\<forall>x \<in> set xs. \<forall>y \<in> set xs. x = y)" by (simp add: card_le_Suc0_iff_eq)
  finally show ?thesis .
qed

lemma at_most_one_value:
  assumes "x \<in> set xs" "P x"
  shows "length (remdups (map f (filter P xs))) \<le> 1 \<longleftrightarrow> list_all (\<lambda>v. P v \<longrightarrow> f v = f x) xs"
proof -
  have "length (remdups (map f (filter P xs))) \<le> 1 \<longleftrightarrow>
      (\<forall>v. v \<in> set xs \<and> P v \<longrightarrow> (\<forall>w. w \<in> set xs \<and> P w \<longrightarrow> f v = f w))"
    unfolding length_remdups_le_1 by auto
  also have "\<dots> \<longleftrightarrow> (\<forall>v. v \<in> set xs \<longrightarrow> P v \<longrightarrow> f v = f x)"
    using assms by metis
  finally show ?thesis unfolding list_all_iff by blast
qed

lemma traverse_least:
  assumes "xs \<noteq> []"
  shows "(\<exists>ds. traverse f xs = Inr ds \<and> (m :: int) \<le> Min (set ds)) \<longleftrightarrow>
    list_all (\<lambda>x. \<exists>d. f x = Inr d \<and> m \<le> d) xs"
proof
  assume "\<exists>ds. traverse f xs = Inr ds \<and> m \<le> Min (set ds)"
  then obtain ds where ds: "list_all2 (\<lambda>x d. f x = Inr d) xs ds" "m \<le> Min (set ds)"
    by (auto simp: traverse_eq_Inr)
  then have "ds \<noteq> []" using assms by auto
  then have "m \<le> d" if "d \<in> set ds" for d using ds(2) that by simp
  with ds(1) show "list_all (\<lambda>x. \<exists>d. f x = Inr d \<and> m \<le> d) xs"
    by (auto simp: list_all_length list_all2_conv_all_nth)
next
  assume r: "list_all (\<lambda>x. \<exists>d. f x = Inr d \<and> m \<le> d) xs"
  then obtain g where g: "\<And>x. x \<in> set xs \<Longrightarrow> f x = Inr (g x) \<and> m \<le> g x"
    unfolding list_all_iff by metis
  then have "traverse f xs = Inr (map g xs)"
    by (auto simp: traverse_eq_Inr list_all2_map2 list_all2_same)
  moreover have "m \<le> Min (set (map g xs))" using g assms by simp
  ultimately show "\<exists>ds. traverse f xs = Inr ds \<and> m \<le> Min (set ds)" by blast
qed

text \<open>When every current reading is an inclusion, the lists of the code are those of the providers.\<close>

lemma all_included:
  assumes "list_all (\<lambda>pv. is_included (snd pv)) (latest_by_provider H obs)"
  shows "filter is_included (map snd (latest_by_provider H obs)) = map snd (latest_by_provider H obs)"
    and "set (agreeing_of H obs) = providers obs"
    and "length (agreeing_of H obs) = card (providers obs)"
proof -
  let ?L = "latest_by_provider H obs"
  show inc: "filter is_included (map snd ?L) = map snd ?L"
    using assms by (auto simp: list_all_iff)
  have "set (map ob_provider_id (map snd ?L)) = providers obs"
    using current_reading_mem [of _ obs H] by (auto simp: set_latest image_image)
  with inc show "set (agreeing_of H obs) = providers obs"
    by (simp add: agreeing_of_def)
  moreover have "distinct (agreeing_of H obs)" by (simp add: agreeing_of_def)
  ultimately show "length (agreeing_of H obs) = card (providers obs)"
    by (metis distinct_card)
qed

lemma newest_iff_current:
  assumes "inj_on (observation_id H) (set obs)"
  shows "newest H obs v \<longleftrightarrow> (\<exists>p \<in> providers obs. v = current_reading H obs p)"
  using newest_unique [OF assms] current_reading_newest
  by (metis image_eqI newest_def providers_def)

lemma final_verdict_evidence:
  assumes "list_all (\<lambda>v. make_observation v = Inr v) obs" "make_finality fin = Inr fin"
    and "inj_on (observation_id H) (set obs)"
  shows "(\<exists>t. evaluate_chain_truth H ex obs fin = Inr t \<and> ct_verdict t = final_verdict st) \<longleftrightarrow>
    (\<exists>F. final_evidence H ex obs fin st F)"
proof -
  let ?L = "latest_by_provider H obs" and ?P = "providers obs" and ?cur = "current_reading H obs"
  let ?inc = "filter is_included (map snd ?L)"
  have m: "0 < fp_min_confirmation_depth fin" "0 < fp_min_agreeing_providers fin"
    using assms(2) by (simp_all add: make_finality_def checked_eq_Inr check_eq_Inr)
  note valid = included_valid [OF assms(1) [unfolded list_all_iff, rule_format]]
  have all_iff: "list_all (\<lambda>pv. is_included (snd pv)) ?L \<longleftrightarrow> (\<forall>p \<in> ?P. is_included (?cur p))"
    by (simp add: list_all_iff set_latest)
  have new: "list_all (\<lambda>v. newest H obs v \<longrightarrow> Q v) obs \<longleftrightarrow> (\<forall>p \<in> ?P. Q (?cur p))" for Q
  proof -
    have "?cur p \<in> set obs" if "p \<in> ?P" for p using current_reading_mem [OF that] by simp
    then show ?thesis unfolding list_all_iff newest_iff_current [OF assms(3)] by blast
  qed
  show ?thesis
  proof (cases "(\<forall>p \<in> ?P. is_included (?cur p)) \<and> ?P \<noteq> {}")
    case True
    then have inc: "list_all (\<lambda>pv. is_included (snd pv)) ?L" by (simp add: all_iff)
    note code = all_included [OF inc]
    have ne: "?inc \<noteq> []" using True code(1) set_latest [of H obs] by auto
    define x where "x = hd ?inc"
    have "x \<in> set ?inc" unfolding x_def by (rule hd_in_set [OF ne])
    then obtain p where p: "p \<in> ?P" "x = ?cur p" by (auto simp: set_latest)
    then have x: "x \<in> set obs" "is_included x" using True current_reading_mem [of p obs H] by auto
    obtain b r where br: "ob_block_number x = Some b" "ob_receipt_status x = Some r"
      using valid [OF x] by blast
    have noretract: "\<not> list_ex (retracts obs) ?L"
      using inc by (auto simp: list_ex_iff list_all_iff retracts_def)
    have depth: "(\<exists>ds. traverse (\<lambda>p. depth_below x (the (map_of ?L p))) (agreeing_of H obs) = Inr ds \<and>
        fp_min_confirmation_depth fin \<le> Min (set ds)) \<longleftrightarrow>
      (\<forall>p \<in> ?P. case ob_head_block_number (?cur p) of None \<Rightarrow> False
                 | Some head \<Rightarrow> fp_min_confirmation_depth fin \<le> head - b)"
    proof -
      have "agreeing_of H obs \<noteq> []" using code(2) True by auto
      from traverse_least [OF this] have
        "(\<exists>ds. traverse (\<lambda>p. depth_below x (the (map_of ?L p))) (agreeing_of H obs) = Inr ds \<and>
           fp_min_confirmation_depth fin \<le> Min (set ds)) \<longleftrightarrow>
         (\<forall>p \<in> ?P. \<exists>d. depth_below x (the (map_of ?L p)) = Inr d \<and> fp_min_confirmation_depth fin \<le> d)"
        unfolding list_all_iff code(2) .
      also have "\<dots> \<longleftrightarrow> (\<forall>p \<in> ?P. \<exists>d. depth_below x (?cur p) = Inr d \<and> fp_min_confirmation_depth fin \<le> d)"
        by (intro ball_cong) (simp_all add: map_of_latest)
      finally show ?thesis unfolding depth_below_final [OF m(1) br(1)] .
    qed
    have st: "(ob_receipt_status x = Some RS_SUCCESS \<longleftrightarrow> st = RS_SUCCESS) \<longleftrightarrow>
        facts_status (settlement_facts x) = Some st"
      using br by (cases st; cases r) (simp_all add: facts_status_def settlement_facts_def)
    have "(\<exists>t. evaluate_chain_truth H ex obs fin = Inr t \<and> ct_verdict t = final_verdict st) \<longleftrightarrow>
        list_all (\<lambda>v. ob_transaction_hash v = se_hash ex) obs \<and>
        list_all (\<lambda>v. is_included v \<longrightarrow> settlement_facts v = settlement_facts x) obs \<and>
        fp_min_agreeing_providers fin \<le> int (card ?P) \<and>
        (\<forall>p \<in> ?P. case ob_head_block_number (?cur p) of None \<Rightarrow> False
                 | Some head \<Rightarrow> fp_min_confirmation_depth fin \<le> head - b) \<and>
        facts_status (settlement_facts x) = Some st"
      unfolding truth_branches Let_def at_most_one_value [where f = settlement_facts and P = is_included, OF x] code(3) x_def [symmetric]
      using noretract ne inc depth st by blast
    also have "\<dots> \<longleftrightarrow> final_evidence H ex obs fin st (settlement_facts x)"
    proof -
      have "final_reading fin (settlement_facts x) (?cur p) \<longleftrightarrow>
          (case ob_head_block_number (?cur p) of None \<Rightarrow> False
           | Some head \<Rightarrow> fp_min_confirmation_depth fin \<le> head - b)"
        if "p \<in> ?P" "list_all (\<lambda>v. is_included v \<longrightarrow> settlement_facts v = settlement_facts x) obs" for p
      proof -
        have "is_included (?cur p)" "settlement_facts (?cur p) = settlement_facts x"
          using that True current_reading_mem [OF that(1), of H] unfolding list_all_iff by blast+
        moreover have "fst (settlement_facts x) = Some b" using br(1) by (simp add: settlement_facts_def)
        ultimately show ?thesis
          unfolding final_reading_def by (simp split: option.splits)
      qed
      then show ?thesis unfolding final_evidence_def new by blast
    qed
    also have "\<dots> \<longleftrightarrow> (\<exists>F. final_evidence H ex obs fin st F)"
    proof -
      have "settlement_facts x = F" if "final_evidence H ex obs fin st F" for F
        using that x unfolding final_evidence_def list_all_iff by blast
      then show ?thesis by blast
    qed
    finally show ?thesis .
  next
    case False
    have "\<not> (\<exists>t. evaluate_chain_truth H ex obs fin = Inr t \<and> ct_verdict t = final_verdict st)"
    proof
      assume "\<exists>t. evaluate_chain_truth H ex obs fin = Inr t \<and> ct_verdict t = final_verdict st"
      then have i: "?inc \<noteq> []" "list_all (\<lambda>pv. is_included (snd pv)) ?L"
        unfolding truth_branches Let_def by blast+
      have "set ?L \<noteq> {}" using i(1) by auto
      then have "?P \<noteq> {}" unfolding set_latest by blast
      with False i(2) show False unfolding all_iff by blast
    qed
    moreover have "\<not> final_evidence H ex obs fin st F" for F
    proof
      assume f: "final_evidence H ex obs fin st F"
      then have "?P \<noteq> {}" using m(2) by (auto simp: final_evidence_def)
      moreover have "\<forall>p \<in> ?P. is_included (?cur p)"
        using f unfolding final_evidence_def new by (simp add: final_reading_def)
      ultimately show False using False by blast
    qed
    ultimately show ?thesis by blast
  qed
qed

text \<open>
  \<^bold>\<open>C22.\<close> A final verdict is exactly final evidence: the evaluation yields
  \<open>CONFIRMED\<close> (or \<open>REVERTED\<close>) if and only if the readings are all of the expected
  transaction, every inclusion ever reported states the same block, receipt status and
  amounts, every provider's newest reading is such an inclusion with its head at least the
  required depth above the block, and at least the required number of providers report.
\<close>

theorem final_verdict_iff_evidence:
  assumes "list_all (\<lambda>v. make_observation v = Inr v) obs" "make_finality fin = Inr fin"
    and "inj_on (observation_id H) (set obs)"
  shows "(\<exists>t. evaluate_chain_truth H ex obs fin = Inr t \<and> ct_verdict t = final_verdict st) \<longleftrightarrow>
    (\<exists>F. final_evidence H ex obs fin st F)"
  by (rule final_verdict_evidence [OF assms])

text \<open>Two independent nodes that report the same inclusion, one of them twice.\<close>

definition sample_tx :: string where
  "sample_tx = ''0x'' @ replicate 64 (CHR ''a'')"

definition sample_reading :: "string \<Rightarrow> int \<Rightarrow> int \<Rightarrow> ChainObservationV0" where
  "sample_reading p now head =
     \<lparr>ob_provider_id = p, ob_transaction_hash = sample_tx, ob_observed_at_epoch_s = now,
      ob_presence = P_INCLUDED, ob_raw_evidence_sha256 = replicate 64 (CHR ''c''),
      ob_block_number = Some 100, ob_block_hash = Some (''0x'' @ replicate 64 (CHR ''d'')),
      ob_block_parent_hash = Some (''0x'' @ replicate 64 (CHR ''e'')),
      ob_head_block_number = Some head, ob_head_block_hash = Some (''0x'' @ replicate 64 (CHR ''f'')),
      ob_receipt_status = Some RS_SUCCESS, ob_effective_input_atomic = Some 1000,
      ob_effective_output_atomic = Some 900, ob_schema = []\<rparr>"

definition sample_readings :: "ChainObservationV0 list" where
  "sample_readings = [sample_reading ''node-b'' 7 132, sample_reading ''node-a'' 5 110,
     sample_reading ''node-a'' 9 140]"

definition sample_facts :: facts where
  "sample_facts = settlement_facts (sample_reading [] 0 0)"

definition sample_expectation :: SettlementExpectationV0 where
  "sample_expectation = \<lparr>se_action = replicate 64 (CHR ''1''), se_hash = sample_tx, se_chain = 57073,
     se_taker = ''0x'' @ replicate 40 (CHR ''2''), se_acknowledged = True\<rparr>"

lemma sample_portable: "PORTABLE_RE ''node-a''" "PORTABLE_RE ''node-b''"
  by code_simp+

lemma sample_chars: "is_lower_hex (CHR ''a'')" "is_lower_hex (CHR ''c'')" "is_lower_hex (CHR ''d'')"
  "is_lower_hex (CHR ''e'')" "is_lower_hex (CHR ''f'')" "is_lower_hex (CHR ''1'')" "is_lower_hex (CHR ''2'')"
  by (simp_all add: is_lower_hex_def is_digit_def)

lemma sample_reading_ok:
  assumes "PORTABLE_RE p" "length p \<le> 64" "0 \<le> now" "100 \<le> head"
  shows "make_observation (sample_reading p now head) = Inr (sample_reading p now head)"
proof -
  have tx: "TX_HASH_RE (''0x'' @ replicate 64 c)" if "is_lower_hex c" for c
    unfolding TX_HASH_RE_def using that by (rule hex_text_sample)
  show ?thesis
    using assms unfolding make_observation_def
    by (simp add: checked_eq_Inr check_eq_Inr sample_reading_def sample_tx_def tx sample_chars block_checks_def
        head_checks_def amount_checks_def Let_def MAX_UINT256_def rbind_eq_Inr del: append_Cons append.simps)
qed

lemma sample_readings_ok:
  "list_all (\<lambda>v. make_observation v = Inr v) sample_readings"
  "make_finality ROBINHOOD_V0_FINALITY = Inr ROBINHOOD_V0_FINALITY"
  by (simp_all add: sample_readings_def sample_reading_ok sample_portable make_finality_def checked_eq_Inr
      check_eq_Inr ROBINHOOD_V0_FINALITY_def)

text \<open>The canonical object of an observation determines it.\<close>

lemma scalar_case_option: "scalar (case v of None \<Rightarrow> JNull | Some x \<Rightarrow> f x) \<longleftrightarrow> (\<forall>x. v = Some x \<longrightarrow> scalar (f x))"
  by (cases v) simp_all

lemma flat_observation [simp]: "flat (observation_object v)"
  by (simp add: flat_def observation_object_def scalar_case_option less_char_def)

lemma case_option_JNull_inj:
  "(\<And>x. f x \<noteq> JNull) \<Longrightarrow> (\<And>x y. f x = f y \<longleftrightarrow> x = y) \<Longrightarrow>
   (case v of None \<Rightarrow> JNull | Some x \<Rightarrow> f x) = (case w of None \<Rightarrow> JNull | Some x \<Rightarrow> f x) \<longleftrightarrow> v = w"
  by (cases v; cases w) (auto simp: eq_commute)

lemma ReceiptStatus_value_inj [simp]: "ReceiptStatus_value a = ReceiptStatus_value b \<longleftrightarrow> a = b"
  by (cases a; cases b) simp_all

lemma ChainPresence_value_inj [simp]: "ChainPresence_value a = ChainPresence_value b \<longleftrightarrow> a = b"
  by (cases a; cases b) simp_all

lemma observation_object_inj: "observation_object v = observation_object w \<Longrightarrow> v = w"
  by (simp add: observation_object_def case_option_JNull_inj)

lemma observation_id_inj:
  assumes "inj_on H ((\<lambda>v. canonical_json_str (JObj (observation_object v))) ` set obs)"
  shows "inj_on (observation_id H) (set obs)"
proof (rule inj_onI)
  fix v w
  assume v: "v \<in> set obs" "w \<in> set obs" and eq: "observation_id H v = observation_id H w"
  have "canonical_json_str (JObj (observation_object v)) = canonical_json_str (JObj (observation_object w))"
    by (rule inj_onD [OF assms eq [unfolded observation_id_def digest_object_def]])
      (use v in \<open>auto simp del: canonical_json_str.simps\<close>)
  then show "v = w" by (intro observation_object_inj flat_text_inj) simp_all
qed

lemma sample_readings_distinct: "inj_on (observation_id (\<lambda>s. s)) (set sample_readings)"
  by (rule observation_id_inj) simp

lemma sample_time_order:
  "in_time_order H sample_readings = [sample_reading ''node-a'' 5 110, sample_reading ''node-b'' 7 132,
     sample_reading ''node-a'' 9 140]"
  unfolding in_time_order_def
  by (rule sort_key_inj_key_eq) (auto simp: sample_readings_def sample_reading_def)

lemma sample_reading_fields:
  "ob_provider_id (sample_reading p now head) = p" "ob_transaction_hash (sample_reading p now head) = sample_tx"
  "is_included (sample_reading p now head)" "ob_head_block_number (sample_reading p now head) = Some head"
  "ob_block_number (sample_reading p now head) = Some 100"
  "ob_receipt_status (sample_reading p now head) = Some RS_SUCCESS"
  "settlement_facts (sample_reading p now head) = sample_facts"
  by (simp_all add: sample_reading_def is_included_def settlement_facts_def sample_facts_def)

lemma sample_latest:
  "latest_by_provider H sample_readings =
     [(''node-a'', sample_reading ''node-a'' 9 140), (''node-b'', sample_reading ''node-b'' 7 132)]"
  by (simp add: latest_by_provider_def sample_time_order sample_reading_fields(1))

lemma sample_agreeing: "agreeing_of H sample_readings = [''node-a'', ''node-b'']"
  by (simp add: agreeing_of_def sample_latest sample_reading_fields(1,3))

lemma sample_truth:
  "\<exists>t. evaluate_chain_truth H sample_expectation sample_readings ROBINHOOD_V0_FINALITY = Inr t \<and>
     ct_verdict t = final_verdict RS_SUCCESS"
  unfolding truth_branches sample_agreeing sample_latest Let_def
  by (simp add: sample_readings_def sample_reading_fields sample_expectation_def retracts_def
     depth_below_def ROBINHOOD_V0_FINALITY_def)
theorem final_verdict_iff_evidence_witness:
  "\<exists>F. final_evidence (\<lambda>s. s) sample_expectation sample_readings ROBINHOOD_V0_FINALITY RS_SUCCESS F"
  using final_verdict_iff_evidence [OF sample_readings_ok sample_readings_distinct] sample_truth by blast

subsection \<open>The order of the evidence does not matter\<close>

lemma sort_key_mset:
  assumes "mset xs = mset ys" "inj_on f (set xs)"
  shows "sort_key f xs = sort_key f ys"
  using assms by (intro sort_key_inj_key_eq) simp_all

lemma in_time_order_mset:
  assumes "mset obs = mset obs'" "inj_on (observation_id H) (set obs)"
  shows "in_time_order H obs = in_time_order H obs'"
  unfolding in_time_order_def using sort_key_mset [OF assms] by simp

lemma truth_evidence_mset:
  assumes "mset obs = mset obs'" "inj_on (observation_id H) (set obs)"
  shows "truth_evidence_digest H ex obs fin = truth_evidence_digest H ex obs' fin"
proof -
  let ?o = "\<lambda>v. JObj (observation_object v)"
  have "inj_on (digest_object H) (set (map ?o obs))"
  proof (rule inj_onI)
    fix j k assume "j \<in> set (map ?o obs)" "k \<in> set (map ?o obs)" "digest_object H j = digest_object H k"
    then obtain v w where "v \<in> set obs" "w \<in> set obs" "j = ?o v" "k = ?o w"
        "observation_id H v = observation_id H w"
      by (auto simp: observation_id_def)
    then show "j = k" using inj_onD [OF assms(2)] by blast
  qed
  moreover have "mset (map ?o obs) = mset (map ?o obs')" by (simp add: assms(1))
  ultimately have "sort_key (digest_object H) (map ?o obs) = sort_key (digest_object H) (map ?o obs')"
    by (intro sort_key_mset)
  then show ?thesis by (simp add: truth_evidence_digest_def del: canonical_json_str.simps)
qed

text \<open>
  \<^bold>\<open>C36.\<close> The conclusion is a function of the evidence and not of the order it
  arrived in: two lists with the same readings, counted with multiplicity, give the same
  result, evidence digest included, as long as the digest separates the readings.
\<close>

theorem truth_order_independent:
  assumes "mset obs = mset obs'" "inj_on (observation_id H) (set obs)"
  shows "evaluate_chain_truth H ex obs fin = evaluate_chain_truth H ex obs' fin"
proof -
  have set_eq: "set obs = set obs'" using assms(1) by (rule mset_eq_setD)
  have latest: "latest_by_provider H obs = latest_by_provider H obs'"
    unfolding latest_by_provider_def in_time_order_mset [OF assms] ..
  have ex: "list_ex P obs = list_ex P obs'" for P by (simp add: list_ex_iff set_eq)
  have retr: "retracts obs = retracts obs'"
    by (rule ext) (simp add: retracts_def ex)
  have facts: "length (remdups (map settlement_facts (filter is_included obs))) =
      length (remdups (map settlement_facts (filter is_included obs')))"
    by (simp add: length_remdups_card_conv set_eq)
  show ?thesis
    unfolding evaluate_chain_truth_def Let_def latest retr ex facts truth_evidence_mset [OF assms] ..
qed

theorem truth_order_independent_witness:
  "evaluate_chain_truth (\<lambda>s. s) sample_expectation sample_readings ROBINHOOD_V0_FINALITY =
   evaluate_chain_truth (\<lambda>s. s) sample_expectation (rev sample_readings) ROBINHOOD_V0_FINALITY"
  by (rule truth_order_independent [OF _ sample_readings_distinct]) simp

subsection \<open>From evidence to receipt\<close>

lemma satisfies_bounded:
  "satisfies r b = Inr True \<Longrightarrow> input_atomic_filled r \<le> max_input_atomic b"
  by (auto simp: satisfies_def split: if_splits)

lemma reconcile_eq_Inr:
  "reconcile_to_receipt ex t b va rid fee now src = Inr r \<longleftrightarrow>
   assert_matches va ex = Inr () \<and> ct_external_action_id t = se_action ex \<and>
   ct_transaction_hash t = se_hash ex \<and> ct_chain_id t = se_chain ex \<and> ct_taker_address t = se_taker ex \<and>
   ct_verdict t = CT_CONFIRMED \<and> make_receipt r = Inr r \<and> satisfies r b = Inr True \<and>
   ct_effective_input_atomic t = Some (input_atomic_filled r) \<and>
   ct_effective_output_atomic t = Some (output_atomic_filled r) \<and>
   rc_receipt_id r = rid \<and> rc_economic_action_id r = se_action ex \<and> rc_external_ref r = se_hash ex \<and>
   fee_atomic r = fee \<and> observed_at_epoch_s r = now \<and> rc_source r = src"
proof
  assume "reconcile_to_receipt ex t b va rid fee now src = Inr r"
  then show "assert_matches va ex = Inr () \<and> ct_external_action_id t = se_action ex \<and>
   ct_transaction_hash t = se_hash ex \<and> ct_chain_id t = se_chain ex \<and> ct_taker_address t = se_taker ex \<and>
   ct_verdict t = CT_CONFIRMED \<and> make_receipt r = Inr r \<and> satisfies r b = Inr True \<and>
   ct_effective_input_atomic t = Some (input_atomic_filled r) \<and>
   ct_effective_output_atomic t = Some (output_atomic_filled r) \<and>
   rc_receipt_id r = rid \<and> rc_economic_action_id r = se_action ex \<and> rc_external_ref r = se_hash ex \<and>
   fee_atomic r = fee \<and> observed_at_epoch_s r = now \<and> rc_source r = src"
    by (auto simp: reconcile_to_receipt_def rbind_eq_Inr make_receipt_eq_Inr split: if_splits option.splits)
next
  assume a: "assert_matches va ex = Inr () \<and> ct_external_action_id t = se_action ex \<and>
   ct_transaction_hash t = se_hash ex \<and> ct_chain_id t = se_chain ex \<and> ct_taker_address t = se_taker ex \<and>
   ct_verdict t = CT_CONFIRMED \<and> make_receipt r = Inr r \<and> satisfies r b = Inr True \<and>
   ct_effective_input_atomic t = Some (input_atomic_filled r) \<and>
   ct_effective_output_atomic t = Some (output_atomic_filled r) \<and>
   rc_receipt_id r = rid \<and> rc_economic_action_id r = se_action ex \<and> rc_external_ref r = se_hash ex \<and>
   fee_atomic r = fee \<and> observed_at_epoch_s r = now \<and> rc_source r = src"
  then have "\<lparr>rc_receipt_id = rid, rc_economic_action_id = se_action ex, rc_external_ref = se_hash ex,
      input_atomic_filled = input_atomic_filled r, output_atomic_filled = output_atomic_filled r,
      fee_atomic = fee, observed_at_epoch_s = now, rc_source = src\<rparr> = r"
    by simp
  then have "make_receipt \<lparr>rc_receipt_id = rid, rc_economic_action_id = se_action ex,
      rc_external_ref = se_hash ex, input_atomic_filled = input_atomic_filled r,
      output_atomic_filled = output_atomic_filled r, fee_atomic = fee, observed_at_epoch_s = now,
      rc_source = src\<rparr> = Inr r"
    using a by (simp only:)
  with a show "reconcile_to_receipt ex t b va rid fee now src = Inr r"
    by (simp add: reconcile_to_receipt_def)
qed

definition settled_by ::
  "SettlementExpectationV0 \<Rightarrow> EconomicBounds \<Rightarrow> facts \<Rightarrow> FillReceiptV0 \<Rightarrow> bool" where
  "settled_by ex b F r \<longleftrightarrow> rc_economic_action_id r = se_action ex \<and> rc_external_ref r = se_hash ex \<and>
     (case F of (_, _, _, _, i, out) \<Rightarrow> i = Some (input_atomic_filled r) \<and> out = Some (output_atomic_filled r)) \<and>
     0 < input_atomic_filled r \<and> 0 < output_atomic_filled r \<and> satisfies r b = Inr True"

text \<open>A final conclusion carries the facts of the evidence.\<close>

lemma final_truth_facts:
  assumes "evaluate_chain_truth H ex obs fin = Inr t" "ct_verdict t = final_verdict st"
    and "final_evidence H ex obs fin st F"
  shows "F = (fst F, ct_block_hash t, fst (snd (snd F)), ct_receipt_status t,
    ct_effective_input_atomic t, ct_effective_output_atomic t)"
proof -
  let ?inc = "filter is_included (map snd (latest_by_provider H obs))"
  have ne: "?inc \<noteq> []" and t: "\<exists>a d. t = verdict_of ex (truth_evidence_digest H ex obs fin) (final_verdict st) a d (Some (hd ?inc))"
    using truth_branches [of H ex obs fin t st] assms(1,2) unfolding Let_def by blast+
  have "hd ?inc \<in> set ?inc" using hd_in_set [OF ne] .
  then have "hd ?inc \<in> set obs" "is_included (hd ?inc)"
    using current_reading_mem [of _ obs H] by (auto simp: set_latest)
  then have "settlement_facts (hd ?inc) = F"
    using assms(3) unfolding final_evidence_def list_all_iff by blast
  then have "F = settlement_facts (hd ?inc)" ..
  with t show ?thesis by (auto simp: verdict_of_def settlement_facts_def)
qed

text \<open>
  A receipt comes from final evidence only: when the evaluation of the
  readings is turned into a receipt, the evidence was final and successful, the receipt is
  for the expected action and transaction, its amounts are those that every inclusion
  reported, and the fill keeps the committed bounds.
\<close>

theorem receipt_only_from_final_evidence:
  assumes "list_all (\<lambda>v. make_observation v = Inr v) obs" "make_finality fin = Inr fin"
    and "inj_on (observation_id H) (set obs)"
    and "evaluate_chain_truth H ex obs fin = Inr t"
    and "reconcile_to_receipt ex t b va rid fee now src = Inr r"
  shows "\<exists>F. final_evidence H ex obs fin RS_SUCCESS F \<and> settled_by ex b F r"
proof -
  note rec = assms(5) [unfolded reconcile_eq_Inr make_receipt_eq_Inr]
  have v: "ct_verdict t = final_verdict RS_SUCCESS" using rec by simp
  then obtain F where F: "final_evidence H ex obs fin RS_SUCCESS F"
    using final_verdict_evidence [OF assms(1-3)] assms(4) by blast
  from final_truth_facts [OF assms(4) v F] rec have "settled_by ex b F r"
    unfolding settled_by_def by (cases F) auto
  with F show ?thesis by blast
qed

definition sample_trade_bounds :: EconomicBounds where
  "sample_trade_bounds = \<lparr>eb_side = BUY, eb_input_instrument_id = ''a'', eb_output_instrument_id = ''b'',
     max_input_atomic = 1000, eb_min_output_atomic = 900, limit_price = 2,
     eb_max_price_impact_bps = 0, eb_max_slippage_bps = 0, deadline_epoch_s = 50\<rparr>"

definition sample_binding :: ValidatedEconomicActionV0 where
  "sample_binding = \<lparr>va_action = se_action sample_expectation, va_hash = sample_tx, va_chain = 57073,
     va_taker = se_taker sample_expectation, va_minted = True\<rparr>"

theorem receipt_only_from_final_evidence_witness:
  "\<exists>t r F. evaluate_chain_truth (\<lambda>s. s) sample_expectation sample_readings ROBINHOOD_V0_FINALITY = Inr t \<and>
     reconcile_to_receipt sample_expectation t sample_trade_bounds sample_binding ''r1'' 0 60 ''chain'' = Inr r \<and>
     final_evidence (\<lambda>s. s) sample_expectation sample_readings ROBINHOOD_V0_FINALITY RS_SUCCESS F \<and>
     settled_by sample_expectation sample_trade_bounds F r"
proof -
  obtain t where t: "evaluate_chain_truth (\<lambda>s. s) sample_expectation sample_readings ROBINHOOD_V0_FINALITY = Inr t"
      "ct_verdict t = final_verdict RS_SUCCESS"
    using sample_truth by blast
  then obtain a d where "t = verdict_of sample_expectation
      (truth_evidence_digest (\<lambda>s. s) sample_expectation sample_readings ROBINHOOD_V0_FINALITY) CT_CONFIRMED a d
      (Some (sample_reading ''node-a'' 9 140))"
    using truth_branches [of "\<lambda>s. s" sample_expectation sample_readings ROBINHOOD_V0_FINALITY t RS_SUCCESS]
    unfolding Let_def sample_latest by (auto simp: sample_reading_fields)
  then obtain r where r: "reconcile_to_receipt sample_expectation t sample_trade_bounds sample_binding ''r1'' 0 60 ''chain'' = Inr r"
    by (simp add: reconcile_to_receipt_def verdict_of_def sample_reading_def assert_matches_def sample_binding_def
        sample_expectation_def make_receipt_def satisfies_def prorated_min_output_def ceil_div_def sample_trade_bounds_def)
  from receipt_only_from_final_evidence [OF sample_readings_ok sample_readings_distinct t(1) r] t(1) r
  show ?thesis by blast
qed

end
