(* ===== verification/Keccak.thy ===== *)
theory Keccak
  imports Prelude "HOL-Library.Word"
begin

text \<open>
  Keccak-256, \<open>qntyspot/keccak.py\<close>: the code's permutation on a flat list of 25 Python
  integers kept to 64 bits by a mask, its padding, absorption and output. The lemmas show
  that it computes the sponge of the Keccak specification on 64-bit lanes, whose rotation
  offsets and round constants are generated by the specified walk and feedback register.
\<close>

unbundle bit_operations_syntax

type_synonym bytes = "8 word list"

subsection \<open>The code\<close>

definition MASK64 :: int where
  "MASK64 = push_bit 64 1 - 1"

definition RATE :: nat where
  "RATE = 136"

definition ROUND_CONSTANTS :: "int list" where
  "ROUND_CONSTANTS =
    [0x0000000000000001, 0x0000000000008082, 0x800000000000808A, 0x8000000080008000,
     0x000000000000808B, 0x0000000080000001, 0x8000000080008081, 0x8000000000008009,
     0x000000000000008A, 0x0000000000000088, 0x0000000080008009, 0x000000008000000A,
     0x000000008000808B, 0x800000000000008B, 0x8000000000008089, 0x8000000000008003,
     0x8000000000008002, 0x8000000000000080, 0x000000000000800A, 0x800000008000000A,
     0x8000000080008081, 0x8000000000008080, 0x0000000080000001, 0x8000000080008008]"

definition ROTATION :: "nat list list" where
  "ROTATION =
    [[0, 36, 3, 41, 18], [1, 44, 10, 45, 2], [62, 6, 43, 15, 61], [28, 55, 25, 21, 56], [27, 20, 39, 8, 14]]"

definition rotl :: "int \<Rightarrow> nat \<Rightarrow> int" where
  "rotl v offset =
     (if offset = 0 then v else (push_bit offset v OR drop_bit (64 - offset) v) AND MASK64)"

text \<open>One round, in the code's four steps; the state is indexed by \<open>x + 5 * y\<close>.\<close>

definition column_parity :: "int list \<Rightarrow> int list" where
  "column_parity s =
     map (\<lambda>x. s ! x XOR s ! (x + 5) XOR s ! (x + 10) XOR s ! (x + 15) XOR s ! (x + 20)) [0..<5]"

definition mix_columns :: "int list \<Rightarrow> int list" where
  "mix_columns s =
     (let p = column_parity s;
          correction = map (\<lambda>x. p ! ((x + 4) mod 5) XOR rotl (p ! ((x + 1) mod 5)) 1) [0..<5]
      in map (\<lambda>i. s ! i XOR correction ! (i mod 5)) [0..<25])"

definition rotate_lanes :: "int list \<Rightarrow> int list" where
  "rotate_lanes s =
     foldl (\<lambda>r (y, x). r[y + 5 * ((2 * x + 3 * y) mod 5) := rotl (s ! (x + 5 * y)) (ROTATION ! x ! y)])
       (replicate 25 0) (List.product [0..<5] [0..<5])"

definition mix_rows :: "int list \<Rightarrow> int list" where
  "mix_rows r =
     map (\<lambda>i. let x = i mod 5; y = i div 5 in
       r ! (x + 5 * y) XOR (NOT (r ! ((x + 1) mod 5 + 5 * y)) AND r ! ((x + 2) mod 5 + 5 * y))) [0..<25]"

definition keccak_round :: "int list \<Rightarrow> int \<Rightarrow> int list" where
  "keccak_round s rc =
     (let t = mix_rows (rotate_lanes (mix_columns s)) in map (\<lambda>v. v AND MASK64) (t[0 := t ! 0 XOR rc]))"

definition permute :: "int list \<Rightarrow> int list" where
  "permute s = foldl keccak_round s ROUND_CONSTANTS"

definition int_from_little :: "bytes \<Rightarrow> int" where
  "int_from_little bs = foldr (\<lambda>b acc. uint b + 256 * acc) bs 0"

definition int_to_little :: "int \<Rightarrow> bytes" where
  "int_to_little n = map (\<lambda>i. word_of_int (n div 256 ^ i)) [0..<8]"

definition pad :: "bytes \<Rightarrow> bytes" where
  "pad data =
     (let p = data @ [0x01]; p = p @ replicate ((RATE - length p mod RATE) mod RATE) 0
      in p[length p - 1 := last p OR 0x80])"

definition absorb :: "int list \<Rightarrow> bytes \<Rightarrow> int list" where
  "absorb s block =
     permute (foldl (\<lambda>s lane. s[lane := s ! lane XOR int_from_little (take 8 (drop (lane * 8) block))])
       s [0..<RATE div 8])"

definition keccak256 :: "bytes \<Rightarrow> bytes" where
  "keccak256 data =
     (let padded = pad data;
          s = foldl (\<lambda>s offset. absorb s (take RATE (drop offset padded))) (replicate 25 0)
                (map ((*) RATE) [0..<(length padded + RATE - 1) div RATE])
      in take 32 (concat (map (\<lambda>lane. int_to_little (s ! lane)) [0..<RATE div 8])))"

definition hex_char :: "8 word \<Rightarrow> char" where
  "hex_char n = (if n < 10 then char_of (48 + unat n) else char_of (87 + unat n))"

text \<open>\<open>data.hex()\<close>.\<close>

definition bytes_hex :: "bytes \<Rightarrow> string" where
  "bytes_hex bs = concat (map (\<lambda>b. [hex_char (b div 16), hex_char (b mod 16)]) bs)"

definition keccak256_hex :: "bytes \<Rightarrow> string" where
  "keccak256_hex data = bytes_hex (keccak256 data)"

subsection \<open>The specification\<close>

text \<open>A state is an array of 64-bit lanes indexed by column and row.\<close>

type_synonym lanes = "nat \<Rightarrow> nat \<Rightarrow> 64 word"

definition theta :: "lanes \<Rightarrow> lanes" where
  "theta A = (let C = (\<lambda>x. A x 0 XOR A x 1 XOR A x 2 XOR A x 3 XOR A x 4)
     in (\<lambda>x y. A x y XOR (C ((x + 4) mod 5) XOR word_rotl 1 (C ((x + 1) mod 5)))))"

text \<open>The walk \<open>(x, y) := (y, 2x + 3y)\<close> from \<open>(1, 0)\<close> and the triangular numbers along it.\<close>

fun walk :: "nat \<Rightarrow> nat \<times> nat" where
  "walk 0 = (1, 0)"
| "walk (Suc t) = (case walk t of (x, y) \<Rightarrow> (y, (2 * x + 3 * y) mod 5))"

definition rho_offset :: "nat \<Rightarrow> nat \<Rightarrow> nat" where
  "rho_offset x y =
     (case find (\<lambda>t. walk t = (x, y)) [0..<24] of
        None \<Rightarrow> 0 | Some t \<Rightarrow> ((t + 1) * (t + 2) div 2) mod 64)"

definition rho_pi :: "lanes \<Rightarrow> lanes" where
  "rho_pi A = (\<lambda>x y. let x' = (x + 3 * y) mod 5 in word_rotl (rho_offset x' x) (A x' x))"

definition chi :: "lanes \<Rightarrow> lanes" where
  "chi A = (\<lambda>x y. A x y XOR (NOT (A ((x + 1) mod 5) y) AND A ((x + 2) mod 5) y))"

text \<open>
  The feedback register \<open>x^8 + x^6 + x^5 + x^4 + 1\<close>: its low bits, seven to a round, are
  the bits \<open>2 ^ j - 1\<close> of the round constants.
\<close>

definition lfsr_step :: "int \<Rightarrow> int" where
  "lfsr_step r = (if r < 128 then 2 * r else (2 * r - 256) XOR 0x71)"

text \<open>\<open>w\<close> is the weight \<open>2 ^ (2 ^ j - 1)\<close> of the next bit, which doubles and squares.\<close>

fun constant_bits :: "nat \<Rightarrow> int \<Rightarrow> int \<Rightarrow> int" where
  "constant_bits 0 w r = 0"
| "constant_bits (Suc n) w r = (if odd r then w else 0) + constant_bits n (2 * w * w) (lfsr_step r)"

fun round_constants :: "nat \<Rightarrow> int \<Rightarrow> int list" where
  "round_constants 0 r = []"
| "round_constants (Suc n) r = constant_bits 7 1 r # round_constants n ((lfsr_step ^^ 7) r)"

definition iota :: "64 word \<Rightarrow> lanes \<Rightarrow> lanes" where
  "iota rc A = (\<lambda>x y. if x = 0 \<and> y = 0 then A 0 0 XOR rc else A x y)"

definition keccak_f :: "lanes \<Rightarrow> lanes" where
  "keccak_f A = foldl (\<lambda>A rc. iota (word_of_int rc) (chi (rho_pi (theta A)))) A (round_constants 24 1)"

lemma ROTATION_spec: "ROTATION = map (\<lambda>x. map (rho_offset x) [0..<5]) [0..<5]"
  by code_simp

lemma ROUND_CONSTANTS_spec: "ROUND_CONSTANTS = round_constants 24 1"
  by code_simp

text \<open>Little-endian lanes, the padding \<open>10*1\<close> on bytes, and the sponge.\<close>

definition bytes_lane :: "bytes \<Rightarrow> 64 word" where
  "bytes_lane bs = foldr (\<lambda>b acc. ucast b + 256 * acc) bs 0"

definition lane_bytes :: "64 word \<Rightarrow> bytes" where
  "lane_bytes w = map (\<lambda>j. ucast (drop_bit (8 * j) w)) [0..<8]"

definition pad_spec :: "bytes \<Rightarrow> bytes" where
  "pad_spec data =
     (let q = 136 - length data mod 136
      in if q = 1 then data @ [0x81] else data @ [0x01] @ replicate (q - 2) 0 @ [0x80])"

function blocks :: "bytes \<Rightarrow> bytes list" where
  "blocks xs = (if xs = [] then [] else take 136 xs # blocks (drop 136 xs))"
  by pat_completeness auto
termination
  by (relation "measure length") auto

declare blocks.simps [simp del]

definition xor_block :: "bytes \<Rightarrow> lanes \<Rightarrow> lanes" where
  "xor_block block A = (\<lambda>x y. if x + 5 * y < 17
     then A x y XOR bytes_lane (take 8 (drop (8 * (x + 5 * y)) block)) else A x y)"

definition keccak256_spec :: "bytes \<Rightarrow> bytes" where
  "keccak256_spec data =
     (let A = foldl (\<lambda>A block. keccak_f (xor_block block A)) (\<lambda>x y. 0) (blocks (pad_spec data))
      in concat (map (\<lambda>i. lane_bytes (A i 0)) [0..<4]))"

subsection \<open>The permutation on integers is the permutation on lanes\<close>

definition flat_state :: "lanes \<Rightarrow> int list" where
  "flat_state A = map (\<lambda>i. uint (A (i mod 5) (i div 5))) [0..<25]"

lemma length_flat_state [simp]: "length (flat_state A) = 25"
  by (simp add: flat_state_def)

lemma nth_flat_state: "i < 25 \<Longrightarrow> flat_state A ! i = uint (A (i mod 5) (i div 5))"
  by (simp add: flat_state_def)

lemma nth_flat_state_xy [simp]: "x < 5 \<Longrightarrow> y < 5 \<Longrightarrow> flat_state A ! (x + 5 * y) = uint (A x y)"
  by (simp add: nth_flat_state)

lemma MASK64_mask: "MASK64 = mask 64"
  by (simp add: MASK64_def mask_eq_exp_minus_1)

lemma and_MASK64: "v AND MASK64 = take_bit 64 v"
  by (simp add: MASK64_mask take_bit_eq_mask)

lemma rotl_word:
  assumes "n < 64" shows "rotl (uint w) n = uint (word_rotl n (w :: 64 word))"
proof (cases "n = 0")
  case False
  show ?thesis
  proof (rule bit_eqI)
    fix i :: nat
    have l: "bit (rotl (uint w) n) i \<longleftrightarrow> i < 64 \<and> (n \<le> i \<and> bit w (i - n) \<or> bit w (i + (64 - n)))"
      using False by (auto simp: rotl_def and_MASK64 bit_simps bit_uint_iff add.commute dest: bit_imp_le_length)
    have r: "bit (uint (word_rotl n w)) i \<longleftrightarrow> i < 64 \<and> bit w ((i + (64 - n)) mod 64)"
      using assms by (auto simp: bit_uint_iff bit_word_rotl_iff)
    have hi: "(i + (64 - n)) mod 64 = i - n" "\<not> bit w (i + (64 - n))" if "n \<le> i" "i < 64"
      using that assms bit_imp_le_length [of w "i + (64 - n)"] by (auto simp: mod_if)
    show "bit (rotl (uint w) n) i \<longleftrightarrow> bit (uint (word_rotl n w)) i"
      unfolding l r using hi assms by (cases "n \<le> i") auto
  qed
next
  case True
  then show ?thesis
    by (intro bit_eqI) (auto simp: rotl_def bit_uint_iff bit_word_rotl_iff dest: bit_imp_le_length)
qed

lemma uint_chi: "uint (a :: 64 word) XOR (NOT (uint b) AND uint c) = uint (a XOR (NOT b AND c))"
  by (intro bit_eqI) (auto simp: bit_simps bit_uint_iff dest: bit_imp_le_length)

lemma uint_iota: "(uint (a :: 64 word) XOR rc) AND MASK64 = uint (a XOR word_of_int rc)"
  by (intro bit_eqI) (auto simp: and_MASK64 bit_simps bit_uint_iff dest: bit_imp_le_length)

lemma uint_mask [simp]: "uint (a :: 64 word) AND MASK64 = uint a"
  by (intro bit_eqI) (auto simp: and_MASK64 bit_simps bit_uint_iff dest: bit_imp_le_length)

lemma uint_xor [simp]: "uint (a :: 64 word) XOR uint b = uint (a XOR b)"
  by (intro bit_eqI) (auto simp: bit_simps bit_uint_iff dest: bit_imp_le_length)

lemma mix_columns_theta: "mix_columns (flat_state A) = flat_state (theta A)"
proof (rule nth_equalityI)
  fix i assume "i < length (mix_columns (flat_state A))"
  then have i: "i < 25" "i mod 5 < 5" "i div 5 < 5" by (simp_all add: mix_columns_def Let_def)
  define C where "C = (\<lambda>x. A x 0 XOR A x 1 XOR A x 2 XOR A x 3 XOR A x 4)"
  have p: "column_parity (flat_state A) = map (\<lambda>x. uint (C x)) [0..<5]"
    unfolding column_parity_def
  proof (rule map_cong [OF refl])
    fix x assume "x \<in> set [0..<(5::nat)]"
    then show "flat_state A ! x XOR flat_state A ! (x + 5) XOR flat_state A ! (x + 10) XOR
        flat_state A ! (x + 15) XOR flat_state A ! (x + 20) = uint (C x)"
      using nth_flat_state_xy [of x _ A, where y = 0] nth_flat_state_xy [of x 1 A] nth_flat_state_xy [of x 2 A]
        nth_flat_state_xy [of x 3 A] nth_flat_state_xy [of x 4 A]
      by (simp add: C_def)
  qed
  show "mix_columns (flat_state A) ! i = flat_state (theta A) ! i"
    using i by (simp add: mix_columns_def Let_def p nth_flat_state theta_def rotl_word C_def)
qed (simp add: mix_columns_def Let_def)

lemma nth_foldl_update:
  assumes "distinct (map t ps)" "p \<in> set ps" "t p < length r"
  shows "foldl (\<lambda>r p. r[t p := v p]) r ps ! t p = v p"
  using assms
proof (induction ps rule: rev_induct)
  case (snoc q qs)
  have "length (foldl (\<lambda>r p. r[t p := v p]) r qs) = length r"
    by (induction qs rule: rev_induct) simp_all
  moreover have "t q \<noteq> t p" if "p \<noteq> q" using snoc.prems that by auto
  ultimately show ?case using snoc by (cases "p = q") auto
qed simp

definition rotation_target :: "nat \<times> nat \<Rightarrow> nat" where
  "rotation_target yx = (case yx of (y, x) \<Rightarrow> y + 5 * ((2 * x + 3 * y) mod 5))"

lemma targets: "distinct (map rotation_target (List.product [0..<5] [0..<5]))"
  "list_all (\<lambda>i. rotation_target (i mod 5, (i mod 5 + 3 * (i div 5)) mod 5) = i) [0..<25]"
  by code_simp+

lemma rotation_offset: "x < 5 \<Longrightarrow> y < 5 \<Longrightarrow> ROTATION ! x ! y = rho_offset x y"
  by (simp add: ROTATION_spec)

lemma rho_offset_less: "rho_offset x y < 64"
  by (auto simp: rho_offset_def split: option.splits)

lemma rotate_lanes_rho_pi: "rotate_lanes (flat_state A) = flat_state (rho_pi A)"
proof (rule nth_equalityI)
  let ?v = "\<lambda>(y, x). rotl (flat_state A ! (x + 5 * y)) (ROTATION ! x ! y)"
  have eq: "rotate_lanes (flat_state A) =
      foldl (\<lambda>r p. r[rotation_target p := ?v p]) (replicate 25 0) (List.product [0..<5] [0..<5])"
    unfolding rotate_lanes_def
    by (rule arg_cong [where f = "\<lambda>f. foldl f _ _"]) (simp add: fun_eq_iff rotation_target_def)
  have len: "length (foldl (\<lambda>r p. r[rotation_target p := ?v p]) r ps) = length r" for r ps
    by (induction ps rule: rev_induct) simp_all
  show l: "length (rotate_lanes (flat_state A)) = length (flat_state (rho_pi A))"
    unfolding eq len by simp
  fix i assume "i < length (rotate_lanes (flat_state A))"
  then have i: "i < 25" unfolding eq len by simp
  define x y where "x = i mod 5" and "y = i div 5"
  have xy: "x < 5" "y < 5" using i by (simp_all add: x_def y_def)
  define x' where "x' = (x + 3 * y) mod 5"
  have x': "x' < 5" by (simp add: x'_def)
  have t: "rotation_target (x, x') = i"
    using targets(2) i by (simp add: list_all_iff x'_def x_def y_def)
  have "rotate_lanes (flat_state A) ! rotation_target (x, x') = ?v (x, x')"
    unfolding eq by (rule nth_foldl_update [OF targets(1)]) (use xy x' t i in auto)
  also have "\<dots> = uint (word_rotl (rho_offset x' x) (A x' x))"
    using xy x' by (simp add: rotation_offset rotl_word rho_offset_less)
  also have "\<dots> = flat_state (rho_pi A) ! i"
    using i by (simp add: nth_flat_state rho_pi_def Let_def x_def y_def x'_def)
  finally show "rotate_lanes (flat_state A) ! i = flat_state (rho_pi A) ! i" unfolding t .
qed

lemma mix_rows_chi: "mix_rows (flat_state A) = flat_state (chi A)"
proof (rule nth_equalityI)
  fix i assume "i < length (mix_rows (flat_state A))"
  then have i: "i < 25" "i mod 5 < 5" "i div 5 < 5" by (simp_all add: mix_rows_def)
  show "mix_rows (flat_state A) ! i = flat_state (chi A) ! i"
    using i by (simp add: mix_rows_def Let_def chi_def uint_chi nth_flat_state [of i] del: uint_xor)
qed (simp add: mix_rows_def)

lemma keccak_round_spec:
  "keccak_round (flat_state A) rc = flat_state (iota (word_of_int rc) (chi (rho_pi (theta A))))"
proof (rule nth_equalityI)
  let ?B = "chi (rho_pi (theta A))"
  fix i assume "i < length (keccak_round (flat_state A) rc)"
  then have i: "i < 25" by (simp add: keccak_round_def Let_def mix_columns_theta rotate_lanes_rho_pi mix_rows_chi)
  then have z: "i mod 5 = 0 \<and> i div 5 = 0 \<longleftrightarrow> i = 0" by auto
  show "keccak_round (flat_state A) rc ! i = flat_state (iota (word_of_int rc) ?B) ! i"
    using i z
    by (auto simp: keccak_round_def Let_def mix_columns_theta rotate_lanes_rho_pi mix_rows_chi
        nth_flat_state iota_def nth_list_update uint_iota)
qed (simp add: keccak_round_def Let_def mix_columns_theta rotate_lanes_rho_pi mix_rows_chi)

lemma permute_keccak_f: "permute (flat_state A) = flat_state (keccak_f A)"
proof -
  have "foldl keccak_round (flat_state A) rcs =
      flat_state (foldl (\<lambda>A rc. iota (word_of_int rc) (chi (rho_pi (theta A)))) A rcs)" for rcs
    by (induction rcs arbitrary: A) (simp_all add: keccak_round_spec)
  then show ?thesis by (simp add: permute_def keccak_f_def ROUND_CONSTANTS_spec)
qed

subsection \<open>Lanes, padding and the sponge\<close>

lemma int_from_little_bounds: "0 \<le> int_from_little bs \<and> int_from_little bs < 256 ^ length bs"
proof (induction bs)
  case (Cons b bs)
  have "uint b < 256" "0 \<le> uint b" using uint_lt2p [of b] by simp_all
  with Cons show ?case by (auto simp: int_from_little_def)
qed (simp add: int_from_little_def)

lemma bytes_lane_int: "bytes_lane bs = word_of_int (int_from_little bs)"
proof (induction bs)
  case (Cons b bs)
  have "(ucast b :: 64 word) = word_of_int (uint b)" by (simp add: word_of_int_uint)
  with Cons show ?case by (simp add: bytes_lane_def int_from_little_def)
qed (simp add: bytes_lane_def int_from_little_def)

lemma int_from_little_lane:
  assumes "length bs \<le> 8" shows "int_from_little bs = uint (bytes_lane bs)"
proof -
  have "(256 :: int) ^ length bs \<le> 256 ^ 8" using assms by (intro power_increasing) auto
  with int_from_little_bounds [of bs] have "0 \<le> int_from_little bs" "int_from_little bs < 2 ^ 64" by auto
  then show ?thesis by (simp add: bytes_lane_int uint_word_of_int)
qed

lemma int_to_little_lane: "int_to_little (uint w) = lane_bytes w"
proof -
  have "(word_of_int (uint w div 256 ^ i) :: 8 word) = ucast (drop_bit (8 * i) w)" for i
  proof -
    have "uint w div 256 ^ i = drop_bit (8 * i) (uint w)"
      by (simp add: drop_bit_eq_div power_mult)
    then show ?thesis
      by (intro bit_word_eqI) (simp add: bit_simps bit_uint_iff)
  qed
  then show ?thesis by (simp add: int_to_little_def lane_bytes_def)
qed

lemma length_int_to_little [simp]: "length (int_to_little n) = 8"
  by (simp add: int_to_little_def)

lemma nth_foldl_upt:
  assumes "n \<le> length s" "i < length s"
  shows "foldl (\<lambda>s l. s[l := f l (s ! l)]) s [0..<n] ! i = (if i < n then f i (s ! i) else s ! i)"
    and "length (foldl (\<lambda>s l. s[l := f l (s ! l)]) s [0..<n]) = length s"
  using assms by (induction n) (auto simp: nth_list_update less_Suc_eq)

lemma absorb_spec: "absorb (flat_state A) block = flat_state (keccak_f (xor_block block A))"
proof -
  let ?f = "\<lambda>lane v. v XOR int_from_little (take 8 (drop (lane * 8) block))"
  have "foldl (\<lambda>s l. s[l := ?f l (s ! l)]) (flat_state A) [0..<17] = flat_state (xor_block block A)"
  proof (rule nth_equalityI)
    show "length (foldl (\<lambda>s l. s[l := ?f l (s ! l)]) (flat_state A) [0..<17]) =
        length (flat_state (xor_block block A))"
      using nth_foldl_upt(2) [of 17 "flat_state A" 0 ?f] by simp
    fix i assume "i < length (foldl (\<lambda>s l. s[l := ?f l (s ! l)]) (flat_state A) [0..<17])"
    then have i: "i < 25" using nth_foldl_upt(2) [of 17 "flat_state A" 0 ?f] by simp
    have split: "i mod 5 + 5 * (i div 5) = i" by simp
    show "foldl (\<lambda>s l. s[l := ?f l (s ! l)]) (flat_state A) [0..<17] ! i = flat_state (xor_block block A) ! i"
      using nth_foldl_upt(1) [of 17 "flat_state A" i ?f] i
      by (simp add: nth_flat_state [of i] xor_block_def split int_from_little_lane mult.commute)
  qed
  then show ?thesis by (simp add: absorb_def RATE_def permute_keccak_f)
qed

lemma block_count: "0 < n \<Longrightarrow> (n + 135) div 136 = Suc ((n - 136 + 135) div (136 :: nat))"
proof (cases "n \<le> 136")
  case True
  assume "0 < n"
  with True have "(n + 135) div 136 = 1" by (intro div_nat_eqI) auto
  with True show ?thesis by simp
next
  case False
  then obtain m where "n = 136 + m" using le_Suc_ex [of 136 n] by auto
  then show ?thesis using div_add_self1 [of 136 "m + 135"] by (simp add: add.assoc)
qed

lemma blocks_offsets:
  "map (\<lambda>k. take 136 (drop (136 * k) xs)) [0..<(length xs + 135) div 136] = blocks xs"
proof (induction xs rule: blocks.induct)
  case (1 xs)
  show ?case
  proof (cases "xs = []")
    case False
    have "map (\<lambda>k. take 136 (drop (136 * k) xs)) [0..<(length xs + 135) div 136] =
        take 136 xs # map (\<lambda>k. take 136 (drop (136 * Suc k) xs)) [0..<(length xs - 136 + 135) div 136]"
      using False by (simp add: block_count upt_conv_Cons map_Suc_upt [symmetric] del: upt_Suc)
    also have "map (\<lambda>k. take 136 (drop (136 * Suc k) xs)) [0..<(length xs - 136 + 135) div 136] = blocks (drop 136 xs)"
      using 1 [OF False] by (simp add: add.commute)
    finally show ?thesis using False by (simp add: blocks.simps [of xs])
  qed (simp add: blocks.simps)
qed

lemma pad_pad_spec: "pad data = pad_spec data"
proof (cases "length data mod 136 = 135")
  case True
  then have "(Suc (length data)) mod 136 = 0" by (simp add: mod_Suc)
  with True show ?thesis
    by (simp add: pad_def pad_spec_def RATE_def Let_def)
next
  case False
  define k where "k = 135 - length data mod 136"
  have "length data mod 136 < 136" by simp
  with False have "Suc (length data) mod 136 = Suc (length data mod 136)" "length data mod 136 < 135"
    by (simp_all add: mod_Suc)
  then have k: "(136 - Suc (length data) mod 136) mod 136 = k" "0 < k" "136 - length data mod 136 = Suc k"
    unfolding k_def by simp_all
  then obtain j where j: "k = Suc j" by (cases k) auto
  have "replicate (Suc j) (0 :: 8 word) = replicate j 0 @ [0]" by (simp add: replicate_append_same)
  with k j show ?thesis
    by (simp add: pad_def pad_spec_def RATE_def Let_def list_update_append nth_append del: replicate.simps)
qed

lemma sponge_state:
  "foldl (\<lambda>s offset. absorb s (take RATE (drop offset p))) (flat_state A)
     (map ((*) RATE) [0..<(length p + RATE - 1) div RATE]) =
   flat_state (foldl (\<lambda>A block. keccak_f (xor_block block A)) A (blocks p))"
proof -
  have "foldl (\<lambda>s offset. absorb s (take RATE (drop offset p))) s (map ((*) RATE) ks) =
      foldl absorb s (map (\<lambda>k. take 136 (drop (136 * k) p)) ks)" for s ks
    by (induction ks arbitrary: s) (simp_all add: RATE_def)
  moreover have "foldl absorb (flat_state A) bs =
      flat_state (foldl (\<lambda>A block. keccak_f (xor_block block A)) A bs)" for bs
    by (induction bs arbitrary: A) (simp_all add: absorb_spec)
  ultimately show ?thesis
    using blocks_offsets [of p] by (simp add: RATE_def add.commute)
qed

text \<open>
  \<^bold>\<open>C34.\<close> \<open>keccak256\<close> refines the specification: the loops over a flat list of
  unbounded integers compute, on every byte string, the Keccak sponge of rate 1088 with the
  padding byte \<open>0x01\<close>, on 64-bit lanes with the generated rotations and round constants.
\<close>

theorem keccak256_refines_specification: "keccak256 data = keccak256_spec data"
proof -
  define A where "A = foldl (\<lambda>A block. keccak_f (xor_block block A)) (\<lambda>x y. 0) (blocks (pad_spec data))"
  have z: "replicate 25 0 = flat_state (\<lambda>x y. 0)"
    by (rule nth_equalityI) (simp_all add: nth_flat_state)
  have "keccak256 data = take 32 (concat (map (\<lambda>lane. int_to_little (flat_state A ! lane)) [0..<17]))"
    unfolding keccak256_def Let_def z sponge_state pad_pad_spec A_def [symmetric] by (simp add: RATE_def)
  also have "[0..<17] = [0..<4] @ [4..<(17::nat)]" by code_simp
  also have "take 32 (concat (map (\<lambda>lane. int_to_little (flat_state A ! lane)) ([0..<4] @ [4..<17]))) =
      concat (map (\<lambda>lane. int_to_little (flat_state A ! lane)) [0..<4])"
    by (simp add: length_concat comp_def sum_list_triv)
  also have "\<dots> = concat (map (\<lambda>i. lane_bytes (A i 0)) [0..<4])"
  proof -
    have "int_to_little (flat_state A ! i) = lane_bytes (A i 0)" if "i < 4" for i
      using that by (simp add: nth_flat_state int_to_little_lane)
    then show ?thesis by (intro arg_cong [where f = concat] map_cong) auto
  qed
  also have "\<dots> = keccak256_spec data"
    by (simp add: keccak256_spec_def A_def)
  finally show ?thesis .
qed

lemma length_keccak256: "length (keccak256 data) = 32"
  by (simp add: keccak256_def Let_def length_concat comp_def sum_list_triv RATE_def)

end
