(* ===== verification/Calldata.thy ===== *)
theory Calldata
  imports Contract Keccak
begin

text \<open>
  The decoder of AllowanceHolder calldata, \<open>decode_allowance_holder_calldata\<close> and its
  helpers in \<open>qntyspot/execution_contract.py\<close>. Offsets and words read from the bytes are
  naturals, amounts integers; every refusal is \<open>EnvelopeValidationError\<close>. The selectors are
  computed by the modelled Keccak from the signatures, as in the source.
\<close>

abbreviation env_error :: error where
  "env_error \<equiv> EnvelopeValidationError"

definition ascii_bytes :: "string \<Rightarrow> bytes" where
  "ascii_bytes s = map (\<lambda>c. of_nat (of_char c)) s"

text \<open>The text whose characters are the bytes: a digest of bytes is the digest of this text.\<close>

definition byte_text :: "bytes \<Rightarrow> string" where
  "byte_text bs = map (\<lambda>b. char_of (unat b)) bs"

definition selector :: "string \<Rightarrow> string" where
  "selector text = ''0x'' @ take 8 (keccak256_hex (ascii_bytes text))"

definition NATIVE_CHECK_SEL :: string where
  "NATIVE_CHECK_SEL = selector ''NATIVE_CHECK(uint256,uint256)''"
definition CHECK_SLIPPAGE_SEL :: string where
  "CHECK_SLIPPAGE_SEL = selector ''CHECK_SLIPPAGE(bool)''"
definition UNISWAPV3_SEL :: string where
  "UNISWAPV3_SEL = selector ''UNISWAPV3(address,uint256,bytes,uint256)''"
definition UNISWAPV2_SEL :: string where
  "UNISWAPV2_SEL = selector ''UNISWAPV2(address,address,uint256,address,uint24,uint256)''"
definition BASIC_SEL :: string where
  "BASIC_SEL = selector ''BASIC(address,uint256,address,uint256,bytes)''"
definition DODOV1_SEL :: string where
  "DODOV1_SEL = selector ''DODOV1(address,uint256,address,bool,uint256)''"
definition DODOV2_SEL :: string where
  "DODOV2_SEL = selector ''DODOV2(address,address,uint256,address,bool,uint256)''"
definition VELODROME_SEL :: string where
  "VELODROME_SEL = selector ''VELODROME(address,uint256,address,uint24,uint256)''"
definition MAVERICKV2_SEL :: string where
  "MAVERICKV2_SEL = selector ''MAVERICKV2(address,address,uint256,address,bool,int32,uint256)''"
definition EULERSWAP_SEL :: string where
  "EULERSWAP_SEL = selector ''EULERSWAP(address,address,uint256,address,bool,uint256)''"
definition RENEGADE_SEL :: string where
  "RENEGADE_SEL = selector ''RENEGADE(address,address,address,uint256,bool,uint256,bytes,uint256)''"
definition POSITIVE_SLIPPAGE_SEL :: string where
  "POSITIVE_SLIPPAGE_SEL = selector ''POSITIVE_SLIPPAGE(address,address,uint256,uint256)''"

definition ALLOWANCE_HOLDER_EXEC_SELECTOR :: string where
  "ALLOWANCE_HOLDER_EXEC_SELECTOR = selector ''exec(address,address,uint256,address,bytes)''"

definition SETTLER_EXEC_SELECTOR :: string where
  "SETTLER_EXEC_SELECTOR = selector ''execute((address,address,uint256),bytes[],bytes32)''"

text \<open>Argument words and the indexes of the dynamic arguments.\<close>

definition ACTION_LAYOUTS :: "(string \<times> nat \<times> nat list) list" where
  "ACTION_LAYOUTS =
     [(NATIVE_CHECK_SEL, 2, []), (CHECK_SLIPPAGE_SEL, 1, []), (UNISWAPV3_SEL, 4, [2]),
      (UNISWAPV2_SEL, 6, []), (BASIC_SEL, 5, [4]), (DODOV1_SEL, 5, []), (DODOV2_SEL, 6, []),
      (VELODROME_SEL, 5, []), (MAVERICKV2_SEL, 7, []), (EULERSWAP_SEL, 6, []),
      (RENEGADE_SEL, 8, [6]), (POSITIVE_SLIPPAGE_SEL, 4, [])]"

definition ACTION_SELECTORS :: "string set" where
  "ACTION_SELECTORS = set (map fst ACTION_LAYOUTS)"

definition NON_SETTLEMENT_ACTION_SELECTORS :: "string set" where
  "NON_SETTLEMENT_ACTION_SELECTORS = {NATIVE_CHECK_SEL, CHECK_SLIPPAGE_SEL}"

definition SETTLER_BASIS :: nat where
  "SETTLER_BASIS = 1000000"

subsection \<open>Reading bytes\<close>

text \<open>\<open>bytes.fromhex\<close>: pairs of hex digits, ASCII white space between them skipped.\<close>

definition hex_value :: "char \<Rightarrow> 8 word option" where
  "hex_value c =
     (let n = (of_char c :: nat) in
      if 48 \<le> n \<and> n \<le> 57 then Some (of_nat (n - 48))
      else if 97 \<le> n \<and> n \<le> 102 then Some (of_nat (n - 87))
      else if 65 \<le> n \<and> n \<le> 70 then Some (of_nat (n - 55)) else None)"

fun bytes_fromhex :: "string \<Rightarrow> bytes option" where
  "bytes_fromhex [] = Some []"
| "bytes_fromhex (c # cs) =
     (if (of_char c :: nat) \<in> {9, 10, 11, 12, 13, 32} then bytes_fromhex cs
      else case cs of [] \<Rightarrow> None
      | d # ds \<Rightarrow>
          (case (hex_value c, hex_value d) of
             (Some a, Some b) \<Rightarrow> map_option ((#) (16 * a + b)) (bytes_fromhex ds)
           | _ \<Rightarrow> None))"

text \<open>The argument is bytes or a text.\<close>

datatype calldata = CBytes bytes | CText string

definition calldata_bytes :: "calldata \<Rightarrow> error + bytes" where
  "calldata_bytes v =
     rbind (case v of
         CBytes bs \<Rightarrow> Inr bs
       | CText s \<Rightarrow>
           if take 2 s = ''0x'' \<and> length s mod 2 = 0
           then (case bytes_fromhex (drop 2 s) of None \<Rightarrow> Inl env_error | Some bs \<Rightarrow> Inr bs)
           else Inl env_error) (\<lambda>result.
     if result = [] then Inl env_error else Inr result)"

definition nat_from_big :: "bytes \<Rightarrow> nat" where
  "nat_from_big bs = foldl (\<lambda>acc b. 256 * acc + unat b) 0 bs"

definition calldata_word :: "bytes \<Rightarrow> nat \<Rightarrow> error + nat" where
  "calldata_word data offset =
     (if offset + 32 > length data then Inl env_error
      else Inr (nat_from_big (take 32 (drop offset data))))"

definition calldata_address :: "bytes \<Rightarrow> nat \<Rightarrow> error + string" where
  "calldata_address data offset =
     (let w = take 32 (drop offset data) in
      if length w \<noteq> 32 \<or> take 12 w \<noteq> replicate 12 0 then Inl env_error
      else let address = ''0x'' @ bytes_hex (drop 12 w)
           in rbind (address_check env_error address) (\<lambda>_. Inr address))"

definition padded :: "nat \<Rightarrow> nat" where
  "padded len = ((len + 31) div 32) * 32"

definition all_zero :: "bytes \<Rightarrow> bool" where
  "all_zero bs = list_all (\<lambda>b. b = 0) bs"

definition byte_slice :: "nat \<Rightarrow> nat \<Rightarrow> bytes \<Rightarrow> bytes" where
  "byte_slice a b bs = take (b - a) (drop a bs)"

definition calldata_dynamic_bytes :: "bytes \<Rightarrow> nat \<Rightarrow> nat \<Rightarrow> error + bytes" where
  "calldata_dynamic_bytes data args_start offset =
     (if offset \<noteq> 32 * 5 then Inl env_error
      else let start = args_start + offset in
        rbind (calldata_word data start) (\<lambda>len.
          let fin = start + 32 + len; padded_end = start + 32 + padded len
          in if fin > length data \<or> padded_end \<noteq> length data then Inl env_error
             else if \<not> all_zero (byte_slice fin padded_end data) then Inl env_error
             else Inr (byte_slice (start + 32) fin data)))"

definition action_word :: "bytes \<Rightarrow> nat \<Rightarrow> error + nat" where
  "action_word args index = calldata_word args (index * 32)"

definition action_address :: "bytes \<Rightarrow> nat \<Rightarrow> error + string" where
  "action_address args index = calldata_address args (index * 32)"

definition action_bool :: "bytes \<Rightarrow> nat \<Rightarrow> error + bool" where
  "action_bool args index =
     rbind (action_word args index) (\<lambda>v. if v \<noteq> 0 \<and> v \<noteq> 1 then Inl env_error else Inr (v = 1))"

definition assert_action_minimum :: "bytes \<Rightarrow> nat \<Rightarrow> int option \<Rightarrow> error + unit" where
  "assert_action_minimum args index expected =
     rbind (action_word args index) (\<lambda>minimum.
     if minimum \<le> 0 \<or> int minimum > MAX_UINT256 then Inl env_error
     else case expected of None \<Rightarrow> Inr ()
          | Some e \<Rightarrow> require (\<not> int minimum < e) env_error)"

definition assert_action_ppm :: "bytes \<Rightarrow> nat \<Rightarrow> error + unit" where
  "assert_action_ppm args index =
     rbind (action_word args index) (\<lambda>ppm. require (\<not> ppm > SETTLER_BASIS) env_error)"

subsection \<open>The actions\<close>

text \<open>The keyword arguments that bind a call; \<open>None\<close> leaves a field unbound.\<close>

record expected =
  x_sell_token :: "string option"
  x_buy_token :: "string option"
  x_taker_address :: "string option"
  x_sell_amount_atomic :: "int option"
  x_min_output_atomic :: "int option"
  x_transaction_value_atomic :: int

definition agrees :: "'a option \<Rightarrow> 'a \<Rightarrow> bool" where
  "agrees e v = (case e of None \<Rightarrow> True | Some x \<Rightarrow> v = x)"

text \<open>The positions the common checks look at.\<close>

record action_indexes =
  ix_recipient :: "nat option"
  ix_sell :: "nat option"
  ix_buy :: "nat option"
  ix_minimum :: "nat option"
  ix_ppm :: "nat option"

definition no_indexes :: action_indexes where
  "no_indexes = \<lparr>ix_recipient = None, ix_sell = None, ix_buy = None, ix_minimum = None, ix_ppm = None\<rparr>"

definition uint24_check :: "bytes \<Rightarrow> nat \<Rightarrow> error + unit" where
  "uint24_check args index =
     rbind (action_word args index) (\<lambda>v. require (\<not> v > 0xFFFFFF) env_error)"

definition uniswapv3_path :: "bytes \<Rightarrow> expected \<Rightarrow> error + unit" where
  "uniswapv3_path path x =
     (if length path < 43 \<or> (length path - 20) mod 23 \<noteq> 0 then Inl env_error
      else if \<not> agrees (x_sell_token x) (''0x'' @ bytes_hex (take 20 path)) then Inl env_error
      else require (agrees (x_buy_token x) (''0x'' @ bytes_hex (drop (length path - 20) path))) env_error)"

definition dynamic_value :: "(nat \<times> bytes) list \<Rightarrow> nat \<Rightarrow> error + bytes" where
  "dynamic_value dyn i = (case map_of dyn i of None \<Rightarrow> Inl PyKeyError | Some v \<Rightarrow> Inr v)"

text \<open>
  The branch of each selector: its own checks and the positions of its common fields. The
  branch of \<open>DODOV2\<close> unpacks three values into four names, which raises \<open>ValueError\<close>.
\<close>

definition action_branch ::
  "string \<Rightarrow> bytes \<Rightarrow> (nat \<times> bytes) list \<Rightarrow> expected \<Rightarrow> error + action_indexes" where
  "action_branch sel args dyn x =
     (if sel = NATIVE_CHECK_SEL then
        rbind (action_word args 0) (\<lambda>_. rbind (action_word args 1) (\<lambda>msg_value.
          if int msg_value > x_transaction_value_atomic x then Inl env_error else Inr no_indexes))
      else if sel = CHECK_SLIPPAGE_SEL then
        rbind (action_bool args 0) (\<lambda>_. Inr no_indexes)
      else if sel = UNISWAPV3_SEL then
        rbind (dynamic_value dyn 2) (\<lambda>path. rbind (uniswapv3_path path x) (\<lambda>_.
          Inr (no_indexes\<lparr>ix_recipient := Some 0, ix_ppm := Some 1, ix_minimum := Some 3\<rparr>)))
      else if sel = UNISWAPV2_SEL then
        rbind (action_address args 3) (\<lambda>_. rbind (uint24_check args 4) (\<lambda>_.
          Inr (no_indexes\<lparr>ix_recipient := Some 0, ix_sell := Some 1, ix_ppm := Some 2, ix_minimum := Some 5\<rparr>)))
      else if sel = BASIC_SEL then
        rbind (action_address args 2) (\<lambda>_. rbind (action_word args 3) (\<lambda>raw_offset.
        rbind (dynamic_value dyn 4) (\<lambda>data.
          if (data \<noteq> [] \<and> raw_offset + 32 > length data) \<or> (data = [] \<and> raw_offset \<noteq> 0) then Inl env_error
          else Inr (no_indexes\<lparr>ix_sell := Some 0, ix_ppm := Some 1\<rparr>))))
      else if sel = DODOV1_SEL then
        rbind (action_address args 2) (\<lambda>_. rbind (action_bool args 3) (\<lambda>_.
          Inr (no_indexes\<lparr>ix_sell := Some 0, ix_ppm := Some 1, ix_minimum := Some 4\<rparr>)))
      else if sel = DODOV2_SEL then Inl PyValueError
      else if sel = VELODROME_SEL then
        rbind (action_address args 2) (\<lambda>_. rbind (uint24_check args 3) (\<lambda>_.
          Inr (no_indexes\<lparr>ix_recipient := Some 0, ix_ppm := Some 1, ix_minimum := Some 4\<rparr>)))
      else if sel = MAVERICKV2_SEL then
        rbind (action_address args 3) (\<lambda>_. rbind (action_bool args 4) (\<lambda>_.
          Inr (no_indexes\<lparr>ix_recipient := Some 0, ix_sell := Some 1, ix_ppm := Some 2, ix_minimum := Some 6\<rparr>)))
      else if sel = EULERSWAP_SEL then
        rbind (action_address args 3) (\<lambda>_. rbind (action_bool args 4) (\<lambda>_.
          Inr (no_indexes\<lparr>ix_recipient := Some 0, ix_sell := Some 1, ix_ppm := Some 2, ix_minimum := Some 5\<rparr>)))
      else if sel = RENEGADE_SEL then
        rbind (action_word args 3) (\<lambda>max_sell.
          if \<not> (case x_sell_amount_atomic x of None \<Rightarrow> True | Some a \<Rightarrow> int max_sell \<le> a) then Inl env_error
          else rbind (action_bool args 4) (\<lambda>_.
            Inr (no_indexes\<lparr>ix_recipient := Some 0, ix_sell := Some 1, ix_buy := Some 2, ix_minimum := Some 7\<rparr>)))
      else if sel = POSITIVE_SLIPPAGE_SEL then
        rbind (action_word args 2) (\<lambda>_. rbind (action_word args 3) (\<lambda>_.
          Inr (no_indexes\<lparr>ix_recipient := Some 0, ix_buy := Some 1\<rparr>)))
      else Inl env_error)"

text \<open>A bound address field; nothing is read when either side is absent.\<close>

definition bound_address :: "bytes \<Rightarrow> nat option \<Rightarrow> string option \<Rightarrow> error + unit" where
  "bound_address args index e =
     (case (index, e) of
        (Some i, Some v) \<Rightarrow> rbind (action_address args i) (\<lambda>a. require (a = v) env_error)
      | _ \<Rightarrow> Inr ())"

definition validate_action_semantics ::
  "string \<Rightarrow> bytes \<Rightarrow> (nat \<times> bytes) list \<Rightarrow> expected \<Rightarrow> error + unit" where
  "validate_action_semantics sel args dyn x =
     rbind (action_branch sel args dyn x) (\<lambda>ix. checks
       [opt_check (assert_action_ppm args) (ix_ppm ix),
        bound_address args (ix_recipient ix) (x_taker_address x),
        bound_address args (ix_sell ix) (x_sell_token x),
        bound_address args (ix_buy ix) (x_buy_token x),
        opt_check (\<lambda>i. assert_action_minimum args i (x_min_output_atomic x)) (ix_minimum ix)])"

text \<open>One iteration over the dynamic arguments of an action: the offset and the value.\<close>

definition dynamic_argument :: "bytes \<Rightarrow> nat \<Rightarrow> nat \<Rightarrow> error + nat \<times> bytes" where
  "dynamic_argument args head_size index =
     (let offset = nat_from_big (byte_slice (index * 32) ((index + 1) * 32) args) in
      if offset \<noteq> head_size then Inl env_error
      else if offset + 32 > length args then Inl env_error
      else let len = nat_from_big (byte_slice offset (offset + 32) args);
               fin = offset + 32 + len; padded_end = offset + 32 + padded len
           in if padded_end > length args \<or> \<not> all_zero (byte_slice fin padded_end args) then Inl env_error
              else Inr (offset, byte_slice (offset + 32) fin args))"

definition dynamic_tail_ok :: "bytes \<Rightarrow> nat \<Rightarrow> nat list \<Rightarrow> bool" where
  "dynamic_tail_ok args head_size starts \<longleftrightarrow>
     starts = [] \<or>
     (starts = sort starts \<and> hd starts = head_size \<and>
      last starts + 32 + padded (nat_from_big (byte_slice (last starts) (last starts + 32) args)) = length args)"

text \<open>
  The body of the loop over the calls, which yields where the call starts: the offset of
  the call, then the call at that place.
\<close>

definition decode_call :: "bytes \<Rightarrow> nat \<Rightarrow> nat \<Rightarrow> expected \<Rightarrow> error + nat" where
  "decode_call data start len x =
     (let fin = start + 32 + len; padded_end = start + 32 + padded len in
      if len < 4 \<or> padded_end > length data \<or> \<not> all_zero (byte_slice fin padded_end data) then Inl env_error
      else let sel = ''0x'' @ bytes_hex (byte_slice (start + 32) (start + 36) data);
               args = byte_slice (start + 36) fin data in
      (case map_of ACTION_LAYOUTS sel of
         None \<Rightarrow> Inl env_error
       | Some (arg_words, dynamic_indexes) \<Rightarrow>
           let head_size = arg_words * 32 in
           if length args < head_size then Inl env_error
           else if dynamic_indexes = [] \<and> length args \<noteq> head_size then Inl env_error
           else rbind (traverse (dynamic_argument args head_size) dynamic_indexes) (\<lambda>dyn.
             if \<not> dynamic_tail_ok args head_size (map fst dyn) then Inl env_error
             else rbind (validate_action_semantics sel args (zip dynamic_indexes (map snd dyn)) x) (\<lambda>_.
               Inr start))))"

definition decode_action :: "bytes \<Rightarrow> nat \<Rightarrow> nat \<Rightarrow> expected \<Rightarrow> nat \<Rightarrow> error + nat" where
  "decode_action data array_start count x index =
     rbind (calldata_word data (array_start + 32 + index * 32)) (\<lambda>relative.
     if relative mod 32 \<noteq> 0 \<or> relative < count * 32 then Inl env_error
     else let start = array_start + 32 + relative in
       rbind (calldata_word data start) (\<lambda>len. decode_call data start len x))"

text \<open>Neighbouring calls must touch: the first ends, padded, where the second starts.\<close>

fun dense :: "bytes \<Rightarrow> nat list \<Rightarrow> error + unit" where
  "dense data (s # t # rest) =
     rbind (calldata_word data s) (\<lambda>len.
       if s + 32 + padded len \<noteq> t then Inl env_error else dense data (t # rest))"
| "dense data _ = Inr ()"

definition decode_actions :: "bytes \<Rightarrow> nat \<Rightarrow> nat \<Rightarrow> expected \<Rightarrow> error + string list" where
  "decode_actions data args_start offset x =
     (if offset \<noteq> 32 + 32 * 4 then Inl env_error
      else let array_start = args_start + offset in
      rbind (calldata_word data array_start) (\<lambda>count.
      if count = 0 \<or> count > 64 then Inl env_error
      else let head_end = array_start + 32 + count * 32 in
      if head_end > length data then Inl env_error
      else rbind (traverse (decode_action data array_start count x) [0..<count]) (\<lambda>starts.
      if starts \<noteq> sort starts \<or> \<not> distinct starts \<or> hd starts \<noteq> head_end then Inl env_error
      else rbind (dense data starts) (\<lambda>_.
      rbind (calldata_word data (last starts)) (\<lambda>last_length.
      if last starts + 32 + padded last_length \<noteq> length data then Inl env_error
      else Inr (map (\<lambda>start. ''0x'' @ bytes_hex (byte_slice (start + 32) (start + 36) data)) starts))))))"

record AllowanceHolderCalldataV0 =
  ah_allowance_holder_selector :: string
  ah_operator_address :: string
  ah_sell_token :: string
  ah_sell_amount_atomic :: int
  ah_settler_target :: string
  ah_settler_selector :: string
  ah_recipient :: string
  ah_buy_token :: string
  ah_min_output_atomic :: int
  ah_action_selectors :: "string list"

text \<open>The expectations on the response fields around the calldata.\<close>

definition target_checks :: "string option \<Rightarrow> string option \<Rightarrow> string \<Rightarrow> error + unit" where
  "target_checks entry_point allowance_target target = checks
     [opt_check (address_check env_error) entry_point,
      opt_check (address_check env_error) allowance_target,
      require (case (entry_point, allowance_target) of (Some a, Some b) \<Rightarrow> a = b | _ \<Rightarrow> True) env_error,
      require (allowance_target \<noteq> Some target) env_error]"

definition decode_allowance_holder_calldata ::
  "calldata \<Rightarrow> string option \<Rightarrow> string option \<Rightarrow> expected \<Rightarrow> error + AllowanceHolderCalldataV0" where
  "decode_allowance_holder_calldata cd entry_point allowance_target x =
     rbind (calldata_bytes cd) (\<lambda>data.
     if bytes_hex (take 4 data) \<noteq> drop 2 ALLOWANCE_HOLDER_EXEC_SELECTOR then Inl env_error
     else if x_transaction_value_atomic x \<noteq> 0 then Inl env_error
     else if length data < 4 + 5 * 32 then Inl env_error
     else
     rbind (calldata_address data 4) (\<lambda>operator.
     rbind (calldata_address data (4 + 32)) (\<lambda>sell_token.
     rbind (calldata_word data (4 + 64)) (\<lambda>sell_amount.
     if sell_amount \<le> 0 \<or> int sell_amount > MAX_UINT256 then Inl env_error
     else
     rbind (calldata_address data (4 + 96)) (\<lambda>target.
     if operator \<noteq> target then Inl env_error
     else
     rbind (calldata_word data (4 + 128)) (\<lambda>inner_offset.
     rbind (calldata_dynamic_bytes data 4 inner_offset) (\<lambda>inner.
     if length inner < 4 + 5 * 32 \<or> ''0x'' @ bytes_hex (take 4 inner) \<noteq> SETTLER_EXEC_SELECTOR then Inl env_error
     else
     rbind (calldata_address inner 4) (\<lambda>recipient.
     rbind (calldata_address inner (4 + 32)) (\<lambda>buy_token.
     rbind (calldata_word inner (4 + 64)) (\<lambda>min_output.
     if min_output \<le> 0 \<or> int min_output > MAX_UINT256 then Inl env_error
     else
     rbind (calldata_word inner (4 + 96)) (\<lambda>actions_offset.
     rbind (decode_actions inner 4 actions_offset x) (\<lambda>actions.
     if \<not> list_ex (\<lambda>sel. sel \<notin> NON_SETTLEMENT_ACTION_SELECTORS) actions then Inl env_error
     else
     rbind (target_checks entry_point allowance_target target) (\<lambda>_.
     rbind (checks
       [require (agrees (x_sell_token x) sell_token) env_error,
        require (agrees (x_buy_token x) buy_token) env_error,
        require (agrees (x_sell_amount_atomic x) (int sell_amount)) env_error,
        require (agrees (x_taker_address x) recipient) env_error,
        require (case x_min_output_atomic x of None \<Rightarrow> True | Some m \<Rightarrow> \<not> int min_output < m) env_error]) (\<lambda>_.
     Inr \<lparr>ah_allowance_holder_selector = ALLOWANCE_HOLDER_EXEC_SELECTOR,
          ah_operator_address = operator, ah_sell_token = sell_token,
          ah_sell_amount_atomic = int sell_amount, ah_settler_target = target,
          ah_settler_selector = SETTLER_EXEC_SELECTOR, ah_recipient = recipient,
          ah_buy_token = buy_token, ah_min_output_atomic = int min_output,
          ah_action_selectors = actions\<rparr>))))))))))))))"

text \<open>\<open>derive_transaction_hash\<close>: the transaction hash is the Keccak hash of the signed bytes.\<close>

definition derive_transaction_hash :: "bytes \<Rightarrow> error + string" where
  "derive_transaction_hash raw =
     (if raw = [] then Inl env_error else Inr (''0x'' @ keccak256_hex raw))"

end
