(* ===== verification/Abi.thy ===== *)
theory Abi
  imports Calldata
begin

text \<open>
  The canonical ABI encoding of the two nested calls as a reference definition, and the
  regions of a byte string that the decoder reads.
\<close>

subsection \<open>Big-endian words\<close>

lemma unat_byte: "unat (b :: 8 word) < 256"
proof -
  have "unat b < 2 ^ LENGTH(8)" by (rule unsigned_less)
  then show ?thesis by simp
qed

fun to_big :: "nat \<Rightarrow> nat \<Rightarrow> bytes" where
  "to_big 0 n = []"
| "to_big (Suc k) n = to_big k (n div 256) @ [of_nat (n mod 256)]"

lemma nat_from_big_snoc [simp]: "nat_from_big (bs @ [b]) = 256 * nat_from_big bs + unat b"
  by (simp add: nat_from_big_def)

lemma nat_from_big_Nil [simp]: "nat_from_big [] = 0"
  by (simp add: nat_from_big_def)

lemma length_to_big [simp]: "length (to_big k n) = k"
  by (induction k arbitrary: n) simp_all

lemma to_big_from_big: "length bs = k \<Longrightarrow> to_big k (nat_from_big bs) = bs"
proof (induction bs arbitrary: k rule: rev_induct)
  case (snoc b bs)
  with snoc show ?case using unat_byte [of b] by (auto simp: div_add1_eq)
qed simp

lemma nat_from_big_to_big: "n < 256 ^ k \<Longrightarrow> nat_from_big (to_big k n) = n"
proof (induction k arbitrary: n)
  case (Suc k)
  then have "n div 256 < 256 ^ k" by (simp add: less_mult_imp_div_less mult.commute)
  moreover have "unat (of_nat (n mod 256) :: 8 word) = n mod 256"
    by (simp add: unat_of_nat)
  ultimately show ?case using Suc by simp
qed simp

lemma nat_from_big_less: "nat_from_big bs < 256 ^ length bs"
proof (induction bs rule: rev_induct)
  case (snoc b bs)
  with snoc show ?case using unat_byte [of b] by simp
qed simp

subsection \<open>Hexadecimal text\<close>

lemma hex_char_inj: "a < 16 \<Longrightarrow> b < 16 \<Longrightarrow> hex_char a = hex_char b \<Longrightarrow> a = b"
proof -
  assume a: "a < 16" "b < 16" and h: "hex_char a = hex_char b"
  define m n where "m = unat a" and "n = unat b"
  have mn: "m < 16" "n < 16" using a by (simp_all add: m_def n_def word_less_nat_alt)
  have "hex_char a = (if m < 10 then char_of (48 + m) else char_of (87 + m))"
    "hex_char b = (if n < 10 then char_of (48 + n) else char_of (87 + n))"
    by (simp_all add: hex_char_def m_def n_def word_less_nat_alt)
  with h have "of_char (if m < 10 then char_of (48 + m) else char_of (87 + m) :: char) =
      (of_char (if n < 10 then char_of (48 + n) else char_of (87 + n) :: char) :: nat)"
    by simp
  with mn have "m = n" by (auto split: if_splits)
  then show "a = b" by (simp add: m_def n_def word_unat_eq_iff)
qed

lemma nibbles: "(b :: 8 word) div 16 < 16" "b mod 16 < 16"
proof -
  show "b div 16 < 16" using unat_byte [of b] by (simp add: word_less_nat_alt unat_div)
  show "b mod 16 < 16" by (simp add: word_less_nat_alt unat_mod)
qed

lemma bytes_hex_simps [simp]:
  "bytes_hex [] = []" "bytes_hex (b # bs) = hex_char (b div 16) # hex_char (b mod 16) # bytes_hex bs"
  "bytes_hex (xs @ ys) = bytes_hex xs @ bytes_hex ys"
  by (simp_all add: bytes_hex_def)

lemma length_bytes_hex [simp]: "length (bytes_hex bs) = 2 * length bs"
  by (induction bs) simp_all

lemma bytes_hex_inj: "bytes_hex as = bytes_hex bs \<Longrightarrow> as = bs"
proof (induction as arbitrary: bs)
  case Nil
  then show ?case by (cases bs) simp_all
next
  case (Cons a as)
  then obtain b cs where bs: "bs = b # cs" by (cases bs) auto
  with Cons.prems have "a div 16 = b div 16" "a mod 16 = b mod 16" "bytes_hex as = bytes_hex cs"
    using hex_char_inj nibbles by auto
  moreover from this have "a = b" by (metis div_mult_mod_eq)
  ultimately show ?case using Cons.IH bs by simp
qed

lemma take_bytes_hex: "take (2 * n) (bytes_hex bs) = bytes_hex (take n bs)"
proof (induction bs arbitrary: n)
  case (Cons b bs)
  then show ?case by (cases n) simp_all
qed simp

definition selector_bytes :: "string \<Rightarrow> bytes" where
  "selector_bytes text = take 4 (keccak256 (ascii_bytes text))"

lemma selector_hex: "selector text = ''0x'' @ bytes_hex (selector_bytes text)"
  using take_bytes_hex [of 4] by (simp add: selector_def selector_bytes_def keccak256_hex_def)

lemma length_selector_bytes [simp]: "length (selector_bytes text) = 4"
  by (simp add: selector_bytes_def length_keccak256)

subsection \<open>The reference encoding\<close>

definition word32 :: "nat \<Rightarrow> bytes" where
  "word32 n = to_big 32 n"

definition address_word :: "bytes \<Rightarrow> bytes" where
  "address_word a = replicate 12 0 @ a"

definition address_text :: "bytes \<Rightarrow> string" where
  "address_text a = ''0x'' @ bytes_hex a"

definition encode_bytes :: "bytes \<Rightarrow> bytes" where
  "encode_bytes p = word32 (length p) @ p @ replicate (padded (length p) - length p) 0"

fun call_offsets :: "nat \<Rightarrow> bytes list \<Rightarrow> nat list" where
  "call_offsets b [] = []"
| "call_offsets b (p # ps) = b # call_offsets (b + 32 + padded (length p)) ps"

definition encode_calls :: "bytes list \<Rightarrow> bytes" where
  "encode_calls ps = word32 (length ps) @ concat (map word32 (call_offsets (32 * length ps) ps)) @
     concat (map encode_bytes ps)"

definition encode_execute :: "bytes \<Rightarrow> bytes \<Rightarrow> nat \<Rightarrow> bytes \<Rightarrow> bytes list \<Rightarrow> bytes" where
  "encode_execute recipient buy min_out extra ps =
     selector_bytes ''execute((address,address,uint256),bytes[],bytes32)'' @
     address_word recipient @ address_word buy @ word32 min_out @ word32 160 @ extra @ encode_calls ps"

definition encode_exec :: "bytes \<Rightarrow> bytes \<Rightarrow> nat \<Rightarrow> bytes \<Rightarrow> bytes" where
  "encode_exec settler sell amount inner =
     selector_bytes ''exec(address,address,uint256,address,bytes)'' @
     address_word settler @ address_word sell @ word32 amount @ address_word settler @ word32 160 @
     encode_bytes inner"

subsection \<open>Regions of the decoded bytes\<close>

lemma slice_append_drop: "a \<le> b \<Longrightarrow> drop a bs = byte_slice a b bs @ drop b bs"
  using append_take_drop_id [where n = "b - a" and xs = "drop a bs"] by (simp add: byte_slice_def)

lemma length_slice [simp]: "b \<le> length bs \<Longrightarrow> length (byte_slice a b bs) = b - a"
  by (simp add: byte_slice_def)

lemma all_zero_replicate: "all_zero bs \<longleftrightarrow> bs = replicate (length bs) 0"
  by (induction bs) (auto simp: all_zero_def)

lemma padded_ge: "n \<le> padded n"
  using div_mult_mod_eq [of "n + 31" 32] mod_less_divisor [of 32 "n + 31"] unfolding padded_def by linarith

lemma calldata_word_eq_Inr:
  "calldata_word data off = Inr n \<longleftrightarrow> off + 32 \<le> length data \<and> n = nat_from_big (byte_slice off (off + 32) data)"
  by (auto simp: calldata_word_def byte_slice_def)

lemma word_at:
  assumes "calldata_word data off = Inr n"
  shows "byte_slice off (off + 32) data = word32 n"
  using assms by (simp add: calldata_word_eq_Inr word32_def to_big_from_big)

definition region :: "bytes \<Rightarrow> nat \<Rightarrow> bytes \<Rightarrow> bool" where
  "region data s p \<longleftrightarrow> calldata_word data s = Inr (length p) \<and> s + 32 + padded (length p) \<le> length data \<and>
     p = byte_slice (s + 32) (s + 32 + length p) data \<and>
     all_zero (byte_slice (s + 32 + length p) (s + 32 + padded (length p)) data)"

lemma region_drop:
  assumes "region data s p"
  shows "drop s data = encode_bytes p @ drop (s + 32 + padded (length p)) data"
proof -
  let ?n = "length p"
  have n: "?n \<le> padded ?n" by (rule padded_ge)
  have w: "calldata_word data s = Inr ?n" and le: "s + 32 + padded ?n \<le> length data"
    and p: "p = byte_slice (s + 32) (s + 32 + ?n) data"
    and z: "all_zero (byte_slice (s + 32 + ?n) (s + 32 + padded ?n) data)"
    using assms unfolding region_def by blast+
  have "drop s data = byte_slice s (s + 32) data @ drop (s + 32) data" by (rule slice_append_drop) simp
  also have "drop (s + 32) data = byte_slice (s + 32) (s + 32 + ?n) data @ drop (s + 32 + ?n) data"
    by (rule slice_append_drop) simp
  also have "drop (s + 32 + ?n) data =
      byte_slice (s + 32 + ?n) (s + 32 + padded ?n) data @ drop (s + 32 + padded ?n) data"
    using n by (intro slice_append_drop) simp
  also have "byte_slice (s + 32 + ?n) (s + 32 + padded ?n) data = replicate (padded ?n - ?n) 0"
    using z [unfolded all_zero_replicate] length_slice [OF le, of "s + 32 + ?n"] by simp
  finally show ?thesis unfolding p [symmetric] word_at [OF w] encode_bytes_def append_assoc .
qed

text \<open>The payload of the call that starts at \<open>s\<close>.\<close>

definition payload :: "bytes \<Rightarrow> nat \<Rightarrow> bytes" where
  "payload data s = byte_slice (s + 32) (s + 32 + nat_from_big (byte_slice s (s + 32) data)) data"

lemma byte_slice_split:
  assumes "a \<le> b" "b \<le> c" shows "byte_slice a c bs = byte_slice a b bs @ byte_slice b c bs"
proof -
  have "take (c - a) (drop a bs) = take (b - a) (drop a bs) @ take (c - b) (drop (b - a) (drop a bs))"
    using assms take_add [of "b - a" "c - b" "drop a bs"] by simp
  then show ?thesis using assms by (simp add: byte_slice_def)
qed

lemma word_table:
  assumes "\<And>k. k < n \<Longrightarrow> byte_slice (a + 32 * k) (a + 32 * k + 32) data = w k"
  shows "byte_slice a (a + 32 * n) data = concat (map w [0..<n])"
  using assms
proof (induction n)
  case (Suc n)
  have "byte_slice a (a + 32 * Suc n) data =
      byte_slice a (a + 32 * n) data @ byte_slice (a + 32 * n) (a + 32 * n + 32) data"
    using byte_slice_split [of a "a + 32 * n" "a + 32 * n + 32" data] by (simp add: algebra_simps)
  with Suc show ?case by simp
qed (simp add: byte_slice_def)

lemma region_word: "region data s p \<Longrightarrow> calldata_word data s = Inr (length p)"
  by (simp add: region_def)

lemma dense_regions:
  assumes "dense data starts = Inr ()" "starts \<noteq> []"
    and "\<And>s. s \<in> set starts \<Longrightarrow> region data s (payload data s)"
    and "last starts + 32 + padded (length (payload data (last starts))) = length data"
  shows "drop (hd starts) data = concat (map (\<lambda>s. encode_bytes (payload data s)) starts)"
  using assms
proof (induction data starts rule: dense.induct)
  case (1 data s t rest)
  note r = "1.prems"(3) [of s, simplified]
  have t: "s + 32 + padded (length (payload data s)) = t" "dense data (t # rest) = Inr ()"
    using "1.prems"(1) region_word [OF r] by (simp_all split: if_splits)
  have "drop t data = concat (map (\<lambda>s. encode_bytes (payload data s)) (t # rest))"
    using "1.IH" [of "length (payload data s)"] t "1.prems"(3,4) by simp
  then show ?case using region_drop [OF r] unfolding t(1) by simp
qed (auto dest: region_drop)

lemma dense_offsets:
  assumes "dense data starts = Inr ()" "starts \<noteq> []" "c \<le> hd starts"
    and "\<And>s. s \<in> set starts \<Longrightarrow> region data s (payload data s)"
  shows "map (\<lambda>s. s - c) starts = call_offsets (hd starts - c) (map (payload data) starts)"
  using assms
proof (induction data starts rule: dense.induct)
  case (1 data s t rest)
  note r = "1.prems"(4) [of s, simplified]
  have t: "s + 32 + padded (length (payload data s)) = t" "dense data (t # rest) = Inr ()"
    using "1.prems"(1) region_word [OF r] by (simp_all split: if_splits)
  have "map (\<lambda>s. s - c) (t # rest) = call_offsets (t - c) (map (payload data) (t # rest))"
    using "1.IH" [of "length (payload data s)"] t "1.prems"(3,4) by simp
  moreover have "s - c + 32 + padded (length (payload data s)) = t - c"
    using t(1) "1.prems"(3) by simp
  ultimately show ?case by simp
qed simp_all

subsection \<open>The two nested calls\<close>

lemma dynamic_bytes_at:
  assumes "calldata_dynamic_bytes data a off = Inr inner"
  shows "off = 160 \<and> drop (a + 160) data = encode_bytes inner"
proof -
  have off: "off = 160" using assms by (simp add: calldata_dynamic_bytes_def split: if_splits)
  obtain len where len: "calldata_word data (a + 160) = Inr len" "a + 160 + 32 + padded len = length data"
    "all_zero (byte_slice (a + 160 + 32 + len) (a + 160 + 32 + padded len) data)"
    and inner: "inner = byte_slice (a + 160 + 32) (a + 160 + 32 + len) data"
    using assms unfolding calldata_dynamic_bytes_def Let_def off
    by (auto simp: rbind_eq_Inr split: if_splits)
  have "a + 160 + 32 + len \<le> length data" using len(2) padded_ge [of len] by simp
  then have "length inner = len" unfolding inner by simp
  with len inner have "region data (a + 160) inner" by (simp add: region_def)
  from region_drop [OF this] \<open>length inner = len\<close> len(2) off show ?thesis by simp
qed

lemma dynamic_bytes_length:
  assumes "calldata_dynamic_bytes data a off = Inr inner"
  shows "calldata_word data (a + 160) = Inr (length inner)"
proof -
  have off: "off = 160" using assms by (simp add: calldata_dynamic_bytes_def split: if_splits)
  obtain len where len: "calldata_word data (a + 160) = Inr len" "a + 160 + 32 + padded len = length data"
    and inner: "inner = byte_slice (a + 160 + 32) (a + 160 + 32 + len) data"
    using assms unfolding calldata_dynamic_bytes_def Let_def off
    by (auto simp: rbind_eq_Inr split: if_splits)
  have "a + 160 + 32 + len \<le> length data" using len(2) padded_ge [of len] by simp
  then have "length inner = len" unfolding inner by simp
  with len(1) show ?thesis by simp
qed

text \<open>A call of five words and a tail, cut at the words.\<close>

lemma five_words:
  assumes "164 \<le> length data"
  shows "data = take 4 data @ byte_slice 4 36 data @ byte_slice 36 68 data @ byte_slice 68 100 data @
    byte_slice 100 132 data @ byte_slice 132 164 data @ drop 164 data"
proof -
  have "data = take 4 data @ drop 4 data" by simp
  also have "drop 4 data = byte_slice 4 36 data @ drop 36 data" by (rule slice_append_drop) simp
  also have "drop 36 data = byte_slice 36 68 data @ drop 68 data" by (rule slice_append_drop) simp
  also have "drop 68 data = byte_slice 68 100 data @ drop 100 data" by (rule slice_append_drop) simp
  also have "drop 100 data = byte_slice 100 132 data @ drop 132 data" by (rule slice_append_drop) simp
  also have "drop 132 data = byte_slice 132 164 data @ drop 164 data" by (rule slice_append_drop) simp
  finally show ?thesis .
qed

lemma selector_at: "''0x'' @ bytes_hex (take 4 data) = selector text \<Longrightarrow> take 4 data = selector_bytes text"
  using bytes_hex_inj by (simp add: selector_hex)

end
