(* ===== verification/CanonicalCalldata.thy ===== *)
theory CanonicalCalldata
  imports Abi
begin

text \<open>
  The decoder of AllowanceHolder calldata against the reference encoding of theory \<open>Abi\<close>: it
  returns exactly on the canonical encodings of calls whose fields agree with what is
  expected, so that no byte of admitted calldata is outside the fields the code looked at.
\<close>

subsection \<open>Admitted calls\<close>

text \<open>What the decoder asks of the payload of one call.\<close>

definition call_admitted :: "expected \<Rightarrow> bytes \<Rightarrow> bool" where
  "call_admitted x p \<longleftrightarrow> 4 \<le> length p \<and>
     (case map_of ACTION_LAYOUTS (address_text (take 4 p)) of
        None \<Rightarrow> False
      | Some (arg_words, ixs) \<Rightarrow>
          arg_words * 32 \<le> length p - 4 \<and> (ixs = [] \<longrightarrow> length p - 4 = arg_words * 32) \<and>
          (\<exists>dyn. traverse (dynamic_argument (drop 4 p) (arg_words * 32)) ixs = Inr dyn \<and>
             dynamic_tail_ok (drop 4 p) (arg_words * 32) (map fst dyn) \<and>
             validate_action_semantics (address_text (take 4 p)) (drop 4 p) (zip ixs (map snd dyn)) x = Inr ()))"

lemma region_slices:
  assumes "region data s p" "4 \<le> length p"
  shows "byte_slice (s + 32) (s + 36) data = take 4 p"
    and "byte_slice (s + 36) (s + 32 + length p) data = drop 4 p"
proof -
  have p: "p = byte_slice (s + 32) (s + 32 + length p) data" using assms(1) by (simp add: region_def)
  have "byte_slice (s + 32) (s + 36) data = take 4 (byte_slice (s + 32) (s + 32 + length p) data)"
    using assms(2) by (simp add: byte_slice_def min_def)
  then show "byte_slice (s + 32) (s + 36) data = take 4 p" using p by simp
  have "byte_slice (s + 36) (s + 32 + length p) data = drop 4 (byte_slice (s + 32) (s + 32 + length p) data)"
    using assms(2) by (simp add: byte_slice_def drop_take add.commute)
  then show "byte_slice (s + 36) (s + 32 + length p) data = drop 4 p" using p by simp
qed

lemma guarded_chain:
  "(if A then Inl e1 else if B \<and> C then Inl e2 else rbind T (\<lambda>d. if \<not> P d then Inl e3 else rbind (V d) (\<lambda>_. Inr s))) = Inr t
   \<longleftrightarrow> t = s \<and> \<not> A \<and> (B \<longrightarrow> \<not> C) \<and> (\<exists>d. T = Inr d \<and> P d \<and> V d = Inr ())"
  by (cases T) (auto simp: rbind_eq_Inr)

lemma conj_reorder:
  "P \<Longrightarrow> (A \<and> B \<and> (C \<longrightarrow> \<not> D \<noteq> E) \<and> Q) = (A \<and> P \<and> B \<and> (C \<longrightarrow> D = E) \<and> Q)"
  by blast

lemma decode_call_eq_Inr:
  assumes "calldata_word data s = Inr len"
  shows "decode_call data s len x = Inr t \<longleftrightarrow> t = s \<and> region data s (payload data s) \<and> call_admitted x (payload data s)"
proof -
  have pay: "payload data s = byte_slice (s + 32) (s + 32 + len) data"
    using assms by (simp add: payload_def calldata_word_eq_Inr)
  show ?thesis
  proof (cases "len < 4 \<or> s + 32 + padded len > length data \<or> \<not> all_zero (byte_slice (s + 32 + len) (s + 32 + padded len) data)")
    case True
    have "\<not> (region data s (payload data s) \<and> call_admitted x (payload data s))"
    proof
      assume r: "region data s (payload data s) \<and> call_admitted x (payload data s)"
      then have "length (payload data s) = len" using assms by (simp add: region_def)
      with r True show False unfolding region_def call_admitted_def by auto
    qed
    with True show ?thesis by (auto simp: decode_call_def)
  next
    case False
    then have f: "4 \<le> len" "s + 32 + padded len \<le> length data"
      "all_zero (byte_slice (s + 32 + len) (s + 32 + padded len) data)" by auto
    then have len: "length (payload data s) = len" unfolding pay using padded_ge [of len] by simp
    have reg: "region data s (payload data s)" unfolding region_def len using assms f pay by simp
    note sl = region_slices [OF reg, unfolded len, OF f(1)]
    have la: "length (drop 4 (payload data s)) = len - 4" by (simp add: len)
    have "decode_call data s len x = Inr t \<longleftrightarrow> t = s \<and> call_admitted x (payload data s)"
    proof (cases "map_of ACTION_LAYOUTS (address_text (take 4 (payload data s)))")
      case None
      then show ?thesis
        unfolding decode_call_def Let_def sl call_admitted_def len address_text_def la using f by simp
    next
      case (Some layout)
      obtain w ixs where l: "layout = (w, ixs)" by (cases layout)
      show ?thesis
        unfolding decode_call_def Let_def sl call_admitted_def len la address_text_def [symmetric] Some l
          option.case prod.case guarded_chain not_less if_not_P [OF False]
        by (rule conj_reorder [OF f(1)])
    qed
    with reg show ?thesis by blast
  qed
qed

lemma decode_action_eq_Inr:
  "decode_action data a count x k = Inr s \<longleftrightarrow>
   (\<exists>relative. calldata_word data (a + 32 + k * 32) = Inr relative \<and> relative mod 32 = 0 \<and> count * 32 \<le> relative \<and>
      s = a + 32 + relative \<and> region data s (payload data s) \<and> call_admitted x (payload data s))"
  (is "?L \<longleftrightarrow> ?R")
proof
  assume ?L
  then obtain rel where rel: "calldata_word data (a + 32 + k * 32) = Inr rel" "rel mod 32 = 0" "count * 32 \<le> rel"
    and rest: "rbind (calldata_word data (a + 32 + rel)) (\<lambda>len. decode_call data (a + 32 + rel) len x) = Inr s"
    unfolding decode_action_def Let_def by (auto simp: not_less rbind_eq_Inr [of "calldata_word data (a + 32 + k * 32)"] split: if_splits)
  obtain len where w: "calldata_word data (a + 32 + rel) = Inr len" and c: "decode_call data (a + 32 + rel) len x = Inr s"
    using rest unfolding rbind_eq_Inr by blast
  have d: "s = a + 32 + rel" "region data s (payload data s)" "call_admitted x (payload data s)"
    using c [unfolded decode_call_eq_Inr [OF w]] by simp_all
  show ?R by (intro exI [of _ rel] conjI rel d)
next
  assume ?R
  then obtain rel where r: "calldata_word data (a + 32 + k * 32) = Inr rel \<and> rel mod 32 = 0 \<and> count * 32 \<le> rel \<and>
      s = a + 32 + rel \<and> region data s (payload data s) \<and> call_admitted x (payload data s)" ..
  then have w: "calldata_word data s = Inr (length (payload data s))"
    by (auto dest: region_word)
  then have c: "decode_call data s (length (payload data s)) x = Inr s"
    unfolding decode_call_eq_Inr [OF w] using r by (intro conjI refl) (elim conjE, assumption)+
  have "decode_action data a count x k = rbind (calldata_word data s) (\<lambda>len. decode_call data s len x)"
    using r by (simp add: decode_action_def not_less Let_def)
  also have "\<dots> = Inr s" unfolding w by (simp add: c)
  finally show ?L .
qed

subsection \<open>Decoding an encoding\<close>

lemma word32_at:
  assumes "drop off data = word32 n @ rest" "n < 2 ^ 256" "off + 32 \<le> length data"
  shows "calldata_word data off = Inr n"
proof -
  have "byte_slice off (off + 32) data = word32 n" using assms(1) by (simp add: byte_slice_def word32_def)
  moreover have "nat_from_big (word32 n) = n"
    unfolding word32_def using assms(2) by (intro nat_from_big_to_big) simp
  ultimately show ?thesis using assms(3) by (simp add: calldata_word_eq_Inr)
qed

lemma length_word32 [simp]: "length (word32 n) = 32"
  by (simp add: word32_def)

lemma length_encode_bytes [simp]: "length (encode_bytes p) = 32 + padded (length p)"
  using padded_ge [of "length p"] by (simp add: encode_bytes_def)

lemma region_encoded:
  assumes "drop s data = encode_bytes p @ rest" "length p < 2 ^ 256"
  shows "region data s p" "payload data s = p"
proof -
  let ?n = "length p"
  have n: "?n \<le> padded ?n" by (rule padded_ge)
  have len: "length (drop s data) = 32 + padded ?n + length rest" using assms(1) by simp
  then have le: "s + 32 + padded ?n \<le> length data" by simp
  have w: "calldata_word data s = Inr ?n"
    using assms le by (intro word32_at [where rest = "p @ replicate (padded ?n - ?n) 0 @ rest"])
      (simp_all add: encode_bytes_def)
  have d: "drop (s + 32) data = p @ replicate (padded ?n - ?n) 0 @ rest"
    using arg_cong [OF assms(1), of "drop 32"] by (simp add: encode_bytes_def add.commute)
  then have p: "byte_slice (s + 32) (s + 32 + ?n) data = p" by (simp add: byte_slice_def)
  have "drop (s + 32 + ?n) data = replicate (padded ?n - ?n) 0 @ rest"
    using arg_cong [OF d, of "drop ?n"] by (simp add: add.commute add.left_commute)
  then have "byte_slice (s + 32 + ?n) (s + 32 + padded ?n) data = replicate (padded ?n - ?n) 0"
    by (simp add: byte_slice_def)
  with w le p show "region data s p" by (simp add: region_def all_zero_replicate)
  show "payload data s = p" using w p by (simp add: payload_def calldata_word_eq_Inr)
qed

lemma length_call_offsets [simp]: "length (call_offsets b ps) = length ps"
  by (induction b ps rule: call_offsets.induct) simp_all

lemma call_offsets_Nil_iff [simp]: "call_offsets b ps = [] \<longleftrightarrow> ps = []"
  by (cases ps) simp_all

text \<open>The tail of the encoded calls at the offset of the \<open>k\<close>-th.\<close>

lemma call_offsets_drop:
  assumes "k < length ps"
  shows "b \<le> call_offsets b ps ! k \<and>
    drop (call_offsets b ps ! k - b) (concat (map encode_bytes ps)) = concat (map encode_bytes (drop k ps)) \<and>
    call_offsets b ps ! k - b < length (concat (map encode_bytes ps)) \<and>
    (b mod 32 = 0 \<longrightarrow> call_offsets b ps ! k mod 32 = 0)"
  using assms
proof (induction b ps arbitrary: k rule: call_offsets.induct)
  case (2 b p ps)
  show ?case
  proof (cases k)
    case (Suc j)
    let ?c = "b + 32 + padded (length p)"
    have IH: "?c \<le> call_offsets ?c ps ! j"
      "drop (call_offsets ?c ps ! j - ?c) (concat (map encode_bytes ps)) = concat (map encode_bytes (drop j ps))"
      "call_offsets ?c ps ! j - ?c < length (concat (map encode_bytes ps))"
      "?c mod 32 = 0 \<longrightarrow> call_offsets ?c ps ! j mod 32 = 0"
      using "2.IH" [of j] "2.prems" Suc by simp_all
    have e: "call_offsets ?c ps ! j - b = length (encode_bytes p) + (call_offsets ?c ps ! j - ?c)"
      using IH(1) by simp
    have "b mod 32 = 0 \<longrightarrow> ?c mod 32 = 0" by (simp add: padded_def mod_add_eq [symmetric])
    moreover have "drop (call_offsets ?c ps ! j - b) (concat (map encode_bytes (p # ps))) =
        drop (call_offsets ?c ps ! j - ?c) (concat (map encode_bytes ps))"
      unfolding e by simp
    moreover have "call_offsets ?c ps ! j - b < length (concat (map encode_bytes (p # ps)))"
      unfolding e using IH(3) by simp
    ultimately show ?thesis using IH Suc by simp
  qed simp
qed simp

lemma call_offsets_sorted: "sorted_wrt (<) (call_offsets b ps) \<and> list_all (\<lambda>o'. b \<le> o') (call_offsets b ps)"
proof (induction b ps rule: call_offsets.induct)
  case (2 b p ps)
  then have "\<forall>o' \<in> set (call_offsets (b + 32 + padded (length p)) ps). b < o'"
    by (auto simp: list_all_iff)
  with 2 show ?case by (auto simp: list_all_iff intro: less_imp_le)
qed simp

lemma drop_words: "drop (32 * k) (concat (map word32 os)) = concat (map word32 (drop k os))"
proof (induction os arbitrary: k)
  case (Cons n ns)
  then show ?case by (cases k) simp_all
qed simp

lemma length_words [simp]: "length (concat (map word32 os)) = 32 * length os"
  by (induction os) simp_all

lemma last_call_offset:
  "ps \<noteq> [] \<Longrightarrow> last (call_offsets b ps) + 32 + padded (length (last ps)) = b + length (concat (map encode_bytes ps))"
proof (induction b ps rule: call_offsets.induct)
  case (2 b p ps)
  then show ?case by (cases ps) simp_all
qed simp

lemma dense_call_offsets:
  assumes "\<And>k. k < length ps \<Longrightarrow> calldata_word data (c + call_offsets b ps ! k) = Inr (length (ps ! k))"
  shows "dense data (map ((+) c) (call_offsets b ps)) = Inr ()"
  using assms
proof (induction b ps rule: call_offsets.induct)
  case (2 b p ps)
  have w: "calldata_word data (c + b) = Inr (length p)" using "2.prems" [of 0] by simp
  have IH: "dense data (map ((+) c) (call_offsets (b + 32 + padded (length p)) ps)) = Inr ()"
    by (rule "2.IH") (use "2.prems" [of "Suc _"] in simp)
  then show ?case by (cases ps) (simp_all add: w add.assoc)
qed simp

lemma start_facts:
  assumes enc: "drop a data = encode_calls ps" and k: "k < length ps" and small: "length data < 2 ^ 256"
    and a: "a \<le> length data"
  defines "s \<equiv> a + 32 + call_offsets (32 * length ps) ps ! k"
  shows "calldata_word data (a + 32 + 32 * k) = Inr (call_offsets (32 * length ps) ps ! k)"
    "region data s (ps ! k)" "payload data s = ps ! k"
    "32 * length ps \<le> call_offsets (32 * length ps) ps ! k" "call_offsets (32 * length ps) ps ! k mod 32 = 0"
proof -
  let ?os = "call_offsets (32 * length ps) ps" and ?tail = "concat (map encode_bytes ps)"
  note o' = call_offsets_drop [OF k, of "32 * length ps"]
  show le: "32 * length ps \<le> ?os ! k" and "?os ! k mod 32 = 0" using o' by simp_all
  have size: "length data = a + 32 + 32 * length ps + length ?tail"
    using arg_cong [OF enc, of length] a by (simp add: encode_calls_def)
  have less: "?os ! k < 2 ^ 256" using o' size small le by linarith
  have body: "drop (a + 32) data = concat (map word32 ?os) @ ?tail"
    using arg_cong [OF enc, of "drop 32"] by (simp add: encode_calls_def add.commute)
  have "drop (a + 32 + 32 * k) data = concat (map word32 (drop k ?os)) @ ?tail"
    using arg_cong [OF body, of "drop (32 * k)"] k
    by (simp add: drop_words add.commute add.left_commute del: length_words) (simp add: length_words)
  also have "drop k ?os = ?os ! k # drop (Suc k) ?os" using k by (simp add: Cons_nth_drop_Suc)
  finally show "calldata_word data (a + 32 + 32 * k) = Inr (?os ! k)"
    using less size k by (intro word32_at) (simp_all)
  have "drop s data = drop (?os ! k - 32 * length ps) ?tail"
    using arg_cong [OF body, of "drop (?os ! k)"] le
    by (simp add: s_def add.commute add.left_commute)
  also have "\<dots> = concat (map encode_bytes (drop k ps))" using o' by blast
  also have "drop k ps = ps ! k # drop (Suc k) ps" using k by (simp add: Cons_nth_drop_Suc)
  finally have d: "drop s data = encode_bytes (ps ! k) @ concat (map encode_bytes (drop (Suc k) ps))" by simp
  have "length (ps ! k) \<le> length (drop s data)" unfolding d using padded_ge [of "length (ps ! k)"] by simp
  then have "length (ps ! k) < 2 ^ 256" using small by simp
  from region_encoded [OF d this] show "region data s (ps ! k)" "payload data s = ps ! k" .
qed

definition calls_admitted :: "expected \<Rightarrow> bytes list \<Rightarrow> bool" where
  "calls_admitted x ps \<longleftrightarrow> 0 < length ps \<and> length ps \<le> 64 \<and> list_all (call_admitted x) ps"

lemma decode_actions_of_encoding:
  assumes enc: "drop (b + 160) data = encode_calls ps" and small: "length data < 2 ^ 256"
    and adm: "calls_admitted x ps"
  shows "decode_actions data b 160 x = Inr (map (\<lambda>p. address_text (take 4 p)) ps)"
proof -
  let ?a = "b + 160" and ?n = "length ps"
  let ?os = "call_offsets (32 * ?n) ps" and ?tail = "concat (map encode_bytes ps)"
  define starts where "starts = map ((+) (?a + 32)) ?os"
  have n: "0 < ?n" "?n \<le> 64" and calls: "\<And>k. k < ?n \<Longrightarrow> call_admitted x (ps ! k)"
    using adm by (auto simp: calls_admitted_def list_all_length)
  have a: "?a \<le> length data"
    using arg_cong [OF enc, of length] by (simp add: encode_calls_def)
  note f = start_facts [OF enc _ small a]
  have size: "length data = ?a + 32 + 32 * ?n + length ?tail"
    using arg_cong [OF enc, of length] a by (simp add: encode_calls_def)
  have count: "calldata_word data ?a = Inr ?n"
    using size n(2) enc by (intro word32_at) (simp_all add: encode_calls_def)
  have st: "starts ! k = ?a + 32 + ?os ! k" if "k < ?n" for k using that by (simp add: starts_def)
  have "list_all2 (\<lambda>k s. decode_action data ?a ?n x k = Inr s) [0..<?n] starts"
  proof (rule list_all2_all_nthI)
    fix k assume "k < length [0..<?n]"
    then have k: "k < ?n" by simp
    show "decode_action data ?a ?n x ([0..<?n] ! k) = Inr (starts ! k)"
      unfolding decode_action_eq_Inr st [OF k]
      using f [OF k] calls [OF k] k by (intro exI [of _ "?os ! k"]) (simp add: mult.commute)
  qed (simp add: starts_def)
  then have trav: "traverse (decode_action data ?a ?n x) [0..<?n] = Inr starts" by (simp add: traverse_eq_Inr)
  have ne: "ps \<noteq> []" "starts \<noteq> []" using n(1) by (auto simp: starts_def)
  have "sorted_wrt (<) starts" using call_offsets_sorted by (simp add: starts_def sorted_wrt_map)
  then have srt: "sort starts = starts" "distinct starts"
    by (simp_all add: strict_sorted_iff sorted_sort_id)
  have hd: "hd starts = ?a + 32 + ?n * 32" using ne by (cases ps) (simp_all add: starts_def)
  have dns: "dense data starts = Inr ()"
    unfolding starts_def using f(2) by (intro dense_call_offsets) (auto dest: region_word)
  have lst: "last starts = starts ! (?n - 1)" using ne by (simp add: last_conv_nth starts_def)
  then have lastw: "calldata_word data (last starts) = Inr (length (last ps))"
    using f(2) [of "?n - 1"] n ne st [of "?n - 1"] by (simp add: region_word last_conv_nth)
  have lasts: "last starts + 32 + padded (length (last ps)) = length data"
    using last_call_offset [OF ne(1), of "32 * ?n"] size ne by (simp add: starts_def last_map)
  have sels: "map (\<lambda>s. ''0x'' @ bytes_hex (byte_slice (s + 32) (s + 36) data)) starts = map (\<lambda>p. address_text (take 4 p)) ps"
  proof (rule nth_equalityI)
    fix k assume "k < length (map (\<lambda>s. ''0x'' @ bytes_hex (byte_slice (s + 32) (s + 36) data)) starts)"
    then have k: "k < ?n" by (simp add: starts_def)
    have "4 \<le> length (ps ! k)" using calls [OF k] by (simp add: call_admitted_def)
    from region_slices(1) [OF f(2) [OF k] this] k
    show "map (\<lambda>s. ''0x'' @ bytes_hex (byte_slice (s + 32) (s + 36) data)) starts ! k = map (\<lambda>p. address_text (take 4 p)) ps ! k"
      by (simp add: starts_def address_text_def)
  qed (simp add: starts_def)
  have head: "?a + 32 + ?n * 32 \<le> length data" using size by simp
  show ?thesis
    unfolding decode_actions_def Let_def
    using n head by (simp add: count trav srt hd dns lastw lasts sels [simplified])
qed

lemma decode_actions_facts:
  assumes "decode_actions data b off x = Inr sels"
  obtains ps where "off = 160" "drop (b + 160) data = encode_calls ps" "calls_admitted x ps"
    "sels = map (\<lambda>p. address_text (take 4 p)) ps"
proof -
  let ?a = "b + 160"
  have o': "off = 160" using assms by (simp add: decode_actions_def split: if_splits)
  obtain count where count: "calldata_word data ?a = Inr count" "0 < count" "count \<le> 64"
    and r1: "rbind (traverse (decode_action data ?a count x) [0..<count]) (\<lambda>starts.
      if starts \<noteq> sort starts \<or> \<not> distinct starts \<or> hd starts \<noteq> ?a + 32 + count * 32 then Inl env_error
      else rbind (dense data starts) (\<lambda>_.
      rbind (calldata_word data (last starts)) (\<lambda>last_length.
      if last starts + 32 + padded last_length \<noteq> length data then Inl env_error
      else Inr (map (\<lambda>start. ''0x'' @ bytes_hex (byte_slice (start + 32) (start + 36) data)) starts)))) = Inr sels"
    using assms o' unfolding decode_actions_def Let_def
    by (auto simp: rbind_eq_Inr [of "calldata_word data _"] split: if_splits)
  obtain starts where trav: "traverse (decode_action data ?a count x) [0..<count] = Inr starts"
    and hd: "hd starts = ?a + 32 + count * 32" and dense: "dense data starts = Inr ()"
    and last: "\<exists>n. calldata_word data (last starts) = Inr n \<and> last starts + 32 + padded n = length data"
    and sels: "sels = map (\<lambda>start. ''0x'' @ bytes_hex (byte_slice (start + 32) (start + 36) data)) starts"
    using r1 by (auto simp: rbind_eq_Inr split: if_splits)
  have all2: "list_all2 (\<lambda>k s. decode_action data ?a count x k = Inr s) [0..<count] starts"
    using trav by (simp add: traverse_eq_Inr)
  then have len: "length starts = count" by (simp add: list_all2_lengthD [symmetric])
  have at: "calldata_word data (?a + 32 + k * 32) = Inr (starts ! k - (?a + 32))"
    "region data (starts ! k) (payload data (starts ! k))" "call_admitted x (payload data (starts ! k))"
    if "k < count" for k
    using list_all2_nthD [OF all2, of k] that unfolding decode_action_eq_Inr by auto
  have mem: "\<exists>k < count. s = starts ! k" if "s \<in> set starts" for s
    using that len by (metis in_set_conv_nth)
  have reg: "region data s (payload data s)" and adm: "call_admitted x (payload data s)" if "s \<in> set starts" for s
    using mem [OF that] at by blast+
  define ps where "ps = map (payload data) starts"
  have ne: "starts \<noteq> []" using len count(2) by auto
  have lps: "length ps = count" by (simp add: ps_def len)
  have tails: "drop (hd starts) data = concat (map encode_bytes ps)"
    using dense_regions [OF dense ne reg] last region_word [OF reg [OF last_in_set [OF ne]]]
    by (simp add: ps_def comp_def)
  have offs: "map (\<lambda>s. s - (?a + 32)) starts = call_offsets (32 * count) ps"
    using dense_offsets [OF dense ne _ reg, of "?a + 32"] hd by (simp add: ps_def mult.commute)
  have "byte_slice (?a + 32) (?a + 32 + 32 * count) data =
      concat (map (\<lambda>k. word32 (starts ! k - (?a + 32))) [0..<count])"
    by (rule word_table) (use word_at [OF at(1)] in \<open>simp add: mult.commute\<close>)
  also have "map (\<lambda>k. word32 (starts ! k - (?a + 32))) [0..<count] = map word32 (map (\<lambda>s. s - (?a + 32)) starts)"
    using len by (auto intro!: nth_equalityI)
  finally have heads: "byte_slice (?a + 32) (?a + 32 + 32 * count) data =
      concat (map word32 (call_offsets (32 * count) ps))" unfolding offs .
  have "drop ?a data = byte_slice ?a (?a + 32) data @ drop (?a + 32) data" by (rule slice_append_drop) simp
  also have "drop (?a + 32) data = byte_slice (?a + 32) (?a + 32 + 32 * count) data @ drop (?a + 32 + 32 * count) data"
    by (rule slice_append_drop) simp
  also have "drop (?a + 32 + 32 * count) data = concat (map encode_bytes ps)"
    using tails hd by (simp add: mult.commute)
  finally have enc: "drop ?a data = encode_calls ps"
    unfolding encode_calls_def heads word_at [OF count(1)] lps .
  have "sels = map (\<lambda>p. address_text (take 4 p)) ps"
    unfolding sels ps_def map_map comp_def address_text_def
    using region_slices(1) [OF reg] adm by (simp add: call_admitted_def)
  moreover have "calls_admitted x ps"
    using count lps adm by (simp add: calls_admitted_def ps_def list_all_iff)
  ultimately show thesis using that [OF o' enc] by blast
qed

subsection \<open>Accounts\<close>

definition account :: "bytes \<Rightarrow> bool" where
  "account a \<longleftrightarrow> length a = 20 \<and> a \<noteq> replicate 20 0"

lemma hex_char_lower: "b < 16 \<Longrightarrow> is_lower_hex (hex_char b)"
  by (auto simp: hex_char_def is_lower_hex_def is_digit_def word_less_nat_alt)

lemma bytes_hex_lower: "list_all is_lower_hex (bytes_hex bs)"
  by (induction bs) (simp_all add: hex_char_lower nibbles)

lemma hex_char_zero: "hex_char 0 = CHR ''0''"
  by code_simp

lemma hex_char_zero_iff: "b < 16 \<Longrightarrow> hex_char b = CHR ''0'' \<or> hex_char b = newline \<longleftrightarrow> b = 0"
  using hex_char_lower [of b] hex_char_inj [of b 0] by (auto simp: hex_char_zero is_lower_hex_def newline_def is_digit_def)

lemma bytes_hex_zero: "list_all (\<lambda>c. c = CHR ''0'' \<or> c = newline) (bytes_hex a) \<longleftrightarrow> list_all (\<lambda>b. b = 0) a"
proof (induction a)
  case (Cons b bs)
  have "b div 16 = 0 \<and> b mod 16 = 0 \<longleftrightarrow> b = 0" by (metis add_0 mult_zero_left div_0 mod_0 div_mult_mod_eq)
  with Cons show ?case by (auto simp: hex_char_zero_iff nibbles)
qed simp

lemma address_text_check:
  assumes "length a = 20"
  shows "address_check e (address_text a) = Inr () \<longleftrightarrow> a \<noteq> replicate 20 0"
proof -
  have "EVM_ADDRESS_RE (address_text a)"
    using assms by (simp add: EVM_ADDRESS_RE_def matches_line_def address_text_def bytes_hex_lower)
  moreover have "hex_text_is_zero (address_text a) \<longleftrightarrow> list_all (\<lambda>b. b = 0) a"
    by (simp add: hex_text_is_zero_def address_text_def bytes_hex_zero)
  moreover have "list_all (\<lambda>b. b = 0) a \<longleftrightarrow> a = replicate 20 0"
    using assms all_zero_replicate [of a] by (simp add: all_zero_def)
  ultimately show ?thesis by (simp add: check_eq_Inr)
qed

lemma calldata_address_eq_Inr:
  "calldata_address data off = Inr t \<longleftrightarrow>
   (\<exists>a. byte_slice off (off + 32) data = address_word a \<and> account a \<and> t = address_text a)"
proof -
  let ?w = "take 32 (drop off data)"
  have w: "?w = byte_slice off (off + 32) data" by (simp add: byte_slice_def)
  show ?thesis
  proof
    assume l: "calldata_address data off = Inr t"
    then have c: "length ?w = 32" "take 12 ?w = replicate 12 0" "t = address_text (drop 12 ?w)"
      "address_check env_error (address_text (drop 12 ?w)) = Inr ()"
      by (auto simp: calldata_address_def Let_def rbind_eq_Inr address_text_def split: if_splits)
    have "?w = take 12 ?w @ drop 12 ?w" by (rule append_take_drop_id [symmetric])
    then have "?w = address_word (drop 12 ?w)" unfolding c(2) address_word_def .
    moreover have "length (drop 12 ?w) = 20" using c(1) by simp
    ultimately show "\<exists>a. byte_slice off (off + 32) data = address_word a \<and> account a \<and> t = address_text a"
      using c(3,4) address_text_check [of "drop 12 ?w"] unfolding w account_def by blast
  next
    assume "\<exists>a. byte_slice off (off + 32) data = address_word a \<and> account a \<and> t = address_text a"
    then obtain a where a: "?w = address_word a" "account a" "t = address_text a" unfolding w by blast
    then show "calldata_address data off = Inr t"
      using address_text_check [of a env_error]
      by (simp add: calldata_address_def Let_def account_def address_word_def address_text_def)
  qed
qed

definition bound_by :: "expected \<Rightarrow> bytes \<Rightarrow> nat \<Rightarrow> bytes \<Rightarrow> bytes \<Rightarrow> nat \<Rightarrow> bool" where
  "bound_by x sell amount recipient buy min_out \<longleftrightarrow> x_transaction_value_atomic x = 0 \<and>
     agrees (x_sell_token x) (address_text sell) \<and> agrees (x_buy_token x) (address_text buy) \<and>
     agrees (x_sell_amount_atomic x) (int amount) \<and> agrees (x_taker_address x) (address_text recipient) \<and>
     (case x_min_output_atomic x of None \<Rightarrow> True | Some m \<Rightarrow> m \<le> int min_out)"

text \<open>Fields that a bounded call may have.\<close>

definition exec_admitted ::
  "expected \<Rightarrow> bytes \<Rightarrow> bytes \<Rightarrow> nat \<Rightarrow> bytes \<Rightarrow> bytes \<Rightarrow> nat \<Rightarrow> bytes \<Rightarrow> bytes list \<Rightarrow> bool" where
  "exec_admitted x settler sell amount recipient buy min_out extra ps \<longleftrightarrow>
     account settler \<and> account sell \<and> account recipient \<and> account buy \<and> length extra = 32 \<and>
     0 < amount \<and> amount < 2 ^ 256 \<and> 0 < min_out \<and> min_out < 2 ^ 256 \<and>
     length (encode_execute recipient buy min_out extra ps) < 2 ^ 256 \<and> calls_admitted x ps \<and>
     list_ex (\<lambda>p. address_text (take 4 p) \<notin> NON_SETTLEMENT_ACTION_SELECTORS) ps \<and>
     bound_by x sell amount recipient buy min_out"

lemma word_at_less: "calldata_word data off = Inr n \<Longrightarrow> n < 2 ^ 256"
proof -
  assume "calldata_word data off = Inr n"
  then have "off + 32 \<le> length data" "n = nat_from_big (byte_slice off (off + 32) data)"
    by (simp_all add: calldata_word_eq_Inr)
  then show ?thesis using nat_from_big_less [of "byte_slice off (off + 32) data"] by simp
qed

text \<open>What the whole decoder has checked when it returns.\<close>

lemma decode_eq_Inr:
  assumes "decode_allowance_holder_calldata cd ep atg x = Inr r"
  obtains data operator sell amount off inner recipient buy min_out aoff sels where
    "calldata_bytes cd = Inr data" "''0x'' @ bytes_hex (take 4 data) = ALLOWANCE_HOLDER_EXEC_SELECTOR"
    "164 \<le> length data" "calldata_address data 4 = Inr operator" "calldata_address data 36 = Inr sell"
    "calldata_word data 68 = Inr amount" "calldata_address data 100 = Inr operator"
    "calldata_word data 132 = Inr off" "calldata_dynamic_bytes data 4 off = Inr inner"
    "164 \<le> length inner" "''0x'' @ bytes_hex (take 4 inner) = SETTLER_EXEC_SELECTOR"
    "calldata_address inner 4 = Inr recipient" "calldata_address inner 36 = Inr buy"
    "calldata_word inner 68 = Inr min_out" "calldata_word inner 100 = Inr aoff"
    "decode_actions inner 4 aoff x = Inr sels" "0 < amount" "0 < min_out"
    "target_checks ep atg operator = Inr ()" "x_transaction_value_atomic x = 0" "list_ex (\<lambda>sel. sel \<notin> NON_SETTLEMENT_ACTION_SELECTORS) sels"
    "agrees (x_sell_token x) sell" "agrees (x_buy_token x) buy" "agrees (x_sell_amount_atomic x) (int amount)"
    "agrees (x_taker_address x) recipient"
    "case x_min_output_atomic x of None \<Rightarrow> True | Some m \<Rightarrow> m \<le> int min_out"
    "r = \<lparr>ah_allowance_holder_selector = ALLOWANCE_HOLDER_EXEC_SELECTOR, ah_operator_address = operator,
      ah_sell_token = sell, ah_sell_amount_atomic = int amount, ah_settler_target = operator,
      ah_settler_selector = SETTLER_EXEC_SELECTOR, ah_recipient = recipient, ah_buy_token = buy,
      ah_min_output_atomic = int min_out, ah_action_selectors = sels\<rparr>"
proof -
  have sel: "''0x'' @ drop 2 ALLOWANCE_HOLDER_EXEC_SELECTOR = ALLOWANCE_HOLDER_EXEC_SELECTOR"
    by (simp add: ALLOWANCE_HOLDER_EXEC_SELECTOR_def selector_def)
  show thesis
    using assms unfolding decode_allowance_holder_calldata_def
    by (auto simp: rbind_eq_Inr not_less res_simps sel [simplified] intro!: that split: if_splits option.splits)
qed


subsection \<open>Both nested calls\<close>

lemma selector_of_bytes: "take 4 data = selector_bytes text \<Longrightarrow> ''0x'' @ bytes_hex (take 4 data) = selector text"
  by (simp add: selector_hex)

lemma five_word_slices:
  assumes "data = w0 @ w1 @ w2 @ w3 @ w4 @ w5 @ rest"
    and "length w0 = 4" "length w1 = 32" "length w2 = 32" "length w3 = 32" "length w4 = 32" "length w5 = 32"
  shows "take 4 data = w0" "byte_slice 4 36 data = w1" "byte_slice 36 68 data = w2" "byte_slice 68 100 data = w3"
    "byte_slice 100 132 data = w4" "drop 164 data = rest" "164 \<le> length data"
    "drop 68 data = w3 @ w4 @ w5 @ rest" "drop 100 data = w4 @ w5 @ rest" "drop 132 data = w5 @ rest"
  using assms(2-) unfolding assms(1) by (simp_all add: byte_slice_def)

lemma length_address_word: "account a \<Longrightarrow> length (address_word a) = 32"
  by (simp add: address_word_def account_def)

lemma execute_is_encoding:
  assumes "164 \<le> length inner" "''0x'' @ bytes_hex (take 4 inner) = SETTLER_EXEC_SELECTOR"
    and "calldata_address inner 4 = Inr recipient" "calldata_address inner 36 = Inr buy"
    and "calldata_word inner 68 = Inr min_out" "calldata_word inner 100 = Inr off"
    and "decode_actions inner 4 off x = Inr sels"
  obtains rec b extra ps where "account rec" "account b" "length extra = 32"
    "recipient = address_text rec" "buy = address_text b" "inner = encode_execute rec b min_out extra ps"
    "sels = map (\<lambda>p. address_text (take 4 p)) ps" "calls_admitted x ps"
proof -
  obtain rec where rec: "byte_slice 4 36 inner = address_word rec" "account rec" "recipient = address_text rec"
    using assms(3) unfolding calldata_address_eq_Inr by auto
  obtain b where b: "byte_slice 36 68 inner = address_word b" "account b" "buy = address_text b"
    using assms(4) unfolding calldata_address_eq_Inr by auto
  obtain ps where ps: "off = 160" "drop 164 inner = encode_calls ps" "calls_admitted x ps"
    "sels = map (\<lambda>p. address_text (take 4 p)) ps"
    using decode_actions_facts [OF assms(7)] by auto
  have sel: "take 4 inner = selector_bytes ''execute((address,address,uint256),bytes[],bytes32)''"
    using assms(2) unfolding SETTLER_EXEC_SELECTOR_def by (rule selector_at)
  have w: "byte_slice 68 100 inner = word32 min_out" "byte_slice 100 132 inner = word32 160"
    using word_at [OF assms(5)] word_at [OF assms(6)] ps(1) by simp_all
  have "inner = encode_execute rec b min_out (byte_slice 132 164 inner) ps"
    unfolding encode_execute_def sel [symmetric] rec(1) [symmetric] b(1) [symmetric] w [symmetric] ps(2) [symmetric]
    by (rule five_words [OF assms(1)])
  moreover have "length (byte_slice 132 164 inner) = 32" using assms(1) by simp
  ultimately show thesis using that rec b ps by blast
qed

lemma execute_encoding_decodes:
  assumes "inner = encode_execute rec b min_out extra ps" "account rec" "account b" "length extra = 32"
    and "min_out < 2 ^ 256" "length inner < 2 ^ 256" "calls_admitted x ps"
  shows "164 \<le> length inner" "''0x'' @ bytes_hex (take 4 inner) = SETTLER_EXEC_SELECTOR"
    "calldata_address inner 4 = Inr (address_text rec)" "calldata_address inner 36 = Inr (address_text b)"
    "calldata_word inner 68 = Inr min_out" "calldata_word inner 100 = Inr 160"
    "decode_actions inner 4 160 x = Inr (map (\<lambda>p. address_text (take 4 p)) ps)"
proof -
  note s = five_word_slices [OF assms(1) [unfolded encode_execute_def] length_selector_bytes
      length_address_word [OF assms(2)] length_address_word [OF assms(3)] length_word32 length_word32 assms(4)]
  show "164 \<le> length inner" by (rule s)
  show "''0x'' @ bytes_hex (take 4 inner) = SETTLER_EXEC_SELECTOR"
    unfolding SETTLER_EXEC_SELECTOR_def by (intro selector_of_bytes s)
  show "calldata_address inner 4 = Inr (address_text rec)" "calldata_address inner 36 = Inr (address_text b)"
    unfolding calldata_address_eq_Inr using s(2,3) assms(2,3) by auto
  show "calldata_word inner 68 = Inr min_out" using s(7) assms(5) by (intro word32_at [OF s(8)]) simp_all
  show "calldata_word inner 100 = Inr 160" using s(7) by (intro word32_at [OF s(9)]) simp_all
  show "decode_actions inner 4 160 x = Inr (map (\<lambda>p. address_text (take 4 p)) ps)"
    using decode_actions_of_encoding [of 4 inner ps x] s(6) assms(6,7) by simp
qed

lemma exec_encoding_decodes:
  assumes "data = encode_exec st sell amount inner" "account st" "account sell" "amount < 2 ^ 256" "length inner < 2 ^ 256"
  shows "164 \<le> length data" "''0x'' @ bytes_hex (take 4 data) = ALLOWANCE_HOLDER_EXEC_SELECTOR"
    "calldata_address data 4 = Inr (address_text st)" "calldata_address data 36 = Inr (address_text sell)"
    "calldata_word data 68 = Inr amount" "calldata_address data 100 = Inr (address_text st)"
    "calldata_word data 132 = Inr 160" "calldata_dynamic_bytes data 4 160 = Inr inner"
proof -
  note s = five_word_slices [OF assms(1) [unfolded encode_exec_def] length_selector_bytes
      length_address_word [OF assms(2)] length_address_word [OF assms(3)] length_word32
      length_address_word [OF assms(2)] length_word32]
  show "164 \<le> length data" by (rule s)
  show "''0x'' @ bytes_hex (take 4 data) = ALLOWANCE_HOLDER_EXEC_SELECTOR"
    unfolding ALLOWANCE_HOLDER_EXEC_SELECTOR_def by (intro selector_of_bytes s)
  show "calldata_address data 4 = Inr (address_text st)" "calldata_address data 36 = Inr (address_text sell)"
    "calldata_address data 100 = Inr (address_text st)"
    unfolding calldata_address_eq_Inr using s(2,3,5) assms(2,3) by auto
  show "calldata_word data 68 = Inr amount" using s(7) assms(4) by (intro word32_at [OF s(8)]) simp_all
  show "calldata_word data 132 = Inr 160" using s(7) by (intro word32_at [OF s(10)]) simp_all
  have "drop 164 data = encode_bytes inner @ []" using s(6) by simp
  note r = region_encoded [OF this assms(5)]
  have "length data = 164 + 32 + padded (length inner)"
    using arg_cong [OF s(6), of length] s(7) by simp
  then show "calldata_dynamic_bytes data 4 160 = Inr inner"
    using r(1) padded_ge [of "length inner"] by (simp add: calldata_dynamic_bytes_def region_def)
qed

lemma exec_is_encoding:
  assumes "''0x'' @ bytes_hex (take 4 data) = ALLOWANCE_HOLDER_EXEC_SELECTOR" "164 \<le> length data"
    and "calldata_address data 4 = Inr operator" "calldata_address data 36 = Inr sell"
    "calldata_word data 68 = Inr amount" "calldata_address data 100 = Inr operator"
    "calldata_word data 132 = Inr off" "calldata_dynamic_bytes data 4 off = Inr inner"
  obtains st sl where "account st" "account sl" "operator = address_text st" "sell = address_text sl"
    "data = encode_exec st sl amount inner" "length inner < 2 ^ 256"
proof -
  obtain st where st: "byte_slice 4 36 data = address_word st" "account st" "operator = address_text st"
    using assms(3) unfolding calldata_address_eq_Inr by auto
  obtain st' where st': "byte_slice 100 132 data = address_word st'" "account st'" "operator = address_text st'"
    using assms(6) unfolding calldata_address_eq_Inr by auto
  obtain sl where sl: "byte_slice 36 68 data = address_word sl" "account sl" "sell = address_text sl"
    using assms(4) unfolding calldata_address_eq_Inr by auto
  have same: "st' = st" using st(3) st'(3) bytes_hex_inj by (simp add: address_text_def)
  have dyn: "off = 160" "drop 164 data = encode_bytes inner" "calldata_word data 164 = Inr (length inner)"
    using dynamic_bytes_at [OF assms(8)] dynamic_bytes_length [OF assms(8)] by simp_all
  have sel: "take 4 data = selector_bytes ''exec(address,address,uint256,address,bytes)''"
    using assms(1) unfolding ALLOWANCE_HOLDER_EXEC_SELECTOR_def by (rule selector_at)
  have w: "byte_slice 68 100 data = word32 amount" "byte_slice 132 164 data = word32 160"
    using word_at [OF assms(5)] word_at [OF assms(7)] dyn(1) by simp_all
  have "data = encode_exec st sl amount inner"
    unfolding encode_exec_def sel [symmetric] st(1) [symmetric] sl(1) [symmetric] w [symmetric] dyn(2) [symmetric]
    using five_words [OF assms(2)] st(1) st'(1) same by simp
  with st sl word_at_less [OF dyn(3)] show thesis using that by blast
qed

lemma decode_of_encoding:
  assumes "calldata_bytes cd = Inr (encode_exec st sl amount (encode_execute rec b min_out extra ps))"
    and "exec_admitted x st sl amount rec b min_out extra ps"
    and "target_checks ep atg (address_text st) = Inr ()"
  shows "decode_allowance_holder_calldata cd ep atg x =
    Inr \<lparr>ah_allowance_holder_selector = ALLOWANCE_HOLDER_EXEC_SELECTOR,
        ah_operator_address = address_text st, ah_sell_token = address_text sl,
        ah_sell_amount_atomic = int amount, ah_settler_target = address_text st,
        ah_settler_selector = SETTLER_EXEC_SELECTOR, ah_recipient = address_text rec,
        ah_buy_token = address_text b, ah_min_output_atomic = int min_out,
        ah_action_selectors = map (\<lambda>p. address_text (take 4 p)) ps\<rparr>"
proof -
  define inner where "inner = encode_execute rec b min_out extra ps"
  define data where "data = encode_exec st sl amount inner"
  note a = assms(2) [unfolded exec_admitted_def bound_by_def inner_def [symmetric]]
  have i: "account rec" "account b" "length extra = 32" "min_out < 2 ^ 256" "length inner < 2 ^ 256" "calls_admitted x ps"
    and o': "account st" "account sl" "amount < 2 ^ 256" and pos: "0 < amount" "0 < min_out"
    and bd: "list_ex (\<lambda>p. address_text (take 4 p) \<notin> NON_SETTLEMENT_ACTION_SELECTORS) ps"
    "x_transaction_value_atomic x = 0" "agrees (x_sell_token x) (address_text sl)" "agrees (x_buy_token x) (address_text b)"
    "agrees (x_sell_amount_atomic x) (int amount)" "agrees (x_taker_address x) (address_text rec)"
    "case x_min_output_atomic x of None \<Rightarrow> True | Some m \<Rightarrow> m \<le> int min_out"
    using a by simp_all
  note di = execute_encoding_decodes [OF inner_def i]
  note dd = exec_encoding_decodes [OF data_def o' i(5)]
  have sel: "bytes_hex (take 4 data) = drop 2 ALLOWANCE_HOLDER_EXEC_SELECTOR"
    unfolding dd(2) [symmetric] by simp
  have big: "int amount \<le> MAX_UINT256" "int min_out \<le> MAX_UINT256"
    using o'(3) i(4) by (simp_all add: MAX_UINT256_def flip: of_nat_less_iff)
  have ex: "list_ex (\<lambda>sel. sel \<notin> NON_SETTLEMENT_ACTION_SELECTORS) (map (\<lambda>p. address_text (take 4 p)) ps)"
    using bd(1) by (simp add: list_ex_iff)
  have weak: "case x_min_output_atomic x of None \<Rightarrow> True | Some m \<Rightarrow> \<not> int min_out < m"
    using bd(7) by (simp add: not_less split: option.splits)
  have c: "calldata_bytes cd = Inr data" using assms(1) by (simp add: data_def inner_def)
  show ?thesis
    unfolding decode_allowance_holder_calldata_def c
    using dd(1) di(1) pos big bd(2-6) ex weak
    by (simp add: sel dd di(2) [simplified] di(3-7) assms(3) not_less require_def)
qed

lemma decode_iff_encoding:
  "decode_allowance_holder_calldata cd ep atg x = Inr r \<longleftrightarrow>
   (\<exists>settler sell amount recipient buy min_out extra ps.
      calldata_bytes cd = Inr (encode_exec settler sell amount (encode_execute recipient buy min_out extra ps)) \<and>
      exec_admitted x settler sell amount recipient buy min_out extra ps \<and>
      target_checks ep atg (address_text settler) = Inr () \<and>
      r = \<lparr>ah_allowance_holder_selector = ALLOWANCE_HOLDER_EXEC_SELECTOR,
        ah_operator_address = address_text settler, ah_sell_token = address_text sell,
        ah_sell_amount_atomic = int amount, ah_settler_target = address_text settler,
        ah_settler_selector = SETTLER_EXEC_SELECTOR, ah_recipient = address_text recipient,
        ah_buy_token = address_text buy, ah_min_output_atomic = int min_out,
        ah_action_selectors = map (\<lambda>p. address_text (take 4 p)) ps\<rparr>)"
  (is "?decoded \<longleftrightarrow> ?encoded")
proof
  assume ?decoded
  from decode_eq_Inr [OF this] obtain data operator sell amount off inner recipient buy min_out aoff sels where
    d: "calldata_bytes cd = Inr data" "''0x'' @ bytes_hex (take 4 data) = ALLOWANCE_HOLDER_EXEC_SELECTOR"
    "164 \<le> length data" and ops: "calldata_address data 4 = Inr operator" "calldata_address data 36 = Inr sell"
    "calldata_word data 68 = Inr amount" "calldata_address data 100 = Inr operator"
    "calldata_word data 132 = Inr off" "calldata_dynamic_bytes data 4 off = Inr inner"
    and i: "164 \<le> length inner" "''0x'' @ bytes_hex (take 4 inner) = SETTLER_EXEC_SELECTOR"
    "calldata_address inner 4 = Inr recipient" "calldata_address inner 36 = Inr buy"
    "calldata_word inner 68 = Inr min_out" "calldata_word inner 100 = Inr aoff"
    "decode_actions inner 4 aoff x = Inr sels" and pos: "0 < amount" "0 < min_out"
    and t: "target_checks ep atg operator = Inr ()"
    and bd: "x_transaction_value_atomic x = 0" "list_ex (\<lambda>sel. sel \<notin> NON_SETTLEMENT_ACTION_SELECTORS) sels"
    "agrees (x_sell_token x) sell" "agrees (x_buy_token x) buy" "agrees (x_sell_amount_atomic x) (int amount)"
    "agrees (x_taker_address x) recipient"
    "case x_min_output_atomic x of None \<Rightarrow> True | Some m \<Rightarrow> m \<le> int min_out"
    and r: "r = \<lparr>ah_allowance_holder_selector = ALLOWANCE_HOLDER_EXEC_SELECTOR, ah_operator_address = operator,
      ah_sell_token = sell, ah_sell_amount_atomic = int amount, ah_settler_target = operator,
      ah_settler_selector = SETTLER_EXEC_SELECTOR, ah_recipient = recipient, ah_buy_token = buy,
      ah_min_output_atomic = int min_out, ah_action_selectors = sels\<rparr>" .
  from execute_is_encoding [OF i] obtain rec b extra ps where
    e: "account rec" "account b" "length extra = 32" "recipient = address_text rec" "buy = address_text b"
    "inner = encode_execute rec b min_out extra ps" "sels = map (\<lambda>p. address_text (take 4 p)) ps" "calls_admitted x ps" .
  from exec_is_encoding [OF d(2,3) ops] obtain st sl where
    o': "account st" "account sl" "operator = address_text st" "sell = address_text sl"
    "data = encode_exec st sl amount inner" "length inner < 2 ^ 256" .
  have "exec_admitted x st sl amount rec b min_out extra ps"
    using e o' pos bd word_at_less [OF ops(3)] word_at_less [OF i(5)]
    by (simp add: exec_admitted_def bound_by_def list_ex_iff)
  with d(1) t r e o' show ?encoded by blast
next
  assume ?encoded
  then obtain st sl amount rec b min_out extra ps where
    d: "calldata_bytes cd = Inr (encode_exec st sl amount (encode_execute rec b min_out extra ps))"
    and adm: "exec_admitted x st sl amount rec b min_out extra ps"
    and t: "target_checks ep atg (address_text st) = Inr ()"
    and r: "r = \<lparr>ah_allowance_holder_selector = ALLOWANCE_HOLDER_EXEC_SELECTOR,
        ah_operator_address = address_text st, ah_sell_token = address_text sl,
        ah_sell_amount_atomic = int amount, ah_settler_target = address_text st,
        ah_settler_selector = SETTLER_EXEC_SELECTOR, ah_recipient = address_text rec,
        ah_buy_token = address_text b, ah_min_output_atomic = int min_out,
        ah_action_selectors = map (\<lambda>p. address_text (take 4 p)) ps\<rparr>" by blast
  show ?decoded using decode_of_encoding [OF d adm t] r by simp
qed

text \<open>
  \<^bold>\<open>C26.\<close> The decoder admits exactly the canonical encodings: it returns a record for some
  calldata if and only if the bytes are the ABI encoding of an \<open>exec\<close> call whose payload is
  the ABI encoding of an \<open>execute\<close> call with 1 to 64 actions, the fields and every action
  agree with what is expected, and the record holds those fields. No other byte string, in
  particular none with bytes the fields do not determine, is admitted.
\<close>

theorem calldata_is_canonical:
  "decode_allowance_holder_calldata cd ep atg x = Inr r \<longleftrightarrow>
   (\<exists>settler sell amount recipient buy min_out extra ps.
      calldata_bytes cd = Inr (encode_exec settler sell amount (encode_execute recipient buy min_out extra ps)) \<and>
      exec_admitted x settler sell amount recipient buy min_out extra ps \<and>
      target_checks ep atg (address_text settler) = Inr () \<and>
      r = \<lparr>ah_allowance_holder_selector = ALLOWANCE_HOLDER_EXEC_SELECTOR,
        ah_operator_address = address_text settler, ah_sell_token = address_text sell,
        ah_sell_amount_atomic = int amount, ah_settler_target = address_text settler,
        ah_settler_selector = SETTLER_EXEC_SELECTOR, ah_recipient = address_text recipient,
        ah_buy_token = address_text buy, ah_min_output_atomic = int min_out,
        ah_action_selectors = map (\<lambda>p. address_text (take 4 p)) ps\<rparr>)"
  by (rule decode_iff_encoding)

end
