(* ===== verification/Venue.thy ===== *)
theory Venue
  imports Envelope CanonicalCalldata ChainTruth PreliveEconomics
begin

text \<open>
  The execution contract, last part (\<open>qntyspot/execution_contract.py\<close>): the untrusted venue
  response, its readiness, and the two composite gates an envelope and an approval pass.
\<close>

definition instrument_address :: "string \<Rightarrow> int \<Rightarrow> error + string" where
  "instrument_address instrument cid =
     (let parts = split_on CHR '':'' instrument in
      if length parts \<noteq> 3 \<or> parts ! 0 \<noteq> ''evm'' then Inl env_error
      else if parts ! 1 \<noteq> str_int cid then Inl env_error
      else rbind (address_check env_error (parts ! 2)) (\<lambda>_. Inr (parts ! 2)))"

record VenueQuoteResponseV0 =
  vr_chain_id :: int
  vr_taker_address :: string
  vr_sell_token :: string
  vr_buy_token :: string
  vr_sell_amount_atomic :: int
  vr_buy_amount_atomic :: int
  vr_min_buy_amount_atomic :: "int option"
  vr_allowance_target :: string
  vr_transaction_to :: string
  vr_transaction_value_atomic :: int
  vr_calldata_sha256 :: string
  vr_calldata_length :: int
  vr_block_number :: int
  vr_quote_mode :: string
  vr_quoted_at_epoch_s :: int
  vr_liquidity_available :: bool
  vr_simulation_incomplete :: bool
  vr_invalid_sources :: "string list"
  vr_balance_issue :: bool
  vr_allowance_issue_actual_atomic :: "int option"
  vr_allowance_issue_spender :: "string option"
  vr_schema :: string

definition make_venue_response :: "VenueQuoteResponseV0 \<Rightarrow> error + VenueQuoteResponseV0" where
  "make_venue_response v = (let e = env_error in checked
     [positive_int e (vr_chain_id v),
      address_check e (vr_taker_address v),
      address_check e (vr_sell_token v),
      address_check e (vr_buy_token v),
      atomic_check e True (vr_sell_amount_atomic v),
      atomic_check e True (vr_buy_amount_atomic v),
      opt_check (atomic_check e True) (vr_min_buy_amount_atomic v),
      address_check e (vr_allowance_target v),
      address_check e (vr_transaction_to v),
      atomic_check e False (vr_transaction_value_atomic v),
      digest_check e (vr_calldata_sha256 v),
      positive_int e (vr_calldata_length v),
      non_negative_int e (vr_block_number v),
      label_check e (vr_quote_mode v),
      non_negative_int e (vr_quoted_at_epoch_s v),
      opt_check (atomic_check e False) (vr_allowance_issue_actual_atomic v),
      opt_check (address_check e) (vr_allowance_issue_spender v),
      require ((vr_allowance_issue_actual_atomic v = None) = (vr_allowance_issue_spender v = None)) e] v)"

record ZeroXExecutionExpectationV0 =
  zx_chain_id :: int
  zx_taker_address :: string
  zx_sell_token :: string
  zx_buy_token :: string
  zx_sell_amount_atomic :: int
  zx_min_output_atomic :: int
  zx_max_quote_age_s :: int
  zx_quote_mode :: string
  zx_schema :: string

definition make_zero_x_expectation :: "ZeroXExecutionExpectationV0 \<Rightarrow> error + ZeroXExecutionExpectationV0" where
  "make_zero_x_expectation v = (let e = env_error in checked
     [positive_int e (zx_chain_id v),
      address_check e (zx_taker_address v),
      address_check e (zx_sell_token v),
      address_check e (zx_buy_token v),
      require (zx_sell_token v \<noteq> zx_buy_token v) e,
      atomic_check e True (zx_sell_amount_atomic v),
      atomic_check e True (zx_min_output_atomic v),
      positive_int e (zx_max_quote_age_s v),
      label_check e (zx_quote_mode v)] v)"

datatype ExecutionReadiness = EXECUTABLE | APPROVAL_REQUIRED | NOT_EXECUTABLE

record ExecutionReadinessV0 =
  er_verdict :: ExecutionReadiness
  er_reasons :: "string list"
  er_required_allowance_atomic :: "int option"
  er_required_spender :: "string option"

text \<open>A response that contradicts the expectation raises; the checks in their order.\<close>

definition venue_checks :: "ZeroXExecutionExpectationV0 \<Rightarrow> VenueQuoteResponseV0 \<Rightarrow> int \<Rightarrow> error + unit" where
  "venue_checks x v now = (let e = env_error in checks
     [non_negative_int e now,
      require (vr_chain_id v = zx_chain_id x) e,
      require (vr_taker_address v = zx_taker_address x) e,
      require (vr_sell_token v = zx_sell_token x) e,
      require (vr_buy_token v = zx_buy_token x) e,
      require (vr_quote_mode v = zx_quote_mode x) e,
      require (vr_sell_amount_atomic v = zx_sell_amount_atomic x) e,
      require (vr_transaction_value_atomic v = 0) e,
      require (vr_transaction_to v = vr_allowance_target v) e,
      opt_check (\<lambda>s. require (s = vr_allowance_target v) e) (vr_allowance_issue_spender v),
      (case vr_min_buy_amount_atomic v of
         None \<Rightarrow> Inl e
       | Some m \<Rightarrow> checks [require (\<not> m < zx_min_output_atomic x) e, require (\<not> vr_buy_amount_atomic v < m) e])])"

definition unready_reasons :: "ZeroXExecutionExpectationV0 \<Rightarrow> VenueQuoteResponseV0 \<Rightarrow> int \<Rightarrow> string list" where
  "unready_reasons x v now =
     (if vr_quoted_at_epoch_s v > now then [''QUOTE_TIME_IN_THE_FUTURE'']
      else if now - vr_quoted_at_epoch_s v > zx_max_quote_age_s x then [''STALE_QUOTE''] else []) @
     (if \<not> vr_liquidity_available v then [''LIQUIDITY_UNAVAILABLE''] else []) @
     (if vr_simulation_incomplete v then [''SIMULATION_INCOMPLETE''] else []) @
     (if vr_invalid_sources v \<noteq> [] then [''INVALID_SOURCES''] else []) @
     (if vr_balance_issue v then [''INSUFFICIENT_BALANCE''] else [])"

definition evaluate_zero_x_execution_readiness ::
  "ZeroXExecutionExpectationV0 \<Rightarrow> VenueQuoteResponseV0 \<Rightarrow> int \<Rightarrow> error + ExecutionReadinessV0" where
  "evaluate_zero_x_execution_readiness x v now =
     rbind (venue_checks x v now) (\<lambda>_.
       let reasons = unready_reasons x v now in
       if reasons \<noteq> [] then
         Inr \<lparr>er_verdict = NOT_EXECUTABLE, er_reasons = sort reasons,
              er_required_allowance_atomic = None, er_required_spender = None\<rparr>
       else if vr_allowance_issue_actual_atomic v \<noteq> None then
         Inr \<lparr>er_verdict = APPROVAL_REQUIRED, er_reasons = [''ALLOWANCE_INSUFFICIENT''],
              er_required_allowance_atomic = Some (zx_sell_amount_atomic x),
              er_required_spender = Some (vr_allowance_target v)\<rparr>
       else Inr \<lparr>er_verdict = EXECUTABLE, er_reasons = [],
              er_required_allowance_atomic = None, er_required_spender = None\<rparr>)"

definition assert_envelope_matches_venue_response ::
  "ExecutionEnvelopeV0 \<Rightarrow> VenueQuoteResponseV0 \<Rightarrow> error + unit" where
  "assert_envelope_matches_venue_response v r = (let e = env_error in checks
     [require (env_chain_id v = vr_chain_id r) e,
      require (env_taker_address v = vr_taker_address r) e,
      require (env_transaction_to v = vr_transaction_to r) e,
      require (env_transaction_value_atomic v = vr_transaction_value_atomic r) e,
      require (env_calldata_sha256 v = vr_calldata_sha256 r) e,
      require (env_calldata_length v = vr_calldata_length r) e,
      require (env_allowance_target v = Some (vr_allowance_target r)) e,
      require (env_max_input_atomic v = vr_sell_amount_atomic r) e,
      rbind (instrument_address (env_input_instrument_id v) (vr_chain_id r)) (\<lambda>a. require (a = vr_sell_token r) e),
      rbind (instrument_address (env_output_instrument_id v) (vr_chain_id r)) (\<lambda>a. require (a = vr_buy_token r) e),
      (case vr_min_buy_amount_atomic r of
         None \<Rightarrow> Inl e | Some m \<Rightarrow> require (\<not> env_min_output_atomic v > m) e)])"

definition calldata_checks ::
  "digest_fn \<Rightarrow> ExecutionEnvelopeV0 \<Rightarrow> ZeroXExecutionExpectationV0 \<Rightarrow> VenueQuoteResponseV0 \<Rightarrow> calldata \<Rightarrow>
   error + unit" where
  "calldata_checks H v x r cd =
     rbind (decode_allowance_holder_calldata cd (Some (vr_transaction_to r)) (Some (vr_allowance_target r))
       \<lparr>x_sell_token = Some (vr_sell_token r), x_buy_token = Some (vr_buy_token r),
        x_taker_address = Some (vr_taker_address r), x_sell_amount_atomic = Some (vr_sell_amount_atomic r),
        x_min_output_atomic = Some (zx_min_output_atomic x),
        x_transaction_value_atomic = vr_transaction_value_atomic r\<rparr>) (\<lambda>decoded.
     rbind (calldata_bytes cd) (\<lambda>bs. checks
       [require (env_calldata_sha256 v = H (byte_text bs)) env_error,
        require (env_calldata_length v = int (length bs)) env_error,
        require (\<not> ah_min_output_atomic decoded < env_min_output_atomic v) env_error]))"

text \<open>The checks of the gate after the venue response: identities, authority, bounds, time, capital.\<close>

definition envelope_checks ::
  "digest_fn \<Rightarrow> ExecutionEnvelopeV0 \<Rightarrow> ExecutionSessionV0 \<Rightarrow> AuthorityPolicyRefV0 \<Rightarrow> EconomicBounds \<Rightarrow> string \<Rightarrow>
   ZeroXExecutionExpectationV0 \<Rightarrow> int \<Rightarrow> int \<Rightarrow> error + unit" where
  "envelope_checks H v s a b action x held now = (let e = env_error in checks
     [require (env_session_identity_digest v = session_identity_digest H s) e,
      require (env_economic_action_id v = action) e,
      require (env_authority_policy_digest v = authority_policy_digest H a) e,
      assert_authority_session_binding H AuthorityCeilingError s a now,
      rbind (env_network_id v) (\<lambda>n. require (n = es_network_id s) e),
      require (env_taker_address v = es_taker_address s) e,
      require (env_input_instrument_id v = eb_input_instrument_id b) e,
      require (env_output_instrument_id v = eb_output_instrument_id b) e,
      rbind (instrument_address (env_input_instrument_id v) (env_chain_id v)) (\<lambda>_. Inr ()),
      rbind (instrument_address (env_output_instrument_id v) (env_chain_id v)) (\<lambda>_. Inr ()),
      require (\<not> env_max_input_atomic v > max_input_atomic b) e,
      rbind (prorated_min_output_atomic b (env_max_input_atomic v)) (\<lambda>m. checks
        [require (\<not> zx_min_output_atomic x < m) e, require (\<not> env_min_output_atomic v < m) e]),
      require (\<not> env_deadline_epoch_s v > deadline_epoch_s b) e,
      require (\<not> env_deadline_epoch_s v \<le> now) e,
      assert_within_capital_ceiling (env_max_input_atomic v) held a])"

definition assert_envelope_admissible ::
  "digest_fn \<Rightarrow> ExecutionEnvelopeV0 \<Rightarrow> ExecutionSessionV0 \<Rightarrow> AuthorityPolicyRefV0 \<Rightarrow>
   EconomicBounds \<Rightarrow> string \<Rightarrow> ZeroXExecutionExpectationV0 \<Rightarrow> VenueQuoteResponseV0 \<Rightarrow> int \<Rightarrow> int \<Rightarrow>
   calldata option \<Rightarrow> error + unit" where
  "assert_envelope_admissible H v s a b action x r held now cd =
     rbind (non_negative_int env_error now) (\<lambda>_.
     rbind (evaluate_zero_x_execution_readiness x r now) (\<lambda>readiness.
     if er_verdict readiness \<noteq> EXECUTABLE then Inl env_error
     else
     rbind (assert_envelope_matches_venue_response v r) (\<lambda>_.
     rbind (opt_check (calldata_checks H v x r) cd) (\<lambda>_.
     envelope_checks H v s a b action x held now))))"

definition assert_approval_admissible ::
  "digest_fn \<Rightarrow> ApprovalActionV0 \<Rightarrow> ExecutionSessionV0 \<Rightarrow> AuthorityPolicyRefV0 \<Rightarrow>
   ZeroXExecutionExpectationV0 \<Rightarrow> VenueQuoteResponseV0 \<Rightarrow> int \<Rightarrow> error + unit" where
  "assert_approval_admissible H v s a x r now = (let e = ApprovalContractError in
     rbind (non_negative_int e now) (\<lambda>_.
     rbind (evaluate_zero_x_execution_readiness x r now) (\<lambda>readiness.
     if er_verdict readiness \<noteq> APPROVAL_REQUIRED then Inl e
     else checks
       [require (aa_session_identity_digest v = session_identity_digest H s) e,
        require (aa_authority_policy_digest v = authority_policy_digest H a) e,
        assert_authority_session_binding H e s a now,
        require (aa_taker_address v = zx_taker_address x) e,
        require (aa_token_address v = zx_sell_token x) e,
        require (Some (aa_spender_address v) = er_required_spender readiness) e,
        require (Some (aa_requested_allowance_atomic v) = er_required_allowance_atomic readiness) e,
        require (\<not> aa_deadline_epoch_s v \<le> now) e])))"


subsection \<open>What an admitted envelope promises\<close>

lemma split_on_append: "c \<notin> set p \<Longrightarrow> split_on c (p @ c # q) = p # split_on c q"
  by (induction p) auto

lemma split_on_none: "c \<notin> set p \<Longrightarrow> split_on c p = [p]"
  by (induction p) auto

lemma colon_not_hex: "\<not> is_lower_hex CHR '':''"
  by (simp add: is_lower_hex_def is_digit_def)

lemma colon_free_address:
  assumes "EVM_ADDRESS_RE a" shows "CHR '':'' \<notin> set a"
proof -
  obtain t where t: "set a \<subseteq> insert newline (set t)" "take 2 t = ''0x''" "list_all is_lower_hex (drop 2 t)"
  proof (cases a rule: rev_cases)
    case Nil
    then show thesis using that [of a] assms by (auto simp: EVM_ADDRESS_RE_def matches_line_def)
  next
    case (snoc b c)
    from assms consider (body) "take 2 a = ''0x''" "list_all is_lower_hex (drop 2 a)"
      | (line) "c = newline" "take 2 b = ''0x''" "list_all is_lower_hex (drop 2 b)"
      unfolding EVM_ADDRESS_RE_def matches_line_def by (auto simp: snoc)
    then show thesis
    proof cases
      case body
      with that [of a] show thesis by auto
    next
      case line
      with that [of b] snoc show thesis by simp
    qed
  qed
  have "set t = set (take 2 t) \<union> set (drop 2 t)"
    using set_append [of "take 2 t" "drop 2 t"] by simp
  moreover have "CHR '':'' \<notin> set (take 2 t)" unfolding t(2) by simp
  moreover have "CHR '':'' \<notin> set (drop 2 t)"
    using t(3) by (metis colon_not_hex list_all_iff)
  ultimately have "CHR '':'' \<notin> set t" by blast
  then show ?thesis using t(1) by (auto simp: newline_def)
qed

text \<open>The identity of an EVM instrument names its address on its own chain only.\<close>

lemma instrument_address_identity:
  assumes "EVM_ADDRESS_RE a" "\<not> hex_text_is_zero a"
  shows "instrument_address (identity_string (EvmInstrumentRef c a)) c = Inr a"
proof -
  have "split_on CHR '':'' (identity_string (EvmInstrumentRef c a)) = [''evm'', str_int c, a]"
    using colon_free(1) [of c] colon_free_address [OF assms(1)]
      split_on_append [of "CHR '':''" "''evm''" "str_int c @ CHR '':'' # a"]
    by (simp add: split_on_append split_on_none)
  moreover have "address_check env_error a = Inr ()" using assms by (simp add: check_eq_Inr)
  ultimately show ?thesis by (simp add: instrument_address_def)
qed

text \<open>The calldata carries the envelope: its canonical encoding has the envelope's amounts and parties.\<close>

definition carries :: "digest_fn \<Rightarrow> ExecutionEnvelopeV0 \<Rightarrow> calldata \<Rightarrow> bool" where
  "carries H v c \<longleftrightarrow> (\<exists>settler sell amount recipient buy min_out extra ps data.
     data = encode_exec settler sell amount (encode_execute recipient buy min_out extra ps) \<and>
     calldata_bytes c = Inr data \<and> H (byte_text data) = env_calldata_sha256 v \<and> int (length data) = env_calldata_length v \<and>
     int amount = env_max_input_atomic v \<and> env_min_output_atomic v \<le> int min_out \<and>
     address_text recipient = env_taker_address v \<and>
     instrument_address (env_input_instrument_id v) (env_chain_id v) = Inr (address_text sell) \<and>
     instrument_address (env_output_instrument_id v) (env_chain_id v) = Inr (address_text buy))"

lemma readiness_executable:
  assumes "evaluate_zero_x_execution_readiness x r now = Inr ready" "er_verdict ready = EXECUTABLE"
  shows "venue_checks x r now = Inr ()" "unready_reasons x r now = []" "vr_allowance_issue_actual_atomic r = None"
  using assms by (auto simp: evaluate_zero_x_execution_readiness_def Let_def rbind_eq_Inr split: if_splits)

lemma venue_checks_eq_Inr [res_simps]:
  "venue_checks x r now = Inr u \<longleftrightarrow> 0 \<le> now \<and> vr_chain_id r = zx_chain_id x \<and>
     vr_taker_address r = zx_taker_address x \<and> vr_sell_token r = zx_sell_token x \<and>
     vr_buy_token r = zx_buy_token x \<and> vr_quote_mode r = zx_quote_mode x \<and>
     vr_sell_amount_atomic r = zx_sell_amount_atomic x \<and> vr_transaction_value_atomic r = 0 \<and>
     vr_transaction_to r = vr_allowance_target r \<and>
     (case vr_allowance_issue_spender r of None \<Rightarrow> True | Some s \<Rightarrow> s = vr_allowance_target r) \<and>
     (\<exists>m. vr_min_buy_amount_atomic r = Some m \<and> zx_min_output_atomic x \<le> m \<and> m \<le> vr_buy_amount_atomic r)"
  by (auto simp: venue_checks_def Let_def res_simps not_less split: option.splits)

lemma matches_eq_Inr [res_simps]:
  "assert_envelope_matches_venue_response v r = Inr u \<longleftrightarrow>
     env_chain_id v = vr_chain_id r \<and> env_taker_address v = vr_taker_address r \<and>
     env_transaction_to v = vr_transaction_to r \<and> env_transaction_value_atomic v = vr_transaction_value_atomic r \<and>
     env_calldata_sha256 v = vr_calldata_sha256 r \<and> env_calldata_length v = vr_calldata_length r \<and>
     env_allowance_target v = Some (vr_allowance_target r) \<and> env_max_input_atomic v = vr_sell_amount_atomic r \<and>
     instrument_address (env_input_instrument_id v) (vr_chain_id r) = Inr (vr_sell_token r) \<and>
     instrument_address (env_output_instrument_id v) (vr_chain_id r) = Inr (vr_buy_token r) \<and>
     (\<exists>m. vr_min_buy_amount_atomic r = Some m \<and> env_min_output_atomic v \<le> m)"
  by (auto simp: assert_envelope_matches_venue_response_def Let_def res_simps not_less split: option.splits)

lemma capital_ceiling_eq_Inr [res_simps]:
  "assert_within_capital_ceiling requested held a = Inr u \<longleftrightarrow>
     0 < requested \<and> requested \<le> MAX_UINT256 \<and> 0 \<le> held \<and> held \<le> MAX_UINT256 \<and>
     requested \<le> ap_max_reservation_atomic a \<and> held + requested \<le> ap_max_cumulative_atomic a"
  by (auto simp: assert_within_capital_ceiling_def res_simps)

lemma envelope_checks_eq_Inr [res_simps]:
  "envelope_checks H v s a b action x held now = Inr u \<longleftrightarrow>
     env_session_identity_digest v = session_identity_digest H s \<and> env_economic_action_id v = action \<and>
     env_authority_policy_digest v = authority_policy_digest H a \<and> binds H s a \<and> current a now \<and>
     env_network_id v = Inr (es_network_id s) \<and> env_taker_address v = es_taker_address s \<and>
     env_input_instrument_id v = eb_input_instrument_id b \<and> env_output_instrument_id v = eb_output_instrument_id b \<and>
     (\<exists>t. instrument_address (env_input_instrument_id v) (env_chain_id v) = Inr t) \<and>
     (\<exists>t. instrument_address (env_output_instrument_id v) (env_chain_id v) = Inr t) \<and>
     env_max_input_atomic v \<le> max_input_atomic b \<and>
     (\<exists>m. prorated_min_output_atomic b (env_max_input_atomic v) = Inr m \<and> m \<le> zx_min_output_atomic x \<and>
        m \<le> env_min_output_atomic v) \<and>
     env_deadline_epoch_s v \<le> deadline_epoch_s b \<and> now < env_deadline_epoch_s v \<and>
     assert_within_capital_ceiling (env_max_input_atomic v) held a = Inr ()"
  unfolding envelope_checks_def Let_def by (simp add: res_simps not_less not_le)

lemma prorated_positive:
  assumes "build_bounds p l now_epoch_s inventory = Inr b" "prorated_min_output_atomic b input = Inr m"
  shows "0 < m"
proof -
  from assms(1) have pos: "0 < max_input_atomic b" "0 < eb_min_output_atomic b"
    by (auto elim: build_bounds_cases)
  have inp: "0 < input" and c: "ceil_div (eb_min_output_atomic b * input) (max_input_atomic b) = Inr m"
    using assms(2) by (auto simp: prorated_min_output_atomic_def split: if_splits)
  have "0 < eb_min_output_atomic b * input" using pos(2) inp by (rule mult_pos_pos)
  then show ?thesis using ceil_div_le_iff [OF c, of 0] pos(1) by simp
qed

lemma admissible_cases:
  assumes "assert_envelope_admissible H v s a b action x r held now cd = Inr ()"
  shows "venue_checks x r now = Inr ()" "unready_reasons x r now = []"
    "assert_envelope_matches_venue_response v r = Inr ()" "opt_check (calldata_checks H v x r) cd = Inr ()"
    "envelope_checks H v s a b action x held now = Inr ()"
  using assms readiness_executable [of x r now]
  by (auto simp: assert_envelope_admissible_def rbind_eq_Inr split: if_splits)

lemma calldata_carries:
  assumes "calldata_checks H v x r cd = Inr ()" "assert_envelope_matches_venue_response v r = Inr ()"
  shows "carries H v cd"
proof -
  let ?x = "\<lparr>x_sell_token = Some (vr_sell_token r), x_buy_token = Some (vr_buy_token r),
    x_taker_address = Some (vr_taker_address r), x_sell_amount_atomic = Some (vr_sell_amount_atomic r),
    x_min_output_atomic = Some (zx_min_output_atomic x),
    x_transaction_value_atomic = vr_transaction_value_atomic r\<rparr>"
  obtain d data where d: "decode_allowance_holder_calldata cd (Some (vr_transaction_to r)) (Some (vr_allowance_target r)) ?x = Inr d"
    and data: "calldata_bytes cd = Inr data" and ck: "env_calldata_sha256 v = H (byte_text data)"
    "env_calldata_length v = int (length data)" "env_min_output_atomic v \<le> ah_min_output_atomic d"
    using assms(1) unfolding calldata_checks_def rbind_eq_Inr by (auto simp: res_simps not_less)
  from d [unfolded decode_iff_encoding] data obtain settler sell amount recipient buy min_out extra ps where
    e: "data = encode_exec settler sell amount (encode_execute recipient buy min_out extra ps)"
    and adm: "bound_by ?x sell amount recipient buy min_out" and m: "ah_min_output_atomic d = int min_out"
    unfolding exec_admitted_def by auto
  have "address_text sell = vr_sell_token r" "address_text buy = vr_buy_token r"
    "int amount = vr_sell_amount_atomic r" "address_text recipient = vr_taker_address r"
    using adm by (simp_all add: bound_by_def agrees_def)
  with e data ck m assms(2) show ?thesis
    unfolding carries_def matches_eq_Inr by fastforce
qed

text \<open>
  \<^bold>\<open>C23.\<close> An envelope the gate admits keeps the policy it executes: for bounds built from a
  rung of a policy, any output the envelope's minimum allows is at a price within the rung's
  limit; the input is within the bounds and, with what is already held, within the
  granted capital; the envelope dies before the bounds do; session, grant, action, account
  and tokens are the bound ones; the venue enforces the minimum itself, no native value
  moves, and calldata, when it is given, is the canonical encoding of these very amounts.
\<close>

theorem admissible_envelope_keeps_policy:
  assumes "build_bounds p l built_at inventory = Inr b"
    and "assert_envelope_admissible H v s a b action x r held now cd = Inr ()"
    and "env_min_output_atomic v \<le> out"
  shows "price_within (lv_side l)
      (executed_price (lv_side l) (env_max_input_atomic v) out (decimals (base p)) (decimals (quote_instrument p)))
      (leg_limit_price p l) \<and>
    env_max_input_atomic v \<le> max_input_atomic b \<and>
    held + env_max_input_atomic v \<le> ap_max_cumulative_atomic a \<and>
    env_max_input_atomic v \<le> ap_max_reservation_atomic a \<and>
    now < env_deadline_epoch_s v \<and> env_deadline_epoch_s v \<le> deadline_epoch_s b \<and>
    env_economic_action_id v = action \<and> binds H s a \<and> current a now \<and>
    env_taker_address v = es_taker_address s \<and> env_transaction_value_atomic v = 0 \<and>
    env_input_instrument_id v = eb_input_instrument_id b \<and> env_output_instrument_id v = eb_output_instrument_id b \<and>
    (\<exists>m. vr_min_buy_amount_atomic r = Some m \<and> env_min_output_atomic v \<le> m) \<and>
    (case cd of None \<Rightarrow> True | Some c \<Rightarrow> carries H v c)"
proof -
  note c = admissible_cases [OF assms(2)]
  note e = c(5) [unfolded envelope_checks_eq_Inr]
  note m = c(3) [unfolded matches_eq_Inr]
  from e obtain minimum where pm: "prorated_min_output_atomic b (env_max_input_atomic v) = Inr minimum"
    "minimum \<le> env_min_output_atomic v" by blast
  have "minimum \<le> out" using pm(2) assms(3) by simp
  moreover have "0 < minimum" by (rule prorated_positive [OF assms(1) pm(1)])
  ultimately have "price_within (lv_side l)
      (executed_price (lv_side l) (env_max_input_atomic v) out (decimals (base p)) (decimals (quote_instrument p)))
      (leg_limit_price p l)"
    by (intro narrowed_price_within_limit [OF assms(1) pm(1)]) simp_all
  moreover have "case cd of None \<Rightarrow> True | Some c \<Rightarrow> carries H v c"
    using c(4) calldata_carries [OF _ c(3)] by (auto simp: opt_check_eq_Inr split: option.splits)
  ultimately show ?thesis
    using e m c(1) by (simp add: venue_checks_eq_Inr capital_ceiling_eq_Inr)
qed

text \<open>
  An admitted approval is the exact allowance the current response lacks: the sold token,
  the venue's own allowance target, the amount to be sold and nothing more.
\<close>

lemma admissible_approval_exact:
  assumes "assert_approval_admissible H v s a x r now = Inr ()"
  shows "aa_token_address v = zx_sell_token x \<and> aa_spender_address v = vr_allowance_target r \<and>
    aa_requested_allowance_atomic v = zx_sell_amount_atomic x \<and> aa_taker_address v = zx_taker_address x \<and>
    vr_allowance_issue_actual_atomic r \<noteq> None \<and> unready_reasons x r now = [] \<and>
    now < aa_deadline_epoch_s v \<and> binds H s a \<and> current a now"
  using assms unfolding assert_approval_admissible_def evaluate_zero_x_execution_readiness_def Let_def rbind_eq_Inr
  by (auto simp: res_simps not_le split: if_splits)

subsection \<open>A concrete envelope\<close>

definition sample_taker :: string where
  "sample_taker = ''0x'' @ replicate 40 (CHR ''c'')"

definition sample_token :: "string \<Rightarrow> string" where
  "sample_token n = ''0x'' @ replicate 38 (CHR ''0'') @ n"

definition sample_spender :: string where
  "sample_spender = ''0x'' @ replicate 40 (CHR ''d'')"

definition sample_grant :: AuthorityPolicyRefV0 where
  "sample_grant = \<lparr>ap_authority_root_id = ''root'', ap_granted_level = SUBMIT_EXACT_SIGNED_BYTES,
     ap_permitted_repository_commit = ''commit'', ap_permitted_implementation_digest = ''digest'',
     ap_permitted_network_id = ''evm:1'', ap_permitted_taker_address = sample_taker,
     ap_permitted_venue_id = ''zerox'', ap_max_reservation_atomic = 80, ap_max_cumulative_atomic = 90,
     ap_not_before_epoch_s = 1000, ap_not_after_epoch_s = 2000, ap_schema = ''a''\<rparr>"

definition sample_session :: ExecutionSessionV0 where
  "sample_session = \<lparr>es_repository_commit = ''commit'', es_implementation_digest = ''digest'',
     es_runtime_identity = ''runtime'', es_db_schema_version = 4, es_policy_id = ''p'',
     es_authority_policy_digest = authority_policy_digest (\<lambda>s. s) sample_grant,
     es_taker_address = sample_taker, es_network_id = ''evm:1'', es_venue_id = ''zerox'',
     es_venue_adapter_version = ''v1'', es_started_at_epoch_s = 1005, es_session_ordinal = 0, es_schema = ''s''\<rparr>"

definition sample_zero_x :: ZeroXExecutionExpectationV0 where
  "sample_zero_x = \<lparr>zx_chain_id = 1, zx_taker_address = sample_taker, zx_sell_token = sample_token ''02'',
     zx_buy_token = sample_token ''01'', zx_sell_amount_atomic = 50, zx_min_output_atomic = 26,
     zx_max_quote_age_s = 10, zx_quote_mode = ''exact_in'', zx_schema = ''x''\<rparr>"

definition sample_response :: VenueQuoteResponseV0 where
  "sample_response = \<lparr>vr_chain_id = 1, vr_taker_address = sample_taker, vr_sell_token = sample_token ''02'',
     vr_buy_token = sample_token ''01'', vr_sell_amount_atomic = 50, vr_buy_amount_atomic = 30,
     vr_min_buy_amount_atomic = Some 28, vr_allowance_target = sample_spender,
     vr_transaction_to = sample_spender, vr_transaction_value_atomic = 0, vr_calldata_sha256 = ''d'',
     vr_calldata_length = 4, vr_block_number = 7, vr_quote_mode = ''exact_in'', vr_quoted_at_epoch_s = 1018,
     vr_liquidity_available = True, vr_simulation_incomplete = False, vr_invalid_sources = [],
     vr_balance_issue = False, vr_allowance_issue_actual_atomic = None, vr_allowance_issue_spender = None,
     vr_schema = ''r''\<rparr>"

definition sample_envelope :: ExecutionEnvelopeV0 where
  "sample_envelope = \<lparr>env_session_id = ''s1'',
     env_session_identity_digest = session_identity_digest (\<lambda>s. s) sample_session,
     env_economic_action_id = ''a1'', env_chain_id = 1, env_taker_address = sample_taker,
     env_input_instrument_id = identity_string (EvmInstrumentRef 1 (sample_token ''02'')),
     env_output_instrument_id = identity_string (EvmInstrumentRef 1 (sample_token ''01'')),
     env_max_input_atomic = 50, env_min_output_atomic = 27, env_transaction_to = sample_spender,
     env_transaction_value_atomic = 0, env_calldata_sha256 = ''d'', env_calldata_length = 4,
     env_allowance_target = Some sample_spender, env_account_nonce = 0, env_gas_limit_ceiling = 1,
     env_max_fee_per_gas_ceiling_atomic = 1, env_max_priority_fee_per_gas_ceiling_atomic = 0,
     env_deadline_epoch_s = 1030, env_authority_policy_digest = authority_policy_digest (\<lambda>s. s) sample_grant,
     env_plan_id = ''pl'', env_quote_id = ''q'', env_quote_observation_digest = ''o'',
     env_venue_block_number = 7, env_constructed_at_epoch_s = 1019, env_schema = ''e''\<rparr>"

lemma sample_chain_one: "str_int 1 = ''1''"
  using nat_str_digits_val [of "''1''"] by (simp add: str_int_def canon_digits_def is_digit_def digit_val_def)

lemma sample_token_address:
  "instrument_address (identity_string (EvmInstrumentRef 1 (sample_token ''02''))) 1 = Inr (sample_token ''02'')"
  "instrument_address (identity_string (EvmInstrumentRef 1 (sample_token ''01''))) 1 = Inr (sample_token ''01'')"
  by (intro instrument_address_identity; simp add: sample_token_def EVM_ADDRESS_RE_def matches_line_def
      hex_text_is_zero_def list_all_iff is_lower_hex_def is_digit_def newline_def)+

lemma sample_admissible:
  "assert_envelope_admissible (\<lambda>s. s) sample_envelope sample_session sample_grant sample_buy_bounds
     ''a1'' sample_zero_x sample_response 40 1020 None = Inr ()"
proof -
  have ready: "\<exists>ready. evaluate_zero_x_execution_readiness sample_zero_x sample_response 1020 = Inr ready \<and>
      er_verdict ready = EXECUTABLE"
    by (simp add: evaluate_zero_x_execution_readiness_def venue_checks_def unready_reasons_def sample_zero_x_def
        sample_response_def require_def opt_check_def non_negative_int_def)
  have match: "assert_envelope_matches_venue_response sample_envelope sample_response = Inr ()"
    unfolding matches_eq_Inr
    by (simp add: sample_envelope_def sample_response_def sample_token_address del: identity_string.simps)
  have b: "binds (\<lambda>s. s) sample_session sample_grant" "current sample_grant 1020"
    by (simp_all add: binds_def current_def sample_session_def sample_grant_def)
  have net: "env_network_id sample_envelope = Inr (es_network_id sample_session)"
    by (simp add: env_network_id_def network_id_for_chain_def sample_envelope_def sample_session_def
        positive_int_def require_def sample_chain_one)
  have ids: "eb_input_instrument_id sample_buy_bounds = identity_string (EvmInstrumentRef 1 (sample_token ''02''))"
    "eb_output_instrument_id sample_buy_bounds = identity_string (EvmInstrumentRef 1 (sample_token ''01''))"
    by (simp_all add: sample_buy_bounds_def sample_policy_def pol_quote_instrument_id_def pol_instrument_id_def
        instrument_id_def sample_instrument_def sample_token_def)
  have pro: "prorated_min_output_atomic sample_buy_bounds 50 = Inr 25"
    by (simp add: prorated_min_output_atomic_def sample_buy_bounds_def ceil_div_def)
  have bound: "max_input_atomic sample_buy_bounds = 100" "deadline_epoch_s sample_buy_bounds = 1040"
    by (simp_all add: sample_buy_bounds_def)
  have grant: "ap_max_reservation_atomic sample_grant = 80" "ap_max_cumulative_atomic sample_grant = 90"
    by (simp_all add: sample_grant_def)
  have rest: "envelope_checks (\<lambda>s. s) sample_envelope sample_session sample_grant sample_buy_bounds ''a1'' sample_zero_x 40 1020 = Inr ()"
    unfolding envelope_checks_eq_Inr capital_ceiling_eq_Inr ids net
    using b
    by (simp add: sample_envelope_def sample_session_def sample_token_address pro sample_zero_x_def grant
        bound MAX_UINT256_def del: identity_string.simps)
  show ?thesis
    using ready by (auto simp: assert_envelope_admissible_def match rest opt_check_def non_negative_int_def require_def)
qed

theorem admissible_envelope_keeps_policy_witness:
  "price_within BUY (executed_price BUY 50 27 0 0) 2 \<and> (40::int) + 50 \<le> 90"
proof -
  have "env_min_output_atomic sample_envelope \<le> 27" by (simp add: sample_envelope_def)
  from admissible_envelope_keeps_policy [OF sample_build_bounds sample_admissible this] show ?thesis
    by (simp add: sample_defs sample_envelope_def leg_limit_price_def sample_grant_def)
qed

end
