(* ===== verification/Authority.thy ===== *)
theory Authority
  imports Calldata
begin

text \<open>
  The consumer of external authority grants, \<open>qntyspot/authority_root.py\<close>, and the capability
  gates of \<open>execution_contract.py\<close>. \<open>H\<close> is SHA-256; \<open>verify key signature body\<close> is the Ed25519
  verification of the \<open>cryptography\<close> package, false where it raises. The opaque results of a
  verification are records that no other function of the model returns. A JSON document is
  the value \<open>strict_json_loads\<close> made of it.
\<close>

abbreviation auth_error :: error where
  "auth_error \<equiv> AuthorityVerificationError"

definition AUTHORITY_ROOT_SCHEMA :: string where
  "AUTHORITY_ROOT_SCHEMA = ''qntyspot.authority_root.v0''"
definition TRUST_CONFIG_SCHEMA :: string where
  "TRUST_CONFIG_SCHEMA = AUTHORITY_ROOT_SCHEMA @ ''.trust_config''"
definition GRANT_SCHEMA :: string where
  "GRANT_SCHEMA = AUTHORITY_ROOT_SCHEMA @ ''.grant''"
definition GRANT_ID_SCHEMA :: string where
  "GRANT_ID_SCHEMA = AUTHORITY_ROOT_SCHEMA @ ''.grant_id''"
definition RECEIPT_ID_SCHEMA :: string where
  "RECEIPT_ID_SCHEMA = AUTHORITY_ROOT_SCHEMA @ ''.receipt_id''"
definition ED25519_SIGNATURE_ALGORITHM :: string where
  "ED25519_SIGNATURE_ALGORITHM = ''Ed25519''"
definition AUTHORITY_POLICY_SCHEMA :: string where
  "AUTHORITY_POLICY_SCHEMA = ''qntyspot.program_b.v0.authority_policy''"

subsection \<open>Checks by full match\<close>

definition portable_full :: "string \<Rightarrow> error + unit" where
  "portable_full v = require (portable_body v \<and> length v \<le> 64) auth_error"

definition hex64_full :: "string \<Rightarrow> error + unit" where
  "hex64_full v = require (length v = 64 \<and> list_all is_lower_hex v) auth_error"

definition hex_bytes :: "json \<Rightarrow> nat \<Rightarrow> error + bytes" where
  "hex_bytes v len =
     (case v of
        JStr s \<Rightarrow>
          if length s \<noteq> len * 2 \<or> s = [] \<or> \<not> list_all is_lower_hex s then Inl auth_error
          else (case bytes_fromhex s of None \<Rightarrow> Inl PyValueError | Some bs \<Rightarrow> Inr bs)
      | _ \<Rightarrow> Inl auth_error)"

text \<open>The limit of 4300 digits is the interpreter's; it raises \<open>ValueError\<close>, which the callers convert.\<close>

definition canonical_atomic :: "json \<Rightarrow> error + int" where
  "canonical_atomic v =
     (case v of
        JStr s \<Rightarrow>
          if \<not> canon_digits s then Inl auth_error
          else if length s > 4300 then Inl PyValueError
          else if py_int s \<le> 0 then Inl auth_error else Inr (py_int s)
      | _ \<Rightarrow> Inl auth_error)"

subsection \<open>The trust anchor\<close>

record TrustedAuthorityRootV0 =
  tr_root_id :: string
  tr_signature_algorithm :: string
  tr_public_key_fingerprint :: string
  tr_minimum_authority_epoch :: int
  tr_trust_config_version :: int
  tr_trust_config_digest :: string
  tr_anchor_bytes :: bytes

definition trust_config_object :: "TrustedAuthorityRootV0 \<Rightarrow> (string \<times> json) list" where
  "trust_config_object r =
     [(''minimum_authority_epoch'', JInt (tr_minimum_authority_epoch r)),
      (''public_key_fingerprint'', JStr (tr_public_key_fingerprint r)),
      (''root_id'', JStr (tr_root_id r)),
      (''schema'', JStr TRUST_CONFIG_SCHEMA),
      (''signature_algorithm'', JStr (tr_signature_algorithm r)),
      (''trust_config_version'', JInt (tr_trust_config_version r))]"

definition make_trusted_root :: "digest_fn \<Rightarrow> TrustedAuthorityRootV0 \<Rightarrow> error + TrustedAuthorityRootV0" where
  "make_trusted_root H r = (let e = auth_error in checked
     [portable_full (tr_root_id r),
      require (tr_signature_algorithm r = ED25519_SIGNATURE_ALGORITHM) e,
      hex64_full (tr_public_key_fingerprint r),
      require (length (tr_anchor_bytes r) = 32) e,
      require (H (byte_text (tr_anchor_bytes r)) = tr_public_key_fingerprint r) e,
      positive_int e (tr_minimum_authority_epoch r),
      positive_int e (tr_trust_config_version r),
      hex64_full (tr_trust_config_digest r),
      require (digest_object H (JObj (trust_config_object r)) = tr_trust_config_digest r) e] r)"

text \<open>
  A field of a document read with the type its check wants: a value of another type reads as
  one that the same check refuses, with the same exception.
\<close>

definition as_text :: "json \<Rightarrow> string" where
  "as_text v = (case v of JStr s \<Rightarrow> s | _ \<Rightarrow> [])"

definition as_int :: "json \<Rightarrow> int" where
  "as_int v = (case v of JInt n \<Rightarrow> n | _ \<Rightarrow> - 1)"

definition load_trusted_authority_root ::
  "digest_fn \<Rightarrow> string \<Rightarrow> json \<Rightarrow> string \<Rightarrow> bytes \<Rightarrow> error + TrustedAuthorityRootV0" where
  "load_trusted_authority_root H raw document expected_digest anchor =
     rbind (hex64_full expected_digest) (\<lambda>_.
     if H raw \<noteq> expected_digest then Inl auth_error
     else (case document of
        JObj ms \<Rightarrow>
          if jkeys ms \<noteq> {''minimum_authority_epoch'', ''public_key_fingerprint'', ''root_id'', ''schema'',
               ''signature_algorithm'', ''trust_config_version''} then Inl auth_error
          else if canonical_json_str document \<noteq> raw then Inl auth_error
          else if jget ''schema'' ms \<noteq> JStr TRUST_CONFIG_SCHEMA then Inl auth_error
          else make_trusted_root H
            \<lparr>tr_root_id = as_text (jget ''root_id'' ms),
             tr_signature_algorithm = as_text (jget ''signature_algorithm'' ms),
             tr_public_key_fingerprint = as_text (jget ''public_key_fingerprint'' ms),
             tr_minimum_authority_epoch = as_int (jget ''minimum_authority_epoch'' ms),
             tr_trust_config_version = as_int (jget ''trust_config_version'' ms),
             tr_trust_config_digest = expected_digest, tr_anchor_bytes = anchor\<rparr>
      | _ \<Rightarrow> Inl auth_error))"

subsection \<open>The issuance policy\<close>

record AuthorityIssuancePolicyV0 =
  is_root_id :: string
  is_repository_identity :: string
  is_maximum_issuable_level :: AuthorityLevel
  is_allowed_network_ids :: "string list"
  is_allowed_taker_addresses :: "string list"
  is_allowed_venue_ids :: "string list"
  is_max_reservation_atomic :: int
  is_max_cumulative_atomic :: int
  is_max_grant_duration_s :: int
  is_schema :: string

definition is_alnum :: "char \<Rightarrow> bool" where
  "is_alnum c \<longleftrightarrow> is_digit c \<or> is_lower c \<or> 65 \<le> (of_char c :: nat) \<and> (of_char c :: nat) \<le> 90"

definition REPOSITORY_PART_RE :: "string \<Rightarrow> bool" where
  "REPOSITORY_PART_RE s \<longleftrightarrow> s \<noteq> [] \<and> is_alnum (hd s) \<and>
     list_all (\<lambda>c. is_alnum c \<or> c = CHR ''_'' \<or> c = CHR ''.'' \<or> c = CHR ''-'') (tl s)"

definition scope_checks :: "string list \<Rightarrow> error + unit" where
  "scope_checks vs = rbind (require (vs \<noteq> []) auth_error) (\<lambda>_. check_all (assert_exact_scope auth_error) vs)"

definition make_issuance_policy :: "AuthorityIssuancePolicyV0 \<Rightarrow> error + AuthorityIssuancePolicyV0" where
  "make_issuance_policy p = (let e = auth_error; parts = split_on CHR ''/'' (is_repository_identity p) in checked
     [portable_full (is_root_id p),
      require (length parts = 2 \<and> list_all REPOSITORY_PART_RE parts \<and>
        strip (is_repository_identity p) = is_repository_identity p) e,
      scope_checks (is_allowed_network_ids p),
      scope_checks (is_allowed_taker_addresses p),
      scope_checks (is_allowed_venue_ids p),
      positive_int e (is_max_reservation_atomic p),
      positive_int e (is_max_cumulative_atomic p),
      require (is_max_reservation_atomic p \<le> is_max_cumulative_atomic p) e,
      positive_int e (is_max_grant_duration_s p),
      require (is_schema p = AUTHORITY_ROOT_SCHEMA @ ''.issuance_policy'') e] p)"

definition issuance_policy_object :: "AuthorityIssuancePolicyV0 \<Rightarrow> json" where
  "issuance_policy_object p = JObj
     [(''allowed_network_ids'', JList (map JStr (sort (is_allowed_network_ids p)))),
      (''allowed_taker_addresses'', JList (map JStr (sort (is_allowed_taker_addresses p)))),
      (''allowed_venue_ids'', JList (map JStr (sort (is_allowed_venue_ids p)))),
      (''max_cumulative_atomic'', JStr (str_int (is_max_cumulative_atomic p))),
      (''max_grant_duration_s'', JInt (is_max_grant_duration_s p)),
      (''max_reservation_atomic'', JStr (str_int (is_max_reservation_atomic p))),
      (''maximum_issuable_level'', JInt (level_value (is_maximum_issuable_level p))),
      (''repository_identity'', JStr (is_repository_identity p)),
      (''root_id'', JStr (is_root_id p)),
      (''schema'', JStr (is_schema p))]"

definition exact_scopes :: "AuthorityPolicyRefV0 \<Rightarrow> error + unit" where
  "exact_scopes a = check_all (assert_exact_scope auth_error)
     [ap_permitted_repository_commit a, ap_permitted_implementation_digest a, ap_permitted_network_id a,
      ap_permitted_taker_address a, ap_permitted_venue_id a]"

definition assert_issuance_request_admissible ::
  "AuthorityIssuancePolicyV0 \<Rightarrow> AuthorityPolicyRefV0 \<Rightarrow> string \<Rightarrow> error + unit" where
  "assert_issuance_request_admissible p a repository = (let e = auth_error in checks
     [require (repository = is_repository_identity p) e,
      require (ap_authority_root_id a = is_root_id p) e,
      require (ap_granted_level a \<le> is_maximum_issuable_level p) e,
      exact_scopes a,
      require (ap_permitted_network_id a \<in> set (is_allowed_network_ids p)) e,
      require (ap_permitted_taker_address a \<in> set (is_allowed_taker_addresses p)) e,
      require (ap_permitted_venue_id a \<in> set (is_allowed_venue_ids p)) e,
      require (ap_max_reservation_atomic a \<le> is_max_reservation_atomic p) e,
      require (ap_max_cumulative_atomic a \<le> is_max_cumulative_atomic p) e,
      require (ap_not_after_epoch_s a - ap_not_before_epoch_s a \<le> is_max_grant_duration_s p) e])"

subsection \<open>Grant receipts\<close>

record AuthorityGrantReceiptV0 =
  gr_root_id :: string
  gr_public_key_fingerprint :: string
  gr_signature_algorithm :: string
  gr_authority_epoch :: int
  gr_serial :: int
  gr_issued_at_epoch_s :: int
  gr_authority_policy :: AuthorityPolicyRefV0
  gr_signature :: bytes
  gr_schema :: string

definition make_grant_receipt :: "AuthorityGrantReceiptV0 \<Rightarrow> error + AuthorityGrantReceiptV0" where
  "make_grant_receipt g = (let e = auth_error in checked
     [portable_full (gr_root_id g),
      hex64_full (gr_public_key_fingerprint g),
      require (gr_signature_algorithm g = ED25519_SIGNATURE_ALGORITHM) e,
      positive_int e (gr_authority_epoch g),
      positive_int e (gr_serial g),
      non_negative_int e (gr_issued_at_epoch_s g),
      require (ap_schema (gr_authority_policy g) = AUTHORITY_POLICY_SCHEMA) e,
      require (ap_authority_root_id (gr_authority_policy g) = gr_root_id g) e,
      exact_scopes (gr_authority_policy g),
      require (length (gr_signature g) = 64) e,
      require (gr_schema g = GRANT_SCHEMA) e] g)"

definition grant_id :: "digest_fn \<Rightarrow> AuthorityGrantReceiptV0 \<Rightarrow> string" where
  "grant_id H g = digest_object H (JObj
     [(''authority_epoch'', JInt (gr_authority_epoch g)),
      (''authority_policy_digest'', JStr (authority_policy_digest H (gr_authority_policy g))),
      (''root_id'', JStr (gr_root_id g)),
      (''schema'', JStr GRANT_ID_SCHEMA),
      (''serial'', JInt (gr_serial g))])"

definition signed_body_object :: "digest_fn \<Rightarrow> AuthorityGrantReceiptV0 \<Rightarrow> (string \<times> json) list" where
  "signed_body_object H g =
     [(''authority_epoch'', JInt (gr_authority_epoch g)),
      (''authority_policy'', JObj (authority_policy_object (gr_authority_policy g))),
      (''authority_policy_digest'', JStr (authority_policy_digest H (gr_authority_policy g))),
      (''grant_id'', JStr (grant_id H g)),
      (''issued_at_epoch_s'', JInt (gr_issued_at_epoch_s g)),
      (''public_key_fingerprint'', JStr (gr_public_key_fingerprint g)),
      (''root_id'', JStr (gr_root_id g)),
      (''schema'', JStr (gr_schema g)),
      (''serial'', JInt (gr_serial g)),
      (''signature_algorithm'', JStr (gr_signature_algorithm g))]"

definition signed_body_bytes :: "digest_fn \<Rightarrow> AuthorityGrantReceiptV0 \<Rightarrow> bytes" where
  "signed_body_bytes H g = ascii_bytes (canonical_json_str (JObj (signed_body_object H g)))"

definition signed_body_digest :: "digest_fn \<Rightarrow> AuthorityGrantReceiptV0 \<Rightarrow> string" where
  "signed_body_digest H g = digest_object H (JObj (signed_body_object H g))"

definition receipt_id :: "digest_fn \<Rightarrow> AuthorityGrantReceiptV0 \<Rightarrow> string" where
  "receipt_id H g = digest_object H (JObj
     [(''grant_id'', JStr (grant_id H g)),
      (''public_key_fingerprint'', JStr (gr_public_key_fingerprint g)),
      (''root_id'', JStr (gr_root_id g)),
      (''schema'', JStr RECEIPT_ID_SCHEMA),
      (''signature_algorithm'', JStr (gr_signature_algorithm g)),
      (''signature_digest'', JStr (H (byte_text (gr_signature g)))),
      (''signed_body_digest'', JStr (signed_body_digest H g))])"

definition receipt_object :: "digest_fn \<Rightarrow> AuthorityGrantReceiptV0 \<Rightarrow> (string \<times> json) list" where
  "receipt_object H g = signed_body_object H g @
     [(''receipt_id'', JStr (receipt_id H g)), (''signature'', JStr (bytes_hex (gr_signature g)))]"

definition serialized :: "digest_fn \<Rightarrow> AuthorityGrantReceiptV0 \<Rightarrow> string" where
  "serialized H g = canonical_json_str (JObj (receipt_object H g))"

text \<open>
  The exceptions the parsers turn into \<open>AuthorityVerificationError\<close>. \<open>SessionIdentityError\<close>,
  which the record of the policy raises for a root or venue that is not portable, is not
  among them.
\<close>

definition as_verification_error :: "error \<Rightarrow> error" where
  "as_verification_error e =
     (if e \<in> {AuthorityCeilingError, CanonicalFormError, PyTypeError, PyValueError} then auth_error else e)"

definition catching :: "error + 'a \<Rightarrow> error + 'a" where
  "catching r = (case r of Inl e \<Rightarrow> Inl (as_verification_error e) | Inr v \<Rightarrow> Inr v)"

definition POLICY_FIELDS :: "string set" where
  "POLICY_FIELDS = {''authority_root_id'', ''granted_level'', ''max_cumulative_atomic'',
     ''max_reservation_atomic'', ''not_after_epoch_s'', ''not_before_epoch_s'',
     ''permitted_implementation_digest'', ''permitted_network_id'', ''permitted_repository_commit'',
     ''permitted_taker_address'', ''permitted_venue_id'', ''schema''}"

definition authority_policy_from_object :: "json \<Rightarrow> error + AuthorityPolicyRefV0" where
  "authority_policy_from_object document =
     (case document of
        JObj ms \<Rightarrow>
          if jkeys ms \<noteq> POLICY_FIELDS then Inl auth_error
          else (case jget ''granted_level'' ms of
             JInt n \<Rightarrow> catching
               (rbind (AuthorityLevel_of n) (\<lambda>granted.
                rbind (canonical_atomic (jget ''max_reservation_atomic'' ms)) (\<lambda>reservation.
                rbind (canonical_atomic (jget ''max_cumulative_atomic'' ms)) (\<lambda>cumulative.
                make_authority_policy
                  \<lparr>ap_authority_root_id = as_text (jget ''authority_root_id'' ms), ap_granted_level = granted,
                   ap_permitted_repository_commit = as_text (jget ''permitted_repository_commit'' ms),
                   ap_permitted_implementation_digest = as_text (jget ''permitted_implementation_digest'' ms),
                   ap_permitted_network_id = as_text (jget ''permitted_network_id'' ms),
                   ap_permitted_taker_address = as_text (jget ''permitted_taker_address'' ms),
                   ap_permitted_venue_id = as_text (jget ''permitted_venue_id'' ms),
                   ap_max_reservation_atomic = reservation, ap_max_cumulative_atomic = cumulative,
                   ap_not_before_epoch_s = as_int (jget ''not_before_epoch_s'' ms),
                   ap_not_after_epoch_s = as_int (jget ''not_after_epoch_s'' ms),
                   ap_schema = as_text (jget ''schema'' ms)\<rparr>))))
           | _ \<Rightarrow> Inl auth_error)
      | _ \<Rightarrow> Inl auth_error)"

definition RECEIPT_FIELDS :: "string set" where
  "RECEIPT_FIELDS = {''authority_epoch'', ''authority_policy'', ''authority_policy_digest'', ''grant_id'',
     ''issued_at_epoch_s'', ''public_key_fingerprint'', ''receipt_id'', ''root_id'', ''schema'', ''serial'',
     ''signature'', ''signature_algorithm''}"

text \<open>\<open>from_bytes\<close> on the bytes \<open>raw\<close> and the document they parse to.\<close>

definition receipt_from_document :: "digest_fn \<Rightarrow> string \<Rightarrow> json \<Rightarrow> error + AuthorityGrantReceiptV0" where
  "receipt_from_document H raw document =
     (case document of
        JObj ms \<Rightarrow> catching
          (if jkeys ms \<noteq> RECEIPT_FIELDS then Inl auth_error
           else if canonical_json_str document \<noteq> raw then Inl auth_error
           else
           rbind (authority_policy_from_object (jget ''authority_policy'' ms)) (\<lambda>policy.
           rbind (hex_bytes (jget ''signature'' ms) 64) (\<lambda>sig.
           rbind (make_grant_receipt
             \<lparr>gr_root_id = as_text (jget ''root_id'' ms),
              gr_public_key_fingerprint = as_text (jget ''public_key_fingerprint'' ms),
              gr_signature_algorithm = as_text (jget ''signature_algorithm'' ms),
              gr_authority_epoch = as_int (jget ''authority_epoch'' ms),
              gr_serial = as_int (jget ''serial'' ms),
              gr_issued_at_epoch_s = as_int (jget ''issued_at_epoch_s'' ms),
              gr_authority_policy = policy, gr_signature = sig,
              gr_schema = as_text (jget ''schema'' ms)\<rparr>) (\<lambda>g.
           if jget ''authority_policy_digest'' ms \<noteq> JStr (authority_policy_digest H policy) then Inl auth_error
           else if jget ''grant_id'' ms \<noteq> JStr (grant_id H g) then Inl auth_error
           else if jget ''receipt_id'' ms \<noteq> JStr (receipt_id H g) then Inl auth_error
           else Inr g))))
      | _ \<Rightarrow> Inl auth_error)"

subsection \<open>Verification\<close>

type_synonym verifier = "bytes \<Rightarrow> bytes \<Rightarrow> bytes \<Rightarrow> bool"

record VerifiedAuthorityGrantV0 =
  vg_receipt :: AuthorityGrantReceiptV0
  vg_root_id :: string
  vg_public_key_fingerprint :: string
  vg_trust_config_digest :: string
  vg_minimum_authority_epoch :: int
  vg_signed_body_digest :: string
  vg_receipt_id :: string

record ExpiredAuthorityRecoveryProofV0 =
  xp_receipt :: AuthorityGrantReceiptV0
  xp_root_id :: string
  xp_public_key_fingerprint :: string
  xp_trust_config_digest :: string
  xp_minimum_authority_epoch :: int
  xp_signed_body_digest :: string
  xp_receipt_id :: string

abbreviation vg_policy :: "VerifiedAuthorityGrantV0 \<Rightarrow> AuthorityPolicyRefV0" where
  "vg_policy v \<equiv> gr_authority_policy (vg_receipt v)"

abbreviation xp_policy :: "ExpiredAuthorityRecoveryProofV0 \<Rightarrow> AuthorityPolicyRefV0" where
  "xp_policy v \<equiv> gr_authority_policy (xp_receipt v)"

definition verify_authority_receipt_authenticity ::
  "digest_fn \<Rightarrow> verifier \<Rightarrow> AuthorityGrantReceiptV0 \<Rightarrow> TrustedAuthorityRootV0 \<Rightarrow> error + AuthorityGrantReceiptV0" where
  "verify_authority_receipt_authenticity H verify g anchor = (let e = auth_error in checked
     [require (gr_root_id g = tr_root_id anchor) e,
      require (gr_signature_algorithm g = tr_signature_algorithm anchor) e,
      require (gr_public_key_fingerprint g = tr_public_key_fingerprint anchor) e,
      require (\<not> gr_authority_epoch g < tr_minimum_authority_epoch anchor) e,
      require (verify (tr_anchor_bytes anchor) (gr_signature g) (signed_body_bytes H g)) e] g)"

definition verified_authority_result ::
  "digest_fn \<Rightarrow> AuthorityGrantReceiptV0 \<Rightarrow> TrustedAuthorityRootV0 \<Rightarrow> VerifiedAuthorityGrantV0" where
  "verified_authority_result H g anchor =
     \<lparr>vg_receipt = g, vg_root_id = tr_root_id anchor, vg_public_key_fingerprint = tr_public_key_fingerprint anchor,
      vg_trust_config_digest = tr_trust_config_digest anchor,
      vg_minimum_authority_epoch = tr_minimum_authority_epoch anchor,
      vg_signed_body_digest = signed_body_digest H g, vg_receipt_id = receipt_id H g\<rparr>"

definition verify_authority_grant ::
  "digest_fn \<Rightarrow> verifier \<Rightarrow> AuthorityGrantReceiptV0 \<Rightarrow> TrustedAuthorityRootV0 \<Rightarrow> ExecutionSessionV0 \<Rightarrow> int \<Rightarrow>
   error + VerifiedAuthorityGrantV0" where
  "verify_authority_grant H verify g anchor session now =
     rbind (verify_authority_receipt_authenticity H verify g anchor) (\<lambda>g.
     rbind (assert_authority_session_binding H auth_error session (gr_authority_policy g) now) (\<lambda>_.
     Inr (verified_authority_result H g anchor)))"

definition verify_expired_authority_grant_for_recovery ::
  "digest_fn \<Rightarrow> verifier \<Rightarrow> AuthorityGrantReceiptV0 \<Rightarrow> TrustedAuthorityRootV0 \<Rightarrow> ExecutionSessionV0 \<Rightarrow> int \<Rightarrow>
   error + ExpiredAuthorityRecoveryProofV0" where
  "verify_expired_authority_grant_for_recovery H verify g anchor session now = (let e = auth_error in
     rbind (verify_authority_receipt_authenticity H verify g anchor) (\<lambda>g.
     rbind (checks
       [non_negative_int e now,
        require (\<not> now < ap_not_after_epoch_s (gr_authority_policy g)) e,
        require (\<not> ap_granted_level (gr_authority_policy g) < RECONCILE_ONLY) e,
        assert_authority_session_static_binding H e session (gr_authority_policy g)]) (\<lambda>_.
     Inr \<lparr>xp_receipt = g, xp_root_id = tr_root_id anchor,
        xp_public_key_fingerprint = tr_public_key_fingerprint anchor,
        xp_trust_config_digest = tr_trust_config_digest anchor,
        xp_minimum_authority_epoch = tr_minimum_authority_epoch anchor,
        xp_signed_body_digest = signed_body_digest H g, xp_receipt_id = receipt_id H g\<rparr>)))"

subsection \<open>Effective authority\<close>

definition effective_authority_level ::
  "AuthorityLevel \<Rightarrow> VerifiedAuthorityGrantV0 \<Rightarrow> int \<Rightarrow> error + AuthorityLevel" where
  "effective_authority_level source v now =
     rbind (assert_valid_at (vg_policy v) now) (\<lambda>_.
     if source > PHASE_GRANTED_AUTHORITY_LEVEL then Inl AuthorityCeilingError
     else Inr (min source (ap_granted_level (vg_policy v))))"

definition INK_CHAIN_ID :: int where
  "INK_CHAIN_ID = 57073"
definition INK_V0F_TAKER_ADDRESS :: string where
  "INK_V0F_TAKER_ADDRESS = ''0x3e604be3293d930069d0805e85379e0ca5fa01cb''"
definition INK_V0F_VENUE_ID :: string where
  "INK_V0F_VENUE_ID = ''inkyswap-v2-ink-mainnet''"

definition phase_scoped_runtime_level :: "AuthorityLevel \<Rightarrow> ExecutionSessionV0 \<Rightarrow> AuthorityLevel" where
  "phase_scoped_runtime_level l s =
     (if l \<le> RECONCILE_ONLY then l
      else if es_network_id s \<noteq> ''evm:'' @ str_int INK_CHAIN_ID \<or> es_taker_address s \<noteq> INK_V0F_TAKER_ADDRESS \<or>
        es_venue_id s \<noteq> INK_V0F_VENUE_ID \<or> es_venue_adapter_version s \<noteq> ''ink-v0f'' then RECONCILE_ONLY
      else l)"

definition halted :: "bool \<Rightarrow> bool \<Rightarrow> Capability set \<Rightarrow> Capability set" where
  "halted kill_switch safe_halt cs =
     (if kill_switch \<or> safe_halt then cs \<inter> KILL_SWITCH_PRESERVED_CAPABILITIES else cs)"

definition effective_capabilities ::
  "digest_fn \<Rightarrow> AuthorityLevel \<Rightarrow> VerifiedAuthorityGrantV0 \<Rightarrow> int \<Rightarrow> ExecutionSessionV0 option \<Rightarrow> bool \<Rightarrow> bool \<Rightarrow>
   error + Capability set" where
  "effective_capabilities H source v now session kill_switch safe_halt =
     rbind (effective_authority_level source v now) (\<lambda>l.
     rbind (if l > RECONCILE_ONLY then
              (case session of
                 None \<Rightarrow> Inl auth_error
               | Some s \<Rightarrow> rbind (assert_authority_session_binding H auth_error s (vg_policy v) now) (\<lambda>_.
                   Inr (phase_scoped_runtime_level l s)))
            else Inr l) (\<lambda>l.
     Inr (halted kill_switch safe_halt (LADDER l))))"

definition require_effective_capability ::
  "digest_fn \<Rightarrow> Capability \<Rightarrow> AuthorityLevel \<Rightarrow> VerifiedAuthorityGrantV0 \<Rightarrow> ExecutionSessionV0 \<Rightarrow> int \<Rightarrow> bool \<Rightarrow> bool \<Rightarrow>
   error + AuthorityLevel" where
  "require_effective_capability H c source v s now kill_switch safe_halt =
     rbind (assert_valid_at (vg_policy v) now) (\<lambda>_.
     rbind (assert_authority_session_binding H auth_error s (vg_policy v) now) (\<lambda>_.
     rbind (effective_authority_level source v now) (\<lambda>l.
     let l = phase_scoped_runtime_level l s in
     if c \<notin> halted kill_switch safe_halt (LADDER l) then Inl AuthorityCeilingError else Inr l)))"

definition EXPIRED_RECOVERY_CAPABILITIES :: "Capability set" where
  "EXPIRED_RECOVERY_CAPABILITIES = {OBSERVE_CHAIN, RECONCILE, ACCOUNT_QUARANTINE}"

definition require_expired_recovery_capability ::
  "digest_fn \<Rightarrow> Capability \<Rightarrow> AuthorityLevel \<Rightarrow> ExpiredAuthorityRecoveryProofV0 \<Rightarrow> ExecutionSessionV0 \<Rightarrow> int \<Rightarrow>
   error + AuthorityLevel" where
  "require_expired_recovery_capability H c source p s now =
     rbind (checks
       [require (c \<in> EXPIRED_RECOVERY_CAPABILITIES) AuthorityCeilingError,
        require (\<not> source < RECONCILE_ONLY) AuthorityCeilingError,
        require (\<not> source > PHASE_GRANTED_AUTHORITY_LEVEL) AuthorityCeilingError,
        non_negative_int auth_error now,
        require (\<not> now < ap_not_after_epoch_s (xp_policy p)) auth_error,
        assert_authority_session_static_binding H auth_error s (xp_policy p),
        require (\<not> ap_granted_level (xp_policy p) < RECONCILE_ONLY) AuthorityCeilingError]) (\<lambda>_.
     Inr RECONCILE_ONLY)"

definition effective_capital_ceilings ::
  "int \<Rightarrow> int \<Rightarrow> VerifiedAuthorityGrantV0 \<Rightarrow> int \<Rightarrow> error + int \<times> int" where
  "effective_capital_ceilings per_action cumulative v now =
     rbind (checks
       [assert_valid_at (vg_policy v) now, positive_int auth_error per_action, positive_int auth_error cumulative,
        require (per_action \<le> cumulative) auth_error]) (\<lambda>_.
     Inr (min per_action (ap_max_reservation_atomic (vg_policy v)),
          min cumulative (ap_max_cumulative_atomic (vg_policy v))))"

definition assert_effective_capital_within ::
  "int \<Rightarrow> int \<Rightarrow> int \<Rightarrow> int \<Rightarrow> VerifiedAuthorityGrantV0 \<Rightarrow> int \<Rightarrow> error + unit" where
  "assert_effective_capital_within requested held per_action cumulative v now =
     rbind (checks [positive_int AuthorityCeilingError requested, non_negative_int AuthorityCeilingError held]) (\<lambda>_.
     rbind (effective_capital_ceilings per_action cumulative v now) (\<lambda>caps. checks
       [require (requested \<le> fst caps) AuthorityCeilingError,
        require (held + requested \<le> snd caps) AuthorityCeilingError]))"

subsection \<open>The gates of the contract\<close>

text \<open>The grant, the session and the time are given together or a level above shadow is refused.\<close>

definition granted_capabilities ::
  "digest_fn \<Rightarrow> AuthorityLevel \<Rightarrow> bool \<Rightarrow> bool \<Rightarrow> VerifiedAuthorityGrantV0 option \<Rightarrow> ExecutionSessionV0 option \<Rightarrow>
   int option \<Rightarrow> error + Capability set" where
  "granted_capabilities H l kill_switch safe_halt grant session now =
     rbind (assert_phase_ceiling l) (\<lambda>_.
     if l \<ge> RECONCILE_ONLY then
       (case (grant, session, now) of
          (Some v, Some s, Some t) \<Rightarrow> effective_capabilities H l v t (Some s) kill_switch safe_halt
        | _ \<Rightarrow> Inl auth_error)
     else Inr (halted kill_switch safe_halt (LADDER l)))"

definition require_capability ::
  "digest_fn \<Rightarrow> Capability \<Rightarrow> AuthorityLevel \<Rightarrow> bool \<Rightarrow> bool \<Rightarrow> VerifiedAuthorityGrantV0 option \<Rightarrow>
   ExecutionSessionV0 option \<Rightarrow> int option \<Rightarrow> error + unit" where
  "require_capability H c l kill_switch safe_halt grant session now =
     rbind (assert_phase_ceiling l) (\<lambda>_.
     if l \<ge> RECONCILE_ONLY then
       (case (grant, session, now) of
          (Some v, Some s, Some t) \<Rightarrow>
            rbind (require_effective_capability H c l v s t kill_switch safe_halt) (\<lambda>_. Inr ())
        | _ \<Rightarrow> Inl auth_error)
     else rbind (granted_capabilities H l kill_switch safe_halt None None None) (\<lambda>cs.
       if c \<notin> cs then Inl AuthorityCeilingError else Inr ()))"

subsection \<open>What a capability rests on\<close>

lemma level_le_cases: "(l :: AuthorityLevel) \<le> min a b \<longleftrightarrow> l \<le> a \<and> l \<le> b"
  by simp

lemma phase_scoped_le: "phase_scoped_runtime_level l s \<le> l"
  by (simp add: phase_scoped_runtime_level_def not_le less_imp_le)

definition ink_scope :: "ExecutionSessionV0 \<Rightarrow> bool" where
  "ink_scope s \<longleftrightarrow> es_network_id s = ''evm:57073'' \<and> es_taker_address s = INK_V0F_TAKER_ADDRESS \<and>
     es_venue_id s = INK_V0F_VENUE_ID \<and> es_venue_adapter_version s = ''ink-v0f''"

lemma ink_network: "str_int INK_CHAIN_ID = ''57073''"
  using nat_str_digits_val [of "''57073''"]
  by (simp add: INK_CHAIN_ID_def str_int_def canon_digits_def is_digit_def digit_val_def)

lemma phase_scoped_above: "RECONCILE_ONLY < phase_scoped_runtime_level l s \<Longrightarrow> ink_scope s"
  by (auto simp: phase_scoped_runtime_level_def ink_scope_def ink_network split: if_splits)

lemma effective_level_eq_Inr [res_simps]:
  "effective_authority_level source v now = Inr l \<longleftrightarrow>
     current (vg_policy v) now \<and> source \<le> PHASE_GRANTED_AUTHORITY_LEVEL \<and>
     l = min source (ap_granted_level (vg_policy v))"
  by (auto simp: effective_authority_level_def res_simps)

lemma require_effective_eq_Inr:
  "require_effective_capability H c source v s now ks sh = Inr l \<longleftrightarrow>
     binds H s (vg_policy v) \<and> current (vg_policy v) now \<and> source \<le> PHASE_GRANTED_AUTHORITY_LEVEL \<and>
     l = phase_scoped_runtime_level (min source (ap_granted_level (vg_policy v))) s \<and>
     c \<in> halted ks sh (LADDER l)"
  unfolding require_effective_capability_def Let_def by (auto simp: res_simps)

lemma verified_grant_eq_Inr:
  "verify_authority_grant H verify g anchor s now = Inr v \<longleftrightarrow>
     gr_root_id g = tr_root_id anchor \<and> gr_signature_algorithm g = tr_signature_algorithm anchor \<and>
     gr_public_key_fingerprint g = tr_public_key_fingerprint anchor \<and>
     tr_minimum_authority_epoch anchor \<le> gr_authority_epoch g \<and>
     verify (tr_anchor_bytes anchor) (gr_signature g) (signed_body_bytes H g) \<and>
     binds H s (gr_authority_policy g) \<and> current (gr_authority_policy g) now \<and>
     v = verified_authority_result H g anchor"
  unfolding verify_authority_grant_def verify_authority_receipt_authenticity_def Let_def
  by (auto simp: res_simps not_less)

text \<open>
  \<^bold>\<open>C24.\<close> A capability rests on both gates: whenever a capability is admitted for a grant that
  was verified, the trusted anchor has signed the grant and its epoch is not revoked; the
  level is at most the source ceiling, the phase ceiling and the granted level; the
  capability is one of that level, and one the kill switch preserves if it is engaged or the
  runtime halted; the session is the bound one at a time inside the interval; above
  reconciliation it is the one reviewed Ink session; and it is never to produce a signature.
\<close>

theorem capability_rests_on_both_gates:
  assumes "verify_authority_grant H verify g anchor s0 verified_at = Inr v"
    and "require_effective_capability H c source v s now kill_switch safe_halt = Inr l"
  shows "verify (tr_anchor_bytes anchor) (gr_signature g) (signed_body_bytes H g) \<and>
    tr_minimum_authority_epoch anchor \<le> gr_authority_epoch g \<and>
    l \<le> source \<and> l \<le> PHASE_GRANTED_AUTHORITY_LEVEL \<and> l \<le> ap_granted_level (gr_authority_policy g) \<and>
    c \<in> halted kill_switch safe_halt (LADDER l) \<and> c \<noteq> PRODUCE_SIGNATURE \<and>
    binds H s (gr_authority_policy g) \<and> current (gr_authority_policy g) now \<and>
    (RECONCILE_ONLY < l \<longrightarrow> ink_scope s)"
proof -
  note v = assms(1) [unfolded verified_grant_eq_Inr]
  have p: "vg_policy v = gr_authority_policy g" using v by (simp add: verified_authority_result_def)
  note r = assms(2) [unfolded require_effective_eq_Inr p]
  let ?m = "min source (ap_granted_level (gr_authority_policy g))"
  have le: "l \<le> ?m" using r phase_scoped_le [of ?m s] by simp
  then have below: "l \<le> source" "l \<le> ap_granted_level (gr_authority_policy g)" by simp_all
  have phase: "l \<le> PHASE_GRANTED_AUTHORITY_LEVEL" using r by (intro order_trans [OF below(1)]) simp
  have "c \<in> halted kill_switch safe_halt (LADDER l)" using r by blast
  then have "c \<in> LADDER l" by (simp add: halted_def split: if_splits)
  then have "c \<noteq> PRODUCE_SIGNATURE" using phase signature_above_phase [of l] by auto
  moreover have "RECONCILE_ONLY < l \<longrightarrow> ink_scope s" using r phase_scoped_above by blast
  ultimately show ?thesis using v r below phase by blast
qed

text \<open>What an expired grant still allows: observing and accounting, nothing with an effect outside.\<close>

lemma expired_recovery_only:
  assumes "require_expired_recovery_capability H c source p s now = Inr l"
  shows "c \<in> {OBSERVE_CHAIN, RECONCILE, ACCOUNT_QUARANTINE} \<and> l = RECONCILE_ONLY \<and>
    ap_not_after_epoch_s (xp_policy p) \<le> now \<and> binds H s (xp_policy p)"
  using assms by (auto simp: require_expired_recovery_capability_def EXPIRED_RECOVERY_CAPABILITIES_def res_simps not_less)

text \<open>An expired grant admits nothing through the ordinary gate.\<close>

lemma expired_grant_refused:
  assumes "ap_not_after_epoch_s (vg_policy v) \<le> now"
  shows "\<nexists>l. require_effective_capability H c source v s now ks sh = Inr l"
  using assms by (auto simp: require_effective_eq_Inr current_def)

text \<open>Capital is admitted within the smaller of the local and the granted ceiling.\<close>

lemma effective_capital_eq_Inr:
  "assert_effective_capital_within requested held per_action cumulative v now = Inr u \<longleftrightarrow>
     0 < requested \<and> 0 \<le> held \<and> current (vg_policy v) now \<and> 0 < per_action \<and> per_action \<le> cumulative \<and>
     requested \<le> min per_action (ap_max_reservation_atomic (vg_policy v)) \<and>
     held + requested \<le> min cumulative (ap_max_cumulative_atomic (vg_policy v))"
  unfolding assert_effective_capital_within_def effective_capital_ceilings_def
  by (auto simp: res_simps)

subsection \<open>What a signature covers\<close>

lemma ascii_bytes_inj: "ascii_bytes s = ascii_bytes t \<longleftrightarrow> s = t"
proof -
  have "inj (\<lambda>c :: char. of_nat (of_char c) :: 8 word)"
  proof (rule injI)
    fix a b :: char
    assume "(of_nat (of_char a) :: 8 word) = of_nat (of_char b)"
    then have "unat (of_nat (of_char a) :: 8 word) = unat (of_nat (of_char b) :: 8 word)" by simp
    then have "(of_char a :: nat) = of_char b" by (simp add: unat_of_nat)
    then show "a = b" by simp
  qed
  then show ?thesis by (simp add: ascii_bytes_def inj_map_eq_map)
qed

lemma flat_authority_policy [simp]: "flat (authority_policy_object a)"
  by (simp add: flat_def authority_policy_object_def less_char_def)

lemma str_int_eq_iff: "str_int a = str_int b \<longleftrightarrow> a = b"
  using str_int_inj by blast

lemma authority_policy_object_inj: "authority_policy_object a = authority_policy_object b \<longleftrightarrow> a = b"
  by (auto simp: authority_policy_object_def str_int_eq_iff level_value_inj)

lemma signed_body_canon: "json_canon (JObj (signed_body_object H g)) = JObj (signed_body_object H g)"
proof -
  have "sort_key fst (signed_body_object H g) = signed_body_object H g"
    by (rule sort_key_id_if_sorted) (simp add: signed_body_object_def less_char_def)
  then show ?thesis
    unfolding object_canon
    by (simp add: signed_body_object_def json_canon_flat del: json_canon.simps(2))
qed

text \<open>
  \<^bold>\<open>C35.\<close> The signature covers the whole grant: two receipts have the same signed bytes
  exactly when they agree in everything but the signature, the permitted commit, network,
  account, venue, ceilings and interval of the policy included. An anchor that signs one
  grant has signed no other.
\<close>

theorem signature_covers_grant:
  "signed_body_bytes H g = signed_body_bytes H g' \<longleftrightarrow> g\<lparr>gr_signature := []\<rparr> = g'\<lparr>gr_signature := []\<rparr>"
proof
  assume "signed_body_bytes H g = signed_body_bytes H g'"
  then have "canonical_json_str (JObj (signed_body_object H g)) = canonical_json_str (JObj (signed_body_object H g'))"
    unfolding signed_body_bytes_def ascii_bytes_inj .
  from same_text_same_value [OF this] have "signed_body_object H g = signed_body_object H g'"
    unfolding signed_body_canon by (rule json.inject(5) [THEN iffD1])
  then show "g\<lparr>gr_signature := []\<rparr> = g'\<lparr>gr_signature := []\<rparr>"
    by (cases g; cases g') (simp add: signed_body_object_def authority_policy_object_inj)
next
  assume eq: "g\<lparr>gr_signature := []\<rparr> = g'\<lparr>gr_signature := []\<rparr>"
  have "signed_body_bytes H g = signed_body_bytes H (g\<lparr>gr_signature := []\<rparr>)" for g
    by (simp add: signed_body_bytes_def signed_body_object_def grant_id_def)
  with eq show "signed_body_bytes H g = signed_body_bytes H g'" by metis
qed

subsection \<open>A concrete grant\<close>

definition ink_grant :: AuthorityPolicyRefV0 where
  "ink_grant = \<lparr>ap_authority_root_id = ''root-one'', ap_granted_level = AUTONOMOUS_BOUNDED_SIGNER,
     ap_permitted_repository_commit = ''commit'', ap_permitted_implementation_digest = ''digest'',
     ap_permitted_network_id = ''evm:57073'', ap_permitted_taker_address = INK_V0F_TAKER_ADDRESS,
     ap_permitted_venue_id = INK_V0F_VENUE_ID, ap_max_reservation_atomic = 80, ap_max_cumulative_atomic = 90,
     ap_not_before_epoch_s = 1000, ap_not_after_epoch_s = 2000, ap_schema = AUTHORITY_POLICY_SCHEMA\<rparr>"

definition ink_receipt :: AuthorityGrantReceiptV0 where
  "ink_receipt = \<lparr>gr_root_id = ''root-one'', gr_public_key_fingerprint = ''fp'',
     gr_signature_algorithm = ED25519_SIGNATURE_ALGORITHM, gr_authority_epoch = 4, gr_serial = 1,
     gr_issued_at_epoch_s = 990, gr_authority_policy = ink_grant, gr_signature = replicate 64 7,
     gr_schema = GRANT_SCHEMA\<rparr>"

definition ink_anchor :: TrustedAuthorityRootV0 where
  "ink_anchor = \<lparr>tr_root_id = ''root-one'', tr_signature_algorithm = ED25519_SIGNATURE_ALGORITHM,
     tr_public_key_fingerprint = ''fp'', tr_minimum_authority_epoch = 3, tr_trust_config_version = 1,
     tr_trust_config_digest = ''cfg'', tr_anchor_bytes = replicate 32 9\<rparr>"

definition ink_session :: ExecutionSessionV0 where
  "ink_session = \<lparr>es_repository_commit = ''commit'', es_implementation_digest = ''digest'',
     es_runtime_identity = ''runtime'', es_db_schema_version = 4, es_policy_id = ''p'',
     es_authority_policy_digest = authority_policy_digest (\<lambda>s. s) ink_grant,
     es_taker_address = INK_V0F_TAKER_ADDRESS, es_network_id = ''evm:57073'', es_venue_id = INK_V0F_VENUE_ID,
     es_venue_adapter_version = ''ink-v0f'', es_started_at_epoch_s = 1005, es_session_ordinal = 0, es_schema = ''s''\<rparr>"

text \<open>A stand-in for the verifier of the \<open>cryptography\<close> package.\<close>

definition sample_verifier :: verifier where
  "sample_verifier key sig body \<longleftrightarrow> length key = 32 \<and> length sig = 64"

lemma ink_binds: "binds (\<lambda>s. s) ink_session ink_grant" "current ink_grant 1020"
  by (simp_all add: binds_def current_def ink_session_def ink_grant_def)

lemma ink_verified:
  "verify_authority_grant (\<lambda>s. s) sample_verifier ink_receipt ink_anchor ink_session 1020 =
   Inr (verified_authority_result (\<lambda>s. s) ink_receipt ink_anchor)"
  unfolding verified_grant_eq_Inr using ink_binds
  by (simp add: ink_receipt_def ink_anchor_def sample_verifier_def)

lemma ink_capability:
  "require_effective_capability (\<lambda>s. s) CONSTRUCT_ENVELOPE HUMAN_SIGNED_EXECUTION
     (verified_authority_result (\<lambda>s. s) ink_receipt ink_anchor) ink_session 1020 False False =
   Inr HUMAN_SIGNED_EXECUTION"
  unfolding require_effective_eq_Inr using ink_binds
  by (simp add: verified_authority_result_def ink_receipt_def PHASE_GRANTED_AUTHORITY_LEVEL_def halted_def ladder_defs
      phase_scoped_runtime_level_def ink_network level_order_defs min_def)
    (simp add: ink_session_def ink_grant_def)

theorem capability_rests_on_both_gates_witness:
  "sample_verifier (tr_anchor_bytes ink_anchor) (gr_signature ink_receipt) (signed_body_bytes (\<lambda>s. s) ink_receipt) \<and>
   HUMAN_SIGNED_EXECUTION \<le> PHASE_GRANTED_AUTHORITY_LEVEL \<and> ink_scope ink_session"
  using capability_rests_on_both_gates [OF ink_verified ink_capability] by (simp add: level_order_defs)

end
