(* ===== verification/SignedBytes.thy ===== *)
theory SignedBytes
  imports CanonicalCalldata
begin

text \<open>
  Validation of externally signed transactions, \<open>qntyspot/exact_signed_bytes.py\<close>. The packages
  it calls are parameters: \<open>rdec\<close> and \<open>renc\<close> are \<open>rlp.decode(strict=True)\<close>, which may raise, and
  \<open>rlp.encode\<close>, on the byte strings and lists of the package; \<open>recover hash parity r s\<close> is the
  public key \<open>eth_keys\<close> recovers, if it does. Every refusal is \<open>EnvelopeValidationError\<close>.
\<close>

datatype rlp = RBytes bytes | RList "rlp list"

type_synonym rlp_decoder = "bytes \<Rightarrow> rlp option"
type_synonym rlp_encoder = "rlp \<Rightarrow> bytes"
type_synonym recovery = "bytes \<Rightarrow> int \<Rightarrow> int \<Rightarrow> int \<Rightarrow> bytes option"

text \<open>The predicates of the module match whole texts.\<close>

definition ADDRESS_RE :: "string \<Rightarrow> bool" where
  "ADDRESS_RE v \<longleftrightarrow> length v = 42 \<and> take 2 v = ''0x'' \<and> list_all is_lower_hex (drop 2 v)"

definition DIGEST_RE :: "string \<Rightarrow> bool" where
  "DIGEST_RE v \<longleftrightarrow> length v = 64 \<and> list_all is_lower_hex v"

definition field_bytes :: "rlp \<Rightarrow> error + bytes" where
  "field_bytes v = (case v of RBytes bs \<Rightarrow> Inr bs | RList vs \<Rightarrow> Inl env_error)"

definition uint_bytes :: "bool \<Rightarrow> bytes \<Rightarrow> error + nat" where
  "uint_bytes allow_zero v =
     (if length v > 32 \<or> (length v > 1 \<and> v ! 0 = 0) then Inl env_error
      else let n = nat_from_big v in if \<not> allow_zero \<and> n = 0 then Inl env_error else Inr n)"

definition rlp_uint :: "bool \<Rightarrow> rlp \<Rightarrow> error + nat" where
  "rlp_uint allow_zero v = rbind (field_bytes v) (uint_bytes allow_zero)"

definition scope_address :: "string \<Rightarrow> error + unit" where
  "scope_address v = require (ADDRESS_RE v \<and> \<not> list_all (\<lambda>c. c = CHR ''0'') (drop 2 v)) env_error"

definition access_item :: "rlp \<Rightarrow> error + unit" where
  "access_item item =
     (case item of
        RList [RBytes address, RList slots] \<Rightarrow>
          require (length address = 20 \<and>
            list_all (\<lambda>slot. case slot of RBytes bs \<Rightarrow> length bs = 32 | RList vs \<Rightarrow> False) slots) env_error
      | _ \<Rightarrow> Inl env_error)"

definition access_list :: "rlp \<Rightarrow> error + unit" where
  "access_list v = (case v of RBytes bs \<Rightarrow> Inl env_error | RList items \<Rightarrow> check_all access_item items)"

subsection \<open>The scope\<close>

record ExactSignedBytesScopeV0 =
  sc_session_id :: string
  sc_session_identity_digest :: string
  sc_economic_action_id :: string
  sc_authority_policy_digest :: string
  sc_chain_id :: int
  sc_taker_address :: string
  sc_target_address :: string
  sc_min_value_atomic :: int
  sc_max_value_atomic :: int
  sc_calldata_sha256 :: string
  sc_calldata_length :: int
  sc_account_nonce :: "int option"
  sc_gas_limit_ceiling :: "int option"
  sc_max_fee_per_gas_ceiling :: "int option"
  sc_max_priority_fee_per_gas_ceiling :: "int option"

definition make_scope :: "ExactSignedBytesScopeV0 \<Rightarrow> error + ExactSignedBytesScopeV0" where
  "make_scope v = (let e = env_error in checked
     [text_check e DIGEST_RE (sc_session_identity_digest v),
      text_check e DIGEST_RE (sc_economic_action_id v),
      text_check e DIGEST_RE (sc_authority_policy_digest v),
      text_check e DIGEST_RE (sc_calldata_sha256 v),
      scope_address (sc_taker_address v),
      scope_address (sc_target_address v),
      require (sc_session_id v \<noteq> []) e,
      positive_int e (sc_chain_id v),
      require (0 \<le> sc_min_value_atomic v \<and> sc_min_value_atomic v \<le> sc_max_value_atomic v \<and>
        sc_max_value_atomic v \<le> MAX_UINT256) e,
      non_negative_int e (sc_calldata_length v),
      opt_check (non_negative_int e) (sc_account_nonce v),
      opt_check (non_negative_int e) (sc_gas_limit_ceiling v),
      opt_check (non_negative_int e) (sc_max_fee_per_gas_ceiling v),
      opt_check (non_negative_int e) (sc_max_priority_fee_per_gas_ceiling v),
      require (sc_gas_limit_ceiling v \<noteq> Some 0) e,
      (case (sc_max_fee_per_gas_ceiling v, sc_max_priority_fee_per_gas_ceiling v) of
         (Some fee, Some priority) \<Rightarrow> require (priority \<le> fee) e
       | _ \<Rightarrow> Inr ())] v)"

definition opt_int :: "int option \<Rightarrow> json" where
  "opt_int v = (case v of None \<Rightarrow> JNull | Some n \<Rightarrow> JInt n)"

definition scope_object :: "ExactSignedBytesScopeV0 \<Rightarrow> (string \<times> json) list" where
  "scope_object v =
     [(''account_nonce'', opt_int (sc_account_nonce v)),
      (''authority_policy_digest'', JStr (sc_authority_policy_digest v)),
      (''calldata_length'', JInt (sc_calldata_length v)),
      (''calldata_sha256'', JStr (sc_calldata_sha256 v)),
      (''chain_id'', JInt (sc_chain_id v)),
      (''economic_action_id'', JStr (sc_economic_action_id v)),
      (''gas_limit_ceiling'', opt_int (sc_gas_limit_ceiling v)),
      (''max_fee_per_gas_ceiling'', opt_int (sc_max_fee_per_gas_ceiling v)),
      (''max_priority_fee_per_gas_ceiling'', opt_int (sc_max_priority_fee_per_gas_ceiling v)),
      (''max_value_atomic'', JInt (sc_max_value_atomic v)),
      (''min_value_atomic'', JInt (sc_min_value_atomic v)),
      (''schema'', JStr ''qntyspot.program_b.v0.exact_signed_bytes_scope''),
      (''session_id'', JStr (sc_session_id v)),
      (''session_identity_digest'', JStr (sc_session_identity_digest v)),
      (''taker_address'', JStr (sc_taker_address v)),
      (''target_address'', JStr (sc_target_address v))]"

definition scope_digest :: "digest_fn \<Rightarrow> ExactSignedBytesScopeV0 \<Rightarrow> string" where
  "scope_digest H v = digest_object H (JObj (scope_object v))"

subsection \<open>Parsing\<close>

record ParsedExactSignedBytesV0 =
  ps_transaction_type :: string
  ps_chain_id :: int
  ps_account_nonce :: int
  ps_gas_limit :: int
  ps_max_fee_per_gas :: int
  ps_max_priority_fee_per_gas :: int
  ps_target_address :: string
  ps_value_atomic :: int
  ps_calldata :: bytes
  ps_sender_address :: string
  ps_transaction_hash :: string

definition recover_sender :: "recovery \<Rightarrow> bytes \<Rightarrow> nat \<Rightarrow> nat \<Rightarrow> nat \<Rightarrow> error + string" where
  "recover_sender recover message_hash parity r s =
     (case recover message_hash (int parity) (int r) (int s) of
        None \<Rightarrow> Inl env_error
      | Some key \<Rightarrow> let h = keccak256 key in Inr (''0x'' @ bytes_hex (drop (length h - 20) h)))"

text \<open>\<open>n.to_bytes((n.bit_length() + 7) // 8, "big")\<close>: the shortest big-endian bytes.\<close>

fun shortest_big :: "nat \<Rightarrow> bytes" where
  "shortest_big n = (if n = 0 then [] else shortest_big (n div 256) @ [of_nat (n mod 256)])"

declare shortest_big.simps [simp del]

text \<open>
  A typed transaction. With type 1 there is one gas price at index 2 and the other fields
  start at index 3; with type 2 the priority fee and the fee cap are at 2 and 3 and they
  start at 4: gas limit, target, value, calldata, access list, parity, r and s.
\<close>

definition parse_typed ::
  "rlp_decoder \<Rightarrow> rlp_encoder \<Rightarrow> recovery \<Rightarrow> bytes \<Rightarrow> error + ParsedExactSignedBytesV0" where
  "parse_typed rdec renc recover raw =
     (let kind = hd raw; k = (if kind = 1 then 3 else 4) in
      case rdec (tl raw) of
        Some (RList fs) \<Rightarrow>
          if length fs \<noteq> (if kind = 1 then 11 else 12) then Inl env_error
          else
          rbind (rlp_uint False (fs ! 0)) (\<lambda>chain.
          rbind (rlp_uint True (fs ! 1)) (\<lambda>nonce.
          rbind (rlp_uint True (fs ! 2)) (\<lambda>priority.
          rbind (rlp_uint True (fs ! (k - 1))) (\<lambda>fee.
          rbind (rlp_uint False (fs ! k)) (\<lambda>gas_limit.
          rbind (field_bytes (fs ! (k + 1))) (\<lambda>target.
          rbind (rlp_uint True (fs ! (k + 2))) (\<lambda>amount.
          rbind (field_bytes (fs ! (k + 3))) (\<lambda>data.
          rbind (rlp_uint True (fs ! (k + 5))) (\<lambda>parity.
          rbind (rlp_uint False (fs ! (k + 6))) (\<lambda>r.
          rbind (rlp_uint False (fs ! (k + 7))) (\<lambda>s.
          if parity \<noteq> 0 \<and> parity \<noteq> 1 then Inl env_error
          else rbind (access_list (fs ! (k + 4))) (\<lambda>_.
          if length target \<noteq> 20 then Inl env_error
          else
          rbind (recover_sender recover (keccak256 (kind # renc (RList (take (k + 5) fs)))) parity r s) (\<lambda>sender.
          rbind (derive_transaction_hash raw) (\<lambda>hash.
          Inr \<lparr>ps_transaction_type = (if kind = 1 then ''eip-2930'' else ''eip-1559''), ps_chain_id = int chain,
               ps_account_nonce = int nonce, ps_gas_limit = int gas_limit, ps_max_fee_per_gas = int fee,
               ps_max_priority_fee_per_gas = int priority, ps_target_address = ''0x'' @ bytes_hex target,
               ps_value_atomic = int amount, ps_calldata = data, ps_sender_address = sender,
               ps_transaction_hash = hash\<rparr>))))))))))))))
      | _ \<Rightarrow> Inl env_error)"

definition parse_legacy ::
  "rlp_decoder \<Rightarrow> rlp_encoder \<Rightarrow> recovery \<Rightarrow> bytes \<Rightarrow> error + ParsedExactSignedBytesV0" where
  "parse_legacy rdec renc recover raw =
     (case rdec raw of
        Some (RList fs) \<Rightarrow>
          if length fs \<noteq> 9 then Inl env_error
          else
          rbind (rlp_uint True (fs ! 0)) (\<lambda>nonce.
          rbind (rlp_uint True (fs ! 1)) (\<lambda>gas_price.
          rbind (rlp_uint False (fs ! 2)) (\<lambda>gas_limit.
          rbind (field_bytes (fs ! 3)) (\<lambda>target.
          rbind (rlp_uint True (fs ! 4)) (\<lambda>amount.
          rbind (field_bytes (fs ! 5)) (\<lambda>data.
          rbind (rlp_uint False (fs ! 6)) (\<lambda>v.
          rbind (rlp_uint False (fs ! 7)) (\<lambda>r.
          rbind (rlp_uint False (fs ! 8)) (\<lambda>s.
          if v < 35 then Inl env_error
          else let chain = (v - 35) div 2; parity = (v - 35) mod 2 in
          if chain = 0 then Inl env_error
          else if length target \<noteq> 20 then Inl env_error
          else
          rbind (recover_sender recover
            (keccak256 (renc (RList (take 6 fs @ [RBytes (shortest_big chain), RBytes [], RBytes []])))) parity r s) (\<lambda>sender.
          rbind (derive_transaction_hash raw) (\<lambda>hash.
          Inr \<lparr>ps_transaction_type = ''legacy-eip-155'', ps_chain_id = int chain,
               ps_account_nonce = int nonce, ps_gas_limit = int gas_limit, ps_max_fee_per_gas = int gas_price,
               ps_max_priority_fee_per_gas = int gas_price, ps_target_address = ''0x'' @ bytes_hex target,
               ps_value_atomic = int amount, ps_calldata = data, ps_sender_address = sender,
               ps_transaction_hash = hash\<rparr>)))))))))))
      | _ \<Rightarrow> Inl env_error)"

definition parse_signed ::
  "rlp_decoder \<Rightarrow> rlp_encoder \<Rightarrow> recovery \<Rightarrow> bytes \<Rightarrow> error + ParsedExactSignedBytesV0" where
  "parse_signed rdec renc recover raw =
     (if raw = [] then Inl env_error
      else rbind (if hd raw = 1 \<or> hd raw = 2 then parse_typed rdec renc recover raw
                  else parse_legacy rdec renc recover raw) (\<lambda>p.
        if ps_value_atomic p > MAX_UINT256 then Inl env_error else Inr p))"

subsection \<open>Validation\<close>

record ValidatedExactSignedBytesV0 =
  vs_scope :: ExactSignedBytesScopeV0
  vs_parsed :: ParsedExactSignedBytesV0
  vs_signed_bytes_sha256 :: string
  vs_signed_bytes_length :: int

definition scope_admits :: "digest_fn \<Rightarrow> ExactSignedBytesScopeV0 \<Rightarrow> ParsedExactSignedBytesV0 \<Rightarrow> error + unit" where
  "scope_admits H sc p = (let e = env_error in checks
     [require (ps_chain_id p = sc_chain_id sc) e,
      require (ps_sender_address p = sc_taker_address sc) e,
      require (ps_target_address p = sc_target_address sc) e,
      require (sc_min_value_atomic sc \<le> ps_value_atomic p \<and> ps_value_atomic p \<le> sc_max_value_atomic sc) e,
      require (int (length (ps_calldata p)) = sc_calldata_length sc) e,
      require (H (byte_text (ps_calldata p)) = sc_calldata_sha256 sc) e,
      opt_check (\<lambda>n. require (ps_account_nonce p = n) e) (sc_account_nonce sc),
      opt_check (\<lambda>n. require (\<not> ps_gas_limit p > n) e) (sc_gas_limit_ceiling sc),
      opt_check (\<lambda>n. require (\<not> ps_max_fee_per_gas p > n) e) (sc_max_fee_per_gas_ceiling sc),
      opt_check (\<lambda>n. require (\<not> ps_max_priority_fee_per_gas p > n) e) (sc_max_priority_fee_per_gas_ceiling sc)])"

definition validate_exact_signed_bytes ::
  "digest_fn \<Rightarrow> rlp_decoder \<Rightarrow> rlp_encoder \<Rightarrow> recovery \<Rightarrow> bytes \<Rightarrow> ExactSignedBytesScopeV0 \<Rightarrow>
   error + ValidatedExactSignedBytesV0" where
  "validate_exact_signed_bytes H rdec renc recover raw sc =
     rbind (parse_signed rdec renc recover raw) (\<lambda>p.
     rbind (scope_admits H sc p) (\<lambda>_.
     Inr \<lparr>vs_scope = sc, vs_parsed = p, vs_signed_bytes_sha256 = H (byte_text raw),
          vs_signed_bytes_length = int (length raw)\<rparr>))"

record ExactSignedTransactionRecordV0 =
  xt_economic_action_id :: string
  xt_scope_digest :: string
  xt_signed_bytes_sha256 :: string
  xt_signed_bytes_length :: int
  xt_transaction_hash :: string
  xt_chain_id :: int
  xt_account_nonce :: int
  xt_taker_address :: string
  xt_signer_identity :: string

definition exact_signed_transaction_id :: "digest_fn \<Rightarrow> ExactSignedTransactionRecordV0 \<Rightarrow> string" where
  "exact_signed_transaction_id H v = digest_object H (JObj
     [(''economic_action_id'', JStr (xt_economic_action_id v)),
      (''schema'', JStr ''qntyspot.program_b.v0.exact_signed_transaction''),
      (''scope_digest'', JStr (xt_scope_digest v)),
      (''signed_bytes_sha256'', JStr (xt_signed_bytes_sha256 v))])"

text \<open>One request of the JSON-RPC client, and its reply if it is a text.\<close>

definition submit_exact_signed_bytes :: "(string \<Rightarrow> string list \<Rightarrow> json) \<Rightarrow> bytes \<Rightarrow> error + string" where
  "submit_exact_signed_bytes request raw =
     (if raw = [] then Inl env_error
      else (case request ''eth_sendRawTransaction'' [''0x'' @ bytes_hex raw] of
        JStr reply \<Rightarrow>
          if length reply \<noteq> 66 \<or> take 2 reply \<noteq> ''0x'' then Inl env_error
          else if \<not> list_all is_lower_hex (drop 2 reply) then Inl env_error else Inr reply
      | _ \<Rightarrow> Inl env_error))"

subsection \<open>What validated bytes are\<close>

definition key_address :: "bytes \<Rightarrow> string" where
  "key_address key = ''0x'' @ bytes_hex (drop 12 (keccak256 key))"

lemma recover_sender_eq_Inr [res_simps]:
  "recover_sender recover h parity r s = Inr a \<longleftrightarrow>
     (\<exists>key. recover h (int parity) (int r) (int s) = Some key \<and> a = key_address key)"
  by (auto simp: recover_sender_def Let_def key_address_def length_keccak256 split: option.splits)

text \<open>The signing key of a typed transaction, over the bytes of its body and kind.\<close>

definition typed_signer :: "rlp_encoder \<Rightarrow> recovery \<Rightarrow> 8 word \<Rightarrow> rlp list \<Rightarrow> rlp \<Rightarrow> rlp \<Rightarrow> rlp \<Rightarrow> bytes \<Rightarrow> bool" where
  "typed_signer renc recover kind body parity r s key \<longleftrightarrow>
     (\<exists>np nr ns. rlp_uint True parity = Inr np \<and> np \<le> 1 \<and> rlp_uint False r = Inr nr \<and> rlp_uint False s = Inr ns \<and>
        recover (keccak256 (kind # renc (RList body))) (int np) (int nr) (int ns) = Some key)"

definition legacy_signer :: "rlp_encoder \<Rightarrow> recovery \<Rightarrow> int \<Rightarrow> rlp list \<Rightarrow> rlp \<Rightarrow> rlp \<Rightarrow> rlp \<Rightarrow> bytes \<Rightarrow> bool" where
  "legacy_signer renc recover chain body v r s key \<longleftrightarrow>
     (\<exists>nv nr ns. rlp_uint False v = Inr nv \<and> 35 \<le> nv \<and> chain = int ((nv - 35) div 2) \<and>
        rlp_uint False r = Inr nr \<and> rlp_uint False s = Inr ns \<and>
        recover (keccak256 (renc (RList (body @ [RBytes (shortest_big (nat chain)), RBytes [], RBytes []]))))
          (int ((nv - 35) mod 2)) (int nr) (int ns) = Some key)"

lemma split_last_three: "length fs = n + 3 \<Longrightarrow> fs = take n fs @ [fs ! n, fs ! (n + 1), fs ! (n + 2)]"
proof -
  assume l: "length fs = n + 3"
  have "drop n fs = fs ! n # drop (n + 1) fs" using l by (simp add: Cons_nth_drop_Suc)
  also have "drop (n + 1) fs = fs ! (n + 1) # drop (n + 2) fs"
    using l Cons_nth_drop_Suc [of "n + 1" fs] by simp
  also have "drop (n + 2) fs = [fs ! (n + 2)]"
    using l Cons_nth_drop_Suc [of "n + 2" fs] by simp
  finally show ?thesis by (metis append_take_drop_id)
qed

text \<open>The fields of the signed body that a parse reports.\<close>

definition body_reports :: "rlp list \<Rightarrow> nat \<Rightarrow> ParsedExactSignedBytesV0 \<Rightarrow> bool" where
  "body_reports body k p \<longleftrightarrow>
     rlp_uint False (body ! k) = Inr (nat (ps_gas_limit p)) \<and>
     (\<exists>target. body ! (k + 1) = RBytes target \<and> length target = 20 \<and> ps_target_address p = ''0x'' @ bytes_hex target) \<and>
     rlp_uint True (body ! (k + 2)) = Inr (nat (ps_value_atomic p)) \<and> body ! (k + 3) = RBytes (ps_calldata p)"

lemma field_bytes_eq_Inr [res_simps]: "field_bytes v = Inr bs \<longleftrightarrow> v = RBytes bs"
  by (cases v) (auto simp: field_bytes_def)

definition typed_from :: "rlp_encoder \<Rightarrow> recovery \<Rightarrow> bytes \<Rightarrow> ParsedExactSignedBytesV0 \<Rightarrow> bool" where
  "typed_from renc recover raw p \<longleftrightarrow> (\<exists>kind body parity r s key.
     (kind = 1 \<or> kind = 2) \<and> raw = kind # renc (RList (body @ [parity, r, s])) \<and>
     body_reports body (if kind = 1 then 3 else 4) p \<and>
     rlp_uint False (body ! 0) = Inr (nat (ps_chain_id p)) \<and> rlp_uint True (body ! 1) = Inr (nat (ps_account_nonce p)) \<and>
     typed_signer renc recover kind body parity r s key \<and> ps_sender_address p = key_address key)"

definition legacy_from :: "rlp_encoder \<Rightarrow> recovery \<Rightarrow> bytes \<Rightarrow> ParsedExactSignedBytesV0 \<Rightarrow> bool" where
  "legacy_from renc recover raw p \<longleftrightarrow> (\<exists>body v r s key.
     raw = renc (RList (body @ [v, r, s])) \<and> body_reports body 2 p \<and>
     rlp_uint True (body ! 0) = Inr (nat (ps_account_nonce p)) \<and>
     legacy_signer renc recover (ps_chain_id p) body v r s key \<and> ps_sender_address p = key_address key)"

lemma if_split_Inr: "(if c then Inl e else r) = Inr x \<longleftrightarrow> \<not> c \<and> r = Inr x"
  by simp

lemma derive_hash_eq_Inr: "derive_transaction_hash raw = Inr h \<longleftrightarrow> raw \<noteq> [] \<and> h = ''0x'' @ keccak256_hex raw"
  by (auto simp: derive_transaction_hash_def)

lemma typed_parsed:
  assumes "parse_typed rdec renc recover raw = Inr p" "raw = kind # rest" "kind = 1 \<or> kind = 2"
    and exact: "\<And>b t. rdec b = Some t \<Longrightarrow> renc t = b"
  shows "typed_from renc recover raw p" "ps_transaction_hash p = ''0x'' @ keccak256_hex raw"
proof -
  define k where "k = (if kind = 1 then 3 else 4 :: nat)"
  from assms(1,2) obtain fs where dec: "rdec rest = Some (RList fs)"
    by (auto simp: parse_typed_def Let_def split: option.splits rlp.splits)
  note p = assms(1) [unfolded parse_typed_def Let_def assms(2) list.sel dec option.case rlp.case k_def [symmetric]]
  have len: "length fs = k + 5 + 3" using p by (auto simp: k_def split: if_splits)
  have split: "fs = take (k + 5) fs @ [fs ! (k + 5), fs ! (k + 6), fs ! (k + 7)]"
    using split_last_three [OF len] by (simp add: add.commute)
  obtain chain nonce priority fee gas_limit target amount data parity r s key where
    f: "rlp_uint False (fs ! 0) = Inr chain" "rlp_uint True (fs ! 1) = Inr nonce"
      "rlp_uint False (fs ! k) = Inr gas_limit" "fs ! (k + 1) = RBytes target" "rlp_uint True (fs ! (k + 2)) = Inr amount"
      "fs ! (k + 3) = RBytes data" "rlp_uint True (fs ! (k + 5)) = Inr parity" "rlp_uint False (fs ! (k + 6)) = Inr r"
      "rlp_uint False (fs ! (k + 7)) = Inr s" "length target = 20" "parity = 0 \<or> parity = 1"
      "recover (keccak256 (kind # renc (RList (take (k + 5) fs)))) (int parity) (int r) (int s) = Some key"
    and res: "p = \<lparr>ps_transaction_type = (if kind = 1 then ''eip-2930'' else ''eip-1559''), ps_chain_id = int chain,
               ps_account_nonce = int nonce, ps_gas_limit = int gas_limit, ps_max_fee_per_gas = int fee,
               ps_max_priority_fee_per_gas = int priority, ps_target_address = ''0x'' @ bytes_hex target,
               ps_value_atomic = int amount, ps_calldata = data, ps_sender_address = key_address key,
               ps_transaction_hash = ''0x'' @ keccak256_hex raw\<rparr>"
    using p unfolding rbind_eq_Inr if_split_Inr derive_hash_eq_Inr recover_sender_eq_Inr field_bytes_eq_Inr
    by (clarsimp simp: assms(2))
  have body: "i < k + 5 \<Longrightarrow> take (k + 5) fs ! i = fs ! i" for i by simp
  have "body_reports (take (k + 5) fs) k p"
    unfolding body_reports_def using f by (simp add: body res)
  moreover have "typed_signer renc recover kind (take (k + 5) fs) (fs ! (k + 5)) (fs ! (k + 6)) (fs ! (k + 7)) key"
    unfolding typed_signer_def using f(7-9,11,12) by (intro exI conjI) auto
  moreover have "raw = kind # renc (RList (take (k + 5) fs @ [fs ! (k + 5), fs ! (k + 6), fs ! (k + 7)]))"
    unfolding split [symmetric] assms(2) exact [OF dec] ..
  ultimately show "typed_from renc recover raw p"
    unfolding typed_from_def k_def [symmetric] using assms(3) f(1,2)
    by (intro exI [of _ kind] exI [of _ "take (k + 5) fs"] exI [of _ "fs ! (k + 5)"] exI [of _ "fs ! (k + 6)"]
        exI [of _ "fs ! (k + 7)"] exI [of _ key]) (simp add: body res k_def)
  show "ps_transaction_hash p = ''0x'' @ keccak256_hex raw" by (simp add: res)
qed

lemma legacy_parsed:
  assumes "parse_legacy rdec renc recover raw = Inr p" and exact: "\<And>b t. rdec b = Some t \<Longrightarrow> renc t = b"
  shows "legacy_from renc recover raw p" "ps_transaction_hash p = ''0x'' @ keccak256_hex raw"
proof -
  from assms(1) obtain fs where dec: "rdec raw = Some (RList fs)"
    by (auto simp: parse_legacy_def split: option.splits rlp.splits)
  note p = assms(1) [unfolded parse_legacy_def Let_def dec option.case rlp.case]
  have len: "length fs = 6 + 3" using p by (auto split: if_splits)
  have split: "fs = take 6 fs @ [fs ! 6, fs ! 7, fs ! 8]"
    using split_last_three [OF len] by simp
  obtain nonce gas_price gas_limit target amount data v r s key where
    f: "rlp_uint True (fs ! 0) = Inr nonce" "rlp_uint False (fs ! 2) = Inr gas_limit" "fs ! 3 = RBytes target"
      "rlp_uint True (fs ! 4) = Inr amount" "fs ! 5 = RBytes data" "rlp_uint False (fs ! 6) = Inr v"
      "rlp_uint False (fs ! 7) = Inr r" "rlp_uint False (fs ! 8) = Inr s" "length target = 20" "\<not> v < 35"
      "recover (keccak256 (renc (RList (take 6 fs @ [RBytes (shortest_big ((v - 35) div 2)), RBytes [], RBytes []]))))
        (int ((v - 35) mod 2)) (int r) (int s) = Some key"
    and res: "p = \<lparr>ps_transaction_type = ''legacy-eip-155'', ps_chain_id = int ((v - 35) div 2),
               ps_account_nonce = int nonce, ps_gas_limit = int gas_limit, ps_max_fee_per_gas = int gas_price,
               ps_max_priority_fee_per_gas = int gas_price, ps_target_address = ''0x'' @ bytes_hex target,
               ps_value_atomic = int amount, ps_calldata = data, ps_sender_address = key_address key,
               ps_transaction_hash = ''0x'' @ keccak256_hex raw\<rparr>"
    using p unfolding rbind_eq_Inr if_split_Inr derive_hash_eq_Inr recover_sender_eq_Inr field_bytes_eq_Inr
    by clarsimp
  have body: "i < 6 \<Longrightarrow> take 6 fs ! i = fs ! i" for i by simp
  have "body_reports (take 6 fs) 2 p"
    unfolding body_reports_def using f by (simp add: body res)
  moreover have "legacy_signer renc recover (ps_chain_id p) (take 6 fs) (fs ! 6) (fs ! 7) (fs ! 8) key"
    unfolding legacy_signer_def using f(6-8,10,11) by (intro exI [of _ v] exI [of _ r] exI [of _ s]) (simp add: res)
  moreover have "raw = renc (RList (take 6 fs @ [fs ! 6, fs ! 7, fs ! 8]))"
    unfolding split [symmetric] exact [OF dec] ..
  ultimately show "legacy_from renc recover raw p"
    unfolding legacy_from_def using f(1)
    by (intro exI [of _ "take 6 fs"] exI [of _ "fs ! 6"] exI [of _ "fs ! 7"] exI [of _ "fs ! 8"] exI [of _ key])
      (simp add: body res)
  show "ps_transaction_hash p = ''0x'' @ keccak256_hex raw" by (simp add: res)
qed

lemma scope_admits_eq_Inr [res_simps]:
  "scope_admits H sc p = Inr u \<longleftrightarrow> ps_chain_id p = sc_chain_id sc \<and> ps_sender_address p = sc_taker_address sc \<and>
     ps_target_address p = sc_target_address sc \<and> sc_min_value_atomic sc \<le> ps_value_atomic p \<and>
     ps_value_atomic p \<le> sc_max_value_atomic sc \<and> int (length (ps_calldata p)) = sc_calldata_length sc \<and>
     H (byte_text (ps_calldata p)) = sc_calldata_sha256 sc \<and>
     (case sc_account_nonce sc of None \<Rightarrow> True | Some n \<Rightarrow> ps_account_nonce p = n) \<and>
     (case sc_gas_limit_ceiling sc of None \<Rightarrow> True | Some n \<Rightarrow> ps_gas_limit p \<le> n) \<and>
     (case sc_max_fee_per_gas_ceiling sc of None \<Rightarrow> True | Some n \<Rightarrow> ps_max_fee_per_gas p \<le> n) \<and>
     (case sc_max_priority_fee_per_gas_ceiling sc of None \<Rightarrow> True | Some n \<Rightarrow> ps_max_priority_fee_per_gas p \<le> n)"
  by (auto simp: scope_admits_def Let_def res_simps not_less split: option.splits)

text \<open>
  \<^bold>\<open>C25.\<close> Validated bytes are the taker's own signature over the scope: the bytes are the
  exact encoding of a transaction whose body the governed taker's key signed, for the
  chain, target and calldata of the scope and a value within its bounds; the hash reported is
  the hash of these bytes. \<open>exact\<close> is the strictness of the RLP decoder: it accepts nothing
  the encoder does not produce.
\<close>

theorem validated_bytes_signed_by_taker:
  assumes exact: "\<And>b t. rdec b = Some t \<Longrightarrow> renc t = b"
    and valid: "validate_exact_signed_bytes H rdec renc recover raw sc = Inr v"
  shows "(typed_from renc recover raw (vs_parsed v) \<or> legacy_from renc recover raw (vs_parsed v)) \<and>
    ps_sender_address (vs_parsed v) = sc_taker_address sc \<and> ps_chain_id (vs_parsed v) = sc_chain_id sc \<and>
    ps_target_address (vs_parsed v) = sc_target_address sc \<and>
    sc_min_value_atomic sc \<le> ps_value_atomic (vs_parsed v) \<and> ps_value_atomic (vs_parsed v) \<le> sc_max_value_atomic sc \<and>
    H (byte_text (ps_calldata (vs_parsed v))) = sc_calldata_sha256 sc \<and>
    ps_transaction_hash (vs_parsed v) = ''0x'' @ keccak256_hex raw \<and> vs_signed_bytes_sha256 v = H (byte_text raw)"
proof -
  from valid obtain p where p: "parse_signed rdec renc recover raw = Inr p" and adm: "scope_admits H sc p = Inr ()"
    and v: "vs_parsed v = p" "vs_signed_bytes_sha256 v = H (byte_text raw)"
    unfolding validate_exact_signed_bytes_def rbind_eq_Inr by auto
  from p have ne: "raw \<noteq> []" by (auto simp: parse_signed_def)
  then obtain kind rest where raw: "raw = kind # rest" by (cases raw) auto
  have "(typed_from renc recover raw p \<or> legacy_from renc recover raw p) \<and> ps_transaction_hash p = ''0x'' @ keccak256_hex raw"
  proof (cases "kind = 1 \<or> kind = 2")
    case True
    then have "parse_typed rdec renc recover raw = Inr p"
      using p ne raw by (auto simp: parse_signed_def rbind_eq_Inr split: if_splits)
    from typed_parsed [OF this raw True exact] show ?thesis by blast
  next
    case False
    then have "parse_legacy rdec renc recover raw = Inr p"
      using p ne raw by (auto simp: parse_signed_def rbind_eq_Inr split: if_splits)
    from legacy_parsed [OF this exact] show ?thesis by blast
  qed
  with adm v show ?thesis by (simp add: scope_admits_eq_Inr)
qed

text \<open>
  A zero byte is admitted as the integer zero beside the empty string, the only canonical
  one: the check of a leading zero skips texts of length one.
\<close>

lemma zero_byte_admitted: "uint_bytes True [0] = Inr 0" "uint_bytes True [] = Inr 0"
  by (simp_all add: uint_bytes_def nat_from_big_def)

subsection \<open>A concrete transaction\<close>

definition sample_key :: bytes where
  "sample_key = replicate 64 5"

definition sample_body :: "rlp list" where
  "sample_body = [RBytes [1], RBytes [], RBytes [2], RBytes [3], RBytes [4], RBytes (replicate 20 6), RBytes [],
     RBytes [8, 9], RList []]"

definition sample_signed :: bytes where
  "sample_signed = [2, 77]"

text \<open>A codec that knows the one transaction, and a recovery that always yields the key.\<close>

definition sample_rdec :: rlp_decoder where
  "sample_rdec b = (if b = [77] then Some (RList (sample_body @ [RBytes [], RBytes [1], RBytes [2]])) else None)"

definition sample_renc :: rlp_encoder where
  "sample_renc t = (if t = RList (sample_body @ [RBytes [], RBytes [1], RBytes [2]]) then [77] else [78])"

definition sample_recover :: recovery where
  "sample_recover h parity r s = Some sample_key"

definition sample_scope :: ExactSignedBytesScopeV0 where
  "sample_scope = \<lparr>sc_session_id = ''s'', sc_session_identity_digest = ''d'', sc_economic_action_id = ''a'',
     sc_authority_policy_digest = ''p'', sc_chain_id = 1, sc_taker_address = key_address sample_key,
     sc_target_address = ''0x'' @ bytes_hex (replicate 20 6), sc_min_value_atomic = 0, sc_max_value_atomic = 0,
     sc_calldata_sha256 = byte_text [8, 9], sc_calldata_length = 2, sc_account_nonce = Some 0,
     sc_gas_limit_ceiling = Some 4, sc_max_fee_per_gas_ceiling = Some 3, sc_max_priority_fee_per_gas_ceiling = None\<rparr>"

definition sample_parsed_transaction :: ParsedExactSignedBytesV0 where
  "sample_parsed_transaction = \<lparr>ps_transaction_type = ''eip-1559'', ps_chain_id = 1, ps_account_nonce = 0,
     ps_gas_limit = 4, ps_max_fee_per_gas = 3, ps_max_priority_fee_per_gas = 2,
     ps_target_address = ''0x'' @ bytes_hex (replicate 20 6), ps_value_atomic = 0, ps_calldata = [8, 9],
     ps_sender_address = key_address sample_key, ps_transaction_hash = ''0x'' @ keccak256_hex sample_signed\<rparr>"

lemma sample_parsed_signed:
  "parse_signed sample_rdec sample_renc sample_recover sample_signed = Inr sample_parsed_transaction"
  by (simp add: parse_signed_def parse_typed_def sample_signed_def sample_rdec_def
      sample_body_def rlp_uint_def uint_bytes_def field_bytes_def nat_from_big_def access_list_def sample_recover_def
      recover_sender_def Let_def derive_transaction_hash_def key_address_def
      length_keccak256 MAX_UINT256_def sample_parsed_transaction_def)

lemma sample_scope_admits: "scope_admits (\<lambda>s. s) sample_scope sample_parsed_transaction = Inr ()"
  by (simp add: scope_admits_eq_Inr sample_scope_def sample_parsed_transaction_def)

theorem validated_bytes_signed_by_taker_witness:
  "\<exists>v. validate_exact_signed_bytes (\<lambda>s. s) sample_rdec sample_renc sample_recover sample_signed sample_scope = Inr v \<and>
     ps_sender_address (vs_parsed v) = key_address sample_key \<and>
     ps_transaction_hash (vs_parsed v) = ''0x'' @ keccak256_hex sample_signed"
proof -
  obtain v where v: "validate_exact_signed_bytes (\<lambda>s. s) sample_rdec sample_renc sample_recover sample_signed sample_scope = Inr v"
    by (simp add: validate_exact_signed_bytes_def sample_parsed_signed sample_scope_admits)
  have exact: "sample_rdec b = Some t \<Longrightarrow> sample_renc t = b" for b t
    by (auto simp: sample_rdec_def sample_renc_def split: if_splits)
  from validated_bytes_signed_by_taker [OF exact v] v show ?thesis by (auto simp: sample_scope_def)
qed

end
