(* ===== verification/ExecSchema.thy ===== *)
theory ExecSchema
  imports Venue Authority SignedBytes ReplayAudit
begin

text \<open>
  The tables of the execution surface, \<open>ledger/execution_schema.py\<close>, beside those of the core
  ledger: one record per row, one statement per table with its constraints and triggers. A row
  made of a contract value holds the value's fields as its columns; the schema tag of the value
  is no column. The core tables stay in \<open>x_core\<close>, and \<open>view\<close> is the database as the store sees
  it, with the columns of the execution tables that the store reads.
\<close>

subsection \<open>Rows\<close>

definition EXECUTION_SCHEMA_VERSION :: int where
  "EXECUTION_SCHEMA_VERSION = 6"

record session_row =
  ws_id :: string
  ws_identity_digest :: string
  ws_session :: ExecutionSessionV0
  ws_root_id :: string
  ws_level :: int

record root_row =
  wr_config :: string
  wr_root_id :: string
  wr_fingerprint :: string
  wr_minimum_epoch :: int
  wr_epoch :: int
  wr_receipt_id :: string
  wr_accepted_at :: int

datatype lifecycle = DRAFT | AUTHORIZED | SUPERSEDED | VOID | SETTLED

record approval_row =
  wa_id :: string
  wa_value :: ApprovalActionV0
  wa_lifecycle :: lifecycle
  wa_created_at :: int

record envelope_row =
  we_id :: string
  we_value :: ExecutionEnvelopeV0
  we_evidence_digest :: string
  we_lifecycle :: lifecycle

record action_row =
  wx_id :: string
  wx_kind :: action_kind
  wx_economic :: "string option"
  wx_approval :: "string option"
  wx_session :: "string option"

record ref_row = external_ref_row +
  wf_session :: string
  wf_session_identity :: string
  wf_authority :: string
  wf_origin :: string

datatype signed_origin = FROM_ENVELOPE | FROM_APPROVAL | EXTERNAL_SIGNED_BYTES

record signed_row = origin_row +
  wg_session :: string
  wg_envelope :: "string option"
  wg_approval :: "string option"
  wg_origin :: signed_origin
  wg_nonce :: int
  wg_sha256 :: string
  wg_length :: int
  wg_scope_digest :: string
  wg_signer :: string
  wg_frozen_at :: int

record attempt_row =
  wt_id :: string
  wt_value :: SubmissionAttemptV0

record chain_row =
  wc_id :: string
  wc_action :: string
  wc_signed :: "string option"
  wc_external :: "string option"
  wc_value :: ChainObservationV0

record recon_row = reconciliation_row +
  wv_depth :: int
  wv_agreeing :: int
  wv_at :: int
  wv_evidence :: string

record control_row =
  wk_seq :: int
  wk_session :: "string option"
  wk_engaged :: int
  wk_at :: int
  wk_reason :: string

record prepare_row =
  wp_id :: string
  wp_kind :: string
  wp_source :: string
  wp_policy :: string
  wp_authority_digest :: string
  wp_authority_receipt :: string
  wp_sha256 :: string
  wp_plan :: json
  wp_phase :: string
  wp_created_at :: int
  wp_updated_at :: int

record exec_db =
  x_core :: db
  x_sessions :: "session_row list"
  x_roots :: "root_row list"
  x_approvals :: "approval_row list"
  x_envelopes :: "envelope_row list"
  x_actions :: "action_row list"
  x_refs :: "ref_row list"
  x_signed :: "signed_row list"
  x_attempts :: "attempt_row list"
  x_observations :: "chain_row list"
  x_reconciliations :: "recon_row list"
  x_controls :: "control_row list"
  x_prepares :: "prepare_row list"

subsection \<open>What the store sees\<close>

definition observation_columns :: "chain_row \<Rightarrow> observation_row" where
  "observation_columns r =
     \<lparr>co_action = wc_action r, co_signed = wc_signed r, co_external = wc_external r,
      co_presence = ob_presence (wc_value r), co_receipt_status = ob_receipt_status (wc_value r),
      co_input = ob_effective_input_atomic (wc_value r),
      co_output = ob_effective_output_atomic (wc_value r)\<rparr>"

definition surface_of :: "exec_db \<Rightarrow> exec_tables" where
  "surface_of x =
     \<lparr>external_actions = map (\<lambda>r. (wx_id r, wx_kind r)) (x_actions x),
      signed_transactions = map origin_row.truncate (x_signed x),
      external_transaction_refs = map external_ref_row.truncate (x_refs x),
      chain_observations = map observation_columns (x_observations x),
      reconciliations = map reconciliation_row.truncate (x_reconciliations x)\<rparr>"

definition view :: "exec_db \<Rightarrow> db" where
  "view x = (x_core x)\<lparr>exec_surface := Some (surface_of x)\<rparr>"

text \<open>A statement of the store inside a transaction of the runtime: one connection, one database.\<close>

definition in_store :: "(db, error, 'a) body \<Rightarrow> (exec_db, error, 'a) body" where
  "in_store m x = (case m (view x) of (r, d) \<Rightarrow> (r, x\<lparr>x_core := d\<lparr>exec_surface := None\<rparr>\<rparr>))"

subsection \<open>Insertions\<close>

text \<open>A column of type INTEGER refuses what does not fit 64 bits when the value is bound.\<close>

definition columns_fit :: "int list \<Rightarrow> bool" where
  "columns_fit ns \<longleftrightarrow> list_all (\<lambda>n. n \<le> INT64_MAX) ns"

text \<open>
  One INSERT: binding, the triggers that run before it, CHECK constraints, foreign keys. The
  triggers against conflict replacement refuse every duplicate key, so no UNIQUE constraint is
  reached by one, except in \<open>prepare_records\<close> and \<open>external_transaction_refs\<close>.
\<close>

definition insertable :: "int list \<Rightarrow> bool \<Rightarrow> bool \<Rightarrow> bool \<Rightarrow> bool \<Rightarrow> error + unit" where
  "insertable columns before_insert checked_columns unique references =
     (if \<not> columns_fit columns then Inl PyOverflowError
      else if \<not> before_insert then Inl SqliteAbort
      else if \<not> checked_columns then Inl SqliteCheck
      else if \<not> unique then Inl SqliteUnique
      else if \<not> references then Inl SqliteForeignKey else Inr ())"

lemma insertable_eq_Inr [res_simps]:
  "insertable cols b c u r = Inr v \<longleftrightarrow> columns_fit cols \<and> b \<and> c \<and> u \<and> r"
  by (simp add: insertable_def)

definition session_slot :: "session_row \<Rightarrow> string \<times> int \<times> int" where
  "session_slot r = (ws_identity_digest r, es_started_at_epoch_s (ws_session r), es_session_ordinal (ws_session r))"

definition insert_session :: "session_row \<Rightarrow> exec_db \<Rightarrow> error + exec_db" where
  "insert_session r x = (let s = ws_session r in
     rbind (insertable
       [es_db_schema_version s, ws_level r, es_started_at_epoch_s s, es_session_ordinal s]
       (\<not> has_row ws_id (ws_id r) (x_sessions x) \<and> \<not> has_row session_slot (session_slot r) (x_sessions x))
       (0 \<le> es_db_schema_version s \<and> 0 \<le> ws_level r \<and> ws_level r \<le> 4 \<and> 0 \<le> es_started_at_epoch_s s \<and>
        0 \<le> es_session_ordinal s)
       True
       (has_row pr_id (es_policy_id s) (policies (x_core x)))) (\<lambda>_.
     Inr (x\<lparr>x_sessions := x_sessions x @ [r]\<rparr>)))"

definition insert_root :: "root_row \<Rightarrow> exec_db \<Rightarrow> error + exec_db" where
  "insert_root r x =
     rbind (insertable [wr_minimum_epoch r, wr_epoch r, wr_accepted_at r] True
       (0 < wr_minimum_epoch r \<and> wr_minimum_epoch r \<le> wr_epoch r \<and> 0 \<le> wr_accepted_at r)
       (\<not> has_row wr_config (wr_config r) (x_roots x)) True) (\<lambda>_.
     Inr (x\<lparr>x_roots := x_roots x @ [r]\<rparr>))"

text \<open>The trigger \<open>authority_root_state_no_rollback\<close>, for an UPDATE of the last three columns.\<close>

definition rolls_back :: "root_row \<Rightarrow> root_row \<Rightarrow> bool" where
  "rolls_back old new \<longleftrightarrow> wr_epoch new < wr_epoch old \<or>
     (wr_epoch new = wr_epoch old \<and> wr_receipt_id new \<noteq> wr_receipt_id old \<and>
        wr_accepted_at new \<le> wr_accepted_at old) \<or>
     wr_accepted_at new < wr_accepted_at old"

definition set_accepted :: "int \<times> string \<times> int \<Rightarrow> root_row \<Rightarrow> root_row" where
  "set_accepted v r = r\<lparr>wr_epoch := fst v, wr_receipt_id := fst (snd v), wr_accepted_at := snd (snd v)\<rparr>"

definition update_root :: "string \<Rightarrow> int \<times> string \<times> int \<Rightarrow> exec_db \<Rightarrow> error + exec_db" where
  "update_root config v x =
     (if \<not> columns_fit [fst v, snd (snd v)] then Inl PyOverflowError
      else if list_ex (\<lambda>r. wr_config r = config \<and> rolls_back r (set_accepted v r)) (x_roots x) then Inl SqliteAbort
      else if list_ex (\<lambda>r. wr_config r = config \<and> \<not> (wr_minimum_epoch r \<le> fst v \<and> 0 \<le> snd (snd v))) (x_roots x)
        then Inl SqliteCheck
      else Inr (x\<lparr>x_roots := update_row wr_config config (set_accepted v) (x_roots x)\<rparr>))"

definition session_known :: "string \<Rightarrow> string \<Rightarrow> exec_db \<Rightarrow> bool" where
  "session_known sid identity x \<longleftrightarrow>
     list_ex (\<lambda>s. ws_id s = sid \<and> ws_identity_digest s = identity) (x_sessions x)"

definition approval_pair :: "approval_row \<Rightarrow> string \<times> string \<times> string" where
  "approval_pair r = (aa_taker_address (wa_value r), aa_token_address (wa_value r), aa_spender_address (wa_value r))"

definition insert_approval :: "approval_row \<Rightarrow> exec_db \<Rightarrow> error + exec_db" where
  "insert_approval r x = (let v = wa_value r in
     rbind (insertable [aa_deadline_epoch_s v, wa_created_at r]
       (\<not> has_row wa_id (wa_id r) (x_approvals x) \<and>
        \<not> (wa_lifecycle r = AUTHORIZED \<and>
           list_ex (\<lambda>a. wa_lifecycle a = AUTHORIZED \<and> approval_pair a = approval_pair r) (x_approvals x)) \<and>
        session_known (aa_session_id v) (aa_session_identity_digest v) x)
       (0 < aa_requested_allowance_atomic v \<and> 0 \<le> aa_observed_prior_allowance_atomic v \<and>
        0 < aa_deadline_epoch_s v \<and> 0 \<le> wa_created_at r)
       True
       (case aa_economic_action_id v of None \<Rightarrow> True | Some a \<Rightarrow> has_row nr_id a (intents (x_core x)))) (\<lambda>_.
     Inr (x\<lparr>x_approvals := x_approvals x @ [r]\<rparr>)))"

definition envelope_nonce :: "envelope_row \<Rightarrow> string \<times> int \<times> int" where
  "envelope_nonce r = (env_taker_address (we_value r), env_chain_id (we_value r), env_account_nonce (we_value r))"

definition envelope_action :: "envelope_row \<Rightarrow> string" where
  "envelope_action r = env_economic_action_id (we_value r)"

definition insert_envelope :: "envelope_row \<Rightarrow> exec_db \<Rightarrow> error + exec_db" where
  "insert_envelope r x = (let v = we_value r in
     rbind (insertable
       [env_venue_block_number v, env_chain_id v, env_calldata_length v, env_account_nonce v, env_gas_limit_ceiling v,
        env_deadline_epoch_s v, env_constructed_at_epoch_s v]
       (\<not> has_row we_id (we_id r) (x_envelopes x) \<and>
        \<not> (we_lifecycle r = AUTHORIZED \<and>
           list_ex (\<lambda>e. we_lifecycle e = AUTHORIZED \<and>
             (envelope_action e = envelope_action r \<or> envelope_nonce e = envelope_nonce r)) (x_envelopes x)) \<and>
        session_known (env_session_id v) (env_session_identity_digest v) x)
       (0 \<le> env_venue_block_number v \<and> 0 < env_chain_id v \<and> 0 < env_max_input_atomic v \<and>
        0 < env_min_output_atomic v \<and> 0 \<le> env_transaction_value_atomic v \<and> 0 < env_calldata_length v \<and>
        0 \<le> env_account_nonce v \<and> 0 < env_gas_limit_ceiling v \<and> 0 < env_max_fee_per_gas_ceiling_atomic v \<and>
        0 \<le> env_max_priority_fee_per_gas_ceiling_atomic v \<and> 0 < env_deadline_epoch_s v \<and>
        we_lifecycle r \<noteq> SETTLED \<and> 0 \<le> env_constructed_at_epoch_s v \<and>
        env_input_instrument_id v \<noteq> env_output_instrument_id v)
       True
       (has_row nr_id (env_economic_action_id v) (intents (x_core x)) \<and>
        has_row ir_id (env_input_instrument_id v) (instruments (x_core x)) \<and>
        has_row ir_id (env_output_instrument_id v) (instruments (x_core x)))) (\<lambda>_.
     Inr (x\<lparr>x_envelopes := x_envelopes x @ [r]\<rparr>)))"

definition insert_action :: "action_row \<Rightarrow> exec_db \<Rightarrow> error + exec_db" where
  "insert_action r x =
     rbind (insertable []
       (\<not> has_row wx_id (wx_id r) (x_actions x) \<and>
        \<not> (wx_economic r \<noteq> None \<and> has_row wx_economic (wx_economic r) (x_actions x)) \<and>
        \<not> (wx_approval r \<noteq> None \<and> has_row wx_approval (wx_approval r) (x_actions x)))
       ((wx_economic r = None) \<noteq> (wx_approval r = None) \<and>
        (wx_kind r = ECONOMIC) = (wx_economic r \<noteq> None) \<and>
        Some (wx_id r) = (if wx_economic r \<noteq> None then wx_economic r else wx_approval r))
       True
       ((case wx_economic r of None \<Rightarrow> True | Some a \<Rightarrow> has_row nr_id a (intents (x_core x))) \<and>
        (case wx_approval r of None \<Rightarrow> True | Some a \<Rightarrow> has_row wa_id a (x_approvals x)) \<and>
        (case wx_session r of None \<Rightarrow> True | Some s \<Rightarrow> has_row ws_id s (x_sessions x)))) (\<lambda>_.
     Inr (x\<lparr>x_actions := x_actions x @ [r]\<rparr>))"

text \<open>\<open>'evm:' || chain_id\<close>.\<close>

definition evm_network :: "int \<Rightarrow> string" where
  "evm_network chain = ''evm:'' @ str_int chain"

definition insert_ref :: "ref_row \<Rightarrow> exec_db \<Rightarrow> error + exec_db" where
  "insert_ref r x =
     rbind (insertable [or_chain r]
       (\<not> has_row or_id (or_id r) (x_refs x) \<and> \<not> has_row or_action (or_action r) (x_refs x) \<and>
        \<not> has_row or_hash (or_hash r) (x_refs x) \<and>
        \<not> has_row or_action (or_action r) (x_signed x) \<and>
        list_ex (\<lambda>a. wx_id a = or_action r \<and> wx_kind a = ECONOMIC \<and> wx_economic a = Some (er_economic_action r) \<and>
          (wx_session a = None \<or> wx_session a = Some (wf_session r)) \<and>
          list_ex (\<lambda>s. ws_id s = wf_session r \<and> ws_identity_digest s = wf_session_identity r \<and>
            es_authority_policy_digest (ws_session s) = wf_authority r \<and>
            es_taker_address (ws_session s) = or_taker r \<and>
            es_network_id (ws_session s) = evm_network (or_chain r)) (x_sessions x)) (x_actions x))
       (0 < or_chain r \<and> wf_origin r = EXTERNAL_TRANSACTION_ORIGIN \<and> or_action r = er_economic_action r)
       (\<not> has_row er_economic_action (er_economic_action r) (x_refs x))
       (has_row nr_id (er_economic_action r) (intents (x_core x)))) (\<lambda>_.
     Inr (x\<lparr>x_refs := x_refs x @ [r]\<rparr>))"

text \<open>The trigger \<open>signed_transactions_kind_guard\<close>: a signed transaction matches its subtype.\<close>

definition signed_kind_guard :: "signed_row \<Rightarrow> exec_db \<Rightarrow> bool" where
  "signed_kind_guard r x \<longleftrightarrow>
     \<not> (wg_origin r = FROM_ENVELOPE \<and> wg_envelope r = None \<and> wg_approval r = None) \<and>
     \<not> has_row or_action (or_action r) (x_refs x) \<and>
     (wg_origin r = EXTERNAL_SIGNED_BYTES \<longrightarrow>
        list_ex (\<lambda>a. wx_id a = or_action r \<and> wx_kind a = ECONOMIC \<and> wx_economic a = Some (or_action r) \<and>
          (wx_session a = None \<or> wx_session a = Some (wg_session r)) \<and>
          list_ex (\<lambda>s. ws_id s = wg_session r \<and> es_taker_address (ws_session s) = or_taker r \<and>
            es_network_id (ws_session s) = evm_network (or_chain r)) (x_sessions x)) (x_actions x)) \<and>
     (case wg_envelope r of None \<Rightarrow> True | Some eid \<Rightarrow>
        list_ex (\<lambda>a. wx_id a = or_action r \<and> wx_kind a = ECONOMIC \<and>
          list_ex (\<lambda>e. we_id e = eid \<and> wx_economic a = Some (envelope_action e) \<and> we_lifecycle e = AUTHORIZED \<and>
            wg_session r = env_session_id (we_value e) \<and>
            (or_taker r, or_chain r, wg_nonce r) = envelope_nonce e) (x_envelopes x)) (x_actions x)) \<and>
     (case wg_approval r of None \<Rightarrow> True | Some aid \<Rightarrow>
        list_ex (\<lambda>a. wx_id a = or_action r \<and> wx_kind a = APPROVAL \<and>
          list_ex (\<lambda>v. wa_id v = aid \<and> wx_approval a = Some (wa_id v) \<and>
            wg_session r = aa_session_id (wa_value v) \<and> or_taker r = aa_taker_address (wa_value v)) (x_approvals x))
          (x_actions x))"

definition signed_nonce :: "signed_row \<Rightarrow> int \<times> string \<times> int" where
  "signed_nonce r = (or_chain r, or_taker r, wg_nonce r)"

definition insert_signed :: "signed_row \<Rightarrow> exec_db \<Rightarrow> error + exec_db" where
  "insert_signed r x =
     rbind (insertable [or_chain r, wg_nonce r, wg_length r, wg_frozen_at r]
       (signed_kind_guard r x \<and>
        \<not> has_row or_id (or_id r) (x_signed x) \<and> \<not> has_row or_action (or_action r) (x_signed x) \<and>
        \<not> has_row wg_sha256 (wg_sha256 r) (x_signed x) \<and> \<not> has_row or_hash (or_hash r) (x_signed x) \<and>
        \<not> has_row signed_nonce (signed_nonce r) (x_signed x))
       (0 < or_chain r \<and> 0 \<le> wg_nonce r \<and> 0 < wg_length r \<and> 0 \<le> wg_frozen_at r \<and>
        (wg_origin r = EXTERNAL_SIGNED_BYTES \<longrightarrow> wg_envelope r \<noteq> None \<and> wg_approval r = None))
       True
       (has_row wx_id (or_action r) (x_actions x) \<and> has_row ws_id (wg_session r) (x_sessions x))) (\<lambda>_.
     Inr (x\<lparr>x_signed := x_signed x @ [r]\<rparr>))"

definition attempt_slot :: "attempt_row \<Rightarrow> string \<times> string \<times> int" where
  "attempt_slot r = (sb_signed_transaction_id (wt_value r), sb_provider_id (wt_value r), sb_attempt_ordinal (wt_value r))"

definition insert_attempt :: "attempt_row \<Rightarrow> exec_db \<Rightarrow> error + exec_db" where
  "insert_attempt r x = (let v = wt_value r in
     rbind (insertable [sb_attempt_ordinal v, sb_submitted_at_epoch_s v]
       (\<not> has_row wt_id (wt_id r) (x_attempts x) \<and> \<not> has_row attempt_slot (attempt_slot r) (x_attempts x))
       (0 \<le> sb_attempt_ordinal v \<and> 0 \<le> sb_submitted_at_epoch_s v) True
       (has_row or_id (sb_signed_transaction_id v) (x_signed x))) (\<lambda>_.
     Inr (x\<lparr>x_attempts := x_attempts x @ [r]\<rparr>)))"

definition observation_checks :: "ChainObservationV0 \<Rightarrow> bool" where
  "observation_checks v \<longleftrightarrow> (let inc = (ob_presence v = P_INCLUDED) in
     0 \<le> ob_observed_at_epoch_s v \<and>
     inc = (ob_block_hash v \<noteq> None) \<and> inc = (ob_block_number v \<noteq> None) \<and>
     inc = (ob_block_parent_hash v \<noteq> None) \<and> inc = (ob_receipt_status v \<noteq> None) \<and>
     (case ob_block_number v of None \<Rightarrow> True | Some n \<Rightarrow> 0 \<le> n) \<and>
     (case ob_head_block_number v of None \<Rightarrow> True | Some n \<Rightarrow> 0 \<le> n) \<and>
     (ob_head_block_number v = None) = (ob_head_block_hash v = None) \<and>
     (case (ob_head_block_number v, ob_block_number v) of (Some h, Some n) \<Rightarrow> inc \<longrightarrow> n \<le> h | _ \<Rightarrow> True) \<and>
     (ob_effective_input_atomic v = None) = (ob_effective_output_atomic v = None) \<and>
     (case ob_effective_input_atomic v of None \<Rightarrow> True
      | Some n \<Rightarrow> 0 \<le> n \<and> inc \<and> ob_receipt_status v = Some RS_SUCCESS) \<and>
     (case ob_effective_output_atomic v of None \<Rightarrow> True | Some n \<Rightarrow> 0 \<le> n))"

definition insert_observation :: "chain_row \<Rightarrow> exec_db \<Rightarrow> error + exec_db" where
  "insert_observation r x = (let v = wc_value r in
     rbind (insertable
       ([ob_observed_at_epoch_s v] @ case_option [] (\<lambda>n. [n]) (ob_block_number v) @
        case_option [] (\<lambda>n. [n]) (ob_head_block_number v))
       (\<not> has_row wc_id (wc_id r) (x_observations x) \<and>
        (list_ex (\<lambda>s. wc_signed r = Some (or_id s) \<and> or_action s = wc_action r) (x_signed x) \<or>
         list_ex (\<lambda>e. wc_external r = Some (or_id e) \<and> or_action e = wc_action r \<and>
           or_hash e = ob_transaction_hash v) (x_refs x)))
       (observation_checks v \<and> (wc_signed r = None) \<noteq> (wc_external r = None))
       True
       (has_row wx_id (wc_action r) (x_actions x) \<and>
        (case wc_signed r of None \<Rightarrow> True | Some s \<Rightarrow> has_row or_id s (x_signed x)) \<and>
        (case wc_external r of None \<Rightarrow> True | Some e \<Rightarrow> has_row or_id e (x_refs x)))) (\<lambda>_.
     Inr (x\<lparr>x_observations := x_observations x @ [r]\<rparr>)))"

text \<open>The three binding triggers of \<open>reconciliations\<close>.\<close>

definition shows_revert :: "exec_db \<Rightarrow> recon_row \<Rightarrow> bool" where
  "shows_revert x r \<longleftrightarrow>
     list_ex (\<lambda>s. bound_to (reconciliation_row.truncate r) s \<and>
       has_row wx_id (or_action s) (x_actions x) \<and>
       list_ex (\<lambda>o'. wc_signed o' = Some (or_id s) \<and> wc_action o' = or_action s \<and>
         ob_presence (wc_value o') = P_INCLUDED \<and> ob_receipt_status (wc_value o') = Some RS_REVERTED)
         (x_observations x)) (x_signed x) \<or>
     list_ex (\<lambda>e. bound_to (reconciliation_row.truncate r) e \<and>
       list_ex (\<lambda>o'. wc_external o' = Some (or_id e) \<and> wc_action o' = or_action e \<and>
         ob_presence (wc_value o') = P_INCLUDED \<and> ob_receipt_status (wc_value o') = Some RS_REVERTED)
         (x_observations x)) (x_refs x)"

definition insert_reconciliation :: "recon_row \<Rightarrow> exec_db \<Rightarrow> error + exec_db" where
  "insert_reconciliation r x =
     rbind (insertable ([wv_depth r, wv_agreeing r, wv_at r] @ case_option [] (\<lambda>n. [n]) (rr_chain r))
       (\<not> has_row rr_id (rr_id r) (x_reconciliations x) \<and> \<not> has_row rr_action (rr_action r) (x_reconciliations x) \<and>
        (case rr_receipt r of None \<Rightarrow> True | Some f \<Rightarrow>
           list_ex (\<lambda>a. wx_id a = rr_action r \<and> wx_kind a = ECONOMIC \<and>
             list_ex (\<lambda>g. fr_id g = f \<and> wx_economic a = Some (fr_action g)) (fill_receipts (x_core x)))
             (x_actions x)) \<and>
        (rr_verdict r = V_REVERTED \<longrightarrow> shows_revert x r))
       (0 \<le> wv_depth r \<and> 0 \<le> wv_agreeing r \<and> 0 \<le> wv_at r \<and>
        (rr_verdict r = V_SETTLED) = (rr_receipt r \<noteq> None) \<and>
        (rr_verdict r = V_REVERTED \<longrightarrow> rr_hash r \<noteq> None \<and> rr_chain r \<noteq> None \<and> rr_taker r \<noteq> None) \<and>
        (rr_hash r = None) = (rr_chain r = None) \<and> (rr_hash r = None) = (rr_taker r = None))
       True
       (has_row wx_id (rr_action r) (x_actions x))) (\<lambda>_.
     Inr (x\<lparr>x_reconciliations := x_reconciliations x @ [r]\<rparr>))"

text \<open>\<open>AUTOINCREMENT\<close>: one more than the greatest number the table ever held.\<close>

definition next_control_seq :: "exec_db \<Rightarrow> int" where
  "next_control_seq x = foldr max (map wk_seq (x_controls x)) 0 + 1"

definition insert_control :: "control_row \<Rightarrow> exec_db \<Rightarrow> error + exec_db" where
  "insert_control r x =
     rbind (insertable [wk_at r] (\<not> has_row wk_seq (wk_seq r) (x_controls x))
       (wk_engaged r \<in> {0, 1} \<and> 0 \<le> wk_at r) True
       (case wk_session r of None \<Rightarrow> True | Some s \<Rightarrow> has_row ws_id s (x_sessions x))) (\<lambda>_.
     Inr (x\<lparr>x_controls := x_controls x @ [r]\<rparr>))"

definition PREPARE_PHASES :: "string list" where
  "PREPARE_PHASES = [''PLANNED'', ''POLICY_ADMITTED'', ''INVENTORY_CARRIED'', ''INTENT_SIMULATED'',
     ''SESSION_RECORDED'', ''PREAUTH_RECORDED'', ''PREPARED'']"

definition prepare_source :: "prepare_row \<Rightarrow> string \<times> string" where
  "prepare_source r = (wp_kind r, wp_source r)"

definition insert_prepare :: "prepare_row \<Rightarrow> exec_db \<Rightarrow> error + exec_db" where
  "insert_prepare r x =
     rbind (insertable [wp_created_at r, wp_updated_at r] True
       (wp_kind r = ''INK_V0F_NATIVE_SELL'' \<and> wp_phase r \<in> set PREPARE_PHASES \<and> 0 \<le> wp_created_at r \<and>
        0 \<le> wp_updated_at r \<and> wp_created_at r \<le> wp_updated_at r)
       (\<not> has_row wp_id (wp_id r) (x_prepares x) \<and> \<not> has_row wp_policy (wp_policy r) (x_prepares x) \<and>
        \<not> has_row prepare_source (prepare_source r) (x_prepares x))
       (has_row cr_id (wp_source r) (cycles (x_core x)))) (\<lambda>_.
     Inr (x\<lparr>x_prepares := x_prepares x @ [r]\<rparr>))"

text \<open>The trigger \<open>prepare_records_phase_guard\<close>: a phase stays or advances by one.\<close>

fun follows_phase :: "string list \<Rightarrow> string \<Rightarrow> string \<Rightarrow> bool" where
  "follows_phase (p # q # ps) old new \<longleftrightarrow> (old = p \<and> new = q) \<or> follows_phase (q # ps) old new"
| "follows_phase _ old new \<longleftrightarrow> False"

definition set_phase :: "string \<times> int \<Rightarrow> prepare_row \<Rightarrow> prepare_row" where
  "set_phase v r = r\<lparr>wp_phase := fst v, wp_updated_at := snd v\<rparr>"

definition update_prepare :: "string \<Rightarrow> string \<Rightarrow> int \<Rightarrow> exec_db \<Rightarrow> error + exec_db" where
  "update_prepare pid phase now x =
     (let touched = filter (\<lambda>r. wp_id r = pid) (x_prepares x) in
      if \<not> columns_fit [now] then Inl PyOverflowError
      else if \<not> list_all (\<lambda>r. phase = wp_phase r \<or> follows_phase PREPARE_PHASES (wp_phase r) phase) touched
        then Inl SqliteAbort
      else if \<not> list_all (\<lambda>r. 0 \<le> now \<and> wp_created_at r \<le> now) touched then Inl SqliteCheck
      else Inr (x\<lparr>x_prepares := update_row wp_id pid (set_phase (phase, now)) (x_prepares x)\<rparr>))"

text \<open>The empty surface beside a core ledger.\<close>

definition apply_execution_schema :: "db \<Rightarrow> exec_db" where
  "apply_execution_schema d =
     \<lparr>x_core = d\<lparr>exec_surface := None\<rparr>, x_sessions = [], x_roots = [], x_approvals = [], x_envelopes = [], x_actions = [],
      x_refs = [], x_signed = [], x_attempts = [], x_observations = [], x_reconciliations = [],
      x_controls = [], x_prepares = []\<rparr>"

end
