(* ===== verification/Runtime.thy ===== *)
theory Runtime
  imports ExecSchema
begin

text \<open>
  The execution runtime, first part (\<open>ledger/execution.py\<close>): transactions, the kill switch, the
  authorization of an operation, prepare records, sessions, the continuity of authority,
  reservations, references to transactions made elsewhere, the completion of a settlement. \<open>H\<close> is
  SHA-256. The hook that injects failures at the boundaries of a transaction is a test seam and
  is absent.
\<close>

subsection \<open>Transactions and shared checks\<close>

definition exec_txn :: "(exec_db, error, 'a) body \<Rightarrow> exec_db \<Rightarrow> (error + 'a) \<times> exec_db" where
  "exec_txn m x = (case m x of (Inl e, _) \<Rightarrow> (Inl e, x) | (Inr v, x') \<Rightarrow> (Inr v, x'))"

definition is_sha256_hex :: "string \<Rightarrow> bool" where
  "is_sha256_hex s \<longleftrightarrow> length s = 64 \<and> list_all is_lower_hex s"

definition is_tx_hash :: "string \<Rightarrow> bool" where
  "is_tx_hash s \<longleftrightarrow> length s = 66 \<and> take 2 s = ''0x'' \<and> is_sha256_hex (drop 2 s)"

definition kill_engaged :: "exec_db \<Rightarrow> bool" where
  "kill_engaged x \<longleftrightarrow> foldr max (map wk_engaged (x_controls x)) 0 = 1"

definition reject_if_killed :: "(exec_db, error, unit) body" where
  "reject_if_killed = sbind (sget kill_engaged) (\<lambda>engaged. sguard (\<not> engaged) SafeHaltError)"

text \<open>
  \<open>_insert_or_match\<close>: a row already stored under the key must agree in the supplied columns
  (\<open>same\<close>); otherwise the row is inserted.
\<close>

definition insert_or_match ::
  "('r \<Rightarrow> 'k) \<Rightarrow> (exec_db \<Rightarrow> 'r list) \<Rightarrow> ('r \<Rightarrow> 'r \<Rightarrow> bool) \<Rightarrow> ('r \<Rightarrow> exec_db \<Rightarrow> error + exec_db) \<Rightarrow> 'r \<Rightarrow>
   (exec_db, error, bool) body" where
  "insert_or_match key table same ins r =
     sbind (sget (\<lambda>x. find_row key (key r) (table x))) (\<lambda>found.
     case found of
       Some old \<Rightarrow> sbind (sguard (same r old) LedgerError) (\<lambda>_. sret False)
     | None \<Rightarrow> sbind (swrite (ins r)) (\<lambda>_. sret True))"

text \<open>The proof of authority an operation is given, live or for recovery after its expiry.\<close>

datatype authority_proof = Live VerifiedAuthorityGrantV0 | Expired ExpiredAuthorityRecoveryProofV0

definition authorize ::
  "digest_fn \<Rightarrow> ExecutionSessionV0 \<Rightarrow> authority_proof \<Rightarrow> Capability \<Rightarrow> int \<Rightarrow> bool \<Rightarrow> exec_db \<Rightarrow>
   error + AuthorityLevel" where
  "authorize H s proof c now safe_halt x =
     rbind (case proof of
         Expired p \<Rightarrow> require_expired_recovery_capability H c PHASE_GRANTED_AUTHORITY_LEVEL p s now
       | Live v \<Rightarrow> require_effective_capability H c PHASE_GRANTED_AUTHORITY_LEVEL v s now (kill_engaged x) safe_halt) (\<lambda>l.
     case find_row ws_id (session_instance_id H s) (x_sessions x) of
       None \<Rightarrow> Inr l
     | Some row \<Rightarrow>
         if ws_identity_digest row \<noteq> session_identity_digest H s then Inl AuthorityVerificationError
         else rbind (AuthorityLevel_of (ws_level row)) (\<lambda>stored.
           case proof of
             Expired _ \<Rightarrow> if stored < l then Inl AuthorityVerificationError else Inr l
           | Live _ \<Rightarrow> if stored \<noteq> l then Inl AuthorityVerificationError else Inr l))"

definition authorized ::
  "digest_fn \<Rightarrow> ExecutionSessionV0 \<Rightarrow> authority_proof \<Rightarrow> Capability \<Rightarrow> int \<Rightarrow> bool \<Rightarrow>
   (exec_db, error, AuthorityLevel) body" where
  "authorized H s proof c now safe_halt = sbind (sget (authorize H s proof c now safe_halt)) slift"

text \<open>\<open>intent_state\<close>, and whether it is SAFE\_HALT, as the runtime reads it.\<close>

definition state_of :: "string \<Rightarrow> exec_db \<Rightarrow> error + intent_state" where
  "state_of a x = intent_state_for a (x_core x)"

definition read_state :: "string \<Rightarrow> (exec_db, error, intent_state) body" where
  "read_state a = sbind (sget (state_of a)) slift"

definition require_session :: "string \<Rightarrow> (exec_db, error, session_row) body" where
  "require_session sid = sbind (sget (\<lambda>x. find_row ws_id sid (x_sessions x))) (\<lambda>row.
     case row of None \<Rightarrow> sraise LedgerError | Some r \<Rightarrow> sret r)"

definition require_economic_intent :: "string \<Rightarrow> (exec_db, error, intent_row) body" where
  "require_economic_intent a = sbind (sget (\<lambda>x. find_row nr_id a (intents (x_core x)))) (\<lambda>row.
     case row of None \<Rightarrow> sraise LedgerError | Some r \<Rightarrow> sret r)"

definition store_transition :: "string \<Rightarrow> intent_state \<Rightarrow> int \<Rightarrow> (string \<times> json) list \<Rightarrow> (exec_db, error, unit) body" where
  "store_transition a st now facts = in_store (transition_body a st now facts)"

definition execution_note :: "string \<Rightarrow> (string \<times> json) list" where
  "execution_note what = [(''execution'', JStr what)]"

text \<open>
  The external action of an economic action. Without a session the supplied columns are the
  other four, and a row stored with a session agrees with them.
\<close>

definition economic_row :: "string \<Rightarrow> string option \<Rightarrow> action_row" where
  "economic_row a session =
     \<lparr>wx_id = a, wx_kind = ECONOMIC, wx_economic = Some a, wx_approval = None, wx_session = session\<rparr>"

definition same_action :: "bool \<Rightarrow> action_row \<Rightarrow> action_row \<Rightarrow> bool" where
  "same_action with_session r old \<longleftrightarrow> wx_kind old = wx_kind r \<and> wx_economic old = wx_economic r \<and>
     wx_approval old = wx_approval r \<and> (with_session \<longrightarrow> wx_session old = wx_session r)"

definition economic_external_action :: "string \<Rightarrow> string option \<Rightarrow> (exec_db, error, unit) body" where
  "economic_external_action a session =
     sbind (insert_or_match wx_id x_actions (same_action (session \<noteq> None)) insert_action (economic_row a session)) (\<lambda>_.
     sret ())"

subsection \<open>Prepare records\<close>

text \<open>A prepare record has the columns of its row.\<close>

definition prepare_record_from_row :: "digest_fn \<Rightarrow> prepare_row \<Rightarrow> error + prepare_row" where
  "prepare_record_from_row H r =
     (case wp_plan r of
        JObj plan \<Rightarrow>
          if digest_object H (JObj plan) \<noteq> wp_sha256 r then Inl SafeHaltError
          else if wp_phase r \<notin> set PREPARE_PHASES then Inl SafeHaltError
          else Inr r
      | _ \<Rightarrow> Inl SafeHaltError)"

definition prepare_id ::
  "digest_fn \<Rightarrow> string \<Rightarrow> string \<Rightarrow> string \<Rightarrow> string \<Rightarrow> string \<Rightarrow> string \<Rightarrow> string" where
  "prepare_id H kind source policy authority receipt plan_sha256 = digest_object H (JObj
     [(''authority_policy_digest'', JStr authority),
      (''authority_receipt_id'', JStr receipt),
      (''operation_kind'', JStr kind),
      (''plan_sha256'', JStr plan_sha256),
      (''source_cycle_id'', JStr source),
      (''successor_policy_id'', JStr policy)])"

definition record_prepare_body ::
  "digest_fn \<Rightarrow> string \<Rightarrow> string \<Rightarrow> string \<Rightarrow> string \<Rightarrow> string \<Rightarrow> (string \<times> json) list \<Rightarrow> int \<Rightarrow>
   (exec_db, error, prepare_row) body" where
  "record_prepare_body H kind source policy authority receipt plan now =
     (let sha = digest_object H (JObj plan);
          pid = prepare_id H kind source policy authority receipt sha;
          new = \<lparr>wp_id = pid, wp_kind = kind, wp_source = source, wp_policy = policy, wp_authority_digest = authority,
                 wp_authority_receipt = receipt, wp_sha256 = sha, wp_plan = JObj plan, wp_phase = ''PLANNED'',
                 wp_created_at = now, wp_updated_at = now\<rparr> in
      sbind (sget (\<lambda>x. find_row prepare_source (kind, source) (x_prepares x))) (\<lambda>existing.
      case existing of
        Some row \<Rightarrow>
          sbind (slift (prepare_record_from_row H row)) (\<lambda>record.
          sbind (sguard (wp_id record = pid \<and> wp_policy record = policy \<and> wp_authority_digest record = authority \<and>
            wp_authority_receipt record = receipt \<and> wp_sha256 record = sha) SafeHaltError) (\<lambda>_.
          sret record))
      | None \<Rightarrow>
          sbind (sget (\<lambda>x. has_row cr_id source (cycles (x_core x)))) (\<lambda>present.
          sbind (sguard present LedgerError) (\<lambda>_.
          sbind (swrite (insert_prepare new)) (\<lambda>_.
          sret new)))))"

definition record_prepare_plan ::
  "digest_fn \<Rightarrow> string \<Rightarrow> string \<Rightarrow> string \<Rightarrow> string \<Rightarrow> string \<Rightarrow> (string \<times> json) list \<Rightarrow> int \<Rightarrow>
   exec_db \<Rightarrow> (error + prepare_row) \<times> exec_db" where
  "record_prepare_plan H kind source policy authority receipt plan now x =
     (if kind \<noteq> ''INK_V0F_NATIVE_SELL'' \<or> now < 0 \<or> [] \<in> {source, policy, authority, receipt} then (Inl LedgerError, x)
      else exec_txn (record_prepare_body H kind source policy authority receipt plan now) x)"

definition load_prepare_plan :: "digest_fn \<Rightarrow> string \<Rightarrow> string \<Rightarrow> exec_db \<Rightarrow> error + prepare_row option" where
  "load_prepare_plan H kind source x =
     (case find_row prepare_source (kind, source) (x_prepares x) of
        None \<Rightarrow> Inr None
      | Some row \<Rightarrow> rbind (prepare_record_from_row H row) (\<lambda>r. Inr (Some r)))"

definition advance_prepare_body :: "digest_fn \<Rightarrow> string \<Rightarrow> string \<Rightarrow> int \<Rightarrow> (exec_db, error, prepare_row) body" where
  "advance_prepare_body H pid phase now =
     sbind (sget (\<lambda>x. find_row wp_id pid (x_prepares x))) (\<lambda>found.
     case found of None \<Rightarrow> sraise LedgerError | Some row \<Rightarrow>
     sbind (slift (prepare_record_from_row H row)) (\<lambda>record.
     if wp_phase record = phase then sret record
     else
       sbind (sguard (follows_phase PREPARE_PHASES (wp_phase record) phase) SafeHaltError) (\<lambda>_.
       sbind (swrite (update_prepare pid phase now)) (\<lambda>_.
       sbind (sget (\<lambda>x. find_row wp_id pid (x_prepares x))) (\<lambda>updated.
       slift (prepare_record_from_row H (the updated)))))))"

definition advance_prepare_phase ::
  "digest_fn \<Rightarrow> string \<Rightarrow> string \<Rightarrow> int \<Rightarrow> exec_db \<Rightarrow> (error + prepare_row) \<times> exec_db" where
  "advance_prepare_phase H pid phase now x =
     (if phase \<notin> set PREPARE_PHASES then (Inl LedgerError, x)
      else exec_txn (advance_prepare_body H pid phase now) x)"

subsection \<open>Sessions and the continuity of authority\<close>

definition session_columns :: "ExecutionSessionV0 \<Rightarrow> ExecutionSessionV0" where
  "session_columns s = s\<lparr>es_schema := []\<rparr>"

definition create_execution_session ::
  "digest_fn \<Rightarrow> ExecutionSessionV0 \<Rightarrow> VerifiedAuthorityGrantV0 \<Rightarrow> int \<Rightarrow> exec_db \<Rightarrow> (error + bool) \<times> exec_db" where
  "create_execution_session H s v now x =
     (case authorize H s (Live v) DECIDE_OFFLINE now False x of
        Inl e \<Rightarrow> (Inl e, x)
      | Inr l \<Rightarrow>
        (case find_row pr_id (es_policy_id s) (policies (x_core x)) of
           None \<Rightarrow> (Inl AuthorityCeilingError, x)
         | Some policy \<Rightarrow>
             if ap_max_reservation_atomic (vg_policy v) > pr_per_order_cap policy then (Inl AuthorityCeilingError, x)
             else if ap_max_cumulative_atomic (vg_policy v) > pr_global_cap policy then (Inl AuthorityCeilingError, x)
             else exec_txn
               (sbind reject_if_killed (\<lambda>_.
                insert_or_match ws_id x_sessions (=) insert_session
                  \<lparr>ws_id = session_instance_id H s, ws_identity_digest = session_identity_digest H s,
                   ws_session = session_columns s, ws_root_id = vg_root_id v, ws_level = level_value l\<rparr>)) x))"

definition root_row_of :: "VerifiedAuthorityGrantV0 \<Rightarrow> int \<Rightarrow> root_row" where
  "root_row_of v accepted_at =
     \<lparr>wr_config = vg_trust_config_digest v, wr_root_id = vg_root_id v, wr_fingerprint = vg_public_key_fingerprint v,
      wr_minimum_epoch = vg_minimum_authority_epoch v, wr_epoch = gr_authority_epoch (vg_receipt v),
      wr_receipt_id = vg_receipt_id v, wr_accepted_at = accepted_at\<rparr>"

definition accept_authority_body :: "VerifiedAuthorityGrantV0 \<Rightarrow> int \<Rightarrow> (exec_db, error, bool) body" where
  "accept_authority_body v accepted_at =
     (let new = root_row_of v accepted_at;
          update = sbind (swrite (update_root (wr_config new) (wr_epoch new, wr_receipt_id new, accepted_at))) (\<lambda>_. sret True);
          err = AuthorityVerificationError in
      sbind (sget (\<lambda>x. find_row wr_config (wr_config new) (x_roots x))) (\<lambda>found.
      case found of
        None \<Rightarrow> sbind (swrite (insert_root new)) (\<lambda>_. sret True)
      | Some row \<Rightarrow>
          sbind (sguard (wr_root_id row = wr_root_id new \<and> wr_fingerprint row = wr_fingerprint new \<and>
            wr_minimum_epoch row = wr_minimum_epoch new) err) (\<lambda>_.
          sbind (sguard (\<not> wr_epoch new < wr_epoch row) err) (\<lambda>_.
          if wr_epoch new = wr_epoch row then
            if wr_receipt_id new = wr_receipt_id row then sret False
            else
              sbind (sguard (wr_epoch new = 6 \<and> ap_permitted_network_id (vg_policy v) = ''evm:57073'') err) (\<lambda>_.
              sbind (sguard (\<not> (gr_issued_at_epoch_s (vg_receipt v) \<le> wr_accepted_at row \<or>
                accepted_at \<le> wr_accepted_at row)) err) (\<lambda>_.
              update))
          else update))))"

definition record_verified_authority ::
  "VerifiedAuthorityGrantV0 \<Rightarrow> int \<Rightarrow> exec_db \<Rightarrow> (error + bool) \<times> exec_db" where
  "record_verified_authority v accepted_at x =
     (if accepted_at < 0 then (Inl AuthorityVerificationError, x)
      else case assert_valid_at (vg_policy v) accepted_at of
        Inl e \<Rightarrow> (Inl (if e = AuthorityCeilingError then AuthorityVerificationError else e), x)
      | Inr _ \<Rightarrow> exec_txn (accept_authority_body v accepted_at) x)"

subsection \<open>Reservations\<close>

definition reserve_action_body ::
  "digest_fn \<Rightarrow> string \<Rightarrow> ExecutionSessionV0 \<Rightarrow> VerifiedAuthorityGrantV0 \<Rightarrow> int \<Rightarrow> (exec_db, error, bool) body" where
  "reserve_action_body H a s v now =
     (let sid = session_instance_id H s in
      sbind (read_state a) (\<lambda>st.
      if st = RESERVED then
        sbind (sget (\<lambda>x. find_row wx_id a (x_actions x))) (\<lambda>existing.
        sbind (sguard (case existing of None \<Rightarrow> True | Some r \<Rightarrow> wx_session r \<in> {None, Some sid})
          AuthorityVerificationError) (\<lambda>_.
        sret False))
      else
        sbind (sguard (st = SIMULATED) LedgerError) (\<lambda>_.
        sbind (require_economic_intent a) (\<lambda>row.
        sbind (sget (\<lambda>x. find_row pr_id (nr_policy row) (policies (x_core x)))) (\<lambda>policy.
        case policy of None \<Rightarrow> sraise LedgerError | Some p \<Rightarrow>
        sbind (sget (\<lambda>x. held_atomic None None None (x_core x))) (\<lambda>held.
        sbind (if nr_exposure row > 0 then
                 slift (assert_effective_capital_within (nr_exposure row) held (pr_per_order_cap p) (pr_global_cap p) v now)
               else sret ()) (\<lambda>_.
        sbind (economic_external_action a (Some sid)) (\<lambda>_.
        sbind (store_transition a RESERVED now []) (\<lambda>_.
        sret True)))))))))"

definition reserve_action ::
  "digest_fn \<Rightarrow> string \<Rightarrow> ExecutionSessionV0 \<Rightarrow> VerifiedAuthorityGrantV0 \<Rightarrow> int \<Rightarrow> exec_db \<Rightarrow> (error + bool) \<times> exec_db" where
  "reserve_action H a s v now x =
     (case authorize H s (Live v) RESERVE_CAPITAL now False x of
        Inl e \<Rightarrow> (Inl e, x)
      | Inr _ \<Rightarrow> exec_txn (reserve_action_body H a s v now) x)"

subsection \<open>Transactions made elsewhere\<close>

definition REFERENCE_STATES :: "intent_state set" where
  "REFERENCE_STATES = {RESERVED, INCLUDED, CONFIRMED, RECONCILED, SAFE_HALT}"

definition ref_row_of :: "digest_fn \<Rightarrow> ExternalTransactionReferenceV0 \<Rightarrow> ref_row" where
  "ref_row_of H r =
     \<lparr>or_id = external_transaction_ref_id H r, or_action = xr_economic_action_id r, or_hash = xr_transaction_hash r,
      or_chain = xr_chain_id r, or_taker = xr_taker_address r, er_economic_action = xr_economic_action_id r,
      wf_session = xr_session_id r, wf_session_identity = xr_session_identity_digest r,
      wf_authority = xr_authority_policy_digest r, wf_origin = xr_origin r\<rparr>"

definition reference_checks ::
  "digest_fn \<Rightarrow> ExternalTransactionReferenceV0 \<Rightarrow> ExecutionSessionV0 \<Rightarrow> error + unit" where
  "reference_checks H r s = (let e = AuthorityVerificationError in
     rbind (checks
       [require (xr_session_id r = session_instance_id H s) e,
        require (xr_session_identity_digest r = session_identity_digest H s) e,
        require (xr_authority_policy_digest r = es_authority_policy_digest s) e]) (\<lambda>_.
     rbind (session_chain_id s) (\<lambda>chain.
     require (xr_chain_id r = chain \<and> xr_taker_address r = es_taker_address s) e)))"

definition record_reference_body ::
  "digest_fn \<Rightarrow> ExternalTransactionReferenceV0 \<Rightarrow> ExecutionSessionV0 \<Rightarrow> (exec_db, error, bool) body" where
  "record_reference_body H r s =
     sbind (require_economic_intent (xr_economic_action_id r)) (\<lambda>action.
     sbind (sguard (nr_state action \<in> REFERENCE_STATES) LedgerError) (\<lambda>_.
     sbind (sget (\<lambda>x. find_row wx_id (xr_economic_action_id r) (x_actions x))) (\<lambda>external.
     case external of None \<Rightarrow> sraise LedgerError | Some e \<Rightarrow>
     sbind (sguard (wx_kind e = ECONOMIC) LedgerError) (\<lambda>_.
     sbind (sguard (wx_session e \<in> {None, Some (session_instance_id H s)}) AuthorityVerificationError) (\<lambda>_.
     insert_or_match or_id x_refs (=) insert_ref (ref_row_of H r))))))"

definition record_external_transaction_reference ::
  "digest_fn \<Rightarrow> ExternalTransactionReferenceV0 \<Rightarrow> ExecutionSessionV0 \<Rightarrow> VerifiedAuthorityGrantV0 \<Rightarrow> int \<Rightarrow>
   exec_db \<Rightarrow> (error + bool) \<times> exec_db" where
  "record_external_transaction_reference H r s v now x =
     (case state_of (xr_economic_action_id r) x of
        Inl e \<Rightarrow> (Inl e, x)
      | Inr st \<Rightarrow>
        (case rbind (authorize H s (Live v) OBSERVE_CHAIN now (st = SAFE_HALT) x) (\<lambda>_. reference_checks H r s) of
           Inl e \<Rightarrow> (Inl e, x)
         | Inr _ \<Rightarrow> exec_txn (record_reference_body H r s) x))"

subsection \<open>Completion and the kill switch\<close>

definition complete_settlement :: "string \<Rightarrow> int \<Rightarrow> exec_db \<Rightarrow> (error + bool) \<times> exec_db" where
  "complete_settlement a now = exec_txn
     (sbind (read_state a) (\<lambda>st.
      sbind (sguard (st = RECONCILED) LedgerError) (\<lambda>_.
      sbind (store_transition a FILLED now (execution_note ''settlement_completed'')) (\<lambda>_.
      sret True))))"

definition engage_kill_switch :: "int \<Rightarrow> string \<Rightarrow> string option \<Rightarrow> exec_db \<Rightarrow> (error + bool) \<times> exec_db" where
  "engage_kill_switch now reason session x =
     (if reason = [] \<or> Contract.strip reason \<noteq> reason then (Inl LedgerError, x)
      else exec_txn
        (sbind (sget kill_engaged) (\<lambda>engaged.
         if engaged then sret False
         else
           sbind (sget next_control_seq) (\<lambda>seq.
           sbind (swrite (insert_control
             \<lparr>wk_seq = seq, wk_session = session, wk_engaged = 1, wk_at = now, wk_reason = reason\<rparr>)) (\<lambda>_.
           sret True)))) x)"

end
