(* ===== verification/InkApproval.thy ===== *)
theory InkApproval
  imports SignedBytes Envelope Authority Abi CanonicalCalldata
begin

text \<open>
  The externally signed token approval of the Ink scope, \<open>ink_v0f_human_signing.py\<close> with the
  calldata codec of \<open>ink_v0f_execution.py\<close>: a signing request freezes the one transaction a human
  may sign, and the signed bytes are validated against it. The signed approval is opaque in the
  code (only its validation makes one); here only \<open>validate_signed_approval\<close> returns one. The
  observation of the allowance and of the chain (RPC) is not here.
\<close>

subsection \<open>Calldata\<close>

definition KRAKMASK_ADDRESS :: string where
  "KRAKMASK_ADDRESS = ''0x32bcb803f696c99eb263d60a05cafd8689026575''"
definition WETH9_ADDRESS :: string where
  "WETH9_ADDRESS = ''0x4200000000000000000000000000000000000006''"
definition INK_V0F_ROUTER_ADDRESS :: string where
  "INK_V0F_ROUTER_ADDRESS = ''0xa8c1c38ff57428e5c3a34e0899be5cb385476507''"
definition APPROVE_SELECTOR :: bytes where
  "APPROVE_SELECTOR = selector_bytes ''approve(address,uint256)''"

definition ink_uint :: "bool \<Rightarrow> int \<Rightarrow> error + int" where
  "ink_uint positive n =
     (if n < 0 \<or> positive \<and> n = 0 \<or> n \<ge> 2 ^ 256 then Inl EnvelopeValidationError else Inr n)"

definition ink_address :: "string \<Rightarrow> error + bytes" where
  "ink_address s =
     (if length s \<noteq> 42 \<or> take 2 s \<noteq> ''0x'' \<or> list_ex (\<lambda>c. 65 \<le> (of_char c :: nat) \<and> (of_char c :: nat) \<le> 90) s
      then Inl EnvelopeValidationError
      else case bytes_fromhex (drop 2 s) of
        None \<Rightarrow> Inl EnvelopeValidationError
      | Some raw \<Rightarrow> if length raw \<noteq> 20 \<or> nat_from_big raw = 0 then Inl EnvelopeValidationError else Inr raw)"

definition abi_word :: "int \<Rightarrow> error + bytes" where
  "abi_word n = rbind (ink_uint False n) (\<lambda>n. Inr (to_big 32 (nat n)))"

definition abi_address_word :: "string \<Rightarrow> error + bytes" where
  "abi_address_word s = rbind (ink_address s) (\<lambda>raw. Inr (replicate 12 0 @ raw))"

definition decode_address_word :: "bytes \<Rightarrow> error + string" where
  "decode_address_word w =
     (if length w \<noteq> 32 \<or> take 12 w \<noteq> replicate 12 0 then Inl EnvelopeValidationError
      else rbind (ink_address (''0x'' @ bytes_hex (drop 12 w))) (\<lambda>_. Inr (''0x'' @ bytes_hex (drop 12 w))))"

definition encode_approve :: "string \<Rightarrow> int \<Rightarrow> error + bytes" where
  "encode_approve spender amount =
     rbind (abi_address_word spender) (\<lambda>a.
     rbind (ink_uint True amount) (\<lambda>n.
     rbind (abi_word n) (\<lambda>w.
     Inr (APPROVE_SELECTOR @ a @ w))))"

definition decode_approve :: "bytes \<Rightarrow> error + string \<times> int" where
  "decode_approve data =
     (if length data \<noteq> 68 then Inl EnvelopeValidationError
      else if take 4 data \<noteq> APPROVE_SELECTOR then Inl EnvelopeValidationError
      else
        rbind (decode_address_word (byte_slice 4 36 data)) (\<lambda>spender.
        let amount = int (nat_from_big (byte_slice 36 68 data)) in
        rbind (ink_uint True amount) (\<lambda>_. Inr (spender, amount))))"

text \<open>\<open>bytes.fromhex(spender_address[2:])\<close> after the test that it is the router.\<close>

definition encode_revoke_to_zero :: "string \<Rightarrow> error + bytes" where
  "encode_revoke_to_zero spender =
     (if spender \<noteq> INK_V0F_ROUTER_ADDRESS then Inl EnvelopeValidationError
      else case bytes_fromhex (drop 2 spender) of
        None \<Rightarrow> Inl PyValueError
      | Some raw \<Rightarrow> Inr (APPROVE_SELECTOR @ replicate 12 0 @ raw @ replicate 32 0))"

subsection \<open>Signing requests\<close>

datatype InkV0FApprovalKind = EXACT_APPROVAL | REVOKE_TO_ZERO

fun ApprovalKind_value :: "InkV0FApprovalKind \<Rightarrow> string" where
  "ApprovalKind_value EXACT_APPROVAL = ''EXACT_APPROVAL''"
| "ApprovalKind_value REVOKE_TO_ZERO = ''REVOKE_TO_ZERO''"

definition APPROVAL_SIGNING_REQUEST_SCHEMA :: string where
  "APPROVAL_SIGNING_REQUEST_SCHEMA = ''qntyspot.ink_v0f.approval_signing_request.v0''"

record InkV0FApprovalSigningRequestV0 =
  sq_kind :: InkV0FApprovalKind
  sq_approval_action_id :: string
  sq_economic_action_id :: string
  sq_token_address :: string
  sq_spender_address :: string
  sq_allowance_atomic :: int
  sq_scope :: ExactSignedBytesScopeV0
  sq_constructed_at_epoch_s :: int
  sq_schema :: string

definition request_calldata :: "InkV0FApprovalSigningRequestV0 \<Rightarrow> error + bytes" where
  "request_calldata q =
     (if sq_kind q = EXACT_APPROVAL then encode_approve (sq_spender_address q) (sq_allowance_atomic q)
      else encode_revoke_to_zero (sq_spender_address q))"

definition ink_digest :: "string \<Rightarrow> error + unit" where
  "ink_digest s = require (length s = 64 \<and> list_all is_lower_hex s) EnvelopeValidationError"

definition make_signing_request ::
  "digest_fn \<Rightarrow> InkV0FApprovalSigningRequestV0 \<Rightarrow> error + InkV0FApprovalSigningRequestV0" where
  "make_signing_request H q = (let e = EnvelopeValidationError; sc = sq_scope q in
     rbind (checks
       [require (sq_schema q = APPROVAL_SIGNING_REQUEST_SCHEMA) e,
        ink_digest (sq_approval_action_id q),
        ink_digest (sq_economic_action_id q),
        require (sq_token_address q \<in> {WETH9_ADDRESS, KRAKMASK_ADDRESS}) e,
        require (sq_spender_address q = INK_V0F_ROUTER_ADDRESS) e,
        rbind (ink_uint False (sq_allowance_atomic q)) (\<lambda>_. Inr ()),
        rbind (ink_uint False (sq_constructed_at_epoch_s q)) (\<lambda>_. Inr ()),
        require (sc_chain_id sc = INK_CHAIN_ID) e,
        require (sc_taker_address sc = INK_V0F_TAKER_ADDRESS) e,
        require (sc_target_address sc = sq_token_address q) e,
        require (sc_min_value_atomic sc = 0 \<and> sc_max_value_atomic sc = 0) e]) (\<lambda>_.
     rbind (request_calldata q) (\<lambda>data. checked
       [require (\<not> (sq_kind q = EXACT_APPROVAL \<and> sq_allowance_atomic q \<le> 0)) e,
        require (\<not> (sq_kind q = REVOKE_TO_ZERO \<and> sq_allowance_atomic q \<noteq> 0)) e,
        require (sc_calldata_sha256 sc = H (byte_text data) \<and> sc_calldata_length sc = int (length data)) e] q)))"

definition request_id :: "digest_fn \<Rightarrow> InkV0FApprovalSigningRequestV0 \<Rightarrow> string" where
  "request_id H q = digest_object H (JObj
     [(''allowance_atomic'', JStr (str_int (sq_allowance_atomic q))),
      (''approval_action_id'', JStr (sq_approval_action_id q)),
      (''economic_action_id'', JStr (sq_economic_action_id q)),
      (''kind'', JStr (ApprovalKind_value (sq_kind q))),
      (''schema'', JStr (sq_schema q)),
      (''scope_digest'', JStr (scope_digest H (sq_scope q))),
      (''spender_address'', JStr (sq_spender_address q)),
      (''token_address'', JStr (sq_token_address q))])"

text \<open>The check of \<open>eip1559_signing_fields\<close>; the fields it returns are for display.\<close>

definition signing_fields_check :: "digest_fn \<Rightarrow> InkV0FApprovalSigningRequestV0 \<Rightarrow> error + unit" where
  "signing_fields_check H q =
     rbind (request_calldata q) (\<lambda>data.
     require (H (byte_text data) = sc_calldata_sha256 (sq_scope q)) EnvelopeValidationError)"

definition approval_scope ::
  "digest_fn \<Rightarrow> ExecutionSessionV0 \<Rightarrow> string \<Rightarrow> string \<Rightarrow> bytes \<Rightarrow> int \<Rightarrow> int \<Rightarrow> int \<Rightarrow> int \<Rightarrow>
   error + ExactSignedBytesScopeV0" where
  "approval_scope H s action token data nonce gas fee priority =
     rbind (session_chain_id s) (\<lambda>chain.
     if chain \<noteq> INK_CHAIN_ID \<or> es_taker_address s \<noteq> INK_V0F_TAKER_ADDRESS then Inl AuthorityVerificationError
     else
       rbind (ink_uint False nonce) (\<lambda>nonce.
       rbind (ink_uint True gas) (\<lambda>gas.
       rbind (ink_uint True fee) (\<lambda>fee.
       rbind (ink_uint False priority) (\<lambda>priority.
       make_scope
         \<lparr>sc_session_id = session_instance_id H s, sc_session_identity_digest = session_identity_digest H s,
          sc_economic_action_id = action, sc_authority_policy_digest = es_authority_policy_digest s,
          sc_chain_id = INK_CHAIN_ID, sc_taker_address = INK_V0F_TAKER_ADDRESS, sc_target_address = token,
          sc_min_value_atomic = 0, sc_max_value_atomic = 0, sc_calldata_sha256 = H (byte_text data),
          sc_calldata_length = int (length data), sc_account_nonce = Some nonce, sc_gas_limit_ceiling = Some gas,
          sc_max_fee_per_gas_ceiling = Some fee, sc_max_priority_fee_per_gas_ceiling = Some priority\<rparr>)))))"

definition build_approval_signing_request ::
  "digest_fn \<Rightarrow> ApprovalActionV0 \<Rightarrow> ExecutionEnvelopeV0 \<Rightarrow> ExecutionSessionV0 \<Rightarrow> int \<Rightarrow> int \<Rightarrow> int \<Rightarrow> int \<Rightarrow> int \<Rightarrow>
   error + InkV0FApprovalSigningRequestV0" where
  "build_approval_signing_request H a env s nonce gas fee priority constructed =
     (let e = EnvelopeValidationError in
      case aa_economic_action_id a of None \<Rightarrow> Inl e | Some action \<Rightarrow>
      rbind (checks
        [require (action = env_economic_action_id env) e,
         require (aa_session_identity_digest a = env_session_identity_digest env) e,
         require (aa_authority_policy_digest a = env_authority_policy_digest env) e,
         require (aa_requested_allowance_atomic a = env_max_input_atomic env) e,
         require (aa_observed_prior_allowance_atomic a = 0) e]) (\<lambda>_.
      rbind (ink_uint False constructed) (\<lambda>constructed.
      rbind (require (\<not> constructed \<ge> aa_deadline_epoch_s a) e) (\<lambda>_.
      rbind (ink_uint False nonce) (\<lambda>nonce.
      rbind (require (env_account_nonce env = nonce + 1) e) (\<lambda>_.
      rbind (encode_approve (aa_spender_address a) (aa_requested_allowance_atomic a)) (\<lambda>data.
      rbind (approval_scope H s (approval_action_id H a) (aa_token_address a) data nonce gas fee priority) (\<lambda>sc.
      make_signing_request H
        \<lparr>sq_kind = EXACT_APPROVAL, sq_approval_action_id = approval_action_id H a, sq_economic_action_id = action,
         sq_token_address = aa_token_address a, sq_spender_address = aa_spender_address a,
         sq_allowance_atomic = aa_requested_allowance_atomic a, sq_scope = sc,
         sq_constructed_at_epoch_s = constructed, sq_schema = APPROVAL_SIGNING_REQUEST_SCHEMA\<rparr>))))))))"

definition revoke_action_id :: "digest_fn \<Rightarrow> ApprovalActionV0 \<Rightarrow> string" where
  "revoke_action_id H a = digest_object H (JObj
     [(''approval_action_id'', JStr (approval_action_id H a)),
      (''schema'', JStr ''qntyspot.ink_v0f.revoke_action.v0'')])"

definition build_revoke_signing_request ::
  "digest_fn \<Rightarrow> ApprovalActionV0 \<Rightarrow> ExecutionSessionV0 \<Rightarrow> int \<Rightarrow> int \<Rightarrow> int \<Rightarrow> int \<Rightarrow> int \<Rightarrow>
   error + InkV0FApprovalSigningRequestV0" where
  "build_revoke_signing_request H a s nonce gas fee priority constructed =
     (case aa_economic_action_id a of None \<Rightarrow> Inl AuthorityVerificationError | Some action \<Rightarrow>
      rbind (encode_revoke_to_zero (aa_spender_address a)) (\<lambda>data.
      rbind (approval_scope H s (revoke_action_id H a) (aa_token_address a) data nonce gas fee priority) (\<lambda>sc.
      rbind (ink_uint False constructed) (\<lambda>constructed.
      make_signing_request H
        \<lparr>sq_kind = REVOKE_TO_ZERO, sq_approval_action_id = approval_action_id H a, sq_economic_action_id = action,
         sq_token_address = aa_token_address a, sq_spender_address = aa_spender_address a,
         sq_allowance_atomic = 0, sq_scope = sc,
         sq_constructed_at_epoch_s = constructed, sq_schema = APPROVAL_SIGNING_REQUEST_SCHEMA\<rparr>))))"

subsection \<open>The signed approval\<close>

record InkV0FSignedApprovalV0 =
  sv_request :: InkV0FApprovalSigningRequestV0
  sv_validated :: ValidatedExactSignedBytesV0

definition signed_approval_id :: "digest_fn \<Rightarrow> InkV0FSignedApprovalV0 \<Rightarrow> string" where
  "signed_approval_id H v = digest_object H (JObj
     [(''request_id'', JStr (request_id H (sv_request v))),
      (''schema'', JStr ''qntyspot.ink_v0f.signed_approval.v0''),
      (''signed_bytes_sha256'', JStr (vs_signed_bytes_sha256 (sv_validated v)))])"

definition make_signed_approval :: "digest_fn \<Rightarrow> InkV0FSignedApprovalV0 \<Rightarrow> error + InkV0FSignedApprovalV0" where
  "make_signed_approval H v = (let e = EnvelopeValidationError; sc = sq_scope (sv_request v);
       p = vs_parsed (sv_validated v) in checked
     [require (vs_scope (sv_validated v) = sc) e,
      require (ps_transaction_type p = ''eip-1559'') e,
      require (ps_chain_id p = INK_CHAIN_ID) e,
      require (ps_sender_address p = sc_taker_address sc) e,
      require (ps_target_address p = sq_token_address (sv_request v)) e,
      require (ps_value_atomic p = 0) e,
      require (int (length (ps_calldata p)) = sc_calldata_length sc \<and>
        H (byte_text (ps_calldata p)) = sc_calldata_sha256 sc) e,
      opt_check (\<lambda>n. require (ps_account_nonce p = n) e) (sc_account_nonce sc),
      opt_check (\<lambda>n. require (\<not> ps_gas_limit p > n) e) (sc_gas_limit_ceiling sc),
      opt_check (\<lambda>n. require (\<not> ps_max_fee_per_gas p > n) e) (sc_max_fee_per_gas_ceiling sc),
      opt_check (\<lambda>n. require (\<not> ps_max_priority_fee_per_gas p > n) e) (sc_max_priority_fee_per_gas_ceiling sc)] v)"

definition validate_signed_approval ::
  "digest_fn \<Rightarrow> rlp_decoder \<Rightarrow> rlp_encoder \<Rightarrow> recovery \<Rightarrow> InkV0FApprovalSigningRequestV0 \<Rightarrow> bytes \<Rightarrow>
   error + InkV0FSignedApprovalV0" where
  "validate_signed_approval H rdec renc recover q raw =
     rbind (signing_fields_check H q) (\<lambda>_.
     rbind (validate_exact_signed_bytes H rdec renc recover raw (sq_scope q)) (\<lambda>validated.
     if ps_transaction_type (vs_parsed validated) \<noteq> ''eip-1559'' then Inl EnvelopeValidationError
     else make_signed_approval H \<lparr>sv_request = q, sv_validated = validated\<rparr>))"

end
