(* ===== verification/Submission.thy ===== *)
theory Submission
  imports Runtime InkApproval
begin

text \<open>
  The execution runtime, second part: the admission of externally signed bytes and of signed
  approvals, their one way out through the transport, and the resumption of a quarantined byte
  string. The transport is a parameter: for the bytes it is given, the hash the provider replied,
  the class of the exception it raised, or an interrupt of the process, which no handler of the
  code catches. \<open>w_wire\<close> records every byte string handed to it, in order; no rollback reaches it.
\<close>

record world =
  w_db :: exec_db
  w_wire :: "bytes list"

datatype transport_result = Replied string | Raised string | Interrupted

type_synonym transport = "bytes \<Rightarrow> transport_result"

definition lift_db :: "(exec_db \<Rightarrow> (error + 'a) \<times> exec_db) \<Rightarrow> world \<Rightarrow> (error + 'a) \<times> world" where
  "lift_db f w = (case f (w_db w) of (r, x) \<Rightarrow> (r, w\<lparr>w_db := x\<rparr>))"

definition send :: "bytes \<Rightarrow> world \<Rightarrow> world" where
  "send raw w = w\<lparr>w_wire := w_wire w @ [raw]\<rparr>"

subsection \<open>The scope of a durable envelope\<close>

definition exact_scope_from_authorized_envelope :: "envelope_row \<Rightarrow> error + ExactSignedBytesScopeV0" where
  "exact_scope_from_authorized_envelope r =
     (if we_lifecycle r \<noteq> AUTHORIZED then Inl LedgerError
      else let v = we_value r in make_scope
        \<lparr>sc_session_id = env_session_id v, sc_session_identity_digest = env_session_identity_digest v,
         sc_economic_action_id = env_economic_action_id v, sc_authority_policy_digest = env_authority_policy_digest v,
         sc_chain_id = env_chain_id v, sc_taker_address = env_taker_address v,
         sc_target_address = env_transaction_to v, sc_min_value_atomic = env_transaction_value_atomic v,
         sc_max_value_atomic = env_transaction_value_atomic v, sc_calldata_sha256 = env_calldata_sha256 v,
         sc_calldata_length = env_calldata_length v, sc_account_nonce = Some (env_account_nonce v),
         sc_gas_limit_ceiling = Some (env_gas_limit_ceiling v),
         sc_max_fee_per_gas_ceiling = Some (env_max_fee_per_gas_ceiling_atomic v),
         sc_max_priority_fee_per_gas_ceiling = Some (env_max_priority_fee_per_gas_ceiling_atomic v)\<rparr>)"

definition authorized_envelope_for_exact_scope ::
  "digest_fn \<Rightarrow> ExactSignedBytesScopeV0 \<Rightarrow> exec_db \<Rightarrow> error + envelope_row" where
  "authorized_envelope_for_exact_scope H sc x =
     (case filter (\<lambda>r. envelope_action r = sc_economic_action_id sc \<and> we_lifecycle r = AUTHORIZED) (x_envelopes x) of
        [r] \<Rightarrow>
          rbind (exact_scope_from_authorized_envelope r) (\<lambda>expected.
          if scope_digest H expected \<noteq> scope_digest H sc then Inl EnvelopeValidationError else Inr r)
      | _ \<Rightarrow> Inl LedgerError)"

text \<open>The session a scope names is the one given, on its chain and for its taker.\<close>

definition scope_session_checks ::
  "digest_fn \<Rightarrow> ExactSignedBytesScopeV0 \<Rightarrow> ExecutionSessionV0 \<Rightarrow> error + unit" where
  "scope_session_checks H sc s = (let e = AuthorityVerificationError in
     rbind (checks
       [require (sc_session_id sc = session_instance_id H s) e,
        require (sc_session_identity_digest sc = session_identity_digest H s) e,
        require (sc_authority_policy_digest sc = es_authority_policy_digest s) e]) (\<lambda>_.
     rbind (session_chain_id s) (\<lambda>chain.
     require (sc_chain_id sc = chain \<and> sc_taker_address sc = es_taker_address s) e)))"

subsection \<open>Admission of exact signed bytes\<close>

record ExactSignedBytesAdmissionV0 =
  ad_signed_bytes :: bytes
  ad_record :: ExactSignedTransactionRecordV0
  ad_validated :: ValidatedExactSignedBytesV0

definition exact_record :: "digest_fn \<Rightarrow> ExactSignedBytesScopeV0 \<Rightarrow> ValidatedExactSignedBytesV0 \<Rightarrow>
    ExactSignedTransactionRecordV0" where
  "exact_record H sc v = (let p = vs_parsed v in
     \<lparr>xt_economic_action_id = sc_economic_action_id sc, xt_scope_digest = scope_digest H sc,
      xt_signed_bytes_sha256 = vs_signed_bytes_sha256 v, xt_signed_bytes_length = vs_signed_bytes_length v,
      xt_transaction_hash = ps_transaction_hash p, xt_chain_id = ps_chain_id p,
      xt_account_nonce = ps_account_nonce p, xt_taker_address = ps_sender_address p,
      xt_signer_identity = ''evm-recovered:'' @ ps_sender_address p\<rparr>)"

definition exact_signed_row ::
  "digest_fn \<Rightarrow> ExactSignedTransactionRecordV0 \<Rightarrow> string \<Rightarrow> string \<Rightarrow> string \<Rightarrow> int \<Rightarrow> signed_row" where
  "exact_signed_row H r action sid eid now =
     \<lparr>or_id = exact_signed_transaction_id H r, or_action = action, or_hash = xt_transaction_hash r,
      or_chain = xt_chain_id r, or_taker = xt_taker_address r, wg_session = sid, wg_envelope = Some eid,
      wg_approval = None, wg_origin = EXTERNAL_SIGNED_BYTES, wg_nonce = xt_account_nonce r,
      wg_sha256 = xt_signed_bytes_sha256 r, wg_length = xt_signed_bytes_length r,
      wg_scope_digest = xt_scope_digest r, wg_signer = xt_signer_identity r, wg_frozen_at = now\<rparr>"

definition matches_envelope :: "digest_fn \<Rightarrow> ParsedExactSignedBytesV0 \<Rightarrow> ExecutionEnvelopeV0 \<Rightarrow> error + unit" where
  "matches_envelope H p v = (let e = EnvelopeValidationError in checks
     [require (ps_target_address p = env_transaction_to v) e,
      require (ps_value_atomic p = env_transaction_value_atomic v) e,
      require (H (byte_text (ps_calldata p)) = env_calldata_sha256 v) e,
      require (int (length (ps_calldata p)) = env_calldata_length v) e,
      require (ps_account_nonce p = env_account_nonce v) e])"

definition admit_exact_body ::
  "digest_fn \<Rightarrow> ExactSignedBytesScopeV0 \<Rightarrow> bytes \<Rightarrow> ValidatedExactSignedBytesV0 \<Rightarrow> ExecutionSessionV0 \<Rightarrow> int \<Rightarrow>
   (exec_db, error, ExactSignedBytesAdmissionV0) body" where
  "admit_exact_body H sc raw v s now =
     (let a = sc_economic_action_id sc; sid = session_instance_id H s; r = exact_record H sc v;
          handle = \<lparr>ad_signed_bytes = raw, ad_record = r, ad_validated = v\<rparr> in
      sbind reject_if_killed (\<lambda>_.
      sbind (require_economic_intent a) (\<lambda>action.
      sbind (sguard (nr_state action = RESERVED) LedgerError) (\<lambda>_.
      sbind (sget (\<lambda>x. find_row wx_id a (x_actions x))) (\<lambda>external.
      case external of None \<Rightarrow> sraise LedgerError | Some ex \<Rightarrow>
      sbind (sguard (wx_kind ex = ECONOMIC) LedgerError) (\<lambda>_.
      sbind (sguard (wx_session ex = Some sid) AuthorityVerificationError) (\<lambda>_.
      sbind (sget (authorized_envelope_for_exact_scope H sc)) (\<lambda>found.
      sbind (slift found) (\<lambda>env.
      sbind (slift (matches_envelope H (vs_parsed v) (we_value env))) (\<lambda>_.
      sbind (sget (\<lambda>x. find_row or_action a (x_signed x))) (\<lambda>existing.
      case existing of
        Some old \<Rightarrow>
          sbind (sguard (wg_origin old = EXTERNAL_SIGNED_BYTES \<and> wg_sha256 old = xt_signed_bytes_sha256 r \<and>
            or_hash old = xt_transaction_hash r \<and> wg_scope_digest old = xt_scope_digest r \<and>
            wg_envelope old = Some (we_id env)) LedgerError) (\<lambda>_. sret handle)
      | None \<Rightarrow>
          sbind (insert_or_match or_id x_signed (=) insert_signed (exact_signed_row H r a sid (we_id env) now)) (\<lambda>inserted.
          sbind (if inserted then store_transition a SIGNED now (execution_note ''exact_signed_bytes_admitted'')
                 else sret ()) (\<lambda>_.
          sret handle)))))))))))))"

definition admit_exact_signed_bytes ::
  "digest_fn \<Rightarrow> rlp_decoder \<Rightarrow> rlp_encoder \<Rightarrow> recovery \<Rightarrow> ExactSignedBytesScopeV0 \<Rightarrow> bytes \<Rightarrow> ExecutionSessionV0 \<Rightarrow>
   VerifiedAuthorityGrantV0 \<Rightarrow> int \<Rightarrow> exec_db \<Rightarrow> (error + ExactSignedBytesAdmissionV0) \<times> exec_db" where
  "admit_exact_signed_bytes H rdec renc ecrec sc raw s g now x =
     (case rbind (authorize H s (Live g) SUBMIT_EXACT_BYTES now False x) (\<lambda>_.
           rbind (scope_session_checks H sc s) (\<lambda>_.
           validate_exact_signed_bytes H rdec renc ecrec raw sc)) of
        Inl e \<Rightarrow> (Inl e, x)
      | Inr v \<Rightarrow> exec_txn (admit_exact_body H sc raw v s now) x)"

subsection \<open>Submission attempts\<close>

definition attempt_columns :: "SubmissionAttemptV0 \<Rightarrow> SubmissionAttemptV0" where
  "attempt_columns v = v\<lparr>sb_schema := []\<rparr>"

definition attempt_row_of :: "digest_fn \<Rightarrow> SubmissionAttemptV0 \<Rightarrow> attempt_row" where
  "attempt_row_of H v = \<lparr>wt_id = submission_attempt_id H v, wt_value = attempt_columns v\<rparr>"

definition attempts_of :: "string \<Rightarrow> exec_db \<Rightarrow> attempt_row list" where
  "attempts_of sid x = filter (\<lambda>r. sb_signed_transaction_id (wt_value r) = sid) (x_attempts x)"

definition next_submission_ordinal :: "string \<Rightarrow> string \<Rightarrow> exec_db \<Rightarrow> int" where
  "next_submission_ordinal sid provider x =
     foldr max (map (\<lambda>r. sb_attempt_ordinal (wt_value r))
       (filter (\<lambda>r. sb_provider_id (wt_value r) = provider) (attempts_of sid x))) (- 1) + 1"

definition record_attempt_body :: "digest_fn \<Rightarrow> SubmissionAttemptV0 \<Rightarrow> (exec_db, error, bool) body" where
  "record_attempt_body H v =
     sbind reject_if_killed (\<lambda>_.
     sbind (sget (\<lambda>x. find_row or_id (sb_signed_transaction_id v) (x_signed x))) (\<lambda>found.
     case found of None \<Rightarrow> sraise LedgerError | Some tx \<Rightarrow>
     sbind (slift (assert_hash_agreement v (or_hash tx))) (\<lambda>_.
     sbind (sguard (sb_acknowledgment v = ACK_ACCEPTED \<longrightarrow> sb_provider_reported_hash v = Some (or_hash tx))
       ChainTruthError) (\<lambda>_.
     sbind (insert_or_match wt_id x_attempts (=) insert_attempt (attempt_row_of H v)) (\<lambda>inserted.
     if inserted \<and> sb_acknowledgment v \<in> {ACK_ACCEPTED, ACK_UNKNOWN} \<and> wg_origin tx \<noteq> FROM_APPROVAL then
       sbind (read_state (or_action tx)) (\<lambda>st.
       sbind (if st = SIGNED then
                store_transition (or_action tx) SUBMITTED (sb_submitted_at_epoch_s v)
                  (execution_note ''submission_metadata_recorded'')
              else sguard (st \<in> EXTERNALLY_AMBIGUOUS_STATES) LedgerError) (\<lambda>_.
       sret inserted))
     else sret inserted)))))"

text \<open>The public entry for an attempt refuses everything.\<close>

definition record_submission_attempt :: "SubmissionAttemptV0 \<Rightarrow> exec_db \<Rightarrow> (error + bool) \<times> exec_db" where
  "record_submission_attempt v x = (Inl AuthorityCeilingError, x)"

definition record_signed_transaction_metadata ::
  "SignedTransactionRecordV0 \<Rightarrow> bytes \<Rightarrow> int \<Rightarrow> exec_db \<Rightarrow> (error + bool) \<times> exec_db" where
  "record_signed_transaction_metadata v raw now x = (Inl AuthorityCeilingError, x)"

subsection \<open>Submission of exact signed bytes\<close>

text \<open>The gate re-reads every fact from the ledger; it writes nothing.\<close>

definition assert_exact_bytes_submittable :: "digest_fn \<Rightarrow> ExactSignedBytesAdmissionV0 \<Rightarrow> exec_db \<Rightarrow> error + unit" where
  "assert_exact_bytes_submittable H ad x =
     (let a = sc_economic_action_id (vs_scope (ad_validated ad)) in
      case find_row or_id (exact_signed_transaction_id H (ad_record ad)) (x_signed x) of
        None \<Rightarrow> Inl LedgerError
      | Some row \<Rightarrow>
        rbind (checks
          [require (wg_origin row = EXTERNAL_SIGNED_BYTES) LedgerError,
           require (or_action row = a) AuthorityVerificationError,
           require (wg_envelope row \<noteq> None) SafeHaltError]) (\<lambda>_.
        rbind (authorized_envelope_for_exact_scope H (vs_scope (ad_validated ad)) x) (\<lambda>env.
        rbind (checks
          [require (wg_envelope row = Some (we_id env)) AuthorityVerificationError,
           require (wg_scope_digest row = xt_scope_digest (ad_record ad)) AuthorityVerificationError]) (\<lambda>_.
        case find_row nr_id a (intents (x_core x)) of None \<Rightarrow> Inl LedgerError | Some intent \<Rightarrow>
        rbind (require (nr_state intent = SIGNED) SafeHaltError) (\<lambda>_.
        rbind (case find_row br_id a (budget_reservations (x_core x)) of
                 None \<Rightarrow> require (nr_exposure intent = 0) LedgerError
               | Some b \<Rightarrow>
                   if nr_exposure intent = 0 then Inl LedgerError
                   else require (br_status b = ACTIVE) SafeHaltError) (\<lambda>_.
        require (\<not> has_row rr_action a (x_reconciliations x)) SafeHaltError))))))"

definition submission_gate ::
  "digest_fn \<Rightarrow> ExactSignedBytesAdmissionV0 \<Rightarrow> ExecutionSessionV0 \<Rightarrow> VerifiedAuthorityGrantV0 \<Rightarrow> string \<Rightarrow> int \<Rightarrow> bool \<Rightarrow>
   exec_db \<Rightarrow> error + unit" where
  "submission_gate H ad s g provider now retry x =
     (let sid = exact_signed_transaction_id H (ad_record ad) in
      rbind (authorize H s (Live g) SUBMIT_EXACT_BYTES now False x) (\<lambda>_.
      rbind (checks
        [require (provider \<noteq> [] \<and> Contract.strip provider = provider) EnvelopeValidationError,
         require (sc_session_id (vs_scope (ad_validated ad)) = session_instance_id H s) AuthorityVerificationError,
         require (H (byte_text (ad_signed_bytes ad)) = xt_signed_bytes_sha256 (ad_record ad)) EnvelopeValidationError]) (\<lambda>_.
      case find_row or_id sid (x_signed x) of None \<Rightarrow> Inl LedgerError | Some row \<Rightarrow>
      rbind (checks
        [require (wg_sha256 row = xt_signed_bytes_sha256 (ad_record ad)) EnvelopeValidationError,
         require (or_hash row = xt_transaction_hash (ad_record ad)) EnvelopeValidationError]) (\<lambda>_.
      rbind (assert_exact_bytes_submittable H ad x) (\<lambda>_.
      require (attempts_of sid x = [] \<or> retry) SafeHaltError)))))"

definition attempt_value ::
  "string \<Rightarrow> string \<Rightarrow> int \<Rightarrow> int \<Rightarrow> SubmissionAcknowledgment \<Rightarrow> string option \<Rightarrow> string option \<Rightarrow>
   error + SubmissionAttemptV0" where
  "attempt_value sid provider ordinal now ack reported err = make_submission_attempt
     \<lparr>sb_signed_transaction_id = sid, sb_provider_id = provider, sb_attempt_ordinal = ordinal,
      sb_submitted_at_epoch_s = now, sb_acknowledgment = ack, sb_provider_reported_hash = reported,
      sb_error_class = err, sb_schema = CONTRACT_SCHEMA @ ''.submission_attempt''\<rparr>"

text \<open>What follows the transport: the attempt is made and recorded in a transaction of its own.\<close>

definition record_outcome ::
  "digest_fn \<Rightarrow> string \<Rightarrow> string \<Rightarrow> int \<Rightarrow> SubmissionAcknowledgment \<Rightarrow> string option \<Rightarrow> string option \<Rightarrow> world \<Rightarrow>
   (error + SubmissionAttemptV0) \<times> world" where
  "record_outcome H sid provider now ack reported err w =
     (case attempt_value sid provider (next_submission_ordinal sid provider (w_db w)) now ack reported err of
        Inl e \<Rightarrow> (Inl e, w)
      | Inr v \<Rightarrow>
        (case lift_db (exec_txn (record_attempt_body H v)) w of
           (Inl e, w') \<Rightarrow> (Inl e, w') | (Inr _, w') \<Rightarrow> (Inr v, w')))"

definition submit_exact_bytes ::
  "digest_fn \<Rightarrow> transport \<Rightarrow> ExactSignedBytesAdmissionV0 \<Rightarrow> ExecutionSessionV0 \<Rightarrow> VerifiedAuthorityGrantV0 \<Rightarrow>
   string \<Rightarrow> int \<Rightarrow> bool \<Rightarrow> world \<Rightarrow> (error + SubmissionAttemptV0) \<times> world" where
  "submit_exact_bytes H transport ad s g provider now retry w =
     (let sid = exact_signed_transaction_id H (ad_record ad); w' = send (ad_signed_bytes ad) w in
      case submission_gate H ad s g provider now retry (w_db w) of
        Inl e \<Rightarrow> (Inl e, w)
      | Inr _ \<Rightarrow>
        (case transport (ad_signed_bytes ad) of
           Interrupted \<Rightarrow> (Inl PyKeyboardInterrupt, w')
         | Raised cls \<Rightarrow> record_outcome H sid provider now ACK_UNKNOWN None (Some cls) w'
         | Replied h \<Rightarrow>
             if h \<noteq> xt_transaction_hash (ad_record ad)
             then record_outcome H sid provider now ACK_UNKNOWN None (Some ''ProviderHashMismatch'') w'
             else record_outcome H sid provider now ACK_ACCEPTED (Some h) None w'))"

subsection \<open>Signed approvals\<close>

definition approval_signed_row ::
  "digest_fn \<Rightarrow> InkV0FSignedApprovalV0 \<Rightarrow> string \<Rightarrow> int \<Rightarrow> signed_row" where
  "approval_signed_row H v sid now =
     (let q = sv_request v; p = vs_parsed (sv_validated v) in
      \<lparr>or_id = signed_approval_id H v, or_action = sq_approval_action_id q, or_hash = ps_transaction_hash p,
       or_chain = ps_chain_id p, or_taker = ps_sender_address p, wg_session = sid, wg_envelope = None,
       wg_approval = Some (sq_approval_action_id q), wg_origin = FROM_APPROVAL, wg_nonce = ps_account_nonce p,
       wg_sha256 = vs_signed_bytes_sha256 (sv_validated v), wg_length = vs_signed_bytes_length (sv_validated v),
       wg_scope_digest = scope_digest H (sq_scope q), wg_signer = ''evm-recovered:'' @ ps_sender_address p,
       wg_frozen_at = now\<rparr>)"

definition approval_matches_request ::
  "digest_fn \<Rightarrow> InkV0FApprovalSigningRequestV0 \<Rightarrow> ExecutionSessionV0 \<Rightarrow> ApprovalActionV0 \<Rightarrow> bool" where
  "approval_matches_request H q s v \<longleftrightarrow>
     aa_session_id v = session_instance_id H s \<and> aa_session_identity_digest v = session_identity_digest H s \<and>
     aa_economic_action_id v = Some (sq_economic_action_id q) \<and> aa_taker_address v = es_taker_address s \<and>
     aa_token_address v = sq_token_address q \<and> aa_spender_address v = sq_spender_address q \<and>
     aa_requested_allowance_atomic v = sq_allowance_atomic q \<and>
     aa_authority_policy_digest v = es_authority_policy_digest s"

definition admit_approval_body ::
  "digest_fn \<Rightarrow> InkV0FSignedApprovalV0 \<Rightarrow> ExecutionSessionV0 \<Rightarrow> int \<Rightarrow> (exec_db, error, InkV0FSignedApprovalV0) body" where
  "admit_approval_body H v s now =
     (let q = sv_request v; aid = sq_approval_action_id q; sid = session_instance_id H s;
          new = approval_signed_row H v sid now in
      sbind reject_if_killed (\<lambda>_.
      sbind (require_session sid) (\<lambda>srow.
      sbind (sguard (ws_identity_digest srow = session_identity_digest H s) AuthorityVerificationError) (\<lambda>_.
      sbind (sget (\<lambda>x. find_row wa_id aid (x_approvals x))) (\<lambda>approval.
      case approval of None \<Rightarrow> sraise LedgerError | Some ap \<Rightarrow>
      sbind (sguard (wa_lifecycle ap = AUTHORIZED) LedgerError) (\<lambda>_.
      sbind (sguard (approval_matches_request H q s (wa_value ap)) EnvelopeValidationError) (\<lambda>_.
      sbind (require_economic_intent (sq_economic_action_id q)) (\<lambda>economic.
      sbind (sguard (nr_state economic = RESERVED) LedgerError) (\<lambda>_.
      sbind (sget (\<lambda>x. find_row wx_id aid (x_actions x))) (\<lambda>external.
      sbind (sguard (case external of None \<Rightarrow> False | Some ex \<Rightarrow>
        wx_kind ex = APPROVAL \<and> wx_approval ex = Some aid \<and> wx_session ex = Some sid) LedgerError) (\<lambda>_.
      sbind (sget (\<lambda>x. find_row or_action aid (x_signed x))) (\<lambda>existing.
      case existing of
        Some old \<Rightarrow> sbind (sguard (old = new) LedgerError) (\<lambda>_. sret v)
      | None \<Rightarrow> sbind (insert_or_match or_id x_signed (=) insert_signed new) (\<lambda>_. sret v)))))))))))))"

definition admit_signed_approval ::
  "digest_fn \<Rightarrow> rlp_decoder \<Rightarrow> rlp_encoder \<Rightarrow> recovery \<Rightarrow> InkV0FApprovalSigningRequestV0 \<Rightarrow> bytes \<Rightarrow> ExecutionSessionV0 \<Rightarrow>
   VerifiedAuthorityGrantV0 \<Rightarrow> int \<Rightarrow> exec_db \<Rightarrow> (error + InkV0FSignedApprovalV0) \<times> exec_db" where
  "admit_signed_approval H rdec renc ecrec q raw s g now x =
     (case rbind (authorize H s (Live g) SUBMIT_EXACT_BYTES now False x) (\<lambda>_.
           rbind (authorize H s (Live g) AUTHORIZE_APPROVAL now False x) (\<lambda>_.
           rbind (require (sq_kind q = EXACT_APPROVAL) EnvelopeValidationError) (\<lambda>_.
           rbind (scope_session_checks H (sq_scope q) s) (\<lambda>_.
           rbind (require (sc_economic_action_id (sq_scope q) = sq_approval_action_id q) EnvelopeValidationError) (\<lambda>_.
           validate_signed_approval H rdec renc ecrec q raw))))) of
        Inl e \<Rightarrow> (Inl e, x)
      | Inr v \<Rightarrow> exec_txn (admit_approval_body H v s now) x)"

definition approval_gate ::
  "digest_fn \<Rightarrow> InkV0FSignedApprovalV0 \<Rightarrow> bytes \<Rightarrow> ExecutionSessionV0 \<Rightarrow> VerifiedAuthorityGrantV0 \<Rightarrow> string \<Rightarrow> int \<Rightarrow>
   exec_db \<Rightarrow> error + SubmissionAttemptV0" where
  "approval_gate H v raw s g provider now x =
     (let e = EnvelopeValidationError; q = sv_request v; sc = sq_scope q in
      rbind (authorize H s (Live g) SUBMIT_EXACT_BYTES now False x) (\<lambda>_.
      rbind (authorize H s (Live g) AUTHORIZE_APPROVAL now False x) (\<lambda>_.
      rbind (checks
        [require (sq_kind q = EXACT_APPROVAL) e, require (raw \<noteq> []) e,
         require (H (byte_text raw) = vs_signed_bytes_sha256 (sv_validated v)) e,
         require (int (length raw) = vs_signed_bytes_length (sv_validated v)) e]) (\<lambda>_.
      rbind (derive_transaction_hash raw) (\<lambda>h.
      rbind (checks
        [require (h = ps_transaction_hash (vs_parsed (sv_validated v))) e,
         require (sc_session_id sc = session_instance_id H s \<and>
           sc_session_identity_digest sc = session_identity_digest H s \<and>
           sc_authority_policy_digest sc = es_authority_policy_digest s) AuthorityVerificationError,
         require (provider \<noteq> [] \<and> Contract.strip provider = provider) e]) (\<lambda>_.
      case find_row or_id (signed_approval_id H v) (x_signed x) of None \<Rightarrow> Inl LedgerError | Some row \<Rightarrow>
      rbind (require (approval_signed_row H v (session_instance_id H s) (wg_frozen_at row) =
          row\<lparr>wg_signer := ''evm-recovered:'' @ ps_sender_address (vs_parsed (sv_validated v))\<rparr>) e) (\<lambda>_.
      attempt_value (signed_approval_id H v) provider 0 now ACK_UNKNOWN None (Some ''PreTransportGuard''))))))))"

definition guard_approval_body ::
  "digest_fn \<Rightarrow> InkV0FSignedApprovalV0 \<Rightarrow> SubmissionAttemptV0 \<Rightarrow> ExecutionSessionV0 \<Rightarrow> int \<Rightarrow> (exec_db, error, unit) body" where
  "guard_approval_body H v guard s now =
     (let q = sv_request v in
      sbind reject_if_killed (\<lambda>_.
      sbind (sget (\<lambda>x. find_row wa_id (sq_approval_action_id q) (x_approvals x))) (\<lambda>approval.
      case approval of None \<Rightarrow> sraise LedgerError | Some ap \<Rightarrow>
      sbind (sguard (wa_lifecycle ap = AUTHORIZED \<and> aa_session_id (wa_value ap) = session_instance_id H s \<and>
        aa_economic_action_id (wa_value ap) = Some (sq_economic_action_id q) \<and>
        aa_requested_allowance_atomic (wa_value ap) = sq_allowance_atomic q) LedgerError) (\<lambda>_.
      sbind (sguard (\<not> now \<ge> aa_deadline_epoch_s (wa_value ap)) SafeHaltError) (\<lambda>_.
      sbind (require_economic_intent (sq_economic_action_id q)) (\<lambda>economic.
      sbind (sguard (nr_state economic = RESERVED) LedgerError) (\<lambda>_.
      sbind (sget (attempts_of (signed_approval_id H v))) (\<lambda>prior.
      sbind (sguard (prior = []) SafeHaltError) (\<lambda>_.
      sbind (insert_or_match wt_id x_attempts (=) insert_attempt (attempt_row_of H guard)) (\<lambda>inserted.
      sguard inserted SafeHaltError))))))))))"

definition submit_signed_approval ::
  "digest_fn \<Rightarrow> transport \<Rightarrow> InkV0FSignedApprovalV0 \<Rightarrow> bytes \<Rightarrow> ExecutionSessionV0 \<Rightarrow> VerifiedAuthorityGrantV0 \<Rightarrow>
   string \<Rightarrow> int \<Rightarrow> world \<Rightarrow> (error + SubmissionAttemptV0) \<times> world" where
  "submit_signed_approval H transport v raw s g provider now w =
     (case approval_gate H v raw s g provider now (w_db w) of
        Inl e \<Rightarrow> (Inl e, w)
      | Inr guard \<Rightarrow>
        (case lift_db (exec_txn (guard_approval_body H v guard s now)) w of
           (Inl e, w') \<Rightarrow> (Inl e, w')
         | (Inr _, w') \<Rightarrow>
             (if transport raw = Interrupted then Inl PyKeyboardInterrupt else Inr guard, send raw w')))"

subsection \<open>Resumption of a quarantined byte string\<close>

definition ZERO_SUBMISSION_EXACT_BYTES_RESUME :: string where
  "ZERO_SUBMISSION_EXACT_BYTES_RESUME = ''ZERO_SUBMISSION_EXACT_BYTES_RESUME''"

record ExactBytesResumeResultV0 =
  rz_economic_action_id :: string
  rz_signed_transaction_id :: string
  rz_recovery_digest :: string
  rz_already_resumed :: bool

record resume_request =
  rq_action :: string
  rq_sha256 :: string
  rq_hash :: string
  rq_chain :: int
  rq_taker :: string
  rq_nonce :: int
  rq_absence :: "ChainObservationV0 list"
  rq_max_age :: int
  rq_now :: int

definition resume_arguments :: "resume_request \<Rightarrow> error + unit" where
  "resume_arguments q = checks
     [require (rq_action q \<noteq> []) LedgerError,
      require (is_sha256_hex (rq_sha256 q)) LedgerError,
      require (is_tx_hash (rq_hash q)) LedgerError,
      require (0 \<le> rq_now q) LedgerError,
      require (0 \<le> rq_max_age q) LedgerError,
      require (rq_max_age q \<noteq> 0) LedgerError,
      require (0 \<le> rq_nonce q) LedgerError,
      require (\<not> length (rq_absence q) < 2) ChainTruthError]"

definition fresh_absence :: "resume_request \<Rightarrow> error + unit" where
  "fresh_absence q = (let e = ChainTruthError; providers = map ob_provider_id (rq_absence q) in
     rbind (require (distinct providers \<and> [] \<notin> set providers) e) (\<lambda>_.
     check_all (\<lambda>v. checks
       [require (ob_presence v = P_ABSENT) e,
        require (ob_transaction_hash v = rq_hash q) e,
        require (let age = rq_now q - ob_observed_at_epoch_s v in \<not> (age < 0 \<or> age \<ge> rq_max_age q)) e])
       (rq_absence q)))"

definition absence_evidence :: "digest_fn \<Rightarrow> resume_request \<Rightarrow> json" where
  "absence_evidence H q = JList (map (\<lambda>v. JObj
     [(''observed_at_epoch_s'', JInt (ob_observed_at_epoch_s v)),
      (''provider_id'', JStr (ob_provider_id v)),
      (''raw_evidence_sha256'', JStr (ob_raw_evidence_sha256 v))]) (sort_key (observation_id H) (rq_absence q)))"

definition resume_payload ::
  "digest_fn \<Rightarrow> resume_request \<Rightarrow> ExecutionSessionV0 \<Rightarrow> VerifiedAuthorityGrantV0 \<Rightarrow> string \<Rightarrow> int \<Rightarrow> (string \<times> json) list" where
  "resume_payload H q s g signed_id exposure =
     [(''absence_evidence'', absence_evidence H q),
      (''absence_evidence_digest'', JStr (digest_object H (JObj
         [(''observations'', absence_evidence H q),
          (''schema'', JStr ''qntyspot.program_b.v0.zero_submission_absence_evidence'')]))),
      (''account_nonce'', JInt (rq_nonce q)),
      (''authority_policy_digest'', JStr (es_authority_policy_digest s)),
      (''authority_receipt_id'', JStr (vg_receipt_id g)),
      (''authority_root_id'', JStr (vg_root_id g)),
      (''chain_id'', JInt (rq_chain q)),
      (''economic_action_id'', JStr (rq_action q)),
      (''evidence_max_age_s'', JInt (rq_max_age q)),
      (''prior_intent_state'', JStr (IntentState_value SAFE_HALT)),
      (''prior_reservation_status'', if exposure = 0 then JNull else JStr (ReservationStatus_value QUARANTINED)),
      (''recovered_at_epoch_s'', JInt (rq_now q)),
      (''recovery_type'', JStr ZERO_SUBMISSION_EXACT_BYTES_RESUME),
      (''session_id'', JStr (session_instance_id H s)),
      (''signed_bytes_sha256'', JStr (rq_sha256 q)),
      (''signed_transaction_id'', JStr signed_id),
      (''taker_address'', JStr (rq_taker q)),
      (''transaction_hash'', JStr (rq_hash q))]"

definition resume_event :: "string \<Rightarrow> event_row \<Rightarrow> bool" where
  "resume_event a e \<longleftrightarrow> ev_type e = EXACT_BYTES_RESUMED \<and> ev_action e = Some a \<and>
     ev_from e = Some (Intent SAFE_HALT) \<and> ev_to e = Some (Intent SIGNED)"

text \<open>The durable facts a resumption reads, all in its one transaction, ending in the signed row.\<close>

definition resume_checks ::
  "digest_fn \<Rightarrow> resume_request \<Rightarrow> ExecutionSessionV0 \<Rightarrow> intent_row \<Rightarrow> exec_db \<Rightarrow> error + signed_row" where
  "resume_checks H q s intent x =
     (let a = rq_action q; sid = session_instance_id H s; e = AuthorityVerificationError in
      rbind (case find_row br_id a (budget_reservations (x_core x)) of
               None \<Rightarrow> require (nr_exposure intent = 0) LedgerError
             | Some b \<Rightarrow> require (nr_exposure intent \<noteq> 0 \<and> br_status b = QUARANTINED) LedgerError) (\<lambda>_.
      case find_row wx_id a (x_actions x) of None \<Rightarrow> Inl LedgerError | Some external \<Rightarrow>
      rbind (checks [require (wx_kind external = ECONOMIC) LedgerError, require (wx_session external = Some sid) e]) (\<lambda>_.
      case find_row or_action a (x_signed x) of None \<Rightarrow> Inl LedgerError | Some tx \<Rightarrow>
      rbind (checks
        [require (wg_origin tx = EXTERNAL_SIGNED_BYTES) LedgerError,
         require (wg_session tx = sid) e,
         require (wg_envelope tx \<noteq> None) SafeHaltError]) (\<lambda>_.
      case find_row we_id (the (wg_envelope tx)) (x_envelopes x) of None \<Rightarrow> Inl LedgerError | Some env \<Rightarrow>
      rbind (exact_scope_from_authorized_envelope env) (\<lambda>expected.
      rbind (checks
        [require (scope_digest H expected = wg_scope_digest tx) e,
         require (sc_economic_action_id expected = a) e,
         require (wg_sha256 tx = rq_sha256 q \<and> or_hash tx = rq_hash q \<and> or_chain tx = rq_chain q \<and>
           or_taker tx = rq_taker q \<and> wg_nonce tx = rq_nonce q) LedgerError]) (\<lambda>_.
      rbind (session_chain_id s) (\<lambda>chain.
      rbind (checks
        [require (rq_chain q = chain \<and> rq_taker q = es_taker_address s) e,
         require (attempts_of (or_id tx) x = []) SafeHaltError,
         require (\<not> has_row rr_action a (x_reconciliations x)) SafeHaltError,
         require (\<not> has_row fr_action a (fill_receipts (x_core x))) SafeHaltError,
         require (\<not> has_row or_action a (x_refs x)) SafeHaltError]) (\<lambda>_.
      rbind (fresh_absence q) (\<lambda>_.
      Inr tx)))))))))"

text \<open>Its three writes: the event, the state, the reservation of an action that holds capital.\<close>

definition resume_write :: "string \<Rightarrow> intent_row \<Rightarrow> int \<Rightarrow> (string \<times> json) list \<Rightarrow> (db, error, unit) body" where
  "resume_write a intent now facts =
     sbind (append_event EXACT_BYTES_RESUMED (nr_policy intent) (nr_cycle intent) (Some a)
       (Some (Intent SAFE_HALT)) (Some (Intent SIGNED)) now (JObj facts)) (\<lambda>_.
     sbind (sput (update_intent_state a SIGNED)) (\<lambda>_.
     if nr_exposure intent > 0 then unquarantine a ACTIVE None else sret ()))"

definition resume_body ::
  "digest_fn \<Rightarrow> resume_request \<Rightarrow> ExecutionSessionV0 \<Rightarrow> VerifiedAuthorityGrantV0 \<Rightarrow>
   (exec_db, error, ExactBytesResumeResultV0) body" where
  "resume_body H q s g =
     (let a = rq_action q;
          result = (\<lambda>signed_id digest already. \<lparr>rz_economic_action_id = a, rz_signed_transaction_id = signed_id,
                      rz_recovery_digest = digest, rz_already_resumed = already\<rparr>) in
      sbind (require_session (session_instance_id H s)) (\<lambda>stored.
      sbind (sguard (es_authority_policy_digest (ws_session stored) = es_authority_policy_digest s)
        AuthorityVerificationError) (\<lambda>_.
      sbind (require_economic_intent a) (\<lambda>intent.
      if nr_state intent = SIGNED then
        sbind (sget (\<lambda>x. find (resume_event a) (state_events (x_core x)))) (\<lambda>prior.
        case prior of None \<Rightarrow> sraise LedgerError | Some ev \<Rightarrow>
        sbind (sget (\<lambda>x. find_row or_action a (x_signed x))) (\<lambda>tx.
        case tx of None \<Rightarrow> sraise LedgerError | Some row \<Rightarrow>
        sret (result (or_id row) (digest_object H (ev_payload ev)) True)))
      else
        sbind (sguard (nr_state intent = SAFE_HALT) LedgerError) (\<lambda>_.
        sbind (sget (resume_checks H q s intent)) (\<lambda>checked_row.
        sbind (slift checked_row) (\<lambda>tx.
        (let facts = resume_payload H q s g (or_id tx) (nr_exposure intent) in
        sbind (in_store (resume_write a intent (rq_now q) facts)) (\<lambda>_.
        sret (result (or_id tx) (digest_object H (JObj facts)) False))))))))))"

definition resume_quarantined_exact_signed_bytes ::
  "digest_fn \<Rightarrow> resume_request \<Rightarrow> ExecutionSessionV0 \<Rightarrow> VerifiedAuthorityGrantV0 \<Rightarrow> exec_db \<Rightarrow>
   (error + ExactBytesResumeResultV0) \<times> exec_db" where
  "resume_quarantined_exact_signed_bytes H q s g x =
     (case rbind (authorize H s (Live g) SUBMIT_EXACT_BYTES (rq_now q) False x) (\<lambda>_. resume_arguments q) of
        Inl e \<Rightarrow> (Inl e, x)
      | Inr _ \<Rightarrow> exec_txn (resume_body H q s g) x)"

end
