(* ===== verification/Settlement.thy ===== *)
theory Settlement
  imports Submission
begin

text \<open>
  The execution runtime, third part (\<open>ledger/execution.py\<close>): the recording of envelopes and
  approvals, the preauthorization bundles of the Ink adapter, chain observations and the advance
  they cause, the reconciliation of an external action. What the live derivation of an Ink preview
  produces is a parameter (\<open>live\<close>); the frozen path of the native sell is modelled in full.
\<close>

subsection \<open>Envelopes and approvals\<close>

definition envelope_row_of :: "digest_fn \<Rightarrow> ExecutionEnvelopeV0 \<Rightarrow> lifecycle \<Rightarrow> envelope_row" where
  "envelope_row_of H v l =
     \<lparr>we_id = envelope_id H v, we_value = v\<lparr>env_schema := []\<rparr>, we_evidence_digest = evidence_digest H v,
      we_lifecycle = l\<rparr>"

definition approval_row_of :: "digest_fn \<Rightarrow> ApprovalActionV0 \<Rightarrow> lifecycle \<Rightarrow> int \<Rightarrow> approval_row" where
  "approval_row_of H v l now =
     \<lparr>wa_id = approval_action_id H v, wa_value = v\<lparr>aa_schema := []\<rparr>, wa_lifecycle = l, wa_created_at = now\<rparr>"

text \<open>The document is the one the store wrote, where these members are texts.\<close>

definition text_member :: "json \<Rightarrow> error + string" where
  "text_member j = (case j of JStr s \<Rightarrow> Inr s | _ \<Rightarrow> Inl PyTypeError)"

definition bounds_from_intent :: "intent_row \<Rightarrow> error + EconomicBounds" where
  "bounds_from_intent row =
     (let get = (\<lambda>k. jfetch k (nr_bounds row)); text = (\<lambda>k. rbind (get k) text_member) in
      rbind (rbind (get ''side'') Side_of) (\<lambda>side.
      rbind (text ''input_instrument_id'') (\<lambda>inp.
      rbind (text ''output_instrument_id'') (\<lambda>out.
      rbind (rbind (get ''max_input_atomic'') py_int_of) (\<lambda>max_in.
      rbind (rbind (get ''min_output_atomic'') py_int_of) (\<lambda>min_out.
      rbind (rbind (get ''limit_price'') parse_canonical_decimal) (\<lambda>price.
      rbind (rbind (get ''max_price_impact_bps'') py_int_of) (\<lambda>impact.
      rbind (rbind (get ''max_slippage_bps'') py_int_of) (\<lambda>slippage.
      rbind (rbind (get ''deadline_epoch_s'') py_int_of) (\<lambda>deadline.
      make_bounds \<lparr>eb_side = side, eb_input_instrument_id = inp, eb_output_instrument_id = out,
        max_input_atomic = max_in, eb_min_output_atomic = min_out, limit_price = price,
        eb_max_price_impact_bps = impact, eb_max_slippage_bps = slippage, deadline_epoch_s = deadline\<rparr>))))))))))"

definition persisted_bounds :: "intent_row \<Rightarrow> (exec_db, error, EconomicBounds) body" where
  "persisted_bounds row = slift (bounds_from_intent row)"

definition require_same_session :: "digest_fn \<Rightarrow> ExecutionSessionV0 \<Rightarrow> (exec_db, error, unit) body" where
  "require_same_session H s =
     sbind (require_session (session_instance_id H s)) (\<lambda>row.
     sguard (ws_identity_digest row = session_identity_digest H s) EnvelopeValidationError)"

record envelope_request =
  eq_bounds :: EconomicBounds
  eq_expectation :: ZeroXExecutionExpectationV0
  eq_response :: VenueQuoteResponseV0
  eq_calldata :: calldata
  eq_held :: "int option"
  eq_now :: int
  eq_lifecycle :: lifecycle

definition record_envelope_body ::
  "digest_fn \<Rightarrow> ExecutionEnvelopeV0 \<Rightarrow> ExecutionSessionV0 \<Rightarrow> VerifiedAuthorityGrantV0 \<Rightarrow> envelope_request \<Rightarrow>
   (exec_db, error, bool) body" where
  "record_envelope_body H v s g q =
     (let a = env_economic_action_id v; e = EnvelopeValidationError; new = envelope_row_of H v (eq_lifecycle q) in
      sbind reject_if_killed (\<lambda>_.
      sbind (sget (\<lambda>x. held_atomic None None None (x_core x))) (\<lambda>held.
      sbind (sguard (eq_held q = None \<or> eq_held q = Some held) e) (\<lambda>_.
      sbind (require_economic_intent a) (\<lambda>action.
      sbind (persisted_bounds action) (\<lambda>bounds.
      sbind (sguard (eq_bounds q = bounds) e) (\<lambda>_.
      sbind (sget (\<lambda>x. find_row we_id (we_id new) (x_envelopes x))) (\<lambda>existing.
      case existing of
        Some old \<Rightarrow>
          sbind (sguard (new = old) LedgerError) (\<lambda>_.
          sbind (require_same_session H s) (\<lambda>_.
          sbind (economic_external_action a None) (\<lambda>_.
          sret False)))
      | None \<Rightarrow>
          sbind (sguard (nr_state action = RESERVED) e) (\<lambda>_.
          sbind (slift (assert_envelope_admissible H v s (vg_policy g) bounds a (eq_expectation q) (eq_response q)
            held (eq_now q) (Some (eq_calldata q)))) (\<lambda>_.
          sbind (require_same_session H s) (\<lambda>_.
          sbind (economic_external_action a None) (\<lambda>_.
          insert_or_match we_id x_envelopes (=) insert_envelope new))))))))))))"

definition record_execution_envelope ::
  "digest_fn \<Rightarrow> ExecutionEnvelopeV0 \<Rightarrow> ExecutionSessionV0 \<Rightarrow> VerifiedAuthorityGrantV0 \<Rightarrow> envelope_request \<Rightarrow>
   exec_db \<Rightarrow> (error + bool) \<times> exec_db" where
  "record_execution_envelope H v s g q x =
     (case rbind (authorize H s (Live g) CONSTRUCT_ENVELOPE (eq_now q) False x) (\<lambda>_.
           require (eq_lifecycle q \<noteq> SETTLED) EnvelopeValidationError) of
        Inl e \<Rightarrow> (Inl e, x)
      | Inr _ \<Rightarrow> exec_txn (record_envelope_body H v s g q) x)"

definition approval_action_row :: "string \<Rightarrow> string option \<Rightarrow> action_row" where
  "approval_action_row aid session =
     \<lparr>wx_id = aid, wx_kind = APPROVAL, wx_economic = None, wx_approval = Some aid, wx_session = session\<rparr>"

definition approval_external_action :: "string \<Rightarrow> string option \<Rightarrow> (exec_db, error, bool) body" where
  "approval_external_action aid session =
     insert_or_match wx_id x_actions (same_action (session \<noteq> None)) insert_action (approval_action_row aid session)"

definition record_approval_body ::
  "digest_fn \<Rightarrow> ApprovalActionV0 \<Rightarrow> ExecutionSessionV0 \<Rightarrow> ZeroXExecutionExpectationV0 \<Rightarrow> VenueQuoteResponseV0 \<Rightarrow>
   int \<Rightarrow> lifecycle \<Rightarrow> (exec_db, error, bool) body" where
  "record_approval_body H v s ex r now l =
     sbind reject_if_killed (\<lambda>_.
     sbind (require_session (session_instance_id H s)) (\<lambda>_.
     sbind (case aa_economic_action_id v of None \<Rightarrow> sret ()
            | Some a \<Rightarrow>
                sbind (require_economic_intent a) (\<lambda>action.
                sbind (persisted_bounds action) (\<lambda>bounds.
                sguard (zx_sell_amount_atomic ex \<le> max_input_atomic bounds \<and>
                  vr_sell_amount_atomic r \<le> max_input_atomic bounds) EnvelopeValidationError))) (\<lambda>_.
     sbind (insert_or_match wa_id x_approvals (=) insert_approval (approval_row_of H v l now)) (\<lambda>inserted.
     sbind (approval_external_action (approval_action_id H v) None) (\<lambda>_.
     sret inserted)))))"

definition record_approval_action ::
  "digest_fn \<Rightarrow> ApprovalActionV0 \<Rightarrow> ExecutionSessionV0 \<Rightarrow> VerifiedAuthorityGrantV0 \<Rightarrow> ZeroXExecutionExpectationV0 \<Rightarrow>
   VenueQuoteResponseV0 \<Rightarrow> int \<Rightarrow> lifecycle \<Rightarrow> exec_db \<Rightarrow> (error + bool) \<times> exec_db" where
  "record_approval_action H v s g ex r now l x =
     (case rbind (authorize H s (Live g) AUTHORIZE_APPROVAL now False x) (\<lambda>_.
           assert_approval_admissible H v s (vg_policy g) ex r now) of
        Inl e \<Rightarrow> (Inl e, x)
      | Inr _ \<Rightarrow> exec_txn (record_approval_body H v s ex r now l) x)"

subsection \<open>Preauthorization bundles\<close>

text \<open>\<open>id.rsplit(":", 1)[-1]\<close>.\<close>

definition after_last_colon :: "string \<Rightarrow> string" where
  "after_last_colon s = rev (takeWhile (\<lambda>c. c \<noteq> CHR '':'') (rev s))"

text \<open>The reads common to the bundles: the session, the reserved action and its bounds.\<close>

definition preauth_action ::
  "digest_fn \<Rightarrow> ExecutionSessionV0 \<Rightarrow> ExecutionEnvelopeV0 \<Rightarrow> EconomicBounds \<Rightarrow> (exec_db, error, intent_row) body" where
  "preauth_action H s v intended = (let e = EnvelopeValidationError in
     sbind reject_if_killed (\<lambda>_.
     sbind (require_same_session H s) (\<lambda>_.
     sbind (require_economic_intent (env_economic_action_id v)) (\<lambda>action.
     sbind (sguard (nr_state action = RESERVED) e) (\<lambda>_.
     sbind (persisted_bounds action) (\<lambda>bounds.
     sbind (sguard (bounds = intended) e) (\<lambda>_.
     sret action)))))))"

text \<open>The envelope within the bounds, its output prorated to its input.\<close>

definition within_persisted :: "ExecutionEnvelopeV0 \<Rightarrow> EconomicBounds \<Rightarrow> error + unit" where
  "within_persisted v b = (let e = EnvelopeValidationError in checks
     [require (env_max_input_atomic v \<le> max_input_atomic b) e,
      require (required_output (max_input_atomic b) (eb_min_output_atomic b) (env_max_input_atomic v) \<le>
        env_min_output_atomic v) e])"

definition intent_input :: "intent_row \<Rightarrow> string" where
  "intent_input r = (if nr_side r = BUY then nr_quote r else nr_instrument r)"

definition intent_output :: "intent_row \<Rightarrow> string" where
  "intent_output r = (if nr_side r = BUY then nr_instrument r else nr_quote r)"

definition same_instruments :: "ExecutionEnvelopeV0 \<Rightarrow> intent_row \<Rightarrow> error + unit" where
  "same_instruments v r = require (env_input_instrument_id v = intent_input r \<and>
     env_output_instrument_id v = intent_output r) EnvelopeValidationError"

text \<open>The input against the reservation of the action and the effective ceilings.\<close>

definition reservation_covers ::
  "ExecutionEnvelopeV0 \<Rightarrow> intent_row \<Rightarrow> VerifiedAuthorityGrantV0 \<Rightarrow> int \<Rightarrow> exec_db \<Rightarrow> error + unit" where
  "reservation_covers v action g now x =
     (case find_row pr_id (nr_policy action) (policies (x_core x)) of
        None \<Rightarrow> Inl LedgerError
      | Some p \<Rightarrow>
          (let total = held_atomic None None None (x_core x); reserved = nr_exposure action in
           rbind (checks
             [require (0 < reserved) LedgerError,
              require (reserved \<le> total) LedgerError,
              require (env_max_input_atomic v \<le> reserved) AuthorityCeilingError]) (\<lambda>_.
           assert_effective_capital_within (env_max_input_atomic v) (total - env_max_input_atomic v)
             (pr_per_order_cap p) (pr_global_cap p) g now)))"

definition sread :: "(exec_db \<Rightarrow> error + 'a) \<Rightarrow> (exec_db, error, 'a) body" where
  "sread f = sbind (sget f) slift"

text \<open>The rows a bundle leaves, inserted in the order of their references.\<close>

definition record_bundle ::
  "digest_fn \<Rightarrow> ExecutionSessionV0 \<Rightarrow> ApprovalActionV0 option \<Rightarrow> ExecutionEnvelopeV0 \<Rightarrow> int \<Rightarrow>
   (exec_db, error, unit) body" where
  "record_bundle H s approval v now =
     sbind (economic_external_action (env_economic_action_id v) (Some (session_instance_id H s))) (\<lambda>_.
     sbind (case approval of None \<Rightarrow> sret ()
            | Some p \<Rightarrow>
                sbind (insert_or_match wa_id x_approvals (=) insert_approval (approval_row_of H p AUTHORIZED now)) (\<lambda>_.
                sbind (approval_external_action (approval_action_id H p) (Some (session_instance_id H s))) (\<lambda>_.
                sret ()))) (\<lambda>_.
     sbind (insert_or_match we_id x_envelopes (=) insert_envelope (envelope_row_of H v AUTHORIZED)) (\<lambda>_.
     sret ())))"

definition preauth_gate ::
  "digest_fn \<Rightarrow> IntentV0 \<Rightarrow> ExecutionSessionV0 \<Rightarrow> VerifiedAuthorityGrantV0 \<Rightarrow> Capability list \<Rightarrow> int \<Rightarrow> exec_db \<Rightarrow>
   error + unit" where
  "preauth_gate H i s g capabilities now x =
     rbind (check_all (\<lambda>c. rbind (authorize H s (Live g) c now False x) (\<lambda>_. Inr ())) capabilities) (\<lambda>_.
     case find_row ws_id (session_instance_id H s) (x_sessions x) of None \<Rightarrow> Inl LedgerError | Some row \<Rightarrow>
     rbind (require (ws_identity_digest row = session_identity_digest H s) EnvelopeValidationError) (\<lambda>_.
     rbind (state_of (in_economic_action_id i) x) (\<lambda>st.
     require (st = RESERVED) EnvelopeValidationError)))"

definition bundle_agrees :: "ApprovalActionV0 \<Rightarrow> ExecutionEnvelopeV0 \<Rightarrow> error + unit" where
  "bundle_agrees p v = checks
     [require (aa_economic_action_id p = Some (env_economic_action_id v)) EnvelopeValidationError,
      require (aa_requested_allowance_atomic p = env_max_input_atomic v) EnvelopeValidationError]"

definition preauth_bundle_body ::
  "digest_fn \<Rightarrow> ApprovalActionV0 \<Rightarrow> ExecutionEnvelopeV0 \<Rightarrow> IntentV0 \<Rightarrow> ExecutionSessionV0 \<Rightarrow> VerifiedAuthorityGrantV0 \<Rightarrow>
   int \<Rightarrow> (exec_db, error, unit) body" where
  "preauth_bundle_body H p v i s g now = (let e = EnvelopeValidationError in
     sbind (preauth_action H s v (in_bounds i)) (\<lambda>action.
     sbind (slift (within_persisted v (in_bounds i))) (\<lambda>_.
     sbind (slift (same_instruments v action)) (\<lambda>_.
     sbind (sguard (aa_token_address p = after_last_colon (intent_input action)) e) (\<lambda>_.
     sbind (sguard (aa_requested_allowance_atomic p = env_max_input_atomic v) e) (\<lambda>_.
     sbind (if nr_side action = BUY then sread (reservation_covers v action g now) else sret ()) (\<lambda>_.
     record_bundle H s (Some p) v now)))))))"

definition record_ink_v0f_preauth_bundle ::
  "digest_fn \<Rightarrow> error + ApprovalActionV0 \<times> ExecutionEnvelopeV0 \<Rightarrow> IntentV0 \<Rightarrow> ExecutionSessionV0 \<Rightarrow>
   VerifiedAuthorityGrantV0 \<Rightarrow> int \<Rightarrow> exec_db \<Rightarrow> (error + ApprovalActionV0 \<times> ExecutionEnvelopeV0) \<times> exec_db" where
  "record_ink_v0f_preauth_bundle H live i s g now x =
     (case rbind (preauth_gate H i s g [CONSTRUCT_ENVELOPE, AUTHORIZE_APPROVAL] now x) (\<lambda>_.
           rbind live (\<lambda>pv. rbind (bundle_agrees (fst pv) (snd pv)) (\<lambda>_. Inr pv))) of
        Inl e \<Rightarrow> (Inl e, x)
      | Inr pv \<Rightarrow> exec_txn (sbind (preauth_bundle_body H (fst pv) (snd pv) i s g now) (\<lambda>_. sret pv)) x)"

text \<open>An approval or an envelope of the action other than the one given.\<close>

definition other_approval :: "ExecutionEnvelopeV0 \<Rightarrow> string option \<Rightarrow> exec_db \<Rightarrow> bool" where
  "other_approval v allowed x =
     (case find (\<lambda>r. aa_economic_action_id (wa_value r) = Some (env_economic_action_id v)) (x_approvals x) of
        None \<Rightarrow> False | Some r \<Rightarrow> Some (wa_id r) \<noteq> allowed)"

definition other_envelope :: "digest_fn \<Rightarrow> ExecutionEnvelopeV0 \<Rightarrow> exec_db \<Rightarrow> bool" where
  "other_envelope H v x =
     (case find (\<lambda>r. envelope_action r = env_economic_action_id v) (x_envelopes x) of
        None \<Rightarrow> False | Some r \<Rightarrow> we_id r \<noteq> envelope_id H v)"

definition native_buy_body ::
  "digest_fn \<Rightarrow> ExecutionEnvelopeV0 \<Rightarrow> IntentV0 \<Rightarrow> ExecutionSessionV0 \<Rightarrow> VerifiedAuthorityGrantV0 \<Rightarrow> int \<Rightarrow>
   (exec_db, error, unit) body" where
  "native_buy_body H v i s g now = (let e = EnvelopeValidationError in
     sbind (preauth_action H s v (in_bounds i)) (\<lambda>action.
     sbind (sguard (nr_side action = BUY) e) (\<lambda>_.
     sbind (slift (within_persisted v (in_bounds i))) (\<lambda>_.
     sbind (slift (same_instruments v action)) (\<lambda>_.
     sbind (sguard (env_transaction_value_atomic v = env_max_input_atomic v) e) (\<lambda>_.
     sbind (sguard (env_allowance_target v = None) e) (\<lambda>_.
     sbind (sget (other_approval v None)) (\<lambda>replaced.
     sbind (sguard (\<not> replaced) SafeHaltError) (\<lambda>_.
     sbind (sget (other_envelope H v)) (\<lambda>replaced.
     sbind (sguard (\<not> replaced) SafeHaltError) (\<lambda>_.
     sbind (sread (reservation_covers v action g now)) (\<lambda>_.
     record_bundle H s None v now))))))))))))"

definition record_ink_v0f_native_buy_preauth ::
  "digest_fn \<Rightarrow> error + ExecutionEnvelopeV0 \<Rightarrow> IntentV0 \<Rightarrow> ExecutionSessionV0 \<Rightarrow> VerifiedAuthorityGrantV0 \<Rightarrow>
   int \<Rightarrow> exec_db \<Rightarrow> (error + ExecutionEnvelopeV0) \<times> exec_db" where
  "record_ink_v0f_native_buy_preauth H live i s g now x =
     (case rbind (preauth_gate H i s g [CONSTRUCT_ENVELOPE] now x) (\<lambda>_.
           rbind (require (in_side i = BUY) EnvelopeValidationError) (\<lambda>_. live)) of
        Inl e \<Rightarrow> (Inl e, x)
      | Inr v \<Rightarrow> exec_txn (sbind (native_buy_body H v i s g now) (\<lambda>_. sret v)) x)"

text \<open>Every field of a value under its own name, as the frozen plan holds it.\<close>

definition approval_fields :: "ApprovalActionV0 \<Rightarrow> (string \<times> json) list" where
  "approval_fields v =
     [(''session_id'', JStr (aa_session_id v)),
      (''session_identity_digest'', JStr (aa_session_identity_digest v)),
      (''taker_address'', JStr (aa_taker_address v)),
      (''token_address'', JStr (aa_token_address v)),
      (''spender_address'', JStr (aa_spender_address v)),
      (''requested_allowance_atomic'', JInt (aa_requested_allowance_atomic v)),
      (''observed_prior_allowance_atomic'', JInt (aa_observed_prior_allowance_atomic v)),
      (''authority_policy_digest'', JStr (aa_authority_policy_digest v)),
      (''deadline_epoch_s'', JInt (aa_deadline_epoch_s v)),
      (''economic_action_id'', jopt JStr (aa_economic_action_id v)),
      (''schema'', JStr (aa_schema v))]"

definition envelope_fields :: "ExecutionEnvelopeV0 \<Rightarrow> (string \<times> json) list" where
  "envelope_fields v =
     [(''session_id'', JStr (env_session_id v)),
      (''session_identity_digest'', JStr (env_session_identity_digest v)),
      (''economic_action_id'', JStr (env_economic_action_id v)),
      (''chain_id'', JInt (env_chain_id v)),
      (''taker_address'', JStr (env_taker_address v)),
      (''input_instrument_id'', JStr (env_input_instrument_id v)),
      (''output_instrument_id'', JStr (env_output_instrument_id v)),
      (''max_input_atomic'', JInt (env_max_input_atomic v)),
      (''min_output_atomic'', JInt (env_min_output_atomic v)),
      (''transaction_to'', JStr (env_transaction_to v)),
      (''transaction_value_atomic'', JInt (env_transaction_value_atomic v)),
      (''calldata_sha256'', JStr (env_calldata_sha256 v)),
      (''calldata_length'', JInt (env_calldata_length v)),
      (''allowance_target'', jopt JStr (env_allowance_target v)),
      (''account_nonce'', JInt (env_account_nonce v)),
      (''gas_limit_ceiling'', JInt (env_gas_limit_ceiling v)),
      (''max_fee_per_gas_ceiling_atomic'', JInt (env_max_fee_per_gas_ceiling_atomic v)),
      (''max_priority_fee_per_gas_ceiling_atomic'', JInt (env_max_priority_fee_per_gas_ceiling_atomic v)),
      (''deadline_epoch_s'', JInt (env_deadline_epoch_s v)),
      (''authority_policy_digest'', JStr (env_authority_policy_digest v)),
      (''plan_id'', JStr (env_plan_id v)),
      (''quote_id'', JStr (env_quote_id v)),
      (''quote_observation_digest'', JStr (env_quote_observation_digest v)),
      (''venue_block_number'', JInt (env_venue_block_number v)),
      (''constructed_at_epoch_s'', JInt (env_constructed_at_epoch_s v)),
      (''schema'', JStr (env_schema v))]"

definition plan_holds :: "(string \<times> json) list \<Rightarrow> string \<Rightarrow> (string \<times> json) list \<Rightarrow> bool" where
  "plan_holds plan k actual =
     (case jget k plan of
        JObj expected \<Rightarrow> canonical_json_str (JObj expected) = canonical_json_str (JObj actual)
      | _ \<Rightarrow> False)"

text \<open>The frozen path: the pair is the one of the durable plan and of the session, action and arguments.\<close>

definition frozen_pair_checks ::
  "digest_fn \<Rightarrow> ApprovalActionV0 \<Rightarrow> ExecutionEnvelopeV0 \<Rightarrow> string option \<Rightarrow> IntentV0 \<Rightarrow> ExecutionSessionV0 \<Rightarrow> int \<Rightarrow> int \<Rightarrow>
   exec_db \<Rightarrow> error + ApprovalActionV0 \<times> ExecutionEnvelopeV0" where
  "frozen_pair_checks H p v prepare i s nonce constructed x = (let e = EnvelopeValidationError in
     case prepare of None \<Rightarrow> Inl e | Some pid \<Rightarrow>
     if pid = [] then Inl e else
     case find_row wp_id pid (x_prepares x) of None \<Rightarrow> Inl e | Some row \<Rightarrow>
     case wp_plan row of
       JObj plan \<Rightarrow>
         rbind (checks
           [require (plan_holds plan ''approval'' (approval_fields p) \<and> plan_holds plan ''envelope'' (envelope_fields v)) e,
            require (aa_session_id p = session_instance_id H s \<and> env_session_id v = session_instance_id H s \<and>
              aa_session_identity_digest p = session_identity_digest H s \<and>
              env_session_identity_digest v = session_identity_digest H s) e,
            require (aa_economic_action_id p = Some (in_economic_action_id i) \<and>
              env_economic_action_id v = in_economic_action_id i \<and>
              aa_authority_policy_digest p = es_authority_policy_digest s \<and>
              env_authority_policy_digest v = es_authority_policy_digest s \<and>
              aa_taker_address p = es_taker_address s \<and> env_taker_address v = es_taker_address s \<and>
              aa_requested_allowance_atomic p = env_max_input_atomic v \<and>
              aa_deadline_epoch_s p = env_deadline_epoch_s v) e,
            require (env_account_nonce v = nonce \<and> env_constructed_at_epoch_s v = constructed) e]) (\<lambda>_.
         rbind (session_chain_id s) (\<lambda>chain.
         rbind (require (env_chain_id v = chain \<and> env_transaction_value_atomic v = 0) e) (\<lambda>_.
         Inr (p, v))))
     | _ \<Rightarrow> Inl e)"

definition native_sell_body ::
  "digest_fn \<Rightarrow> ApprovalActionV0 \<Rightarrow> ExecutionEnvelopeV0 \<Rightarrow> IntentV0 \<Rightarrow> ExecutionSessionV0 \<Rightarrow> int \<Rightarrow>
   (exec_db, error, unit) body" where
  "native_sell_body H p v i s now = (let e = EnvelopeValidationError in
     sbind (preauth_action H s v (in_bounds i)) (\<lambda>action.
     sbind (sguard (nr_side action = SELL) e) (\<lambda>_.
     sbind (slift (within_persisted v (in_bounds i))) (\<lambda>_.
     sbind (slift (same_instruments v action)) (\<lambda>_.
     sbind (sguard (aa_token_address p = after_last_colon (nr_instrument action)) e) (\<lambda>_.
     sbind (sguard (aa_requested_allowance_atomic p = env_max_input_atomic v) e) (\<lambda>_.
     sbind (sguard (env_transaction_value_atomic v = 0) e) (\<lambda>_.
     sbind (sguard (env_allowance_target v = Some (aa_spender_address p)) e) (\<lambda>_.
     sbind (sget (other_approval v (Some (approval_action_id H p)))) (\<lambda>replaced.
     sbind (sguard (\<not> replaced) SafeHaltError) (\<lambda>_.
     sbind (sget (other_envelope H v)) (\<lambda>replaced.
     sbind (sguard (\<not> replaced) SafeHaltError) (\<lambda>_.
     record_bundle H s (Some p) v now)))))))))))))"

definition record_ink_v0f_native_sell_preauth_bundle ::
  "digest_fn \<Rightarrow> error + ApprovalActionV0 \<times> ExecutionEnvelopeV0 \<Rightarrow> ApprovalActionV0 option \<Rightarrow>
   ExecutionEnvelopeV0 option \<Rightarrow> string option \<Rightarrow> IntentV0 \<Rightarrow> ExecutionSessionV0 \<Rightarrow> VerifiedAuthorityGrantV0 \<Rightarrow> int \<Rightarrow> int \<Rightarrow>
   int \<Rightarrow> exec_db \<Rightarrow> (error + ApprovalActionV0 \<times> ExecutionEnvelopeV0) \<times> exec_db" where
  "record_ink_v0f_native_sell_preauth_bundle H live frozen_p frozen_v prepare i s g nonce constructed now x =
     (case rbind (preauth_gate H i s g [CONSTRUCT_ENVELOPE, AUTHORIZE_APPROVAL] now x) (\<lambda>_.
           rbind (require (in_side i = SELL) EnvelopeValidationError) (\<lambda>_.
           case (frozen_p, frozen_v) of
             (Some p, Some v) \<Rightarrow> frozen_pair_checks H p v prepare i s nonce constructed x
           | (None, None) \<Rightarrow> if prepare \<noteq> None then Inl EnvelopeValidationError else live
           | _ \<Rightarrow> Inl EnvelopeValidationError)) of
        Inl e \<Rightarrow> (Inl e, x)
      | Inr pv \<Rightarrow> exec_txn (sbind (native_sell_body H (fst pv) (snd pv) i s now) (\<lambda>_. sret pv)) x)"

subsection \<open>Chain observations\<close>

definition observation_values ::
  "digest_fn \<Rightarrow> ChainObservationV0 \<Rightarrow> string \<Rightarrow> string option \<Rightarrow> string option \<Rightarrow> chain_row" where
  "observation_values H v a signed_id ref_id =
     \<lparr>wc_id = observation_id H v, wc_action = a, wc_signed = signed_id, wc_external = ref_id,
      wc_value = v\<lparr>ob_schema := []\<rparr>\<rparr>"

definition observation_from_row :: "chain_row \<Rightarrow> error + ChainObservationV0" where
  "observation_from_row r = make_observation ((wc_value r)\<lparr>ob_schema := CONTRACT_SCHEMA @ ''.chain_observation''\<rparr>)"

text \<open>The two kinds of transaction origin, with what a settlement reads of each.\<close>

datatype origin = Signed string | Referred string

fun names_origin :: "origin \<Rightarrow> chain_row \<Rightarrow> bool" where
  "names_origin (Signed sid) r \<longleftrightarrow> wc_signed r = Some sid"
| "names_origin (Referred rid) r \<longleftrightarrow> wc_external r = Some rid"

definition origin_of :: "string option \<Rightarrow> string option \<Rightarrow> error + origin" where
  "origin_of signed_id ref_id =
     (case (signed_id, ref_id) of
        (Some sid, None) \<Rightarrow> Inr (Signed sid) | (None, Some rid) \<Rightarrow> Inr (Referred rid) | _ \<Rightarrow> Inl LedgerError)"

definition acknowledged :: "string \<Rightarrow> exec_db \<Rightarrow> bool" where
  "acknowledged sid x \<longleftrightarrow> list_ex (\<lambda>r. sb_acknowledgment (wt_value r) = ACK_ACCEPTED) (attempts_of sid x)"

definition signed_binding :: "digest_fn \<Rightarrow> string \<Rightarrow> string \<Rightarrow> exec_db \<Rightarrow> error + origin_row" where
  "signed_binding H a sid x =
     (case find_row or_id sid (x_signed x) of None \<Rightarrow> Inl LedgerError | Some row \<Rightarrow>
      if or_action row \<noteq> a then Inl LedgerError
      else case Option.bind (wg_envelope row) (\<lambda>eid. find_row we_id eid (x_envelopes x)) of
        None \<Rightarrow> Inl LedgerError
      | Some env \<Rightarrow>
          if wg_origin row = EXTERNAL_SIGNED_BYTES then
            rbind (exact_scope_from_authorized_envelope env) (\<lambda>expected.
            if scope_digest H expected \<noteq> wg_scope_digest row then Inl AuthorityVerificationError
            else Inr (origin_row.truncate row))
          else Inr (origin_row.truncate row))"

definition referred_binding :: "string \<Rightarrow> string \<Rightarrow> exec_db \<Rightarrow> error + origin_row" where
  "referred_binding a rid x =
     (case find_row or_id rid (x_refs x) of None \<Rightarrow> Inl LedgerError | Some row \<Rightarrow>
      if or_action row \<noteq> a then Inl LedgerError else Inr (origin_row.truncate row))"

definition truth_for_action ::
  "digest_fn \<Rightarrow> string \<Rightarrow> origin \<Rightarrow> FinalityPolicyV0 \<Rightarrow> exec_db \<Rightarrow>
   error + ChainTruthV0 \<times> origin_row \<times> SettlementExpectationV0" where
  "truth_for_action H a og fin x =
     rbind (case og of Signed sid \<Rightarrow> signed_binding H a sid x | Referred rid \<Rightarrow> referred_binding a rid x) (\<lambda>binding.
     rbind (make_expectation
       \<lparr>se_action = a, se_hash = or_hash binding, se_chain = or_chain binding, se_taker = or_taker binding,
        se_acknowledged = (case og of Signed sid \<Rightarrow> acknowledged sid x | Referred _ \<Rightarrow> False)\<rparr>) (\<lambda>ex.
     rbind (traverse observation_from_row
       (sort_key (\<lambda>r. ob_observed_at_epoch_s (wc_value r)) (sort_key wc_id
         (filter (\<lambda>r. wc_action r = a \<and> names_origin og r) (x_observations x))))) (\<lambda>observations.
     rbind (evaluate_chain_truth H ex observations fin) (\<lambda>truth.
     Inr (truth, binding, ex)))))"

text \<open>The advance of an intent to what the chain shows.\<close>

definition advance_to_included :: "string \<Rightarrow> intent_state \<Rightarrow> int \<Rightarrow> bool \<Rightarrow> (exec_db, error, unit) body" where
  "advance_to_included a st now external_reference =
     (let note = execution_note ''included_chain_observation'' in
      if st = INCLUDED then sret ()
      else if st = SIGNED then
        sbind (store_transition a SUBMITTED now note) (\<lambda>_. store_transition a INCLUDED now note)
      else if external_reference \<and> st = RESERVED then
        store_transition a INCLUDED now (execution_note ''included_external_transaction_observation'')
      else if st = SUBMITTED then store_transition a INCLUDED now note
      else sguard (st = CONFIRMED) LedgerError)"

definition advance_to_chain_state ::
  "string \<Rightarrow> intent_state \<Rightarrow> intent_state \<Rightarrow> int \<Rightarrow> bool \<Rightarrow> (exec_db, error, unit) body" where
  "advance_to_chain_state a st goal now external_reference =
     (if goal = CONFIRMED then
        sbind (advance_to_included a st now external_reference) (\<lambda>_.
        sbind (read_state a) (\<lambda>reached.
        if reached = INCLUDED then
          store_transition a CONFIRMED now (execution_note ''confirmed_chain_observation'')
        else sret ()))
      else if goal = INCLUDED then advance_to_included a st now external_reference
      else sret ())"

text \<open>Whether the transaction an observation is about is bound to the action and the session.\<close>

definition observation_binding ::
  "digest_fn \<Rightarrow> ChainObservationV0 \<Rightarrow> string \<Rightarrow> origin \<Rightarrow> ExecutionSessionV0 \<Rightarrow> exec_db \<Rightarrow> error + unit" where
  "observation_binding H v a og s x =
     (let bound = (\<lambda>action session hash. checks
        [require (action = a) ChainTruthError,
         require (session = session_instance_id H s) AuthorityVerificationError,
         require (ob_transaction_hash v = hash) ChainTruthError]) in
      case og of
        Signed sid \<Rightarrow>
          (case find_row or_id sid (x_signed x) of None \<Rightarrow> Inl LedgerError
           | Some r \<Rightarrow> bound (or_action r) (wg_session r) (or_hash r))
      | Referred rid \<Rightarrow>
          (case find_row or_id rid (x_refs x) of None \<Rightarrow> Inl LedgerError
           | Some r \<Rightarrow> bound (or_action r) (wf_session r) (or_hash r)))"

definition follow_truth ::
  "string \<Rightarrow> origin \<Rightarrow> ChainTruthVerdict \<Rightarrow> intent_state \<Rightarrow> int \<Rightarrow> (exec_db, error, unit) body" where
  "follow_truth a og verdict st now =
     (if verdict = CT_AMBIGUOUS then
        (if st \<in> {SAFE_HALT, FILLED, REJECTED} then sret ()
         else store_transition a SAFE_HALT now (execution_note ''ambiguous_chain_observation''))
      else if verdict \<in> {CT_INCLUDED, CT_CONFIRMED} \<and> st \<noteq> SAFE_HALT then
        advance_to_chain_state a st (if verdict = CT_CONFIRMED then CONFIRMED else INCLUDED) now
          (case og of Referred _ \<Rightarrow> True | Signed _ \<Rightarrow> False)
      else sret ())"

definition observe_body ::
  "digest_fn \<Rightarrow> ChainObservationV0 \<Rightarrow> string \<Rightarrow> string option \<Rightarrow> string option \<Rightarrow> origin \<Rightarrow> ExecutionSessionV0 \<Rightarrow>
   FinalityPolicyV0 \<Rightarrow> (exec_db, error, bool) body" where
  "observe_body H v a signed_id ref_id og s fin =
     sbind (sread (observation_binding H v a og s)) (\<lambda>_.
     sbind (insert_or_match wc_id x_observations (=) insert_observation (observation_values H v a signed_id ref_id)) (\<lambda>inserted.
     sbind (sget (\<lambda>x. find_row wx_id a (x_actions x))) (\<lambda>external.
     case external of None \<Rightarrow> sraise PyTypeError | Some row \<Rightarrow>
     sbind (if wx_kind row = ECONOMIC then
              sbind (sread (truth_for_action H a og fin)) (\<lambda>found.
              sbind (read_state a) (\<lambda>st.
              follow_truth a og (ct_verdict (fst found)) st (ob_observed_at_epoch_s v)))
            else sret ()) (\<lambda>_.
     sret inserted))))"

definition record_chain_observation ::
  "digest_fn \<Rightarrow> ChainObservationV0 \<Rightarrow> string \<Rightarrow> ExecutionSessionV0 \<Rightarrow> authority_proof \<Rightarrow> int \<Rightarrow> string option \<Rightarrow>
   string option \<Rightarrow> FinalityPolicyV0 \<Rightarrow> exec_db \<Rightarrow> (error + bool) \<times> exec_db" where
  "record_chain_observation H v a s proof now signed_id ref_id fin x =
     (case rbind (origin_of signed_id ref_id) (\<lambda>og.
           rbind (state_of a x) (\<lambda>st.
           rbind (authorize H s proof OBSERVE_CHAIN now (st = SAFE_HALT) x) (\<lambda>_. Inr og))) of
        Inl e \<Rightarrow> (Inl e, x)
      | Inr og \<Rightarrow> exec_txn (observe_body H v a signed_id ref_id og s fin) x)"

subsection \<open>Reconciliation\<close>

fun verdict_column :: "ChainTruthVerdict \<Rightarrow> error + verdict" where
  "verdict_column CT_CONFIRMED = Inr V_SETTLED"
| "verdict_column CT_REVERTED = Inr V_REVERTED"
| "verdict_column CT_AMBIGUOUS = Inr V_AMBIGUOUS"
| "verdict_column _ = Inl PyKeyError"

fun verdict_text :: "verdict \<Rightarrow> string" where
  "verdict_text V_SETTLED = ''SETTLED''"
| "verdict_text V_REVERTED = ''REVERTED''"
| "verdict_text V_AMBIGUOUS = ''AMBIGUOUS''"

definition reconciliation_values ::
  "digest_fn \<Rightarrow> string \<Rightarrow> ChainTruthV0 \<Rightarrow> int \<Rightarrow> string option \<Rightarrow> error + recon_row" where
  "reconciliation_values H a truth now receipt =
     rbind (verdict_column (ct_verdict truth)) (\<lambda>v. Inr
       \<lparr>rr_id = digest_object H (JObj
          [(''external_action_id'', JStr a),
           (''receipt_id'', jopt JStr receipt),
           (''schema'', JStr ''qntyspot.program_b1.v0.reconciliation''),
           (''truth_evidence_digest'', JStr (ct_evidence_digest truth)),
           (''verdict'', JStr (verdict_text v))]),
        rr_action = a, rr_verdict = v, rr_receipt = receipt, rr_hash = Some (ct_transaction_hash truth),
        rr_chain = Some (ct_chain_id truth), rr_taker = Some (ct_taker_address truth),
        wv_depth = ct_confirmation_depth truth, wv_agreeing = ct_agreeing_provider_count truth, wv_at = now,
        wv_evidence = ct_evidence_digest truth\<rparr>)"

definition store_reconciliation ::
  "digest_fn \<Rightarrow> string \<Rightarrow> ChainTruthV0 \<Rightarrow> int \<Rightarrow> string option \<Rightarrow> (exec_db, error, unit) body" where
  "store_reconciliation H a truth now receipt =
     sbind (slift (reconciliation_values H a truth now receipt)) (\<lambda>r.
     sbind (insert_or_match rr_id x_reconciliations (=) insert_reconciliation r) (\<lambda>_.
     sret ()))"

definition store_recovery :: "string \<Rightarrow> intent_state \<Rightarrow> int \<Rightarrow> (exec_db, error, unit) body" where
  "store_recovery a st now = in_store (recover_safe_halt_body a st now)"

text \<open>The one transaction origin of an economic action, of the given session.\<close>

definition settlement_origin :: "digest_fn \<Rightarrow> string \<Rightarrow> ExecutionSessionV0 \<Rightarrow> exec_db \<Rightarrow> error + origin" where
  "settlement_origin H a s x = (let e = AuthorityVerificationError; sid = session_instance_id H s in
     case (find_row or_action a (x_signed x), find_row or_action a (x_refs x)) of
       (Some r, None) \<Rightarrow> rbind (require (wg_session r = sid) e) (\<lambda>_. Inr (Signed (or_id r)))
     | (None, Some r) \<Rightarrow>
         rbind (checks
           [require (wf_session r = sid) e,
            require (wf_session_identity r = session_identity_digest H s) e,
            require (wf_authority r = es_authority_policy_digest s) e]) (\<lambda>_.
         rbind (session_chain_id s) (\<lambda>chain.
         rbind (require (or_chain r = chain \<and> or_taker r = es_taker_address s) e) (\<lambda>_.
         Inr (Referred (or_id r)))))
     | _ \<Rightarrow> Inl LedgerError)"

text \<open>An action reconciled before: the row must agree, and a halted action may be recovered.\<close>

definition reconcile_again ::
  "digest_fn \<Rightarrow> string \<Rightarrow> recon_row \<Rightarrow> ChainTruthV0 \<Rightarrow> string option \<Rightarrow> int \<Rightarrow> (exec_db, error, unit) body" where
  "reconcile_again H a old truth receipt now =
     (let confirmed = (ct_verdict truth = CT_CONFIRMED) in
      sbind (sguard (confirmed \<longrightarrow> receipt \<noteq> None) LedgerError) (\<lambda>_.
      sbind (slift (reconciliation_values H a truth now (if confirmed then receipt else None))) (\<lambda>expected.
      sbind (sguard (expected\<lparr>wv_at := wv_at old\<rparr> = old) LedgerError) (\<lambda>_.
      sbind (read_state a) (\<lambda>st.
      if st = SAFE_HALT \<and> confirmed then store_recovery a RECONCILED now
      else if st = SAFE_HALT \<and> ct_verdict truth = CT_REVERTED then store_recovery a REJECTED now
      else sret ())))))"

definition settle_ambiguous :: "digest_fn \<Rightarrow> string \<Rightarrow> ChainTruthV0 \<Rightarrow> int \<Rightarrow> intent_state \<Rightarrow> (exec_db, error, unit) body" where
  "settle_ambiguous H a truth now st =
     sbind (store_reconciliation H a truth now None) (\<lambda>_.
     if st \<in> {SAFE_HALT, REJECTED, FILLED} then sret ()
     else store_transition a SAFE_HALT now (execution_note ''ambiguous_reconciliation''))"

definition settle_reverted ::
  "digest_fn \<Rightarrow> string \<Rightarrow> ChainTruthV0 \<Rightarrow> int \<Rightarrow> intent_state \<Rightarrow> origin \<Rightarrow> (exec_db, error, unit) body" where
  "settle_reverted H a truth now st og =
     sbind (store_reconciliation H a truth now None) (\<lambda>_.
     if st = SAFE_HALT then store_recovery a REJECTED now
     else if st \<in> EXTERNALLY_AMBIGUOUS_STATES \<or> (st = RESERVED \<and> (case og of Referred _ \<Rightarrow> True | Signed _ \<Rightarrow> False)) then
       store_transition a REJECTED now (execution_note ''confirmed_revert'')
     else sret ())"

definition ACCOUNTABLE_STATES :: "intent_state set" where
  "ACCOUNTABLE_STATES = {RESERVED, CONFIRMED, INCLUDED, SUBMITTED, SIGNED, SAFE_HALT}"

record settlement_request =
  tr_receipt :: "string option"
  tr_fee :: int
  tr_source :: string
  tr_observed_at :: "int option"
  tr_now :: int

definition settle_confirmed ::
  "digest_fn \<Rightarrow> string \<Rightarrow> ChainTruthV0 \<Rightarrow> origin_row \<Rightarrow> SettlementExpectationV0 \<Rightarrow> EconomicBounds \<Rightarrow> origin \<Rightarrow>
   settlement_request \<Rightarrow> intent_state \<Rightarrow> (exec_db, error, unit) body" where
  "settle_confirmed H a truth binding ex bounds og q st =
     (let now = tr_now q;
          va = \<lparr>va_action = a, va_hash = or_hash binding, va_chain = or_chain binding, va_taker = or_taker binding,
                va_minted = True\<rparr> in
      case tr_receipt q of None \<Rightarrow> sraise LedgerError | Some rid \<Rightarrow>
      sbind (slift (reconcile_to_receipt ex truth bounds va rid (tr_fee q)
        (case tr_observed_at q of None \<Rightarrow> now | Some t \<Rightarrow> t) (tr_source q))) (\<lambda>receipt.
      sbind (sguard (st \<in> ACCOUNTABLE_STATES) SafeHaltError) (\<lambda>_.
      sbind (in_store (append_execution_fill_receipt_body receipt va now)) (\<lambda>ok.
      sbind (store_reconciliation H a truth now (Some (rc_receipt_id receipt))) (\<lambda>_.
      if \<not> ok then sret ()
      else if st = SAFE_HALT then store_recovery a RECONCILED now
      else
        sbind (read_state a) (\<lambda>here.
        sbind (advance_to_chain_state a here CONFIRMED now (case og of Referred _ \<Rightarrow> True | Signed _ \<Rightarrow> False)) (\<lambda>_.
        sbind (read_state a) (\<lambda>reached.
        if reached = CONFIRMED then
          store_transition a RECONCILED now (execution_note ''settlement_reconciled'')
        else sret ()))))))))"

text \<open>The branches of a settlement, by the conclusion about the chain.\<close>

definition settle_truth ::
  "digest_fn \<Rightarrow> string \<Rightarrow> ChainTruthV0 \<Rightarrow> origin_row \<Rightarrow> SettlementExpectationV0 \<Rightarrow> EconomicBounds \<Rightarrow> origin \<Rightarrow>
   settlement_request \<Rightarrow> (exec_db, error, unit) body" where
  "settle_truth H a truth binding ex bounds og q =
     sbind (sget (\<lambda>x. find_row rr_action a (x_reconciliations x))) (\<lambda>existing.
     case existing of
       Some old \<Rightarrow> reconcile_again H a old truth (tr_receipt q) (tr_now q)
     | None \<Rightarrow>
         sbind (sguard (ct_verdict truth \<notin> {CT_NO_EVIDENCE, CT_VISIBLE, CT_INCLUDED}) SafeHaltError) (\<lambda>_.
         sbind (read_state a) (\<lambda>st.
         if ct_verdict truth = CT_AMBIGUOUS then settle_ambiguous H a truth (tr_now q) st
         else if ct_verdict truth = CT_REVERTED then settle_reverted H a truth (tr_now q) st og
         else settle_confirmed H a truth binding ex bounds og q st)))"

definition reconcile_body ::
  "digest_fn \<Rightarrow> string \<Rightarrow> ExecutionSessionV0 \<Rightarrow> FinalityPolicyV0 \<Rightarrow> EconomicBounds option \<Rightarrow> settlement_request \<Rightarrow>
   (exec_db, error, ChainTruthV0) body" where
  "reconcile_body H a s fin caller_bounds q =
     sbind (sget (\<lambda>x. find_row wx_id a (x_actions x))) (\<lambda>external.
     sbind (sguard (case external of None \<Rightarrow> False | Some r \<Rightarrow> wx_kind r = ECONOMIC) LedgerError) (\<lambda>_.
     sbind (require_economic_intent a) (\<lambda>action.
     sbind (persisted_bounds action) (\<lambda>bounds.
     sbind (sguard (caller_bounds \<in> {None, Some bounds}) EnvelopeValidationError) (\<lambda>_.
     sbind (sread (settlement_origin H a s)) (\<lambda>og.
     sbind (sread (truth_for_action H a og fin)) (\<lambda>found.
     sbind (settle_truth H a (fst found) (fst (snd found)) (snd (snd found)) bounds og q) (\<lambda>_.
     sret (fst found)))))))))"

definition reconcile_external_action ::
  "digest_fn \<Rightarrow> string \<Rightarrow> ExecutionSessionV0 \<Rightarrow> authority_proof \<Rightarrow> FinalityPolicyV0 \<Rightarrow> EconomicBounds option \<Rightarrow>
   settlement_request \<Rightarrow> exec_db \<Rightarrow> (error + ChainTruthV0) \<times> exec_db" where
  "reconcile_external_action H a s proof fin caller_bounds q x =
     (case rbind (state_of a x) (\<lambda>st. authorize H s proof RECONCILE (tr_now q) (st = SAFE_HALT) x) of
        Inl e \<Rightarrow> (Inl e, x)
      | Inr _ \<Rightarrow> exec_txn (reconcile_body H a s fin caller_bounds q) x)"

end
