(* ===== verification/Conduct.thy ===== *)
theory Conduct
  imports Settlement Reachable
begin

text \<open>
  Runs of the execution runtime beside the ledger: every operation of the runtime and of the
  store, in any order and with any arguments, as one step relation on the database and the wire,
  and the interface of a property that all of them keep.
\<close>

subsection \<open>Steps\<close>

definition after_op :: "(exec_db \<Rightarrow> 'r \<times> exec_db) \<Rightarrow> world \<Rightarrow> world" where
  "after_op f w = w\<lparr>w_db := snd (f (w_db w))\<rparr>"

inductive runtime_step :: "digest_fn \<Rightarrow> rlp_decoder \<Rightarrow> rlp_encoder \<Rightarrow> recovery \<Rightarrow> world \<Rightarrow> world \<Rightarrow> bool"
  for H rdec renc ecrec where
  store: "runtime_step H rdec renc ecrec w (after_op (exec_txn (in_store (op_body H op))) w)"
| prepare_plan: "runtime_step H rdec renc ecrec w
    (after_op (record_prepare_plan H kind source policy authority receipt plan now) w)"
| prepare_phase: "runtime_step H rdec renc ecrec w (after_op (advance_prepare_phase H pid phase now) w)"
| session: "runtime_step H rdec renc ecrec w (after_op (create_execution_session H s g now) w)"
| authority: "runtime_step H rdec renc ecrec w (after_op (record_verified_authority g now) w)"
| reservation: "runtime_step H rdec renc ecrec w (after_op (reserve_action H a s g now) w)"
| reference: "runtime_step H rdec renc ecrec w (after_op (record_external_transaction_reference H xr s g now) w)"
| envelope: "runtime_step H rdec renc ecrec w (after_op (record_execution_envelope H v s g eq) w)"
| approval: "runtime_step H rdec renc ecrec w (after_op (record_approval_action H p s g ex r now l) w)"
| preauth: "runtime_step H rdec renc ecrec w (after_op (record_ink_v0f_preauth_bundle H live i s g now) w)"
| native_buy: "runtime_step H rdec renc ecrec w (after_op (record_ink_v0f_native_buy_preauth H live_v i s g now) w)"
| native_sell: "runtime_step H rdec renc ecrec w
    (after_op (record_ink_v0f_native_sell_preauth_bundle H live fp fv prep i s g nonce constructed now) w)"
| admission: "runtime_step H rdec renc ecrec w
    (after_op (admit_exact_signed_bytes H rdec renc ecrec sc raw s g now) w)"
| submission: "runtime_step H rdec renc ecrec w (snd (submit_exact_bytes H transport ad s g provider now retry w))"
| approval_admission: "runtime_step H rdec renc ecrec w
    (after_op (admit_signed_approval H rdec renc ecrec q raw s g now) w)"
| approval_submission: "runtime_step H rdec renc ecrec w
    (snd (submit_signed_approval H transport sv raw s g provider now w))"
| resumption: "runtime_step H rdec renc ecrec w (after_op (resume_quarantined_exact_signed_bytes H rq s g) w)"
| observation: "runtime_step H rdec renc ecrec w
    (after_op (record_chain_observation H ob a s proof now signed_id ref_id fin) w)"
| reconciliation: "runtime_step H rdec renc ecrec w
    (after_op (reconcile_external_action H a s proof fin caller_bounds tr) w)"
| completion: "runtime_step H rdec renc ecrec w (after_op (complete_settlement a now) w)"
| kill_switch: "runtime_step H rdec renc ecrec w (after_op (engage_kill_switch now reason session) w)"

text \<open>From a core ledger the store reached, with the execution schema applied and nothing sent.\<close>

definition fresh_world :: "db \<Rightarrow> world" where
  "fresh_world d = \<lparr>w_db = apply_execution_schema d, w_wire = []\<rparr>"

inductive runs_to :: "digest_fn \<Rightarrow> rlp_decoder \<Rightarrow> rlp_encoder \<Rightarrow> recovery \<Rightarrow> world \<Rightarrow> bool"
  for H rdec renc ecrec where
  fresh: "reachable H d \<Longrightarrow> runs_to H rdec renc ecrec (fresh_world d)"
| further: "runs_to H rdec renc ecrec w \<Longrightarrow> runtime_step H rdec renc ecrec w w' \<Longrightarrow> runs_to H rdec renc ecrec w'"

subsection \<open>Properties a body keeps\<close>

lemma keeps_txn: "keeps J m \<Longrightarrow> J x \<Longrightarrow> J (snd (exec_txn m x))"
  by (auto simp: exec_txn_def keeps_def split: prod.splits sum.splits)

lemma keeps_txn_eq: "exec_txn m x = (r, x') \<Longrightarrow> keeps J m \<Longrightarrow> J x \<Longrightarrow> J x'"
  using keeps_txn [of J m x] by simp

lemma keeps_insert_or_match:
  "(\<And>x x'. ins r x = Inr x' \<Longrightarrow> J x \<Longrightarrow> J x') \<Longrightarrow> keeps J (insert_or_match key table same ins r)"
  unfolding insert_or_match_def by (intro keeps_intros keeps_swrite)

lemma keeps_shared [keeps_intros]:
  "keeps J reject_if_killed" "keeps J (read_state a)" "keeps J (require_session sid)"
  "keeps J (require_economic_intent a)" "keeps J (sread f)" "keeps J (persisted_bounds i)"
  "keeps J (require_same_session H s)"
  unfolding reject_if_killed_def read_state_def require_session_def require_economic_intent_def sread_def
    persisted_bounds_def require_same_session_def
  by (auto simp: keeps_def res_simps split: option.splits)

lemma after_gate:
  assumes "J x" "\<And>v. g = Inr v \<Longrightarrow> J (snd (F v))"
  shows "J (snd (case g of Inl e \<Rightarrow> (Inl e, x) | Inr v \<Rightarrow> F v))"
  using assms by (cases g) auto

lemma wire_after_op [simp]: "w_wire (after_op f w) = w_wire w" "w_db (after_op f w) = snd (f (w_db w))"
  by (simp_all add: after_op_def)

subsection \<open>The interface of a property the operations keep\<close>

text \<open>What a resumption has checked of the intent when it writes.\<close>

definition resumable :: "digest_fn \<Rightarrow> resume_request \<Rightarrow> ExecutionSessionV0 \<Rightarrow> intent_row \<Rightarrow> exec_db \<Rightarrow> bool" where
  "resumable H q s i x \<longleftrightarrow> find_row nr_id (rq_action q) (intents (x_core x)) = Some i \<and> nr_state i = SAFE_HALT \<and>
     (\<exists>tx. resume_checks H q s i x = Inr tx)"

text \<open>A resumption that returns either found the action resumed before or made its writes.\<close>

lemma in_store_Inr:
  "in_store m x = (Inr v, x') \<longleftrightarrow> (\<exists>d. m (view x) = (Inr v, d) \<and> x' = x\<lparr>x_core := d\<lparr>exec_surface := None\<rparr>\<rparr>)"
  by (auto simp: in_store_def split: prod.splits)

lemma shared_reads_Inr:
  "require_session sid x = (Inr sr, x') \<longleftrightarrow> find_row ws_id sid (x_sessions x) = Some sr \<and> x' = x"
  "require_economic_intent a x = (Inr i, x') \<longleftrightarrow> find_row nr_id a (intents (x_core x)) = Some i \<and> x' = x"
  "read_state a x = (Inr st, x') \<longleftrightarrow> state_of a x = Inr st \<and> x' = x"
  "reject_if_killed x = (Inr u, x') \<longleftrightarrow> \<not> kill_engaged x \<and> x' = x"
  "sread f x = (Inr r, x') \<longleftrightarrow> f x = Inr r \<and> x' = x"
  by (auto simp: require_session_def require_economic_intent_def read_state_def reject_if_killed_def sread_def
      res_simps split: option.splits)

lemma resume_body_Inr:
  assumes "resume_body H q s g x = (Inr v, x')"
  shows "rz_already_resumed v \<and> x' = x \<or>
    \<not> rz_already_resumed v \<and> (\<exists>i tx d. resumable H q s i x \<and> resume_checks H q s i x = Inr tx \<and>
      rz_signed_transaction_id v = or_id tx \<and>
      resume_write (rq_action q) i (rq_now q) (resume_payload H q s g (or_id tx) (nr_exposure i)) (view x) = (Inr (), d) \<and>
      x' = x\<lparr>x_core := d\<lparr>exec_surface := None\<rparr>\<rparr>)"
  using assms unfolding resume_body_def Let_def
  by (auto simp: sbind_eq_Inr shared_reads_Inr sguard_eq_Inr sget_eq slift_eq sret_eq sraise_eq in_store_Inr
      resumable_def case_option_run split: if_splits)

text \<open>
  First the statements that stay open when the kill switch is engaged: those of evidence and
  accounting. A statement of the store is any of its operations.
\<close>

locale evidence_invariant =
  fixes H :: digest_fn and J :: "exec_db \<Rightarrow> bool"
  assumes root: "insert_root wr x = Inr x' \<Longrightarrow> J x \<Longrightarrow> J x'" "update_root config v x = Inr x' \<Longrightarrow> J x \<Longrightarrow> J x'"
    and reference: "insert_ref fr x = Inr x' \<Longrightarrow> J x \<Longrightarrow> J x'"
    and observation: "insert_observation cr x = Inr x' \<Longrightarrow> J x \<Longrightarrow> J x'"
    and reconciliation: "insert_reconciliation vr x = Inr x' \<Longrightarrow> J x \<Longrightarrow> J x'"
    and control: "insert_control kr x = Inr x' \<Longrightarrow> J x \<Longrightarrow> J x'"
    and prepare: "insert_prepare ppr x = Inr x' \<Longrightarrow> J x \<Longrightarrow> J x'"
      "update_prepare pid phase now x = Inr x' \<Longrightarrow> J x \<Longrightarrow> J x'"
    and store: "op_body H op (view x) = (Inr (), d) \<Longrightarrow> J x \<Longrightarrow> J (x\<lparr>x_core := d\<lparr>exec_surface := None\<rparr>\<rparr>)"
begin

lemma keeps_in_store:
  assumes "\<And>d v d'. m d = (Inr v, d') \<Longrightarrow> op_body H op d = (Inr (), d')"
  shows "keeps J (in_store m)"
  unfolding keeps_def in_store_def
proof (intro allI impI)
  fix x v x'
  assume "(case m (view x) of (r, d) \<Rightarrow> (r, x\<lparr>x_core := d\<lparr>exec_surface := None\<rparr>\<rparr>)) = (Inr v, x')" "J x"
  then obtain d where "m (view x) = (Inr v, d)" "x' = x\<lparr>x_core := d\<lparr>exec_surface := None\<rparr>\<rparr>"
    by (auto split: prod.splits)
  with store [OF assms [OF this(1)] \<open>J x\<close>] show "J x'" by simp
qed

lemma keeps_store_op: "keeps J (in_store (op_body H op))"
  by (rule keeps_in_store) simp

lemma keeps_store [keeps_intros]:
  "keeps J (store_transition a st now facts)"
  "keeps J (in_store (append_execution_fill_receipt_body r va now))"
  using keeps_in_store [of "transition_body a st now facts" "Transition a st now facts"]
    keeps_in_store [of "append_execution_fill_receipt_body r va now" "AppendExecutionReceipt r va now"]
  by (auto simp: store_transition_def body_unit_Inr)

lemma keeps_recovery [keeps_intros]: "keeps J (store_recovery a RECONCILED now)" "keeps J (store_recovery a REJECTED now)"
  using keeps_in_store [of "recover_safe_halt_body a RECONCILED now" "RecoverSafeHalt a RECONCILED now"]
    keeps_in_store [of "recover_safe_halt_body a REJECTED now" "RecoverSafeHalt a REJECTED now"]
  by (auto simp: store_recovery_def)

lemma keeps_evidence_rows [keeps_intros]:
  "keeps J (insert_or_match or_id x_refs same1 insert_ref fr)"
  "keeps J (insert_or_match wc_id x_observations same2 insert_observation cr)"
  "keeps J (insert_or_match rr_id x_reconciliations same3 insert_reconciliation vr)"
  by (rule keeps_insert_or_match, erule (1) reference observation reconciliation)+

lemma keeps_writes [keeps_intros]:
  "keeps J (swrite (insert_root wr))" "keeps J (swrite (update_root config v))"
  "keeps J (swrite (insert_control kr))" "keeps J (swrite (insert_prepare ppr))"
  "keeps J (swrite (update_prepare pid phase now))"
  by (rule keeps_swrite, erule (1) root control prepare)+

lemma keeps_records [keeps_intros]:
  "keeps J (record_prepare_body H kind source policy authority receipt plan now)"
  "keeps J (advance_prepare_body H pid' phase' now)"
  "keeps J (accept_authority_body g now)"
  "keeps J (record_reference_body H xr s)"
  unfolding record_prepare_body_def advance_prepare_body_def accept_authority_body_def record_reference_body_def Let_def
  by (intro keeps_intros)+

lemma keeps_settling [keeps_intros]:
  "keeps J (advance_to_included a st now external)" "keeps J (advance_to_chain_state a st goal now external)"
  "keeps J (follow_truth a og verdict st now)" "keeps J (store_reconciliation H a truth now rcpt)"
  "keeps J (observe_body H ob a sid rid og s fin)" "keeps J (reconcile_again H a old truth rcpt now)"
  "keeps J (settle_ambiguous H a truth now st)" "keeps J (settle_reverted H a truth now st og)"
  "keeps J (settle_confirmed H a truth binding ex bounds og tq st)"
  "keeps J (settle_truth H a truth binding ex bounds og tq)" "keeps J (reconcile_body H a s fin caller_bounds tq)"
  unfolding advance_to_included_def advance_to_chain_state_def follow_truth_def store_reconciliation_def
    observe_body_def reconcile_again_def settle_ambiguous_def settle_reverted_def settle_confirmed_def
    settle_truth_def reconcile_body_def Let_def
  by (intro keeps_intros)+

lemmas kept_txn = keeps_txn [of J] and kept_gate = after_gate [of J]

lemma evidence_op_keeps:
  assumes J: "J x"
  shows "J (snd (exec_txn (in_store (op_body H op)) x))"
    "J (snd (record_prepare_plan H kind source policy authority receipt plan now x))"
    "J (snd (advance_prepare_phase H pid' phase' now x))"
    "J (snd (record_verified_authority g now x))"
    "J (snd (record_external_transaction_reference H xr s g now x))"
    "J (snd (record_chain_observation H ob a s proof now signed_id ref_id fin x))"
    "J (snd (reconcile_external_action H a s proof fin caller_bounds tr x))"
    "J (snd (complete_settlement a now x))"
    "J (snd (engage_kill_switch now reason sess x))"
proof -
  show "J (snd (exec_txn (in_store (op_body H op)) x))" by (intro kept_txn keeps_store_op J)
  show "J (snd (record_prepare_plan H kind source policy authority receipt plan now x))"
    "J (snd (advance_prepare_phase H pid' phase' now x))"
    by (auto simp: record_prepare_plan_def advance_prepare_phase_def intro!: kept_txn keeps_intros J)
  show "J (snd (record_verified_authority g now x))"
    by (auto simp: record_verified_authority_def J split: sum.splits intro!: kept_txn keeps_intros)
  show "J (snd (complete_settlement a now x))"
    unfolding complete_settlement_def by (intro kept_txn keeps_intros J)
  show "J (snd (engage_kill_switch now reason sess x))"
    by (auto simp: engage_kill_switch_def J intro!: kept_txn keeps_intros)
  show "J (snd (record_chain_observation H ob a s proof now signed_id ref_id fin x))"
    "J (snd (reconcile_external_action H a s proof fin caller_bounds tr x))"
    "J (snd (record_external_transaction_reference H xr s g now x))"
    unfolding record_chain_observation_def reconcile_external_action_def record_external_transaction_reference_def
    by (intro kept_gate kept_txn keeps_intros J)+
qed

end

text \<open>
  Then the statements that prepare an external effect. The three writes of a resumption, which
  no operation of the store makes, come with what the resumption has checked before them.
\<close>

locale database_invariant = evidence_invariant +
  assumes session: "insert_session sr x = Inr x' \<Longrightarrow> J x \<Longrightarrow> J x'"
    and approval: "insert_approval ar x = Inr x' \<Longrightarrow> J x \<Longrightarrow> J x'"
    and envelope: "insert_envelope er x = Inr x' \<Longrightarrow> J x \<Longrightarrow> J x'"
    and action: "insert_action xr x = Inr x' \<Longrightarrow> J x \<Longrightarrow> J x'"
    and signed: "insert_signed gr x = Inr x' \<Longrightarrow> J x \<Longrightarrow> J x'"
    and resumption: "resumable H q s i x \<Longrightarrow> resume_write (rq_action q) i now facts (view x) = (Inr (), d) \<Longrightarrow> J x \<Longrightarrow>
      J (x\<lparr>x_core := d\<lparr>exec_surface := None\<rparr>\<rparr>)"
begin

lemma keeps_inserts [keeps_intros]:
  "keeps J (insert_or_match ws_id x_sessions same1 insert_session sr)"
  "keeps J (insert_or_match wa_id x_approvals same2 insert_approval ar)"
  "keeps J (insert_or_match we_id x_envelopes same3 insert_envelope er)"
  "keeps J (insert_or_match wx_id x_actions same4 insert_action xr)"
  "keeps J (insert_or_match or_id x_signed same5 insert_signed gr)"
  by (rule keeps_insert_or_match, erule (1) session approval envelope action signed)+

lemma keeps_rows [keeps_intros]:
  "keeps J (economic_external_action a sess)" "keeps J (approval_external_action aid sess)"
  unfolding economic_external_action_def approval_external_action_def by (intro keeps_intros)+

lemma keeps_bundle [keeps_intros]: "keeps J (record_bundle H s p v now)"
  unfolding record_bundle_def by (intro keeps_intros)

lemma keeps_preauth [keeps_intros]:
  "keeps J (preauth_action H s v b)" "keeps J (preauth_bundle_body H p v i s g now)"
  "keeps J (native_buy_body H v i s g now)" "keeps J (native_sell_body H p v i s now)"
  unfolding preauth_action_def preauth_bundle_body_def native_buy_body_def native_sell_body_def Let_def
  by (intro keeps_intros)+

lemma keeps_bodies [keeps_intros]:
  "keeps J (reserve_action_body H a s g now)"
  "keeps J (record_envelope_body H ev s g eq)"
  "keeps J (record_approval_body H pv s ex r now l)"
  "keeps J (admit_exact_body H sc raw vd s now)"
  "keeps J (admit_approval_body H sv s now)"
  unfolding reserve_action_body_def record_envelope_body_def record_approval_body_def admit_exact_body_def
    admit_approval_body_def Let_def
  by (intro keeps_intros)+

lemma keeps_resume: "keeps J (resume_body H q s g)"
  unfolding keeps_def using resume_body_Inr resumption by blast

lemma op_keeps:
  assumes J: "J x"
  shows "J (snd (create_execution_session H s g now x))"
    "J (snd (reserve_action H a s g now x))"
    "J (snd (record_execution_envelope H ev s g eq x))"
    "J (snd (record_approval_action H pv s g ex r now l x))"
    "J (snd (record_ink_v0f_preauth_bundle H live i s g now x))"
    "J (snd (record_ink_v0f_native_buy_preauth H live_v i s g now x))"
    "J (snd (record_ink_v0f_native_sell_preauth_bundle H live fp fv prep i s g nonce constructed now x))"
    "J (snd (admit_exact_signed_bytes H rdec renc ecrec sc raw s g now x))"
    "J (snd (admit_signed_approval H rdec renc ecrec aq raw s g now x))"
    "J (snd (resume_quarantined_exact_signed_bytes H rq s g x))"
proof -
  show "J (snd (create_execution_session H s g now x))"
    by (auto simp: create_execution_session_def J split: sum.splits option.splits intro!: kept_txn keeps_intros)
  show "J (snd (resume_quarantined_exact_signed_bytes H rq s g x))"
    unfolding resume_quarantined_exact_signed_bytes_def by (intro kept_gate kept_txn keeps_resume J)
  show "J (snd (reserve_action H a s g now x))"
    "J (snd (record_execution_envelope H ev s g eq x))"
    "J (snd (record_approval_action H pv s g ex r now l x))"
    "J (snd (record_ink_v0f_preauth_bundle H live i s g now x))"
    "J (snd (record_ink_v0f_native_buy_preauth H live_v i s g now x))"
    "J (snd (record_ink_v0f_native_sell_preauth_bundle H live fp fv prep i s g nonce constructed now x))"
    "J (snd (admit_exact_signed_bytes H rdec renc ecrec sc raw s g now x))"
    "J (snd (admit_signed_approval H rdec renc ecrec aq raw s g now x))"
    unfolding reserve_action_def record_execution_envelope_def record_approval_action_def
      record_ink_v0f_preauth_bundle_def record_ink_v0f_native_buy_preauth_def
      record_ink_v0f_native_sell_preauth_bundle_def admit_exact_signed_bytes_def admit_signed_approval_def
    by (intro kept_gate kept_txn keeps_intros J)+
qed

text \<open>Whatever is not one of the two submissions.\<close>

lemma quiet_step_keeps:
  assumes "runtime_step H rdec renc ecrec w w'" "J (w_db w)"
  shows "J (w_db w') \<and> w_wire w' = w_wire w \<or>
    (\<exists>transport ad s g provider now retry. w' = snd (submit_exact_bytes H transport ad s g provider now retry w)) \<or>
    (\<exists>transport sv raw s g provider now. w' = snd (submit_signed_approval H transport sv raw s g provider now w))"
  using assms by (cases rule: runtime_step.cases) (auto simp: op_keeps evidence_op_keeps, blast+)

end

text \<open>Last the statement of the submissions.\<close>

locale runtime_invariant = database_invariant +
  assumes attempt: "insert_attempt tr x = Inr x' \<Longrightarrow> J x \<Longrightarrow> J x'"
begin

lemma keeps_attempts [keeps_intros]:
  "keeps J (insert_or_match wt_id x_attempts same insert_attempt tr)"
  "keeps J (guard_approval_body H sv gd s now)" "keeps J (record_attempt_body H av)"
proof -
  show att: "keeps J (insert_or_match wt_id x_attempts same insert_attempt tr)" for same tr
    by (rule keeps_insert_or_match) (erule (1) attempt)
  show "keeps J (guard_approval_body H sv gd s now)" "keeps J (record_attempt_body H av)"
    unfolding guard_approval_body_def record_attempt_body_def Let_def by (intro keeps_intros att)+
qed

lemma submission_keeps:
  assumes "J (w_db w)"
  shows "J (w_db (snd (submit_exact_bytes H transport ad s g provider now retry w)))"
    "J (w_db (snd (submit_signed_approval H transport sv raw s g provider now w)))"
proof -
  have out: "J (w_db (snd (record_outcome H sid provider now ack reported err w')))" if "J (w_db w')"
    for sid ack reported err w'
    using that keeps_txn_eq [OF _ keeps_attempts(3) that]
    by (auto simp: record_outcome_def lift_db_def split: sum.splits prod.splits)
  show "J (w_db (snd (submit_exact_bytes H transport ad s g provider now retry w)))"
    using assms out [of "send (ad_signed_bytes ad) w"]
    by (auto simp: submit_exact_bytes_def send_def Let_def split: sum.splits transport_result.splits)
  show "J (w_db (snd (submit_signed_approval H transport sv raw s g provider now w)))"
    using assms keeps_txn_eq [OF _ keeps_attempts(2) assms]
    by (auto simp: submit_signed_approval_def lift_db_def send_def split: sum.splits prod.splits)
qed

lemma step_keeps: "runtime_step H rdec renc ecrec w w' \<Longrightarrow> J (w_db w) \<Longrightarrow> J (w_db w')"
  by (erule runtime_step.cases) (auto simp: op_keeps evidence_op_keeps submission_keeps)

lemma run_keeps:
  assumes "\<And>d. reachable H d \<Longrightarrow> J (apply_execution_schema d)" "runs_to H rdec renc ecrec w"
  shows "J (w_db w)"
  using assms(2,1) by (induction rule: runs_to.induct) (auto simp: fresh_world_def intro: step_keeps)

end

end
