(* ===== verification/Accounted.thy ===== *)
theory Accounted
  imports Conduct
begin

text \<open>
  The ledger under the runtime: whatever the runtime does, the core ledger keeps its invariant.
  Its operations reach the core only through operations of the store, but for the resumption of
  a quarantined byte string, which moves a halted intent back by writes of its own.
\<close>

subsection \<open>The writes of a resumption\<close>

text \<open>What a resumption has established of the intent and its reservation.\<close>

definition quarantine_fits :: "string \<Rightarrow> intent_row \<Rightarrow> db \<Rightarrow> bool" where
  "quarantine_fits a i d \<longleftrightarrow> (case find_row br_id a (budget_reservations d) of
     None \<Rightarrow> nr_exposure i = 0 | Some b \<Rightarrow> nr_exposure i \<noteq> 0 \<and> br_status b = QUARANTINED)"

lemma resumable_fits: "resumable H q s i x \<Longrightarrow> quarantine_fits (rq_action q) i (x_core x)"
  unfolding resumable_def resume_checks_def quarantine_fits_def Let_def rbind_eq_Inr
  by (auto simp: res_simps split: option.splits)

lemma resume_write_effect:
  assumes "resume_write a i now facts d = (Inr (), d')" "quarantine_fits a i d" "0 \<le> nr_exposure i"
  shows "d' = push_event (event_of d EXACT_BYTES_RESUMED (nr_policy i) (nr_cycle i) (Some a)
    (Some (Intent SAFE_HALT)) (Some (Intent SIGNED)) now (JObj facts)) (moved a SIGNED (ACTIVE, None) d)"
proof -
  have ev: "insert_event (event_of d EXACT_BYTES_RESUMED (nr_policy i) (nr_cycle i) (Some a)
      (Some (Intent SAFE_HALT)) (Some (Intent SIGNED)) now (JObj facts)) d = Inr d1 \<Longrightarrow>
    d1 = push_event (event_of d EXACT_BYTES_RESUMED (nr_policy i) (nr_cycle i) (Some a)
      (Some (Intent SAFE_HALT)) (Some (Intent SIGNED)) now (JObj facts)) d" for d1
    by (rule insert_event_push)
  have none: "\<not> has_row br_id a (budget_reservations d)" if "nr_exposure i = 0"
    using assms(2) that by (auto simp: quarantine_fits_def find_row_None split: option.splits)
  have swap: "update_reservation a ACTIVE None (update_intent_state a SIGNED d) = moved a SIGNED (ACTIVE, None) d"
    by (simp add: moved_def table_updates)
  show ?thesis
  proof (cases "nr_exposure i = 0")
    case True
    then show ?thesis
      using assms(1) update_no_reservation [OF none [OF True], of SIGNED "(ACTIVE, None)"]
      by (auto simp: resume_write_def sbind_eq_Inr append_event_Inr sput_eq sret_eq update_both dest!: ev)
  next
    case False
    then show ?thesis
      using assms(1,3)
      by (auto simp: resume_write_def sbind_eq_Inr append_event_Inr sput_eq sret_eq update_both unquarantine_Inr
          swap dest!: ev)
  qed
qed

lemma resume_write_kept:
  "keeps keys_ok (resume_write a i now facts)" "keeps seqs_ok (resume_write a i now facts)"
  "keeps foreign_keys_ok (resume_write a i now facts)"
  "keeps (\<lambda>d. list_all (\<lambda>i. 0 \<le> nr_exposure i) (intents d)) (resume_write a i now facts)"
  unfolding resume_write_def
  by (intro keeps_intros keys.keeps_statements keys.keeps_reservations seqs.keeps_statements seqs.keeps_reservations
      refs.keeps_statements refs.keeps_reservations exposures.keeps_statements exposures.keeps_reservations)+

lemma resume_write_inv:
  assumes w: "resume_write a i now facts d = (Inr (), d')" and fits: "quarantine_fits a i d"
    and i: "find_row nr_id a (intents d) = Some i" and inv: "ledger_inv d"
  shows "ledger_inv d'"
proof -
  note parts = inv_parts [OF inv]
  have hold: "has_row br_id a (budget_reservations d)" if "nr_exposure i \<noteq> 0"
    using fits that by (auto simp: quarantine_fits_def find_row_Some_has split: option.splits)
  have "coupled (moved a SIGNED (ACTIVE, None) d)"
    by (rule coupled_moved [OF parts(4) i]) (use hold parts(1) in \<open>auto simp: BUDGET_HOLDING_STATES_def keys_ok_def\<close>)
  moreover have "budget_ok (moved a SIGNED (ACTIVE, None) d)"
  proof (rule budget_moved [OF parts(5,4)])
    fix b
    assume b: "b \<in> set (budget_reservations d)" "br_id b = a" "br_status b = RELEASED"
    then have "find_row br_id a (budget_reservations d) = Some b"
      using parts(1) by (subst find_row_iff) (auto simp: keys_ok_def)
    with b(3) fits show "fst (ACTIVE, None :: int option) = RELEASED" by (auto simp: quarantine_fits_def)
  qed
  ultimately have "coupled d' \<and> budget_ok d'"
    using resume_write_effect [OF w fits parts(7) [OF i]] by (simp add: budget_frame)
  then show ?thesis
    using resume_write_kept [of a i now facts] w inv unfolding ledger_inv_def keeps_def by blast
qed

subsection \<open>The invariant of the ledger under the runtime\<close>

lemma view_core [simp]: "intents (view x) = intents (x_core x)" "ledger_inv (view x) = ledger_inv (x_core x)"
  by (simp_all add: view_def inv_exec)

lemma quarantine_fits_view: "quarantine_fits a i (view x) = quarantine_fits a i (x_core x)"
  by (simp add: quarantine_fits_def view_def)

lemmas insert_core =
  insert_session_def insert_root_def update_root_def insert_approval_def insert_envelope_def insert_action_def
  insert_ref_def insert_signed_def insert_attempt_def insert_observation_def insert_reconciliation_def
  insert_control_def insert_prepare_def update_prepare_def

interpretation accounted: runtime_invariant H "\<lambda>x. ledger_inv (x_core x)" for H
proof unfold_locales
  fix op x d
  assume "op_body H op (view x) = (Inr (), d)" "ledger_inv (x_core x)"
  then have "ledger_inv d" using op_body_inv by simp
  then show "ledger_inv (x_core (x\<lparr>x_core := d\<lparr>exec_surface := None\<rparr>\<rparr>))" by (simp add: inv_exec)
next
  fix q s i x now facts d
  assume "resumable H q s i x" "resume_write (rq_action q) i now facts (view x) = (Inr (), d)" "ledger_inv (x_core x)"
  moreover have "quarantine_fits (rq_action q) i (view x)"
    using resumable_fits [OF calculation(1)] by (simp add: quarantine_fits_view)
  ultimately have "ledger_inv d"
    using resume_write_inv [of "rq_action q" i now facts "view x" d] by (simp add: resumable_def)
  then show "ledger_inv (x_core (x\<lparr>x_core := d\<lparr>exec_surface := None\<rparr>\<rparr>))" by (simp add: inv_exec)
qed (auto simp: insert_core Let_def rbind_eq_Inr split: if_splits)

lemma run_accounted: "runs_to H rdec renc ecrec w \<Longrightarrow> ledger_inv (x_core (w_db w))"
  by (erule accounted.run_keeps [rotated]) (simp add: apply_execution_schema_def inv_exec reachable_inv)

text \<open>
  \<^bold>\<open>C10.\<close> The execution runtime never breaks the accounts of the ledger below it: after any run
  of its operations, submissions, resumptions and reconciliations, the integrity check of the
  store still holds, no policy holds more capital than its allocation, and no reservation of a
  policy is larger than its order cap. (The caps of an instrument, a network and the whole ledger
  are checked when capital is reserved; a policy admitted later may lower them below what is held.)
\<close>

theorem runtime_keeps_accounts:
  assumes "runs_to H rdec renc ecrec w"
  shows "integrity_check (view (w_db w)) = Inr () \<and>
    (\<forall>p \<in> set (policies (x_core (w_db w))).
       held_atomic (Some (pr_id p)) None None (view (w_db w)) \<le> pr_allocation p \<and>
       (\<forall>r \<in> set (budget_reservations (x_core (w_db w))). br_policy r = pr_id p \<longrightarrow> br_amount r \<le> pr_per_order_cap p))"
proof -
  have inv: "ledger_inv (view (w_db w))" using run_accounted [OF assms] by simp
  from inv_parts(5) [OF this] have "\<forall>p \<in> set (policies (view (w_db w))).
       held_atomic (Some (pr_id p)) None None (view (w_db w)) \<le> pr_allocation p \<and>
       (\<forall>r \<in> set (budget_reservations (view (w_db w))). br_policy r = pr_id p \<longrightarrow> br_amount r \<le> pr_per_order_cap p)"
    by (auto simp: held_atomic_policy budget_ok_def list_all_iff)
  then show ?thesis using inv_integrity [OF inv] by (simp add: view_def)
qed

end
