(* ===== verification/Relational.thy ===== *)
theory Relational
  imports Conduct
begin

text \<open>
  The relational integrity of the execution tables: every PRIMARY KEY, UNIQUE constraint and
  partial unique index of \<open>ledger/execution_schema.py\<close> as a condition on the rows, every foreign
  key and every reference its triggers demand as a condition on the row that refers, and the proof
  that whatever the runtime does keeps them. The conditions are written over the rows alone, apart
  from the statements that check them.
\<close>

subsection \<open>Keys\<close>

definition authorized_approvals :: "exec_db \<Rightarrow> approval_row list" where
  "authorized_approvals x = filter (\<lambda>r. wa_lifecycle r = AUTHORIZED) (x_approvals x)"

definition authorized_envelopes :: "exec_db \<Rightarrow> envelope_row list" where
  "authorized_envelopes x = filter (\<lambda>r. we_lifecycle r = AUTHORIZED) (x_envelopes x)"

definition authority_keys :: "exec_db \<Rightarrow> bool" where
  "authority_keys x \<longleftrightarrow>
     distinct (map ws_id (x_sessions x)) \<and> distinct (map session_slot (x_sessions x)) \<and>
     distinct (map wr_config (x_roots x)) \<and>
     distinct (map wa_id (x_approvals x)) \<and> distinct (map approval_pair (authorized_approvals x)) \<and>
     distinct (map we_id (x_envelopes x)) \<and> distinct (map envelope_action (authorized_envelopes x)) \<and>
     distinct (map envelope_nonce (authorized_envelopes x)) \<and>
     distinct (map wk_seq (x_controls x)) \<and>
     distinct (map wp_id (x_prepares x)) \<and> distinct (map wp_policy (x_prepares x)) \<and>
     distinct (map prepare_source (x_prepares x))"

definition action_keys :: "exec_db \<Rightarrow> bool" where
  "action_keys x \<longleftrightarrow>
     distinct (map wx_id (x_actions x)) \<and>
     distinct (map wx_economic (filter (\<lambda>r. wx_economic r \<noteq> None) (x_actions x))) \<and>
     distinct (map wx_approval (filter (\<lambda>r. wx_approval r \<noteq> None) (x_actions x))) \<and>
     distinct (map or_id (x_refs x)) \<and> distinct (map or_action (x_refs x)) \<and>
     distinct (map er_economic_action (x_refs x)) \<and> distinct (map or_hash (x_refs x)) \<and>
     distinct (map or_id (x_signed x)) \<and> distinct (map or_action (x_signed x)) \<and>
     distinct (map wg_sha256 (x_signed x)) \<and> distinct (map or_hash (x_signed x)) \<and>
     distinct (map signed_nonce (x_signed x)) \<and>
     distinct (map wt_id (x_attempts x)) \<and> distinct (map attempt_slot (x_attempts x)) \<and>
     distinct (map wc_id (x_observations x)) \<and>
     distinct (map rr_id (x_reconciliations x)) \<and> distinct (map rr_action (x_reconciliations x))"

text \<open>An action has one origin: a signed transaction or an external one, never both.\<close>

definition single_origin :: "exec_db \<Rightarrow> bool" where
  "single_origin x \<longleftrightarrow> (\<forall>r \<in> set (x_signed x). \<not> has_row or_action (or_action r) (x_refs x))"

subsection \<open>References\<close>

text \<open>What a row of each table refers to: \<open>x\<close> is the database it is read in.\<close>

definition refers_session :: "string \<Rightarrow> string \<Rightarrow> exec_db \<Rightarrow> bool" where
  "refers_session sid identity x \<longleftrightarrow> (\<exists>s \<in> set (x_sessions x). ws_id s = sid \<and> ws_identity_digest s = identity)"

definition refers_intent :: "string \<Rightarrow> exec_db \<Rightarrow> bool" where
  "refers_intent a x \<longleftrightarrow> has_row nr_id a (intents (x_core x))"

definition session_refers :: "exec_db \<Rightarrow> session_row \<Rightarrow> bool" where
  "session_refers x r \<longleftrightarrow> has_row pr_id (es_policy_id (ws_session r)) (policies (x_core x))"

definition approval_refers :: "exec_db \<Rightarrow> approval_row \<Rightarrow> bool" where
  "approval_refers x r \<longleftrightarrow>
     refers_session (aa_session_id (wa_value r)) (aa_session_identity_digest (wa_value r)) x \<and>
     (case aa_economic_action_id (wa_value r) of None \<Rightarrow> True | Some a \<Rightarrow> refers_intent a x)"

definition envelope_refers :: "exec_db \<Rightarrow> envelope_row \<Rightarrow> bool" where
  "envelope_refers x r \<longleftrightarrow>
     refers_session (env_session_id (we_value r)) (env_session_identity_digest (we_value r)) x \<and>
     refers_intent (env_economic_action_id (we_value r)) x \<and>
     has_row ir_id (env_input_instrument_id (we_value r)) (instruments (x_core x)) \<and>
     has_row ir_id (env_output_instrument_id (we_value r)) (instruments (x_core x))"

definition action_refers :: "exec_db \<Rightarrow> action_row \<Rightarrow> bool" where
  "action_refers x r \<longleftrightarrow>
     (case wx_economic r of None \<Rightarrow> True | Some a \<Rightarrow> refers_intent a x) \<and>
     (case wx_approval r of None \<Rightarrow> True | Some a \<Rightarrow> has_row wa_id a (x_approvals x)) \<and>
     (case wx_session r of None \<Rightarrow> True | Some s \<Rightarrow> has_row ws_id s (x_sessions x))"

text \<open>An external transaction: its economic action, and the session it belongs to with its taker and chain.\<close>

definition ref_refers :: "exec_db \<Rightarrow> ref_row \<Rightarrow> bool" where
  "ref_refers x r \<longleftrightarrow>
     (\<exists>a \<in> set (x_actions x). wx_id a = or_action r \<and> wx_kind a = ECONOMIC \<and>
        wx_economic a = Some (er_economic_action r) \<and> wx_session a \<in> {None, Some (wf_session r)}) \<and>
     (\<exists>s \<in> set (x_sessions x). ws_id s = wf_session r \<and> ws_identity_digest s = wf_session_identity r \<and>
        es_authority_policy_digest (ws_session s) = wf_authority r \<and> es_taker_address (ws_session s) = or_taker r \<and>
        es_network_id (ws_session s) = evm_network (or_chain r)) \<and>
     refers_intent (er_economic_action r) x"

text \<open>
  A signed transaction: its action and session; the envelope it was signed under, which names the
  same action, session, taker, chain and nonce; the approval it carries out.
\<close>

definition signed_refers :: "exec_db \<Rightarrow> signed_row \<Rightarrow> bool" where
  "signed_refers x r \<longleftrightarrow>
     has_row wx_id (or_action r) (x_actions x) \<and> has_row ws_id (wg_session r) (x_sessions x) \<and>
     (case wg_envelope r of None \<Rightarrow> True | Some eid \<Rightarrow>
        (\<exists>a \<in> set (x_actions x). \<exists>e \<in> set (x_envelopes x). wx_id a = or_action r \<and> wx_kind a = ECONOMIC \<and>
           we_id e = eid \<and> wx_economic a = Some (envelope_action e) \<and> wg_session r = env_session_id (we_value e) \<and>
           envelope_nonce e = (or_taker r, or_chain r, wg_nonce r))) \<and>
     (case wg_approval r of None \<Rightarrow> True | Some aid \<Rightarrow>
        (\<exists>a \<in> set (x_actions x). \<exists>v \<in> set (x_approvals x). wx_id a = or_action r \<and> wx_kind a = APPROVAL \<and>
           wa_id v = aid \<and> wx_approval a = Some aid \<and> wg_session r = aa_session_id (wa_value v) \<and>
           or_taker r = aa_taker_address (wa_value v))) \<and>
     (wg_origin r = EXTERNAL_SIGNED_BYTES \<longrightarrow> wg_envelope r \<noteq> None)"

definition attempt_refers :: "exec_db \<Rightarrow> attempt_row \<Rightarrow> bool" where
  "attempt_refers x r \<longleftrightarrow> has_row or_id (sb_signed_transaction_id (wt_value r)) (x_signed x)"

text \<open>An observation has exactly one origin, of its own action.\<close>

definition observation_refers :: "exec_db \<Rightarrow> chain_row \<Rightarrow> bool" where
  "observation_refers x r \<longleftrightarrow> has_row wx_id (wc_action r) (x_actions x) \<and>
     (case (wc_signed r, wc_external r) of
        (Some s, None) \<Rightarrow> \<exists>g \<in> set (x_signed x). or_id g = s \<and> or_action g = wc_action r
      | (None, Some e) \<Rightarrow> \<exists>f \<in> set (x_refs x). or_id f = e \<and> or_action f = wc_action r \<and>
          or_hash f = ob_transaction_hash (wc_value r)
      | _ \<Rightarrow> False)"

text \<open>
  A reconciliation: its action; a receipt of that action if it settled; an observation that the
  transaction reverted if it says so.
\<close>

definition reconciliation_refers :: "exec_db \<Rightarrow> recon_row \<Rightarrow> bool" where
  "reconciliation_refers x r \<longleftrightarrow> has_row wx_id (rr_action r) (x_actions x) \<and>
     (case rr_receipt r of None \<Rightarrow> rr_verdict r \<noteq> V_SETTLED | Some i \<Rightarrow> rr_verdict r = V_SETTLED \<and>
        (\<exists>a \<in> set (x_actions x). \<exists>g \<in> set (fill_receipts (x_core x)). wx_id a = rr_action r \<and>
           fr_id g = i \<and> wx_economic a = Some (fr_action g))) \<and>
     (rr_verdict r = V_REVERTED \<longrightarrow> (\<exists>c \<in> set (x_observations x). wc_action c = rr_action r \<and>
        ob_presence (wc_value c) = P_INCLUDED \<and> ob_receipt_status (wc_value c) = Some RS_REVERTED))"

definition control_refers :: "exec_db \<Rightarrow> control_row \<Rightarrow> bool" where
  "control_refers x r \<longleftrightarrow> (case wk_session r of None \<Rightarrow> True | Some s \<Rightarrow> has_row ws_id s (x_sessions x))"

definition prepare_refers :: "exec_db \<Rightarrow> prepare_row \<Rightarrow> bool" where
  "prepare_refers x r \<longleftrightarrow> has_row cr_id (wp_source r) (cycles (x_core x))"

lemmas refers_defs = refers_session_def refers_intent_def session_refers_def approval_refers_def envelope_refers_def
  action_refers_def ref_refers_def signed_refers_def attempt_refers_def observation_refers_def reconciliation_refers_def
  control_refers_def prepare_refers_def

text \<open>The rows of \<open>y\<close> resolve in \<open>x\<close>.\<close>

definition resolve_in :: "exec_db \<Rightarrow> exec_db \<Rightarrow> bool" where
  "resolve_in x y \<longleftrightarrow>
     list_all (session_refers x) (x_sessions y) \<and> list_all (approval_refers x) (x_approvals y) \<and>
     list_all (envelope_refers x) (x_envelopes y) \<and> list_all (action_refers x) (x_actions y) \<and>
     list_all (ref_refers x) (x_refs y) \<and> list_all (signed_refers x) (x_signed y) \<and>
     list_all (attempt_refers x) (x_attempts y) \<and> list_all (observation_refers x) (x_observations y) \<and>
     list_all (reconciliation_refers x) (x_reconciliations y) \<and> list_all (control_refers x) (x_controls y) \<and>
     list_all (prepare_refers x) (x_prepares y)"

definition tables_ok :: "exec_db \<Rightarrow> bool" where
  "tables_ok x \<longleftrightarrow> authority_keys x \<and> action_keys x \<and> single_origin x \<and> resolve_in x x"

subsection \<open>What an insertion that returns has added and checked\<close>

lemma has_row_snoc [simp]: "has_row key k (t @ [r]) \<longleftrightarrow> has_row key k t \<or> key r = k"
  by (auto simp: has_row_def)

lemma no_row_iff: "\<not> has_row key k t \<longleftrightarrow> (\<forall>r \<in> set t. key r \<noteq> k)"
  by (auto simp: has_row_def)

lemma insert_effects:
  "insert_session sr x = Inr x' \<Longrightarrow> x' = x\<lparr>x_sessions := x_sessions x @ [sr]\<rparr>"
  "insert_approval ar x = Inr x' \<Longrightarrow> x' = x\<lparr>x_approvals := x_approvals x @ [ar]\<rparr>"
  "insert_envelope er x = Inr x' \<Longrightarrow> x' = x\<lparr>x_envelopes := x_envelopes x @ [er]\<rparr>"
  "insert_action xr x = Inr x' \<Longrightarrow> x' = x\<lparr>x_actions := x_actions x @ [xr]\<rparr>"
  "insert_attempt tr x = Inr x' \<Longrightarrow> x' = x\<lparr>x_attempts := x_attempts x @ [tr]\<rparr>"
  "insert_observation cr x = Inr x' \<Longrightarrow> x' = x\<lparr>x_observations := x_observations x @ [cr]\<rparr>"
  "insert_reconciliation vr x = Inr x' \<Longrightarrow> x' = x\<lparr>x_reconciliations := x_reconciliations x @ [vr]\<rparr>"
  "insert_control kr x = Inr x' \<Longrightarrow> x' = x\<lparr>x_controls := x_controls x @ [kr]\<rparr> \<and> wk_engaged kr \<in> {0, 1}"
  "insert_root wr x = Inr x' \<Longrightarrow> x' = x\<lparr>x_roots := x_roots x @ [wr]\<rparr>"
  "insert_prepare ppr x = Inr x' \<Longrightarrow> x' = x\<lparr>x_prepares := x_prepares x @ [ppr]\<rparr>"
  "insert_ref fr x = Inr x' \<Longrightarrow> x' = x\<lparr>x_refs := x_refs x @ [fr]\<rparr>"
  "insert_signed gr x = Inr x' \<Longrightarrow> x' = x\<lparr>x_signed := x_signed x @ [gr]\<rparr>"
  by (simp_all add: insert_session_def insert_approval_def insert_envelope_def insert_action_def
      insert_attempt_def insert_observation_def insert_reconciliation_def insert_control_def insert_root_def
      insert_prepare_def insert_ref_def insert_signed_def Let_def rbind_eq_Inr insertable_eq_Inr)

lemma update_effects:
  "update_root config v x = Inr x' \<Longrightarrow> x' = x\<lparr>x_roots := update_row wr_config config (set_accepted v) (x_roots x)\<rparr>"
  "update_prepare pid phase now x = Inr x' \<Longrightarrow>
     x' = x\<lparr>x_prepares := update_row wp_id pid (set_phase (phase, now)) (x_prepares x)\<rparr>"
  by (auto simp: update_root_def update_prepare_def Let_def split: if_splits)

text \<open>The keys a row of each table must not repeat.\<close>

lemma insert_keys:
  "insert_session sr x = Inr x' \<Longrightarrow> \<not> has_row ws_id (ws_id sr) (x_sessions x) \<and>
     \<not> has_row session_slot (session_slot sr) (x_sessions x)"
  "insert_approval ar x = Inr x' \<Longrightarrow> \<not> has_row wa_id (wa_id ar) (x_approvals x) \<and>
     (wa_lifecycle ar = AUTHORIZED \<longrightarrow> \<not> has_row approval_pair (approval_pair ar) (authorized_approvals x))"
  "insert_envelope er x = Inr x' \<Longrightarrow> \<not> has_row we_id (we_id er) (x_envelopes x) \<and>
     (we_lifecycle er = AUTHORIZED \<longrightarrow> \<not> has_row envelope_action (envelope_action er) (authorized_envelopes x) \<and>
        \<not> has_row envelope_nonce (envelope_nonce er) (authorized_envelopes x))"
  "insert_action xr x = Inr x' \<Longrightarrow> \<not> has_row wx_id (wx_id xr) (x_actions x) \<and>
     (wx_economic xr \<noteq> None \<longrightarrow>
        \<not> has_row wx_economic (wx_economic xr) (filter (\<lambda>r. wx_economic r \<noteq> None) (x_actions x))) \<and>
     (wx_approval xr \<noteq> None \<longrightarrow>
        \<not> has_row wx_approval (wx_approval xr) (filter (\<lambda>r. wx_approval r \<noteq> None) (x_actions x)))"
  "insert_attempt tr x = Inr x' \<Longrightarrow> \<not> has_row wt_id (wt_id tr) (x_attempts x) \<and>
     \<not> has_row attempt_slot (attempt_slot tr) (x_attempts x)"
  "insert_observation cr x = Inr x' \<Longrightarrow> \<not> has_row wc_id (wc_id cr) (x_observations x)"
  "insert_reconciliation vr x = Inr x' \<Longrightarrow> \<not> has_row rr_id (rr_id vr) (x_reconciliations x) \<and>
     \<not> has_row rr_action (rr_action vr) (x_reconciliations x)"
  "insert_control kr x = Inr x' \<Longrightarrow> \<not> has_row wk_seq (wk_seq kr) (x_controls x)"
  "insert_root wr x = Inr x' \<Longrightarrow> \<not> has_row wr_config (wr_config wr) (x_roots x)"
  "insert_prepare ppr x = Inr x' \<Longrightarrow> \<not> has_row wp_id (wp_id ppr) (x_prepares x) \<and>
     \<not> has_row wp_policy (wp_policy ppr) (x_prepares x) \<and> \<not> has_row prepare_source (prepare_source ppr) (x_prepares x)"
  "insert_ref fr x = Inr x' \<Longrightarrow> \<not> has_row or_id (or_id fr) (x_refs x) \<and> \<not> has_row or_action (or_action fr) (x_refs x) \<and>
     \<not> has_row er_economic_action (er_economic_action fr) (x_refs x) \<and> \<not> has_row or_hash (or_hash fr) (x_refs x) \<and>
     \<not> has_row or_action (or_action fr) (x_signed x)"
  "insert_signed gr x = Inr x' \<Longrightarrow> \<not> has_row or_id (or_id gr) (x_signed x) \<and> \<not> has_row or_action (or_action gr) (x_signed x) \<and>
     \<not> has_row wg_sha256 (wg_sha256 gr) (x_signed x) \<and> \<not> has_row or_hash (or_hash gr) (x_signed x) \<and>
     \<not> has_row signed_nonce (signed_nonce gr) (x_signed x) \<and> \<not> has_row or_action (or_action gr) (x_refs x)"
  by (auto simp: insert_session_def insert_approval_def insert_envelope_def insert_action_def
      insert_attempt_def insert_observation_def insert_reconciliation_def insert_control_def insert_root_def
      insert_prepare_def insert_ref_def insert_signed_def signed_kind_guard_def authorized_approvals_def
      authorized_envelopes_def Let_def rbind_eq_Inr insertable_eq_Inr no_row_iff list_ex_iff)

text \<open>The rows a row of each table refers to.\<close>

lemma insert_refers:
  "insert_session sr x = Inr x' \<Longrightarrow> session_refers x sr"
  "insert_approval ar x = Inr x' \<Longrightarrow> approval_refers x ar"
  "insert_envelope er x = Inr x' \<Longrightarrow> envelope_refers x er"
  "insert_action xr x = Inr x' \<Longrightarrow> action_refers x xr"
  "insert_attempt tr x = Inr x' \<Longrightarrow> attempt_refers x tr"
  "insert_control kr x = Inr x' \<Longrightarrow> control_refers x kr"
  "insert_prepare ppr x = Inr x' \<Longrightarrow> prepare_refers x ppr"
  "insert_ref fr x = Inr x' \<Longrightarrow> ref_refers x fr"
  by (auto simp: insert_session_def session_refers_def insert_approval_def approval_refers_def insert_envelope_def
      envelope_refers_def insert_action_def action_refers_def insert_attempt_def attempt_refers_def insert_control_def
      control_refers_def insert_prepare_def prepare_refers_def insert_ref_def ref_refers_def session_known_def
      refers_session_def refers_intent_def Let_def rbind_eq_Inr insertable_eq_Inr list_ex_iff split: option.splits)

lemma insert_signed_refers: "insert_signed gr x = Inr x' \<Longrightarrow> signed_refers x gr"
  by (auto simp: insert_signed_def signed_refers_def signed_kind_guard_def rbind_eq_Inr insertable_eq_Inr list_ex_iff
      split: option.splits) metis+

lemma insert_observation_refers: "insert_observation cr x = Inr x' \<Longrightarrow> observation_refers x cr"
  by (auto simp: insert_observation_def observation_refers_def Let_def rbind_eq_Inr insertable_eq_Inr list_ex_iff
      split: option.splits)

lemma insert_reconciliation_refers: "insert_reconciliation vr x = Inr x' \<Longrightarrow> reconciliation_refers x vr"
  by (auto simp: insert_reconciliation_def reconciliation_refers_def shows_revert_def bound_to_def
      reconciliation_row.defs rbind_eq_Inr insertable_eq_Inr list_ex_iff split: option.splits)

subsection \<open>Tables only grow\<close>

definition grows :: "exec_db \<Rightarrow> exec_db \<Rightarrow> bool" where
  "grows x x' \<longleftrightarrow> extends (x_core x) (x_core x') \<and> set (x_sessions x) \<subseteq> set (x_sessions x') \<and>
     set (x_approvals x) \<subseteq> set (x_approvals x') \<and> set (x_envelopes x) \<subseteq> set (x_envelopes x') \<and>
     set (x_actions x) \<subseteq> set (x_actions x') \<and> set (x_refs x) \<subseteq> set (x_refs x') \<and>
     set (x_signed x) \<subseteq> set (x_signed x') \<and> set (x_observations x) \<subseteq> set (x_observations x')"

lemma has_row_prefix: "prefix (map key t) (map key t') \<Longrightarrow> has_row key k t \<Longrightarrow> has_row key k t'"
  using set_mono_prefix [of "map key t" "map key t'"] by (auto simp: has_row_def simp del: set_map)

lemma has_row_more: "set t \<subseteq> set t' \<Longrightarrow> has_row key k t \<Longrightarrow> has_row key k t'"
  by (auto simp: has_row_def)

lemma grows_core:
  assumes "grows x x'"
  shows "has_row pr_id k (policies (x_core x)) \<Longrightarrow> has_row pr_id k (policies (x_core x'))"
    "has_row ir_id k (instruments (x_core x)) \<Longrightarrow> has_row ir_id k (instruments (x_core x'))"
    "has_row nr_id k (intents (x_core x)) \<Longrightarrow> has_row nr_id k (intents (x_core x'))"
    "has_row cr_id k (cycles (x_core x)) \<Longrightarrow> has_row cr_id k (cycles (x_core x'))"
    "set (fill_receipts (x_core x)) \<subseteq> set (fill_receipts (x_core x'))"
  using assms unfolding grows_def extends_def
  by (auto intro: has_row_prefix map_mono_prefix dest: set_mono_prefix)

lemma grows_rows:
  assumes "grows x x'"
  shows "has_row ws_id k (x_sessions x) \<Longrightarrow> has_row ws_id k (x_sessions x')"
    "has_row wa_id k (x_approvals x) \<Longrightarrow> has_row wa_id k (x_approvals x')"
    "has_row wx_id k (x_actions x) \<Longrightarrow> has_row wx_id k (x_actions x')"
    "has_row or_id k (x_signed x) \<Longrightarrow> has_row or_id k (x_signed x')"
    "refers_session k i x \<Longrightarrow> refers_session k i x'" "refers_intent k x \<Longrightarrow> refers_intent k x'"
  using assms grows_core(3) [OF assms] unfolding grows_def refers_session_def refers_intent_def
  by (blast intro: has_row_more)+

lemma case_option_imp:
  "(case v of None \<Rightarrow> P | Some a \<Rightarrow> Q a) \<Longrightarrow> (\<And>a. Q a \<Longrightarrow> Q' a) \<Longrightarrow> (case v of None \<Rightarrow> P | Some a \<Rightarrow> Q' a)"
  by (cases v) auto

lemma bex_pair_mono: "\<exists>a \<in> S. \<exists>b \<in> T. P a b \<Longrightarrow> S \<subseteq> S' \<Longrightarrow> T \<subseteq> T' \<Longrightarrow> \<exists>a \<in> S'. \<exists>b \<in> T'. P a b"
  by blast

text \<open>A reference that resolves resolves in every larger database.\<close>

lemma refers_grow:
  assumes g: "grows x x'"
  shows "session_refers x a1 \<Longrightarrow> session_refers x' a1" "approval_refers x a2 \<Longrightarrow> approval_refers x' a2"
    "envelope_refers x a3 \<Longrightarrow> envelope_refers x' a3" "action_refers x a4 \<Longrightarrow> action_refers x' a4"
    "ref_refers x a5 \<Longrightarrow> ref_refers x' a5" "signed_refers x a6 \<Longrightarrow> signed_refers x' a6"
    "attempt_refers x a7 \<Longrightarrow> attempt_refers x' a7" "observation_refers x a8 \<Longrightarrow> observation_refers x' a8"
    "reconciliation_refers x a9 \<Longrightarrow> reconciliation_refers x' a9" "control_refers x a10 \<Longrightarrow> control_refers x' a10"
    "prepare_refers x a11 \<Longrightarrow> prepare_refers x' a11"
proof -
  note up = grows_core [OF g] grows_rows [OF g]
  have sub: "set (x_sessions x) \<subseteq> set (x_sessions x')" "set (x_approvals x) \<subseteq> set (x_approvals x')"
    "set (x_envelopes x) \<subseteq> set (x_envelopes x')" "set (x_actions x) \<subseteq> set (x_actions x')"
    "set (x_refs x) \<subseteq> set (x_refs x')" "set (x_signed x) \<subseteq> set (x_signed x')"
    "set (x_observations x) \<subseteq> set (x_observations x')"
    using g by (simp_all add: grows_def)
  show "session_refers x a1 \<Longrightarrow> session_refers x' a1" "approval_refers x a2 \<Longrightarrow> approval_refers x' a2"
    "envelope_refers x a3 \<Longrightarrow> envelope_refers x' a3" "action_refers x a4 \<Longrightarrow> action_refers x' a4"
    "attempt_refers x a7 \<Longrightarrow> attempt_refers x' a7" "control_refers x a10 \<Longrightarrow> control_refers x' a10"
    "prepare_refers x a11 \<Longrightarrow> prepare_refers x' a11"
    unfolding session_refers_def approval_refers_def envelope_refers_def action_refers_def attempt_refers_def
      control_refers_def prepare_refers_def
    by (auto intro: up split: option.splits)
  show "ref_refers x a5 \<Longrightarrow> ref_refers x' a5"
    unfolding ref_refers_def using up(11) sub by blast
  show "signed_refers x a6 \<Longrightarrow> signed_refers x' a6"
    unfolding signed_refers_def
    by (elim conjE, intro conjI; (assumption | erule up | erule case_option_imp, erule bex_pair_mono, (rule sub)+))
  show "observation_refers x a8 \<Longrightarrow> observation_refers x' a8"
    unfolding observation_refers_def
    by (cases "wc_signed a8"; cases "wc_external a8") (auto intro: up dest: subsetD [OF sub(5)] subsetD [OF sub(6)])
  show "reconciliation_refers x a9 \<Longrightarrow> reconciliation_refers x' a9"
    unfolding reconciliation_refers_def
    by (elim conjE, intro conjI; (erule up | erule case_option_imp, erule conj_forward, assumption,
      erule bex_pair_mono, (rule sub up)+ | use sub(7) in blast))
qed

lemma resolve_grow: "grows x x' \<Longrightarrow> resolve_in x y \<Longrightarrow> resolve_in x' y"
  unfolding resolve_in_def by (intro conjI; elim conjE; erule list.pred_mono_strong; erule (1) refers_grow)

lemma insert_grows:
  "insert_session sr x = Inr x' \<Longrightarrow> grows x x'" "insert_approval ar x = Inr x' \<Longrightarrow> grows x x'"
  "insert_envelope er x = Inr x' \<Longrightarrow> grows x x'" "insert_action xr x = Inr x' \<Longrightarrow> grows x x'"
  "insert_attempt tr x = Inr x' \<Longrightarrow> grows x x'" "insert_observation cr x = Inr x' \<Longrightarrow> grows x x'"
  "insert_reconciliation vr x = Inr x' \<Longrightarrow> grows x x'" "insert_control kr x = Inr x' \<Longrightarrow> grows x x'"
  "insert_root wr x = Inr x' \<Longrightarrow> grows x x'" "insert_prepare ppr x = Inr x' \<Longrightarrow> grows x x'"
  "insert_ref fr x = Inr x' \<Longrightarrow> grows x x'" "insert_signed gr x = Inr x' \<Longrightarrow> grows x x'"
  "update_root config v x = Inr x' \<Longrightarrow> grows x x'" "update_prepare pid phase now x = Inr x' \<Longrightarrow> grows x x'"
  by (auto simp: grows_def dest!: insert_effects update_effects)

lemma store_grows:
  assumes "op_body H op (view x) = (Inr (), d)"
  shows "grows x (x\<lparr>x_core := d\<lparr>exec_surface := None\<rparr>\<rparr>)"
  using extended.op_invariant [OF assms, of "view x"] by (simp add: grows_def extends_def view_def)

lemma resume_write_extends: "keeps (extends d0) (resume_write a i now facts)"
  unfolding resume_write_def
  by (intro keeps_intros extended.keeps_statements extended.keeps_reservations)+

lemma resumption_grows:
  assumes "resume_write a i now facts (view x) = (Inr (), d)"
  shows "grows x (x\<lparr>x_core := d\<lparr>exec_surface := None\<rparr>\<rparr>)"
  using resume_write_extends [of "view x" a i now facts] assms
  unfolding keeps_def by (auto simp: grows_def extends_def view_def)

subsection \<open>The integrity is kept\<close>

lemma updated_keys:
  "map wr_config (update_row wr_config c (set_accepted v) t) = map wr_config t"
  "map wp_id (update_row wp_id p (set_phase u) s) = map wp_id s"
  "map wp_policy (update_row wp_id p (set_phase u) s) = map wp_policy s"
  "map prepare_source (update_row wp_id p (set_phase u) s) = map prepare_source s"
  by (simp_all add: update_row_def set_accepted_def set_phase_def prepare_source_def)

lemma updated_prepares:
  "list_all (prepare_refers x) (update_row wp_id p (set_phase u) t) = list_all (prepare_refers x) t"
  by (simp add: list_all_iff ball_update_row prepare_refers_def set_phase_def)

lemmas keys_defs = authority_keys_def action_keys_def authorized_approvals_def authorized_envelopes_def

lemma keys_core [simp]:
  "authority_keys (x\<lparr>x_core := d\<rparr>) = authority_keys x" "action_keys (x\<lparr>x_core := d\<rparr>) = action_keys x"
  by (simp_all add: keys_defs)

interpretation keyed: runtime_invariant H "\<lambda>x. authority_keys x \<and> action_keys x" for H
proof unfold_locales
  fix config v x x'
  assume up: "update_root config v x = Inr x'" and "authority_keys x \<and> action_keys x"
  then show "authority_keys x' \<and> action_keys x'"
    by (simp add: keys_defs update_effects(1) [OF up] updated_keys)
next
  fix pid phase now x x'
  assume up: "update_prepare pid phase now x = Inr x'" and "authority_keys x \<and> action_keys x"
  then show "authority_keys x' \<and> action_keys x'"
    by (simp add: keys_defs update_effects(2) [OF up] updated_keys)
qed (simp_all, (frule insert_keys, drule insert_effects, simp add: keys_defs distinct_snoc del: map_append)+)

interpretation origins: runtime_invariant H single_origin for H
  by unfold_locales
    (auto simp: single_origin_def no_row_iff dest!: insert_effects(1-10) update_effects,
     (frule insert_keys, drule insert_effects, simp add: single_origin_def no_row_iff, fastforce)+)

interpretation resolved: runtime_invariant H "\<lambda>x. resolve_in x x" for H
proof unfold_locales
  fix op x d
  assume "op_body H op (view x) = (Inr (), d)" "resolve_in x x"
  from resolve_grow [OF store_grows [OF this(1)] this(2)]
  show "resolve_in (x\<lparr>x_core := d\<lparr>exec_surface := None\<rparr>\<rparr>) (x\<lparr>x_core := d\<lparr>exec_surface := None\<rparr>\<rparr>)"
    by (simp add: resolve_in_def)
next
  fix q s i x now facts d
  assume "resume_write (rq_action q) i now facts (view x) = (Inr (), d)" "resolve_in x x"
  from resolve_grow [OF resumption_grows [OF this(1)] this(2)]
  show "resolve_in (x\<lparr>x_core := d\<lparr>exec_surface := None\<rparr>\<rparr>) (x\<lparr>x_core := d\<lparr>exec_surface := None\<rparr>\<rparr>)"
    by (simp add: resolve_in_def)
next
  fix pid phase now x x'
  assume up: "update_prepare pid phase now x = Inr x'" and "resolve_in x x"
  from resolve_grow [OF insert_grows(14) [OF up] this(2)] show "resolve_in x' x'"
    by (simp add: resolve_in_def update_effects(2) [OF up] updated_prepares)
next
  fix config v x x'
  assume up: "update_root config v x = Inr x'" and "resolve_in x x"
  from resolve_grow [OF insert_grows(13) [OF up] this(2)] show "resolve_in x' x'"
    by (simp add: resolve_in_def update_effects(1) [OF up])
qed (frule insert_grows, frule (1) resolve_grow, (frule insert_refers insert_signed_refers insert_observation_refers
  insert_reconciliation_refers, frule (1) refers_grow)?, drule insert_effects, simp add: resolve_in_def)+

lemma tables_step: "runtime_step H rdec renc ecrec w w' \<Longrightarrow> tables_ok (w_db w) \<Longrightarrow> tables_ok (w_db w')"
  using keyed.step_keeps origins.step_keeps resolved.step_keeps unfolding tables_ok_def by blast

lemma fresh_tables: "tables_ok (w_db (fresh_world d))"
  by (simp add: fresh_world_def apply_execution_schema_def tables_ok_def keys_defs single_origin_def resolve_in_def)

lemma run_from_fresh: "runs_to H rdec renc ecrec w \<Longrightarrow> \<exists>d. (runtime_step H rdec renc ecrec)\<^sup>*\<^sup>* (fresh_world d) w"
  by (induction rule: runs_to.induct) (blast intro: rtranclp.rtrancl_into_rtrancl)+


end
