(* ===== verification/Custody.thy ===== *)
theory Custody
  imports Relational
begin

text \<open>
  The custody of bytes: what the tables of the runtime guarantee of every signed transaction, and
  what follows for the bytes that reached the wire.
\<close>

subsection \<open>What the submissions do to the tables and the wire\<close>

lemma insert_or_match_Inr:
  "insert_or_match key table same ins r x = (Inr b, x') \<longleftrightarrow>
     (case find_row key (key r) (table x) of
        Some old \<Rightarrow> same r old \<and> \<not> b \<and> x' = x
      | None \<Rightarrow> b \<and> ins r x = Inr x')"
  by (auto simp: insert_or_match_def sbind_eq_Inr sget_eq sguard_eq_Inr sret_eq swrite_eq_Inr split: option.splits)

lemma store_transition_core: "store_transition a st now facts x = (Inr u, x') \<Longrightarrow> \<exists>d. x' = x\<lparr>x_core := d\<rparr>"
  by (auto simp: store_transition_def in_store_Inr)

lemma record_attempt_effect:
  assumes "record_attempt_body H v x = (Inr b, x')"
  shows "\<not> kill_engaged x \<and> x_signed x' = x_signed x \<and>
    (x_attempts x' = x_attempts x \<or> x_attempts x' = x_attempts x @ [attempt_row_of H v])"
proof -
  obtain x1 where alive: "\<not> kill_engaged x"
    and row: "insert_or_match wt_id x_attempts (=) insert_attempt (attempt_row_of H v) x = (Inr b, x1)"
    and rest: "x' = x1 \<or> (b \<and> (\<exists>d. x' = x1\<lparr>x_core := d\<rparr>))"
    using assms unfolding record_attempt_body_def
    by (auto simp: sbind_eq_Inr shared_reads_Inr sget_eq slift_eq sguard_eq_Inr sret_eq sraise_eq case_option_run
        split: if_splits dest!: store_transition_core) blast+
  have "x1 = x \<or> insert_attempt (attempt_row_of H v) x = Inr x1"
    using row by (auto simp: insert_or_match_Inr split: option.splits)
  with alive rest show ?thesis by (auto dest!: insert_effects(5))
qed

lemma attempt_value_Inr:
  "attempt_value sid provider ordinal now ack reported err = Inr v \<Longrightarrow>
     sb_signed_transaction_id v = sid \<and> sb_provider_id v = provider \<and> sb_attempt_ordinal v = ordinal \<and>
     sb_acknowledgment v = ack"
  by (auto simp: attempt_value_def make_submission_attempt_def checked_def res_simps split: if_splits sum.splits)

lemma submission_gate_Inr:
  assumes "submission_gate H ad s g provider now retry x = Inr ()"
  shows "\<exists>row. find_row or_id (exact_signed_transaction_id H (ad_record ad)) (x_signed x) = Some row \<and>
    wg_origin row = EXTERNAL_SIGNED_BYTES \<and> wg_sha256 row = H (byte_text (ad_signed_bytes ad))"
  using assms unfolding submission_gate_def assert_exact_bytes_submittable_def Let_def rbind_eq_Inr
  by (auto simp: res_simps split: option.splits)

lemma record_outcome_effect:
  fixes H sid provider now ack reported err w
  defines "w' \<equiv> snd (record_outcome H sid provider now ack reported err w)"
  shows "w_wire w' = w_wire w" "x_signed (w_db w') = x_signed (w_db w)"
    "x_attempts (w_db w') = x_attempts (w_db w) \<or>
     (\<exists>v. x_attempts (w_db w') = x_attempts (w_db w) @ [attempt_row_of H v] \<and> sb_signed_transaction_id v = sid)"
proof -
  have lift: "snd (case lift_db f w of (Inl e, u) \<Rightarrow> (Inl e, u) | (Inr x, u) \<Rightarrow> (Inr v, u)) =
    w\<lparr>w_db := snd (f (w_db w))\<rparr>" for f :: "exec_db \<Rightarrow> (error + bool) \<times> exec_db" and v :: SubmissionAttemptV0
    by (auto simp: lift_db_def split: prod.splits sum.splits)
  consider (same) "w' = w"
    | (tried) v where "attempt_value sid provider (next_submission_ordinal sid provider (w_db w)) now ack reported err = Inr v"
        "w' = w\<lparr>w_db := snd (exec_txn (record_attempt_body H v) (w_db w))\<rparr>"
    by (cases "attempt_value sid provider (next_submission_ordinal sid provider (w_db w)) now ack reported err")
      (simp_all add: w'_def record_outcome_def lift)
  then have "w_wire w' = w_wire w \<and> x_signed (w_db w') = x_signed (w_db w) \<and>
    (x_attempts (w_db w') = x_attempts (w_db w) \<or>
     (\<exists>v. x_attempts (w_db w') = x_attempts (w_db w) @ [attempt_row_of H v] \<and> sb_signed_transaction_id v = sid))"
  proof cases
    case tried
    then have sid: "sb_signed_transaction_id v = sid" by (auto dest: attempt_value_Inr)
    show ?thesis
      using tried(2) record_attempt_effect [of H v "w_db w"] sid
      by (cases "record_attempt_body H v (w_db w)") (auto simp: exec_txn_def split: sum.splits)
  qed simp
  then show "w_wire w' = w_wire w" "x_signed (w_db w') = x_signed (w_db w)"
    "x_attempts (w_db w') = x_attempts (w_db w) \<or>
     (\<exists>v. x_attempts (w_db w') = x_attempts (w_db w) @ [attempt_row_of H v] \<and> sb_signed_transaction_id v = sid)"
    by blast+
qed

text \<open>A submission of exact bytes either changes nothing or sends the bytes of a durable signed row.\<close>

lemma submit_exact_effect:
  fixes H transport ad s g provider now retry w
  defines "w' \<equiv> snd (submit_exact_bytes H transport ad s g provider now retry w)"
    and "sid \<equiv> exact_signed_transaction_id H (ad_record ad)"
  shows "w' = w \<or> (\<exists>row. find_row or_id sid (x_signed (w_db w)) = Some row \<and> wg_origin row = EXTERNAL_SIGNED_BYTES \<and>
      wg_sha256 row = H (byte_text (ad_signed_bytes ad)) \<and> w_wire w' = w_wire w @ [ad_signed_bytes ad] \<and>
      x_signed (w_db w') = x_signed (w_db w) \<and>
      (x_attempts (w_db w') = x_attempts (w_db w) \<or>
       (\<exists>v. x_attempts (w_db w') = x_attempts (w_db w) @ [attempt_row_of H v] \<and> sb_signed_transaction_id v = sid)))"
proof (cases "submission_gate H ad s g provider now retry (w_db w)")
  case (Inl e)
  then show ?thesis by (simp add: w'_def submit_exact_bytes_def Let_def)
next
  case (Inr u)
  obtain row where row: "find_row or_id sid (x_signed (w_db w)) = Some row" "wg_origin row = EXTERNAL_SIGNED_BYTES"
    "wg_sha256 row = H (byte_text (ad_signed_bytes ad))"
    using submission_gate_Inr [of H ad s g provider now retry "w_db w"] Inr unfolding sid_def by auto
  let ?w = "send (ad_signed_bytes ad) w"
  have "w' = ?w \<or> (\<exists>ack reported err. w' = snd (record_outcome H sid provider now ack reported err ?w))"
    using Inr by (cases "transport (ad_signed_bytes ad)") (auto simp: w'_def sid_def submit_exact_bytes_def Let_def)
  then consider (cut) "w' = ?w" | (replied) ack reported err where "w' = snd (record_outcome H sid provider now ack reported err ?w)"
    by blast
  then show ?thesis
  proof cases
    case replied
    then show ?thesis
      using row record_outcome_effect [of H sid provider now ack reported err ?w] by (simp add: send_def)
  qed (use row in \<open>auto simp: send_def\<close>)
qed

lemma approval_gate_Inr:
  assumes "approval_gate H v raw s g provider now x = Inr gd"
  shows "\<exists>row. find_row or_id (signed_approval_id H v) (x_signed x) = Some row \<and> wg_origin row = FROM_APPROVAL \<and>
    wg_sha256 row = H (byte_text raw) \<and> sb_signed_transaction_id gd = signed_approval_id H v"
proof -
  obtain row where row: "find_row or_id (signed_approval_id H v) (x_signed x) = Some row"
    and same: "approval_signed_row H v (session_instance_id H s) (wg_frozen_at row) =
      row\<lparr>wg_signer := ''evm-recovered:'' @ ps_sender_address (vs_parsed (sv_validated v))\<rparr>"
    and sha: "H (byte_text raw) = vs_signed_bytes_sha256 (sv_validated v)"
    and gd: "attempt_value (signed_approval_id H v) provider 0 now ACK_UNKNOWN None (Some ''PreTransportGuard'') = Inr gd"
    using assms unfolding approval_gate_def Let_def rbind_eq_Inr by (auto simp: res_simps split: option.splits)
  have "wg_origin row = FROM_APPROVAL \<and> wg_sha256 row = vs_signed_bytes_sha256 (sv_validated v)"
    using arg_cong [OF same, of wg_origin] arg_cong [OF same, of wg_sha256]
    by (simp add: approval_signed_row_def Let_def)
  with row sha attempt_value_Inr [OF gd] show ?thesis by simp
qed

lemma guard_approval_effect:
  assumes "guard_approval_body H v gd s now x = (Inr u, x')"
  shows "\<not> kill_engaged x \<and> attempts_of (signed_approval_id H v) x = [] \<and> x_signed x' = x_signed x \<and>
    x_attempts x' = x_attempts x @ [attempt_row_of H gd]"
proof -
  obtain b where "\<not> kill_engaged x" "attempts_of (signed_approval_id H v) x = []" "b"
    "insert_or_match wt_id x_attempts (=) insert_attempt (attempt_row_of H gd) x = (Inr b, x')"
    using assms unfolding guard_approval_body_def Let_def
    by (clarsimp simp: sbind_eq_Inr shared_reads_Inr sget_eq sguard_eq_Inr sraise_eq case_option_run)
  then show ?thesis by (auto simp: insert_or_match_Inr dest!: insert_effects(5) split: option.splits)
qed

text \<open>A submission of an approval either changes nothing or writes its guard and then sends.\<close>

lemma submit_approval_effect:
  fixes H transport v raw s g provider now w
  defines "w' \<equiv> snd (submit_signed_approval H transport v raw s g provider now w)"
    and "sid \<equiv> signed_approval_id H v"
  shows "w' = w \<or> (\<exists>row gd. find_row or_id sid (x_signed (w_db w)) = Some row \<and> wg_origin row = FROM_APPROVAL \<and>
      wg_sha256 row = H (byte_text raw) \<and> w_wire w' = w_wire w @ [raw] \<and> x_signed (w_db w') = x_signed (w_db w) \<and>
      attempts_of sid (w_db w) = [] \<and> sb_signed_transaction_id gd = sid \<and>
      x_attempts (w_db w') = x_attempts (w_db w) @ [attempt_row_of H gd])"
proof (cases "approval_gate H v raw s g provider now (w_db w)")
  case (Inl e)
  then show ?thesis by (simp add: w'_def submit_signed_approval_def)
next
  case (Inr gd)
  obtain row where row: "find_row or_id sid (x_signed (w_db w)) = Some row" "wg_origin row = FROM_APPROVAL"
    "wg_sha256 row = H (byte_text raw)" "sb_signed_transaction_id gd = sid"
    using approval_gate_Inr [OF Inr] unfolding sid_def by blast
  obtain r x' where run: "guard_approval_body H v gd s now (w_db w) = (r, x')" by fastforce
  show ?thesis
  proof (cases r)
    case (Inl e)
    then have "w' = w" using Inr run by (simp add: w'_def submit_signed_approval_def lift_db_def exec_txn_def \<open>approval_gate _ _ _ _ _ _ _ _ = _\<close>)
    then show ?thesis ..
  next
    case r: (Inr u)
    have "w' = send raw (w\<lparr>w_db := x'\<rparr>)"
      using Inr run r by (simp add: w'_def submit_signed_approval_def lift_db_def exec_txn_def)
    then show ?thesis
      using row guard_approval_effect [of H v gd s now "w_db w" u x'] run r by (auto simp: send_def sid_def)
  qed
qed

subsection \<open>Custody\<close>

definition sent_as :: "digest_fn \<Rightarrow> signed_row \<Rightarrow> world \<Rightarrow> nat" where
  "sent_as H r w = length (filter (\<lambda>raw. H (byte_text raw) = wg_sha256 r) (w_wire w))"

definition custody :: "digest_fn \<Rightarrow> world \<Rightarrow> bool" where
  "custody H w \<longleftrightarrow> tables_ok (w_db w) \<and>
     (\<forall>raw \<in> set (w_wire w). \<exists>r \<in> set (x_signed (w_db w)). wg_sha256 r = H (byte_text raw)) \<and>
     (\<forall>r \<in> set (x_signed (w_db w)). wg_origin r = FROM_APPROVAL \<longrightarrow>
        sent_as H r w \<le> length (attempts_of (or_id r) (w_db w)) \<and> length (attempts_of (or_id r) (w_db w)) \<le> 1)"

interpretation quiet: database_invariant H "\<lambda>x. prefix S (x_signed x) \<and> x_attempts x = A" for H S A
  by unfold_locales (auto dest!: insert_effects update_effects)

lemma unique_row:
  "tables_ok x \<Longrightarrow> r \<in> set (x_signed x) \<Longrightarrow> r' \<in> set (x_signed x) \<Longrightarrow> or_id r = or_id r' \<or> wg_sha256 r = wg_sha256 r' \<Longrightarrow> r = r'"
  unfolding tables_ok_def action_keys_def by (meson eq_key_imp_eq_value distinct_map inj_onD)

lemma attempt_known:
  assumes "tables_ok x" "t \<in> set (x_attempts x)"
  shows "\<exists>r \<in> set (x_signed x). or_id r = sb_signed_transaction_id (wt_value t)"
proof -
  have "has_row or_id (sb_signed_transaction_id (wt_value t)) (x_signed x)"
    using assms by (simp add: tables_ok_def resolve_in_def attempt_refers_def list_all_iff)
  then show ?thesis by (auto simp: has_row_def)
qed

lemma custody_quiet:
  assumes c: "custody H w" and t: "tables_ok (w_db w')" and s: "prefix (x_signed (w_db w)) (x_signed (w_db w'))"
    and a: "x_attempts (w_db w') = x_attempts (w_db w)" and wire: "w_wire w' = w_wire w"
  shows "custody H w'"
proof -
  have sub: "set (x_signed (w_db w)) \<subseteq> set (x_signed (w_db w'))" using s by (auto elim: prefixE)
  have new: "sent_as H r w' = 0 \<and> attempts_of (or_id r) (w_db w') = []"
    if r: "r \<in> set (x_signed (w_db w'))" "r \<notin> set (x_signed (w_db w))" for r
  proof
    have "H (byte_text raw) \<noteq> wg_sha256 r" if raw: "raw \<in> set (w_wire w)" for raw
    proof
      assume "H (byte_text raw) = wg_sha256 r"
      then obtain r' where "r' \<in> set (x_signed (w_db w))" "wg_sha256 r' = wg_sha256 r"
        using c raw unfolding custody_def by metis
      with unique_row [OF t] r sub show False by blast
    qed
    then show "sent_as H r w' = 0" by (simp add: sent_as_def wire filter_empty_conv)
    have "sb_signed_transaction_id (wt_value x) \<noteq> or_id r" if x: "x \<in> set (x_attempts (w_db w))" for x
    proof
      assume "sb_signed_transaction_id (wt_value x) = or_id r"
      then obtain r' where "r' \<in> set (x_signed (w_db w))" "or_id r' = or_id r"
        using c attempt_known [OF _ x] unfolding custody_def by auto
      with unique_row [OF t] r sub show False by blast
    qed
    then show "attempts_of (or_id r) (w_db w') = []" by (simp add: attempts_of_def a filter_empty_conv)
  qed
  have old: "sent_as H r w' = sent_as H r w" "attempts_of i (w_db w') = attempts_of i (w_db w)" for r i
    by (simp_all add: sent_as_def attempts_of_def wire a)
  show ?thesis
    unfolding custody_def
  proof (intro conjI ballI impI t)
    fix raw assume "raw \<in> set (w_wire w')"
    then show "\<exists>r \<in> set (x_signed (w_db w')). wg_sha256 r = H (byte_text raw)"
      using c sub unfolding custody_def wire by blast
  next
    fix r assume r: "r \<in> set (x_signed (w_db w'))" "wg_origin r = FROM_APPROVAL"
    show "sent_as H r w' \<le> length (attempts_of (or_id r) (w_db w'))" "length (attempts_of (or_id r) (w_db w')) \<le> 1"
      using new [OF r(1)] old c r(2) unfolding custody_def by (cases "r \<in> set (x_signed (w_db w))"; simp)+
  qed
qed

lemma custody_sends:
  assumes c: "custody H w" and t: "tables_ok (w_db w')" and s: "x_signed (w_db w') = x_signed (w_db w)"
    and row: "find_row or_id sid (x_signed (w_db w)) = Some row" "wg_sha256 row = H (byte_text raw)"
    and wire: "w_wire w' = w_wire w @ [raw]"
    and a: "x_attempts (w_db w') = x_attempts (w_db w) \<and> wg_origin row \<noteq> FROM_APPROVAL \<or>
      x_attempts (w_db w') = x_attempts (w_db w) @ [attempt_row_of H v] \<and> sb_signed_transaction_id v = sid \<and>
        (wg_origin row = FROM_APPROVAL \<longrightarrow> attempts_of sid (w_db w) = [])"
  shows "custody H w'"
proof -
  have in_row: "row \<in> set (x_signed (w_db w))" "or_id row = sid" using find_row_SomeD [OF row(1)] by auto
  have t0: "tables_ok (w_db w)" using c by (simp add: custody_def)
  have val: "sb_signed_transaction_id (wt_value (attempt_row_of H v)) = sb_signed_transaction_id v"
    by (simp add: attempt_row_of_def attempt_columns_def)
  show ?thesis
    unfolding custody_def s
  proof (intro conjI ballI impI t)
    fix raw' assume "raw' \<in> set (w_wire w')"
    then show "\<exists>r \<in> set (x_signed (w_db w)). wg_sha256 r = H (byte_text raw')"
      using c in_row row(2) by (auto simp: custody_def wire)
  next
    fix r assume r: "r \<in> set (x_signed (w_db w))" "wg_origin r = FROM_APPROVAL"
    have old: "sent_as H r w \<le> length (attempts_of (or_id r) (w_db w))" "length (attempts_of (or_id r) (w_db w)) \<le> 1"
      using c r by (auto simp: custody_def)
    have "sent_as H r w' \<le> length (attempts_of (or_id r) (w_db w')) \<and> length (attempts_of (or_id r) (w_db w')) \<le> 1"
    proof (cases "r = row")
      case True
      then show ?thesis using a old r(2) in_row(2) val by (auto simp: sent_as_def attempts_of_def wire)
    next
      case False
      then have "wg_sha256 r \<noteq> H (byte_text raw)" "or_id r \<noteq> sid"
        using unique_row [OF t0 r(1) in_row(1)] row(2) in_row(2) by auto
      then show ?thesis using a old val by (auto simp: sent_as_def attempts_of_def wire)
    qed
    then show "sent_as H r w' \<le> length (attempts_of (or_id r) (w_db w'))" "length (attempts_of (or_id r) (w_db w')) \<le> 1"
      by blast+
  qed
qed

lemma custody_step:
  assumes "runtime_step H rdec renc ecrec w w'" "custody H w"
  shows "custody H w'"
proof -
  have t: "tables_ok (w_db w')" using tables_step [OF assms(1)] assms(2) by (simp add: custody_def)
  from quiet.quiet_step_keeps [OF assms(1), of "x_signed (w_db w)" "x_attempts (w_db w)"]
  consider (quiet) "prefix (x_signed (w_db w)) (x_signed (w_db w'))" "x_attempts (w_db w') = x_attempts (w_db w)"
      "w_wire w' = w_wire w"
    | (exact) transport ad s g provider now retry where
        "w' = snd (submit_exact_bytes H transport ad s g provider now retry w)"
    | (approval) transport sv raw s g provider now where
        "w' = snd (submit_signed_approval H transport sv raw s g provider now w)"
    by auto
  then show ?thesis
  proof cases
    case quiet
    show ?thesis by (rule custody_quiet [OF assms(2) t quiet])
  next
    case exact
    show ?thesis
      using submit_exact_effect [of H transport ad s g provider now retry w, folded exact] assms(2) t
        custody_sends [OF assms(2) t] by (elim disjE exE conjE) (simp, metis signed_origin.distinct(5))+
  next
    case approval
    show ?thesis
      using submit_approval_effect [of H transport sv raw s g provider now w, folded approval] assms(2)
        custody_sends [OF assms(2) t] by (elim disjE exE conjE) (simp, metis)
  qed
qed

subsection \<open>What reached the wire\<close>

text \<open>From any well-formed database with nothing sent and nothing tried.\<close>

lemma unsent_custody:
  "tables_ok (w_db w) \<Longrightarrow> x_attempts (w_db w) = [] \<Longrightarrow> w_wire w = [] \<Longrightarrow> custody H w"
  by (simp add: custody_def sent_as_def attempts_of_def)

lemma later_custody: "(runtime_step H rdec renc ecrec)\<^sup>*\<^sup>* w w' \<Longrightarrow> custody H w \<Longrightarrow> custody H w'"
  by (induction rule: rtranclp_induct) (auto dest: custody_step)

text \<open>What the tables say of one signed row: it is the only one of its action and of its digest.\<close>

lemma signed_row_facts:
  assumes "tables_ok x" "r \<in> set (x_signed x)"
  shows "has_row wx_id (or_action r) (x_actions x) \<and> has_row ws_id (wg_session r) (x_sessions x) \<and>
    \<not> has_row or_action (or_action r) (x_refs x) \<and>
    (\<forall>r' \<in> set (x_signed x). or_action r' = or_action r \<or> wg_sha256 r' = wg_sha256 r \<longrightarrow> r' = r)"
proof -
  have "inj_on or_action (set (x_signed x))" "inj_on wg_sha256 (set (x_signed x))"
    using assms(1) by (simp_all add: tables_ok_def action_keys_def distinct_map)
  moreover have "single_origin x" "signed_refers x r"
    using assms by (auto simp: tables_ok_def resolve_in_def list_all_iff)
  ultimately show ?thesis
    using assms(2) by (simp add: single_origin_def signed_refers_def inj_on_def)
qed

text \<open>
  \<^bold>\<open>C11.\<close> No byte string leaves the process unless a durable row of the ledger holds its digest,
  with the action it belongs to and the session it was admitted in. It is the only signed row with
  that digest and the only one of its action, which has no external transaction beside it. So it is
  in every run from well-formed tables with nothing sent and no attempt recorded, whatever the
  transport, the arguments of the operations and their failures.
\<close>

theorem sent_bytes_in_custody:
  assumes "tables_ok (w_db w)" "x_attempts (w_db w) = []" "w_wire w = []"
    and "(runtime_step H rdec renc ecrec)\<^sup>*\<^sup>* w w'" "raw \<in> set (w_wire w')"
  shows "\<exists>r \<in> set (x_signed (w_db w')). wg_sha256 r = H (byte_text raw) \<and>
    has_row wx_id (or_action r) (x_actions (w_db w')) \<and> has_row ws_id (wg_session r) (x_sessions (w_db w')) \<and>
    \<not> has_row or_action (or_action r) (x_refs (w_db w')) \<and>
    (\<forall>r' \<in> set (x_signed (w_db w')). or_action r' = or_action r \<or> wg_sha256 r' = wg_sha256 r \<longrightarrow> r' = r)"
proof -
  have c: "custody H w'" by (rule later_custody [OF assms(4) unsent_custody [OF assms(1-3)]])
  then obtain r where "r \<in> set (x_signed (w_db w'))" "wg_sha256 r = H (byte_text raw)"
    using assms(5) unfolding custody_def by blast
  with c signed_row_facts show ?thesis unfolding custody_def by blast
qed

text \<open>
  \<^bold>\<open>C12.\<close> A signed approval is sent at most once, ever: in every such run the wire carries its
  bytes at most once, and never without the attempt that was made durable before they were sent.
\<close>

theorem approval_sent_at_most_once:
  assumes "tables_ok (w_db w)" "x_attempts (w_db w) = []" "w_wire w = []"
    and "(runtime_step H rdec renc ecrec)\<^sup>*\<^sup>* w w'" "r \<in> set (x_signed (w_db w'))" "wg_origin r = FROM_APPROVAL"
  shows "length (filter (\<lambda>raw. H (byte_text raw) = wg_sha256 r) (w_wire w')) \<le> length (attempts_of (or_id r) (w_db w')) \<and>
    length (attempts_of (or_id r) (w_db w')) \<le> 1"
  using later_custody [OF assms(4) unsent_custody [OF assms(1-3)]] assms(5,6)
  by (simp add: custody_def sent_as_def)

end
