(* ===== verification/Halt.thy ===== *)
theory Halt
  imports Accounted Custody
begin

text \<open>
  The kill switch: once it is engaged the runtime only records evidence and accounts for what
  was already sent. Below, the operations that it stops, then its effect on every run.
\<close>

subsection \<open>What prepares or causes an external effect\<close>

definition effects ::
  "exec_db \<Rightarrow> session_row list \<times> approval_row list \<times> envelope_row list \<times> action_row list \<times> signed_row list \<times>
     attempt_row list" where
  "effects x = (x_sessions x, x_approvals x, x_envelopes x, x_actions x, x_signed x, x_attempts x)"

lemma kill_engaged_snoc:
  assumes "kill_engaged x" "wk_engaged k \<in> {0, 1}"
  shows "kill_engaged (x\<lparr>x_controls := x_controls x @ [k]\<rparr>)"
proof -
  have "foldr max (ns @ [n]) 0 = max (foldr max ns 0) (max n (0 :: int))" for ns n
    by (induction ns) (auto simp: max.assoc)
  with assms show ?thesis by (auto simp: kill_engaged_def)
qed

lemma kill_engaged_elsewhere [simp]:
  "kill_engaged (x\<lparr>x_core := d\<rparr>) = kill_engaged x" "kill_engaged (x\<lparr>x_roots := wrs\<rparr>) = kill_engaged x"
  "kill_engaged (x\<lparr>x_refs := fs\<rparr>) = kill_engaged x" "kill_engaged (x\<lparr>x_observations := cs\<rparr>) = kill_engaged x"
  "kill_engaged (x\<lparr>x_reconciliations := vs\<rparr>) = kill_engaged x" "kill_engaged (x\<lparr>x_prepares := ps\<rparr>) = kill_engaged x"
  by (simp_all add: kill_engaged_def)

interpretation stopped: evidence_invariant H "\<lambda>x. kill_engaged x \<and> effects x = p" for H p
  by unfold_locales
    (auto simp: effects_def kill_engaged_snoc dest!: insert_effects update_effects)

subsection \<open>What the kill switch stops\<close>

definition stops :: "(exec_db, error, 'a) body \<Rightarrow> exec_db \<Rightarrow> bool" where
  "stops m x \<longleftrightarrow> (\<forall>v x'. m x \<noteq> (Inr v, x'))"

lemma stops_sbind: "stops m x \<Longrightarrow> stops (sbind m f) x"
  by (auto simp: stops_def sbind_eq_Inr)

lemma stops_txn: "stops m x \<Longrightarrow> snd (exec_txn m x) = x"
  by (auto simp: stops_def exec_txn_def split: prod.splits sum.splits)

lemma stops_gate:
  "(\<And>v. g = Inr v \<Longrightarrow> stops (m v) x) \<Longrightarrow> snd (case g of Inl e \<Rightarrow> (Inl e, x) | Inr v \<Rightarrow> exec_txn (m v) x) = x"
  by (cases g) (auto intro: stops_txn)

lemma stops_rejected: "kill_engaged x \<Longrightarrow> stops reject_if_killed x"
  by (simp add: stops_def shared_reads_Inr)

lemma authorize_killed:
  assumes "kill_engaged x" "c \<notin> KILL_SWITCH_PRESERVED_CAPABILITIES"
  shows "authorize H s (Live g) c now safe_halt x \<noteq> Inr l"
  using assms unfolding authorize_def by (auto simp: rbind_eq_Inr require_effective_eq_Inr halted_def)

lemma killed_capabilities:
  "RESERVE_CAPITAL \<notin> KILL_SWITCH_PRESERVED_CAPABILITIES" "SUBMIT_EXACT_BYTES \<notin> KILL_SWITCH_PRESERVED_CAPABILITIES"
  by (simp_all add: KILL_SWITCH_PRESERVED_CAPABILITIES_def)

lemma killed_bodies:
  assumes k: "kill_engaged x"
  shows "stops (record_envelope_body H ev s g eq) x" "stops (record_approval_body H pv s ex r now l) x"
    "stops (preauth_bundle_body H pv v i s g now) x" "stops (native_buy_body H v i s g now) x"
    "stops (native_sell_body H pv v i s now) x" "stops (admit_exact_body H sc raw vd s now) x"
    "stops (admit_approval_body H sv s now) x" "stops (guard_approval_body H sv gd s now) x"
  unfolding record_envelope_body_def record_approval_body_def preauth_bundle_body_def native_buy_body_def
    native_sell_body_def preauth_action_def admit_exact_body_def admit_approval_body_def guard_approval_body_def Let_def
  by (intro stops_sbind stops_rejected k)+

lemma killed_ops:
  assumes k: "kill_engaged x"
  shows "snd (create_execution_session H s g now x) = x"
    "snd (reserve_action H a s g now x) = x"
    "snd (record_execution_envelope H ev s g eq x) = x"
    "snd (record_approval_action H pv s g ex r now l x) = x"
    "snd (record_ink_v0f_preauth_bundle H live i s g now x) = x"
    "snd (record_ink_v0f_native_buy_preauth H live_v i s g now x) = x"
    "snd (record_ink_v0f_native_sell_preauth_bundle H live fp fv prep i s g nonce constructed now x) = x"
    "snd (admit_exact_signed_bytes H rdec renc ecrec sc raw s g now x) = x"
    "snd (admit_signed_approval H rdec renc ecrec aq raw s g now x) = x"
    "snd (resume_quarantined_exact_signed_bytes H rq s g x) = x"
proof -
  show "snd (create_execution_session H s g now x) = x"
    by (auto simp: create_execution_session_def split: sum.splits option.splits
        intro!: stops_txn stops_sbind stops_rejected k)
  show "snd (reserve_action H a s g now x) = x"
    by (cases "authorize H s (Live g) RESERVE_CAPITAL now False x")
      (use authorize_killed [OF k killed_capabilities(1)] in \<open>auto simp: reserve_action_def\<close>)
  show "snd (resume_quarantined_exact_signed_bytes H rq s g x) = x"
    by (cases "authorize H s (Live g) SUBMIT_EXACT_BYTES (rq_now rq) False x")
      (use authorize_killed [OF k killed_capabilities(2)] in \<open>auto simp: resume_quarantined_exact_signed_bytes_def\<close>)
  show "snd (record_execution_envelope H ev s g eq x) = x"
    "snd (record_approval_action H pv s g ex r now l x) = x"
    "snd (record_ink_v0f_preauth_bundle H live i s g now x) = x"
    "snd (record_ink_v0f_native_buy_preauth H live_v i s g now x) = x"
    "snd (record_ink_v0f_native_sell_preauth_bundle H live fp fv prep i s g nonce constructed now x) = x"
    "snd (admit_exact_signed_bytes H rdec renc ecrec sc raw s g now x) = x"
    "snd (admit_signed_approval H rdec renc ecrec aq raw s g now x) = x"
    unfolding record_execution_envelope_def record_approval_action_def record_ink_v0f_preauth_bundle_def
      record_ink_v0f_native_buy_preauth_def record_ink_v0f_native_sell_preauth_bundle_def
      admit_exact_signed_bytes_def admit_signed_approval_def
    by (intro stops_gate stops_sbind killed_bodies k)+
qed

lemma killed_submissions:
  assumes k: "kill_engaged (w_db w)"
  shows "snd (submit_exact_bytes H transport ad s g provider now retry w) = w"
    "snd (submit_signed_approval H transport sv raw s g provider now w) = w"
proof -
  note refused = authorize_killed [OF k killed_capabilities(2)]
  have "submission_gate H ad s g provider now retry (w_db w) \<noteq> Inr u" for u
    unfolding submission_gate_def Let_def by (simp add: rbind_eq_Inr refused)
  then show "snd (submit_exact_bytes H transport ad s g provider now retry w) = w"
    by (cases "submission_gate H ad s g provider now retry (w_db w)") (auto simp: submit_exact_bytes_def Let_def)
  have "approval_gate H sv raw s g provider now (w_db w) \<noteq> Inr u" for u
    unfolding approval_gate_def Let_def by (simp add: rbind_eq_Inr refused)
  then show "snd (submit_signed_approval H transport sv raw s g provider now w) = w"
    by (cases "approval_gate H sv raw s g provider now (w_db w)") (auto simp: submit_signed_approval_def)
qed

lemma killed_step:
  assumes "runtime_step H rdec renc ecrec w w'" "kill_engaged (w_db w)"
  shows "kill_engaged (w_db w') \<and> effects (w_db w') = effects (w_db w) \<and> w_wire w' = w_wire w"
  using assms(1)
  by cases (use stopped.evidence_op_keeps [OF conjI [OF assms(2) refl]] assms(2) in
    \<open>simp_all add: killed_ops [OF assms(2)] killed_submissions [OF assms(2)]\<close>)

text \<open>The two operations that would put capital at risk again refuse.\<close>

lemma killed_refusals:
  assumes k: "kill_engaged x"
  shows "\<exists>e. reserve_action H a s g now x = (Inl e, x)"
    "\<exists>e. resume_quarantined_exact_signed_bytes H q s g x = (Inl e, x)"
proof -
  have refused: "\<exists>e. authorize H s (Live g) c now False x = Inl e" if "c \<in> {RESERVE_CAPITAL, SUBMIT_EXACT_BYTES}" for c now
    using authorize_killed [OF k, of c H s g now False] that killed_capabilities
    by (cases "authorize H s (Live g) c now False x") auto
  show "\<exists>e. reserve_action H a s g now x = (Inl e, x)"
    using refused [of RESERVE_CAPITAL now] by (auto simp: reserve_action_def)
  show "\<exists>e. resume_quarantined_exact_signed_bytes H q s g x = (Inl e, x)"
    using refused [of SUBMIT_EXACT_BYTES "rq_now q"] by (auto simp: resume_quarantined_exact_signed_bytes_def rbind_def)
qed

text \<open>
  \<^bold>\<open>C13.\<close> The engaged kill switch freezes every external effect: in whatever the process does
  after it, no session, approval, envelope, action, signed transaction or attempt is added or
  changed, nothing is sent, and the switch stays engaged. At every later moment the runtime refuses
  to reserve capital and to resume quarantined bytes, and the refusal changes nothing. Evidence and
  accounting go on; an operation of the core ledger that is called beside the runtime does not read
  the switch, so the reservations are not among the frozen tables.
\<close>

theorem kill_switch_freezes:
  assumes "(runtime_step H rdec renc ecrec)\<^sup>*\<^sup>* w w'" "kill_engaged (w_db w)"
  shows "kill_engaged (w_db w') \<and> effects (w_db w') = effects (w_db w) \<and> w_wire w' = w_wire w \<and>
    (\<exists>e. reserve_action H a s g now (w_db w') = (Inl e, w_db w')) \<and>
    (\<exists>e. resume_quarantined_exact_signed_bytes H q s g (w_db w') = (Inl e, w_db w'))"
proof -
  have "kill_engaged (w_db w') \<and> effects (w_db w') = effects (w_db w) \<and> w_wire w' = w_wire w"
    using assms by (induction rule: rtranclp_induct) (auto dest: killed_step)
  then show ?thesis by (simp add: killed_refusals)
qed

end
