(* ===== verification/Outcomes.thy ===== *)
theory Outcomes
  imports Halt ChainEvidence
begin

text \<open>
  What the two operations that close an uncertain episode do: the resumption of a quarantined
  byte string, and the reconciliation of an action with the chain.
\<close>

subsection \<open>Resumption\<close>

text \<open>
  The facts a resumption rests on: the bytes are held and no attempt of them is recorded, nothing
  says how the action ended, and two sources miss the transaction. That no attempt is recorded does
  not mean that nothing was sent: a submission of exact bytes sends them before it records anything.
\<close>

definition held_untried :: "resume_request \<Rightarrow> signed_row \<Rightarrow> exec_db \<Rightarrow> bool" where
  "held_untried q tx x \<longleftrightarrow> tx \<in> set (x_signed x) \<and> or_action tx = rq_action q \<and> wg_origin tx = EXTERNAL_SIGNED_BYTES \<and>
     wg_sha256 tx = rq_sha256 q \<and> or_hash tx = rq_hash q \<and> wg_nonce tx = rq_nonce q \<and>
     attempts_of (or_id tx) x = [] \<and> \<not> has_row rr_action (rq_action q) (x_reconciliations x) \<and>
     \<not> has_row fr_action (rq_action q) (fill_receipts (x_core x)) \<and> \<not> has_row or_action (rq_action q) (x_refs x)"

definition missed_by_two :: "resume_request \<Rightarrow> bool" where
  "missed_by_two q \<longleftrightarrow> 2 \<le> card (ob_provider_id ` set (rq_absence q)) \<and>
     (\<forall>v \<in> set (rq_absence q). ob_presence v = P_ABSENT \<and> ob_transaction_hash v = rq_hash q \<and>
        ob_observed_at_epoch_s v \<le> rq_now q \<and> rq_now q < ob_observed_at_epoch_s v + rq_max_age q)"

lemma resume_facts:
  assumes "resume_checks H q s i x = Inr tx" "resume_arguments q = Inr ()"
  shows "held_untried q tx x \<and> missed_by_two q"
proof -
  have "held_untried q tx x" and fresh: "fresh_absence q = Inr ()"
    using assms(1) unfolding resume_checks_def Let_def rbind_eq_Inr held_untried_def
    by (auto simp: res_simps dest: find_row_SomeD split: option.splits)
  moreover have "2 \<le> card (ob_provider_id ` set (rq_absence q))"
    using fresh assms(2) unfolding fresh_absence_def resume_arguments_def Let_def rbind_eq_Inr
    by (auto simp: res_simps distinct_card [of "map ob_provider_id (rq_absence q)", simplified])
  moreover have "ob_presence v = P_ABSENT \<and> ob_transaction_hash v = rq_hash q \<and>
        ob_observed_at_epoch_s v \<le> rq_now q \<and> rq_now q < ob_observed_at_epoch_s v + rq_max_age q"
    if "v \<in> set (rq_absence q)" for v
    using fresh that unfolding fresh_absence_def Let_def rbind_eq_Inr
    by (auto simp: res_simps check_all_eq_Inr)
  ultimately show ?thesis by (simp add: missed_by_two_def)
qed

lemma resume_effect:
  assumes "resume_quarantined_exact_signed_bytes H q s g x = (Inr v, x')" "\<not> rz_already_resumed v" "ledger_inv (x_core x)"
  shows "\<exists>i tx e. find_row nr_id (rq_action q) (intents (x_core x)) = Some i \<and> nr_state i = SAFE_HALT \<and>
    held_untried q tx x \<and> missed_by_two q \<and> rz_signed_transaction_id v = or_id tx \<and>
    x' = x\<lparr>x_core := x_core x'\<rparr> \<and> resume_event (rq_action q) e \<and>
    x_core x' = push_event e (moved (rq_action q) SIGNED (ACTIVE, None) ((x_core x)\<lparr>exec_surface := None\<rparr>))"
proof -
  have run: "exec_txn (resume_body H q s g) x = (Inr v, x')" and args: "resume_arguments q = Inr ()"
    using assms(1) unfolding resume_quarantined_exact_signed_bytes_def
    by (auto simp: rbind_eq_Inr split: sum.splits)
  then have body: "resume_body H q s g x = (Inr v, x')" by (auto simp: exec_txn_def split: prod.splits sum.splits)
  from resume_body_Inr [OF body] assms(2) obtain i tx d where
    i: "resumable H q s i x" and checks: "resume_checks H q s i x = Inr tx" and id: "rz_signed_transaction_id v = or_id tx"
    and w: "resume_write (rq_action q) i (rq_now q) (resume_payload H q s g (or_id tx) (nr_exposure i)) (view x) = (Inr (), d)"
    and x': "x' = x\<lparr>x_core := d\<lparr>exec_surface := None\<rparr>\<rparr>"
    by blast
  have row: "find_row nr_id (rq_action q) (intents (x_core x)) = Some i" "nr_state i = SAFE_HALT"
    using i by (simp_all add: resumable_def)
  have "quarantine_fits (rq_action q) i (view x)" using resumable_fits [OF i] by (simp add: quarantine_fits_view)
  from resume_write_effect [OF w this inv_parts(7) [OF assms(3) row(1)]]
  have "d = push_event (event_of (view x) EXACT_BYTES_RESUMED (nr_policy i) (nr_cycle i) (Some (rq_action q))
      (Some (Intent SAFE_HALT)) (Some (Intent SIGNED)) (rq_now q) (JObj (resume_payload H q s g (or_id tx) (nr_exposure i))))
      (moved (rq_action q) SIGNED (ACTIVE, None) (view x))" .
  then have "x_core x' = push_event (event_of (view x) EXACT_BYTES_RESUMED (nr_policy i) (nr_cycle i) (Some (rq_action q))
      (Some (Intent SAFE_HALT)) (Some (Intent SIGNED)) (rq_now q) (JObj (resume_payload H q s g (or_id tx) (nr_exposure i))))
      (moved (rq_action q) SIGNED (ACTIVE, None) ((x_core x)\<lparr>exec_surface := None\<rparr>))"
    by (simp add: x' push_event_def moved_def view_def)
  moreover have "resume_event a (event_of (view x) EXACT_BYTES_RESUMED p c (Some a) (Some (Intent SAFE_HALT)) (Some (Intent SIGNED)) n pl)"
    for p c a n pl
    by (simp add: event_of_def resume_event_def)
  moreover have "x' = x\<lparr>x_core := x_core x'\<rparr>" by (simp add: x')
  ultimately show ?thesis using row resume_facts [OF checks args] id by blast
qed

text \<open>The other way to return: the action was resumed before.\<close>

lemma found_member: "find P xs = Some e \<Longrightarrow> e \<in> set xs \<and> P e"
  by (auto simp: find_Some_iff)

lemma resumed_before:
  assumes "resume_quarantined_exact_signed_bytes H q s g x = (Inr v, x')" "rz_already_resumed v"
  shows "x' = x \<and> (\<exists>i ev tx. find_row nr_id (rq_action q) (intents (x_core x)) = Some i \<and> nr_state i = SIGNED \<and>
    ev \<in> set (state_events (x_core x)) \<and> resume_event (rq_action q) ev \<and>
    tx \<in> set (x_signed x) \<and> or_action tx = rq_action q \<and> rz_signed_transaction_id v = or_id tx)"
proof -
  have "exec_txn (resume_body H q s g) x = (Inr v, x')"
    using assms(1) unfolding resume_quarantined_exact_signed_bytes_def by (auto split: sum.splits)
  then have "resume_body H q s g x = (Inr v, x')" by (auto simp: exec_txn_def split: prod.splits sum.splits)
  with assms(2) show ?thesis
    unfolding resume_body_def Let_def
    by (auto simp: sbind_eq_Inr shared_reads_Inr sguard_eq_Inr sget_eq slift_eq sret_eq sraise_eq in_store_Inr
        case_option_run split: if_splits dest!: found_member find_row_SomeD [of or_action]) blast
qed

text \<open>
  \<^bold>\<open>C14.\<close> A call that resumes quarantined bytes returns in one of two ways. Either it resumes
  them: the action was in SAFE_HALT, the ledger holds the bytes and has no attempt of them on
  record, no reconciliation, receipt or external transaction of the action, and at least two
  sources that were asked freshly miss the transaction; then it adds its event, the action is
  SIGNED again and its capital ACTIVE, and nothing else changes. Or it reports that they were
  resumed before: the action is SIGNED, the event of that resumption is in the log, and nothing
  changes at all. A call that raises changes nothing either.
\<close>

theorem resume_restores_episode:
  assumes "ledger_inv (x_core x)"
  shows "case resume_quarantined_exact_signed_bytes H q s g x of
      (Inl e, x') \<Rightarrow> x' = x
    | (Inr v, x') \<Rightarrow> if rz_already_resumed v then x' = x \<and>
        (\<exists>i ev tx. find_row nr_id (rq_action q) (intents (x_core x)) = Some i \<and> nr_state i = SIGNED \<and>
          ev \<in> set (state_events (x_core x)) \<and> resume_event (rq_action q) ev \<and>
          tx \<in> set (x_signed x) \<and> or_action tx = rq_action q \<and> rz_signed_transaction_id v = or_id tx) else
        \<exists>i tx e. find_row nr_id (rq_action q) (intents (x_core x)) = Some i \<and> nr_state i = SAFE_HALT \<and>
          held_untried q tx x \<and> missed_by_two q \<and> rz_signed_transaction_id v = or_id tx \<and>
          x' = x\<lparr>x_core := x_core x'\<rparr> \<and> resume_event (rq_action q) e \<and>
          x_core x' = push_event e (moved (rq_action q) SIGNED (ACTIVE, None) ((x_core x)\<lparr>exec_surface := None\<rparr>))"
proof (cases "resume_quarantined_exact_signed_bytes H q s g x")
  case (Pair r x')
  show ?thesis
  proof (cases r)
    case (Inl e)
    then show ?thesis using Pair
      by (auto simp: resume_quarantined_exact_signed_bytes_def exec_txn_def split: sum.splits prod.splits)
  next
    case (Inr v)
    then have run: "resume_quarantined_exact_signed_bytes H q s g x = (Inr v, x')" using Pair by simp
    show ?thesis
    proof (cases "rz_already_resumed v")
      case True
      from resumed_before [OF run this] show ?thesis
        unfolding Pair Inr prod.case sum.case using True by simp
    next
      case False
      from resume_effect [OF run this assms] show ?thesis
        unfolding Pair Inr prod.case sum.case using False by simp
    qed
  qed
qed

subsection \<open>Reconciliation\<close>

text \<open>Nothing but the receipt of a confirmed settlement adds a receipt.\<close>

lemma keeps_receipts_core:
  "keeps (\<lambda>d. fill_receipts d = rs) (transition_body a st now facts)"
  "keeps (\<lambda>d. fill_receipts d = rs) (recover_safe_halt_body a st now)"
proof -
  note low = keeps_sput keeps_swrite
  have ev: "keeps (\<lambda>d. fill_receipts d = rs) (append_event etype pid cid aid from to n payload)"
    for etype pid cid aid "from" to n payload
    by (auto simp: keeps_def append_event_Inr push_event_def dest!: insert_event_push)
  have res: "keeps (\<lambda>d. fill_receipts d = rs) (swrite (insert_reservation br))" for br
    by (auto intro!: keeps_swrite simp: res_simps)
  have upd: "keeps (\<lambda>d. fill_receipts d = rs) (sput (update_intent_state a st))"
    "keeps (\<lambda>d. fill_receipts d = rs) (sput (update_reservation a v sq))"
    "keeps (\<lambda>d. fill_receipts d = rs) (sput (\<lambda>d. update_reservation a v (Some (next_seq d)) d))" for a st v sq
    by (auto intro!: keeps_sput simp: table_updates)
  show "keeps (\<lambda>d. fill_receipts d = rs) (transition_body a st now facts)"
    unfolding transition_body_def transition_effect_def reserve_def settle_reservation_def Let_def
    by (intro keeps_intros ev res upd)
  show "keeps (\<lambda>d. fill_receipts d = rs) (recover_safe_halt_body a st now)"
    unfolding recover_safe_halt_body_def recovery_evidence_def recovery_release_def unquarantine_def
    by (intro keeps_intros ev upd)
qed

abbreviation same_receipts :: "receipt_row list \<Rightarrow> exec_db \<Rightarrow> bool" where
  "same_receipts rs \<equiv> \<lambda>x. fill_receipts (x_core x) = rs"

lemma keeps_in_store_core: "keeps (\<lambda>d. fill_receipts d = rs) m \<Longrightarrow> keeps (same_receipts rs) (in_store m)"
  unfolding keeps_def by (auto simp: in_store_Inr view_def)

lemma keeps_receipts:
  "keeps (same_receipts rs) (store_transition a st now facts)" "keeps (same_receipts rs) (store_recovery a st now)"
  "keeps (same_receipts rs) (store_reconciliation H a truth now rcpt)"
proof -
  show "keeps (same_receipts rs) (store_transition a st now facts)" "keeps (same_receipts rs) (store_recovery a st now)"
    unfolding store_transition_def store_recovery_def by (intro keeps_in_store_core keeps_receipts_core)+
  have "keeps (same_receipts rs) (insert_or_match rr_id x_reconciliations (=) insert_reconciliation r)" for r
    by (rule keeps_insert_or_match) (auto dest!: insert_effects(7))
  then show "keeps (same_receipts rs) (store_reconciliation H a truth now rcpt)"
    unfolding store_reconciliation_def by (intro keeps_intros)
qed

lemma keeps_receipts_settling:
  "keeps (same_receipts rs) (advance_to_chain_state a st goal now external)"
  "keeps (same_receipts rs) (reconcile_again H a old truth rcpt now)"
  "keeps (same_receipts rs) (settle_ambiguous H a truth now st)"
  "keeps (same_receipts rs) (settle_reverted H a truth now st og)"
  unfolding advance_to_chain_state_def advance_to_included_def reconcile_again_def settle_ambiguous_def settle_reverted_def Let_def
  by (intro keeps_intros keeps_receipts)+

lemma receipt_appended:
  assumes "append_fill_receipt_in_transaction r now d = (Inr ok, d')"
  shows "\<exists>f. receipt_row_of r (next_seq d) = Inr f \<and> fill_receipts d' = fill_receipts d @ [f]"
proof -
  have frame: "fill_receipts (push_event e d) = fill_receipts d" "fill_receipts (settled a v d) = fill_receipts d"
    "fill_receipts (update_intent_state a st d) = fill_receipts d" for e d a v st
    by (simp_all add: push_event_def settled_def table_updates split: option.splits)
  obtain i f where f: "receipt_row_of r (next_seq d) = Inr f"
    and fin: "if \<not> ok \<and> nr_state i \<noteq> SAFE_HALT then
       is_legal_transition (nr_state i) SAFE_HALT \<and>
       (let d1 = push_event (receipt_event i r now d) (with_receipt f d);
            e = transition_event i SAFE_HALT now halt_payload d1;
            d2 = update_intent_state (nr_id i) SAFE_HALT (settled (nr_id i) QUARANTINED d1)
        in insert_event e d2 = Inr d' \<and> d' = push_event e d2)
     else d' = push_event (receipt_event i r now d) (with_receipt f d)"
    using append_receipt_Inr [OF assms] by blast
  have "fill_receipts d' = fill_receipts d @ [f]"
    using fin by (auto simp only: Let_def frame with_receipt_def split: if_splits) simp_all
  with f show ?thesis by blast
qed

lemma run_checked:
  "sbind (slift r) (\<lambda>v. sbind (sguard (g v) e) (\<lambda>_. sbind (m v) (k v))) x = (Inr u, x') \<longleftrightarrow>
     (\<exists>v y x1. r = Inr v \<and> g v \<and> m v x = (Inr y, x1) \<and> k v y x1 = (Inr u, x'))"
  by (auto simp: sbind_eq_Inr slift_eq sguard_eq_Inr)

lemma settle_confirmed_effect:
  assumes "settle_confirmed H a truth binding ex bounds og q st x = (Inr u, x')"
  shows "\<exists>va rid fee now src rc n f. reconcile_to_receipt ex truth bounds va rid fee now src = Inr rc \<and>
    receipt_row_of rc n = Inr f \<and> fill_receipts (x_core x') = fill_receipts (x_core x) @ [f]"
proof (cases "tr_receipt q")
  case None
  then show ?thesis using assms by (simp add: settle_confirmed_def Let_def sraise_eq)
next
  case (Some rid)
  let ?rest = "\<lambda>rc ok. sbind (store_reconciliation H a truth (tr_now q) (Some (rc_receipt_id rc))) (\<lambda>_.
      if \<not> ok then sret () else if st = SAFE_HALT then store_recovery a RECONCILED (tr_now q)
      else sbind (read_state a) (\<lambda>here.
        sbind (advance_to_chain_state a here CONFIRMED (tr_now q) (case og of Referred _ \<Rightarrow> True | Signed _ \<Rightarrow> False)) (\<lambda>_.
        sbind (read_state a) (\<lambda>reached.
        if reached = CONFIRMED then
          store_transition a RECONCILED (tr_now q) (execution_note ''settlement_reconciled'')
        else sret ()))))"
  let ?va = "\<lparr>va_action = a, va_hash = or_hash binding, va_chain = or_chain binding, va_taker = or_taker binding, va_minted = True\<rparr>"
  have keep: "keeps (same_receipts rs) (?rest rc ok)" for rs rc ok
    by (intro keeps_intros keeps_receipts keeps_receipts_settling)
  obtain rc ok x1 where rc: "reconcile_to_receipt ex truth bounds ?va rid (tr_fee q)
        (case tr_observed_at q of None \<Rightarrow> tr_now q | Some t \<Rightarrow> t) (tr_source q) = Inr rc"
    and app: "in_store (append_execution_fill_receipt_body rc ?va (tr_now q)) x = (Inr ok, x1)"
    and rest: "?rest rc ok x1 = (Inr u, x')"
    using assms unfolding settle_confirmed_def Let_def Some option.case run_checked by blast
  obtain d where d: "append_execution_fill_receipt_body rc ?va (tr_now q) (view x) = (Inr ok, d)"
    "x1 = x\<lparr>x_core := d\<lparr>exec_surface := None\<rparr>\<rparr>"
    using app by (auto simp: in_store_Inr)
  obtain f where f: "receipt_row_of rc (next_seq (view x)) = Inr f" "fill_receipts d = fill_receipts (view x) @ [f]"
    using receipt_appended [OF execution_receipt_Inr [OF d(1)]] by blast
  have "fill_receipts (x_core x') = fill_receipts (x_core x1)" using keep rest unfolding keeps_def by blast
  then have "fill_receipts (x_core x') = fill_receipts (x_core x) @ [f]" using f(2) d(2) by (simp add: view_def)
  then show ?thesis using rc f(1) by blast
qed

text \<open>The readings of one transaction origin, as the runtime reads them back.\<close>

definition readings :: "string \<Rightarrow> origin \<Rightarrow> exec_db \<Rightarrow> error + ChainObservationV0 list" where
  "readings a og x = traverse observation_from_row
     (sort_key (\<lambda>r. ob_observed_at_epoch_s (wc_value r)) (sort_key wc_id
       (filter (\<lambda>r. wc_action r = a \<and> names_origin og r) (x_observations x))))"

lemma truth_for_action_Inr:
  assumes "truth_for_action H a og fin x = Inr (truth, binding, ex)"
  shows "\<exists>obs. readings a og x = Inr obs \<and> evaluate_chain_truth H ex obs fin = Inr truth \<and> se_action ex = a \<and>
    se_hash ex = or_hash binding"
  using assms unfolding truth_for_action_def readings_def rbind_eq_Inr by (auto simp: make_expectation_def split: if_splits)

lemma readings_made: "readings a og x = Inr obs \<Longrightarrow> list_all (\<lambda>v. make_observation v = Inr v) obs"
  unfolding readings_def traverse_eq_Inr observation_from_row_def make_observation_def
  by (induction rule: list_all2_induct) (auto simp: checked_def res_simps split: if_splits)

lemma list_all2_member: "list_all2 P xs ys \<Longrightarrow> y \<in> set ys \<Longrightarrow> \<exists>x \<in> set xs. P x y"
  by (induction rule: list_all2_induct) auto

lemma readings_stored:
  "readings a og x = Inr obs \<Longrightarrow> v \<in> set obs \<Longrightarrow> \<exists>r \<in> set (x_observations x). observation_from_row r = Inr v"
  unfolding readings_def traverse_eq_Inr by (drule (1) list_all2_member) auto

lemma settling_quietly:
  "reconcile_again H a old truth rcpt now x = (Inr u, x') \<Longrightarrow> fill_receipts (x_core x') = fill_receipts (x_core x)"
  "settle_ambiguous H a truth now st x = (Inr u, x') \<Longrightarrow> fill_receipts (x_core x') = fill_receipts (x_core x)"
  "settle_reverted H a truth now st og x = (Inr u, x') \<Longrightarrow> fill_receipts (x_core x') = fill_receipts (x_core x)"
  using keeps_receipts_settling(2) [of "fill_receipts (x_core x)"] keeps_receipts_settling(3) [of "fill_receipts (x_core x)"]
    keeps_receipts_settling(4) [of "fill_receipts (x_core x)"]
  unfolding keeps_def by simp_all

lemma settle_truth_receipts:
  assumes "settle_truth H a truth binding ex bounds og q x = (Inr u, x')"
  shows "fill_receipts (x_core x') = fill_receipts (x_core x) \<or>
    (\<exists>st. settle_confirmed H a truth binding ex bounds og q st x = (Inr u, x'))"
  using assms unfolding settle_truth_def
  by (auto simp: sbind_eq_Inr sget_eq sguard_eq_Inr shared_reads_Inr case_option_run split: if_splits dest: settling_quietly)

lemma reconcile_body_Inr:
  assumes "reconcile_body H a s fin cb q x = (Inr truth, x')"
  shows "\<exists>og binding ex i bounds u. settlement_origin H a s x = Inr og \<and>
    truth_for_action H a og fin x = Inr (truth, binding, ex) \<and>
    find_row nr_id a (intents (x_core x)) = Some i \<and> bounds_from_intent i = Inr bounds \<and>
    settle_truth H a truth binding ex bounds og q x = (Inr u, x')"
  using assms unfolding reconcile_body_def persisted_bounds_def
  by (auto simp: sbind_eq_Inr shared_reads_Inr sget_eq sguard_eq_Inr sret_eq slift_eq)

text \<open>The receipt a settlement adds, where it adds one.\<close>

lemma settle_truth_receipt:
  assumes "settle_truth H a truth binding ex b og q x = (Inr u, x')"
    and "inj_on (observation_id H) {v. \<exists>r \<in> set (x_observations x). observation_from_row r = Inr v}"
    and "make_finality fin = Inr fin" "readings a og x = Inr obs" "evaluate_chain_truth H ex obs fin = Inr truth" "se_action ex = a"
  shows "fill_receipts (x_core x') = fill_receipts (x_core x) \<or>
    (\<exists>F rc f. final_evidence H ex obs fin RS_SUCCESS F \<and> settled_by ex b F rc \<and>
       fill_receipts (x_core x') = fill_receipts (x_core x) @ [f] \<and> fr_action f = a \<and> fr_ref f = se_hash ex \<and>
       fr_input f = input_atomic_filled rc \<and> fr_output f = output_atomic_filled rc)"
  using settle_truth_receipts [OF assms(1)]
proof
  assume "\<exists>st. settle_confirmed H a truth binding ex b og q st x = (Inr u, x')"
  then obtain va rid fee now src rc n f where rec: "reconcile_to_receipt ex truth b va rid fee now src = Inr rc"
    and f: "receipt_row_of rc n = Inr f" "fill_receipts (x_core x') = fill_receipts (x_core x) @ [f]"
    by (auto dest!: settle_confirmed_effect)
  have "inj_on (observation_id H) (set obs)"
    by (rule inj_on_subset [OF assms(2)]) (use readings_stored [OF assms(4)] in auto)
  from receipt_only_from_final_evidence [OF readings_made [OF assms(4)] assms(3) this assms(5) rec]
  obtain F where F: "final_evidence H ex obs fin RS_SUCCESS F" "settled_by ex b F rc" by blast
  have "fr_action f = a" "fr_ref f = se_hash ex" "fr_input f = input_atomic_filled rc" "fr_output f = output_atomic_filled rc"
    using f(1) F(2) assms(6) by (auto simp: receipt_row_of_def rbind_eq_Inr settled_by_def store_atomic_eq split: if_splits)
  with F f(2) show ?thesis by blast
qed blast

text \<open>
  \<^bold>\<open>C15.\<close> A reconciliation adds a receipt only on final evidence: where it returns and a receipt was
  added, the stored readings of the action's one transaction are final evidence of success, and the
  receipt has the amounts every inclusion reported, for the bound action and transaction, within the
  bounds committed when the intent was created. An error leaves the database as it was. SHA-256 is
  assumed not to collide on the stored readings.
\<close>

theorem reconciled_receipt_is_final:
  assumes "inj_on (observation_id H) {v. \<exists>r \<in> set (x_observations x). observation_from_row r = Inr v}"
    and "make_finality fin = Inr fin"
  shows "case reconcile_external_action H a s proof fin cb q x of
      (Inl e, x') \<Rightarrow> x' = x
    | (Inr truth, x') \<Rightarrow> fill_receipts (x_core x') = fill_receipts (x_core x) \<or>
        (\<exists>og obs ex F i b rc f. settlement_origin H a s x = Inr og \<and> readings a og x = Inr obs \<and> se_action ex = a \<and>
           final_evidence H ex obs fin RS_SUCCESS F \<and> settled_by ex b F rc \<and>
           find_row nr_id a (intents (x_core x)) = Some i \<and> bounds_from_intent i = Inr b \<and>
           fill_receipts (x_core x') = fill_receipts (x_core x) @ [f] \<and> fr_action f = a \<and> fr_ref f = se_hash ex \<and>
           fr_input f = input_atomic_filled rc \<and> fr_output f = output_atomic_filled rc)"
proof (cases "reconcile_external_action H a s proof fin cb q x")
  case (Pair r x')
  show ?thesis
  proof (cases r)
    case (Inl e)
    then show ?thesis using Pair by (auto simp: reconcile_external_action_def exec_txn_def split: sum.splits prod.splits)
  next
    case (Inr truth)
    then have "reconcile_body H a s fin cb q x = (Inr truth, x')"
      using Pair by (auto simp: reconcile_external_action_def exec_txn_def split: sum.splits prod.splits)
    from reconcile_body_Inr [OF this] obtain og binding ex i b where og: "settlement_origin H a s x = Inr og"
      "find_row nr_id a (intents (x_core x)) = Some i" "bounds_from_intent i = Inr b"
      and truth: "truth_for_action H a og fin x = Inr (truth, binding, ex)"
      and run: "settle_truth H a truth binding ex b og q x = (Inr (), x')" by auto
    from truth_for_action_Inr [OF truth] obtain obs where obs: "readings a og x = Inr obs"
      "evaluate_chain_truth H ex obs fin = Inr truth" "se_action ex = a" by blast
    from settle_truth_receipt [OF run assms obs] og obs show ?thesis
      unfolding Pair Inr prod.case sum.case by blast
  qed
qed

end
