(* ===== verification/Rehearsal.thy ===== *)
theory Rehearsal
  imports Outcomes Recovery SampleFill
begin

text \<open>
  A concrete run of the runtime on the sample ledger: a session of the Ink scope, the envelope of
  its reserved action, a transaction made elsewhere, a halt, the evidence of the chain and the
  reconciliation. The facts of the runtime are applied to it.
\<close>

subsection \<open>The session\<close>

definition desk_policy :: AuthorityPolicyRefV0 where
  "desk_policy = ink_grant\<lparr>ap_max_reservation_atomic := 100000000, ap_max_cumulative_atomic := 150000000\<rparr>"

definition desk_grant :: VerifiedAuthorityGrantV0 where
  "desk_grant = verified_authority_result sample_hash (ink_receipt\<lparr>gr_authority_policy := desk_policy\<rparr>) ink_anchor"

definition desk_session :: ExecutionSessionV0 where
  "desk_session = ink_session\<lparr>es_policy_id := sample_digest, es_authority_policy_digest := sample_digest\<rparr>"

definition desk_row :: session_row where
  "desk_row = \<lparr>ws_id = sample_digest, ws_identity_digest = sample_digest, ws_session = session_columns desk_session,
     ws_root_id = ''root-one'', ws_level = 3\<rparr>"

lemma desk_digests [simp]: "digest_object sample_hash j = sample_digest" "sample_hash s = sample_digest"
  "session_instance_id sample_hash s' = sample_digest" "session_identity_digest sample_hash s' = sample_digest"
  "es_authority_policy_digest desk_session = sample_digest" "es_taker_address desk_session = INK_V0F_TAKER_ADDRESS"
  "es_network_id desk_session = ''evm:57073''" "es_policy_id desk_session = sample_digest"
  by (simp_all add: digest_object_def sample_hash_def session_instance_id_def session_identity_digest_def
      desk_session_def ink_session_def)

lemma desk_grant_fields [simp]: "vg_policy desk_grant = desk_policy" "vg_root_id desk_grant = ''root-one''"
  by (simp_all add: desk_grant_def verified_authority_result_def ink_receipt_def ink_anchor_def)

lemma desk_binds: "binds sample_hash desk_session desk_policy" "current desk_policy 1000"
  by (simp_all add: binds_def current_def authority_policy_digest_def)
    (simp_all add: desk_policy_def ink_grant_def desk_session_def ink_session_def)

lemma desk_level: "phase_scoped_runtime_level (min PHASE_GRANTED_AUTHORITY_LEVEL (ap_granted_level desk_policy)) desk_session =
    HUMAN_SIGNED_EXECUTION"
  by (simp add: PHASE_GRANTED_AUTHORITY_LEVEL_def phase_scoped_runtime_level_def ink_network level_order_defs min_def
      desk_policy_def ink_grant_def) (simp add: desk_session_def ink_session_def ink_network)

lemma desk_authorized:
  assumes "\<not> kill_engaged x" "x_sessions x = [] \<or> x_sessions x = [desk_row]"
    and "c \<in> halted False sh (LADDER HUMAN_SIGNED_EXECUTION)"
  shows "authorize sample_hash desk_session (Live desk_grant) c 1000 sh x = Inr HUMAN_SIGNED_EXECUTION"
proof -
  have "require_effective_capability sample_hash c PHASE_GRANTED_AUTHORITY_LEVEL desk_grant desk_session 1000
      (kill_engaged x) sh = Inr HUMAN_SIGNED_EXECUTION"
    unfolding require_effective_eq_Inr using desk_binds desk_level assms(1,3) by simp
  then show ?thesis
    using assms(2) by (auto simp: authorize_def tbl_simps desk_row_def AuthorityLevel_of_def AuthorityLevels_def)
qed


lemma desk_may:
  assumes "\<not> kill_engaged x" "x_sessions x = [] \<or> x_sessions x = [desk_row]" "c \<noteq> PRODUCE_SIGNATURE"
    and "sh \<longrightarrow> c \<in> {OBSERVE_CHAIN, RECONCILE}"
  shows "authorize sample_hash desk_session (Live desk_grant) c 1000 sh x = Inr HUMAN_SIGNED_EXECUTION"
  by (rule desk_authorized [OF assms(1,2)])
    (use assms(3,4) in \<open>cases c; auto simp: halted_def ladder_defs KILL_SWITCH_PRESERVED_CAPABILITIES_def\<close>)

subsection \<open>The envelope and the transaction made elsewhere\<close>

definition desk_envelope :: ExecutionEnvelopeV0 where
  "desk_envelope = \<lparr>env_session_id = sample_digest, env_session_identity_digest = sample_digest,
     env_economic_action_id = sample_action, env_chain_id = 57073, env_taker_address = INK_V0F_TAKER_ADDRESS,
     env_input_instrument_id = sample_quote_id, env_output_instrument_id = sample_base_id,
     env_max_input_atomic = 100000000, env_min_output_atomic = 50000000, env_transaction_to = INK_V0F_ROUTER_ADDRESS,
     env_transaction_value_atomic = 100000000, env_calldata_sha256 = sample_digest, env_calldata_length = 4,
     env_allowance_target = None, env_account_nonce = 3, env_gas_limit_ceiling = 9,
     env_max_fee_per_gas_ceiling_atomic = 2, env_max_priority_fee_per_gas_ceiling_atomic = 1,
     env_deadline_epoch_s = 1030, env_authority_policy_digest = sample_digest, env_plan_id = ''plan'',
     env_quote_id = ''quote'', env_quote_observation_digest = sample_digest, env_venue_block_number = 7,
     env_constructed_at_epoch_s = 1010, env_schema = []\<rparr>"

definition desk_reference :: ExternalTransactionReferenceV0 where
  "desk_reference = \<lparr>xr_session_id = sample_digest, xr_session_identity_digest = sample_digest,
     xr_economic_action_id = sample_action, xr_transaction_hash = sample_tx, xr_chain_id = 57073,
     xr_taker_address = INK_V0F_TAKER_ADDRESS, xr_authority_policy_digest = sample_digest,
     xr_origin = EXTERNAL_TRANSACTION_ORIGIN, xr_schema = []\<rparr>"

text \<open>The databases of the run, in order.\<close>

definition desk_open :: exec_db where
  "desk_open = (apply_execution_schema sample_reserved_db)\<lparr>x_sessions := [desk_row]\<rparr>"

definition desk_bought :: exec_db where
  "desk_bought = desk_open\<lparr>x_actions := [economic_row sample_action (Some sample_digest)],
     x_envelopes := [envelope_row_of sample_hash desk_envelope AUTHORIZED]\<rparr>"

definition desk_referred :: exec_db where
  "desk_referred = desk_bought\<lparr>x_refs := [ref_row_of sample_hash desk_reference]\<rparr>"

lemmas desk_dbs = desk_open_def desk_bought_def desk_referred_def apply_execution_schema_def

lemma desk_core [simp]: "x_core desk_open = sample_reserved_db" "x_core desk_bought = sample_reserved_db"
  "x_core desk_referred = sample_reserved_db" "x_core (apply_execution_schema sample_reserved_db) = sample_reserved_db"
  by (simp_all add: desk_dbs) (simp_all add: sample_reserved_state sample_state_def sample_rung_db_def sample_open_db_def
    sample_admitted_db_def empty_db_def)

lemma desk_tables [simp]: "x_sessions desk_open = [desk_row]" "x_sessions desk_bought = [desk_row]"
  "x_sessions desk_referred = [desk_row]" "x_controls desk_open = []" "x_controls desk_bought = []" "x_controls desk_referred = []"
  "ws_id desk_row = sample_digest" "ws_identity_digest desk_row = sample_digest"
  "x_actions desk_open = []" "x_envelopes desk_open = []" "x_refs desk_open = []" "x_signed desk_open = []"
  "x_approvals desk_open = []" "x_observations desk_open = []" "x_reconciliations desk_open = []" "instruments sample_reserved_db = instruments sample_admitted_db"
  "ws_session desk_row = session_columns desk_session" "x_sessions (apply_execution_schema d) = []"
  by (simp_all add: desk_dbs desk_row_def sample_reserved_state)

lemma desk_alive [simp]: "\<not> kill_engaged desk_open" "\<not> kill_engaged desk_bought" "\<not> kill_engaged desk_referred"
  "\<not> kill_engaged (apply_execution_schema d)"
  by (simp_all add: kill_engaged_def) (simp add: apply_execution_schema_def)

lemmas exec_run = exec_txn_def sbind_run body_defs insert_or_match_def tbl_simps insertable_def columns_fit_def INT64_MAX_def

lemma insert_fresh:
  "\<not> has_row key (key r) (table x) \<Longrightarrow> ins r x = Inr x' \<Longrightarrow> insert_or_match key table same ins r x = (Inr True, x')"
  by (simp add: exec_run find_row_None [THEN iffD2])

lemma desk_opens:
  "create_execution_session sample_hash desk_session desk_grant 1000 (apply_execution_schema sample_reserved_db) =
     (Inr True, desk_open)"
proof -
  have "authorize sample_hash desk_session (Live desk_grant) DECIDE_OFFLINE 1000 False
      (apply_execution_schema sample_reserved_db) = Inr HUMAN_SIGNED_EXECUTION"
    by (rule desk_may) simp_all
  then show ?thesis
    by (simp add: create_execution_session_def tbl_simps desk_policy_def reject_if_killed_def insert_session_def exec_run)
      (simp add: desk_dbs desk_row_def session_columns_def desk_session_def ink_session_def sample_policy_row_def
        exec_run session_slot_def)
qed


lemma desk_bounds: "bounds_from_intent (sample_intent_row st) = Inr sample_bounds_of"
proof -
  have "parse_canonical_decimal (JStr ''2'') = Inr 2" by (rule jdecimal_parse [OF sample_formats(3)])
  moreover have "Side_of (JStr ''BUY'') = Inr BUY" using Side_of_value [of BUY] by simp
  moreover have "str_int 100000000 = ''100000000''" "str_int 50000000 = ''50000000''"
    using nat_str_digits_val [of "''100000000''"] nat_str_digits_val [of "''50000000''"]
    by (simp_all add: str_int_def canon_digits_def is_digit_def digit_val_def)
  moreover have "py_int_of (JStr ''100000000'') = Inr 100000000" "py_int_of (JStr ''50000000'') = Inr 50000000"
    by (simp_all add: py_int_of_def py_int_text_def py_strip_def py_space_def py_int_digits_def is_digit_def digit_val_def)
  moreover have "py_int_of (JInt n) = Inr n" for n by (simp add: py_int_of_def)
  ultimately show ?thesis
    using sample_bounds_made
    by (simp add: bounds_from_intent_def Let_def sample_intent_row_def sample_bounds_json_def jfetch_def text_member_def
        sample_intent_def sample_bounds_of_def)
qed

lemma desk_buys:
  "record_ink_v0f_native_buy_preauth sample_hash (Inr desk_envelope) sample_intent desk_session desk_grant 1000 desk_open =
     (Inr desk_envelope, desk_bought)"
proof -
  have may: "authorize sample_hash desk_session (Live desk_grant) CONSTRUCT_ENVELOPE 1000 False desk_open = Inr HUMAN_SIGNED_EXECUTION"
    by (rule desk_may) simp_all
  have st: "state_of sample_action desk_open = Inr RESERVED"
    by (simp add: state_of_def intent_state_for_def intent_row_for_def tbl_simps)
  have gate: "preauth_gate sample_hash sample_intent desk_session desk_grant [CONSTRUCT_ENVELOPE] 1000 desk_open = Inr ()"
    by (simp add: preauth_gate_def may tbl_simps sample_intent_def st require_def)
  have i: "in_bounds sample_intent = sample_bounds_of" "in_side sample_intent = BUY" "in_economic_action_id sample_intent = sample_action"
    by (simp_all add: sample_intent_def)
  have v: "env_economic_action_id desk_envelope = sample_action" "env_max_input_atomic desk_envelope = 100000000"
    "env_min_output_atomic desk_envelope = 50000000" "env_input_instrument_id desk_envelope = sample_quote_id"
    "env_output_instrument_id desk_envelope = sample_base_id" "env_transaction_value_atomic desk_envelope = 100000000"
    "env_allowance_target desk_envelope = None" by (simp_all add: desk_envelope_def)
  have caps: "pr_per_order_cap sample_policy_row = 100000000" "pr_global_cap sample_policy_row = 400000000"
    "br_amount sample_reservation = 100000000" "ap_max_reservation_atomic desk_policy = 100000000"
    "ap_max_cumulative_atomic desk_policy = 150000000" "assert_valid_at desk_policy 1000 = Inr ()"
    using desk_binds by (simp_all add: sample_policy_row_def sample_reservation_def desk_policy_def binding_eq_Inr)
  have row: "nr_side (sample_intent_row st) = BUY" for st by (simp add: sample_intent_row_def)
  have "preauth_action sample_hash desk_session desk_envelope sample_bounds_of desk_open =
      (Inr (sample_intent_row RESERVED), desk_open)"
    by (simp add: preauth_action_def require_same_session_def require_session_def require_economic_intent_def
        persisted_bounds_def desk_bounds reject_if_killed_def exec_run v)
  moreover have "within_persisted desk_envelope sample_bounds_of = Inr ()" "same_instruments desk_envelope (sample_intent_row RESERVED) = Inr ()"
    by (simp_all add: within_persisted_def same_instruments_def intent_input_def intent_output_def v row require_def
        required_output_def sample_bounds_of_def)
  moreover have "reservation_covers desk_envelope (sample_intent_row RESERVED) desk_grant 1000 desk_open = Inr ()"
    by (simp add: reservation_covers_def tbl_simps held_atomic_def held_where_def v require_def
        assert_effective_capital_within_def effective_capital_ceilings_def positive_int_def non_negative_int_def
        Let_def caps)
  moreover have "record_bundle sample_hash desk_session None desk_envelope 1000 desk_open = (Inr (), desk_bought)"
  proof -
    let ?a = "economic_row sample_action (Some sample_digest)" and ?e = "envelope_row_of sample_hash desk_envelope AUTHORIZED"
    let ?x = "desk_open\<lparr>x_actions := [?a]\<rparr>"
    have "insert_action ?a desk_open = Inr ?x"
      by (simp add: insert_action_def economic_row_def exec_run has_row_def)
    then have a: "insert_or_match wx_id x_actions same insert_action ?a desk_open = (Inr True, ?x)" for same
      by (intro insert_fresh) (simp_all add: desk_dbs has_row_def)
    have "insert_envelope ?e ?x = Inr desk_bought"
      unfolding insert_envelope_def Let_def
      by (simp add: envelope_row_of_def exec_run session_known_def has_row_def envelope_action_def envelope_nonce_def v)
        (simp add: desk_envelope_def desk_bought_def envelope_row_of_def sample_base_id_def sample_quote_id_def)
    then have "insert_or_match we_id x_envelopes same insert_envelope ?e ?x = (Inr True, desk_bought)" for same
      by (intro insert_fresh) (simp_all add: desk_dbs has_row_def)
    with a show ?thesis
      by (simp add: record_bundle_def economic_external_action_def v sbind_run body_defs)
  qed
  ultimately show ?thesis
    by (simp add: record_ink_v0f_native_buy_preauth_def gate i require_def native_buy_body_def row exec_run v sread_def
        other_envelope_def other_approval_def)
qed


definition desk_reading :: ChainObservationV0 where
  "desk_reading = (sample_reading ''node-a'' 1000 140)\<lparr>ob_effective_input_atomic := Some 100000000,
     ob_effective_output_atomic := Some 60000000, ob_schema := CONTRACT_SCHEMA @ ''.chain_observation''\<rparr>"

definition desk_observed :: exec_db where
  "desk_observed = desk_referred\<lparr>x_observations :=
     [observation_values sample_hash desk_reading sample_action None (Some sample_digest)]\<rparr>"

definition desk_finality :: "int \<Rightarrow> FinalityPolicyV0" where
  "desk_finality n = \<lparr>fp_min_confirmation_depth = 32, fp_min_agreeing_providers = n,
     fp_schema = CONTRACT_SCHEMA @ ''.finality_policy''\<rparr>"

lemma desk_state: "x_core x = sample_reserved_db \<Longrightarrow> state_of sample_action x = Inr RESERVED"
  by (simp add: state_of_def intent_state_for_def intent_row_for_def tbl_simps)

lemma desk_chain: "session_chain_id desk_session = Inr 57073"
  by (simp add: session_chain_id_def Let_def matches_line_def newline_def is_digit_def py_int_def digit_val_def)

lemma desk_rows [simp]:
  "x_actions desk_bought = [economic_row sample_action (Some sample_digest)]" "x_refs desk_bought = []"
  "x_signed desk_bought = []" "x_observations desk_bought = []" "x_reconciliations desk_bought = []"
  "x_actions desk_referred = [economic_row sample_action (Some sample_digest)]"
  "x_refs desk_referred = [ref_row_of sample_hash desk_reference]"
  "x_signed desk_referred = []" "x_observations desk_referred = []" "x_reconciliations desk_referred = []"
  "wx_id (economic_row a sid) = a" "wx_kind (economic_row a sid) = ECONOMIC" "wx_economic (economic_row a sid) = Some a"
  "wx_approval (economic_row a sid) = None" "wx_session (economic_row a sid) = sid"
  "es_authority_policy_digest (session_columns s) = es_authority_policy_digest s"
  "es_taker_address (session_columns s) = es_taker_address s" "es_network_id (session_columns s) = es_network_id s"
  by (simp_all add: desk_dbs economic_row_def session_columns_def)

lemma desk_network [simp]: "evm_network 57073 = ''evm:57073''"
  using ink_network by (simp add: evm_network_def INK_CHAIN_ID_def)

lemma desk_reference_row [simp]:
  "or_action (ref_row_of sample_hash desk_reference) = sample_action" "or_hash (ref_row_of sample_hash desk_reference) = sample_tx"
  "or_id (ref_row_of sample_hash desk_reference) = sample_digest"
  "or_chain (ref_row_of sample_hash desk_reference) = 57073"
  "or_taker (ref_row_of sample_hash desk_reference) = INK_V0F_TAKER_ADDRESS"
  "er_economic_action (ref_row_of sample_hash desk_reference) = sample_action"
  "wf_session (ref_row_of sample_hash desk_reference) = sample_digest"
  "wf_session_identity (ref_row_of sample_hash desk_reference) = sample_digest"
  "wf_authority (ref_row_of sample_hash desk_reference) = sample_digest"
  "wf_origin (ref_row_of sample_hash desk_reference) = EXTERNAL_TRANSACTION_ORIGIN"
  by (simp_all add: ref_row_of_def external_transaction_ref_id_def) (simp_all add: desk_reference_def)

lemma desk_refers:
  "record_external_transaction_reference sample_hash desk_reference desk_session desk_grant 1000 desk_bought =
     (Inr True, desk_referred)"
proof -
  have may: "authorize sample_hash desk_session (Live desk_grant) OBSERVE_CHAIN 1000 sh desk_bought = Inr HUMAN_SIGNED_EXECUTION" for sh
    by (rule desk_may) simp_all
  have xr: "xr_economic_action_id desk_reference = sample_action" "xr_session_id desk_reference = sample_digest"
    "xr_session_identity_digest desk_reference = sample_digest" "xr_authority_policy_digest desk_reference = sample_digest"
    "xr_chain_id desk_reference = 57073" "xr_taker_address desk_reference = INK_V0F_TAKER_ADDRESS"
    by (simp_all add: desk_reference_def)
  have "insert_ref (ref_row_of sample_hash desk_reference) desk_bought = Inr desk_referred"
    by (simp add: insert_ref_def exec_run has_row_def) (simp add: desk_referred_def)
  then have "insert_or_match or_id x_refs same insert_ref (ref_row_of sample_hash desk_reference) desk_bought =
      (Inr True, desk_referred)" for same
    by (intro insert_fresh) (simp_all add: desk_dbs has_row_def)
  then show ?thesis
    by (simp add: record_external_transaction_reference_def xr desk_state may reference_checks_def desk_chain require_def
        exec_txn_def record_reference_body_def require_economic_intent_def sbind_run body_defs tbl_simps REFERENCE_STATES_def)
qed


subsection \<open>The evidence\<close>

lemma desk_reading_fields [simp]:
  "ob_provider_id desk_reading = ''node-a''" "ob_transaction_hash desk_reading = sample_tx"
  "ob_observed_at_epoch_s desk_reading = 1000" "ob_presence desk_reading = P_INCLUDED"
  "ob_receipt_status desk_reading = Some RS_SUCCESS" "ob_block_number desk_reading = Some 100"
  "ob_head_block_number desk_reading = Some 140" "ob_effective_input_atomic desk_reading = Some 100000000"
  "ob_effective_output_atomic desk_reading = Some 60000000"
  "\<exists>h. ob_block_hash desk_reading = Some h" "\<exists>h. ob_block_parent_hash desk_reading = Some h"
  "\<exists>h. ob_head_block_hash desk_reading = Some h"
  by (simp_all add: desk_reading_def sample_reading_def)

lemma desk_reading_made: "make_observation desk_reading = Inr desk_reading"
proof -
  have tx: "TX_HASH_RE (''0x'' @ replicate 64 c)" if "is_lower_hex c" for c
    unfolding TX_HASH_RE_def using that by (rule hex_text_sample)
  show ?thesis
    unfolding make_observation_def
    by (simp add: checked_eq_Inr check_eq_Inr sample_portable desk_reading_def sample_reading_def sample_tx_def tx sample_chars
        block_checks_def head_checks_def amount_checks_def Let_def MAX_UINT256_def rbind_eq_Inr del: append_Cons append.simps)
qed

definition desk_expectation :: SettlementExpectationV0 where
  "desk_expectation = \<lparr>se_action = sample_action, se_hash = sample_tx, se_chain = 57073, se_taker = INK_V0F_TAKER_ADDRESS,
     se_acknowledged = False\<rparr>"

lemma desk_expectation_made: "make_expectation desk_expectation = Inr desk_expectation"
proof -
  have "EVM_ADDRESS_RE INK_V0F_TAKER_ADDRESS" "\<not> hex_text_is_zero INK_V0F_TAKER_ADDRESS" by code_simp+
  moreover have "hex_text ''0x'' 64 sample_tx" unfolding sample_tx_def by (rule hex_text_sample) (simp add: sample_chars)
  moreover have "hex_text [] 64 sample_action"
    using hex_text_sample [of "CHR ''b''" "[]" 64] by (simp add: sample_action_def is_lower_hex_def is_digit_def)
  ultimately show ?thesis by (simp add: make_expectation_def desk_expectation_def)
qed

definition desk_truth :: "int \<Rightarrow> ChainTruthV0" where
  "desk_truth n = (if n = 1 then verdict_of desk_expectation sample_digest CT_CONFIRMED 1 40 (Some desk_reading)
     else verdict_of desk_expectation sample_digest CT_VISIBLE 1 0 (Some desk_reading))"

lemma desk_concludes:
  assumes "n \<in> {1, 2}"
  shows "evaluate_chain_truth sample_hash desk_expectation [desk_reading] (desk_finality n) = Inr (desk_truth n)"
proof -
  have "latest_by_provider sample_hash [desk_reading] = [(''node-a'', desk_reading)]"
    by (simp add: latest_by_provider_def in_time_order_def)
  then show ?thesis
    using assms by (auto simp: evaluate_chain_truth_def desk_truth_def Let_def desk_expectation_def is_included_def retracts_def
        depth_below_def desk_finality_def truth_evidence_digest_def)
qed


lemma desk_observation_row [simp]:
  "wc_id (observation_values sample_hash v a si ri) = sample_digest" "wc_action (observation_values sample_hash v a si ri) = a"
  "wc_signed (observation_values sample_hash v a si ri) = si" "wc_external (observation_values sample_hash v a si ri) = ri"
  "wc_value (observation_values sample_hash v a si ri) = v\<lparr>ob_schema := []\<rparr>"
  by (simp_all add: observation_values_def observation_id_def)

lemma desk_restored: "observation_from_row (observation_values sample_hash desk_reading a si ri) = Inr desk_reading"
  using desk_reading_made by (simp add: observation_from_row_def) (simp add: desk_reading_def)

lemma desk_truth_for:
  assumes "n \<in> {1, 2}"
  shows "truth_for_action sample_hash sample_action (Referred sample_digest) (desk_finality n) desk_observed =
    Inr (desk_truth n, origin_row.truncate (ref_row_of sample_hash desk_reference), desk_expectation)"
proof -
  have "\<lparr>se_action = sample_action, se_hash = sample_tx, se_chain = 57073, se_taker = INK_V0F_TAKER_ADDRESS,
     se_acknowledged = False\<rparr> = desk_expectation" by (simp add: desk_expectation_def)
  moreover have "or_hash (origin_row.truncate r) = or_hash r" "or_chain (origin_row.truncate r) = or_chain r"
    "or_taker (origin_row.truncate r) = or_taker r" for r :: ref_row by (simp_all add: origin_row.defs)
  ultimately show ?thesis
    by (simp add: truth_for_action_def referred_binding_def desk_observed_def tbl_simps desk_expectation_made desk_restored
        desk_concludes [OF assms])
qed

lemma desk_observes:
  "record_chain_observation sample_hash desk_reading sample_action desk_session (Live desk_grant) 1000 None (Some sample_digest)
     (desk_finality 2) desk_referred = (Inr True, desk_observed)"
proof -
  let ?r = "observation_values sample_hash desk_reading sample_action None (Some sample_digest)"
  have may: "authorize sample_hash desk_session (Live desk_grant) OBSERVE_CHAIN 1000 sh desk_referred = Inr HUMAN_SIGNED_EXECUTION" for sh
    by (rule desk_may) simp_all
  have "insert_observation ?r desk_referred = Inr desk_observed"
    unfolding insert_observation_def Let_def
    by (simp add: exec_run has_row_def observation_checks_def) (simp add: desk_observed_def)
  then have ins: "insert_or_match wc_id x_observations (=) insert_observation ?r desk_referred = (Inr True, desk_observed)"
    by (intro insert_fresh) (simp_all add: has_row_def)
  have row: "x_actions desk_observed = [economic_row sample_action (Some sample_digest)]" "x_core desk_observed = sample_reserved_db"
    by (simp_all add: desk_observed_def)
  have "ct_verdict (desk_truth 2) = CT_VISIBLE" by (simp add: desk_truth_def verdict_of_def)
  then have "observe_body sample_hash desk_reading sample_action None (Some sample_digest) (Referred sample_digest) desk_session
      (desk_finality 2) desk_referred = (Inr True, desk_observed)"
    by (simp add: observe_body_def sread_def sbind_run body_defs observation_binding_def tbl_simps require_def ins row
        desk_truth_for read_state_def desk_state follow_truth_def)
  then show ?thesis
    by (simp add: record_chain_observation_def origin_of_def desk_state may exec_txn_def)
qed


subsection \<open>The settlement\<close>

text \<open>The core ledger while the runtime settles: the sample rung with events and fills.\<close>

abbreviation desk_ledger :: "intent_state \<Rightarrow> event_row list \<Rightarrow> receipt_row list \<Rightarrow> db" where
  "desk_ledger st evs fs \<equiv> sample_state st evs [sample_reservation] fs"

lemma append_event_seen:
  "append_event et p c a src dst now pl (d\<lparr>exec_surface := e\<rparr>) =
     (case append_event et p c a src dst now pl d of (r, d') \<Rightarrow> (r, d'\<lparr>exec_surface := e\<rparr>))"
  by (simp add: append_event_def insert_event_def sbind_run body_defs next_seq_def cong: option.case_cong
      split: prod.splits sum.splits)

lemma update_intent_seen: "update_intent_state a st (d\<lparr>exec_surface := e\<rparr>) = (update_intent_state a st d)\<lparr>exec_surface := e\<rparr>"
  by (simp add: update_intent_state_def)

definition desk_move :: "int \<Rightarrow> intent_state \<Rightarrow> intent_state \<Rightarrow> (string \<times> json) list \<Rightarrow> event_row" where
  "desk_move n st st' facts =
     sample_event n INTENT_TRANSITION (Some sample_action) (Some (Intent st)) (Some (Intent st')) (JObj facts)"

lemma desk_moves:
  assumes "is_legal_transition st st'" "next_seq (desk_ledger st' evs fs) = n" "list_all (\<lambda>v. ev_seq v < n) evs" "6 < n"
    and "transition_effect sample_action (sample_intent_row st) st' ((desk_ledger st evs fs)\<lparr>exec_surface := e\<rparr>) =
      (Inr (), (desk_ledger st evs fs)\<lparr>exec_surface := e\<rparr>)"
  shows "transition_body sample_action st' 1000 facts ((desk_ledger st evs fs)\<lparr>exec_surface := e\<rparr>) =
    (Inr (), (desk_ledger st' (evs @ [desk_move n st st' facts]) fs)\<lparr>exec_surface := e\<rparr>)"
proof -
  have "append_event INTENT_TRANSITION sample_digest (sample_digest @ '':0'') (Some sample_action) (Some (Intent st))
      (Some (Intent st')) 1000 (JObj facts) (desk_ledger st' evs fs) =
      (Inr n, desk_ledger st' (evs @ [desk_move n st st' facts]) fs)"
    using sample_insert_event [OF assms(2) _ _ assms(3,4), of INTENT_TRANSITION]
    by (simp add: CYCLE_EVENT_TYPES_def desk_move_def)
  moreover have "assert_legal_transition st st' = Inr ()" using assms(1) by (simp add: assert_legal_eq_Inr)
  ultimately show ?thesis
    using assms(5)
    by (simp add: transition_body_def sbind_run body_defs intent_row_for_def tbl_simps sample_state_update
        update_intent_seen append_event_seen)
qed

definition desk_at :: "intent_state \<Rightarrow> event_row list \<Rightarrow> receipt_row list \<Rightarrow> recon_row list \<Rightarrow> exec_db" where
  "desk_at st evs fs rs = desk_observed\<lparr>x_core := desk_ledger st evs fs, x_reconciliations := rs\<rparr>"

lemma desk_at_simps [simp]:
  "x_core (desk_at st evs fs rs) = desk_ledger st evs fs" "x_reconciliations (desk_at st evs fs rs) = rs"
  "x_actions (desk_at st evs fs rs) = [economic_row sample_action (Some sample_digest)]"
  "x_refs (desk_at st evs fs rs) = [ref_row_of sample_hash desk_reference]" "x_signed (desk_at st evs fs rs) = []"
  "x_observations (desk_at st evs fs rs) = [observation_values sample_hash desk_reading sample_action None (Some sample_digest)]"
  "(desk_at st evs fs rs)\<lparr>x_core := (desk_ledger st' evs' fs')\<rparr> = desk_at st' evs' fs' rs"
  "desk_ledger st evs fs\<lparr>exec_surface := None\<rparr> = desk_ledger st evs fs"
  "view (desk_at st evs fs rs) = (desk_ledger st evs fs)\<lparr>exec_surface := Some (surface_of (desk_at st evs fs rs))\<rparr>"
  by (simp_all add: desk_at_def desk_observed_def view_def)

lemma desk_transits:
  assumes "is_legal_transition st st'" "next_seq (desk_ledger st' evs fs) = n" "list_all (\<lambda>v. ev_seq v < n) evs" "6 < n"
    and "transition_effect sample_action (sample_intent_row st) st' (view (desk_at st evs fs rs)) = (Inr (), view (desk_at st evs fs rs))"
  shows "store_transition sample_action st' 1000 facts (desk_at st evs fs rs) =
    (Inr (), desk_at st' (evs @ [desk_move n st st' facts]) fs rs)"
  using desk_moves [OF assms(1-4), of "Some (surface_of (desk_at st evs fs rs))" facts] assms(5)
  by (simp add: store_transition_def in_store_def)


definition desk_request :: settlement_request where
  "desk_request = \<lparr>tr_receipt = Some ''r1'', tr_fee = 0, tr_source = ''chain'', tr_observed_at = None, tr_now = 1000\<rparr>"

definition desk_receipt :: FillReceiptV0 where
  "desk_receipt = \<lparr>rc_receipt_id = ''r1'', rc_economic_action_id = sample_action, rc_external_ref = sample_tx,
     input_atomic_filled = 100000000, output_atomic_filled = 60000000, fee_atomic = 0, observed_at_epoch_s = 1000,
     rc_source = ''chain''\<rparr>"

definition desk_fill :: receipt_row where
  "desk_fill = \<lparr>fr_id = ''r1'', fr_action = sample_action, fr_ref = sample_tx, fr_input = 100000000,
     fr_output = 60000000, fr_fee = 0, fr_observed = 1000, fr_source = ''chain'', fr_seq = 7\<rparr>"

definition desk_fill_event :: event_row where
  "desk_fill_event = sample_event 7 FILL_RECEIPT_APPENDED (Some sample_action) (Some (Intent RESERVED)) None
     (JObj (receipt_canonical_object desk_receipt))"

definition desk_binding :: ValidatedEconomicActionV0 where
  "desk_binding = \<lparr>va_action = sample_action, va_hash = sample_tx, va_chain = 57073, va_taker = INK_V0F_TAKER_ADDRESS, va_minted = True\<rparr>"

lemma desk_settles:
  "reconcile_to_receipt desk_expectation (desk_truth 1) sample_bounds_of desk_binding ''r1'' 0 1000 ''chain'' = Inr desk_receipt"
  by (simp add: reconcile_to_receipt_def desk_truth_def verdict_of_def assert_matches_def desk_binding_def desk_expectation_def
      make_receipt_def satisfies_def prorated_min_output_def ceil_div_def sample_bounds_of_def desk_receipt_def)

definition desk_origin :: origin_row where
  "desk_origin = origin_row.truncate (external_ref_row.truncate (ref_row_of sample_hash desk_reference))"

lemma desk_origin_fields [simp]:
  "or_hash desk_origin = sample_tx" "or_chain desk_origin = 57073" "or_taker desk_origin = INK_V0F_TAKER_ADDRESS"
  "or_id desk_origin = sample_digest" "or_action desk_origin = sample_action"
  by (simp_all add: desk_origin_def origin_row.defs external_ref_row.defs)

lemma desk_origin_found:
  "transaction_origin sample_action (surface_of (desk_at st evs fs rs)) = Some (False, desk_origin)"
  by (simp add: transaction_origin_def surface_of_def tbl_simps external_ref_row.defs)
    (simp add: desk_origin_def external_ref_row.defs)

lemma desk_appends:
  "in_store (append_execution_fill_receipt_body desk_receipt desk_binding 1000) (desk_at RESERVED [] [] []) =
     (Inr True, desk_at RESERVED [desk_fill_event] [desk_fill] [])"
proof -
  let ?x = "desk_at RESERVED [] [] []"
  let ?e = "Some (surface_of ?x)"
  have rc: "rc_economic_action_id desk_receipt = sample_action" "rc_external_ref desk_receipt = sample_tx"
    "input_atomic_filled desk_receipt = 100000000" "output_atomic_filled desk_receipt = 60000000"
    by (simp_all add: desk_receipt_def)
  have row: "receipt_row_of desk_receipt 7 = Inr desk_fill"
    by (simp add: receipt_row_of_def desk_receipt_def store_atomic_eq desk_fill_def require_def INT64_MAX_def)
  have "insert_receipt desk_fill (desk_ledger RESERVED [] []) = Inr (desk_ledger RESERVED [] [desk_fill])"
    using sample_state_update(3) [of desk_fill RESERVED "[]" "[sample_reservation]" "[]"]
    by (simp add: insert_receipt_Inr with_receipt_def tbl_simps) (simp add: desk_fill_def)
  then have ins: "insert_receipt_once desk_fill (desk_ledger RESERVED [] []\<lparr>exec_surface := e\<rparr>) =
      Inr (desk_ledger RESERVED [] [desk_fill]\<lparr>exec_surface := e\<rparr>)" for e
    by (simp add: insert_receipt_once_Inr insert_receipt_Inr)
  have "append_event FILL_RECEIPT_APPENDED sample_digest (sample_digest @ '':0'') (Some sample_action) (Some (Intent RESERVED)) None
      1000 (JObj (receipt_canonical_object desk_receipt)) (desk_ledger RESERVED [] [desk_fill]) =
      (Inr 7, desk_ledger RESERVED [desk_fill_event] [desk_fill])"
    using sample_insert_event [of RESERVED "[]" "[sample_reservation]" "[desk_fill]" 7 FILL_RECEIPT_APPENDED None]
    by (simp add: sample_next CYCLE_EVENT_TYPES_def desk_fill_event_def)
  moreover have "receipt_within_bounds sample_action (nr_bounds (sample_intent_row RESERVED))
      (desk_ledger RESERVED [desk_fill_event] [desk_fill]\<lparr>exec_surface := e\<rparr>) = Inr True" for e
    by (simp add: receipt_within_bounds_def sample_bounds_amounts total_filled_def required_output_def Let_def)
      (simp add: desk_fill_def)
  moreover have "next_seq (desk_ledger RESERVED [] []\<lparr>exec_surface := e\<rparr>) = 7" for e
    using sample_next [of RESERVED "[]" "[sample_reservation]" "[]"] by (simp add: next_seq_def)
  ultimately have app: "append_fill_receipt_in_transaction desk_receipt 1000 (desk_ledger RESERVED [] []\<lparr>exec_surface := e\<rparr>) =
      (Inr True, desk_ledger RESERVED [desk_fill_event] [desk_fill]\<lparr>exec_surface := e\<rparr>)" for e
    by (simp add: append_fill_receipt_in_transaction_def Let_def sbind_run body_defs intent_row_for_def tbl_simps rc
        RECEIPT_STATES_def row ins append_event_seen)
  have seen: "list_ex (successful_observation False desk_origin desk_receipt) (chain_observations (surface_of ?x))"
    by (simp add: surface_of_def observation_columns_def successful_observation_def rc)
  have ex: "make_expectation \<lparr>se_action = sample_action, se_hash = sample_tx, se_chain = 57073,
      se_taker = INK_V0F_TAKER_ADDRESS, se_acknowledged = False\<rparr> = Inr desk_expectation"
    using desk_expectation_made by (simp add: desk_expectation_def)
  have "assert_matches desk_binding desk_expectation = Inr ()"
    by (simp add: assert_matches_def desk_binding_def desk_expectation_def)
  then show ?thesis
    by (simp add: in_store_def append_execution_fill_receipt_body_def sbind_run body_defs rc app store_atomic_eq
        desk_origin_found seen ex)
qed


definition desk_row_settled :: recon_row where
  "desk_row_settled = \<lparr>rr_id = sample_digest, rr_action = sample_action, rr_verdict = V_SETTLED, rr_receipt = Some ''r1'',
     rr_hash = Some sample_tx, rr_chain = Some 57073, rr_taker = Some INK_V0F_TAKER_ADDRESS, wv_depth = 40, wv_agreeing = 1,
     wv_at = 1000, wv_evidence = sample_digest\<rparr>"

definition desk_included :: "event_row list" where
  "desk_included = [desk_fill_event, desk_move 8 RESERVED INCLUDED (execution_note ''included_external_transaction_observation'')]"

definition desk_confirmed :: "event_row list" where
  "desk_confirmed = desk_included @ [desk_move 9 INCLUDED CONFIRMED (execution_note ''confirmed_chain_observation'')]"

definition desk_events :: "event_row list" where
  "desk_events = desk_confirmed @ [desk_move 10 CONFIRMED RECONCILED (execution_note ''settlement_reconciled'')]"

definition desk_done :: exec_db where
  "desk_done = desk_at RECONCILED desk_events [desk_fill] [desk_row_settled]"

lemma desk_event_seqs [simp]: "ev_seq desk_fill_event = 7" "ev_seq (desk_move n st st' facts) = n"
  by (simp_all add: desk_fill_event_def desk_move_def)

lemma desk_advances:
  "store_transition sample_action INCLUDED 1000 (execution_note ''included_external_transaction_observation'')
     (desk_at RESERVED [desk_fill_event] [desk_fill] [desk_row_settled]) =
     (Inr (), desk_at INCLUDED desk_included [desk_fill] [desk_row_settled])"
  "store_transition sample_action CONFIRMED 1000 (execution_note ''confirmed_chain_observation'')
     (desk_at INCLUDED desk_included [desk_fill] [desk_row_settled]) =
     (Inr (), desk_at CONFIRMED desk_confirmed [desk_fill] [desk_row_settled])"
  "store_transition sample_action RECONCILED 1000 (execution_note ''settlement_reconciled'')
     (desk_at CONFIRMED desk_confirmed [desk_fill] [desk_row_settled]) = (Inr (), desk_done)"
proof -
  have idle: "transition_effect sample_action (sample_intent_row st) st' d = (Inr (), d)" if "st' \<in> {INCLUDED, CONFIRMED}" for st st' d
    using that by (auto simp: transition_effect_def Let_def RELEASING_STATES_def sret_def)
  have rec: "transition_effect sample_action (sample_intent_row CONFIRMED) RECONCILED
      (view (desk_at CONFIRMED desk_confirmed [desk_fill] [desk_row_settled])) =
      (Inr (), view (desk_at CONFIRMED desk_confirmed [desk_fill] [desk_row_settled]))"
    by (simp add: transition_effect_def Let_def RELEASING_STATES_def sbind_run body_defs execution_surface_present_def
        has_settled_receipt_def surface_of_def)
      (simp add: desk_row_settled_def desk_fill_def reconciliation_row.defs)
  show "store_transition sample_action INCLUDED 1000 (execution_note ''included_external_transaction_observation'')
     (desk_at RESERVED [desk_fill_event] [desk_fill] [desk_row_settled]) =
     (Inr (), desk_at INCLUDED desk_included [desk_fill] [desk_row_settled])"
    using desk_transits [of RESERVED INCLUDED "[desk_fill_event]" "[desk_fill]" 8] idle
    by (simp add: is_legal_transition_def sample_next desk_included_def)
  show "store_transition sample_action CONFIRMED 1000 (execution_note ''confirmed_chain_observation'')
     (desk_at INCLUDED desk_included [desk_fill] [desk_row_settled]) =
     (Inr (), desk_at CONFIRMED desk_confirmed [desk_fill] [desk_row_settled])"
    using desk_transits [of INCLUDED CONFIRMED desk_included "[desk_fill]" 9] idle
    by (simp add: is_legal_transition_def sample_next desk_included_def desk_confirmed_def)
  show "store_transition sample_action RECONCILED 1000 (execution_note ''settlement_reconciled'')
     (desk_at CONFIRMED desk_confirmed [desk_fill] [desk_row_settled]) = (Inr (), desk_done)"
    using desk_transits [of CONFIRMED RECONCILED desk_confirmed "[desk_fill]" 10] rec
    by (simp add: is_legal_transition_def sample_next desk_included_def desk_confirmed_def desk_events_def desk_done_def)
qed

lemma desk_reconciles:
  "reconcile_external_action sample_hash sample_action desk_session (Live desk_grant) (desk_finality 1) None desk_request
     desk_observed = (Inr (desk_truth 1), desk_done)"
proof -
  have x: "desk_observed = desk_at RESERVED [] [] []"
    by (simp add: desk_at_def sample_reserved_state [symmetric] desk_observed_def)
  have may: "authorize sample_hash desk_session (Live desk_grant) RECONCILE 1000 sh desk_observed = Inr HUMAN_SIGNED_EXECUTION" for sh
    by (rule desk_may) (simp_all add: desk_observed_def kill_engaged_def)
  have st: "state_of sample_action (desk_at st evs fs rs) = Inr st" for st evs fs rs
    by (simp add: state_of_def intent_state_for_def intent_row_for_def tbl_simps)
  have og: "settlement_origin sample_hash sample_action desk_session desk_observed = Inr (Referred sample_digest)"
    unfolding x by (simp add: settlement_origin_def tbl_simps require_def desk_chain)
  have v: "ct_verdict (desk_truth 1) = CT_CONFIRMED" "ct_evidence_digest (desk_truth 1) = sample_digest"
    "ct_transaction_hash (desk_truth 1) = sample_tx" "ct_chain_id (desk_truth 1) = 57073"
    "ct_taker_address (desk_truth 1) = INK_V0F_TAKER_ADDRESS" "ct_confirmation_depth (desk_truth 1) = 40"
    "ct_agreeing_provider_count (desk_truth 1) = 1"
    by (simp_all add: desk_truth_def verdict_of_def desk_expectation_def)
  have q: "tr_receipt desk_request = Some ''r1''" "tr_fee desk_request = 0" "tr_source desk_request = ''chain''"
    "tr_observed_at desk_request = None" "tr_now desk_request = 1000" by (simp_all add: desk_request_def)
  have row: "reconciliation_values sample_hash sample_action (desk_truth 1) 1000 (Some ''r1'') = Inr desk_row_settled"
    by (simp add: reconciliation_values_def v desk_row_settled_def)
  let ?y = "desk_at RESERVED [desk_fill_event] [desk_fill] []"
  have "insert_reconciliation desk_row_settled ?y = Inr (desk_at RESERVED [desk_fill_event] [desk_fill] [desk_row_settled])"
    by (simp add: insert_reconciliation_def exec_run has_row_def)
      (simp add: desk_row_settled_def desk_fill_def desk_at_def desk_observed_def)
  then have rec: "store_reconciliation sample_hash sample_action (desk_truth 1) 1000 (Some ''r1'') ?y =
      (Inr (), desk_at RESERVED [desk_fill_event] [desk_fill] [desk_row_settled])"
    by (simp add: store_reconciliation_def sbind_run body_defs row insert_fresh has_row_def)
  have rid: "rc_receipt_id desk_receipt = ''r1''" by (simp add: desk_receipt_def)
  have b: "\<lparr>va_action = sample_action, va_hash = sample_tx, va_chain = 57073, va_taker = INK_V0F_TAKER_ADDRESS, va_minted = True\<rparr> =
      desk_binding" by (simp add: desk_binding_def)
  have o: "or_hash (origin_row.truncate r) = or_hash r" "or_chain (origin_row.truncate r) = or_chain r"
    "or_taker (origin_row.truncate r) = or_taker r" for r :: ref_row by (simp_all add: origin_row.defs)
  have "settle_confirmed sample_hash sample_action (desk_truth 1) (origin_row.truncate (ref_row_of sample_hash desk_reference))
      desk_expectation sample_bounds_of (Referred sample_digest) desk_request RESERVED (desk_at RESERVED [] [] []) = (Inr (), desk_done)"
    by (simp add: settle_confirmed_def Let_def q o b desk_settles sbind_run body_defs ACCOUNTABLE_STATES_def desk_appends rec
        read_state_def st advance_to_chain_state_def advance_to_included_def desk_advances rid)
  then have "settle_truth sample_hash sample_action (desk_truth 1) (origin_row.truncate (ref_row_of sample_hash desk_reference))
      desk_expectation sample_bounds_of (Referred sample_digest) desk_request desk_observed = (Inr (), desk_done)"
    by (simp add: settle_truth_def x sbind_run body_defs tbl_simps v read_state_def st find_row_None [THEN iffD2] has_row_def)
  moreover have "x_actions desk_observed = [economic_row sample_action (Some sample_digest)]" "x_core desk_observed = sample_reserved_db"
    by (simp_all add: desk_observed_def)
  ultimately have "reconcile_body sample_hash sample_action desk_session (desk_finality 1) None desk_request desk_observed =
      (Inr (desk_truth 1), desk_done)"
    by (simp add: reconcile_body_def sbind_run body_defs tbl_simps require_economic_intent_def persisted_bounds_def desk_bounds
        sread_def og desk_truth_for)
  then show ?thesis
    using may [of False] st [of RESERVED "[]" "[]" "[]", folded x]
    by (simp add: reconcile_external_action_def q exec_txn_def)
qed


subsection \<open>The run\<close>

lemma desk_run: "runs_to sample_hash rdec renc ecrec \<lparr>w_db = desk_done, w_wire = []\<rparr>"
proof -
  let ?runs = "\<lambda>x. runs_to sample_hash rdec renc ecrec \<lparr>w_db = x, w_wire = []\<rparr>"
  have "?runs (apply_execution_schema sample_reserved_db)"
    using runs_to.fresh [OF sample_reserved_reachable] by (simp add: fresh_world_def)
  from runs_to.further [OF this runtime_step.session [where s = desk_session and g = desk_grant and now = 1000]]
  have "?runs desk_open" by (simp add: after_op_def desk_opens)
  from runs_to.further [OF this runtime_step.native_buy [where live_v = "Inr desk_envelope" and i = sample_intent and
    s = desk_session and g = desk_grant and now = 1000]]
  have "?runs desk_bought" by (simp add: after_op_def desk_buys)
  from runs_to.further [OF this runtime_step.reference [where xr = desk_reference and s = desk_session and
    g = desk_grant and now = 1000]]
  have "?runs desk_referred" by (simp add: after_op_def desk_refers)
  from runs_to.further [OF this runtime_step.observation [of sample_hash rdec renc ecrec _ desk_reading sample_action desk_session
    "Live desk_grant" 1000 None "Some sample_digest" "desk_finality 2"]]
  have "?runs desk_observed" by (simp add: after_op_def desk_observes)
  from runs_to.further [OF this runtime_step.reconciliation [of sample_hash rdec renc ecrec _ sample_action desk_session
    "Live desk_grant" "desk_finality 1" None desk_request]]
  show ?thesis by (simp add: after_op_def desk_reconciles)
qed

theorem runtime_keeps_accounts_witness:
  "integrity_check (view desk_done) = Inr () \<and> fill_receipts (x_core desk_done) = [desk_fill] \<and>
   held_atomic (Some sample_digest) None None (view desk_done) \<le> 150000000"
  using runtime_keeps_accounts [OF desk_run]
  by (simp add: desk_done_def) (simp add: sample_policy_row_def)

theorem reconciled_receipt_is_final_witness:
  "\<exists>obs ex F rc. final_evidence sample_hash ex obs (desk_finality 1) RS_SUCCESS F \<and> settled_by ex sample_bounds_of F rc \<and>
     fr_ref desk_fill = se_hash ex \<and> fr_output desk_fill = output_atomic_filled rc"
proof -
  have one: "{v. \<exists>r \<in> set (x_observations desk_observed). observation_from_row r = Inr v} = {desk_reading}"
    by (auto simp: desk_observed_def desk_restored)
  have fin: "make_finality (desk_finality 1) = Inr (desk_finality 1)"
    by (simp add: make_finality_def checked_eq_Inr check_eq_Inr desk_finality_def)
  have added: "fill_receipts (x_core desk_done) = [desk_fill]" "fill_receipts (x_core desk_observed) = []"
    "fill_receipts sample_reserved_db = []"
    by (simp_all add: desk_done_def desk_observed_def sample_reserved_state)
  have desk_core_observed: "x_core desk_observed = sample_reserved_db" by (simp add: desk_observed_def)
  show ?thesis
    using reconciled_receipt_is_final [of sample_hash desk_observed "desk_finality 1" sample_action desk_session
        "Live desk_grant" None desk_request] fin
    by (auto simp: one desk_reconciles added desk_core_observed tbl_simps desk_bounds) metis
qed

definition desk_killed :: exec_db where
  "desk_killed = desk_done\<lparr>x_controls :=
     [\<lparr>wk_seq = 1, wk_session = None, wk_engaged = 1, wk_at = 1000, wk_reason = ''stop''\<rparr>]\<rparr>"

lemma desk_kills: "engage_kill_switch 1000 ''stop'' None desk_done = (Inr True, desk_killed)"
proof -
  have "Contract.strip ''stop'' = ''stop''" by code_simp
  moreover have "x_controls desk_done = []" by (simp add: desk_done_def desk_at_def desk_observed_def)
  ultimately show ?thesis
    by (simp add: engage_kill_switch_def kill_engaged_def next_control_seq_def insert_control_def exec_run has_row_def
        desk_killed_def)
qed

theorem kill_switch_freezes_witness:
  "kill_engaged desk_killed \<and>
   effects (snd (create_execution_session sample_hash (desk_session\<lparr>es_session_ordinal := 1\<rparr>) desk_grant 1000 desk_killed)) =
     effects desk_killed \<and> x_sessions desk_killed = [desk_row] \<and>
   (\<exists>e. reserve_action sample_hash sample_action desk_session desk_grant 1000 desk_killed = (Inl e, desk_killed))"
proof -
  have k: "kill_engaged desk_killed" by (simp add: desk_killed_def kill_engaged_def)
  let ?w = "\<lparr>w_db = desk_killed, w_wire = []\<rparr>"
  have "(runtime_step sample_hash (\<lambda>_. None) (\<lambda>_. []) (\<lambda>_ _ _ _. None))\<^sup>*\<^sup>* ?w
      (after_op (create_execution_session sample_hash (desk_session\<lparr>es_session_ordinal := 1\<rparr>) desk_grant 1000) ?w)"
    by (intro r_into_rtranclp runtime_step.session)
  from kill_switch_freezes [OF this] k
  have "effects (snd (create_execution_session sample_hash (desk_session\<lparr>es_session_ordinal := 1\<rparr>) desk_grant 1000 desk_killed)) =
     effects desk_killed" by simp
  moreover from kill_switch_freezes [OF rtranclp.rtrancl_refl [of "runtime_step sample_hash (\<lambda>_. None) (\<lambda>_. []) (\<lambda>_ _ _ _. None)" ?w]] k
  have "\<exists>e. reserve_action sample_hash sample_action desk_session desk_grant 1000 desk_killed = (Inl e, desk_killed)" by simp
  moreover have "x_sessions desk_killed = [desk_row]"
    by (simp add: desk_killed_def desk_done_def desk_at_def desk_observed_def)
  ultimately show ?thesis using k by simp
qed

end
