(* ===== verification/Drill.thy ===== *)
theory Drill
  imports Rehearsal
begin

text \<open>
  Drills on hand-made databases: bytes that are held are sent, an approval is sent, quarantined
  bytes are resumed. An admission cannot be run here: it needs a public key whose Keccak hash is
  the governed taker, and the model computes that hash.
\<close>

subsection \<open>Held bytes\<close>

definition desk_scope :: ExactSignedBytesScopeV0 where
  "desk_scope = \<lparr>sc_session_id = sample_digest, sc_session_identity_digest = sample_digest,
     sc_economic_action_id = sample_action, sc_authority_policy_digest = sample_digest, sc_chain_id = 57073,
     sc_taker_address = INK_V0F_TAKER_ADDRESS, sc_target_address = INK_V0F_ROUTER_ADDRESS,
     sc_min_value_atomic = 100000000, sc_max_value_atomic = 100000000, sc_calldata_sha256 = sample_digest,
     sc_calldata_length = 4, sc_account_nonce = Some 3, sc_gas_limit_ceiling = Some 9,
     sc_max_fee_per_gas_ceiling = Some 2, sc_max_priority_fee_per_gas_ceiling = Some 1\<rparr>"

definition desk_admission :: ExactSignedBytesAdmissionV0 where
  "desk_admission = \<lparr>ad_signed_bytes = [1, 2],
     ad_record = \<lparr>xt_economic_action_id = sample_action, xt_scope_digest = sample_digest, xt_signed_bytes_sha256 = sample_digest,
       xt_signed_bytes_length = 2, xt_transaction_hash = sample_tx, xt_chain_id = 57073, xt_account_nonce = 3,
       xt_taker_address = INK_V0F_TAKER_ADDRESS, xt_signer_identity = ''evm-recovered:'' @ INK_V0F_TAKER_ADDRESS\<rparr>,
     ad_validated = \<lparr>vs_scope = desk_scope, vs_parsed = sample_parsed_transaction, vs_signed_bytes_sha256 = sample_digest,
       vs_signed_bytes_length = 2\<rparr>\<rparr>"

definition desk_signed :: signed_row where
  "desk_signed = exact_signed_row sample_hash (ad_record desk_admission) sample_action sample_digest sample_digest 1000"

definition desk_held :: "intent_state \<Rightarrow> event_row list \<Rightarrow> reservation_row \<Rightarrow> exec_db" where
  "desk_held st evs b = desk_bought\<lparr>x_core := sample_state st evs [b] [], x_signed := [desk_signed]\<rparr>"

lemma desk_signed_fields [simp]:
  "or_id desk_signed = sample_digest" "or_action desk_signed = sample_action" "or_hash desk_signed = sample_tx"
  "or_chain desk_signed = 57073" "or_taker desk_signed = INK_V0F_TAKER_ADDRESS" "wg_session desk_signed = sample_digest"
  "wg_envelope desk_signed = Some sample_digest" "wg_approval desk_signed = None" "wg_origin desk_signed = EXTERNAL_SIGNED_BYTES"
  "wg_nonce desk_signed = 3" "wg_sha256 desk_signed = sample_digest" "wg_scope_digest desk_signed = sample_digest"
  by (simp_all add: desk_signed_def exact_signed_row_def exact_signed_transaction_id_def) (simp_all add: desk_admission_def)

lemma desk_held_simps [simp]:
  "x_core (desk_held st evs b) = sample_state st evs [b] []" "x_sessions (desk_held st evs b) = [desk_row]"
  "x_actions (desk_held st evs b) = [economic_row sample_action (Some sample_digest)]"
  "x_envelopes (desk_held st evs b) = [envelope_row_of sample_hash desk_envelope AUTHORIZED]"
  "x_approvals (desk_held st evs b) = []" "x_attempts (desk_held st evs b) = []" "x_refs (desk_held st evs b) = []"
  "x_signed (desk_held st evs b) = [desk_signed]" "x_reconciliations (desk_held st evs b) = []"
  "\<not> kill_engaged (desk_held st evs b)"
  by (simp_all add: desk_held_def desk_dbs kill_engaged_def)

lemma desk_no_rows [simp]: "x_roots desk_bought = []" "x_controls desk_bought = []" "x_prepares desk_bought = []"
  "x_observations desk_bought = []"
  by (simp_all add: desk_dbs)

lemma desk_envelope_fields:
  "we_id (envelope_row_of sample_hash desk_envelope AUTHORIZED) = sample_digest"
  "we_lifecycle (envelope_row_of sample_hash desk_envelope AUTHORIZED) = AUTHORIZED"
  "we_value (envelope_row_of sample_hash desk_envelope AUTHORIZED) = desk_envelope"
  "envelope_action (envelope_row_of sample_hash desk_envelope AUTHORIZED) = sample_action"
  "envelope_nonce (envelope_row_of sample_hash desk_envelope AUTHORIZED) = (INK_V0F_TAKER_ADDRESS, 57073, 3)"
  by (simp_all add: envelope_row_of_def envelope_id_def envelope_action_def envelope_nonce_def) (simp_all add: desk_envelope_def)

lemma desk_columns: "es_policy_id (session_columns desk_session) = sample_digest"
  by (simp add: session_columns_def)

lemmas tables_defs = tables_ok_def keys_defs single_origin_def resolve_in_def refers_defs has_row_def

lemma desk_tables_held: "tables_ok (desk_held st evs b)"
proof -
  have "x_roots (desk_held st evs b) = []" "x_controls (desk_held st evs b) = []" "x_prepares (desk_held st evs b) = []"
    "x_observations (desk_held st evs b) = []"
    by (simp_all add: desk_held_def)
  then show ?thesis
    by (simp add: tables_defs desk_envelope_fields desk_columns) (simp add: desk_envelope_def sample_base_id_def sample_quote_id_def)
qed

lemma desk_addresses: "scope_address INK_V0F_TAKER_ADDRESS = Inr ()" "scope_address INK_V0F_ROUTER_ADDRESS = Inr ()"
  by code_simp+

lemma desk_digest_text [simp]: "DIGEST_RE sample_digest" "DIGEST_RE sample_action"
  by (simp_all add: DIGEST_RE_def sample_digest_def sample_action_def is_lower_hex_def is_digit_def list_all_iff)

lemma desk_digest_hex [simp]: "hex_text [] 64 sample_digest"
  by (simp add: sample_digest_def is_lower_hex_def is_digit_def)

lemma desk_digest_some [simp]: "sample_digest \<noteq> []" by (simp add: sample_digest_def)

lemma desk_scope_made: "make_scope desk_scope = Inr desk_scope"
  unfolding make_scope_def Let_def
  by (simp add: checked_eq_Inr check_eq_Inr desk_scope_def desk_addresses MAX_UINT256_def require_def
      opt_check_def non_negative_int_def)

lemma desk_scope_read:
  "exact_scope_from_authorized_envelope (envelope_row_of sample_hash desk_envelope AUTHORIZED) = Inr desk_scope"
  using desk_scope_made
  by (simp add: exact_scope_from_authorized_envelope_def envelope_row_of_def Let_def desk_envelope_def) (simp add: desk_scope_def)


lemma desk_provider [simp]: "Contract.strip ''node-a'' = ''node-a''" by code_simp

lemma desk_gate:
  "submission_gate sample_hash desk_admission desk_session desk_grant ''node-a'' 1000 False
     (desk_held SIGNED [] sample_reservation) = Inr ()"
proof -
  have may: "authorize sample_hash desk_session (Live desk_grant) SUBMIT_EXACT_BYTES 1000 False
      (desk_held SIGNED [] sample_reservation) = Inr HUMAN_SIGNED_EXECUTION"
    by (rule desk_may) simp_all
  have ad: "ad_signed_bytes desk_admission = [1, 2]" "vs_scope (ad_validated desk_admission) = desk_scope"
    "xt_signed_bytes_sha256 (ad_record desk_admission) = sample_digest" "xt_scope_digest (ad_record desk_admission) = sample_digest"
    "xt_transaction_hash (ad_record desk_admission) = sample_tx"
    "exact_signed_transaction_id sample_hash r = sample_digest" "scope_digest sample_hash sc = sample_digest" for r sc
    by (simp_all add: desk_admission_def exact_signed_transaction_id_def scope_digest_def)
  have sc: "sc_session_id desk_scope = sample_digest" "sc_economic_action_id desk_scope = sample_action"
    by (simp_all add: desk_scope_def)
  have env: "authorized_envelope_for_exact_scope sample_hash desk_scope (desk_held SIGNED [] sample_reservation) =
      Inr (envelope_row_of sample_hash desk_envelope AUTHORIZED)"
    using desk_scope_read
    by (simp add: authorized_envelope_for_exact_scope_def sc ad)
      (simp add: envelope_action_def envelope_row_of_def desk_envelope_def)
  have "assert_exact_bytes_submittable sample_hash desk_admission (desk_held SIGNED [] sample_reservation) = Inr ()"
    by (simp add: assert_exact_bytes_submittable_def Let_def ad sc env tbl_simps require_def has_row_def)
      (simp add: envelope_row_of_def envelope_id_def)
  then show ?thesis
    by (simp add: submission_gate_def Let_def may ad sc tbl_simps require_def attempts_of_def)
qed

theorem sent_bytes_in_custody_witness:
  "let w = snd (submit_exact_bytes sample_hash (\<lambda>_. Interrupted) desk_admission desk_session desk_grant ''node-a'' 1000 False
       \<lparr>w_db = desk_held SIGNED [] sample_reservation, w_wire = []\<rparr>) in
   w_wire w = [[1, 2]] \<and> (\<exists>r \<in> set (x_signed (w_db w)). wg_sha256 r = sample_hash (byte_text [1, 2]) \<and>
     has_row wx_id (or_action r) (x_actions (w_db w)))"
proof -
  let ?w = "\<lparr>w_db = desk_held SIGNED [] sample_reservation, w_wire = []\<rparr>"
  let ?v = "snd (submit_exact_bytes sample_hash (\<lambda>_. Interrupted) desk_admission desk_session desk_grant ''node-a'' 1000 False ?w)"
  have wire: "w_wire ?v = [[1, 2]]"
    by (simp add: submit_exact_bytes_def Let_def desk_gate send_def) (simp add: desk_admission_def)
  have "(runtime_step sample_hash (\<lambda>_. None) (\<lambda>_. []) (\<lambda>_ _ _ _. None))\<^sup>*\<^sup>* ?w ?v"
    by (intro r_into_rtranclp runtime_step.submission)
  from sent_bytes_in_custody [OF _ _ _ this, of "[1, 2]"] wire show ?thesis
    unfolding Let_def by (auto simp: desk_tables_held simp del: desk_digests(2))
qed

subsection \<open>Quarantined bytes\<close>

definition desk_quarantined :: exec_db where
  "desk_quarantined = desk_held SAFE_HALT [sample_move 7 RESERVED SAFE_HALT] (set_settled (QUARANTINED, Some 7) sample_reservation)"

definition desk_absence :: "string \<Rightarrow> ChainObservationV0" where
  "desk_absence p = \<lparr>ob_provider_id = p, ob_transaction_hash = sample_tx, ob_observed_at_epoch_s = 998,
     ob_presence = P_ABSENT, ob_raw_evidence_sha256 = sample_digest, ob_block_number = None, ob_block_hash = None,
     ob_block_parent_hash = None, ob_head_block_number = None, ob_head_block_hash = None, ob_receipt_status = None,
     ob_effective_input_atomic = None, ob_effective_output_atomic = None, ob_schema = []\<rparr>"

definition desk_resume :: resume_request where
  "desk_resume = \<lparr>rq_action = sample_action, rq_sha256 = sample_digest, rq_hash = sample_tx, rq_chain = 57073,
     rq_taker = INK_V0F_TAKER_ADDRESS, rq_nonce = 3, rq_absence = [desk_absence ''node-a'', desk_absence ''node-b''],
     rq_max_age = 60, rq_now = 1000\<rparr>"

lemma desk_quarantined_inv: "ledger_inv (x_core desk_quarantined)"
proof -
  have "op_body sample_hash (Transition sample_action SAFE_HALT 1000 []) sample_reserved_db = (Inr (), x_core desk_quarantined)"
    using sample_transition [of RESERVED SAFE_HALT "[]" "[set_settled (QUARANTINED, Some 7) sample_reservation]" "[]" 7]
    by (simp add: sample_reserved_state desk_quarantined_def is_legal_transition_def sample_next transition_effect_def
        RELEASING_STATES_def settle_reservation_run sample_settled)
  from reachable_body [OF sample_reserved_reachable _ this] show ?thesis by (intro reachable_inv) simp
qed


lemma desk_resumes:
  "\<exists>v x'. resume_quarantined_exact_signed_bytes sample_hash desk_resume desk_session desk_grant desk_quarantined = (Inr v, x') \<and>
     \<not> rz_already_resumed v"
proof -
  have q: "rq_action desk_resume = sample_action" "rq_sha256 desk_resume = sample_digest" "rq_hash desk_resume = sample_tx"
    "rq_chain desk_resume = 57073" "rq_taker desk_resume = INK_V0F_TAKER_ADDRESS" "rq_nonce desk_resume = 3"
    "rq_absence desk_resume = [desk_absence ''node-a'', desk_absence ''node-b'']" "rq_max_age desk_resume = 60"
    "rq_now desk_resume = 1000" by (simp_all add: desk_resume_def)
  have may: "authorize sample_hash desk_session (Live desk_grant) SUBMIT_EXACT_BYTES 1000 False desk_quarantined =
      Inr HUMAN_SIGNED_EXECUTION"
    by (rule desk_may) (simp_all add: desk_quarantined_def)
  have "is_sha256_hex sample_digest" "is_tx_hash sample_tx"
    by (simp_all add: is_sha256_hex_def is_tx_hash_def sample_digest_def sample_tx_def is_lower_hex_def is_digit_def list_all_iff)
  then have args: "resume_arguments desk_resume = Inr ()"
    by (simp add: resume_arguments_def q require_def) (simp add: sample_action_def)
  have fresh: "fresh_absence desk_resume = Inr ()"
    by (simp add: fresh_absence_def q require_def desk_absence_def Let_def)
  have checks: "resume_checks sample_hash desk_resume desk_session (sample_intent_row SAFE_HALT) desk_quarantined = Inr desk_signed"
    by (simp add: resume_checks_def Let_def q fresh tbl_simps require_def desk_quarantined_def attempts_of_def has_row_def
        desk_scope_read desk_chain scope_digest_def)
      (simp add: envelope_row_of_def envelope_id_def desk_scope_def)
  have row: "find_row nr_id sample_action (intents (x_core desk_quarantined)) = Some (sample_intent_row SAFE_HALT)"
    by (simp add: desk_quarantined_def tbl_simps)
  let ?b = "set_settled (QUARANTINED, Some 7) sample_reservation" and ?evs = "[sample_move 7 RESERVED SAFE_HALT]"
  have b: "br_id ?b = sample_action" "br_status ?b = QUARANTINED" by (simp_all add: set_settled_def)
  have "append_event EXACT_BYTES_RESUMED sample_digest (sample_digest @ '':0'') (Some sample_action) (Some (Intent SAFE_HALT))
      (Some (Intent SIGNED)) 1000 pl (sample_state SAFE_HALT ?evs [?b] []) =
      (Inr 8, sample_state SAFE_HALT (?evs @ [sample_event 8 EXACT_BYTES_RESUMED (Some sample_action) (Some (Intent SAFE_HALT))
        (Some (Intent SIGNED)) pl]) [?b] [])" for pl
    by (rule sample_insert_event) (simp_all add: sample_next CYCLE_EVENT_TYPES_def)
  then have "\<exists>d. resume_write sample_action (sample_intent_row SAFE_HALT) 1000 facts
      (sample_state SAFE_HALT ?evs [?b] []\<lparr>exec_surface := e\<rparr>) = (Inr (), d)" for facts e
    by (simp add: resume_write_def sbind_run body_defs append_event_seen update_intent_seen sample_state_update unquarantine_def
        tbl_simps b)
  then have "\<exists>d. resume_write sample_action (sample_intent_row SAFE_HALT) 1000 facts (view desk_quarantined) = (Inr (), d)" for facts
    by (simp add: view_def desk_quarantined_def)
  then obtain d where "resume_write sample_action (sample_intent_row SAFE_HALT) 1000
      (resume_payload sample_hash desk_resume desk_session desk_grant sample_digest 100000000) (view desk_quarantined) = (Inr (), d)"
    by blast
  moreover have "x_sessions desk_quarantined = [desk_row]" by (simp add: desk_quarantined_def)
  ultimately have "\<exists>v x'. resume_body sample_hash desk_resume desk_session desk_grant desk_quarantined = (Inr v, x') \<and>
      \<not> rz_already_resumed v"
    by (simp add: resume_body_def Let_def sbind_run body_defs require_session_def require_economic_intent_def row checks
        q in_store_def tbl_simps)
  then show ?thesis
    by (auto simp: resume_quarantined_exact_signed_bytes_def q may args exec_txn_def)
qed

theorem resume_restores_episode_witness:
  "\<exists>v x' e. resume_quarantined_exact_signed_bytes sample_hash desk_resume desk_session desk_grant desk_quarantined = (Inr v, x') \<and>
     x_core x' = push_event e (moved sample_action SIGNED (ACTIVE, None) ((x_core desk_quarantined)\<lparr>exec_surface := None\<rparr>)) \<and>
     resume_event sample_action e \<and> missed_by_two desk_resume"
proof -
  obtain v x' where run: "resume_quarantined_exact_signed_bytes sample_hash desk_resume desk_session desk_grant desk_quarantined =
      (Inr v, x')" "\<not> rz_already_resumed v" using desk_resumes by blast
  have "rq_action desk_resume = sample_action" by (simp add: desk_resume_def)
  with resume_restores_episode [OF desk_quarantined_inv, where H = sample_hash and q = desk_resume and s = desk_session and
    g = desk_grant] run
  obtain e where "x_core x' = push_event e (moved sample_action SIGNED (ACTIVE, None) ((x_core desk_quarantined)\<lparr>exec_surface := None\<rparr>))"
    "resume_event sample_action e" "missed_by_two desk_resume"
    by (simp del: simp_thms) blast
  with run(1) show ?thesis by blast
qed


subsection \<open>A signed approval\<close>

definition desk_approval :: ApprovalActionV0 where
  "desk_approval = \<lparr>aa_session_id = sample_digest, aa_session_identity_digest = sample_digest,
     aa_taker_address = INK_V0F_TAKER_ADDRESS, aa_token_address = WETH9_ADDRESS, aa_spender_address = INK_V0F_ROUTER_ADDRESS,
     aa_requested_allowance_atomic = 5, aa_observed_prior_allowance_atomic = 0, aa_authority_policy_digest = sample_digest,
     aa_deadline_epoch_s = 1030, aa_economic_action_id = Some sample_action, aa_schema = []\<rparr>"

definition desk_signing :: InkV0FApprovalSigningRequestV0 where
  "desk_signing = \<lparr>sq_kind = EXACT_APPROVAL, sq_approval_action_id = sample_digest, sq_economic_action_id = sample_action,
     sq_token_address = WETH9_ADDRESS, sq_spender_address = INK_V0F_ROUTER_ADDRESS, sq_allowance_atomic = 5,
     sq_scope = desk_scope, sq_constructed_at_epoch_s = 990, sq_schema = APPROVAL_SIGNING_REQUEST_SCHEMA\<rparr>"

definition desk_signed_approval :: InkV0FSignedApprovalV0 where
  "desk_signed_approval = \<lparr>sv_request = desk_signing, sv_validated =
     \<lparr>vs_scope = desk_scope, vs_parsed = sample_parsed_transaction\<lparr>ps_transaction_hash := ''0x'' @ keccak256_hex [1, 2, 3],
        ps_sender_address := INK_V0F_TAKER_ADDRESS\<rparr>,
      vs_signed_bytes_sha256 = sample_digest, vs_signed_bytes_length = 3\<rparr>\<rparr>"

definition desk_approved :: exec_db where
  "desk_approved = desk_bought\<lparr>x_approvals := [approval_row_of sample_hash desk_approval AUTHORIZED 990],
     x_actions := [economic_row sample_action (Some sample_digest), approval_action_row sample_digest (Some sample_digest)],
     x_signed := [approval_signed_row sample_hash desk_signed_approval sample_digest 995]\<rparr>"

definition desk_guard :: SubmissionAttemptV0 where
  "desk_guard = \<lparr>sb_signed_transaction_id = sample_digest, sb_provider_id = ''node-a'', sb_attempt_ordinal = 0,
     sb_submitted_at_epoch_s = 1000, sb_acknowledgment = ACK_UNKNOWN, sb_provider_reported_hash = None,
     sb_error_class = Some ''PreTransportGuard'', sb_schema = CONTRACT_SCHEMA @ ''.submission_attempt''\<rparr>"

lemma desk_approved_simps [simp]:
  "x_core desk_approved = sample_reserved_db" "x_sessions desk_approved = [desk_row]" "x_refs desk_approved = []"
  "x_approvals desk_approved = [approval_row_of sample_hash desk_approval AUTHORIZED 990]"
  "x_actions desk_approved = [economic_row sample_action (Some sample_digest), approval_action_row sample_digest (Some sample_digest)]"
  "x_signed desk_approved = [approval_signed_row sample_hash desk_signed_approval sample_digest 995]"
  "x_attempts desk_approved = []" "x_envelopes desk_approved = [envelope_row_of sample_hash desk_envelope AUTHORIZED]"
  "x_reconciliations desk_approved = []" "\<not> kill_engaged desk_approved"
  by (simp_all add: desk_approved_def kill_engaged_def) (simp_all add: desk_dbs)

lemma desk_approval_row [simp]:
  "or_id (approval_signed_row sample_hash desk_signed_approval sid n) = sample_digest"
  "or_action (approval_signed_row sample_hash desk_signed_approval sid n) = sample_digest"
  "wg_session (approval_signed_row sample_hash desk_signed_approval sid n) = sid"
  "wg_sha256 (approval_signed_row sample_hash desk_signed_approval sid n) = sample_digest"
  "wg_origin (approval_signed_row sample_hash desk_signed_approval sid n) = FROM_APPROVAL"
  "wg_frozen_at (approval_signed_row sample_hash desk_signed_approval sid n) = n"
  "wx_id (approval_action_row a sopt) = a"
  by (simp_all add: approval_signed_row_def signed_approval_id_def Let_def approval_action_row_def)
    (simp_all add: desk_signed_approval_def desk_signing_def)

lemma desk_ids_differ [simp]: "sample_digest \<noteq> sample_action" "sample_action \<noteq> sample_digest"
  by (simp_all add: sample_digest_def sample_action_def)

lemma desk_approval_fields:
  "wa_id (approval_row_of sample_hash desk_approval AUTHORIZED 990) = sample_digest"
  "wa_lifecycle (approval_row_of sample_hash desk_approval AUTHORIZED 990) = AUTHORIZED"
  "aa_session_id (wa_value (approval_row_of sample_hash desk_approval AUTHORIZED 990)) = sample_digest"
  "aa_session_identity_digest (wa_value (approval_row_of sample_hash desk_approval AUTHORIZED 990)) = sample_digest"
  "aa_economic_action_id (wa_value (approval_row_of sample_hash desk_approval AUTHORIZED 990)) = Some sample_action"
  "aa_requested_allowance_atomic (wa_value (approval_row_of sample_hash desk_approval AUTHORIZED 990)) = 5"
  "aa_deadline_epoch_s (wa_value (approval_row_of sample_hash desk_approval AUTHORIZED 990)) = 1030"
  "aa_taker_address (wa_value (approval_row_of sample_hash desk_approval AUTHORIZED 990)) = INK_V0F_TAKER_ADDRESS"
  by (simp_all add: approval_row_of_def approval_action_id_def) (simp_all add: desk_approval_def)

lemma desk_approval_columns:
  "wx_kind (approval_action_row a sopt) = APPROVAL" "wx_economic (approval_action_row a sopt) = None"
  "wx_approval (approval_action_row a sopt) = Some a" "wx_session (approval_action_row a sopt) = sopt"
  "wg_envelope (approval_signed_row sample_hash desk_signed_approval sid n) = None"
  "wg_approval (approval_signed_row sample_hash desk_signed_approval sid n) = Some sample_digest"
  "or_taker (approval_signed_row sample_hash desk_signed_approval sid n) = INK_V0F_TAKER_ADDRESS"
  by (simp_all add: approval_action_row_def approval_signed_row_def Let_def)
    (simp_all add: desk_signed_approval_def desk_signing_def desk_scope_def)

lemma desk_approved_tables: "tables_ok desk_approved"
proof -
  have "x_roots desk_approved = []" "x_controls desk_approved = []" "x_prepares desk_approved = []" "x_observations desk_approved = []"
    by (simp_all add: desk_approved_def)
  then show ?thesis
    by (simp add: tables_defs desk_envelope_fields desk_columns desk_approval_fields desk_approval_columns sample_reserved_state)
      (simp add: desk_envelope_def sample_base_id_def sample_quote_id_def)
qed

lemma desk_approval_gate:
  "approval_gate sample_hash desk_signed_approval [1, 2, 3] desk_session desk_grant ''node-a'' 1000 desk_approved = Inr desk_guard"
proof -
  have may: "authorize sample_hash desk_session (Live desk_grant) c 1000 False desk_approved = Inr HUMAN_SIGNED_EXECUTION"
    if "c \<noteq> PRODUCE_SIGNATURE" for c by (rule desk_may) (use that in simp_all)
  have sv: "sv_request desk_signed_approval = desk_signing" "sq_kind desk_signing = EXACT_APPROVAL" "sq_scope desk_signing = desk_scope"
    "vs_signed_bytes_sha256 (sv_validated desk_signed_approval) = sample_digest"
    "vs_signed_bytes_length (sv_validated desk_signed_approval) = 3"
    "ps_transaction_hash (vs_parsed (sv_validated desk_signed_approval)) = ''0x'' @ keccak256_hex [1, 2, 3]"
    "sc_session_id desk_scope = sample_digest" "sc_session_identity_digest desk_scope = sample_digest"
    "sc_authority_policy_digest desk_scope = sample_digest" "signed_approval_id sample_hash desk_signed_approval = sample_digest"
    by (simp_all add: desk_signed_approval_def desk_signing_def desk_scope_def signed_approval_id_def)
  have same: "approval_signed_row sample_hash desk_signed_approval sample_digest 995 =
      approval_signed_row sample_hash desk_signed_approval sample_digest 995
        \<lparr>wg_signer := ''evm-recovered:'' @ ps_sender_address (vs_parsed (sv_validated desk_signed_approval))\<rparr>"
    by (simp add: approval_signed_row_def Let_def)
  have lab: "label_check EnvelopeValidationError ''PreTransportGuard'' = Inr ()" by code_simp
  have "make_submission_attempt desk_guard = Inr desk_guard"
    unfolding make_submission_attempt_def Let_def
    by (simp add: checked_eq_Inr check_eq_Inr desk_guard_def sample_portable lab opt_check_def)
  then have "attempt_value sample_digest ''node-a'' 0 1000 ACK_UNKNOWN None (Some ''PreTransportGuard'') = Inr desk_guard"
    by (simp add: attempt_value_def desk_guard_def)
  then show ?thesis
    using same by (simp add: approval_gate_def Let_def may sv require_def derive_transaction_hash_def tbl_simps)
qed


definition desk_sent :: exec_db where
  "desk_sent = desk_approved\<lparr>x_attempts := [attempt_row_of sample_hash desk_guard]\<rparr>"

lemma desk_approval_sent:
  "snd (submit_signed_approval sample_hash (\<lambda>_. Interrupted) desk_signed_approval [1, 2, 3] desk_session desk_grant ''node-a'' 1000
     \<lparr>w_db = desk_approved, w_wire = []\<rparr>) = \<lparr>w_db = desk_sent, w_wire = [[1, 2, 3]]\<rparr>"
proof -
  have sv: "sq_approval_action_id desk_signing = sample_digest" "sq_economic_action_id desk_signing = sample_action"
    "sq_allowance_atomic desk_signing = 5" "sv_request desk_signed_approval = desk_signing"
    "signed_approval_id sample_hash desk_signed_approval = sample_digest"
    by (simp_all add: desk_signing_def desk_signed_approval_def signed_approval_id_def)
  have "insert_attempt (attempt_row_of sample_hash desk_guard) desk_approved = Inr desk_sent"
    by (simp add: insert_attempt_def Let_def exec_run has_row_def desk_sent_def)
      (simp add: attempt_row_of_def attempt_columns_def desk_guard_def)
  then have "guard_approval_body sample_hash desk_signed_approval desk_guard desk_session 1000 desk_approved = (Inr (), desk_sent)"
    by (simp add: guard_approval_body_def Let_def sbind_run body_defs reject_if_killed_def sv desk_approval_fields tbl_simps
        require_economic_intent_def attempts_of_def insert_fresh has_row_def)
  then show ?thesis
    by (simp add: submit_signed_approval_def desk_approval_gate lift_db_def exec_txn_def send_def)
qed

lemma desk_approval_step:
  "(runtime_step sample_hash (\<lambda>_. None) (\<lambda>_. []) (\<lambda>_ _ _ _. None))\<^sup>*\<^sup>*
     \<lparr>w_db = desk_approved, w_wire = []\<rparr> \<lparr>w_db = desk_sent, w_wire = [[1, 2, 3]]\<rparr>"
  using runtime_step.approval_submission [of sample_hash "\<lambda>_. None" "\<lambda>_. []" "\<lambda>_ _ _ _. None" "\<lparr>w_db = desk_approved, w_wire = []\<rparr>"
    "\<lambda>_. Interrupted" desk_signed_approval "[1, 2, 3]" desk_session desk_grant "''node-a''" 1000]
  unfolding desk_approval_sent by (rule r_into_rtranclp)

theorem approval_sent_at_most_once_witness:
  "let w = snd (submit_signed_approval sample_hash (\<lambda>_. Interrupted) desk_signed_approval [1, 2, 3] desk_session desk_grant ''node-a'' 1000
       \<lparr>w_db = desk_approved, w_wire = []\<rparr>) in
   w_wire w = [[1, 2, 3]] \<and> length (attempts_of sample_digest (w_db w)) = 1"
  using approval_sent_at_most_once [OF _ _ _ desk_approval_step, of "approval_signed_row sample_hash desk_signed_approval sample_digest 995"]
  by (simp add: desk_approval_sent desk_approved_tables desk_sent_def)


end
