(* ===== verification/Spec2Isabelle.thy ===== *)
theory Spec2Isabelle
  imports PreliveEconomics States ReplayAudit Envelope ChainEvidence Venue Authority SignedBytes Drill
begin

text \<open>
  Verification library of QntySpot, a policy engine for spot trading and its ledger.

  \<^bold>\<open>The program.\<close> A policy document (\<open>qntyspot/policy.py\<close>) names two instruments, a budget, hard
  prices and two ladders of price levels. A rung of a ladder becomes an intent with
  absolute economic bounds (\<open>economics.py\<close>), and the ledger (\<open>ledger/store.py\<close> over the SQLite
  schema of \<open>ledger/schema.py\<close>) carries the intent through the state machine of \<open>states.py\<close>:
  it reserves capital before anything is signed, records fills, and lets capital go only on
  evidence. Every change appends an event; \<open>ledger/replay.py\<close> rebuilds the ledger from the
  policies and the events, and \<open>ledger/recovery.py\<close> brings a restarted ledger to a safe state.
  Decimals, atomic units and canonical JSON (\<open>canon.py\<close>, \<open>ledger/atomics.py\<close>), instrument
  identity (\<open>identity.py\<close>) and the frozen records (\<open>domain.py\<close>) are underneath all of it.

  Execution is the second half. A grant signed off line (\<open>authority_root.py\<close>) bounds what a session
  (\<open>execution_contract.py\<close>) may do; an envelope holds a transaction that is not yet signed, admitted
  against the policy, the venue's response and the decoded calldata; bytes signed elsewhere are
  admitted when they are exactly that transaction (\<open>exact_signed_bytes.py\<close>); readings of several
  providers make the chain truth, and only final truth makes a receipt. The execution runtime
  (\<open>ledger/execution.py\<close> over \<open>execution_schema.py\<close>) holds all of this in tables beside the ledger's,
  on the same connection, and moves the intents of the ledger accordingly.

  \<^bold>\<open>Theories and the code they model.\<close>
  \<^item> \<open>Prelude\<close>: fallible results as sums, transaction bodies as state functions that keep what
    they wrote when they raise, loops, the collections \<open>res_simps\<close> and \<open>tbl_simps\<close>.
  \<^item> \<open>Errors\<close>: \<open>errors.py\<close> and the exceptions of Python and SQLite the code lets through.
  \<^item> \<open>Text\<close>, \<open>Canon\<close>, \<open>Json\<close>, \<open>CanonText\<close>: \<open>canon.py\<close>. Decimal texts with \<open>$\<close> as \<open>re.match\<close> reads it,
    atomic units, the canonical JSON text, and the proof that the text determines the value.
  \<^item> \<open>Identity\<close>: \<open>identity.py\<close>; \<open>States\<close>: \<open>states.py\<close>; \<open>Domain\<close>: \<open>domain.py\<close>.
  \<^item> \<open>Economics\<close>: \<open>economics.py\<close>; \<open>PreliveEconomics\<close>: \<open>prelive_economics.py\<close>.
  \<^item> \<open>Policy\<close>: \<open>policy.py\<close>, one definition per section of the document, read key by key.
  \<^item> \<open>Atomics\<close>: \<open>ledger/atomics.py\<close>, the SQL functions over decimal texts.
  \<^item> \<open>Schema\<close>: \<open>ledger/schema.py\<close>. One record per table row, the database \<open>db\<close> as the lists of
    rows in insertion order, and every INSERT and UPDATE with the constraints and triggers
    of its table.
  \<^item> \<open>Store\<close>: \<open>ledger/store.py\<close>, one definition per method. \<open>X_body\<close> is the code inside the
    \<open>with self._write()\<close> block of the method \<open>X\<close>, which \<open>write_txn\<close> commits or rolls back.
    Of \<open>execution_contract.py\<close> it has the settlement expectation and binding the store checks.
  \<^item> \<open>Ledger\<close>: the operations as data (\<open>operation\<close>, \<open>run\<close>), the interfaces \<open>registration_invariant\<close>
    and \<open>statement_invariant\<close> of a property every statement keeps, and their instances: keys,
    sequence numbers, foreign keys, the append-only tables.
  \<^item> \<open>Budget\<close>: transitions, halts, receipts and recoveries in closed form, the invariant that
    couples a reservation to its intent's state, and the budget invariant.
  \<^item> \<open>Operations\<close>: the remaining operations in closed form, the invariant of opening events.
  \<^item> \<open>SampleRun\<close>, \<open>SampleFill\<close>: a concrete ledger, evaluated step by step, for the witnesses.
  \<^item> \<open>Reachable\<close>, \<open>Guarantees\<close>, \<open>Carry\<close>: the databases the ledger reaches and what holds in them.
  \<^item> \<open>Recovery\<close>: \<open>ledger/recovery.py\<close>.
  \<^item> \<open>Snapshot\<close>: the canonical object of a snapshot; \<open>Replay\<close>: \<open>ledger/replay.py\<close>; \<open>Mirror\<close>:
    replaying an event does to a replica what the operation did to the ledger; \<open>Catalog\<close>:
    replaying the policies rebuilds the tables of identities; \<open>Reproduce\<close>: replay equivalence;
    \<open>ReplayAudit\<close>: what any successful replay has checked.
  \<^item> \<open>Contract\<close>, \<open>Envelope\<close>, \<open>ChainTruth\<close>, \<open>Venue\<close>: \<open>execution_contract.py\<close>, its validators, authority
    ladder and sessions; its envelopes, approvals and attempts; chain truth and settlement; the
    venue response and the admissibility gates. \<open>ChainEvidence\<close>: what a verdict rests on.
  \<^item> \<open>Keccak\<close>: \<open>keccak.py\<close> against the step mappings of the standard; \<open>Abi\<close>, \<open>Calldata\<close>,
    \<open>CanonicalCalldata\<close>: the decoder of the venue's calldata and the encodings it admits.
  \<^item> \<open>Authority\<close>: \<open>authority_root.py\<close>; \<open>SignedBytes\<close>: \<open>exact_signed_bytes.py\<close>; \<open>InkApproval\<close>: the signing
    of approvals in \<open>ink_v0f_human_signing.py\<close>.
  \<^item> \<open>ExecSchema\<close>: \<open>ledger/execution_schema.py\<close>, the database \<open>exec_db\<close> around the \<open>db\<close> of the ledger;
    \<open>view\<close> is the database the store sees, \<open>in_store\<close> runs a body of the store inside a
    transaction of the runtime.
  \<^item> \<open>Runtime\<close>, \<open>Submission\<close>, \<open>Settlement\<close>: \<open>ledger/execution.py\<close>, one definition per method and one per
    part of the long ones. In \<open>Submission\<close> a \<open>world\<close> is the database with the byte strings
    that were handed to the transport.
  \<^item> \<open>Conduct\<close>: the step relation of the runtime (\<open>runtime_step\<close>, \<open>runs_to\<close>), with the interfaces
    \<open>evidence_invariant\<close>, \<open>database_invariant\<close> and \<open>runtime_invariant\<close> of what every method keeps;
    \<open>Accounted\<close>, \<open>Relational\<close>, \<open>Custody\<close>, \<open>Halt\<close> interpret them for the accounts, the keys and
    references of the tables, the wire, the kill switch. \<open>Outcomes\<close>: what a resumption and a reconciliation leave.
  \<^item> \<open>Rehearsal\<close>, \<open>Drill\<close>: a concrete run from the opening of a session to a settled fill, and concrete
    databases for a submission, a resumption and an approval, for the witnesses.

  \<^bold>\<open>What the lemmas show.\<close>
  \<^item> Numbers: canonical decimals and atomic units are exact and round-trip, the SQL functions
    compute integer arithmetic, the minimum output of a rung enforces its limit price whatever
    way fills are split, profit and exit sizes create no capital.
  \<^item> Documents: an admitted policy is well formed, its canonical form is admissible and has
    the same id; identity strings identify instruments; canonical text is injective.
  \<^item> State machine: after SIGNED nothing is withdrawn; runs are bounded and can be halted.
  \<^item> Ledger: a raised operation changes nothing; the log only grows; integrity holds in every
    reachable database; every cap holds at the moment of reservation; an economic action exists
    at most once; capital is released only before signing or on a bound revert; a receipt
    outside the committed bounds halts; a carry moves a whole inventory once.
  \<^item> Restart: recovery returns, ends every intent, releases nothing ambiguous, is idempotent.
  \<^item> Replay: the policies and the log reproduce the ledger; a replay that returns has audited
    the log: its order, its transitions, its recoveries and its resumptions.
  \<^item> Evidence: a verdict is final exactly on agreeing, deep, unretracted readings, in any order;
    an envelope that is admitted and filled keeps the policy; a capability rests on the signature
    of the trusted root and on the phase; validated bytes are the taker's and encode the scope;
    the calldata decoder admits canonical encodings only; Keccak is the standard's.
  \<^item> Runtime: no run breaks the accounts of the ledger; every key and reference of its tables holds;
    what is sent is in the database first, in one row, an approval at most once; the kill switch
    freezes the wire and the tables that lead to it, and the runtime's own reservations and
    resumptions; a resumption restores exactly one halted episode with no recorded attempt; a
    receipt follows from final evidence.

  \<^bold>\<open>How the state corresponds.\<close> A Python exception is \<open>Inl\<close> of its class; message texts are not
  modelled. A TEXT column holding an atomic amount is an integer (theory \<open>Atomics\<close> shows the
  text functions compute the same), a TEXT column holding canonical JSON is the value it
  decodes to, and an enum column the member of a datatype. \<open>sqlite_sequence\<close> is not a table:
  AUTOINCREMENT never reuses a number because events are never deleted, so the next number is
  the maximum plus one. An INTEGER beyond 64 bits raises \<open>OverflowError\<close>, as binding it does.
  A dict is the list of its members. A string has code points below 256. The transaction depth
  of \<open>_write\<close> is \<open>lg_depth\<close>; a nested body commits with its outermost transaction.

  \<^bold>\<open>Parameters.\<close> The digest, \<open>hashlib\<close>'s SHA-256, is the argument \<open>H\<close> of every definition that uses
  it. No property assumes it injective; replay equivalence assumes that it does not collide on
  the instruments admitted, and the finality of receipts that it does not on the readings
  stored, since a ledger compares stored digests only. The verification of Ed25519
  signatures, the decoder and encoder of the RLP package and the recovery of a public key
  are arguments as well. The transport is a function from the bytes it is given to a reply, the
  class of an exception or an interrupt; the previews of the Ink adapter are the argument
  \<open>live\<close>. In the theories of the store alone the execution tables are rows it reads
  (\<open>exec_tables\<close>); there a reachable database lets the runtime do anything to them at any
  time, so the guarantees of the ledger do not rest on that runtime. From \<open>Conduct\<close> on, the
  tables are those the runtime makes.

  \<^bold>\<open>Bounds and termination.\<close> All recursions are structural or have their measure: no fuel is
  used. The loops of the code run over finite lists.

  \<^bold>\<open>Not modelled.\<close> Files and connections (\<open>open_ledger\<close> with a path, WAL, pragmas, busy
  timeouts): the database is the value the connection serves, and one process holds it inside a
  transaction. Of the runtime: the hook that injects failures at the boundaries of a transaction, the
  migrations from older execution schemas, \<open>read_execution_state\<close> and its digest, the
  replay of the execution tables (\<open>execution_replay.py\<close>). The parser \<open>strict_json_loads\<close>: a stored or
  received document is the value it decodes to. The adapters (the market readings and previews of
  \<open>ink*.py\<close>, \<open>robinhood*.py\<close>, \<open>solana.py\<close>), accepted intents, the linter of authority
  continuity, file locks and redaction, and the operator scripts under \<open>ops\<close>: they are I/O,
  decoding of remote answers and consumers of external artifacts around the modelled core.
\<close>

end
